(* ===== verification/Py_Prelude.thy ===== *)
theory Py_Prelude
  imports Complex_Main "HOL-Library.List_Lexorder" "HOL-Library.Product_Lexorder"
begin

text \<open>
  What every component of the workbench shares: Python's exceptions as values, the sequencing of
  steps that may raise, Python's \<^verbatim>\<open>str\<close> as a list of code points with the methods the code
  calls on it, and association lists for dictionaries whose insertion order the code observes.

  A function of the source that may raise is a function into \<open>'a result\<close>: \<open>Inl e\<close> is the raised
  exception, \<open>Inr x\<close> the returned value.  Exceptions that carry a message are compared by
  message in one place of the code (\<^verbatim>\<open>PriceGuidancePlan.from_dict\<close>), so the message is kept;
  where the source builds it with an f-string the model keeps the template text.
\<close>

section \<open>Exceptions and sequencing\<close>

named_theorems result_simps \<open>inversion rules for steps that may raise\<close>

datatype pyerror =
    ValueError string
  | DataValidationError string
  | CalendarUnavailableError
  | UnsupportedSecurityRules
  | GuidanceValidationError string "string list"
  | TypeError string
  | KeyError
  | RuntimeError string
  | OSError
  | InvalidOperation
  | DivisionByZero
  | ProviderError string
  | PermissionError
  | FutureTimestampError string
  | FrozenContestError string
  | ImmutablePredictionError
  | ImmutableLedgerError
  | LedgerIntegrityError string

type_synonym 'a result = "pyerror + 'a"

text \<open>\<^verbatim>\<open>except ValueError\<close> also catches the subclasses of \<^verbatim>\<open>ValueError\<close>; the decimal module's
  signals derive from \<^verbatim>\<open>ArithmeticError\<close> and are not among them.\<close>

fun is_value_error :: "pyerror \<Rightarrow> bool" where
  "is_value_error (ValueError _) = True"
| "is_value_error (DataValidationError _) = True"
| "is_value_error CalendarUnavailableError = True"
| "is_value_error UnsupportedSecurityRules = True"
| "is_value_error (GuidanceValidationError _ _) = True"
| "is_value_error (FutureTimestampError _) = True"
| "is_value_error _ = False"

text \<open>\<^verbatim>\<open>except (KeyError, TypeError, ValueError)\<close>.\<close>

definition is_row_error :: "pyerror \<Rightarrow> bool" where
  "is_row_error e \<longleftrightarrow> is_value_error e \<or> e = KeyError \<or> (\<exists>m. e = TypeError m)"

lemma is_row_error_code [code]:
  "is_row_error e = (is_value_error e \<or> (case e of KeyError \<Rightarrow> True | TypeError _ \<Rightarrow> True | _ \<Rightarrow> False))"
  by (cases e) (auto simp: is_row_error_def)

text \<open>\<^verbatim>\<open>type(exc).__name__\<close>.\<close>

fun error_name :: "pyerror \<Rightarrow> string" where
  "error_name (ValueError _) = ''ValueError''"
| "error_name (DataValidationError _) = ''DataValidationError''"
| "error_name CalendarUnavailableError = ''CalendarUnavailableError''"
| "error_name UnsupportedSecurityRules = ''UnsupportedSecurityRules''"
| "error_name (GuidanceValidationError _ _) = ''PriceGuidanceValidationError''"
| "error_name (TypeError _) = ''TypeError''"
| "error_name KeyError = ''KeyError''"
| "error_name (RuntimeError _) = ''RuntimeError''"
| "error_name OSError = ''OSError''"
| "error_name InvalidOperation = ''InvalidOperation''"
| "error_name DivisionByZero = ''DivisionByZero''"
| "error_name (ProviderError _) = ''ProviderRequestError''"
| "error_name PermissionError = ''PermissionError''"
| "error_name (FutureTimestampError _) = ''FutureTimestampError''"
| "error_name (FrozenContestError _) = ''FrozenContestError''"
| "error_name ImmutablePredictionError = ''ImmutablePredictionError''"
| "error_name ImmutableLedgerError = ''ImmutableLedgerError''"
| "error_name (LedgerIntegrityError _) = ''LedgerIntegrityError''"

text \<open>\<^verbatim>\<open>except (OSError, ValueError)\<close>.\<close>

fun is_os_or_value_error :: "pyerror \<Rightarrow> bool" where
  "is_os_or_value_error OSError = True"
| "is_os_or_value_error PermissionError = True"
| "is_os_or_value_error e = is_value_error e"

definition bindR :: "'a result \<Rightarrow> ('a \<Rightarrow> 'b result) \<Rightarrow> 'b result" where [code_unfold]:
  "bindR m f = (case m of Inl e \<Rightarrow> Inl e | Inr x \<Rightarrow> f x)"

lemma bindR_simps [simp]: "bindR (Inl e) f = Inl e" "bindR (Inr x) f = f x"
  by (simp_all add: bindR_def)

lemma bindR_Inr_iff [result_simps]: "bindR m f = Inr y \<longleftrightarrow> (\<exists>x. m = Inr x \<and> f x = Inr y)"
  by (cases m) auto

lemma bindR_Inl_iff: "bindR m f = Inl e \<longleftrightarrow> m = Inl e \<or> (\<exists>x. m = Inr x \<and> f x = Inl e)"
  by (cases m) auto

lemma bindR_cong [fundef_cong]:
  "m = m' \<Longrightarrow> (\<And>x. m' = Inr x \<Longrightarrow> f x = f' x) \<Longrightarrow> bindR m f = bindR m' f'"
  by (cases m') auto

text \<open>A guard that raises: \<^verbatim>\<open>if b: raise e\<close>.\<close>

definition raise_if :: "bool \<Rightarrow> pyerror \<Rightarrow> 'a result \<Rightarrow> 'a result" where
  "raise_if b e k = (if b then Inl e else k)"

lemma raise_if_simps [simp]: "raise_if True e k = Inl e" "raise_if False e k = k"
  by (simp_all add: raise_if_def)

lemma raise_if_Inr_iff [result_simps]: "raise_if b e k = Inr y \<longleftrightarrow> \<not> b \<and> k = Inr y"
  by (simp add: raise_if_def)

definition returns :: "'a result \<Rightarrow> bool" where
  "returns m = (case m of Inl _ \<Rightarrow> False | Inr _ \<Rightarrow> True)"

lemma returns_simps [simp]: "\<not> returns (Inl e)" "returns (Inr x)"
  by (simp_all add: returns_def)

lemma returns_iff: "returns m \<longleftrightarrow> (\<exists>x. m = Inr x)"
  by (cases m) auto

text \<open>\<^verbatim>\<open>[f(x) for x in xs]\<close> and a \<^verbatim>\<open>for\<close> loop over \<^verbatim>\<open>xs\<close> whose body may raise.\<close>

fun mapR :: "('a \<Rightarrow> 'b result) \<Rightarrow> 'a list \<Rightarrow> 'b list result" where
  "mapR f [] = Inr []"
| "mapR f (x # xs) = bindR (f x) (\<lambda>y. bindR (mapR f xs) (\<lambda>ys. Inr (y # ys)))"

fun foldR :: "('s \<Rightarrow> 'a \<Rightarrow> 's result) \<Rightarrow> 's \<Rightarrow> 'a list \<Rightarrow> 's result" where
  "foldR f s [] = Inr s"
| "foldR f s (x # xs) = bindR (f s x) (\<lambda>s'. foldR f s' xs)"

lemma foldR_append: "foldR f s (xs @ ys) = bindR (foldR f s xs) (\<lambda>s'. foldR f s' ys)"
proof (induction xs arbitrary: s)
  case (Cons x xs)
  then show ?case by (cases "f s x") auto
qed simp

lemma foldR_inv:
  assumes "foldR f s xs = Inr s'" and "P s"
    and "\<And>s x t. x \<in> set xs \<Longrightarrow> P s \<Longrightarrow> f s x = Inr t \<Longrightarrow> P t"
  shows "P s'"
  using assms
proof (induction xs arbitrary: s)
  case (Cons x xs)
  then obtain t where "f s x = Inr t" "foldR f t xs = Inr s'"
    by (auto simp: bindR_Inr_iff)
  with Cons show ?case by (metis list.set_intros(1) list.set_intros(2))
qed auto

text \<open>A quantity that each step of the loop changes by a known amount adds up over the loop, under
  an invariant of the state.\<close>

lemma foldR_sum:
  fixes g :: "'s \<Rightarrow> 'b::comm_monoid_add"
  assumes "foldR f s xs = Inr s'" and "P s"
    and "\<And>s x t. x \<in> set xs \<Longrightarrow> P s \<Longrightarrow> f s x = Inr t \<Longrightarrow> P t \<and> g t = g s + d x"
  shows "P s' \<and> g s' = g s + sum_list (map d xs)"
  using assms
proof (induction xs arbitrary: s)
  case (Cons x xs)
  then obtain t where t: "f s x = Inr t" "foldR f t xs = Inr s'"
    by (auto simp: bindR_Inr_iff)
  with Cons.prems have Pt: "P t" "g t = g s + d x" by auto
  then have "P s' \<and> g s' = g t + sum_list (map d xs)" using Cons t by auto
  with Pt show ?case by (simp add: add.assoc)
qed simp

lemma mapR_Inr_iff: "mapR f xs = Inr ys \<longleftrightarrow> list_all2 (\<lambda>x y. f x = Inr y) xs ys"
proof (induction xs arbitrary: ys)
  case (Cons x xs)
  show ?case
    by (cases ys) (auto simp: bindR_Inr_iff Cons)
qed (simp add: eq_commute)

lemma mapR_length: "mapR f xs = Inr ys \<Longrightarrow> length ys = length xs"
  by (simp add: mapR_Inr_iff list_all2_lengthD)

lemma mapR_nth: "mapR f xs = Inr ys \<Longrightarrow> i < length xs \<Longrightarrow> f (xs ! i) = Inr (ys ! i)"
  by (simp add: mapR_Inr_iff list_all2_conv_all_nth)

section \<open>Strings\<close>

text \<open>
  A Python \<^verbatim>\<open>str\<close> is a sequence of Unicode code points, which is what its \<^verbatim>\<open>len\<close>, indexing
  and comparison count.  \<open>py\<close> reads an ASCII literal.
\<close>

type_synonym pystr = "int list"

definition py :: "string \<Rightarrow> pystr" where
  "py s = map of_char s"

lemma py_Nil [simp]: "py [] = []" by (simp add: py_def)

lemma py_eq_iff [simp]: "py s = py t \<longleftrightarrow> s = t"
  by (simp add: py_def inj_map_eq_map inj_on_def)

lemma py_Nil_iff [simp]: "py s = [] \<longleftrightarrow> s = []" by (simp add: py_def)

text \<open>\<^verbatim>\<open>str.isspace\<close> of one code point, the characters \<^verbatim>\<open>str.strip()\<close> removes.\<close>

definition py_isspace :: "int \<Rightarrow> bool" where
  "py_isspace c \<longleftrightarrow> (9 \<le> c \<and> c \<le> 13) \<or> (28 \<le> c \<and> c \<le> 32) \<or> c = 0x85 \<or> c = 0xA0 \<or> c = 0x1680
     \<or> (0x2000 \<le> c \<and> c \<le> 0x200A) \<or> c = 0x2028 \<or> c = 0x2029 \<or> c = 0x202F \<or> c = 0x205F \<or> c = 0x3000"

definition py_strip :: "pystr \<Rightarrow> pystr" where
  "py_strip s = rev (dropWhile py_isspace (rev (dropWhile py_isspace s)))"

text \<open>\<^verbatim>\<open>str.upper\<close>, \<^verbatim>\<open>str.lower\<close> and \<^verbatim>\<open>str.casefold\<close> on ASCII letters; other code points are
  left as they are (their case mappings are not modelled).\<close>

definition py_upper :: "pystr \<Rightarrow> pystr" where
  "py_upper = map (\<lambda>c. if 97 \<le> c \<and> c \<le> 122 then c - 32 else c)"

definition py_lower :: "pystr \<Rightarrow> pystr" where
  "py_lower = map (\<lambda>c. if 65 \<le> c \<and> c \<le> 90 then c + 32 else c)"

definition py_startswith :: "pystr \<Rightarrow> pystr list \<Rightarrow> bool" where
  "py_startswith s ps \<longleftrightarrow> (\<exists>p \<in> set ps. take (length p) s = p)"

fun py_split :: "int \<Rightarrow> pystr \<Rightarrow> pystr list" where
  "py_split c [] = [[]]"
| "py_split c (x # xs) =
     (if x = c then [] # py_split c xs
      else case py_split c xs of [] \<Rightarrow> [[x]] | p # ps \<Rightarrow> (x # p) # ps)"

lemma dropWhile_eq_self: "xs = [] \<or> \<not> P (hd xs) \<Longrightarrow> dropWhile P xs = xs"
  by (cases xs) auto

lemma py_strip_idem [simp]: "py_strip (py_strip s) = py_strip s"
proof -
  let ?P = py_isspace
  define u where "u = dropWhile ?P s"
  define w where "w = dropWhile ?P (rev u)"
  have u: "u = rev w @ rev (takeWhile ?P (rev u))"
    unfolding w_def by (metis rev_append rev_rev_ident takeWhile_dropWhile_id)
  have "rev w = [] \<or> \<not> ?P (hd (rev w))"
  proof (cases "rev w = []")
    case False
    then have "hd (rev w) = hd u" and "u \<noteq> []" using u by (metis hd_append2, auto)
    then show ?thesis unfolding u_def by (metis hd_dropWhile)
  qed simp
  then have "dropWhile ?P (rev w) = rev w" by (rule dropWhile_eq_self)
  moreover have "dropWhile ?P w = w" by (simp add: w_def)
  ultimately show ?thesis by (simp add: py_strip_def u_def [symmetric] w_def [symmetric])
qed

lemma py_strip_id:
  assumes "s \<noteq> []" "\<not> py_isspace (hd s)" "\<not> py_isspace (last s)"
  shows "py_strip s = s"
  using assms by (simp add: py_strip_def dropWhile_eq_self hd_rev)

text \<open>A text that a required field may hold: not empty, and without surrounding white space.\<close>

definition named :: "pystr \<Rightarrow> bool" where "named s \<longleftrightarrow> s \<noteq> [] \<and> py_strip s = s"

lemma py_upper_idem [simp]: "py_upper (py_upper s) = py_upper s"
  by (auto simp: py_upper_def)

section \<open>Dictionaries in insertion order\<close>

text \<open>
  Where the code iterates over a dictionary the model keeps an association list with the dictionary's
  order: assignment to a present key keeps its place, a new key goes to the end.
\<close>

fun dict_get :: "('k \<times> 'v) list \<Rightarrow> 'k \<Rightarrow> 'v option" where
  "dict_get [] k = None"
| "dict_get ((k', v) # d) k = (if k' = k then Some v else dict_get d k)"

fun dict_set :: "('k \<times> 'v) list \<Rightarrow> 'k \<Rightarrow> 'v \<Rightarrow> ('k \<times> 'v) list" where
  "dict_set [] k v = [(k, v)]"
| "dict_set ((k', v') # d) k v = (if k' = k then (k', v) # d else (k', v') # dict_set d k v)"

lemma dict_get_map_of: "dict_get d = map_of d"
  by (induction d) (auto simp: fun_eq_iff)

lemma dict_get_set [simp]: "dict_get (dict_set d k v) k' = (if k' = k then Some v else dict_get d k')"
  by (induction d) auto

lemma dict_keys_set: "fst ` set (dict_set d k v) = insert k (fst ` set d)"
  by (induction d k v rule: dict_set.induct) (auto simp: image_iff)

lemma dict_distinct_set: "distinct (map fst d) \<Longrightarrow> distinct (map fst (dict_set d k v))"
  by (induction d k v rule: dict_set.induct) (auto simp: dict_keys_set)

lemma dict_get_None_iff: "dict_get d k = None \<longleftrightarrow> k \<notin> fst ` set d"
  by (simp add: dict_get_map_of map_of_eq_None_iff)

lemma dict_set_mem:
  "(k', v') \<in> set (dict_set d k v) \<Longrightarrow> (k' = k \<and> v' = v) \<or> (k', v') \<in> set d"
  by (induction d) (auto split: if_splits)

end
