(* ===== verification/Py_Decimal.thy ===== *)
theory Py_Decimal
  imports Py_Prelude
begin

text \<open>
  Python's \<^verbatim>\<open>decimal.Decimal\<close> by value.  A finite decimal is the rational it denotes; the results of
  \<^verbatim>\<open>+ - * /\<close> are rounded to the 28 significant digits of the default context (\<open>ctx\<close>), and
  \<^verbatim>\<open>quantize\<close> raises \<open>InvalidOperation\<close> when its coefficient needs more than 28 digits.  Trailing
  zeros, signed zeros and the exponent limits of the context are not modelled: the code compares,
  adds and prints decimals only after \<^verbatim>\<open>quantize\<close> has fixed their exponent.
\<close>

section \<open>Rounding to an integer\<close>

datatype rounding = ROUND_HALF_EVEN | ROUND_HALF_UP | ROUND_DOWN | ROUND_CEILING | ROUND_FLOOR

definition trunc_rat :: "rat \<Rightarrow> int" where
  "trunc_rat x = (if x < 0 then - \<lfloor>- x\<rfloor> else \<lfloor>x\<rfloor>)"

definition half_even :: "rat \<Rightarrow> int" where
  "half_even x = (let f = \<lfloor>x\<rfloor>; r = x - of_int f in
     if r < 1/2 then f else if 1/2 < r then f + 1 else if even f then f else f + 1)"

definition half_up :: "rat \<Rightarrow> int" where
  "half_up x = (if x < 0 then - \<lfloor>1/2 - x\<rfloor> else \<lfloor>x + 1/2\<rfloor>)"

fun round_int :: "rounding \<Rightarrow> rat \<Rightarrow> int" where
  "round_int ROUND_HALF_EVEN x = half_even x"
| "round_int ROUND_HALF_UP x = half_up x"
| "round_int ROUND_DOWN x = trunc_rat x"
| "round_int ROUND_CEILING x = \<lceil>x\<rceil>"
| "round_int ROUND_FLOOR x = \<lfloor>x\<rfloor>"

lemma half_up_of_int [simp]: "half_up (of_int n) = n"
proof -
  have "\<lfloor>1/2 - of_int n :: rat\<rfloor> = - n" "\<lfloor>of_int n + 1/2 :: rat\<rfloor> = n"
    by (simp_all add: floor_eq_iff)
  then show ?thesis by (simp add: half_up_def)
qed

lemma half_even_of_int [simp]: "half_even (of_int n) = n"
  by (simp add: half_even_def)

lemma trunc_rat_of_int [simp]: "trunc_rat (of_int n) = n"
  by (simp add: trunc_rat_def)

lemma round_int_of_int [simp]: "round_int m (of_int n) = n"
  by (cases m) simp_all

lemma half_even_bounds: "\<lfloor>x\<rfloor> \<le> half_even x" "half_even x \<le> \<lfloor>x\<rfloor> + 1"
  by (simp_all add: half_even_def Let_def)

lemma half_even_error: "\<bar>of_int (half_even x) - x\<bar> \<le> 1/2"
  by (simp add: half_even_def Let_def abs_if) linarith

lemma half_even_mono: "x \<le> y \<Longrightarrow> half_even x \<le> half_even y"
proof -
  assume xy: "x \<le> y"
  then have f: "\<lfloor>x\<rfloor> \<le> \<lfloor>y\<rfloor>" by (rule floor_mono)
  show ?thesis
  proof (cases "\<lfloor>x\<rfloor> = \<lfloor>y\<rfloor>")
    case True
    with xy show ?thesis by (simp add: half_even_def Let_def)
  next
    case False
    with f have "\<lfloor>x\<rfloor> + 1 \<le> \<lfloor>y\<rfloor>" by simp
    then show ?thesis using half_even_bounds(2)[of x] half_even_bounds(1)[of y] by linarith
  qed
qed

lemma half_up_mono: "x \<le> y \<Longrightarrow> half_up x \<le> half_up y"
proof -
  assume xy: "x \<le> y"
  have "y < 0 \<Longrightarrow> - \<lfloor>1/2 - x\<rfloor> \<le> - \<lfloor>1/2 - y\<rfloor>" using xy by (simp add: floor_mono)
  moreover have "\<lfloor>x + 1/2\<rfloor> \<le> \<lfloor>y + 1/2\<rfloor>" using xy by (simp add: floor_mono)
  moreover have "x < 0 \<Longrightarrow> 0 \<le> y \<Longrightarrow> - \<lfloor>1/2 - x\<rfloor> \<le> \<lfloor>y + 1/2\<rfloor>"
  proof -
    assume "x < 0" "0 \<le> y"
    then have "0 \<le> \<lfloor>1/2 - x\<rfloor>" "0 \<le> \<lfloor>y + 1/2\<rfloor>" by (simp_all add: zero_le_floor)
    then show ?thesis by linarith
  qed
  ultimately show ?thesis using xy by (auto simp: half_up_def)
qed

lemma trunc_rat_nonneg: "0 \<le> x \<Longrightarrow> 0 \<le> trunc_rat x"
  by (simp add: trunc_rat_def)

lemma trunc_rat_le: "0 \<le> x \<Longrightarrow> of_int (trunc_rat x) \<le> x"
  by (simp add: trunc_rat_def)

lemma round_int_nonneg: "0 \<le> x \<Longrightarrow> 0 \<le> round_int m x"
  using half_even_mono[of 0 x] half_up_mono[of 0 x] half_even_of_int[of 0] half_up_of_int[of 0]
  by (cases m) (simp_all add: trunc_rat_nonneg)

lemma round_int_mono: "x \<le> y \<Longrightarrow> round_int m x \<le> round_int m y"
proof (cases m)
  case ROUND_DOWN
  assume xy: "x \<le> y"
  have "\<lfloor>x\<rfloor> \<le> \<lfloor>y\<rfloor>" "\<lfloor>- y\<rfloor> \<le> \<lfloor>- x\<rfloor>" using xy by (simp_all add: floor_mono)
  moreover have "x < 0 \<Longrightarrow> 0 \<le> y \<Longrightarrow> - \<lfloor>- x\<rfloor> \<le> \<lfloor>y\<rfloor>"
  proof -
    assume "x < 0" "0 \<le> y"
    then have "0 \<le> \<lfloor>- x\<rfloor>" "0 \<le> \<lfloor>y\<rfloor>" by (simp_all add: zero_le_floor)
    then show ?thesis by linarith
  qed
  ultimately show ?thesis using xy ROUND_DOWN by (auto simp: trunc_rat_def)
qed (simp_all add: half_even_mono half_up_mono floor_mono ceiling_mono)

lemma half_up_ge_neg_half: "x - 1/2 \<le> of_int (half_up x)"
  by (simp add: half_up_def) linarith

lemma half_up_le_half: "of_int (half_up x) \<le> x + 1/2"
  by (simp add: half_up_def) linarith

section \<open>The 28-digit context\<close>

function dec_digits :: "int \<Rightarrow> nat" where
  "dec_digits n = (if n \<le> 0 then 0 else Suc (dec_digits (n div 10)))"
  by pat_completeness auto
termination
  by (relation "measure nat") auto

declare dec_digits.simps [simp del]

lemma dec_digits_lower: "n > 0 \<Longrightarrow> 10 ^ (dec_digits n - 1) \<le> n"
proof (induction n rule: dec_digits.induct)
  case (1 n)
  show ?case
  proof (cases "n div 10 \<le> 0")
    case True
    then show ?thesis using "1.prems" by (simp add: dec_digits.simps [of n] dec_digits.simps [of "n div 10"] dec_digits.simps [of 0])
  next
    case False
    then have "10 ^ (dec_digits (n div 10) - 1) \<le> n div 10" using 1 by simp
    moreover have "dec_digits (n div 10) = Suc (dec_digits (n div 10) - 1)"
      using False by (simp add: dec_digits.simps [of "n div 10"])
    ultimately have "10 ^ dec_digits (n div 10) \<le> 10 * (n div 10)"
      by (metis mult_left_mono power_Suc zero_le_numeral)
    also have "\<dots> \<le> n" by simp
    finally show ?thesis using "1.prems" by (simp add: dec_digits.simps [of n])
  qed
qed

lemma dec_digits_upper: "n < 10 ^ dec_digits n"
proof (induction n rule: dec_digits.induct)
  case (1 n)
  show ?case
  proof (cases "n \<le> 0")
    case False
    then have "n div 10 < 10 ^ dec_digits (n div 10)" using 1 by simp
    then have "n < 10 * 10 ^ dec_digits (n div 10)" by simp
    with False show ?thesis by (simp add: dec_digits.simps [of n])
  qed (simp add: dec_digits.simps)
qed

text \<open>The exponent of the leading digit: \<open>10 ^ e \<le> |x| < 10 ^ (e + 1)\<close>.\<close>

definition adjusted :: "rat \<Rightarrow> int" where
  "adjusted x = (let (n, d) = quotient_of \<bar>x\<bar>; e = int (dec_digits n) - int (dec_digits d)
     in if 10 powi e \<le> \<bar>x\<bar> then e else e - 1)"

lemma powi_mono_10: "a \<le> b \<Longrightarrow> (10 :: rat) powi a \<le> 10 powi b"
  by (rule power_int_increasing) simp_all

lemma powi_10_pos [simp]: "0 < (10 :: rat) powi e"
  by (rule zero_less_power_int) simp

lemma powi_10_nat: "(10 :: rat) powi int n = 10 ^ n"
  by (simp add: power_int_def)

lemma powi_10_add: "(10 :: rat) powi (a + b) = 10 powi a * 10 powi b"
  by (simp add: power_int_add)

lemma powi_10_inv: "(10 :: rat) powi a * 10 powi (- a) = 1"
  by (simp add: power_int_minus)

lemma adjusted_bounds:
  assumes "x \<noteq> 0"
  shows "10 powi adjusted x \<le> \<bar>x\<bar>" and "\<bar>x\<bar> < 10 powi (adjusted x + 1)"
proof -
  obtain n d where q: "quotient_of \<bar>x\<bar> = (n, d)" by (cases "quotient_of \<bar>x\<bar>")
  have d: "d > 0" using q by (rule quotient_of_denom_pos)
  have ax: "\<bar>x\<bar> = of_int n / of_int d" using q by (rule quotient_of_div)
  have "0 < rat_of_int n / of_int d" using assms ax by (metis zero_less_abs_iff)
  with d have n: "n > 0" by (simp add: zero_less_divide_iff)
  define a b where "a = dec_digits n" and "b = dec_digits d"
  have ge1: "a \<ge> 1" "b \<ge> 1" using n d by (simp_all add: a_def b_def dec_digits.simps)
  have nl: "(10::rat) ^ (a - 1) \<le> of_int n" and nu: "of_int n < (10::rat) ^ a"
    and dl: "(10::rat) ^ (b - 1) \<le> of_int d" and du: "of_int d < (10::rat) ^ b"
  proof -
    have "10 ^ (a - 1) \<le> n" "n < 10 ^ a" "10 ^ (b - 1) \<le> d" "d < 10 ^ b"
      using dec_digits_lower[of n] dec_digits_upper[of n] dec_digits_lower[of d]
        dec_digits_upper[of d] n d unfolding a_def b_def by linarith+
    then have "(of_int (10 ^ (a - 1)) :: rat) \<le> of_int n" "(of_int n :: rat) < of_int (10 ^ a)"
      "(of_int (10 ^ (b - 1)) :: rat) \<le> of_int d" "(of_int d :: rat) < of_int (10 ^ b)"
      by (simp_all only: of_int_le_iff of_int_less_iff)
    then show "(10::rat) ^ (a - 1) \<le> of_int n" "of_int n < (10::rat) ^ a"
      "(10::rat) ^ (b - 1) \<le> of_int d" "of_int d < (10::rat) ^ b"
      by simp_all
  qed
  define e where "e = int a - int b"
  have up: "\<bar>x\<bar> < 10 powi (e + 1)"
  proof -
    have "\<bar>x\<bar> < 10 ^ a / 10 ^ (b - 1)"
      unfolding ax using nu dl n d by (intro frac_less) auto
    also have "\<dots> = 10 powi (int a - int (b - 1))"
      by (simp add: power_int_diff)
    also have "int a - int (b - 1) = e + 1" using ge1 by (simp add: e_def)
    finally show ?thesis .
  qed
  have lo: "10 powi (e - 1) \<le> \<bar>x\<bar>"
  proof -
    have "10 powi (e - 1) = (10::rat) powi (int (a - 1) - int b)" using ge1 by (simp add: e_def algebra_simps)
    also have "\<dots> = (10::rat) ^ (a - 1) / 10 ^ b" by (simp add: power_int_diff)
    also have "\<dots> \<le> of_int n / of_int d" using nl du n d by (intro frac_le) auto
    finally show ?thesis by (simp add: ax)
  qed
  have adj: "adjusted x = (if 10 powi e \<le> \<bar>x\<bar> then e else e - 1)"
    by (simp add: adjusted_def q a_def b_def e_def Let_def)
  show "10 powi adjusted x \<le> \<bar>x\<bar>" using lo by (simp add: adj)
  show "\<bar>x\<bar> < 10 powi (adjusted x + 1)" using up by (simp add: adj)
qed

definition prec :: int where "prec = 28"

definition ctx :: "rat \<Rightarrow> rat" where
  "ctx x = (if x = 0 then 0
     else let k = prec - 1 - adjusted x in of_int (half_even (x * 10 powi k)) * 10 powi (- k))"

text \<open>A value whose digits fit the context is not changed.\<close>

lemma ctx_exact:
  assumes "x * 10 powi k = of_int c" and "\<bar>c\<bar> < 10 ^ 28"
  shows "ctx x = x"
proof (cases "x = 0")
  case False
  define K where "K = prec - 1 - adjusted x"
  have "k \<le> K"
  proof (rule ccontr)
    assume "\<not> k \<le> K"
    then have "28 - k \<le> adjusted x" by (simp add: K_def prec_def)
    then have "(10::rat) powi (28 - k) \<le> \<bar>x\<bar>"
      using adjusted_bounds(1)[OF False] powi_mono_10 order_trans by blast
    then have "(10::rat) powi (28 - k) * 10 powi k \<le> \<bar>x\<bar> * 10 powi k"
      by (rule mult_right_mono) (simp add: less_imp_le)
    also have "\<bar>x\<bar> * 10 powi k = \<bar>x * 10 powi k\<bar>"
      by (simp add: abs_mult less_imp_le)
    also have "\<dots> = of_int \<bar>c\<bar>" by (simp add: assms(1))
    finally have "(10::rat) ^ 28 \<le> of_int \<bar>c\<bar>"
      by (simp flip: powi_10_add powi_10_nat)
    then have "(10::int) ^ 28 \<le> \<bar>c\<bar>"
      by (metis of_int_le_iff of_int_numeral of_int_power)
    with assms(2) show False by simp
  qed
  then obtain j where j: "K = k + int j" using zle_iff_zadd by blast
  then have "x * 10 powi K = of_int (c * 10 ^ j)"
    by (simp add: powi_10_add powi_10_nat assms(1) flip: mult.assoc)
  then have "half_even (x * 10 powi K) = c * 10 ^ j" by (metis half_even_of_int)
  then have "ctx x = x * 10 powi K * 10 powi (- K)"
    using False \<open>x * 10 powi K = _\<close> by (simp add: ctx_def K_def [symmetric] Let_def)
  then show ?thesis by (simp add: mult.assoc powi_10_inv)
qed (simp add: ctx_def)

lemma ctx_0 [simp]: "ctx 0 = 0" by (simp add: ctx_def)

lemma ctx_nonneg: "0 \<le> x \<Longrightarrow> 0 \<le> ctx x"
  using round_int_nonneg[of _ ROUND_HALF_EVEN] by (simp add: ctx_def Let_def less_imp_le)

lemma ctx_pos_ge:
  assumes "10 powi e \<le> x"
  shows "10 powi e \<le> ctx x"
proof -
  have x: "x > 0" using assms powi_10_pos[of e] by linarith
  define K where "K = prec - 1 - adjusted x"
  have adj: "10 powi adjusted x \<le> x" using adjusted_bounds(1)[of x] x by simp
  have "e \<le> adjusted x"
  proof (rule ccontr)
    assume "\<not> e \<le> adjusted x"
    then have "(10::rat) powi (adjusted x + 1) \<le> 10 powi e" by (intro powi_mono_10) simp
    with assms adjusted_bounds(2)[of x] x show False by simp
  qed
  have "(10::rat) powi 27 = 10 powi adjusted x * 10 powi K"
    by (simp add: K_def prec_def flip: powi_10_add)
  also have "\<dots> \<le> x * 10 powi K" using adj by (intro mult_right_mono) (simp_all add: less_imp_le)
  finally have "of_int (10 ^ 27) \<le> x * 10 powi K" by simp
  then have "half_even (of_int (10 ^ 27)) \<le> half_even (x * 10 powi K)" by (rule half_even_mono)
  then have "(of_int (10 ^ 27) :: rat) \<le> of_int (half_even (x * 10 powi K))"
    by (simp only: half_even_of_int of_int_le_iff)
  then have "of_int (10 ^ 27) * 10 powi (- K) \<le> ctx x"
    using x by (simp add: ctx_def K_def [symmetric] Let_def mult_right_mono less_imp_le)
  moreover have "(of_int (10 ^ 27) :: rat) * 10 powi (- K) = 10 powi adjusted x"
  proof -
    have "(of_int (10 ^ 27) :: rat) = 10 powi 27" by simp
    then show ?thesis by (simp only: flip: powi_10_add) (simp add: K_def prec_def)
  qed
  ultimately show ?thesis using powi_mono_10[OF \<open>e \<le> adjusted x\<close>] by linarith
qed

lemma half_even_neg: "half_even (- x) = - half_even x"
proof -
  define f where "f = \<lfloor>x\<rfloor>"
  define r where "r = x - of_int f"
  have r: "0 \<le> r" "r < 1" unfolding r_def f_def by linarith+
  show ?thesis
  proof (cases "r = 0")
    case True
    then have "x = of_int f" by (simp add: r_def)
    then show ?thesis by (metis half_even_of_int of_int_minus)
  next
    case False
    have fl: "\<lfloor>- x\<rfloor> = - f - 1" using r False by (simp add: floor_eq_iff r_def)
    show ?thesis using r False
      by (simp add: half_even_def Let_def f_def [symmetric] fl)
  qed
qed

lemma adjusted_neg [simp]: "adjusted (- x) = adjusted x" by (simp add: adjusted_def)

lemma ctx_neg: "ctx (- x) = - ctx x"
  by (simp add: ctx_def half_even_neg Let_def)

lemma ctx_abs_ge: "10 powi e \<le> \<bar>x\<bar> \<Longrightarrow> 10 powi e \<le> \<bar>ctx x\<bar>"
  using ctx_pos_ge[of e x] ctx_pos_ge[of e "- x"] by (auto simp: ctx_neg abs_if split: if_splits)

section \<open>quantize\<close>

definition quantize :: "nat \<Rightarrow> rounding \<Rightarrow> rat \<Rightarrow> rat result" where
  "quantize k m x = (let c = round_int m (x * 10 ^ k) in
     if \<bar>c\<bar> < 10 ^ 28 then Inr (of_int c / 10 ^ k) else Inl InvalidOperation)"

text \<open>The values with \<open>k\<close> decimal places whose coefficient fits the context.\<close>

definition on_grid :: "nat \<Rightarrow> rat \<Rightarrow> bool" where
  "on_grid k x \<longleftrightarrow> (\<exists>c::int. x = of_int c / 10 ^ k \<and> \<bar>c\<bar> < 10 ^ 28)"

lemma quantize_grid: "quantize k m x = Inr y \<Longrightarrow> on_grid k y"
  by (auto simp: quantize_def on_grid_def Let_def split: if_splits)

lemma quantize_on_grid: "on_grid k x \<Longrightarrow> quantize k m x = Inr x"
  by (auto simp: quantize_def on_grid_def Let_def)

lemma on_grid_0 [simp]: "on_grid k 0"
  unfolding on_grid_def by (rule exI[of _ 0]) simp

lemma ctx_on_grid: "on_grid k x \<Longrightarrow> ctx x = x"
proof -
  assume "on_grid k x"
  then obtain c :: int where "x = of_int c / 10 ^ k" "\<bar>c\<bar> < 10 ^ 28" by (auto simp: on_grid_def)
  then show ?thesis by (intro ctx_exact[of x "int k" c]) (simp_all add: powi_10_nat)
qed

text \<open>A value whose coefficient needs a 29th digit cannot be quantized.\<close>

lemma quantize_overflow:
  assumes "(10 :: rat) powi (28 - int k) \<le> \<bar>x\<bar>"
  shows "quantize k m x = Inl InvalidOperation"
proof -
  define z where "z = x * 10 ^ k"
  have big: "(10 :: rat) ^ 28 \<le> \<bar>z\<bar>"
    using assms by (simp add: z_def power_int_diff divide_le_eq abs_mult)
  have "10 ^ 28 \<le> \<bar>round_int m z\<bar>"
  proof (cases "0 \<le> z")
    case True
    with big have "of_int (10 ^ 28) \<le> z" by simp
    then have "10 ^ 28 \<le> round_int m z"
      using half_even_mono[of "of_int (10 ^ 28)" z] half_up_mono[of "of_int (10 ^ 28)" z] True
      by (cases m) (simp_all only: half_even_of_int half_up_of_int round_int.simps trunc_rat_def,
          simp_all add: le_floor_iff le_ceiling_iff)
    then show ?thesis by simp
  next
    case False
    with big have "z \<le> of_int (- (10 ^ 28))" by simp
    then have "round_int m z \<le> - (10 ^ 28)"
      using half_even_mono[of z "of_int (- (10 ^ 28))"] half_up_mono[of z "of_int (- (10 ^ 28))"] False
      by (cases m) (simp_all only: half_even_of_int half_up_of_int round_int.simps trunc_rat_def,
          simp_all add: floor_le_iff ceiling_le_iff le_floor_iff)
    then show ?thesis by simp
  qed
  then show ?thesis by (simp add: quantize_def z_def Let_def)
qed

text \<open>
  Adding or subtracting two values of the same grid and quantizing back is exact whenever it
  returns: either the context kept every digit, or the 29th digit makes \<^verbatim>\<open>quantize\<close> raise.
\<close>

lemma grid_small_or_big:
  assumes "x * 10 ^ k = of_int c"
  obtains "on_grid k x" "ctx x = x" | "(10 :: rat) powi (28 - int k) \<le> \<bar>x\<bar>"
proof (cases "\<bar>c\<bar> < 10 ^ 28")
  case True
  then have "ctx x = x" using assms by (intro ctx_exact[of x "int k" c]) (simp_all add: powi_10_nat)
  moreover have "x = of_int c / 10 ^ k" using assms by (simp add: eq_divide_eq)
  ultimately show thesis using that(1) True by (auto simp: on_grid_def)
next
  case False
  then have "(of_int (10 ^ 28) :: rat) \<le> of_int \<bar>c\<bar>" by (simp only: of_int_le_iff not_less)
  also have "of_int \<bar>c\<bar> = \<bar>x * 10 ^ k\<bar>" by (simp add: assms)
  finally have "(10 :: rat) ^ 28 \<le> \<bar>x\<bar> * 10 ^ k" by (simp add: abs_mult)
  then have "(10::rat) powi (28 - int k) \<le> \<bar>x\<bar>"
    by (simp add: power_int_diff divide_le_eq)
  then show thesis by (rule that(2))
qed

lemma quantize_ctx_exact:
  assumes "x * 10 ^ k = of_int c" and "quantize k m (ctx x) = Inr y"
  shows "y = x"
  using assms(1)
proof (cases rule: grid_small_or_big)
  case 1
  then show ?thesis using assms(2) by (simp add: quantize_on_grid)
next
  case 2
  then have "quantize k m (ctx x) = Inl InvalidOperation"
    by (intro quantize_overflow ctx_abs_ge)
  with assms(2) show ?thesis by simp
qed

lemma quantize_sub_exact:
  assumes "on_grid k a" "on_grid k b" "quantize k m (ctx (a - b)) = Inr y"
  shows "y = a - b"
proof -
  from assms(1,2) obtain c d :: int where "a = of_int c / 10 ^ k" "b = of_int d / 10 ^ k"
    by (auto simp: on_grid_def)
  then have "(a - b) * 10 ^ k = of_int (c - d)" by (simp add: field_simps)
  then show ?thesis using assms(3) by (rule quantize_ctx_exact)
qed

lemma quantize_add_exact:
  assumes "on_grid k a" "on_grid k b" "quantize k m (ctx (a + b)) = Inr y"
  shows "y = a + b"
proof -
  from assms(1,2) obtain c d :: int where "a = of_int c / 10 ^ k" "b = of_int d / 10 ^ k"
    by (auto simp: on_grid_def)
  then have "(a + b) * 10 ^ k = of_int (c + d)" by (simp add: field_simps)
  then show ?thesis using assms(3) by (rule quantize_ctx_exact)
qed

lemma quantize_nonneg: "0 \<le> x \<Longrightarrow> quantize k m x = Inr y \<Longrightarrow> 0 \<le> y"
  using round_int_nonneg[of "x * 10 ^ k" m] by (auto simp: quantize_def Let_def split: if_splits)

lemma quantize_mono:
  assumes "x \<le> y" "quantize k m x = Inr a" "quantize k m y = Inr b"
  shows "a \<le> b"
proof -
  have "x * 10 ^ k \<le> y * 10 ^ k" using assms(1) by (simp add: mult_right_mono)
  then have "round_int m (x * 10 ^ k) \<le> round_int m (y * 10 ^ k)" by (rule round_int_mono)
  then have "(of_int (round_int m (x * 10 ^ k)) :: rat) \<le> of_int (round_int m (y * 10 ^ k))" by (simp only: of_int_le_iff)
  with assms(2,3) show ?thesis
    by (auto simp: quantize_def Let_def divide_right_mono split: if_splits)
qed

text \<open>The distance of the quantized value: less than one unit, half a unit when rounding to nearest, and not above
  a non-negative value when rounding down.\<close>

lemma quantize_down:
  assumes "quantize k ROUND_DOWN x = Inr y" "0 \<le> x"
  shows "y \<le> x \<and> x < y + 1 / 10 ^ k"
proof -
  have y: "y = of_int \<lfloor>x * 10 ^ k\<rfloor> / 10 ^ k"
  proof -
    have "\<not> x * 10 ^ k < 0" using assms(2) by (simp add: not_less)
    then show ?thesis using assms(1) by (auto simp: quantize_def trunc_rat_def Let_def split: if_splits)
  qed
  have "of_int \<lfloor>x * 10 ^ k\<rfloor> \<le> x * 10 ^ k" "x * 10 ^ k < of_int \<lfloor>x * 10 ^ k\<rfloor> + 1" by linarith+
  then show ?thesis unfolding y by (simp add: field_simps)
qed

lemma ctx_error: "\<bar>ctx x - x\<bar> \<le> \<bar>x\<bar> / 10 ^ 27"
proof (cases "x = 0")
  case False
  define k where "k = prec - 1 - adjusted x"
  have ctx: "ctx x = of_int (half_even (x * 10 powi k)) * 10 powi (- k)"
    using False by (simp add: ctx_def k_def Let_def)
  have split: "10 powi k * 10 powi (- k) = (1 :: rat)" by (simp flip: power_int_add)
  have "ctx x - x = (of_int (half_even (x * 10 powi k)) - x * 10 powi k) * 10 powi (- k)"
    by (simp add: ctx left_diff_distrib mult.assoc split)
  then have "\<bar>ctx x - x\<bar> = \<bar>of_int (half_even (x * 10 powi k)) - x * 10 powi k\<bar> * 10 powi (- k)"
    by (simp add: abs_mult)
  also have "\<dots> \<le> 1 / 2 * 10 powi (- k)" by (intro mult_right_mono half_even_error) simp
  also have "\<dots> \<le> 1 * 10 powi (- k)" by (intro mult_right_mono) simp_all
  also have "1 * 10 powi (- k) = (10 :: rat) powi adjusted x / 10 ^ 27"
  proof -
    have k': "- k = adjusted x - 27" by (simp add: k_def prec_def)
    have "(10 :: rat) powi (adjusted x - 27) = 10 powi adjusted x / 10 powi 27" by (rule power_int_diff) simp
    moreover have "(10 :: rat) powi 27 = 10 ^ 27" by (simp add: power_int_def)
    ultimately show ?thesis unfolding k' mult_1 by (simp only:)
  qed
  also have "\<dots> \<le> \<bar>x\<bar> / 10 ^ 27" by (intro divide_right_mono adjusted_bounds(1)[OF False]) simp
  finally show ?thesis .
qed (simp add: ctx_def)

section \<open>Arithmetic of the default context\<close>

definition dadd :: "rat \<Rightarrow> rat \<Rightarrow> rat" where "dadd a b = ctx (a + b)"
definition dsub :: "rat \<Rightarrow> rat \<Rightarrow> rat" where "dsub a b = ctx (a - b)"
definition dmul :: "rat \<Rightarrow> rat \<Rightarrow> rat" where "dmul a b = ctx (a * b)"

definition ddiv :: "rat \<Rightarrow> rat \<Rightarrow> rat result" where
  "ddiv a b = (if b = 0 then Inl (if a = 0 then InvalidOperation else DivisionByZero) else Inr (ctx (a / b)))"

text \<open>\<^verbatim>\<open>a // b\<close>: truncated, and a signal when the quotient needs more than 28 digits.\<close>

definition dfloordiv :: "rat \<Rightarrow> rat \<Rightarrow> int result" where
  "dfloordiv a b = (if b = 0 then Inl (if a = 0 then InvalidOperation else DivisionByZero)
     else let q = trunc_rat (a / b) in if \<bar>q\<bar> < 10 ^ 28 then Inr q else Inl InvalidOperation)"

text \<open>\<^verbatim>\<open>sum(xs, Decimal("0"))\<close>: a left fold, each partial sum rounded.\<close>

definition dsum :: "rat list \<Rightarrow> rat" where
  "dsum xs = foldl dadd 0 xs"

text \<open>A sum of three non-negative grid values is exact whenever quantizing it returns.\<close>

lemma quantize_add3_exact:
  assumes "on_grid k a" "on_grid k b" "on_grid k c" "0 \<le> a" "0 \<le> b" "0 \<le> c"
    and "quantize k m (dadd (dadd a b) c) = Inr y"
  shows "y = a + b + c"
proof -
  from assms(1,2) obtain p q :: int where "a = of_int p / 10 ^ k" "b = of_int q / 10 ^ k"
    by (auto simp: on_grid_def)
  then have "(a + b) * 10 ^ k = of_int (p + q)" by (simp add: field_simps)
  then show ?thesis
  proof (cases rule: grid_small_or_big)
    case 1
    then show ?thesis using assms(3,7) quantize_add_exact[of k "a + b" c m y] by (simp add: dadd_def)
  next
    case 2
    then have "(10::rat) powi (28 - int k) \<le> dadd a b"
      using assms(4,5) by (simp add: dadd_def ctx_pos_ge)
    then have "(10::rat) powi (28 - int k) \<le> \<bar>dadd a b + c\<bar>" using assms(6) by simp
    then have "quantize k m (dadd (dadd a b) c) = Inl InvalidOperation"
      unfolding dadd_def by (intro quantize_overflow ctx_abs_ge)
    with assms(7) show ?thesis by simp
  qed
qed

lemma dmul_nonneg: "0 \<le> a \<Longrightarrow> 0 \<le> b \<Longrightarrow> 0 \<le> dmul a b" by (simp add: dmul_def ctx_nonneg)
lemma dadd_nonneg: "0 \<le> a \<Longrightarrow> 0 \<le> b \<Longrightarrow> 0 \<le> dadd a b" by (simp add: dadd_def ctx_nonneg)
lemma ddiv_nonneg: "0 \<le> a \<Longrightarrow> 0 < b \<Longrightarrow> ddiv a b = Inr y \<Longrightarrow> 0 \<le> y"
  by (auto simp: ddiv_def intro!: ctx_nonneg)

text \<open>Rounding to the context is monotone.\<close>

lemma ctx_le_next:
  assumes "0 < x"
  shows "ctx x \<le> 10 powi (adjusted x + 1)"
proof -
  define k where "k = prec - 1 - adjusted x"
  have "x < 10 powi (adjusted x + 1)" using adjusted_bounds(2)[of x] assms by simp
  then have "x * 10 powi k \<le> 10 powi (adjusted x + 1) * 10 powi k" by (intro mult_right_mono) simp_all
  also have "\<dots> = of_int (10 ^ 28)" by (simp add: k_def prec_def flip: powi_10_add)
  finally have "half_even (x * 10 powi k) \<le> half_even (of_int (10 ^ 28))" by (rule half_even_mono)
  then have "(of_int (half_even (x * 10 powi k)) :: rat) \<le> of_int (10 ^ 28)" by (simp only: half_even_of_int of_int_le_iff)
  then have "of_int (half_even (x * 10 powi k)) * (10 :: rat) powi (- k) \<le> of_int (10 ^ 28) * 10 powi (- k)" by (rule mult_right_mono) simp
  also have "(of_int (10 ^ 28) :: rat) * 10 powi (- k) = 10 powi (adjusted x + 1)"
  proof -
    have "(of_int (10 ^ 28) :: rat) = 10 powi 28" by simp
    then show ?thesis by (simp only: flip: powi_10_add) (simp add: k_def prec_def add.commute)
  qed
  finally show ?thesis using assms by (simp add: ctx_def k_def Let_def)
qed

lemma ctx_mono_pos:
  assumes "0 < x" "x \<le> y"
  shows "ctx x \<le> ctx y"
proof (cases "adjusted x" "adjusted y" rule: linorder_cases)
  case less
  then have "(10 :: rat) powi (adjusted x + 1) \<le> 10 powi adjusted y" by (intro powi_mono_10) simp
  moreover have "10 powi adjusted y \<le> ctx y" by (rule ctx_pos_ge) (use adjusted_bounds(1)[of y] assms in simp)
  ultimately show ?thesis using ctx_le_next[OF assms(1)] by linarith
next
  case equal
  define k where "k = prec - 1 - adjusted x"
  have "x * 10 powi k \<le> y * 10 powi k" using assms(2) by (rule mult_right_mono) simp
  then have "half_even (x * 10 powi k) \<le> half_even (y * 10 powi k)" by (rule half_even_mono)
  then have "(of_int (half_even (x * 10 powi k)) :: rat) \<le> of_int (half_even (y * 10 powi k))" by (simp only: of_int_le_iff)
  then have "of_int (half_even (x * 10 powi k)) * 10 powi (- k) \<le> (of_int (half_even (y * 10 powi k)) :: rat) * 10 powi (- k)"
    by (rule mult_right_mono) simp
  then show ?thesis using assms equal by (simp add: ctx_def k_def Let_def)
next
  case greater
  have "(10 :: rat) powi (adjusted y + 1) \<le> 10 powi adjusted x" using greater by (intro powi_mono_10) simp
  moreover have "10 powi adjusted x \<le> x" "y < 10 powi (adjusted y + 1)"
    using adjusted_bounds(1)[of x] adjusted_bounds(2)[of y] assms by simp_all
  ultimately show ?thesis using assms(2) by linarith
qed

lemma ctx_mono: "x \<le> y \<Longrightarrow> ctx x \<le> ctx y"
proof -
  assume xy: "x \<le> y"
  consider "0 < x" | "y < 0" | "x \<le> 0" "0 \<le> y" by linarith
  then show ?thesis
  proof cases
    case 1
    then show ?thesis using ctx_mono_pos xy by blast
  next
    case 2
    then have "ctx (- y) \<le> ctx (- x)" using ctx_mono_pos[of "- y" "- x"] xy by simp
    then show ?thesis by (simp add: ctx_neg)
  next
    case 3
    have "0 \<le> ctx (- x)" by (rule ctx_nonneg) (use 3 in simp)
    then show ?thesis using ctx_nonneg[OF 3(2)] by (simp add: ctx_neg)
  qed
qed

text \<open>A code equation that skips the rounding of values with few digits.\<close>

lemma ctx_short:
  assumes "quotient_of x = (n, d)" "10000000000 mod d = 0" "\<bar>n\<bar> < 1000000000000000000"
  shows "ctx x = x"
proof -
  have d: "0 < d" and x: "x = of_int n / of_int d"
    using assms(1) quotient_of_denom_pos quotient_of_div by blast+
  obtain q where q: "10000000000 = d * q" using assms(2) unfolding mod_eq_0_iff_dvd by (rule dvdE)
  have qp: "0 < q" "q \<le> 10000000000"
  proof -
    have "0 < d * q" unfolding q[symmetric] by simp
    then show "0 < q" using d by (rule zero_less_mult_pos)
    then have "1 * q \<le> d * q" using d by (intro mult_right_mono) auto
    then show "q \<le> 10000000000" unfolding q[symmetric] by simp
  qed
  have ten: "of_int d * of_int q = (10000000000 :: rat)" using arg_cong[OF q, of "of_int :: int \<Rightarrow> rat"] by simp
  have "x * 10000000000 = of_int n * of_int q" unfolding ten[symmetric] x using d by simp
  then have "x = of_int (n * q) / 10 ^ 10" by (simp add: field_simps)
  moreover have "\<bar>n * q\<bar> < 10 ^ 28"
  proof -
    have "\<bar>n * q\<bar> = \<bar>n\<bar> * q" using qp by (simp add: abs_mult)
    also have "\<dots> \<le> \<bar>n\<bar> * 10000000000" using qp by (intro mult_left_mono) auto
    also have "\<dots> < 1000000000000000000 * 10000000000" using assms(3) by simp
    finally show ?thesis by simp
  qed
  ultimately show ?thesis by (intro ctx_on_grid[of 10]) (auto simp only: on_grid_def)
qed

lemma ctx_code [code]:
  "ctx x = (let (n, d) = quotient_of x in
     if 10000000000 mod d = 0 \<and> \<bar>n\<bar> < 1000000000000000000 then x
     else let k = prec - 1 - adjusted x in of_int (half_even (x * 10 powi k)) * 10 powi (- k))"
proof (cases "quotient_of x")
  case (Pair n d)
  show ?thesis
  proof (cases "x = 0")
    case False
    then show ?thesis using ctx_short[OF Pair] Pair by (auto simp: ctx_def Let_def)
  next
    case True
    then have "n = 0" "d = 1" using Pair by auto
    then show ?thesis using True Pair by (simp add: ctx_def)
  qed
qed

end
