(* ===== verification/Py_Text.thy ===== *)
theory Py_Text
  imports Py_Decimal
begin

text \<open>
  Text that Python reads as numbers: the decimal digits of Unicode (what \<^verbatim>\<open>\d\<close> of a \<^verbatim>\<open>str\<close>
  pattern and \<^verbatim>\<open>Decimal(str)\<close> accept), the \<^verbatim>\<open>Decimal\<close> constructor, and \<^verbatim>\<open>as_decimal\<close>, the
  entry point of every numeric field.
\<close>

section \<open>Digits\<close>

text \<open>The first code point of every run of ten decimal digits (category Nd of Unicode 14, the
  version of Python 3.11).\<close>

definition nd_starts :: "int list" where
  "nd_starts = [0x30, 0x660, 0x6F0, 0x7C0, 0x966, 0x9E6, 0xA66, 0xAE6, 0xB66, 0xBE6, 0xC66, 0xCE6,
     0xD66, 0xDE6, 0xE50, 0xED0, 0xF20, 0x1040, 0x1090, 0x17E0, 0x1810, 0x1946, 0x19D0, 0x1A80,
     0x1A90, 0x1B50, 0x1BB0, 0x1C40, 0x1C50, 0xA620, 0xA8D0, 0xA900, 0xA9D0, 0xA9F0, 0xAA50, 0xABF0,
     0xFF10, 0x104A0, 0x10D30, 0x11066, 0x110F0, 0x11136, 0x111D0, 0x112F0, 0x11450, 0x114D0,
     0x11650, 0x116C0, 0x11730, 0x118E0, 0x11950, 0x11C50, 0x11D50, 0x11DA0, 0x16A60, 0x16AC0,
     0x16B50, 0x1D7CE, 0x1D7D8, 0x1D7E2, 0x1D7EC, 0x1D7F6, 0x1E140, 0x1E2F0, 0x1E950, 0x1FBF0]"

definition digit_value :: "int \<Rightarrow> int option" where
  "digit_value c = (case filter (\<lambda>s. s \<le> c \<and> c < s + 10) nd_starts of [] \<Rightarrow> None | s # _ \<Rightarrow> Some (c - s))"

definition is_nd :: "int \<Rightarrow> bool" where
  "is_nd c \<longleftrightarrow> digit_value c \<noteq> None"

definition is_ascii_digit :: "int \<Rightarrow> bool" where
  "is_ascii_digit c \<longleftrightarrow> 48 \<le> c \<and> c \<le> 57"

lemma digit_value_ascii: "is_ascii_digit c \<Longrightarrow> digit_value c = Some (c - 48)"
  by (auto simp: is_ascii_digit_def digit_value_def nd_starts_def)

lemma is_nd_ascii [simp]: "is_ascii_digit c \<Longrightarrow> is_nd c"
  by (simp add: is_nd_def digit_value_ascii)

fun digits_value :: "int \<Rightarrow> pystr \<Rightarrow> int" where
  "digits_value acc [] = acc"
| "digits_value acc (c # cs) = digits_value (10 * acc + (case digit_value c of None \<Rightarrow> 0 | Some v \<Rightarrow> v)) cs"

section \<open>The Decimal constructor\<close>

datatype decimal = Fin rat | Infinite bool | NaN

definition parse_exponent :: "pystr \<Rightarrow> int option" where
  "parse_exponent s = (case s of [] \<Rightarrow> None | c # r \<Rightarrow>
     let (neg, ds) = (if c = 45 then (True, r) else if c = 43 then (False, r) else (False, s)) in
     if ds = [] \<or> (\<exists>d \<in> set ds. \<not> is_nd d) then None
     else Some (if neg then - digits_value 0 ds else digits_value 0 ds))"

definition parse_decimal :: "pystr \<Rightarrow> decimal option" where
  "parse_decimal text =
     (let t = filter (\<lambda>c. c \<noteq> 95) (py_strip text);
          (neg, u) = (case t of [] \<Rightarrow> (False, []) | c # r \<Rightarrow>
             if c = 45 then (True, r) else if c = 43 then (False, r) else (False, t));
          l = py_lower u;
          l' = (if take 1 l = py ''s'' then drop 1 l else l)
      in if l = py ''inf'' \<or> l = py ''infinity'' then Some (Infinite neg)
         else if take 3 l' = py ''nan'' \<and> (\<forall>c \<in> set (drop 3 l'). is_nd c) then Some NaN
         else
           let ip = takeWhile is_nd u; r = dropWhile is_nd u;
               (fp, r2) = (case r of [] \<Rightarrow> ([], []) | c # r' \<Rightarrow>
                  if c = 46 then (takeWhile is_nd r', dropWhile is_nd r') else ([], r));
               n = digits_value 0 (ip @ fp);
               m = (\<lambda>e. of_int (if neg then - n else n) * 10 powi (e - int (length fp)))
           in if ip = [] \<and> fp = [] then None
              else (case r2 of [] \<Rightarrow> Some (Fin (m 0))
                    | c # r3 \<Rightarrow> if c = 101 \<or> c = 69 then map_option (\<lambda>e. Fin (m e)) (parse_exponent r3) else None))"

section \<open>Numeric fields\<close>

text \<open>A numeric argument is a finite \<^verbatim>\<open>Decimal\<close> (or an \<^verbatim>\<open>int\<close>), for which \<^verbatim>\<open>Decimal(str(v))\<close> is the
  value itself, or anything else, of which the code only uses \<^verbatim>\<open>str(v)\<close>.\<close>

datatype num_arg = ADec rat | AText pystr

definition decimal_of :: "num_arg \<Rightarrow> decimal option" where
  "decimal_of a = (case a of ADec q \<Rightarrow> Some (Fin q) | AText t \<Rightarrow> parse_decimal t)"

text \<open>\<^verbatim>\<open>as_decimal(value, field=...)\<close> of \<^verbatim>\<open>account/contracts.py\<close>; the modules of \<^verbatim>\<open>advisory/\<close> carry
  the same function as \<^verbatim>\<open>_decimal\<close>.\<close>

definition as_decimal :: "num_arg \<Rightarrow> string \<Rightarrow> rat result" where
  "as_decimal value field = (case decimal_of value of
       None \<Rightarrow> Inl (ValueError (field @ '' must be a decimal number''))
     | Some (Fin q) \<Rightarrow> Inr q
     | Some _ \<Rightarrow> Inl (ValueError (field @ '' must be finite'')))"

lemma as_decimal_ADec [simp]: "as_decimal (ADec q) f = Inr q"
  by (simp add: as_decimal_def decimal_of_def)

lemma as_decimal_error: "as_decimal a f = Inl e \<Longrightarrow> is_value_error e"
  by (auto simp: as_decimal_def split: option.splits decimal.splits)

text \<open>\<^verbatim>\<open>Decimal(str(value))\<close> called directly: the text is not caught when it is no number.\<close>

definition bare_decimal :: "num_arg \<Rightarrow> decimal result" where
  "bare_decimal value = (case decimal_of value of None \<Rightarrow> Inl InvalidOperation | Some d \<Rightarrow> Inr d)"

text \<open>Whether a text occurs in another: \<^verbatim>\<open>t in s\<close>.\<close>

fun py_contains :: "pystr \<Rightarrow> pystr \<Rightarrow> bool" where
  "py_contains t [] = (t = [])"
| "py_contains t (c # s) = (take (length t) (c # s) = t \<or> py_contains t s)"

end
