(* ===== verification/Symbols.thy ===== *)
theory Symbols
  imports Py_Text
begin

text \<open>
  Security codes: \<^verbatim>\<open>normalize_symbol\<close> (\<^verbatim>\<open>data/normalization.py\<close>), the provider-neutral identifiers of
  \<^verbatim>\<open>contracts/identifiers.py\<close>, the exchange classes used for fees and universes, the price rule of
  \<^verbatim>\<open>data/market_rules.py\<close> and the data modes of \<^verbatim>\<open>contracts/modes.py\<close>.
\<close>

section \<open>normalize\_symbol\<close>

definition six_digits :: "pystr \<Rightarrow> bool" where
  "six_digits p \<longleftrightarrow> length p = 6 \<and> (\<forall>c \<in> set p. is_nd c)"

definition is_AZ :: "int \<Rightarrow> bool" where
  "is_AZ c \<longleftrightarrow> 65 \<le> c \<and> c \<le> 90"

definition normalize_symbol :: "pystr \<Rightarrow> pystr result" where
  "normalize_symbol value =
     (let text = filter (\<lambda>c. c \<noteq> 32) (py_upper (py_strip value));
          candidates = filter (\<lambda>p. p \<noteq> []) (py_split 46 text);
          numeric = find six_digits candidates
      in case numeric of
           Some p \<Rightarrow> Inr p
         | None \<Rightarrow>
             if length text = 8 \<and> (\<forall>c \<in> set (take 2 text). is_AZ c) \<and> six_digits (drop 2 text)
             then Inr (drop 2 text)
             else Inl (DataValidationError ''invalid A-share symbol''))"

lemma normalize_symbol_six: "normalize_symbol v = Inr s \<Longrightarrow> six_digits s"
  by (auto simp: normalize_symbol_def Let_def find_Some_iff split: option.splits if_splits)

lemma normalize_symbol_error: "normalize_symbol v = Inl e \<Longrightarrow> is_value_error e"
  by (auto simp: normalize_symbol_def Let_def split: option.splits if_splits)

lemma nd_not_special: "is_nd c \<Longrightarrow> \<not> py_isspace c \<and> c \<noteq> 32 \<and> c \<noteq> 46 \<and> \<not> (97 \<le> c \<and> c \<le> 122)"
proof -
  assume "is_nd c"
  then obtain s t where "filter (\<lambda>s. s \<le> c \<and> c < s + 10) nd_starts = s # t"
    by (auto simp: is_nd_def digit_value_def split: list.splits)
  then have "s \<in> set (filter (\<lambda>s. s \<le> c \<and> c < s + 10) nd_starts)" by simp
  then have s: "s \<in> set nd_starts" "s \<le> c" "c < s + 10" by simp_all
  have "\<forall>s \<in> set nd_starts. s = 0x30 \<or> 0x660 \<le> s \<and> s \<le> 0x1090 \<or> 0x17E0 \<le> s \<and> s \<le> 0x1C50 \<or> 0xA620 \<le> s"
    by (simp add: nd_starts_def)
  with s(1) have "s = 0x30 \<or> 0x660 \<le> s \<and> s \<le> 0x1090 \<or> 0x17E0 \<le> s \<and> s \<le> 0x1C50 \<or> 0xA620 \<le> s" by blast
  with s(2,3) show ?thesis by (auto simp: py_isspace_def)
qed

lemma py_split_no_sep: "c \<notin> set s \<Longrightarrow> py_split c s = [s]"
  by (induction s) auto

text \<open>A canonical code is its own normal form.\<close>

lemma normalize_symbol_fixed:
  assumes "six_digits s"
  shows "normalize_symbol s = Inr s"
proof -
  have nd: "\<forall>c \<in> set s. is_nd c" and len: "length s = 6" using assms by (auto simp: six_digits_def)
  have "py_strip s = s"
  proof -
    have "dropWhile py_isspace s = s"
      using nd nd_not_special by (intro dropWhile_eq_self) (metis list.set_sel(1))
    moreover have "dropWhile py_isspace (rev s) = rev s"
      using nd nd_not_special by (intro dropWhile_eq_self) (metis list.set_sel(1) set_rev)
    ultimately show ?thesis by (simp add: py_strip_def)
  qed
  moreover have "py_upper s = s"
    unfolding py_upper_def using nd nd_not_special by (intro map_idI) auto
  moreover have "filter (\<lambda>c. c \<noteq> 32) s = s"
    using nd nd_not_special by (intro filter_True) auto
  moreover have "py_split 46 s = [s]" using nd nd_not_special by (intro py_split_no_sep) auto
  moreover have "s \<noteq> []" using len by auto
  ultimately show ?thesis using assms by (simp add: normalize_symbol_def Let_def)
qed

lemma normalize_symbol_idem:
  "normalize_symbol v = Inr s \<Longrightarrow> normalize_symbol s = Inr s"
  by (rule normalize_symbol_fixed) (rule normalize_symbol_six)

section \<open>Exchanges and identifiers\<close>

text \<open>\<^verbatim>\<open>exchange_for_symbol\<close> of \<^verbatim>\<open>account/contracts.py\<close>.\<close>

datatype fee_exchange = SSE | SZSE

definition exchange_of :: "pystr \<Rightarrow> fee_exchange" where
  "exchange_of normalized = (if py_startswith normalized [py ''5'', py ''6'', py ''9''] then SSE else SZSE)"

definition exchange_for_symbol :: "pystr \<Rightarrow> fee_exchange result" where
  "exchange_for_symbol symbol = bindR (normalize_symbol symbol) (\<lambda>n. Inr (exchange_of n))"

text \<open>\<^verbatim>\<open>_infer_exchange\<close> of \<^verbatim>\<open>data/normalization.py\<close>.\<close>

definition infer_exchange :: "pystr \<Rightarrow> pystr" where
  "infer_exchange symbol =
     (if py_startswith symbol [py ''6''] then py ''SH''
      else if py_startswith symbol [py ''0'', py ''3''] then py ''SZ''
      else if py_startswith symbol [py ''4'', py ''8'', py ''9''] then py ''BJ''
      else py ''UNKNOWN'')"

datatype asset_type = EQUITY | INDEX
datatype vendor = AKSHARE | TUSHARE | RQDATA | QLIB

record security_identifier =
  si_symbol :: pystr
  si_exchange :: pystr
  si_asset_type :: asset_type

definition asset_type_of :: "pystr \<Rightarrow> asset_type result" where
  "asset_type_of v = (if v = py ''EQUITY'' then Inr EQUITY else if v = py ''INDEX'' then Inr INDEX
     else Inl (ValueError ''not a valid AssetType''))"

definition make_security_identifier :: "pystr \<Rightarrow> pystr \<Rightarrow> pystr \<Rightarrow> security_identifier result" where
  "make_security_identifier symbol exchange asset =
     bindR (normalize_symbol symbol) (\<lambda>s.
     let x = py_upper (py_strip exchange) in
     bindR (asset_type_of asset) (\<lambda>a.
     if x \<notin> {py ''SSE'', py ''SZSE'', py ''BSE''} then Inl (ValueError ''unsupported exchange'')
     else Inr \<lparr>si_symbol = s, si_exchange = x, si_asset_type = a\<rparr>))"

definition is_tradable_equity :: "security_identifier \<Rightarrow> bool" where
  "is_tradable_equity i \<longleftrightarrow> si_asset_type i = EQUITY"

definition require_tradable_equity :: "security_identifier \<Rightarrow> security_identifier result" where
  "require_tradable_equity i =
     (if \<not> is_tradable_equity i then Inl (ValueError ''security identifier is not a tradable equity'') else Inr i)"

text \<open>\<^verbatim>\<open>_exchange_suffix\<close>: the (tushare, rqdata, qlib) spellings; an unknown exchange is a
  \<^verbatim>\<open>KeyError\<close>.\<close>

definition exchange_suffix :: "pystr \<Rightarrow> (pystr \<times> pystr \<times> pystr) result" where
  "exchange_suffix x =
     (if x = py ''SSE'' then Inr (py ''SH'', py ''XSHG'', py ''SH'')
      else if x = py ''SZSE'' then Inr (py ''SZ'', py ''XSHE'', py ''SZ'')
      else if x = py ''BSE'' then Inr (py ''BJ'', py ''XBSE'', py ''BJ'')
      else Inl KeyError)"

record vendor_identifier =
  vi_symbol :: pystr
  vi_exchange :: pystr
  vi_asset_type :: asset_type
  vi_vendor :: vendor
  vi_vendor_symbol :: pystr

definition adapt :: "security_identifier \<Rightarrow> vendor \<Rightarrow> vendor_identifier result" where
  "adapt i v = bindR (exchange_suffix (si_exchange i)) (\<lambda>(ts, rq, ql).
     Inr \<lparr>vi_symbol = si_symbol i, vi_exchange = si_exchange i, vi_asset_type = si_asset_type i,
          vi_vendor = v,
          vi_vendor_symbol = (case v of AKSHARE \<Rightarrow> si_symbol i
             | TUSHARE \<Rightarrow> si_symbol i @ py ''.'' @ ts
             | RQDATA \<Rightarrow> si_symbol i @ py ''.'' @ rq
             | QLIB \<Rightarrow> ql @ si_symbol i)\<rparr>)"

section \<open>Price rules and data modes\<close>

record security_price_rule =
  tick_size :: rat
  rule_lot_size :: int
  daily_limit :: rat

text \<open>The flags mapping: the truth value of the four exclusion flags, the board text if present, and
  whether one of the override keys is present.\<close>

record security_flags =
  flag_st :: bool
  flag_ipo :: bool
  flag_delisting :: bool
  flag_suspended :: bool
  flag_board :: "pystr option"
  flag_override :: bool

definition no_flags :: security_flags where
  "no_flags = \<lparr>flag_st = False, flag_ipo = False, flag_delisting = False, flag_suspended = False,
     flag_board = None, flag_override = False\<rparr>"

definition resolve_security_rule :: "pystr \<Rightarrow> security_flags \<Rightarrow> security_price_rule result" where
  "resolve_security_rule symbol flags =
     bindR (normalize_symbol symbol) (\<lambda>normalized.
     if \<not> py_startswith normalized (map py [''000'', ''001'', ''002'', ''003'', ''300'', ''600'', ''601'', ''603'', ''605''])
     then Inl UnsupportedSecurityRules
     else if flag_st flags \<or> flag_ipo flags \<or> flag_delisting flags \<or> flag_suspended flags
     then Inl UnsupportedSecurityRules
     else let board = py_upper (case flag_board flags of None \<Rightarrow> py ''A_SHARE'' | Some b \<Rightarrow> b) in
     if board \<notin> {py ''A_SHARE'', py ''MAIN'', py ''SZSE'', py ''SSE''} then Inl UnsupportedSecurityRules
     else if flag_override flags then Inl UnsupportedSecurityRules
     else Inr \<lparr>tick_size = 1 / 100, rule_lot_size = 100, daily_limit = 1 / 10\<rparr>)"

lemma resolve_security_rule_value:
  "resolve_security_rule s f = Inr r \<Longrightarrow> r = \<lparr>tick_size = 1 / 100, rule_lot_size = 100, daily_limit = 1 / 10\<rparr>"
  by (auto simp: resolve_security_rule_def Let_def bindR_Inr_iff split: if_splits)

datatype data_mode = fixture | historical | paper

definition validate_data_mode :: "pystr \<Rightarrow> data_mode result" where
  "validate_data_mode value = (let mode = py_lower (py_strip value) in
     if mode = py ''fixture'' then Inr fixture
     else if mode = py ''historical'' then Inr historical
     else if mode = py ''paper'' then Inr paper
     else Inl (ValueError ''data_mode must be one of: fixture, historical, paper''))"

lemma validate_data_mode_error: "validate_data_mode v = Inl e \<Longrightarrow> is_value_error e"
  by (auto simp: validate_data_mode_def Let_def split: if_splits)

end
