(* ===== verification/Py_Time.thy ===== *)
theory Py_Time
  imports Py_Prelude
begin

text \<open>
  The \<^verbatim>\<open>datetime\<close> module as the code uses it.  A \<^verbatim>\<open>date\<close> is its proleptic Gregorian ordinal
  (\<^verbatim>\<open>date.toordinal()\<close>, 1 for 0001-01-01), a \<^verbatim>\<open>datetime\<close> the microseconds of its wall clock since
  that day with the UTC offset of its \<^verbatim>\<open>tzinfo\<close>, if any, and the result of
  \<^verbatim>\<open>astimezone(timezone.utc)\<close> an instant.  The range limits of the module (years 1 to 9999) are
  not modelled.
\<close>

section \<open>Dates\<close>

type_synonym date = int

definition is_leap :: "int \<Rightarrow> bool" where
  "is_leap y \<longleftrightarrow> y mod 4 = 0 \<and> (y mod 100 \<noteq> 0 \<or> y mod 400 = 0)"

definition days_before_year :: "int \<Rightarrow> int" where
  "days_before_year y = (let z = y - 1 in z * 365 + z div 4 - z div 100 + z div 400)"

definition days_before_month :: "int \<Rightarrow> int \<Rightarrow> int" where
  "days_before_month y m =
     [0, 0, 31, 59, 90, 120, 151, 181, 212, 243, 273, 304, 334] ! nat m
       + (if m > 2 \<and> is_leap y then 1 else 0)"

definition ymd :: "int \<Rightarrow> int \<Rightarrow> int \<Rightarrow> date" where
  "ymd y m d = days_before_year y + days_before_month y m + d"

text \<open>\<^verbatim>\<open>d.year == y\<close>.\<close>

definition in_year :: "int \<Rightarrow> date \<Rightarrow> bool" where
  "in_year y d \<longleftrightarrow> days_before_year y < d \<and> d \<le> days_before_year (y + 1)"

text \<open>\<^verbatim>\<open>date.weekday()\<close>: Monday is 0.\<close>

definition weekday :: "date \<Rightarrow> int" where
  "weekday d = (d + 6) mod 7"

lemma weekday_range: "0 \<le> weekday d" "weekday d \<le> 6"
proof -
  show "0 \<le> weekday d" by (simp add: weekday_def)
  have "weekday d < 7" by (simp add: weekday_def)
  then show "weekday d \<le> 6" by simp
qed

lemma weekday_Suc: "weekday (d + 1) = (if weekday d = 6 then 0 else weekday d + 1)"
proof -
  have "weekday (d + 1) = (weekday d + 1) mod 7"
    using mod_add_left_eq[of "d + 6" 7 1] by (simp only: weekday_def add.commute add.left_commute add.assoc)
  then show ?thesis using weekday_range[of d] by (auto simp: mod_pos_pos_trivial)
qed

lemma weekday_pred: "weekday (d - 1) = (if weekday d = 0 then 6 else weekday d - 1)"
  using weekday_Suc[of "d - 1"] weekday_range[of "d - 1"] by auto

section \<open>Instants\<close>

datatype utc = UTC (micros: int)

instantiation utc :: linorder
begin
definition less_eq_utc :: "utc \<Rightarrow> utc \<Rightarrow> bool" where "less_eq_utc a b = (micros a \<le> micros b)"
definition less_utc :: "utc \<Rightarrow> utc \<Rightarrow> bool" where "less_utc a b = (micros a < micros b)"
instance by standard (auto simp: less_eq_utc_def less_utc_def utc.expand)
end

lemmas utc_order = less_eq_utc_def less_utc_def

record datetime =
  dt_local :: int
  dt_offset :: "int option"

definition micros_per_day :: int where "micros_per_day = 86400000000"
definition micros_per_second :: int where "micros_per_second = 1000000"

definition is_aware :: "datetime \<Rightarrow> bool" where
  "is_aware t \<longleftrightarrow> dt_offset t \<noteq> None"

text \<open>\<^verbatim>\<open>t.astimezone(timezone.utc)\<close> of an aware datetime.\<close>

definition instant :: "datetime \<Rightarrow> utc" where
  "instant t = UTC (dt_local t - (case dt_offset t of None \<Rightarrow> 0 | Some f \<Rightarrow> f))"

definition as_utc :: "datetime \<Rightarrow> string \<Rightarrow> utc result" where
  "as_utc t field = (if is_aware t then Inr (instant t) else Inl (ValueError (field @ '' must be timezone-aware'')))"

definition utc_datetime :: "utc \<Rightarrow> datetime" where
  "utc_datetime u = \<lparr>dt_local = micros u, dt_offset = Some 0\<rparr>"

definition utc_date :: "utc \<Rightarrow> date" where
  "utc_date u = micros u div micros_per_day + 1"

definition utc_midnight :: "date \<Rightarrow> utc" where
  "utc_midnight d = UTC ((d - 1) * micros_per_day)"

definition utc_add :: "utc \<Rightarrow> int \<Rightarrow> utc" where
  "utc_add u n = UTC (micros u + n)"

text \<open>\<^verbatim>\<open>astimezone(ZoneInfo("Asia/Shanghai"))\<close>: the zone has been at UTC+8 without daylight saving
  since September 1991, which is the only period the program deals with.\<close>

definition shanghai_local :: "datetime \<Rightarrow> int" where
  "shanghai_local t = micros (instant t) + 8 * 3600 * micros_per_second"

definition local_date :: "int \<Rightarrow> date" where
  "local_date l = l div micros_per_day + 1"

definition local_time :: "int \<Rightarrow> int" where
  "local_time l = l mod micros_per_day"

text \<open>A \<^verbatim>\<open>time(h, m)\<close> as microseconds of the day.\<close>

definition hm :: "int \<Rightarrow> int \<Rightarrow> int" where
  "hm h m = (h * 3600 + m * 60) * micros_per_second"

lemma instant_utc_datetime [simp]: "instant (utc_datetime u) = u"
  by (cases u) (simp add: instant_def utc_datetime_def)

lemma is_aware_utc_datetime [simp]: "is_aware (utc_datetime u)"
  by (simp add: is_aware_def utc_datetime_def)

lemma as_utc_Inr_iff [result_simps]: "as_utc t f = Inr u \<longleftrightarrow> is_aware t \<and> u = instant t"
  by (auto simp: as_utc_def)

lemma utc_date_midnight [simp]: "utc_date (utc_midnight d) = d"
  by (simp add: utc_date_def utc_midnight_def micros_per_day_def)

lemma utc_date_mono: "a \<le> b \<Longrightarrow> utc_date a \<le> utc_date b"
  by (simp add: utc_order utc_date_def zdiv_mono1 micros_per_day_def)

end
