(* ===== verification/Account_Contracts.thy ===== *)
theory Account_Contracts
  imports Symbols Py_Time
begin

text \<open>
  \<^verbatim>\<open>account/contracts.py\<close>: money and price, the fee schedule of a cash account, and the immutable
  records of the ledger.  A dataclass whose \<^verbatim>\<open>__post_init__\<close> validates and normalizes its fields is a
  record with a constructor function into \<open>result\<close>.
\<close>

section \<open>Money and prices\<close>

definition money :: "rat \<Rightarrow> rat result" where
  "money x = quantize 2 ROUND_HALF_UP x"

definition price :: "rat \<Rightarrow> rat result" where
  "price x = quantize 4 ROUND_HALF_UP x"

definition money_arg :: "num_arg \<Rightarrow> rat result" where
  "money_arg v = bindR (as_decimal v ''money'') money"

definition price_arg :: "num_arg \<Rightarrow> rat result" where
  "price_arg v = bindR (as_decimal v ''price'') price"

lemma money_grid: "money x = Inr y \<Longrightarrow> on_grid 2 y"
  unfolding money_def by (rule quantize_grid)

lemma money_nonneg: "money x = Inr y \<Longrightarrow> 0 \<le> x \<Longrightarrow> 0 \<le> y"
  unfolding money_def by (rule quantize_nonneg)

lemma money_sub_exact: "on_grid 2 a \<Longrightarrow> on_grid 2 b \<Longrightarrow> money (dsub a b) = Inr y \<Longrightarrow> y = a - b"
  unfolding money_def dsub_def by (rule quantize_sub_exact)

lemma money_add_exact: "on_grid 2 a \<Longrightarrow> on_grid 2 b \<Longrightarrow> money (dadd a b) = Inr y \<Longrightarrow> y = a + b"
  unfolding money_def dadd_def by (rule quantize_add_exact)

lemma money_on_grid: "on_grid 2 x \<Longrightarrow> money x = Inr x"
  unfolding money_def by (rule quantize_on_grid)

lemma money_0 [simp]: "money 0 = Inr 0"
  by (rule money_on_grid) simp

section \<open>Fees\<close>

datatype trade_side = BUY | SELL

record fee_breakdown =
  commission :: rat
  stamp_duty :: rat
  transfer_fee :: rat

definition fee_total :: "fee_breakdown \<Rightarrow> rat result" where
  "fee_total f = money (dadd (dadd (commission f) (stamp_duty f)) (transfer_fee f))"

record fee_schedule =
  commission_rate :: rat
  minimum_commission :: rat
  sell_stamp_duty_rate :: rat
  sse_transfer_fee_rate :: rat

definition default_fees :: fee_schedule where
  "default_fees = \<lparr>commission_rate = 3 / 10000, minimum_commission = 5,
     sell_stamp_duty_rate = 5 / 10000, sse_transfer_fee_rate = 1 / 100000\<rparr>"

definition fee_rate :: "num_arg \<Rightarrow> string \<Rightarrow> rat result" where
  "fee_rate v name = bindR (as_decimal v name) (\<lambda>x.
     if x < 0 then Inl (ValueError (name @ '' must be non-negative'')) else Inr x)"

definition make_fee_schedule :: "num_arg \<Rightarrow> num_arg \<Rightarrow> num_arg \<Rightarrow> num_arg \<Rightarrow> fee_schedule result" where
  "make_fee_schedule a b c d =
     bindR (fee_rate a ''commission_rate'') (\<lambda>x.
     bindR (fee_rate b ''minimum_commission'') (\<lambda>y.
     bindR (fee_rate c ''sell_stamp_duty_rate'') (\<lambda>z.
     bindR (fee_rate d ''sse_transfer_fee_rate'') (\<lambda>w.
     Inr \<lparr>commission_rate = x, minimum_commission = y, sell_stamp_duty_rate = z, sse_transfer_fee_rate = w\<rparr>))))"

definition calculate_fees :: "fee_schedule \<Rightarrow> trade_side \<Rightarrow> pystr \<Rightarrow> rat \<Rightarrow> fee_breakdown result" where
  "calculate_fees fs side symbol notional =
     (if notional \<le> 0 then Inl (ValueError ''notional must be positive'')
      else
        bindR (money (max (dmul notional (commission_rate fs)) (minimum_commission fs))) (\<lambda>c.
        bindR (if side = SELL then money (dmul notional (sell_stamp_duty_rate fs)) else Inr 0) (\<lambda>s.
        bindR (exchange_for_symbol symbol) (\<lambda>x.
        bindR (if x = SSE then money (dmul notional (sse_transfer_fee_rate fs)) else Inr 0) (\<lambda>t.
        Inr \<lparr>commission = c, stamp_duty = s, transfer_fee = t\<rparr>)))))"

definition fees_ok :: "fee_schedule \<Rightarrow> bool" where
  "fees_ok fs \<longleftrightarrow> 0 \<le> commission_rate fs \<and> 0 \<le> minimum_commission fs
     \<and> 0 \<le> sell_stamp_duty_rate fs \<and> 0 \<le> sse_transfer_fee_rate fs"

lemma make_fee_schedule_ok: "make_fee_schedule a b c d = Inr fs \<Longrightarrow> fees_ok fs"
  by (auto simp: make_fee_schedule_def fee_rate_def fees_ok_def bindR_Inr_iff split: if_splits)

lemma default_fees_ok: "fees_ok default_fees" by (simp add: fees_ok_def default_fees_def)

lemma calculate_fees_grid:
  assumes "calculate_fees fs side cd n = Inr f"
  shows "on_grid 2 (commission f)" "on_grid 2 (stamp_duty f)" "on_grid 2 (transfer_fee f)"
  using assms by (auto simp: calculate_fees_def bindR_Inr_iff dest: money_grid split: if_splits)

lemma calculate_fees_nonneg:
  assumes "calculate_fees fs side cd n = Inr f" "fees_ok fs"
  shows "0 \<le> commission f" "0 \<le> stamp_duty f" "0 \<le> transfer_fee f"
  using assms
  by (auto simp: calculate_fees_def fees_ok_def bindR_Inr_iff le_max_iff_disj
      dest!: money_nonneg intro!: dmul_nonneg split: if_splits)

text \<open>The total that the code adds up in the 28-digit context is the exact sum.\<close>

lemma fee_total_exact:
  assumes "calculate_fees fs side cd n = Inr f" "fees_ok fs" "fee_total f = Inr t"
  shows "t = commission f + stamp_duty f + transfer_fee f"
  using quantize_add3_exact[of 2 "commission f" "stamp_duty f" "transfer_fee f" ROUND_HALF_UP t]
    calculate_fees_grid[OF assms(1)] calculate_fees_nonneg[OF assms(1,2)] assms(3)
  by (simp add: fee_total_def money_def)

lemma fee_total_minimum:
  assumes "calculate_fees fs side cd n = Inr f" "fees_ok fs" "fee_total f = Inr t"
    and "money (minimum_commission fs) = Inr m"
  shows "m \<le> t"
proof -
  from assms(1) obtain x where "money (max x (minimum_commission fs)) = Inr (commission f)"
    by (auto simp: calculate_fees_def bindR_Inr_iff split: if_splits)
  then have "m \<le> commission f"
    by (rule quantize_mono [OF max.cobounded2 assms(4) [unfolded money_def], folded money_def])
  with fee_total_exact[OF assms(1-3)] calculate_fees_nonneg[OF assms(1,2)] show ?thesis by simp
qed

section \<open>Fills and corrections\<close>

record fill =
  event_id :: pystr
  side :: trade_side
  symbol :: pystr
  quantity :: int
  fill_price :: rat
  trade_date :: date
  fill_name :: pystr
  source :: pystr
  recorded_at :: utc

datatype side_arg = Side trade_side | SideText pystr

definition trade_side_of :: "pystr \<Rightarrow> trade_side result" where
  "trade_side_of t = (if t = py ''BUY'' then Inr BUY else if t = py ''SELL'' then Inr SELL
     else Inl (ValueError ''not a valid TradeSide''))"

definition parse_side :: "side_arg \<Rightarrow> trade_side result" where
  "parse_side a = (case a of Side s \<Rightarrow> Inr s | SideText t \<Rightarrow> trade_side_of (py_upper t))"

text \<open>\<open>now\<close> is the clock reading that replaces a missing \<^verbatim>\<open>recorded_at\<close>.\<close>

definition make_fill ::
  "datetime \<Rightarrow> pystr \<Rightarrow> side_arg \<Rightarrow> pystr \<Rightarrow> int \<Rightarrow> num_arg \<Rightarrow> date \<Rightarrow> pystr \<Rightarrow> pystr \<Rightarrow> datetime option \<Rightarrow> fill result" where
  "make_fill now eid sd cd q p td nm src rec =
     (if py_strip eid = [] then Inl (ValueError ''event_id is required'')
      else bindR (parse_side sd) (\<lambda>s.
      bindR (normalize_symbol cd) (\<lambda>y.
      if q \<le> 0 then Inl (ValueError ''quantity must be a positive integer'')
      else bindR (price_arg p) (\<lambda>x.
      if x \<le> 0 then Inl (ValueError ''price must be positive'')
      else if py_strip src = [] then Inl (ValueError ''source is required'')
      else bindR (as_utc (case rec of None \<Rightarrow> now | Some r \<Rightarrow> r) ''recorded_at'') (\<lambda>u.
      Inr \<lparr>event_id = py_strip eid, side = s, symbol = y, quantity = q, fill_price = x, trade_date = td,
           fill_name = py_strip nm, source = py_strip src, recorded_at = u\<rparr>)))))"

text \<open>What every constructed fill satisfies.\<close>

definition fill_ok :: "fill \<Rightarrow> bool" where
  "fill_ok e \<longleftrightarrow> event_id e \<noteq> [] \<and> py_strip (event_id e) = event_id e \<and> six_digits (symbol e)
     \<and> 0 < quantity e \<and> 0 < fill_price e \<and> price (fill_price e) = Inr (fill_price e)
     \<and> py_strip (fill_name e) = fill_name e \<and> source e \<noteq> [] \<and> py_strip (source e) = source e"

lemma price_idem: "price x = Inr y \<Longrightarrow> price y = Inr y"
  unfolding price_def by (rule quantize_on_grid) (rule quantize_grid)

lemma make_fill_ok: "make_fill now eid sd cd q p td nm src rec = Inr e \<Longrightarrow> fill_ok e"
  by (auto simp: make_fill_def fill_ok_def bindR_Inr_iff price_arg_def normalize_symbol_six
      dest: price_idem split: if_splits)

text \<open>Reconstructing a fill from its own fields gives the same fill.\<close>

lemma make_fill_fixed:
  "fill_ok e \<Longrightarrow>
   make_fill now (event_id e) (Side (side e)) (symbol e) (quantity e) (ADec (fill_price e)) (trade_date e)
     (fill_name e) (source e) (Some (utc_datetime (recorded_at e))) = Inr e"
  by (simp add: make_fill_def fill_ok_def parse_side_def normalize_symbol_fixed price_arg_def as_utc_def)

definition notional :: "fill \<Rightarrow> rat result" where
  "notional e = money (dmul (fill_price e) (of_int (quantity e)))"

record correction =
  correction_id :: pystr
  original_event_id :: pystr
  replacement :: fill
  corr_recorded_at :: utc

definition make_correction :: "datetime \<Rightarrow> pystr \<Rightarrow> pystr \<Rightarrow> fill \<Rightarrow> datetime option \<Rightarrow> correction result" where
  "make_correction now cid oid rep rec =
     (if py_strip cid = [] \<or> py_strip oid = [] then Inl (ValueError ''correction_id and original_event_id are required'')
      else bindR (as_utc (case rec of None \<Rightarrow> now | Some r \<Rightarrow> r) ''recorded_at'') (\<lambda>u.
        Inr \<lparr>correction_id = py_strip cid, original_event_id = py_strip oid, replacement = rep, corr_recorded_at = u\<rparr>))"

section \<open>Snapshots\<close>

record position_snapshot =
  pos_symbol :: pystr
  pos_name :: pystr
  total_quantity :: int
  available_quantity :: int
  frozen_quantity :: int
  average_cost :: rat

record account_snapshot =
  as_of :: date
  cash :: rat
  realized_pnl :: rat
  positions :: "position_snapshot list"

definition position :: "account_snapshot \<Rightarrow> pystr \<Rightarrow> position_snapshot option result" where
  "position sn cd = bindR (normalize_symbol cd) (\<lambda>n. Inr (find (\<lambda>p. pos_symbol p = n) (positions sn)))"

end
