(* ===== verification/Trading_Calendar.thy ===== *)
theory Trading_Calendar
  imports Py_Time
begin

text \<open>
  \<^verbatim>\<open>market/trading_calendar.py\<close> (the exchange calendar that fails closed outside the published year)
  and the weekday rule of \<^verbatim>\<open>account/ledger.py\<close>, with the interface both give to the code that
  settles trades: the next session strictly after a date.
\<close>

section \<open>The interface\<close>

locale session_calendar =
  fixes is_open :: "date \<Rightarrow> bool result"
    and next_open :: "date \<Rightarrow> date result"
  assumes next_after: "next_open d = Inr s \<Longrightarrow> d < s"
    and next_is_open: "next_open d = Inr s \<Longrightarrow> is_open s = Inr True"
    and next_least: "next_open d = Inr s \<Longrightarrow> d < t \<Longrightarrow> t < s \<Longrightarrow> is_open t = Inr False"
begin

lemma next_mono:
  assumes "next_open d = Inr s" "next_open d' = Inr s'" "d \<le> d'"
  shows "s \<le> s'"
proof (rule ccontr)
  assume "\<not> s \<le> s'"
  then have "is_open s' = Inr False"
    using next_least[OF assms(1), of s'] next_after[OF assms(2)] assms(3) by simp
  with next_is_open[OF assms(2)] show False by simp
qed

lemma next_unique:
  assumes "next_open d = Inr s" "d < t" "is_open t = Inr True"
  shows "s \<le> t"
  using next_least[OF assms(1) assms(2)] assms(3) by (cases "t < s") auto

text \<open>No session lies strictly between two consecutive next sessions.\<close>

lemma next_next_gap:
  assumes "next_open d = Inr s" "next_open s = Inr u" "d < t" "t < u" "is_open t = Inr True"
  shows "t = s"
  using next_unique[OF assms(1,3,5)] next_unique[OF assms(2) _ assms(5)] assms(4)
  by (cases "s < t") auto

end

section \<open>The weekday rule of the ledger\<close>

function next_weekday_from :: "date \<Rightarrow> date" where
  "next_weekday_from c = (if weekday c \<ge> 5 then next_weekday_from (c + 1) else c)"
  by pat_completeness auto
termination
  by (relation "measure (\<lambda>c. nat (if weekday c \<ge> 5 then 7 - weekday c else 0))")
     (auto simp: weekday_Suc le_less_trans [OF weekday_range(2)])

declare next_weekday_from.simps [simp del]

definition next_weekday :: "date \<Rightarrow> date" where
  "next_weekday d = next_weekday_from (d + 1)"

definition weekday_open :: "date \<Rightarrow> bool" where
  "weekday_open d \<longleftrightarrow> weekday d < 5"

lemma next_weekday_from_spec:
  "c \<le> next_weekday_from c \<and> weekday_open (next_weekday_from c)
     \<and> (\<forall>t. c \<le> t \<longrightarrow> t < next_weekday_from c \<longrightarrow> \<not> weekday_open t)"
proof (induction c rule: next_weekday_from.induct)
  case (1 c)
  show ?case
  proof (cases "weekday c \<ge> 5")
    case True
    with 1 have IH: "c + 1 \<le> next_weekday_from (c + 1)" "weekday_open (next_weekday_from (c + 1))"
      "\<forall>t. c + 1 \<le> t \<longrightarrow> t < next_weekday_from (c + 1) \<longrightarrow> \<not> weekday_open t" by auto
    have "\<not> weekday_open t" if "c \<le> t" "t < next_weekday_from (c + 1)" for t
      using that IH(3) True by (cases "t = c") (auto simp: weekday_open_def)
    with IH True show ?thesis by (simp add: next_weekday_from.simps [of c])
  qed (simp add: next_weekday_from.simps [of c] weekday_open_def)
qed

interpretation wk: session_calendar "\<lambda>d. Inr (weekday_open d)" "\<lambda>d. Inr (next_weekday d)"
proof (unfold_locales, goal_cases)
  case (1 d s)
  then show ?case using next_weekday_from_spec[of "d + 1"] by (auto simp: next_weekday_def)
next
  case (2 d s)
  then show ?case using next_weekday_from_spec[of "d + 1"] by (auto simp: next_weekday_def)
next
  case (3 d s t)
  then show ?case using next_weekday_from_spec[of "d + 1"] by (auto simp: next_weekday_def)
qed

lemma next_weekday_bound: "next_weekday d \<le> d + 3"
proof -
  have "weekday (d + 1) < 5 \<or> weekday (d + 2) < 5 \<or> weekday (d + 3) < 5"
    using weekday_Suc[of d] weekday_Suc[of "d + 1"] weekday_Suc[of "d + 2"] weekday_range(2)[of d]
    by (auto simp: algebra_simps)
  then show ?thesis
    using wk.next_unique[of d "next_weekday d" "d + 1"] wk.next_unique[of d "next_weekday d" "d + 2"]
      wk.next_unique[of d "next_weekday d" "d + 3"] by (auto simp: weekday_open_def)
qed

section \<open>The exchange calendar\<close>

definition closed_2026 :: "date list" where
  "closed_2026 = [ymd 2026 1 1, ymd 2026 1 2]
     @ map (ymd 2026 2) [16, 17, 18, 19, 20, 21, 22, 23]
     @ [ymd 2026 4 6] @ map (ymd 2026 5) [1, 2, 3, 4, 5]
     @ [ymd 2026 6 19, ymd 2026 9 25] @ map (ymd 2026 10) [1, 2, 3, 4, 5, 6, 7]"

record calendar =
  custom :: bool
  closed_dates :: "date list"

definition make_calendar :: "date list option \<Rightarrow> calendar" where
  "make_calendar given = \<lparr>custom = (given \<noteq> None),
     closed_dates = (case given of None \<Rightarrow> closed_2026 | Some ds \<Rightarrow> ds)\<rparr>"

definition is_session :: "calendar \<Rightarrow> date \<Rightarrow> bool result" where
  "is_session cal day =
     (if \<not> custom cal \<and> \<not> in_year 2026 day then Inl CalendarUnavailableError
      else Inr (weekday day < 5 \<and> day \<notin> set (closed_dates cal)))"

text \<open>
  Past the last closed date only weekends are skipped, so the search for a session ends: the
  distance to the last closed date falls, and past it the distance to Monday does.
\<close>

definition last_closed :: "calendar \<Rightarrow> date" where
  "last_closed cal = fold max (closed_dates cal) 0"

definition first_closed :: "calendar \<Rightarrow> date" where
  "first_closed cal = fold min (closed_dates cal) 0"

lemma fold_max_ge: "(a :: int) \<le> fold max xs a \<and> (\<forall>x \<in> set xs. x \<le> fold max xs a)"
proof (induction xs arbitrary: a)
  case (Cons x xs)
  from Cons[of "max x a"] show ?case by auto
qed simp

lemma fold_min_le: "fold min xs (a :: int) \<le> a \<and> (\<forall>x \<in> set xs. fold min xs a \<le> x)"
proof (induction xs arbitrary: a)
  case (Cons x xs)
  from Cons[of "min x a"] show ?case by auto
qed simp

lemma last_closed: "d \<in> set (closed_dates cal) \<Longrightarrow> d \<le> last_closed cal"
  using fold_max_ge[of 0 "closed_dates cal"] by (simp add: last_closed_def)

lemma first_closed: "d \<in> set (closed_dates cal) \<Longrightarrow> first_closed cal \<le> d"
  using fold_min_le[of "closed_dates cal" 0] by (simp add: first_closed_def)

function next_session_from :: "calendar \<Rightarrow> date \<Rightarrow> date result" where
  "next_session_from cal c =
     (case is_session cal c of Inl e \<Rightarrow> Inl e
      | Inr open_day \<Rightarrow> if open_day then Inr c else next_session_from cal (c + 1))"
  by pat_completeness auto
termination
proof (relation "measure (\<lambda>(cal, c). 3 * nat (last_closed cal + 1 - c)
    + nat (if weekday c \<ge> 5 then 7 - weekday c else 0))", goal_cases)
  case (2 cal c s)
  then have "weekday c \<ge> 5 \<or> c \<in> set (closed_dates cal)"
    by (auto simp: is_session_def split: if_splits)
  then show ?case
    using last_closed[of c cal] weekday_range[of c]
    by (cases "c \<le> last_closed cal") (auto simp: weekday_Suc)
qed simp

function previous_session_from :: "calendar \<Rightarrow> date \<Rightarrow> date result" where
  "previous_session_from cal c =
     (case is_session cal c of Inl e \<Rightarrow> Inl e
      | Inr open_day \<Rightarrow> if open_day then Inr c else previous_session_from cal (c - 1))"
  by pat_completeness auto
termination
proof (relation "measure (\<lambda>(cal, c). 3 * nat (c + 1 - first_closed cal)
    + nat (if weekday c \<ge> 5 then weekday c - 4 else 0))", goal_cases)
  case (2 cal c s)
  then have "weekday c \<ge> 5 \<or> c \<in> set (closed_dates cal)"
    by (auto simp: is_session_def split: if_splits)
  then show ?case
    using first_closed[of c cal] weekday_range[of c]
    by (cases "first_closed cal \<le> c") (auto simp: weekday_pred)
qed simp

declare next_session_from.simps [simp del] previous_session_from.simps [simp del]

definition next_session :: "calendar \<Rightarrow> date \<Rightarrow> date result" where
  "next_session cal day = next_session_from cal (day + 1)"

definition previous_session :: "calendar \<Rightarrow> date \<Rightarrow> date result" where
  "previous_session cal day = previous_session_from cal (day - 1)"

definition latest_completed_session :: "calendar \<Rightarrow> datetime \<Rightarrow> int \<Rightarrow> date result" where
  "latest_completed_session cal now close_time =
     (if \<not> is_aware now then Inl (ValueError ''calendar clock must be timezone-aware'')
      else let l = shanghai_local now; day = local_date l in
        bindR (is_session cal day) (\<lambda>open_day.
          if open_day \<and> close_time \<le> local_time l then Inr day else previous_session cal day))"

lemma next_session_from_spec:
  "next_session_from cal c = Inr s \<Longrightarrow>
     c \<le> s \<and> is_session cal s = Inr True \<and> (\<forall>t. c \<le> t \<longrightarrow> t < s \<longrightarrow> is_session cal t = Inr False)"
proof (induction cal c rule: next_session_from.induct)
  case (1 cal c)
  show ?case
  proof (cases "is_session cal c")
    case (Inl e)
    with "1.prems" show ?thesis by (simp add: next_session_from.simps [of cal c])
  next
    case (Inr b)
    show ?thesis
    proof (cases b)
      case True
      with "1.prems" Inr show ?thesis by (simp add: next_session_from.simps [of cal c])
    next
      case False
      with "1.prems" Inr have "next_session_from cal (c + 1) = Inr s"
        by (simp add: next_session_from.simps [of cal c])
      then have IH: "c + 1 \<le> s" "is_session cal s = Inr True"
        "\<forall>t. c + 1 \<le> t \<longrightarrow> t < s \<longrightarrow> is_session cal t = Inr False"
        using "1.IH"[OF Inr] False by auto
      have "is_session cal t = Inr False" if "c \<le> t" "t < s" for t
        using that IH(3) Inr False by (cases "t = c") auto
      with IH show ?thesis by simp
    qed
  qed
qed

lemma previous_session_from_spec:
  "previous_session_from cal c = Inr s \<Longrightarrow>
     s \<le> c \<and> is_session cal s = Inr True \<and> (\<forall>t. s < t \<longrightarrow> t \<le> c \<longrightarrow> is_session cal t = Inr False)"
proof (induction cal c rule: previous_session_from.induct)
  case (1 cal c)
  show ?case
  proof (cases "is_session cal c")
    case (Inl e)
    with "1.prems" show ?thesis by (simp add: previous_session_from.simps [of cal c])
  next
    case (Inr b)
    show ?thesis
    proof (cases b)
      case True
      with "1.prems" Inr show ?thesis by (simp add: previous_session_from.simps [of cal c])
    next
      case False
      with "1.prems" Inr have "previous_session_from cal (c - 1) = Inr s"
        by (simp add: previous_session_from.simps [of cal c])
      then have IH: "s \<le> c - 1" "is_session cal s = Inr True"
        "\<forall>t. s < t \<longrightarrow> t \<le> c - 1 \<longrightarrow> is_session cal t = Inr False"
        using "1.IH"[OF Inr] False by auto
      have "is_session cal t = Inr False" if "s < t" "t \<le> c" for t
        using that IH(3) Inr False by (cases "t = c") auto
      with IH show ?thesis by simp
    qed
  qed
qed

interpretation ash: session_calendar "is_session cal" "next_session cal" for cal
  by (unfold_locales; (use next_session_from_spec [of cal] in \<open>force simp: next_session_def\<close>))

text \<open>With a calendar of its own a search always finds a session; the published calendar either finds
  one in 2026 or reports that it has no evidence.\<close>

lemma next_session_from_error:
  "next_session_from cal c = Inl e \<Longrightarrow> e = CalendarUnavailableError \<and> \<not> custom cal"
proof (induction cal c rule: next_session_from.induct)
  case (1 cal c)
  show ?case
  proof (cases "is_session cal c")
    case (Inl e')
    with "1.prems" show ?thesis
      by (auto simp: next_session_from.simps [of cal c] is_session_def split: if_splits)
  next
    case (Inr b)
    with "1.prems" "1.IH" [OF Inr] show ?thesis
      by (cases b) (simp_all add: next_session_from.simps [of cal c])
  qed
qed

lemma next_session_error:
  "next_session cal d = Inl e \<Longrightarrow> e = CalendarUnavailableError \<and> \<not> custom cal"
  unfolding next_session_def by (rule next_session_from_error)

lemma custom_next_session_total: "custom cal \<Longrightarrow> \<exists>s. next_session cal d = Inr s"
  using next_session_error[of cal d] by (cases "next_session cal d") auto

lemma published_next_session_year:
  "\<not> custom cal \<Longrightarrow> next_session cal d = Inr s \<Longrightarrow> in_year 2026 s"
  using ash.next_is_open[of cal d s] by (auto simp: is_session_def split: if_splits)

end
