(* ===== verification/Account_Ledger.thy ===== *)
theory Account_Ledger
  imports Account_Contracts Trading_Calendar
begin

text \<open>
  \<^verbatim>\<open>account/ledger.py\<close>: the append-only cash account.  The state holds the recorded fills, the
  corrections and the ids they void; every balance is recomputed from the effective fills by
  \<open>snapshot\<close>.  A raised exception leaves the state as it was (the code restores it), so an operation
  is a function from the ledger to the new ledger and a receipt, or to the exception.

  The clock (\<^verbatim>\<open>date.today()\<close>, \<^verbatim>\<open>datetime.now\<close>) and the fresh ids of \<^verbatim>\<open>uuid4\<close> are arguments.
\<close>

section \<open>State\<close>

record lot =
  lot_symbol :: pystr
  lot_name :: pystr
  lot_quantity :: int
  remaining_quantity :: int
  remaining_cost :: rat
  available_from :: date

datatype ledger_record = Fill fill | Corr correction

record ledger =
  initial_cash :: rat
  fees_of :: fee_schedule
  known_instruments :: "(pystr \<times> pystr) list"
  next_trading_day :: "date \<Rightarrow> date result"
  lot_size :: int
  events :: "fill list"
  events_by_id :: "pystr \<rightharpoonup> fill"
  corrections :: "correction list"
  voided :: "pystr list"
  records :: "ledger_record list"

record receipt =
  receipt_event :: fill
  cash_after :: rat
  receipt_position :: position_snapshot
  receipt_pnl :: rat
  idempotent :: bool

fun known_of :: "(pystr \<times> pystr) list \<Rightarrow> (pystr \<times> pystr) list \<Rightarrow> (pystr \<times> pystr) list result" where
  "known_of acc [] = Inr acc"
| "known_of acc ((s, n) # rest) = bindR (normalize_symbol s) (\<lambda>y. known_of (dict_set acc y (py_strip n)) rest)"

definition make_ledger ::
  "num_arg \<Rightarrow> fee_schedule \<Rightarrow> (pystr \<times> pystr) list \<Rightarrow> (date \<Rightarrow> date result) \<Rightarrow> int \<Rightarrow> ledger result" where
  "make_ledger cash0 fs known ntd lots =
     bindR (money_arg cash0) (\<lambda>c.
     if c < 0 then Inl (ValueError ''initial_cash must be non-negative'')
     else if lots \<le> 0 then Inl (ValueError ''lot_size must be positive'')
     else bindR (known_of [] known) (\<lambda>kn.
     if \<exists>(s, n) \<in> set kn. n = [] then Inl (ValueError ''known instrument names cannot be empty'')
     else Inr \<lparr>initial_cash = c, fees_of = fs, known_instruments = kn, next_trading_day = ntd, lot_size = lots,
       events = [], events_by_id = Map.empty, corrections = [], voided = [], records = []\<rparr>))"

section \<open>Replaying the effective fills\<close>

definition event_key :: "fill \<Rightarrow> date \<times> utc \<times> pystr" where
  "event_key e = (trade_date e, recorded_at e, event_id e)"

definition effective_events :: "ledger \<Rightarrow> fill list" where
  "effective_events L = sort_key event_key (filter (\<lambda>e. event_id e \<notin> set (voided L)) (events L))"

record book =
  bk_cash :: rat
  bk_pnl :: rat
  bk_lots :: "(pystr \<times> lot list) list"
  bk_names :: "(pystr \<times> pystr) list"

definition lots_of :: "book \<Rightarrow> pystr \<Rightarrow> lot list" where
  "lots_of b s = (case dict_get (bk_lots b) s of None \<Rightarrow> [] | Some ls \<Rightarrow> ls)"

definition buy_cost :: "fee_schedule \<Rightarrow> fill \<Rightarrow> rat result" where
  "buy_cost fs e = bindR (notional e) (\<lambda>n. bindR (calculate_fees fs (side e) (symbol e) n) (\<lambda>f.
     bindR (fee_total f) (\<lambda>t. money (dadd n t))))"

definition sell_proceeds :: "fee_schedule \<Rightarrow> fill \<Rightarrow> rat result" where
  "sell_proceeds fs e = bindR (notional e) (\<lambda>n. bindR (calculate_fees fs (side e) (symbol e) n) (\<lambda>f.
     bindR (fee_total f) (\<lambda>t. money (dsub n t))))"

definition apply_buy :: "ledger \<Rightarrow> book \<Rightarrow> fill \<Rightarrow> book result" where
  "apply_buy L b e =
     bindR (buy_cost (fees_of L) e) (\<lambda>total_cost.
     if bk_cash b < total_cost then Inl (ValueError ''insufficient cash for this buy'')
     else bindR (money (dsub (bk_cash b) total_cost)) (\<lambda>c.
     bindR (next_trading_day L (trade_date e)) (\<lambda>avail.
     let nm = (if fill_name e \<noteq> [] then fill_name e
               else case dict_get (bk_names b) (symbol e) of None \<Rightarrow> [] | Some n \<Rightarrow> n);
         new_lot = \<lparr>lot_symbol = symbol e, lot_name = fill_name e, lot_quantity = quantity e,
                    remaining_quantity = quantity e, remaining_cost = total_cost, available_from = avail\<rparr>
     in Inr (b\<lparr>bk_cash := c, bk_names := dict_set (bk_names b) (symbol e) nm,
               bk_lots := dict_set (bk_lots b) (symbol e) (lots_of b (symbol e) @ [new_lot])\<rparr>))))"

text \<open>The loop of a sell over the lots of its symbol, oldest first: \<open>r\<close> is still to be sold, \<open>cb\<close> the
  cost basis so far.\<close>

definition allocation :: "lot \<Rightarrow> int \<Rightarrow> rat result" where
  "allocation l tk =
     (if tk = remaining_quantity l then Inr (remaining_cost l)
      else bindR (ddiv (dmul (remaining_cost l) (of_int tk)) (of_int (remaining_quantity l))) money)"

fun consume_lots :: "date \<Rightarrow> int \<Rightarrow> rat \<Rightarrow> lot list \<Rightarrow> (lot list \<times> int \<times> rat) result" where
  "consume_lots td r cb [] = Inr ([], r, cb)"
| "consume_lots td r cb (l # ls) =
     (if td < available_from l \<or> r \<le> 0 \<or> min (remaining_quantity l) r \<le> 0
      then bindR (consume_lots td r cb ls) (\<lambda>(ls', r', cb'). Inr (l # ls', r', cb'))
      else let tk = min (remaining_quantity l) r in
        bindR (allocation l tk) (\<lambda>a.
        bindR (money (dsub (remaining_cost l) a)) (\<lambda>rc.
        bindR (money (dadd cb a)) (\<lambda>cb1.
        bindR (consume_lots td (r - tk) cb1 ls) (\<lambda>(ls', r', cb').
        Inr (l\<lparr>remaining_quantity := remaining_quantity l - tk, remaining_cost := rc\<rparr> # ls', r', cb'))))))"

definition apply_sell :: "ledger \<Rightarrow> book \<Rightarrow> fill \<Rightarrow> book result" where
  "apply_sell L b e =
     bindR (sell_proceeds (fees_of L) e) (\<lambda>proceeds.
     bindR (consume_lots (trade_date e) (quantity e) 0 (lots_of b (symbol e))) (\<lambda>(ls, r, cost_basis).
     if r \<noteq> 0 then Inl (ValueError ''available quantity is insufficient for this sell'')
     else bindR (money (dadd (bk_cash b) proceeds)) (\<lambda>c.
     bindR (money (dsub (dadd (bk_pnl b) proceeds) cost_basis)) (\<lambda>p.
     Inr (b\<lparr>bk_cash := c, bk_pnl := p, bk_lots := dict_set (bk_lots b) (symbol e) ls\<rparr>)))))"

definition apply_event :: "ledger \<Rightarrow> book \<Rightarrow> fill \<Rightarrow> book result" where
  "apply_event L b e = (if side e = BUY then apply_buy L b e else apply_sell L b e)"

definition empty_book :: "ledger \<Rightarrow> book" where
  "empty_book L = \<lparr>bk_cash = initial_cash L, bk_pnl = 0, bk_lots = [], bk_names = []\<rparr>"

definition events_until :: "ledger \<Rightarrow> date \<Rightarrow> fill list" where
  "events_until L d = filter (\<lambda>e. \<not> d < trade_date e) (effective_events L)"

definition book_at :: "ledger \<Rightarrow> date \<Rightarrow> book result" where
  "book_at L d = foldR (apply_event L) (empty_book L) (events_until L d)"

definition position_of :: "date \<Rightarrow> book \<Rightarrow> pystr \<times> lot list \<Rightarrow> position_snapshot result" where
  "position_of d b = (\<lambda>(s, ls).
     let total = sum_list (map remaining_quantity ls);
         avail = sum_list (map remaining_quantity (filter (\<lambda>l. available_from l \<le> d) ls))
     in bindR (money (dsum (map remaining_cost ls))) (\<lambda>total_cost.
        bindR (if total \<noteq> 0 then bindR (ddiv total_cost (of_int total)) (quantize 4 ROUND_HALF_EVEN) else Inr 0) (\<lambda>avg.
        Inr \<lparr>pos_symbol = s, pos_name = (case dict_get (bk_names b) s of None \<Rightarrow> [] | Some n \<Rightarrow> n),
             total_quantity = total, available_quantity = avail, frozen_quantity = total - avail,
             average_cost = avg\<rparr>)))"

definition snapshot :: "ledger \<Rightarrow> date \<Rightarrow> date option \<Rightarrow> account_snapshot result" where
  "snapshot L today asof =
     (let d = (case asof of Some d \<Rightarrow> d | None \<Rightarrow> if events L = [] then today else trade_date (last (events L)))
      in bindR (book_at L d) (\<lambda>b.
         bindR (mapR (position_of d b) (bk_lots b)) (\<lambda>ps.
         Inr \<lparr>as_of = d, cash = bk_cash b, realized_pnl = bk_pnl b, positions = sort_key pos_symbol ps\<rparr>)))"

section \<open>Recording\<close>

definition same_event :: "fill \<Rightarrow> fill \<Rightarrow> bool" where
  "same_event l r \<longleftrightarrow> side l = side r \<and> symbol l = symbol r \<and> quantity l = quantity r
     \<and> fill_price l = fill_price r \<and> trade_date l = trade_date r \<and> fill_name l = fill_name r \<and> source l = source r"

definition empty_position :: "fill \<Rightarrow> position_snapshot" where
  "empty_position e = \<lparr>pos_symbol = symbol e, pos_name = fill_name e, total_quantity = 0,
     available_quantity = 0, frozen_quantity = 0, average_cost = 0\<rparr>"

definition receipt_for :: "ledger \<Rightarrow> fill \<Rightarrow> bool \<Rightarrow> receipt result" where
  "receipt_for L e idem =
     bindR (snapshot L 0 (Some (trade_date e))) (\<lambda>sn.
     bindR (position sn (symbol e)) (\<lambda>p.
     Inr \<lparr>receipt_event = e, cash_after = cash sn,
          receipt_position = (case p of None \<Rightarrow> empty_position e | Some q \<Rightarrow> q),
          receipt_pnl = realized_pnl sn, idempotent = idem\<rparr>))"

definition append_event :: "ledger \<Rightarrow> fill \<Rightarrow> (ledger \<times> receipt) result" where
  "append_event L e =
     (case events_by_id L (event_id e) of
        Some old \<Rightarrow>
          if same_event old e then bindR (receipt_for L old True) (\<lambda>r. Inr (L, r))
          else Inl (ValueError ''event_id already exists with different details'')
      | None \<Rightarrow>
          if \<exists>x \<in> set (events L). trade_date e < trade_date x
          then Inl (ValueError ''trade_date cannot precede the latest recorded event'')
          else let L' = L\<lparr>events := events L @ [e]\<rparr> in
            bindR (receipt_for L' e False) (\<lambda>r.
            Inr (L'\<lparr>events_by_id := (events_by_id L)(event_id e \<mapsto> e), records := records L @ [Fill e]\<rparr>, r)))"

definition validate_name :: "ledger \<Rightarrow> pystr \<Rightarrow> pystr \<Rightarrow> unit result" where
  "validate_name L s n =
     (let nn = py_strip n in
      if nn = [] then Inl (ValueError ''name is required'')
      else case dict_get (known_instruments L) s of
             None \<Rightarrow> Inr ()
           | Some expected \<Rightarrow> if expected \<noteq> nn then Inl (ValueError ''name does not match the stock code'') else Inr ())"

text \<open>The guard shared by \<^verbatim>\<open>record_sell\<close> and \<^verbatim>\<open>record_fill\<close>.\<close>

definition check_available :: "ledger \<Rightarrow> date \<Rightarrow> pystr \<Rightarrow> int \<Rightarrow> position_snapshot result" where
  "check_available L d s q =
     bindR (snapshot L 0 (Some d)) (\<lambda>sn. bindR (position sn s) (\<lambda>p. case p of
         None \<Rightarrow> Inl (ValueError ''available quantity is insufficient for this sell'')
       | Some c \<Rightarrow> if available_quantity c < q then Inl (ValueError ''available quantity is insufficient for this sell'')
                  else Inr c))"

definition record_fill :: "ledger \<Rightarrow> fill \<Rightarrow> (ledger \<times> receipt) result" where
  "record_fill L e =
     bindR (if side e = BUY
            then bindR (validate_name L (symbol e) (fill_name e)) (\<lambda>_.
                 if quantity e mod lot_size L \<noteq> 0
                 then Inl (ValueError ''buy quantity must be a multiple of {self.lot_size}'') else Inr ())
            else bindR (check_available L (trade_date e) (symbol e) (quantity e)) (\<lambda>_. Inr ()))
       (\<lambda>_. append_event L e)"

definition record_buy ::
  "ledger \<Rightarrow> datetime \<Rightarrow> pystr \<Rightarrow> pystr \<Rightarrow> pystr \<Rightarrow> int \<Rightarrow> num_arg \<Rightarrow> date \<Rightarrow> pystr option \<Rightarrow> pystr \<Rightarrow> (ledger \<times> receipt) result" where
  "record_buy L now fresh nm s q p td eid src =
     bindR (make_fill now (case eid of Some i \<Rightarrow> if i \<noteq> [] then i else fresh | None \<Rightarrow> fresh)
              (Side BUY) s q p td nm src None) (record_fill L)"

definition record_sell ::
  "ledger \<Rightarrow> datetime \<Rightarrow> pystr \<Rightarrow> pystr \<Rightarrow> int \<Rightarrow> num_arg \<Rightarrow> date \<Rightarrow> pystr option \<Rightarrow> pystr \<Rightarrow> (ledger \<times> receipt) result" where
  "record_sell L now fresh s q p td eid src =
     bindR (normalize_symbol s) (\<lambda>n.
     bindR (check_available L td n q) (\<lambda>c.
     bindR (make_fill now (case eid of Some i \<Rightarrow> if i \<noteq> [] then i else fresh | None \<Rightarrow> fresh)
              (Side SELL) n q p td (pos_name c) src None) (record_fill L)))"

definition append_correction ::
  "ledger \<Rightarrow> datetime \<Rightarrow> pystr \<Rightarrow> pystr \<Rightarrow> fill \<Rightarrow> pystr option \<Rightarrow> (ledger \<times> receipt) result" where
  "append_correction L now fresh oid rep cid =
     (case events_by_id L oid of
        None \<Rightarrow> Inl (ValueError ''original event does not exist'')
      | Some orig \<Rightarrow>
          if oid \<in> set (voided L) then Inl (ValueError ''original event has already been corrected'')
          else if events_by_id L (event_id rep) \<noteq> None then Inl (ValueError ''replacement event_id already exists'')
          else if side rep \<noteq> side orig \<or> symbol rep \<noteq> symbol orig
          then Inl (ValueError ''replacement must keep the original side and symbol'')
          else if trade_date rep \<noteq> trade_date orig
          then Inl (ValueError ''replacement must keep the original trade_date'')
          else bindR (make_correction now (case cid of Some i \<Rightarrow> if i \<noteq> [] then i else fresh | None \<Rightarrow> fresh) oid rep None) (\<lambda>c.
            let L' = L\<lparr>events := events L @ [rep], events_by_id := (events_by_id L)(event_id rep \<mapsto> rep),
                       corrections := corrections L @ [c], voided := oid # voided L, records := records L @ [Corr c]\<rparr>
            in bindR (receipt_for L' rep False) (\<lambda>r.
               bindR (snapshot L' 0 None) (\<lambda>_. Inr (L', r)))))"

section \<open>Reconstruction from the log\<close>

definition replay_step :: "datetime \<Rightarrow> ledger \<Rightarrow> ledger_record \<Rightarrow> ledger result" where
  "replay_step now L r = (case r of
       Fill e \<Rightarrow> bindR (append_event L e) (\<lambda>(L', _). Inr L')
     | Corr c \<Rightarrow> bindR (append_correction L now [] (original_event_id c) (replacement c) (Some (correction_id c)))
                  (\<lambda>(L', _). Inr L'))"

definition from_records ::
  "datetime \<Rightarrow> num_arg \<Rightarrow> fee_schedule \<Rightarrow> (pystr \<times> pystr) list \<Rightarrow> (date \<Rightarrow> date result) \<Rightarrow> int \<Rightarrow> ledger_record list \<Rightarrow> ledger result" where
  "from_records now cash0 fs known ntd lots rs =
     bindR (make_ledger cash0 fs known ntd lots) (\<lambda>L. foldR (replay_step now) L rs)"

end
