(* ===== verification/Account_Balances.thy ===== *)
theory Account_Balances
  imports Account_Ledger "HOL-Library.Multiset"
begin

text \<open>
  What a snapshot of the ledger says: the cash is the initial cash and the exact cash flows of the
  effective fills, the shares of a position are those bought and not sold, and its frozen shares are
  exactly the buys that have not settled.  Each fact is an invariant of the replay loop.
\<close>

section \<open>Summing over the replay\<close>

lemma sum_list_sort_filter:
  fixes f :: "'a \<Rightarrow> 'b::comm_monoid_add"
  shows "sum_list (map f (filter P (sort_key k xs))) = sum_list (map f (filter P xs))"
proof -
  have "mset (map f (filter P (sort_key k xs))) = mset (map f (filter P xs))" by simp
  then show ?thesis by (metis sum_mset_sum_list)
qed

definition effective :: "ledger \<Rightarrow> fill list" where
  "effective L = filter (\<lambda>e. event_id e \<notin> set (voided L)) (events L)"

definition effective_until :: "ledger \<Rightarrow> date \<Rightarrow> fill list" where
  "effective_until L d = filter (\<lambda>e. trade_date e \<le> d) (effective L)"

lemma events_until_sum:
  fixes f :: "fill \<Rightarrow> 'b::comm_monoid_add"
  shows "sum_list (map f (events_until L d)) = sum_list (map f (effective_until L d))"
  by (simp add: events_until_def effective_events_def effective_until_def effective_def
      sum_list_sort_filter not_less cong: filter_cong)

lemma events_until_set: "set (events_until L d) = set (effective_until L d)"
  by (auto simp: events_until_def effective_events_def effective_until_def effective_def)

lemma lots_of_set [simp]:
  "lots_of (b\<lparr>bk_cash := c, bk_names := n, bk_lots := dict_set (bk_lots b) s ls\<rparr>) s'
     = (if s' = s then ls else lots_of b s')"
  "lots_of (b\<lparr>bk_cash := c, bk_pnl := p, bk_lots := dict_set (bk_lots b) s ls\<rparr>) s'
     = (if s' = s then ls else lots_of b s')"
  by (auto simp: lots_of_def)

section \<open>One buy, one sell\<close>

lemma apply_buy_Inr:
  assumes "apply_buy L b e = Inr b'"
  obtains t a where "buy_cost (fees_of L) e = Inr t" "t \<le> bk_cash b" "money (dsub (bk_cash b) t) = Inr (bk_cash b')"
    "next_trading_day L (trade_date e) = Inr a" "bk_pnl b' = bk_pnl b"
    "\<And>s. lots_of b' s = (if s = symbol e then lots_of b s @
       [\<lparr>lot_symbol = symbol e, lot_name = fill_name e, lot_quantity = quantity e,
         remaining_quantity = quantity e, remaining_cost = t, available_from = a\<rparr>] else lots_of b s)"
    "fst ` set (bk_lots b') = insert (symbol e) (fst ` set (bk_lots b))"
    "distinct (map fst (bk_lots b)) \<longrightarrow> distinct (map fst (bk_lots b'))"
proof -
  from assms obtain t a c where *: "buy_cost (fees_of L) e = Inr t" "t \<le> bk_cash b" "money (dsub (bk_cash b) t) = Inr c"
    "next_trading_day L (trade_date e) = Inr a"
    and b': "b' = b\<lparr>bk_cash := c, bk_names := dict_set (bk_names b) (symbol e)
      (if fill_name e \<noteq> [] then fill_name e else case dict_get (bk_names b) (symbol e) of None \<Rightarrow> [] | Some n \<Rightarrow> n),
      bk_lots := dict_set (bk_lots b) (symbol e) (lots_of b (symbol e) @
       [\<lparr>lot_symbol = symbol e, lot_name = fill_name e, lot_quantity = quantity e,
         remaining_quantity = quantity e, remaining_cost = t, available_from = a\<rparr>])\<rparr>"
    by (auto simp: apply_buy_def bindR_Inr_iff Let_def not_less split: if_splits)
  show thesis
    by (rule that [OF *(1,2) _ *(4)]) (use *(3) in \<open>simp_all add: b' dict_keys_set dict_distinct_set\<close>)
qed

lemma apply_sell_Inr:
  assumes "apply_sell L b e = Inr b'"
  obtains p ls cb where "sell_proceeds (fees_of L) e = Inr p" "money (dadd (bk_cash b) p) = Inr (bk_cash b')"
    "consume_lots (trade_date e) (quantity e) 0 (lots_of b (symbol e)) = Inr (ls, 0, cb)"
    "money (dsub (dadd (bk_pnl b) p) cb) = Inr (bk_pnl b')"
    "\<And>s. lots_of b' s = (if s = symbol e then ls else lots_of b s)"
    "fst ` set (bk_lots b') = insert (symbol e) (fst ` set (bk_lots b))"
    "distinct (map fst (bk_lots b)) \<longrightarrow> distinct (map fst (bk_lots b'))"
proof -
  from assms obtain p ls cb c q where *: "sell_proceeds (fees_of L) e = Inr p"
    "consume_lots (trade_date e) (quantity e) 0 (lots_of b (symbol e)) = Inr (ls, 0, cb)"
    "money (dadd (bk_cash b) p) = Inr c" "money (dsub (dadd (bk_pnl b) p) cb) = Inr q"
    and b': "b' = b\<lparr>bk_cash := c, bk_pnl := q, bk_lots := dict_set (bk_lots b) (symbol e) ls\<rparr>"
    by (auto simp: apply_sell_def bindR_Inr_iff split: if_splits)
  show thesis
    by (rule that [OF *(1) _ *(2)]) (use *(3,4) in \<open>simp_all add: b' dict_keys_set dict_distinct_set\<close>)
qed

section \<open>Cash\<close>

definition cash_flow :: "fee_schedule \<Rightarrow> fill \<Rightarrow> rat" where
  "cash_flow fs e =
     (if side e = BUY then (case buy_cost fs e of Inl _ \<Rightarrow> 0 | Inr c \<Rightarrow> - c)
      else (case sell_proceeds fs e of Inl _ \<Rightarrow> 0 | Inr p \<Rightarrow> p))"

lemma buy_cost_grid: "buy_cost fs e = Inr t \<Longrightarrow> on_grid 2 t"
  by (auto simp: buy_cost_def bindR_Inr_iff dest: money_grid)

lemma sell_proceeds_grid: "sell_proceeds fs e = Inr t \<Longrightarrow> on_grid 2 t"
  by (auto simp: sell_proceeds_def bindR_Inr_iff dest: money_grid)

lemma apply_event_cash:
  assumes "apply_event L b e = Inr b'" "on_grid 2 (bk_cash b)"
  shows "on_grid 2 (bk_cash b') \<and> bk_cash b' = bk_cash b + cash_flow (fees_of L) e"
proof (cases "side e = BUY")
  case True
  with assms(1) have "apply_buy L b e = Inr b'" by (simp add: apply_event_def)
  then obtain t where "buy_cost (fees_of L) e = Inr t" "money (dsub (bk_cash b) t) = Inr (bk_cash b')"
    by (rule apply_buy_Inr)
  with True assms(2) show ?thesis
    using money_sub_exact[of "bk_cash b" t] buy_cost_grid money_grid by (auto simp: cash_flow_def)
next
  case False
  with assms(1) have "apply_sell L b e = Inr b'" by (simp add: apply_event_def)
  then obtain p where "sell_proceeds (fees_of L) e = Inr p" "money (dadd (bk_cash b) p) = Inr (bk_cash b')"
    by (rule apply_sell_Inr)
  with False assms(2) show ?thesis
    using money_add_exact[of "bk_cash b" p] sell_proceeds_grid money_grid by (auto simp: cash_flow_def)
qed

lemma book_cash:
  assumes "book_at L d = Inr b" "on_grid 2 (initial_cash L)"
  shows "bk_cash b = initial_cash L + (\<Sum>e \<leftarrow> effective_until L d. cash_flow (fees_of L) e)"
proof -
  have "on_grid 2 (bk_cash b) \<and> bk_cash b = bk_cash (empty_book L) + sum_list (map (cash_flow (fees_of L)) (events_until L d))"
    using assms(1) unfolding book_at_def
    by (rule foldR_sum) (use assms(2) in \<open>simp add: empty_book_def\<close>, rule apply_event_cash)
  then show ?thesis by (simp add: events_until_sum empty_book_def)
qed

text \<open>The exact amount of a flow: notional plus fees out, notional minus fees in.\<close>

lemma buy_cost_exact:
  assumes "buy_cost fs e = Inr t"
  obtains n f ft where "notional e = Inr n" "calculate_fees fs (side e) (symbol e) n = Inr f"
    "fee_total f = Inr ft" "t = n + ft"
proof -
  from assms obtain n f ft where *: "notional e = Inr n" "calculate_fees fs (side e) (symbol e) n = Inr f"
    "fee_total f = Inr ft" "money (dadd n ft) = Inr t"
    by (auto simp: buy_cost_def bindR_Inr_iff)
  moreover have "on_grid 2 n" "on_grid 2 ft"
    using * by (auto simp: notional_def fee_total_def dest: money_grid)
  ultimately show thesis using that money_add_exact by blast
qed

lemma sell_proceeds_exact:
  assumes "sell_proceeds fs e = Inr t"
  obtains n f ft where "notional e = Inr n" "calculate_fees fs (side e) (symbol e) n = Inr f"
    "fee_total f = Inr ft" "t = n - ft"
proof -
  from assms obtain n f ft where *: "notional e = Inr n" "calculate_fees fs (side e) (symbol e) n = Inr f"
    "fee_total f = Inr ft" "money (dsub n ft) = Inr t"
    by (auto simp: sell_proceeds_def bindR_Inr_iff)
  moreover have "on_grid 2 n" "on_grid 2 ft"
    using * by (auto simp: notional_def fee_total_def dest: money_grid)
  ultimately show thesis using that money_sub_exact by blast
qed

section \<open>Shares\<close>

definition share_flow :: "pystr \<Rightarrow> fill \<Rightarrow> int" where
  "share_flow s e = (if symbol e \<noteq> s then 0 else if side e = BUY then quantity e else - quantity e)"

definition held :: "pystr \<Rightarrow> book \<Rightarrow> int" where
  "held s b = sum_list (map remaining_quantity (lots_of b s))"

definition unsettled :: "date \<Rightarrow> pystr \<Rightarrow> book \<Rightarrow> int" where
  "unsettled d s b = sum_list (map remaining_quantity (filter (\<lambda>l. d < available_from l) (lots_of b s)))"

text \<open>The shares of a buy that are not available on date \<open>d\<close>.\<close>

definition unsettled_flow :: "ledger \<Rightarrow> date \<Rightarrow> pystr \<Rightarrow> fill \<Rightarrow> int" where
  "unsettled_flow L d s e =
     (if symbol e = s \<and> side e = BUY \<and> (case next_trading_day L (trade_date e) of Inl _ \<Rightarrow> False | Inr a \<Rightarrow> d < a)
      then quantity e else 0)"

lemma consume_lots_spec:
  "consume_lots td r cb ls = Inr (ls', r', cb') \<Longrightarrow>
     sum_list (map remaining_quantity ls') = sum_list (map remaining_quantity ls) - (r - r')
     \<and> ((\<forall>l \<in> set ls. 0 \<le> remaining_quantity l) \<longrightarrow> (\<forall>l \<in> set ls'. 0 \<le> remaining_quantity l))
     \<and> (0 \<le> r \<longrightarrow> 0 \<le> r')
     \<and> (td \<le> d \<longrightarrow> filter (\<lambda>l. d < available_from l) ls' = filter (\<lambda>l. d < available_from l) ls)
     \<and> map available_from ls' = map available_from ls"
proof (induction td r cb ls arbitrary: ls' r' cb' rule: consume_lots.induct)
  case (2 td r cb l ls)
  let ?skip = "td < available_from l \<or> r \<le> 0 \<or> min (remaining_quantity l) r \<le> 0"
  show ?case
  proof (cases ?skip)
    case True
    with "2.prems" obtain ls1 where ls1: "consume_lots td r cb ls = Inr (ls1, r', cb')" "ls' = l # ls1"
      by (auto simp: bindR_Inr_iff)
    from "2.IH"(1)[OF True ls1(1)] ls1(2) show ?thesis by auto
  next
    case False
    define tk where "tk = min (remaining_quantity l) r"
    from "2.prems" False obtain a rc cb1 ls1 where
      *: "allocation l tk = Inr a" "money (dsub (remaining_cost l) a) = Inr rc" "money (dadd cb a) = Inr cb1"
        "consume_lots td (r - tk) cb1 ls = Inr (ls1, r', cb')"
        "ls' = l\<lparr>remaining_quantity := remaining_quantity l - tk, remaining_cost := rc\<rparr> # ls1"
      by (auto simp: bindR_Inr_iff Let_def tk_def)
    from "2.IH"(2)[OF False tk_def *(1-4)] False *(5) show ?thesis
      by (auto simp: tk_def min_def split: if_splits)
  qed
qed auto

definition lots_nonneg :: "book \<Rightarrow> bool" where
  "lots_nonneg b \<longleftrightarrow> (\<forall>s. \<forall>l \<in> set (lots_of b s). 0 \<le> remaining_quantity l)"

definition book_ok :: "book \<Rightarrow> bool" where
  "book_ok b \<longleftrightarrow> lots_nonneg b \<and> distinct (map fst (bk_lots b))"

lemma empty_book_ok [simp]: "book_ok (empty_book L)"
  by (simp add: book_ok_def lots_nonneg_def empty_book_def lots_of_def)

lemma apply_event_shares:
  assumes "apply_event L b e = Inr b'" "book_ok b" "trade_date e \<le> d" "0 < quantity e"
  shows "book_ok b' \<and> held s b' = held s b + share_flow s e
    \<and> unsettled d s b' = unsettled d s b + unsettled_flow L d s e"
proof (cases "side e = BUY")
  case True
  with assms(1) have "apply_buy L b e = Inr b'" by (simp add: apply_event_def)
  then obtain t a where *: "next_trading_day L (trade_date e) = Inr a"
    "\<And>s. lots_of b' s = (if s = symbol e then lots_of b s @
       [\<lparr>lot_symbol = symbol e, lot_name = fill_name e, lot_quantity = quantity e,
         remaining_quantity = quantity e, remaining_cost = t, available_from = a\<rparr>] else lots_of b s)"
    "distinct (map fst (bk_lots b)) \<longrightarrow> distinct (map fst (bk_lots b'))"
    by (rule apply_buy_Inr) blast
  with True assms(2-) show ?thesis
    by (auto simp: book_ok_def lots_nonneg_def held_def unsettled_def share_flow_def unsettled_flow_def)
next
  case False
  with assms(1) have "apply_sell L b e = Inr b'" by (simp add: apply_event_def)
  then obtain ls cb where *: "consume_lots (trade_date e) (quantity e) 0 (lots_of b (symbol e)) = Inr (ls, 0, cb)"
    "\<And>s. lots_of b' s = (if s = symbol e then ls else lots_of b s)"
    "distinct (map fst (bk_lots b)) \<longrightarrow> distinct (map fst (bk_lots b'))"
    by (rule apply_sell_Inr) blast
  from consume_lots_spec[OF *(1), of d] False assms(2-) *(2,3) show ?thesis
    by (auto simp: book_ok_def lots_nonneg_def held_def unsettled_def share_flow_def unsettled_flow_def)
qed

lemma book_shares:
  assumes "book_at L d = Inr b" "\<forall>e \<in> set (events L). 0 < quantity e"
  shows "book_ok b"
    and "held s b = (\<Sum>e \<leftarrow> effective_until L d. share_flow s e)"
    and "unsettled d s b = (\<Sum>e \<leftarrow> effective_until L d. unsettled_flow L d s e)"
proof -
  have step: "apply_event L b e = Inr b' \<Longrightarrow> book_ok b \<Longrightarrow> book_ok b' \<and> held s b' = held s b + share_flow s e
    \<and> unsettled d s b' = unsettled d s b + unsettled_flow L d s e" if "e \<in> set (events_until L d)" for b e b'
    using apply_event_shares[of L b e b' d s] that assms(2)
    by (auto simp: events_until_set effective_until_def effective_def)
  have 1: "book_ok b \<and> held s b = held s (empty_book L) + sum_list (map (share_flow s) (events_until L d))"
    using assms(1) unfolding book_at_def by (rule foldR_sum) (use step in auto)
  have 2: "book_ok b \<and> unsettled d s b = unsettled d s (empty_book L) + sum_list (map (unsettled_flow L d s) (events_until L d))"
    using assms(1) unfolding book_at_def by (rule foldR_sum) (use step in auto)
  from 1 show "book_ok b" by simp
  from 1 2 show "held s b = (\<Sum>e \<leftarrow> effective_until L d. share_flow s e)"
    "unsettled d s b = (\<Sum>e \<leftarrow> effective_until L d. unsettled_flow L d s e)"
    by (simp_all add: events_until_sum held_def unsettled_def empty_book_def lots_of_def)
qed

section \<open>Snapshots\<close>

lemma snapshot_Inr:
  assumes "snapshot L today asof = Inr sn"
  obtains b ps where "book_at L (as_of sn) = Inr b" "mapR (position_of (as_of sn) b) (bk_lots b) = Inr ps"
    "cash sn = bk_cash b" "realized_pnl sn = bk_pnl b" "positions sn = sort_key pos_symbol ps"
    "asof = None \<or> asof = Some (as_of sn)"
  using assms that by (auto simp: snapshot_def bindR_Inr_iff Let_def split: option.splits)

lemma position_of_Inr:
  assumes "position_of d b (s, ls) = Inr p"
  shows "pos_symbol p = s" "total_quantity p = sum_list (map remaining_quantity ls)"
    "available_quantity p = sum_list (map remaining_quantity (filter (\<lambda>l. available_from l \<le> d) ls))"
    "frozen_quantity p = sum_list (map remaining_quantity (filter (\<lambda>l. d < available_from l) ls))"
proof -
  have split: "sum_list (map remaining_quantity ls)
      = sum_list (map remaining_quantity (filter (\<lambda>l. available_from l \<le> d) ls))
        + sum_list (map remaining_quantity (filter (\<lambda>l. d < available_from l) ls))"
    by (induction ls) auto
  show "pos_symbol p = s" "total_quantity p = sum_list (map remaining_quantity ls)"
    "available_quantity p = sum_list (map remaining_quantity (filter (\<lambda>l. available_from l \<le> d) ls))"
    "frozen_quantity p = sum_list (map remaining_quantity (filter (\<lambda>l. d < available_from l) ls))"
    using assms by (auto simp: position_of_def bindR_Inr_iff Let_def split)
qed

lemma snapshot_position:
  assumes "snapshot L today asof = Inr sn" "p \<in> set (positions sn)" "\<forall>e \<in> set (events L). 0 < quantity e"
  obtains b where "book_at L (as_of sn) = Inr b" "book_ok b"
    "total_quantity p = held (pos_symbol p) b" "frozen_quantity p = unsettled (as_of sn) (pos_symbol p) b"
    "available_quantity p = total_quantity p - frozen_quantity p"
    "0 \<le> available_quantity p" "0 \<le> frozen_quantity p"
proof -
  from assms(1) obtain b ps where b: "book_at L (as_of sn) = Inr b"
    "mapR (position_of (as_of sn) b) (bk_lots b) = Inr ps" "positions sn = sort_key pos_symbol ps"
    by (rule snapshot_Inr)
  from book_shares(1)[OF b(1) assms(3)] have ok: "book_ok b" .
  from assms(2) b(3) obtain i where i: "i < length ps" "p = ps ! i" by (auto simp: in_set_conv_nth)
  with mapR_length[OF b(2)] have il: "i < length (bk_lots b)" by simp
  obtain s ls where sl: "bk_lots b ! i = (s, ls)" by (cases "bk_lots b ! i")
  with mapR_nth[OF b(2) il] i have pos: "position_of (as_of sn) b (s, ls) = Inr p" by simp
  have "(s, ls) \<in> set (bk_lots b)" using sl il by (metis nth_mem)
  then have lots: "lots_of b s = ls"
    using ok by (simp add: lots_of_def dict_get_map_of book_ok_def map_of_is_SomeI)
  have nn: "0 \<le> sum_list (map remaining_quantity (filter P ls))" for P
    using ok lots by (intro sum_list_nonneg) (auto simp: book_ok_def lots_nonneg_def)
  have "available_quantity p = total_quantity p - frozen_quantity p"
    using pos by (auto simp: position_of_def bindR_Inr_iff Let_def)
  moreover have "0 \<le> available_quantity p" "0 \<le> frozen_quantity p"
    unfolding position_of_Inr(3,4)[OF pos] by (rule nn)+
  ultimately show thesis
    using position_of_Inr[OF pos] lots by (intro that[OF b(1) ok]) (simp_all add: held_def unsettled_def)
qed

end
