(* ===== verification/Account_History.thy ===== *)
theory Account_History
  imports Account_Balances
begin

text \<open>
  The history of a ledger: the invariant that every recorded fill and correction keeps, the
  append-only log, idempotent recording, and the reconstruction of the ledger from its log
  (\<open>from_records\<close>), which gives the same ledger back up to the time stamps of the corrections.
\<close>

section \<open>The invariant\<close>

fun fill_of :: "ledger_record \<Rightarrow> fill" where
  "fill_of (Fill e) = e"
| "fill_of (Corr c) = replacement c"

fun corrections_of :: "ledger_record list \<Rightarrow> correction list" where
  "corrections_of [] = []"
| "corrections_of (Fill _ # rs) = corrections_of rs"
| "corrections_of (Corr c # rs) = c # corrections_of rs"

lemma corrections_of_append [simp]: "corrections_of (xs @ ys) = corrections_of xs @ corrections_of ys"
  by (induction xs rule: corrections_of.induct) auto

definition config_ok :: "ledger \<Rightarrow> bool" where
  "config_ok L \<longleftrightarrow> on_grid 2 (initial_cash L) \<and> 0 \<le> initial_cash L \<and> 0 < lot_size L
     \<and> distinct (map fst (known_instruments L))
     \<and> (\<forall>(s, n) \<in> set (known_instruments L). six_digits s \<and> py_strip n = n \<and> n \<noteq> [])"

definition ledger_inv :: "ledger \<Rightarrow> bool" where
  "ledger_inv L \<longleftrightarrow> config_ok L \<and> distinct (map event_id (events L))
     \<and> (\<forall>i e. events_by_id L i = Some e \<longleftrightarrow> e \<in> set (events L) \<and> event_id e = i)
     \<and> (\<forall>e \<in> set (events L). fill_ok e)
     \<and> events L = map fill_of (records L)
     \<and> corrections L = corrections_of (records L)
     \<and> voided L = rev (map original_event_id (corrections L))
     \<and> set (voided L) \<subseteq> event_id ` set (events L)"

lemma inv_fill_ok: "ledger_inv L \<Longrightarrow> \<forall>e \<in> set (events L). 0 < quantity e"
  by (auto simp: ledger_inv_def fill_ok_def)

lemma inv_lookup:
  "ledger_inv L \<Longrightarrow> events_by_id L i = Some e \<longleftrightarrow> e \<in> set (events L) \<and> event_id e = i"
  by (simp add: ledger_inv_def)

lemma inv_fresh: "ledger_inv L \<Longrightarrow> events_by_id L i = None \<Longrightarrow> i \<notin> event_id ` set (events L)"
proof
  assume inv: "ledger_inv L" and none: "events_by_id L i = None" and "i \<in> event_id ` set (events L)"
  then obtain e where "e \<in> set (events L)" "event_id e = i" by blast
  then have "events_by_id L i = Some e" by (simp add: inv_lookup[OF inv])
  with none show False by simp
qed

lemma dict_set_all:
  assumes "\<forall>(s, n) \<in> set d. P s n" "P k v"
  shows "\<forall>(s, n) \<in> set (dict_set d k v). P s n"
  using assms by (induction d k v rule: dict_set.induct) auto

lemma known_of_ok:
  assumes "known_of acc xs = Inr kn" "distinct (map fst acc)" "\<forall>(s, n) \<in> set acc. six_digits s \<and> py_strip n = n"
  shows "distinct (map fst kn) \<and> (\<forall>(s, n) \<in> set kn. six_digits s \<and> py_strip n = n)"
  using assms
proof (induction acc xs arbitrary: kn rule: known_of.induct)
  case (2 acc s n rest)
  then obtain y where y: "normalize_symbol s = Inr y" "known_of (dict_set acc y (py_strip n)) rest = Inr kn"
    by (auto simp: bindR_Inr_iff)
  have "\<forall>(s', n') \<in> set (dict_set acc y (py_strip n)). six_digits s' \<and> py_strip n' = n'"
    by (rule dict_set_all[OF "2.prems"(3)]) (use normalize_symbol_six[OF y(1)] in simp)
  then show ?case
    by (intro "2.IH"[OF y(1) y(2)] dict_distinct_set "2.prems"(2))
qed simp

lemma make_ledger_Inr:
  assumes "make_ledger c fs kn ntd n = Inr L"
  obtains c' kn' where "money_arg c = Inr c'" "0 \<le> c'" "0 < n" "known_of [] kn = Inr kn'"
    "\<forall>(s, m) \<in> set kn'. m \<noteq> []"
    "L = \<lparr>initial_cash = c', fees_of = fs, known_instruments = kn', next_trading_day = ntd, lot_size = n,
       events = [], events_by_id = Map.empty, corrections = [], voided = [], records = []\<rparr>"
proof (cases "money_arg c")
  case (Inr c')
  have c: "0 \<le> c'" "0 < n"
    using assms Inr by (simp_all add: make_ledger_def not_less not_le split: if_splits)
  show thesis
  proof (cases "known_of [] kn")
    case kn: (Inr kn')
    have eq: "(if \<exists>(s, n) \<in> set kn'. n = [] then Inl (ValueError ''known instrument names cannot be empty'')
     else Inr \<lparr>initial_cash = c', fees_of = fs, known_instruments = kn', next_trading_day = ntd, lot_size = n,
       events = [], events_by_id = Map.empty, corrections = [], voided = [], records = []\<rparr>) = Inr L"
      using assms Inr kn c by (simp add: make_ledger_def not_less not_le)
    have "\<not> (\<exists>(s, n) \<in> set kn'. n = [])"
    proof
      assume "\<exists>(s, n) \<in> set kn'. n = []"
      from eq[unfolded if_P[OF this]] show False by simp
    qed
    moreover from eq[unfolded if_not_P[OF this]] have "L = \<lparr>initial_cash = c', fees_of = fs,
       known_instruments = kn', next_trading_day = ntd, lot_size = n,
       events = [], events_by_id = Map.empty, corrections = [], voided = [], records = []\<rparr>" by simp
    ultimately show thesis using that Inr c kn by blast
  qed (use assms Inr c in \<open>simp add: make_ledger_def\<close>)
qed (use assms in \<open>simp add: make_ledger_def\<close>)

lemma make_ledger_inv: "make_ledger c fs kn ntd n = Inr L \<Longrightarrow> ledger_inv L"
proof (erule make_ledger_Inr)
  fix c' kn'
  assume c: "money_arg c = Inr c'" "0 \<le> c'" and n: "0 < n" and k: "known_of [] kn = Inr kn'"
    "\<forall>(s, m) \<in> set kn'. m \<noteq> []"
    and L: "L = \<lparr>initial_cash = c', fees_of = fs, known_instruments = kn', next_trading_day = ntd, lot_size = n,
       events = [], events_by_id = Map.empty, corrections = [], voided = [], records = []\<rparr>"
  have "on_grid 2 c'" using c(1) by (auto simp: money_arg_def bindR_Inr_iff dest: money_grid)
  moreover have "distinct (map fst kn') \<and> (\<forall>(s, n) \<in> set kn'. six_digits s \<and> py_strip n = n)"
    using known_of_ok[OF k(1)] by simp
  ultimately have "config_ok L" using c n k(2) L by (auto simp: config_ok_def)
  then show ?thesis using L by (simp add: ledger_inv_def)
qed

text \<open>What recording one more entry does to the state, for a fill and for a correction.\<close>

definition extended :: "ledger \<Rightarrow> ledger_record \<Rightarrow> ledger" where
  "extended L r = L\<lparr>events := events L @ [fill_of r],
     events_by_id := (events_by_id L)(event_id (fill_of r) \<mapsto> fill_of r),
     corrections := corrections L @ corrections_of [r],
     voided := rev (map original_event_id (corrections_of [r])) @ voided L,
     records := records L @ [r]\<rparr>"

lemma extended_sel [simp]:
  "initial_cash (extended L r) = initial_cash L" "fees_of (extended L r) = fees_of L"
  "known_instruments (extended L r) = known_instruments L" "next_trading_day (extended L r) = next_trading_day L"
  "lot_size (extended L r) = lot_size L" "events (extended L r) = events L @ [fill_of r]"
  "events_by_id (extended L r) = (events_by_id L)(event_id (fill_of r) \<mapsto> fill_of r)"
  "corrections (extended L r) = corrections L @ corrections_of [r]"
  "voided (extended L r) = rev (map original_event_id (corrections_of [r])) @ voided L"
  "records (extended L r) = records L @ [r]"
  by (simp_all add: extended_def)

lemma extended_inv:
  assumes inv: "ledger_inv L" and ok: "fill_ok (fill_of r)" and fresh: "events_by_id L (event_id (fill_of r)) = None"
    and sub: "\<And>c. r = Corr c \<Longrightarrow> original_event_id c \<in> event_id ` set (events L)"
  shows "ledger_inv (extended L r)"
proof -
  let ?e = "fill_of r"
  have new: "event_id ?e \<notin> event_id ` set (events L)" by (rule inv_fresh[OF inv fresh])
  have look: "\<forall>i e. ((events_by_id L)(event_id ?e \<mapsto> ?e)) i = Some e
      \<longleftrightarrow> e \<in> set (events L @ [?e]) \<and> event_id e = i"
    using new inv_lookup[OF inv] by (auto simp: image_iff)
  have cfg: "config_ok (extended L r)" using inv by (simp add: ledger_inv_def config_ok_def)
  have old: "set (voided L) \<subseteq> event_id ` set (events L)" using inv unfolding ledger_inv_def by blast
  have vd: "set (rev (map original_event_id (corrections_of [r])) @ voided L) \<subseteq> event_id ` set (events L @ [?e])"
    using old sub by (cases r) auto
  have parts: "distinct (map event_id (events L))" "\<forall>e \<in> set (events L). fill_ok e"
    "events L = map fill_of (records L)" "corrections L = corrections_of (records L)"
    "voided L = rev (map original_event_id (corrections L))"
    using inv unfolding ledger_inv_def by blast+
  show ?thesis
    unfolding ledger_inv_def extended_sel
  proof (intro conjI)
    show "distinct (map event_id (events L @ [?e]))" using parts(1) new by simp
    show "\<forall>e \<in> set (events L @ [?e]). fill_ok e" using parts(2) ok by simp
    show "events L @ [?e] = map fill_of (records L @ [r])" using parts(3) by simp
    show "corrections L @ corrections_of [r] = corrections_of (records L @ [r])" using parts(4) by simp
    show "rev (map original_event_id (corrections_of [r])) @ voided L
        = rev (map original_event_id (corrections L @ corrections_of [r]))" using parts(5) by simp
  qed (fact cfg look vd)+
qed

lemma append_event_cases:
  assumes "append_event L e = Inr (L', r)"
  obtains (old) old where "events_by_id L (event_id e) = Some old" "same_event old e"
      "receipt_for L old True = Inr r" "L' = L"
  | (new) "events_by_id L (event_id e) = None" "\<forall>x \<in> set (events L). trade_date x \<le> trade_date e"
      "receipt_for (L\<lparr>events := events L @ [e]\<rparr>) e False = Inr r"
      "L' = extended L (Fill e)"
proof (cases "events_by_id L (event_id e)")
  case None
  have late: "\<not> (\<exists>x \<in> set (events L). trade_date e < trade_date x)"
    using assms None by (cases "\<exists>x \<in> set (events L). trade_date e < trade_date x") (simp_all add: append_event_def)
  then have eq: "append_event L e = bindR (receipt_for (L\<lparr>events := events L @ [e]\<rparr>) e False) (\<lambda>r. Inr (L\<lparr>events := events L @ [e],
      events_by_id := (events_by_id L)(event_id e \<mapsto> e), records := records L @ [Fill e]\<rparr>, r))"
    using None by (simp add: append_event_def Let_def del: bex_simps)
  have ext: "L\<lparr>events := events L @ [e], events_by_id := (events_by_id L)(event_id e \<mapsto> e),
      records := records L @ [Fill e]\<rparr> = extended L (Fill e)"
    by (simp add: extended_def)
  from assms[unfolded eq ext] have "receipt_for (L\<lparr>events := events L @ [e]\<rparr>) e False = Inr r" "L' = extended L (Fill e)"
    by (simp_all only: bindR_Inr_iff sum.inject prod.inject) blast+
  moreover have "\<forall>x \<in> set (events L). trade_date x \<le> trade_date e" using late by (simp add: not_less)
  ultimately show thesis using new None by blast
next
  case (Some x)
  have "same_event x e" using assms Some by (simp add: append_event_def split: if_splits)
  then have "receipt_for L x True = Inr r" "L' = L"
    using assms Some by (auto simp: append_event_def bindR_Inr_iff)
  then show thesis using old Some \<open>same_event x e\<close> by blast
qed

lemma make_correction_Inr:
  "make_correction now cid oid rep rec = Inr c \<Longrightarrow>
     correction_id c = py_strip cid \<and> py_strip cid \<noteq> [] \<and> original_event_id c = py_strip oid \<and> py_strip oid \<noteq> []
       \<and> replacement c = rep"
  by (auto simp: make_correction_def bindR_Inr_iff split: if_splits)

lemma append_correction_cases:
  assumes "append_correction L now fr oid rep cid = Inr (L', r)"
  obtains orig c where "events_by_id L oid = Some orig" "oid \<notin> set (voided L)"
    "events_by_id L (event_id rep) = None" "side rep = side orig" "symbol rep = symbol orig"
    "trade_date rep = trade_date orig"
    "make_correction now (case cid of Some i \<Rightarrow> if i \<noteq> [] then i else fr | None \<Rightarrow> fr) oid rep None = Inr c"
    "L' = L\<lparr>events := events L @ [rep], events_by_id := (events_by_id L)(event_id rep \<mapsto> rep),
            corrections := corrections L @ [c], voided := oid # voided L, records := records L @ [Corr c]\<rparr>"
    "receipt_for L' rep False = Inr r" "returns (snapshot L' 0 None)"
proof (cases "events_by_id L oid")
  case None
  with assms show thesis by (simp add: append_correction_def)
next
  case (Some orig)
  define cc where "cc = (case cid of Some i \<Rightarrow> if i \<noteq> [] then i else fr | None \<Rightarrow> fr)"
  have guards: "oid \<notin> set (voided L)" "events_by_id L (event_id rep) = None" "side rep = side orig"
    "symbol rep = symbol orig" "trade_date rep = trade_date orig"
    using assms Some by (simp_all add: append_correction_def split: if_splits)
  define upd where "upd c = L\<lparr>events := events L @ [rep], events_by_id := (events_by_id L)(event_id rep \<mapsto> rep),
            corrections := corrections L @ [c], voided := oid # voided L, records := records L @ [Corr c]\<rparr>" for c
  have "bindR (make_correction now cc oid rep None) (\<lambda>c. bindR (receipt_for (upd c) rep False) (\<lambda>r.
      bindR (snapshot (upd c) 0 None) (\<lambda>_. Inr (upd c, r)))) = Inr (L', r)"
    using assms Some guards by (simp add: append_correction_def Let_def cc_def upd_def)
  then obtain c where "make_correction now cc oid rep None = Inr c" "L' = upd c"
    "receipt_for L' rep False = Inr r" "returns (snapshot L' 0 None)"
    by (auto simp: bindR_Inr_iff)
  then show thesis using that Some guards unfolding cc_def upd_def by blast
qed

lemma append_correction_extended:
  assumes "append_correction L now fr oid rep cid = Inr (L', r)" "ledger_inv L"
  obtains orig c where "events_by_id L oid = Some orig" "oid \<notin> set (voided L)"
    "events_by_id L (event_id rep) = None" "side rep = side orig" "symbol rep = symbol orig"
    "trade_date rep = trade_date orig" "original_event_id c = oid" "replacement c = rep"
    "correction_id c \<noteq> []" "py_strip (correction_id c) = correction_id c" "py_strip oid = oid" "oid \<noteq> []"
    "L' = extended L (Corr c)" "receipt_for L' rep False = Inr r" "returns (snapshot L' 0 None)"
  using assms(1)
proof (cases rule: append_correction_cases)
  case (1 orig c)
  have "orig \<in> set (events L)" "event_id orig = oid" using 1(1) by (simp_all add: inv_lookup[OF assms(2)])
  moreover then have "fill_ok orig" using assms(2) by (simp add: ledger_inv_def)
  ultimately have oid: "py_strip oid = oid" by (auto simp: fill_ok_def)
  note c = make_correction_Inr[OF 1(7)]
  have ext: "L' = extended L (Corr c)" using 1(8) c oid by (simp add: extended_def)
  have c': "original_event_id c = oid" "replacement c = rep" "correction_id c \<noteq> []"
    "py_strip (correction_id c) = correction_id c" "oid \<noteq> []" using c oid by simp_all
  show thesis by (rule that[OF 1(1-6) c'(1-4) oid c'(5) ext 1(9,10)])
qed

lemma append_event_inv:
  assumes "append_event L e = Inr (L', r)" "ledger_inv L" "fill_ok e"
  shows "ledger_inv L'"
  using assms(1)
proof (cases rule: append_event_cases)
  case new
  then show ?thesis using extended_inv[OF assms(2), of "Fill e"] assms(3) by simp
qed (use assms in simp)

lemma append_correction_inv:
  assumes "append_correction L now fr oid rep cid = Inr (L', r)" "ledger_inv L" "fill_ok rep"
  shows "ledger_inv L'"
  using assms(1,2)
proof (cases rule: append_correction_extended)
  case (1 orig c)
  have "oid \<in> event_id ` set (events L)"
    using 1(1) inv_lookup[OF assms(2), of oid orig] by auto
  then show ?thesis using extended_inv[OF assms(2), of "Corr c"] 1(3,7,8,13) assms(3) by simp
qed

lemma record_fill_append:
  "record_fill L e = Inr (L', r) \<Longrightarrow> append_event L e = Inr (L', r)"
  by (auto simp: record_fill_def bindR_Inr_iff split: if_splits)

section \<open>Reachable ledgers\<close>

text \<open>\<open>reachable L0 L\<close>: some sequence of accepted fills and corrections leads from \<open>L0\<close> to \<open>L\<close>.\<close>

inductive ledger_step :: "ledger \<Rightarrow> ledger \<Rightarrow> bool" where
  fill_step: "record_fill L e = Inr (L', r) \<Longrightarrow> fill_ok e \<Longrightarrow> ledger_step L L'"
| correction_step: "append_correction L now fr oid rep cid = Inr (L', r) \<Longrightarrow> fill_ok rep \<Longrightarrow> ledger_step L L'"

inductive reachable :: "ledger \<Rightarrow> ledger \<Rightarrow> bool" for L0 where
  start: "reachable L0 L0"
| step: "reachable L0 L \<Longrightarrow> ledger_step L L' \<Longrightarrow> reachable L0 L'"

inductive_cases ledger_stepE: "ledger_step L L'"

lemma ledger_step_inv: "ledger_step L L' \<Longrightarrow> ledger_inv L \<Longrightarrow> ledger_inv L'"
  by (erule ledger_stepE) (blast intro: append_correction_inv append_event_inv dest: record_fill_append)+

lemma reachable_inv: "reachable L0 L \<Longrightarrow> ledger_inv L0 \<Longrightarrow> ledger_inv L"
  by (induction rule: reachable.induct) (auto intro: ledger_step_inv)

lemma record_buy_step: "record_buy L now fr nm s q p td eid src = Inr (L', r) \<Longrightarrow> ledger_step L L'"
  unfolding record_buy_def bindR_Inr_iff by (blast intro: fill_step make_fill_ok)

lemma record_sell_step: "record_sell L now fr s q p td eid src = Inr (L', r) \<Longrightarrow> ledger_step L L'"
  unfolding record_sell_def bindR_Inr_iff by (blast intro: fill_step make_fill_ok)

text \<open>A step leaves the ledger alone or extends it by one entry.\<close>

lemma ledger_step_extends:
  assumes "ledger_step L L'" "ledger_inv L"
  shows "L' = L \<or> (\<exists>r. L' = extended L r)"
  using assms(1)
proof (cases rule: ledger_step.cases)
  case (fill_step e r)
  then show ?thesis by (blast dest: record_fill_append elim: append_event_cases)
next
  case (correction_step now fr oid rep cid r)
  then show ?thesis using assms(2) by (blast elim: append_correction_extended)
qed

lemma reachable_log:
  assumes "reachable L0 L" "ledger_inv L0"
  shows "\<exists>new. records L = records L0 @ new"
  using assms
proof (induction rule: reachable.induct)
  case (step L L')
  then show ?case using ledger_step_extends[OF step.hyps(2)] reachable_inv[OF step.hyps(1)] by auto
qed simp

end
