(* ===== verification/Account_Replay.thy ===== *)
theory Account_Replay
  imports Account_History
begin

text \<open>
  Reconstruction of a ledger from its log: the state of a ledger is a function of its configuration and
  its records, and replaying the records of a reachable ledger gives it back, up to the time stamps that
  replayed corrections receive.  A reachable ledger can be valued at the date of its last entry, and one
  without corrections at every later date.
\<close>

section \<open>What a valuation reads\<close>

definition same_basis :: "ledger \<Rightarrow> ledger \<Rightarrow> bool" where
  "same_basis L M \<longleftrightarrow> initial_cash L = initial_cash M \<and> fees_of L = fees_of M
     \<and> next_trading_day L = next_trading_day M \<and> events L = events M \<and> voided L = voided M"

lemma apply_event_cong:
  "fees_of L = fees_of M \<Longrightarrow> next_trading_day L = next_trading_day M \<Longrightarrow> apply_event L = apply_event M"
  by (intro ext) (simp only: apply_event_def apply_buy_def apply_sell_def)

lemma apply_event_basis:
  assumes "same_basis L M"
  shows "apply_event L = apply_event M"
proof -
  have eqs: "fees_of L = fees_of M" "next_trading_day L = next_trading_day M"
    using assms unfolding same_basis_def by blast+
  show ?thesis by (intro ext) (simp only: apply_event_def apply_buy_def apply_sell_def eqs)
qed

lemma book_at_basis:
  assumes "same_basis L M"
  shows "book_at L d = book_at M d"
proof -
  have eqs: "initial_cash L = initial_cash M" "events L = events M" "voided L = voided M"
    using assms unfolding same_basis_def by blast+
  show ?thesis
    by (simp only: book_at_def events_until_def effective_events_def empty_book_def eqs apply_event_basis[OF assms])
qed

lemma snapshot_basis:
  assumes "same_basis L M"
  shows "snapshot L t d = snapshot M t d"
proof -
  have eqs: "events L = events M" using assms unfolding same_basis_def by blast
  show ?thesis by (simp only: snapshot_def eqs book_at_basis[OF assms])
qed

lemma receipt_basis: "same_basis L M \<Longrightarrow> receipt_for L e i = receipt_for M e i"
  by (simp add: receipt_for_def snapshot_basis)

text \<open>Ledgers that agree on everything but the time stamps of their corrections.\<close>

fun erase_record :: "ledger_record \<Rightarrow> ledger_record" where
  "erase_record (Fill e) = Fill e"
| "erase_record (Corr c) = Corr (c\<lparr>corr_recorded_at := UTC 0\<rparr>)"

definition same_ledger :: "ledger \<Rightarrow> ledger \<Rightarrow> bool" where
  "same_ledger L M \<longleftrightarrow> same_basis L M \<and> known_instruments L = known_instruments M \<and> lot_size L = lot_size M
     \<and> events_by_id L = events_by_id M \<and> map erase_record (records L) = map erase_record (records M)"

lemma same_ledger_refl [simp]: "same_ledger L L"
  by (simp add: same_ledger_def same_basis_def)

lemma same_ledger_extended:
  assumes "same_ledger L M" "erase_record r = erase_record s"
  shows "same_ledger (extended L r) (extended M s)"
proof -
  have "fill_of r = fill_of s"
    using assms(2) by (cases r; cases s) (auto dest: arg_cong[where f = replacement])
  moreover have "map original_event_id (corrections_of [r]) = map original_event_id (corrections_of [s])"
    using assms(2) by (cases r; cases s) (auto dest: arg_cong[where f = original_event_id])
  ultimately show ?thesis using assms by (simp add: same_ledger_def same_basis_def)
qed

lemma same_basis_extended_fill:
  "same_ledger L M \<Longrightarrow> same_basis (L\<lparr>events := events L @ [e]\<rparr>) (M\<lparr>events := events M @ [e]\<rparr>)"
  by (simp add: same_ledger_def same_basis_def)

section \<open>Replay\<close>

lemma replay_fill:
  assumes same: "same_ledger L M" and fresh: "events_by_id L (event_id e) = None"
    and late: "\<forall>x \<in> set (events L). trade_date x \<le> trade_date e"
    and rc: "receipt_for (L\<lparr>events := events L @ [e]\<rparr>) e False = Inr r"
  shows "replay_step now M (Fill e) = Inr (extended M (Fill e))"
proof -
  have m: "events_by_id M (event_id e) = None" "\<not> (\<exists>x \<in> set (events M). trade_date e < trade_date x)"
    using same fresh late by (auto simp: same_ledger_def same_basis_def)
  have "receipt_for (M\<lparr>events := events M @ [e]\<rparr>) e False = Inr r"
    using rc receipt_basis[OF same_basis_extended_fill[OF same]] by simp
  then have "append_event M e = Inr (M\<lparr>events := events M @ [e], events_by_id := (events_by_id M)(event_id e \<mapsto> e),
      records := records M @ [Fill e]\<rparr>, r)"
    unfolding append_event_def m(1) option.case if_not_P[OF m(2)] Let_def by simp
  then show ?thesis by (simp add: replay_step_def extended_def)
qed

lemma replay_correction:
  assumes same: "same_ledger L M" and now: "is_aware now"
    and orig: "events_by_id L (original_event_id c) = Some orig" "original_event_id c \<notin> set (voided L)"
      "events_by_id L (event_id (replacement c)) = None" "side (replacement c) = side orig"
      "symbol (replacement c) = symbol orig" "trade_date (replacement c) = trade_date orig"
    and ids: "correction_id c \<noteq> []" "py_strip (correction_id c) = correction_id c"
      "py_strip (original_event_id c) = original_event_id c" "original_event_id c \<noteq> []"
    and rc: "receipt_for (extended L (Corr c)) (replacement c) False = Inr r"
    and sn: "returns (snapshot (extended L (Corr c)) 0 None)"
  shows "\<exists>s. erase_record s = erase_record (Corr c) \<and> replay_step now M (Corr c) = Inr (extended M s)"
proof -
  obtain u where u: "as_utc now ''recorded_at'' = Inr u" using now by (auto simp: is_aware_def as_utc_def)
  define c' where "c' = c\<lparr>corr_recorded_at := u\<rparr>"
  have mk: "make_correction now (correction_id c) (original_event_id c) (replacement c) None = Inr c'"
    using u ids by (simp add: make_correction_def c'_def)
  have er: "erase_record (Corr c') = erase_record (Corr c)" by (simp add: c'_def)
  have same': "same_ledger (extended L (Corr c)) (extended M (Corr c'))"
    by (rule same_ledger_extended[OF same er[symmetric]])
  have m: "events_by_id M = events_by_id L" "voided M = voided L"
    using same by (auto simp: same_ledger_def same_basis_def)
  have ext: "M\<lparr>events := events M @ [replacement c], events_by_id := (events_by_id M)(event_id (replacement c) \<mapsto> replacement c),
      corrections := corrections M @ [c'], voided := original_event_id c # voided M, records := records M @ [Corr c']\<rparr>
      = extended M (Corr c')"
    by (simp add: extended_def c'_def)
  have basis: "same_basis (extended L (Corr c)) (extended M (Corr c'))"
    using same' by (simp add: same_ledger_def)
  obtain sn' where "snapshot (extended M (Corr c')) 0 None = Inr sn'"
    using sn snapshot_basis[OF basis] by (auto simp: returns_iff)
  moreover have "receipt_for (extended M (Corr c')) (replacement c) False = Inr r"
    using rc receipt_basis[OF basis] by simp
  ultimately have "append_correction M now [] (original_event_id c) (replacement c) (Some (correction_id c))
      = Inr (extended M (Corr c'), r)"
    unfolding append_correction_def m(1)
    using orig m ids(1) mk by (simp add: Let_def ext[unfolded m])
  then have "replay_step now M (Corr c) = Inr (extended M (Corr c'))" by (simp add: replay_step_def)
  then show ?thesis using er by blast
qed

lemma ledger_step_replay:
  assumes "ledger_step L L'" "ledger_inv L" "same_ledger L M" "is_aware now"
  shows "L' = L \<or> (\<exists>r s. L' = extended L r \<and> erase_record s = erase_record r
           \<and> replay_step now M r = Inr (extended M s))"
  using assms(1)
proof (cases rule: ledger_step.cases)
  case (fill_step e r)
  from record_fill_append[OF fill_step(1)] show ?thesis
  proof (cases rule: append_event_cases)
    case new
    then show ?thesis using replay_fill[OF assms(3) new(1-3)] by auto
  qed simp
next
  case (correction_step now' fr oid rep cid r)
  from correction_step(1) assms(2) show ?thesis
  proof (cases rule: append_correction_extended)
    case (1 orig c)
    then have "\<exists>s. erase_record s = erase_record (Corr c) \<and> replay_step now M (Corr c) = Inr (extended M s)"
      by (intro replay_correction[OF assms(3,4), where orig = orig and r = r]) auto
    then show ?thesis using 1(13) by blast
  qed
qed

lemma reachable_replay:
  assumes "reachable L0 L" "ledger_inv L0" "records L0 = []" "is_aware now"
  shows "\<exists>M. foldR (replay_step now) L0 (records L) = Inr M \<and> same_ledger L M"
  using assms
proof (induction rule: reachable.induct)
  case start
  then show ?case by auto
next
  case (step L L')
  then obtain M where M: "foldR (replay_step now) L0 (records L) = Inr M" "same_ledger L M" by blast
  have inv: "ledger_inv L" using reachable_inv[OF step.hyps(1) step.prems(1)] .
  from ledger_step_replay[OF step.hyps(2) inv M(2) step.prems(3)] show ?case
  proof (elim disjE exE conjE)
    fix r s
    assume "L' = extended L r" "erase_record s = erase_record r" "replay_step now M r = Inr (extended M s)"
    then show ?thesis using M same_ledger_extended[OF M(2), of r s] by (auto simp: foldR_append)
  qed (use M in blast)
qed

section \<open>Valuation\<close>

lemma receipt_snapshot: "receipt_for L e i = Inr r \<Longrightarrow> returns (snapshot L 0 (Some (trade_date e)))"
  by (auto simp: receipt_for_def bindR_Inr_iff returns_iff)

lemma receipt_returns:
  "six_digits (symbol e) \<Longrightarrow> returns (receipt_for L e i) \<longleftrightarrow> returns (snapshot L 0 (Some (trade_date e)))"
  by (cases "snapshot L 0 (Some (trade_date e))") (simp_all add: receipt_for_def position_def normalize_symbol_fixed)

lemma snapshot_default:
  "events L \<noteq> [] \<Longrightarrow> snapshot L t None = snapshot L 0 (Some (trade_date (last (events L))))"
  by (simp add: snapshot_def Let_def)

lemma snapshot_empty: "events L = [] \<Longrightarrow> returns (snapshot L t d)"
  by (simp add: snapshot_def Let_def book_at_def events_until_def effective_events_def empty_book_def)

lemma ledger_step_valued:
  assumes "ledger_step L L'" "ledger_inv L" "returns (snapshot L 0 None)"
  shows "returns (snapshot L' 0 None)"
  using assms(1)
proof (cases rule: ledger_step.cases)
  case (fill_step e r)
  from record_fill_append[OF fill_step(1)] show ?thesis
  proof (cases rule: append_event_cases)
    case new
    have "same_basis (L\<lparr>events := events L @ [e]\<rparr>) L'" using new(4) by (simp add: same_basis_def)
    with receipt_snapshot[OF new(3)] have "returns (snapshot L' 0 (Some (trade_date e)))"
      using snapshot_basis by metis
    then show ?thesis using new(4) by (simp add: snapshot_default)
  qed (use assms in simp)
next
  case (correction_step now' fr oid rep cid r)
  then show ?thesis using assms(2) by (blast elim: append_correction_extended)
qed

lemma reachable_valued:
  assumes "reachable L0 L" "ledger_inv L0" "events L0 = []"
  shows "returns (snapshot L t None)"
proof -
  from assms have "returns (snapshot L 0 None)"
  proof (induction rule: reachable.induct)
    case (step L L')
    then show ?case using ledger_step_valued reachable_inv by blast
  qed (rule snapshot_empty)
  then show ?thesis by (cases "events L = []") (simp_all add: snapshot_empty snapshot_default)
qed

text \<open>Past the last trade date every valuation books the same fills.\<close>

lemma events_until_late:
  assumes "\<forall>e \<in> set (events L). trade_date e \<le> d" "d \<le> d'"
  shows "events_until L d' = events_until L d"
proof -
  have "\<forall>e \<in> set (effective_events L). trade_date e \<le> d"
    using assms(1) by (auto simp: effective_events_def)
  then show ?thesis using assms(2) by (auto simp: events_until_def intro!: filter_cong)
qed

lemma position_of_returns: "returns (position_of d b x) \<longleftrightarrow> returns (position_of d' b x)"
  by (cases x) (auto simp: position_of_def Let_def returns_iff bindR_Inr_iff)

lemma mapR_returns: "returns (mapR f xs) \<longleftrightarrow> (\<forall>x \<in> set xs. returns (f x))"
proof (induction xs)
  case (Cons x xs)
  show ?case using Cons.IH by (cases "f x"; cases "mapR f xs") auto
qed simp

lemma snapshot_returns:
  "returns (snapshot L t (Some d)) \<longleftrightarrow> (\<exists>b. book_at L d = Inr b \<and> (\<forall>x \<in> set (bk_lots b). returns (position_of d b x)))"
proof (cases "book_at L d")
  case (Inr b)
  show ?thesis using Inr mapR_returns[of "position_of d b" "bk_lots b"]
    by (cases "mapR (position_of d b) (bk_lots b)") (auto simp: snapshot_def)
qed (simp add: snapshot_def)

lemma snapshot_late_returns:
  assumes "\<forall>e \<in> set (events L). trade_date e \<le> d" "d \<le> d'" "returns (snapshot L t (Some d))"
  shows "returns (snapshot L t' (Some d'))"
  using assms(3) events_until_late[OF assms(1,2)] position_of_returns[of d _ _ d']
  by (simp add: snapshot_returns book_at_def)

lemma reachable_sorted:
  assumes "reachable L0 L" "ledger_inv L0" "events L0 = []" "corrections L = []"
  shows "sorted (map trade_date (events L))"
  using assms
proof (induction rule: reachable.induct)
  case (step L L')
  have inv: "ledger_inv L" using reachable_inv[OF step.hyps(1) step.prems(1)] .
  from step.hyps(2) show ?case
  proof (cases rule: ledger_step.cases)
    case (fill_step e r)
    from record_fill_append[OF fill_step(1)] show ?thesis
      by (cases rule: append_event_cases) (use step in \<open>auto simp: sorted_append\<close>)
  next
    case (correction_step now' fr oid rep cid r)
    from correction_step(1) inv show ?thesis
      by (cases rule: append_correction_extended) (use step.prems(3) in simp)
  qed
qed simp

lemma sorted_last_le: "sorted xs \<Longrightarrow> x \<in> set xs \<Longrightarrow> x \<le> last xs"
  by (induction xs) (auto split: if_splits)

lemma reachable_valued_later:
  assumes "reachable L0 L" "ledger_inv L0" "events L0 = []" "corrections L = []"
    and "events L = [] \<or> trade_date (last (events L)) \<le> d"
  shows "returns (snapshot L t (Some d))"
proof (cases "events L = []")
  case False
  then have d: "trade_date (last (events L)) \<le> d" using assms(5) by simp
  have "returns (snapshot L t (Some (trade_date (last (events L)))))"
    using reachable_valued[OF assms(1-3), of t] False by (simp add: snapshot_def Let_def)
  moreover have "\<forall>e \<in> set (events L). trade_date e \<le> trade_date (last (events L))"
    using sorted_last_le[OF reachable_sorted[OF assms(1-4)]] False by (simp add: last_map)
  ultimately show ?thesis using d by (rule snapshot_late_returns[rotated 2])
qed (rule snapshot_empty)

end
