(* ===== verification/Account_Examples.thy ===== *)
theory Account_Examples
  imports Account_Replay
begin

text \<open>
  A worked history: an account with 10,000 in cash buys 200 shares on a Wednesday and sells them on Friday;
  then the buy is corrected down to 100 shares.  The first two steps are the input of the witnesses of the
  ledger's properties.  The third is accepted by \<open>append_correction\<close>, whose check values the account at
  the date of the corrected trade only, and leaves an account whose later valuations all raise.
\<close>

definition demo_fill :: "string \<Rightarrow> trade_side \<Rightarrow> int \<Rightarrow> date \<Rightarrow> fill" where
  "demo_fill i s q d = \<lparr>event_id = py i, side = s, symbol = py ''600001'', quantity = q, fill_price = 10,
     trade_date = d, fill_name = py ''A'', source = py ''manual'', recorded_at = UTC 0\<rparr>"

definition demo_buy :: fill where "demo_buy = demo_fill ''b'' BUY 200 739000"
definition demo_sell :: fill where "demo_sell = demo_fill ''s'' SELL 200 739002"
definition demo_fix :: fill where "demo_fix = demo_fill ''f'' BUY 100 739000"

definition demo_ledger :: ledger where
  "demo_ledger = \<lparr>initial_cash = 10000, fees_of = default_fees, known_instruments = [],
     next_trading_day = (\<lambda>d. Inr (next_weekday d)), lot_size = 100,
     events = [], events_by_id = Map.empty, corrections = [], voided = [], records = []\<rparr>"

lemma demo_start: "make_ledger (ADec 10000) default_fees [] (\<lambda>d. Inr (next_weekday d)) 100 = Inr demo_ledger"
proof -
  have "money 10000 = Inr 10000" by code_simp
  then have "money_arg (ADec 10000) = Inr 10000" by (simp add: money_arg_def as_decimal_def decimal_of_def money_on_grid)
  then show ?thesis by (simp add: make_ledger_def demo_ledger_def)
qed

definition demo_lot :: "int \<Rightarrow> int \<Rightarrow> rat \<Rightarrow> lot" where
  "demo_lot q r c = \<lparr>lot_symbol = py ''600001'', lot_name = py ''A'', lot_quantity = q, remaining_quantity = r,
     remaining_cost = c, available_from = 739001\<rparr>"

definition demo_book :: "rat \<Rightarrow> rat \<Rightarrow> lot \<Rightarrow> book" where
  "demo_book c p l = \<lparr>bk_cash = c, bk_pnl = p, bk_lots = [(py ''600001'', [l])], bk_names = [(py ''600001'', py ''A'')]\<rparr>"

definition demo_b1 :: book where "demo_b1 = demo_book (799498/100) 0 (demo_lot 200 200 (200502/100))"
definition demo_b2 :: book where "demo_b2 = demo_book (998896/100) (-1104/100) (demo_lot 200 0 0)"
definition demo_b3 :: book where "demo_b3 = demo_book (899499/100) 0 (demo_lot 100 100 (100501/100))"

lemma demo_apply:
  "apply_event demo_ledger (empty_book demo_ledger) demo_buy = Inr demo_b1"
  "apply_event demo_ledger demo_b1 demo_sell = Inr demo_b2"
  "apply_event demo_ledger (empty_book demo_ledger) demo_fix = Inr demo_b3"
  "apply_event demo_ledger demo_b3 demo_sell = Inl (ValueError ''available quantity is insufficient for this sell'')"
  by code_simp+

lemma demo_values:
  "\<forall>x \<in> set (bk_lots demo_b1). returns (position_of 739000 demo_b1 x)"
  "\<forall>x \<in> set (bk_lots demo_b2). returns (position_of 739002 demo_b2 x)"
  "\<forall>x \<in> set (bk_lots demo_b3). returns (position_of 739000 demo_b3 x)"
  by code_simp+

definition demo_bought :: ledger where "demo_bought = extended demo_ledger (Fill demo_buy)"
definition demo_sold :: ledger where "demo_sold = extended demo_bought (Fill demo_sell)"
definition demo_corrected :: ledger where
  "demo_corrected = extended demo_sold (Corr \<lparr>correction_id = py ''c'', original_event_id = py ''b'',
     replacement = demo_fix, corr_recorded_at = UTC 0\<rparr>)"

lemmas demo_ledgers = demo_corrected_def demo_sold_def demo_bought_def demo_ledger_def

lemma demo_same [simp]:
  "apply_event demo_bought = apply_event demo_ledger" "apply_event demo_sold = apply_event demo_ledger"
  "apply_event demo_corrected = apply_event demo_ledger" "empty_book demo_bought = empty_book demo_ledger"
  "empty_book demo_sold = empty_book demo_ledger" "empty_book demo_corrected = empty_book demo_ledger"
  by (rule apply_event_cong; simp add: demo_ledgers)+ (simp_all add: demo_ledgers empty_book_def)

lemma demo_until:
  "events_until demo_bought 739000 = [demo_buy]"
  "events_until demo_bought 739002 = [demo_buy]"
  "events_until demo_sold 739002 = [demo_buy, demo_sell]"
  "events_until demo_corrected 739000 = [demo_fix]"
  "events_until demo_corrected 739002 = [demo_fix, demo_sell]"
  by code_simp+

lemma demo_books:
  "book_at demo_bought 739000 = Inr demo_b1"
  "book_at demo_bought 739002 = Inr demo_b1"
  "book_at demo_sold 739002 = Inr demo_b2"
  "book_at demo_corrected 739000 = Inr demo_b3"
  "book_at demo_corrected 739002 = Inl (ValueError ''available quantity is insufficient for this sell'')"
  by (simp_all add: book_at_def demo_until demo_apply)

lemma demo_fills_ok: "fill_ok demo_buy" "fill_ok demo_sell" "fill_ok demo_fix"
  by code_simp+

lemma demo_six [simp]: "six_digits (py ''600001'')"
  by code_simp

lemma demo_sel [simp]:
  "event_id demo_buy = py ''b''" "event_id demo_sell = py ''s''" "event_id demo_fix = py ''f''"
  "trade_date demo_buy = 739000" "trade_date demo_sell = 739002" "trade_date demo_fix = 739000"
  "side demo_buy = BUY" "side demo_sell = SELL" "side demo_fix = BUY"
  "quantity demo_buy = 200" "quantity demo_sell = 200" "quantity demo_fix = 100"
  "symbol demo_buy = py ''600001''" "symbol demo_sell = py ''600001''" "symbol demo_fix = py ''600001''"
  by (simp_all add: demo_buy_def demo_sell_def demo_fix_def demo_fill_def)

lemma demo_snapshots:
  "returns (snapshot demo_bought t (Some 739000))"
  "returns (snapshot demo_sold t (Some 739002))"
  "returns (snapshot demo_corrected t (Some 739000))"
  using demo_values by (simp_all add: snapshot_returns demo_books)

lemma demo_stranded:
  "snapshot demo_corrected t (Some 739002) = Inl (ValueError ''available quantity is insufficient for this sell'')"
  by (simp add: snapshot_def demo_books)

lemma demo_buy_recorded: "\<exists>r. record_fill demo_ledger demo_buy = Inr (demo_bought, r)"
proof -
  have basis: "same_basis (demo_ledger\<lparr>events := [demo_buy]\<rparr>) demo_bought"
    by (simp add: same_basis_def demo_ledgers)
  have "returns (receipt_for (demo_ledger\<lparr>events := [demo_buy]\<rparr>) demo_buy False)"
    by (simp add: receipt_returns snapshot_basis[OF basis] demo_snapshots)
  then obtain r where "receipt_for (demo_ledger\<lparr>events := [demo_buy]\<rparr>) demo_buy False = Inr r"
    by (auto simp: returns_iff)
  then have "append_event demo_ledger demo_buy = Inr (demo_bought, r)"
    by (simp add: append_event_def demo_bought_def extended_def demo_ledger_def Let_def)
  moreover have "validate_name demo_ledger (symbol demo_buy) (fill_name demo_buy) = Inr ()" by code_simp
  ultimately show ?thesis by (simp add: record_fill_def demo_ledger_def)
qed

lemma demo_sell_recorded: "\<exists>r. record_fill demo_bought demo_sell = Inr (demo_sold, r)"
proof -
  have basis: "same_basis (demo_bought\<lparr>events := [demo_buy, demo_sell]\<rparr>) demo_sold"
    by (simp add: same_basis_def demo_ledgers)
  have "returns (receipt_for (demo_bought\<lparr>events := [demo_buy, demo_sell]\<rparr>) demo_sell False)"
    by (simp add: receipt_returns snapshot_basis[OF basis] demo_snapshots)
  then obtain r where "receipt_for (demo_bought\<lparr>events := [demo_buy, demo_sell]\<rparr>) demo_sell False = Inr r"
    by (auto simp: returns_iff)
  moreover have "events demo_bought = [demo_buy]" "events_by_id demo_bought (py ''s'') = None"
    by (simp_all add: demo_ledgers)
  ultimately have "append_event demo_bought demo_sell = Inr (demo_sold, r)"
    by (simp add: append_event_def demo_sold_def extended_def Let_def)
  moreover have "returns (check_available demo_bought 739002 (py ''600001'') 200)"
  proof -
    have "mapR (position_of 739002 demo_b1) (bk_lots demo_b1) = Inr [\<lparr>pos_symbol = py ''600001'', pos_name = py ''A'',
        total_quantity = 200, available_quantity = 200, frozen_quantity = 0, average_cost = 100251 / 10000\<rparr>]"
      by code_simp
    then have "\<exists>sn. snapshot demo_bought 0 (Some 739002) = Inr sn \<and> positions sn = [\<lparr>pos_symbol = py ''600001'', pos_name = py ''A'',
        total_quantity = 200, available_quantity = 200, frozen_quantity = 0, average_cost = 100251 / 10000\<rparr>]"
      by (simp add: snapshot_def demo_books)
    then show ?thesis by (auto simp: check_available_def position_def normalize_symbol_fixed)
  qed
  ultimately show ?thesis by (auto simp: record_fill_def returns_iff)
qed

lemma demo_reachable: "reachable demo_ledger demo_sold"
  using demo_buy_recorded demo_sell_recorded demo_fills_ok
  by (blast intro: reachable.intros ledger_step.intros)

lemma demo_correction_accepted:
  "\<exists>r. append_correction demo_sold \<lparr>dt_local = 0, dt_offset = Some 0\<rparr> [] (py ''b'') demo_fix (Some (py ''c'')) = Inr (demo_corrected, r)"
proof -
  have "make_correction \<lparr>dt_local = 0, dt_offset = Some 0\<rparr> (py ''c'') (py ''b'') demo_fix None
      = Inr \<lparr>correction_id = py ''c'', original_event_id = py ''b'', replacement = demo_fix, corr_recorded_at = UTC 0\<rparr>"
    (is "_ = Inr ?c") by code_simp
  moreover have "demo_sold\<lparr>events := events demo_sold @ [demo_fix], events_by_id := (events_by_id demo_sold)(event_id demo_fix \<mapsto> demo_fix),
      corrections := corrections demo_sold @ [?c], voided := py ''b'' # voided demo_sold, records := records demo_sold @ [Corr ?c]\<rparr>
      = demo_corrected"
    by (simp add: demo_corrected_def extended_def)
  moreover have "returns (receipt_for demo_corrected demo_fix False)"
    by (simp add: receipt_returns demo_snapshots)
  moreover have "events demo_corrected = [demo_buy, demo_sell, demo_fix]" by (simp add: demo_ledgers)
  then have "returns (snapshot demo_corrected 0 None)"
    by (simp add: snapshot_default demo_snapshots)
  moreover have "events_by_id demo_sold (py ''b'') = Some demo_buy" "voided demo_sold = []"
    "events_by_id demo_sold (py ''f'') = None"
    by (simp_all add: demo_ledgers)
  ultimately show ?thesis
    by (auto simp: append_correction_def Let_def returns_iff)
qed

end
