(* ===== verification/Account_Properties.thy ===== *)
theory Account_Properties
  imports Account_Examples
begin

text \<open>
  What the cash account promises, over every ledger that a sequence of accepted fills and corrections
  builds: exact cash, share conservation and settlement, the append-only log, safe repetition and
  reconstruction.  The worked history of \<open>Account_Examples\<close> witnesses each of them.
\<close>

section \<open>Helper facts\<close>

lemma reachable_config:
  assumes "reachable L0 L" "ledger_inv L0"
  shows "initial_cash L = initial_cash L0 \<and> fees_of L = fees_of L0 \<and> next_trading_day L = next_trading_day L0
     \<and> known_instruments L = known_instruments L0 \<and> lot_size L = lot_size L0"
  using assms
proof (induction rule: reachable.induct)
  case (step L L')
  then show ?case using ledger_step_extends[OF step.hyps(2)] reachable_inv[OF step.hyps(1)] by auto
qed simp

lemma inv_initial_grid: "ledger_inv L \<Longrightarrow> on_grid 2 (initial_cash L)"
  unfolding ledger_inv_def config_ok_def by blast

lemma same_event_refl: "same_event e e" by (simp add: same_event_def)

lemma receipt_idem: "receipt_for L e i = Inr r \<Longrightarrow> receipt_for L e j = Inr (r\<lparr>idempotent := j\<rparr>)"
  by (auto simp: receipt_for_def bindR_Inr_iff)

lemma demo_inv: "ledger_inv demo_ledger" by (rule make_ledger_inv[OF demo_start])

lemma demo_mapR:
  "mapR (position_of 739000 demo_b1) (bk_lots demo_b1) = Inr [\<lparr>pos_symbol = py ''600001'', pos_name = py ''A'',
     total_quantity = 200, available_quantity = 0, frozen_quantity = 200, average_cost = 100251 / 10000\<rparr>]"
  by code_simp

lemma demo_snapshot_value:
  "snapshot demo_bought 0 (Some 739000) = Inr \<lparr>as_of = 739000, cash = 799498 / 100, realized_pnl = 0,
     positions = [\<lparr>pos_symbol = py ''600001'', pos_name = py ''A'', total_quantity = 200, available_quantity = 0,
       frozen_quantity = 200, average_cost = 100251 / 10000\<rparr>]\<rparr>"
  by (simp add: snapshot_def demo_books demo_mapR, simp add: demo_b1_def demo_book_def)

lemma demo_reach_bought: "reachable demo_ledger demo_bought"
  using demo_buy_recorded demo_fills_ok by (blast intro: reachable.intros ledger_step.intros)

section \<open>Balances\<close>

text \<open>C1: The cash of every valuation is the initial cash plus the exact flows of the effective fills up to
  its date; a buy takes its notional plus its fees and a sell brings its notional less its fees, without
  any rounding beyond that of the notional and the single fees.\<close>

theorem ledger_cash_exact:
  assumes "make_ledger c fs kn ntd n = Inr L0" "reachable L0 L" "snapshot L t asof = Inr sn"
  shows "cash sn = initial_cash L0 + (\<Sum>e \<leftarrow> effective_until L (as_of sn). cash_flow fs e)
    \<and> (\<forall>e x. side e = BUY \<longrightarrow> buy_cost fs e = Inr x \<longrightarrow>
      (\<exists>nt f ft. notional e = Inr nt \<and> calculate_fees fs BUY (symbol e) nt = Inr f \<and> fee_total f = Inr ft
        \<and> cash_flow fs e = - (nt + ft)))
    \<and> (\<forall>e x. side e = SELL \<longrightarrow> sell_proceeds fs e = Inr x \<longrightarrow>
      (\<exists>nt f ft. notional e = Inr nt \<and> calculate_fees fs SELL (symbol e) nt = Inr f \<and> fee_total f = Inr ft
        \<and> cash_flow fs e = nt - ft))"
proof (intro conjI)
  note inv0 = make_ledger_inv[OF assms(1)]
  have fs: "fees_of L0 = fs" using assms(1) by (auto elim: make_ledger_Inr)
  note cfg = reachable_config[OF assms(2) inv0]
  obtain b where "book_at L (as_of sn) = Inr b" "cash sn = bk_cash b" using assms(3) by (rule snapshot_Inr)
  then show "cash sn = initial_cash L0 + (\<Sum>e \<leftarrow> effective_until L (as_of sn). cash_flow fs e)"
    using book_cash[of L "as_of sn" b] inv_initial_grid[OF reachable_inv[OF assms(2) inv0]] cfg fs by simp
qed (auto simp: cash_flow_def elim!: buy_cost_exact sell_proceeds_exact)

text \<open>At the buy of the worked history the account has paid 2,005.02.\<close>

theorem ledger_cash_exact_witness:
  "\<exists>sn. snapshot demo_bought 0 (Some 739000) = Inr sn \<and>
     cash sn = initial_cash demo_ledger + (\<Sum>e \<leftarrow> effective_until demo_bought (as_of sn). cash_flow default_fees e)
     \<and> cash sn = 10000 - 200502 / 100"
  using ledger_cash_exact[OF demo_start demo_reach_bought demo_snapshot_value]
  by (simp add: demo_snapshot_value)

text \<open>C2: Every position of every valuation holds exactly the shares bought less the shares sold of its
  symbol; frozen are exactly the shares of buys whose next session has not come (T+1), and the available
  rest is never negative and never more than the total.\<close>

theorem ledger_shares_exact:
  assumes "make_ledger c fs kn ntd n = Inr L0" "reachable L0 L" "snapshot L t asof = Inr sn" "p \<in> set (positions sn)"
  shows "total_quantity p = (\<Sum>e \<leftarrow> effective_until L (as_of sn). share_flow (pos_symbol p) e)
    \<and> frozen_quantity p = (\<Sum>e \<leftarrow> effective_until L (as_of sn). unsettled_flow L (as_of sn) (pos_symbol p) e)
    \<and> available_quantity p = total_quantity p - frozen_quantity p
    \<and> 0 \<le> available_quantity p \<and> available_quantity p \<le> total_quantity p"
proof -
  have pos: "\<forall>e \<in> set (events L). 0 < quantity e"
    using inv_fill_ok[OF reachable_inv[OF assms(2) make_ledger_inv[OF assms(1)]]] .
  obtain b where b: "book_at L (as_of sn) = Inr b" "total_quantity p = held (pos_symbol p) b"
    "frozen_quantity p = unsettled (as_of sn) (pos_symbol p) b"
    "available_quantity p = total_quantity p - frozen_quantity p" "0 \<le> available_quantity p" "0 \<le> frozen_quantity p"
    using assms(3,4) pos by (rule snapshot_position)
  with book_shares(2,3)[OF b(1) pos] show ?thesis by simp
qed

theorem ledger_shares_exact_witness:
  "\<exists>sn p. snapshot demo_bought 0 (Some 739000) = Inr sn \<and> p \<in> set (positions sn)
     \<and> total_quantity p = (\<Sum>e \<leftarrow> effective_until demo_bought (as_of sn). share_flow (pos_symbol p) e)
     \<and> frozen_quantity p = 200 \<and> available_quantity p = 0"
  using ledger_shares_exact[OF demo_start demo_reach_bought demo_snapshot_value]
  by (simp add: demo_snapshot_value)

section \<open>The log\<close>

text \<open>Every ledger built from accepted fills and corrections is well formed: distinct event ids, an
  index that finds exactly the recorded fills, corrections and void list that mirror the log, and voided
  ids that are recorded ones.\<close>

theorem ledger_invariant:
  "make_ledger c fs kn ntd n = Inr L0 \<Longrightarrow> reachable L0 L \<Longrightarrow> ledger_inv L"
  by (rule reachable_inv[OF _ make_ledger_inv])

theorem ledger_invariant_witness: "ledger_inv demo_sold"
  by (rule ledger_invariant[OF demo_start demo_reachable])

text \<open>The log is append-only: later states of a ledger extend its records, and its cash basis, fees,
  calendar, instruments and lot size never change.\<close>

theorem ledger_append_only:
  assumes "make_ledger c fs kn ntd n = Inr L0" "reachable L0 L" "reachable L M"
  shows "(\<exists>new. records M = records L @ new) \<and> (\<exists>new. events M = events L @ new)
    \<and> initial_cash M = initial_cash L \<and> fees_of M = fees_of L \<and> next_trading_day M = next_trading_day L
    \<and> known_instruments M = known_instruments L \<and> lot_size M = lot_size L"
proof -
  have inv: "ledger_inv L" by (rule reachable_inv[OF assms(2) make_ledger_inv[OF assms(1)]])
  obtain new where new: "records M = records L @ new" using reachable_log[OF assms(3) inv] by blast
  have "events L = map fill_of (records L)" "events M = map fill_of (records M)"
    using inv reachable_inv[OF assms(3) inv] unfolding ledger_inv_def by blast+
  with new have "events M = events L @ map fill_of new" by simp
  with new reachable_config[OF assms(3) inv] show ?thesis by blast
qed

theorem ledger_append_only_witness: "\<exists>new. records demo_sold = records demo_bought @ new"
proof -
  have "reachable demo_bought demo_sold"
    using demo_sell_recorded demo_fills_ok by (blast intro: reachable.intros ledger_step.intros)
  from ledger_append_only[OF demo_start demo_reach_bought this] show ?thesis by blast
qed

text \<open>C3: Recording an event is idempotent: appending an accepted event again is accepted, leaves the ledger
  as it is and says so in the receipt, with the same balances; a different event under the same id is
  refused.\<close>

theorem append_event_idempotent:
  assumes "append_event L e = Inr (L', r)" "events_by_id L (event_id e) = None"
  shows "append_event L' e = Inr (L', r\<lparr>idempotent := True\<rparr>)
    \<and> (\<forall>e'. event_id e' = event_id e \<longrightarrow> \<not> same_event e e' \<longrightarrow>
         append_event L' e' = Inl (ValueError ''event_id already exists with different details''))"
proof -
  from assms(1) have *: "L' = extended L (Fill e)" "receipt_for (L\<lparr>events := events L @ [e]\<rparr>) e False = Inr r"
    by (cases rule: append_event_cases; use assms(2) in simp)+
  have basis: "same_basis (L\<lparr>events := events L @ [e]\<rparr>) L'" by (simp add: *(1) same_basis_def)
  have look: "events_by_id L' (event_id e) = Some e" by (simp add: *(1))
  have "receipt_for L' e False = Inr r" using *(2) receipt_basis[OF basis] by simp
  from receipt_idem[OF this, of True] have "append_event L' e = Inr (L', r\<lparr>idempotent := True\<rparr>)"
    by (simp add: append_event_def look same_event_refl)
  then show ?thesis using look by (simp add: append_event_def)
qed

theorem append_event_idempotent_witness:
  "\<exists>r. append_event demo_bought demo_buy = Inr (demo_bought, r) \<and> idempotent r"
proof -
  obtain r where "append_event demo_ledger demo_buy = Inr (demo_bought, r)"
    using demo_buy_recorded record_fill_append by blast
  moreover have "events_by_id demo_ledger (event_id demo_buy) = None" by (simp add: demo_ledger_def)
  ultimately have "append_event demo_bought demo_buy = Inr (demo_bought, r\<lparr>idempotent := True\<rparr>)"
    using append_event_idempotent[of demo_ledger demo_buy demo_bought r] by blast
  moreover have "idempotent (r\<lparr>idempotent := True\<rparr>)" by simp
  ultimately show ?thesis by blast
qed

text \<open>The guard of a sell runs before the check for a repeated event, so a recorded sell cannot be
  confirmed again: the fill that was accepted a moment ago is refused for lack of available shares, although
  its \<^verbatim>\<open>event_id\<close> marks it as a repetition (which \<open>append_event\<close> alone would accept).\<close>

theorem repeated_sell_refused:
  "\<exists>r r'. record_fill demo_bought demo_sell = Inr (demo_sold, r)
     \<and> record_fill demo_sold demo_sell = Inl (ValueError ''available quantity is insufficient for this sell'')
     \<and> append_event demo_sold demo_sell = Inr (demo_sold, r')"
proof -
  obtain r where r: "record_fill demo_bought demo_sell = Inr (demo_sold, r)" using demo_sell_recorded by blast
  have "mapR (position_of 739002 demo_b2) (bk_lots demo_b2) = Inr [\<lparr>pos_symbol = py ''600001'', pos_name = py ''A'',
      total_quantity = 0, available_quantity = 0, frozen_quantity = 0, average_cost = 0\<rparr>]"
    by code_simp
  then have "check_available demo_sold 739002 (py ''600001'') 200
      = Inl (ValueError ''available quantity is insufficient for this sell'')"
    by (simp add: check_available_def snapshot_def demo_books position_def normalize_symbol_fixed)
  then have refused: "record_fill demo_sold demo_sell = Inl (ValueError ''available quantity is insufficient for this sell'')"
    by (simp add: record_fill_def)
  have "receipt_for (demo_bought\<lparr>events := events demo_bought @ [demo_sell]\<rparr>) demo_sell False = Inr r"
    using record_fill_append[OF r]
    by (cases rule: append_event_cases) (simp_all add: demo_bought_def demo_ledger_def)
  moreover have "same_basis (demo_bought\<lparr>events := events demo_bought @ [demo_sell]\<rparr>) demo_sold"
    by (simp add: same_basis_def demo_sold_def)
  ultimately have "receipt_for demo_sold demo_sell False = Inr r" using receipt_basis by metis
  from receipt_idem[OF this] have "append_event demo_sold demo_sell = Inr (demo_sold, r\<lparr>idempotent := True\<rparr>)"
    by (simp add: append_event_def demo_sold_def same_event_refl)
  with r refused show ?thesis by blast
qed

section \<open>Reconstruction and valuation\<close>

text \<open>C4: Replaying the log of a ledger gives the ledger back: \<^verbatim>\<open>from_records\<close> on the records of any
  reachable ledger, with the same configuration, accepts every record and ends in the same events, index,
  void list and records, up to the time stamps that replayed corrections receive from the clock.\<close>

theorem ledger_replay:
  assumes "make_ledger c fs kn ntd n = Inr L0" "reachable L0 L" "is_aware now"
  shows "\<exists>M. from_records now c fs kn ntd n (records L) = Inr M \<and> same_ledger L M
    \<and> (\<forall>t d. snapshot M t d = snapshot L t d)"
proof -
  have "records L0 = []" using assms(1) by (auto elim: make_ledger_Inr)
  with reachable_replay[OF assms(2) make_ledger_inv[OF assms(1)] _ assms(3)]
  obtain M where M: "foldR (replay_step now) L0 (records L) = Inr M" "same_ledger L M" by blast
  have "from_records now c fs kn ntd n (records L) = Inr M" by (simp add: from_records_def assms(1) M(1))
  moreover have "snapshot M t d = snapshot L t d" for t d
    using M(2) snapshot_basis[of L M] by (simp add: same_ledger_def)
  ultimately show ?thesis using M(2) by blast
qed

theorem ledger_replay_witness:
  "\<exists>M. from_records \<lparr>dt_local = 5, dt_offset = Some 0\<rparr> (ADec 10000) default_fees [] (\<lambda>d. Inr (next_weekday d)) 100
     [Fill demo_buy, Fill demo_sell] = Inr M \<and> same_ledger demo_sold M"
proof -
  have "records demo_sold = [Fill demo_buy, Fill demo_sell]" by (simp add: demo_ledgers)
  moreover have "is_aware \<lparr>dt_local = 5, dt_offset = Some 0\<rparr>" by (simp add: is_aware_def)
  ultimately show ?thesis using ledger_replay[OF demo_start demo_reachable] by metis
qed

text \<open>A ledger can always be valued at the date of its last entry, and one without corrections at every
  later date as well, so a sequence of accepted fills never leaves an account that cannot be read.\<close>

theorem ledger_valuation_total:
  assumes "make_ledger c fs kn ntd n = Inr L0" "reachable L0 L"
  shows "returns (snapshot L t None)
    \<and> (corrections L = [] \<longrightarrow> events L = [] \<or> trade_date (last (events L)) \<le> d \<longrightarrow> returns (snapshot L t (Some d)))"
proof -
  have e: "events L0 = []" using assms(1) by (auto elim: make_ledger_Inr)
  note inv = make_ledger_inv[OF assms(1)]
  show ?thesis
    using reachable_valued[OF assms(2) inv e] reachable_valued_later[OF assms(2) inv e] by blast
qed

theorem ledger_valuation_total_witness: "returns (snapshot demo_sold 0 None) \<and> returns (snapshot demo_sold 0 (Some 740000))"
proof -
  have "corrections demo_sold = []" "trade_date (last (events demo_sold)) \<le> 740000" by (simp_all add: demo_ledgers)
  then show ?thesis
    using ledger_valuation_total[OF demo_start demo_reachable] by blast
qed

text \<open>With corrections that is not so: \<open>append_correction\<close> values the account at the date of the
  corrected trade only, and accepts the reduction of a buy whose shares a recorded later sell has used.  Every
  valuation at the date of that sell then raises, although the account could be valued there before.\<close>

theorem correction_strands_account:
  "\<exists>L0 L now rep L' r. make_ledger (ADec 10000) default_fees [] (\<lambda>d. Inr (next_weekday d)) 100 = Inr L0
     \<and> reachable L0 L \<and> returns (snapshot L 0 (Some 739002))
     \<and> append_correction L now [] (py ''b'') rep (Some (py ''c'')) = Inr (L', r) \<and> fill_ok rep
     \<and> snapshot L' 0 (Some 739002) = Inl (ValueError ''available quantity is insufficient for this sell'')"
  using demo_start demo_reachable demo_snapshots(2)[of 0] demo_correction_accepted demo_fills_ok(3) demo_stranded[of 0]
  by blast

end
