(* ===== verification/Keyed_Log.thy ===== *)
theory Keyed_Log
  imports Py_Prelude
begin

text \<open>
  The contract of the append-only logs of the workbench.  A log holds items with distinct keys; adding an
  item whose key is new puts it at the end, adding a known one again changes nothing.  The account ledger,
  its hash-chained file and the other registers of the system provide it.
\<close>

locale keyed_log =
  fixes inv :: "'s \<Rightarrow> bool"
    and items :: "'s \<Rightarrow> 'a list"
    and add :: "'s \<Rightarrow> 'a \<Rightarrow> 's result"
    and key :: "'a \<Rightarrow> 'k"
    and ok :: "'a \<Rightarrow> bool"
  assumes inv_distinct: "inv s \<Longrightarrow> distinct (map key (items s))"
    and add_inv: "inv s \<Longrightarrow> ok a \<Longrightarrow> add s a = Inr s' \<Longrightarrow> inv s'"
    and add_cases: "inv s \<Longrightarrow> ok a \<Longrightarrow> add s a = Inr s' \<Longrightarrow>
      key a \<in> key ` set (items s) \<and> s' = s \<or> key a \<notin> key ` set (items s) \<and> items s' = items s @ [a]"
begin

lemma add_prefix: "inv s \<Longrightarrow> ok a \<Longrightarrow> add s a = Inr s' \<Longrightarrow> \<exists>new. items s' = items s @ new \<and> set new \<subseteq> {a}"
  using add_cases by fastforce

lemma add_keys:
  "inv s \<Longrightarrow> ok a \<Longrightarrow> add s a = Inr s' \<Longrightarrow> key ` set (items s') = insert (key a) (key ` set (items s))"
  using add_cases by fastforce

lemma adds_spec:
  assumes "foldR add s xs = Inr s'" "inv s" "\<forall>a \<in> set xs. ok a"
  shows "inv s' \<and> (\<exists>new. items s' = items s @ new \<and> set new \<subseteq> set xs)
    \<and> key ` set (items s') = key ` set xs \<union> key ` set (items s)"
  using assms
proof (induction xs arbitrary: s)
  case (Cons a xs)
  then obtain t where t: "add s a = Inr t" "foldR add t xs = Inr s'" by (auto simp: bindR_Inr_iff)
  have "inv t" using add_inv Cons.prems t by auto
  then have IH: "inv s' \<and> (\<exists>new. items s' = items t @ new \<and> set new \<subseteq> set xs)
      \<and> key ` set (items s') = key ` set xs \<union> key ` set (items t)"
    using Cons.IH[OF t(2)] Cons.prems by auto
  obtain n1 where n1: "items t = items s @ n1" "set n1 \<subseteq> {a}" using add_prefix[OF _ _ t(1)] Cons.prems by auto
  have k: "key ` set (items t) = insert (key a) (key ` set (items s))" using add_keys[OF _ _ t(1)] Cons.prems by auto
  from IH obtain n2 where n2: "items s' = items t @ n2" "set n2 \<subseteq> set xs" by blast
  have "items s' = items s @ (n1 @ n2)" "set (n1 @ n2) \<subseteq> set (a # xs)" using n1 n2 by auto
  then show ?case using IH k by (intro conjI) (blast, blast, auto)
qed auto

lemma adds_fresh:
  assumes "foldR add s xs = Inr s'" "inv s" "\<forall>a \<in> set xs. ok a"
    "distinct (map key xs)" "key ` set xs \<inter> key ` set (items s) = {}"
  shows "items s' = items s @ xs"
  using assms
proof (induction xs arbitrary: s)
  case (Cons a xs)
  then obtain t where t: "add s a = Inr t" "foldR add t xs = Inr s'" by (auto simp: bindR_Inr_iff)
  have ok: "ok a" "inv s" using Cons.prems by auto
  have it: "items t = items s @ [a]" using add_cases[OF ok(2,1) t(1)] Cons.prems(5) by auto
  have "items s' = items t @ xs"
    using Cons.prems it add_inv[OF ok(2,1) t(1)] by (intro Cons.IH[OF t(2)]) auto
  then show ?case using it by simp
qed simp

end

end
