(* ===== verification/Py_Float.thy ===== *)
theory Py_Float
  imports Py_Prelude
begin

text \<open>
  Python's floats: a float is a finite rational, an infinity (with its sign) or NaN, with the comparisons of the code.
\<close>

datatype pyfloat = Num rat | Inf bool | Nan

definition isfinite :: "pyfloat \<Rightarrow> bool" where
  "isfinite x \<longleftrightarrow> (case x of Num _ \<Rightarrow> True | _ \<Rightarrow> False)"

fun flt :: "pyfloat \<Rightarrow> pyfloat \<Rightarrow> bool" where
  "flt (Num a) (Num b) \<longleftrightarrow> a < b"
| "flt (Num a) (Inf neg) \<longleftrightarrow> \<not> neg"
| "flt (Inf neg) (Num b) \<longleftrightarrow> neg"
| "flt (Inf m) (Inf n) \<longleftrightarrow> m \<and> \<not> n"
| "flt _ _ \<longleftrightarrow> False"

text \<open>\<^verbatim>\<open>a <= b\<close>, false when one of them is NaN.\<close>

definition fle :: "pyfloat \<Rightarrow> pyfloat \<Rightarrow> bool" where
  "fle a b \<longleftrightarrow> flt a b \<or> (a = b \<and> a \<noteq> Nan)"

lemma flt_Num [simp]: "flt (Num a) (Num b) \<longleftrightarrow> a < b" "fle (Num a) (Num b) \<longleftrightarrow> a \<le> b"
  by (auto simp: fle_def)

lemma isfinite_iff: "isfinite x \<longleftrightarrow> (\<exists>r. x = Num r)"
  by (cases x) (simp_all add: isfinite_def)

text \<open>The value of a finite float, as the arguments of \<^verbatim>\<open>_finite\<close> helpers return it.\<close>

definition finite_float :: "pyfloat \<Rightarrow> string \<Rightarrow> rat result" where
  "finite_float x f = (case x of Num r \<Rightarrow> Inr r | _ \<Rightarrow> Inl (ValueError (f @ '' must be finite'')))"

lemma finite_float_Inr [result_simps]: "finite_float x f = Inr r \<longleftrightarrow> x = Num r"
  by (cases x) (auto simp: finite_float_def)

end
