(* ===== verification/Py_Json.thy ===== *)
theory Py_Json
  imports Py_Text Py_Time Py_Float
begin

text \<open>
  What \<^verbatim>\<open>json.loads\<close> makes of a text, with the texts that \<^verbatim>\<open>str\<close> and \<^verbatim>\<open>isoformat\<close> make of a decimal, a date
  and a time as leaves of their own, and the reads of the \<^verbatim>\<open>from_dict\<close> methods.  A \<open>JFloat\<close> is a number with a fraction or
  an exponent; an object whose keys are data, not names of the program, is a \<open>JDict\<close>.
\<close>

section \<open>JSON values\<close>

datatype json = JNull | JBool bool | JInt int | JStr pystr | JDec rat | JDate date | JTime datetime
  | JFloat rat | JList "json list" | JObj "(string \<times> json) list" | JDict "(pystr \<times> json) list"

definition field :: "(string \<times> json) list \<Rightarrow> string \<Rightarrow> json result" where
  "field ob k = (case dict_get ob k of None \<Rightarrow> Inl KeyError | Some v \<Rightarrow> Inr v)"

text \<open>A required argument of a constructor called with the pairs of an object.\<close>

definition argument :: "(string \<times> json) list \<Rightarrow> string \<Rightarrow> json result" where
  "argument ob k = (case dict_get ob k of None \<Rightarrow> Inl (TypeError ''missing a required argument'') | Some v \<Rightarrow> Inr v)"

text \<open>The reads of \<^verbatim>\<open>from_dict\<close>.  The program writes a string, an integer, a decimal, a date or a
  time into each field; a value of another JSON type, which a foreign writer could have put there, raises
  here.\<close>

definition text_of :: "json \<Rightarrow> pystr result" where
  "text_of v = (case v of JStr s \<Rightarrow> Inr s | _ \<Rightarrow> Inl (TypeError ''not a string''))"

definition int_of :: "json \<Rightarrow> int result" where
  "int_of v = (case v of JInt i \<Rightarrow> Inr i | _ \<Rightarrow> Inl (TypeError ''not an integer''))"

definition num_of :: "json \<Rightarrow> num_arg result" where
  "num_of v = (case v of JDec x \<Rightarrow> Inr (ADec x) | JInt i \<Rightarrow> Inr (ADec (of_int i)) | JStr s \<Rightarrow> Inr (AText s)
     | _ \<Rightarrow> Inl (TypeError ''not a number''))"

definition date_of :: "json \<Rightarrow> date result" where
  "date_of v = (case v of JDate d \<Rightarrow> Inr d | _ \<Rightarrow> Inl (ValueError ''Invalid isoformat string''))"

definition time_of :: "json \<Rightarrow> datetime result" where
  "time_of v = (case v of JTime t \<Rightarrow> Inr t | _ \<Rightarrow> Inl (ValueError ''Invalid isoformat string''))"

definition text_field :: "(string \<times> json) list \<Rightarrow> string \<Rightarrow> pystr result" where
  "text_field ob k = bindR (field ob k) text_of"

definition text_field_or :: "(string \<times> json) list \<Rightarrow> string \<Rightarrow> pystr \<Rightarrow> pystr result" where
  "text_field_or ob k dflt = (case dict_get ob k of None \<Rightarrow> Inr dflt | Some v \<Rightarrow> text_of v)"

text \<open>\<^verbatim>\<open>float(v)\<close> of a value of the file; the parsing of a text as a float is not modelled.\<close>

definition float_of :: "json \<Rightarrow> string \<Rightarrow> pyfloat result" where
  "float_of v f = (case v of JFloat x \<Rightarrow> Inr (Num x) | JInt i \<Rightarrow> Inr (Num (of_int i)) | JBool b \<Rightarrow> Inr (Num (if b then 1 else 0))
     | _ \<Rightarrow> Inl (ValueError (f @ '' must be numeric'')))"

definition bool_of :: "json \<Rightarrow> bool result" where
  "bool_of v = (case v of JBool b \<Rightarrow> Inr b | _ \<Rightarrow> Inl (TypeError ''not a bool''))"

lemma as_utc_utc [simp]: "as_utc (utc_datetime u) m = Inr u"
  by (simp add: as_utc_def)

text \<open>\<^verbatim>\<open>value == n\<close> for a version number, and the lower-case hexadecimal digits of a digest.\<close>

definition is_format :: "int \<Rightarrow> json option \<Rightarrow> bool" where
  "is_format n v \<longleftrightarrow> v = Some (JInt n) \<or> v = Some (JFloat (of_int n)) \<or> n = 1 \<and> v = Some (JBool True)"

definition lower_hex :: "pystr \<Rightarrow> bool" where
  "lower_hex s \<longleftrightarrow> list_all (\<lambda>c. 48 \<le> c \<and> c \<le> 57 \<or> 97 \<le> c \<and> c \<le> 102) s"

end
