(* ===== verification/Account_Store.thy ===== *)
theory Account_Store
  imports Account_History Keyed_Log Py_Json
begin

text \<open>
  \<^verbatim>\<open>account/store.py\<close>: the hash-chained JSONL file of the account's records, with the
  \<^verbatim>\<open>to_dict\<close> and \<^verbatim>\<open>from_dict\<close> of \<^verbatim>\<open>account/contracts.py\<close>.

  A line of the file is what \<^verbatim>\<open>json.loads\<close> makes of it.  The code reads objects by key and writes
  them with \<^verbatim>\<open>sort_keys\<close>, so an object is its list of pairs in the order of the keys.  The texts
  that \<^verbatim>\<open>str\<close> and \<^verbatim>\<open>isoformat\<close> make of a decimal, a date and a time are kept as leaves of their
  own, read back by the matching constructor.  SHA-256 of the canonical text is the argument \<open>dg\<close>.
\<close>

section \<open>Payloads\<close>

datatype line = Blank | Malformed | Parsed json

definition side_value :: "trade_side \<Rightarrow> pystr" where
  "side_value s = (case s of BUY \<Rightarrow> py ''BUY'' | SELL \<Rightarrow> py ''SELL'')"

definition fill_to_dict :: "fill \<Rightarrow> (string \<times> json) list" where
  "fill_to_dict e =
     [(''event_id'', JStr (event_id e)), (''name'', JStr (fill_name e)), (''price'', JDec (fill_price e)),
      (''quantity'', JInt (quantity e)), (''recorded_at'', JTime (utc_datetime (recorded_at e))),
      (''side'', JStr (side_value (side e))), (''source'', JStr (source e)), (''symbol'', JStr (symbol e)),
      (''trade_date'', JDate (trade_date e))]"

definition fill_from_dict :: "(string \<times> json) list \<Rightarrow> fill result" where
  "fill_from_dict ob =
     bindR (text_field ob ''event_id'') (\<lambda>i.
     bindR (text_field ob ''side'') (\<lambda>sd.
     bindR (text_field ob ''symbol'') (\<lambda>s.
     bindR (bindR (field ob ''quantity'') int_of) (\<lambda>q.
     bindR (bindR (field ob ''price'') num_of) (\<lambda>p.
     bindR (bindR (field ob ''trade_date'') date_of) (\<lambda>d.
     bindR (text_field_or ob ''name'' []) (\<lambda>nm.
     bindR (text_field_or ob ''source'' (py ''manual'')) (\<lambda>src.
     bindR (bindR (field ob ''recorded_at'') time_of) (\<lambda>t.
     make_fill t i (SideText sd) s q p d nm src (Some t))))))))))"

definition correction_to_dict :: "correction \<Rightarrow> (string \<times> json) list" where
  "correction_to_dict c =
     [(''correction_id'', JStr (correction_id c)), (''original_event_id'', JStr (original_event_id c)),
      (''recorded_at'', JTime (utc_datetime (corr_recorded_at c))),
      (''replacement'', JObj (fill_to_dict (replacement c)))]"

definition correction_from_dict :: "(string \<times> json) list \<Rightarrow> correction result" where
  "correction_from_dict ob =
     bindR (text_field ob ''correction_id'') (\<lambda>cid.
     bindR (text_field ob ''original_event_id'') (\<lambda>oid.
     bindR (field ob ''replacement'') (\<lambda>r.
     bindR (case r of JObj q \<Rightarrow> fill_from_dict q | _ \<Rightarrow> Inl (TypeError ''replacement is not a mapping'')) (\<lambda>rep.
     bindR (bindR (field ob ''recorded_at'') time_of) (\<lambda>t.
     make_correction t cid oid rep (Some t))))))"

section \<open>Rows\<close>

record row =
  row_kind :: string
  row_payload :: json
  record_hash :: pystr

definition bad_line :: "'a result" where
  "bad_line = Inl (ValueError ''ledger hash validation failed at line {line_number}'')"

definition unsigned_row :: "string \<Rightarrow> pystr \<Rightarrow> json \<Rightarrow> json" where
  "unsigned_row k prev pl = JObj [(''kind'', JStr (py k)), (''payload'', pl), (''previous_hash'', JStr prev)]"

definition signed_row :: "string \<Rightarrow> pystr \<Rightarrow> json \<Rightarrow> pystr \<Rightarrow> json" where
  "signed_row k prev pl h =
     JObj [(''kind'', JStr (py k)), (''payload'', pl), (''previous_hash'', JStr prev), (''record_hash'', JStr h)]"

definition kind_of :: "json \<Rightarrow> string option result" where
  "kind_of v = (case v of
       JStr s \<Rightarrow> Inr (if s = py ''fill'' then Some ''fill'' else if s = py ''correction'' then Some ''correction'' else None)
     | JList _ \<Rightarrow> Inl (TypeError ''unhashable type'')
     | JObj _ \<Rightarrow> Inl (TypeError ''unhashable type'')
     | _ \<Rightarrow> Inr None)"

definition check_row :: "(json \<Rightarrow> pystr) \<Rightarrow> pystr \<Rightarrow> line \<Rightarrow> row result" where
  "check_row dg prev lne = (case lne of
       Parsed (JObj [(a, kd), (b, pl), (c, pv), (d, rh)]) \<Rightarrow>
         if [a, b, c, d] \<noteq> [''kind'', ''payload'', ''previous_hash'', ''record_hash''] then bad_line
         else bindR (kind_of kd) (\<lambda>k. case k of None \<Rightarrow> bad_line | Some k \<Rightarrow>
           if pv \<noteq> JStr prev then bad_line
           else if rh \<noteq> JStr (dg (unsigned_row k prev pl)) then bad_line
           else Inr \<lparr>row_kind = k, row_payload = pl, record_hash = dg (unsigned_row k prev pl)\<rparr>)
     | _ \<Rightarrow> bad_line)"

fun validated_rows :: "(json \<Rightarrow> pystr) \<Rightarrow> pystr \<Rightarrow> line list \<Rightarrow> row list result" where
  "validated_rows dg prev [] = Inr []"
| "validated_rows dg prev (lne # lns) =
     bindR (check_row dg prev lne) (\<lambda>r. bindR (validated_rows dg (record_hash r) lns) (\<lambda>rs. Inr (r # rs)))"

definition record_from_row :: "row \<Rightarrow> ledger_record result" where
  "record_from_row r = (case row_payload r of
       JObj ob \<Rightarrow> if row_kind r = ''fill'' then bindR (fill_from_dict ob) (\<lambda>e. Inr (Fill e))
                else if row_kind r = ''correction'' then bindR (correction_from_dict ob) (\<lambda>c. Inr (Corr c))
                else Inl (ValueError ''unknown ledger record kind'')
     | _ \<Rightarrow> Inl (ValueError ''ledger hash validation failed''))"

fun record_identity :: "ledger_record \<Rightarrow> string \<times> pystr" where
  "record_identity (Fill e) = (''fill'', event_id e)"
| "record_identity (Corr c) = (''correction'', correction_id c)"

definition record_kind :: "ledger_record \<Rightarrow> string" where
  "record_kind r = (case r of Fill _ \<Rightarrow> ''fill'' | Corr _ \<Rightarrow> ''correction'')"

definition record_to_dict :: "ledger_record \<Rightarrow> json" where
  "record_to_dict r = JObj (case r of Fill e \<Rightarrow> fill_to_dict e | Corr c \<Rightarrow> correction_to_dict c)"

section \<open>Loading and appending\<close>

text \<open>The file is the list of its lines; a file that does not exist is the empty list.\<close>

definition load_records :: "(json \<Rightarrow> pystr) \<Rightarrow> line list \<Rightarrow> ledger_record list result" where
  "load_records dg f = bindR (validated_rows dg [] f) (mapR record_from_row)"

definition load_fills :: "(json \<Rightarrow> pystr) \<Rightarrow> line list \<Rightarrow> fill list result" where
  "load_fills dg f = bindR (load_records dg f) (\<lambda>rs. Inr [e. Fill e \<leftarrow> rs])"

text \<open>The loop over the stored rows: the hash of an equal record, or nothing.\<close>

fun find_existing :: "ledger_record \<Rightarrow> row list \<Rightarrow> pystr option result" where
  "find_existing rec [] = Inr None"
| "find_existing rec (r # rs) =
     bindR (record_from_row r) (\<lambda>x.
     if record_identity x \<noteq> record_identity rec then find_existing rec rs
     else if x = rec then Inr (Some (record_hash r))
     else Inl (ValueError ''ledger record identity already exists with different details''))"

definition previous_hash :: "row list \<Rightarrow> pystr" where
  "previous_hash rows = (if rows = [] then [] else record_hash (last rows))"

definition store_append :: "(json \<Rightarrow> pystr) \<Rightarrow> line list \<Rightarrow> ledger_record \<Rightarrow> (line list \<times> pystr) result" where
  "store_append dg f rec =
     bindR (validated_rows dg [] f) (\<lambda>rows.
     bindR (find_existing rec rows) (\<lambda>found. case found of
         Some h \<Rightarrow> Inr (f, h)
       | None \<Rightarrow> let prev = previous_hash rows; h = dg (unsigned_row (record_kind rec) prev (record_to_dict rec))
           in Inr (f @ [Parsed (signed_row (record_kind rec) prev (record_to_dict rec) h)], h)))"

section \<open>Round trips\<close>

lemma side_round: "parse_side (SideText (side_value s)) = Inr s"
proof (cases s)
  case BUY
  have "parse_side (SideText (side_value BUY)) = Inr BUY" by code_simp
  with BUY show ?thesis by simp
next
  case SELL
  have "parse_side (SideText (side_value SELL)) = Inr SELL" by code_simp
  with SELL show ?thesis by simp
qed

lemma fill_from_to: "fill_ok e \<Longrightarrow> fill_from_dict (fill_to_dict e) = Inr e"
  by (simp add: fill_from_dict_def fill_to_dict_def text_field_def text_field_or_def field_def text_of_def int_of_def
       num_of_def date_of_def time_of_def make_fill_def fill_ok_def side_round
       normalize_symbol_fixed price_arg_def)

definition record_ok :: "ledger_record \<Rightarrow> bool" where
  "record_ok r \<longleftrightarrow> (case r of Fill e \<Rightarrow> fill_ok e
     | Corr c \<Rightarrow> fill_ok (replacement c) \<and> correction_id c \<noteq> [] \<and> py_strip (correction_id c) = correction_id c
         \<and> original_event_id c \<noteq> [] \<and> py_strip (original_event_id c) = original_event_id c)"

lemma correction_from_to: "record_ok (Corr c) \<Longrightarrow> correction_from_dict (correction_to_dict c) = Inr c"
  by (simp add: correction_from_dict_def correction_to_dict_def text_field_def field_def text_of_def time_of_def
      record_ok_def fill_from_to make_correction_def)

lemma record_from_written:
  "record_ok r \<Longrightarrow> row_payload w = record_to_dict r \<Longrightarrow> row_kind w = record_kind r \<Longrightarrow> record_from_row w = Inr r"
  by (cases r) (simp_all add: record_from_row_def record_to_dict_def record_kind_def fill_from_to correction_from_to record_ok_def)

section \<open>The chain\<close>

lemma check_row_Inr:
  assumes "check_row dg prev lne = Inr r"
  shows "lne = Parsed (signed_row (row_kind r) prev (row_payload r) (record_hash r))
    \<and> record_hash r = dg (unsigned_row (row_kind r) prev (row_payload r)) \<and> row_kind r \<in> {''fill'', ''correction''}"
  using assms
  by (auto simp: check_row_def bad_line_def kind_of_def signed_row_def bindR_Inr_iff
      split: line.splits json.splits list.splits option.splits if_splits)

lemma check_row_signed:
  "k \<in> {''fill'', ''correction''} \<Longrightarrow> check_row dg prev (Parsed (signed_row k prev pl (dg (unsigned_row k prev pl))))
     = Inr \<lparr>row_kind = k, row_payload = pl, record_hash = dg (unsigned_row k prev pl)\<rparr>"
  by (auto simp: check_row_def signed_row_def kind_of_def)

definition end_hash :: "pystr \<Rightarrow> row list \<Rightarrow> pystr" where
  "end_hash prev rs = (if rs = [] then prev else record_hash (last rs))"

lemma end_hash_simps [simp]:
  "end_hash prev [] = prev" "end_hash prev (r # rs) = end_hash (record_hash r) rs"
  "end_hash prev (rs @ [r]) = record_hash r"
  by (simp_all add: end_hash_def)

lemma previous_hash_end: "previous_hash rs = end_hash [] rs"
  by (simp add: previous_hash_def end_hash_def)

lemma validated_rows_append:
  "validated_rows dg prev (xs @ ys) = bindR (validated_rows dg prev xs) (\<lambda>rs.
     bindR (validated_rows dg (end_hash prev rs) ys) (\<lambda>ss. Inr (rs @ ss)))"
proof (induction xs arbitrary: prev)
  case Nil
  show ?case by (cases "validated_rows dg prev ys") auto
next
  case (Cons x xs)
  show ?case
  proof (cases "check_row dg prev x")
    case r: (Inr r)
    show ?thesis
    proof (cases "validated_rows dg (record_hash r) xs")
      case rs: (Inr rs)
      show ?thesis by (cases "validated_rows dg (end_hash (record_hash r) rs) ys") (simp_all add: r rs Cons)
    qed (simp add: r Cons)
  qed simp
qed

lemma validated_rows_snoc:
  "validated_rows dg prev (xs @ [x]) = Inr rs \<longleftrightarrow> (\<exists>r0 r. validated_rows dg prev xs = Inr r0
     \<and> check_row dg (end_hash prev r0) x = Inr r \<and> rs = r0 @ [r])"
  by (auto simp: validated_rows_append bindR_Inr_iff)

lemma validated_rows_length: "validated_rows dg prev f = Inr rs \<Longrightarrow> length rs = length f"
  by (induction f arbitrary: prev rs) (auto simp: bindR_Inr_iff)

lemma validated_rows_take: "validated_rows dg prev f = Inr rs \<Longrightarrow> validated_rows dg prev (take k f) = Inr (take k rs)"
proof -
  assume a: "validated_rows dg prev f = Inr rs"
  have "validated_rows dg prev (take k f @ drop k f) = Inr rs" using a by simp
  then obtain r1 r2 where r: "validated_rows dg prev (take k f) = Inr r1" "rs = r1 @ r2"
    "validated_rows dg (end_hash prev r1) (drop k f) = Inr r2"
    by (auto simp del: append_take_drop_id simp: validated_rows_append bindR_Inr_iff)
  then have "length r1 = length (take k f)" "length r2 = length (drop k f)" by (blast dest: validated_rows_length)+
  then have "take k rs = r1" using r(2) by (cases "k \<le> length f") auto
  then show ?thesis using r(1) by simp
qed

lemma mapR_append: "mapR f (xs @ ys) = bindR (mapR f xs) (\<lambda>a. bindR (mapR f ys) (\<lambda>b. Inr (a @ b)))"
proof (induction xs)
  case Nil
  show ?case by (cases "mapR f ys") auto
next
  case (Cons x xs)
  show ?case by (cases "f x"; cases "mapR f xs"; cases "mapR f ys") (auto simp: Cons)
qed

lemma mapR_take: "mapR f xs = Inr ys \<Longrightarrow> mapR f (take k xs) = Inr (take k ys)"
  by (simp add: mapR_Inr_iff list_all2_takeI)

section \<open>The file as a keyed log\<close>

definition stored :: "(json \<Rightarrow> pystr) \<Rightarrow> line list \<Rightarrow> ledger_record list" where
  "stored dg f = (case load_records dg f of Inl _ \<Rightarrow> [] | Inr rs \<Rightarrow> rs)"

definition store_inv :: "(json \<Rightarrow> pystr) \<Rightarrow> line list \<Rightarrow> bool" where
  "store_inv dg f \<longleftrightarrow> load_records dg f = Inr (stored dg f) \<and> distinct (map record_identity (stored dg f))"

lemma store_inv_empty: "store_inv dg []" "stored dg [] = []"
  by (simp_all add: store_inv_def stored_def load_records_def)

lemma find_existing_spec:
  assumes "mapR record_from_row rows = Inr rs"
  shows "(record_identity rec \<notin> record_identity ` set rs \<longrightarrow> find_existing rec rows = Inr None)
    \<and> (find_existing rec rows = Inr None \<longrightarrow> record_identity rec \<notin> record_identity ` set rs)
    \<and> (\<forall>h. find_existing rec rows = Inr (Some h) \<longrightarrow> rec \<in> set rs)"
  using assms
proof (induction rows arbitrary: rs)
  case (Cons r rows)
  then obtain x xs where x: "record_from_row r = Inr x" "mapR record_from_row rows = Inr xs" "rs = x # xs"
    by (auto simp: bindR_Inr_iff)
  show ?case
  proof (cases "record_identity x = record_identity rec")
    case True
    then have "find_existing rec (r # rows) = (if x = rec then Inr (Some (record_hash r))
       else Inl (ValueError ''ledger record identity already exists with different details''))"
      by (simp add: x(1))
    then show ?thesis using x(3) True by auto
  next
    case False
    then have "find_existing rec (r # rows) = find_existing rec rows" by (simp add: x(1))
    moreover have "set rs = insert x (set xs)" using x(3) by simp
    ultimately show ?thesis using Cons.IH[OF x(2)] False by (metis image_insert insert_iff)
  qed
qed simp

lemma record_identity_kind: "fst (record_identity r) = record_kind r"
  by (cases r) (simp_all add: record_kind_def)

lemma store_append_cases:
  assumes "store_append dg f rec = Inr (f', h)" "store_inv dg f" "record_ok rec"
  shows "(rec \<in> set (stored dg f) \<and> f' = f)
    \<or> (record_identity rec \<notin> record_identity ` set (stored dg f) \<and> store_inv dg f' \<and> stored dg f' = stored dg f @ [rec]
        \<and> (\<exists>lne. f' = f @ [lne]))"
proof -
  from assms(2) obtain rows where rows: "validated_rows dg [] f = Inr rows" "mapR record_from_row rows = Inr (stored dg f)"
    by (auto simp: store_inv_def load_records_def bindR_Inr_iff)
  note spec = find_existing_spec[OF rows(2), of rec]
  from assms(1) obtain found where found: "find_existing rec rows = Inr found"
    using rows by (auto simp: store_append_def bindR_Inr_iff)
  show ?thesis
  proof (cases found)
    case (Some g)
    then have "f' = f" using assms(1) rows found by (simp add: store_append_def)
    then show ?thesis using Some found spec by blast
  next
    case None
    define prev where "prev = previous_hash rows"
    define pl where "pl = record_to_dict rec"
    define lne where "lne = Parsed (signed_row (record_kind rec) prev pl (dg (unsigned_row (record_kind rec) prev pl)))"
    define w where "w = \<lparr>row_kind = record_kind rec, row_payload = pl, record_hash = dg (unsigned_row (record_kind rec) prev pl)\<rparr>"
    have f': "f' = f @ [lne]" using assms(1) rows found None by (auto simp: store_append_def Let_def lne_def prev_def pl_def)
    have k: "record_kind rec \<in> {''fill'', ''correction''}" by (cases rec) (simp_all add: record_kind_def)
    have "check_row dg prev lne = Inr w" unfolding lne_def w_def by (rule check_row_signed[OF k])
    then have "validated_rows dg [] f' = Inr (rows @ [w])"
      by (simp add: f' validated_rows_snoc rows prev_def previous_hash_end)
    moreover have "record_from_row w = Inr rec"
      by (rule record_from_written[OF assms(3)]) (simp_all add: w_def pl_def)
    ultimately have load: "load_records dg f' = Inr (stored dg f @ [rec])"
      by (simp add: load_records_def mapR_append rows)
    then have "stored dg f' = stored dg f @ [rec]" by (simp add: stored_def)
    moreover have "record_identity rec \<notin> record_identity ` set (stored dg f)" using spec found None by blast
    ultimately show ?thesis using load f' assms(2) by (auto simp: store_inv_def)
  qed
qed

definition store_add :: "(json \<Rightarrow> pystr) \<Rightarrow> line list \<Rightarrow> ledger_record \<Rightarrow> line list result" where
  "store_add dg f rec = bindR (store_append dg f rec) (\<lambda>(f', _). Inr f')"

lemma store_add_Inr: "store_add dg f rec = Inr f' \<longleftrightarrow> (\<exists>h. store_append dg f rec = Inr (f', h))"
  by (auto simp: store_add_def bindR_Inr_iff)

interpretation jsonl: keyed_log "store_inv dg" "stored dg" "store_add dg" record_identity record_ok for dg
proof (unfold_locales, goal_cases)
  case (1 f)
  then show ?case by (simp add: store_inv_def)
next
  case (2 f r f')
  then obtain h where h: "store_append dg f r = Inr (f', h)" by (auto simp: store_add_Inr)
  show ?case using store_append_cases[OF h 2(1,2)] 2(1) by blast
next
  case (3 f r f')
  then obtain h where h: "store_append dg f r = Inr (f', h)" by (auto simp: store_add_Inr)
  show ?case using store_append_cases[OF h 3(1,2)] by blast
qed

text \<open>The in-memory ledger provides the same contract, with the event ids as keys.\<close>

definition event_add :: "ledger \<Rightarrow> fill \<Rightarrow> ledger result" where
  "event_add L e = bindR (append_event L e) (\<lambda>(L', _). Inr L')"

interpretation evlog: keyed_log ledger_inv events event_add event_id fill_ok
proof (unfold_locales, goal_cases)
  case (1 L)
  then show ?case unfolding ledger_inv_def by blast
next
  case (2 L e L')
  then show ?case using append_event_inv by (auto simp: event_add_def bindR_Inr_iff)
next
  case (3 L e L')
  then obtain r where r: "append_event L e = Inr (L', r)" by (auto simp: event_add_def bindR_Inr_iff)
  then show ?case
  proof (cases rule: append_event_cases)
    case (old old)
    then show ?thesis using inv_lookup[OF 3(1), of "event_id e" old] by (metis imageI)
  next
    case new
    then show ?thesis using inv_fresh[OF 3(1)] by simp
  qed
qed

section \<open>Evidence of tampering\<close>

text \<open>The values whose digests a file's rows carry.\<close>

definition digested :: "line list \<Rightarrow> json set" where
  "digested f = {unsigned_row k prev pl |k prev pl h. Parsed (signed_row k prev pl h) \<in> set f}"

lemma digestedI: "Parsed (signed_row k p v h) \<in> set f \<Longrightarrow> unsigned_row k p v \<in> digested f"
  unfolding digested_def by blast

lemma unsigned_row_inject: "unsigned_row k p v = unsigned_row k' p' v' \<longleftrightarrow> k = k' \<and> p = p' \<and> v = v'"
  by (auto simp: unsigned_row_def)

lemma end_hash_nonempty:
  assumes "validated_rows dg [] f = Inr rs" "\<forall>v. dg v \<noteq> []" "f \<noteq> []"
  shows "end_hash [] rs \<noteq> []"
  using assms by (cases f rule: rev_cases) (auto simp: validated_rows_snoc dest: check_row_Inr)

lemma chain_unique:
  assumes "inj_on dg (digested f \<union> digested g)" "\<forall>v. dg v \<noteq> []"
    and "validated_rows dg [] f = Inr rs" "validated_rows dg [] g = Inr ss" "end_hash [] rs = end_hash [] ss"
  shows "f = g"
  using assms
proof (induction f arbitrary: g rs ss rule: rev_induct)
  case Nil
  then have "end_hash [] ss = []" by simp
  then show ?case using end_hash_nonempty[OF Nil.prems(4,2)] by blast
next
  case (snoc x f)
  have "g \<noteq> []" using end_hash_nonempty[OF snoc.prems(3,2)] snoc.prems(4,5) by auto
  then obtain g' y where g: "g = g' @ [y]" by (cases g rule: rev_cases) auto
  obtain r0 r where r: "validated_rows dg [] f = Inr r0" "check_row dg (end_hash [] r0) x = Inr r" "rs = r0 @ [r]"
    using snoc.prems(3) by (auto simp only: validated_rows_snoc)
  obtain s0 t where t: "validated_rows dg [] g' = Inr s0" "check_row dg (end_hash [] s0) y = Inr t" "ss = s0 @ [t]"
    using snoc.prems(4) unfolding g by (auto simp only: validated_rows_snoc)
  note x = check_row_Inr[OF r(2)] and y = check_row_Inr[OF t(2)]
  have hash: "record_hash r = record_hash t" using snoc.prems(5) r(3) t(3) by simp
  moreover have "unsigned_row (row_kind r) (end_hash [] r0) (row_payload r) \<in> digested (f @ [x]) \<union> digested g"
    "unsigned_row (row_kind t) (end_hash [] s0) (row_payload t) \<in> digested (f @ [x]) \<union> digested g"
  proof -
    have "x \<in> set (f @ [x])" "y \<in> set g" using g by simp_all
    then have "Parsed (signed_row (row_kind r) (end_hash [] r0) (row_payload r) (record_hash r)) \<in> set (f @ [x])"
      "Parsed (signed_row (row_kind t) (end_hash [] s0) (row_payload t) (record_hash t)) \<in> set g"
      using x y by metis+
    then show "unsigned_row (row_kind r) (end_hash [] r0) (row_payload r) \<in> digested (f @ [x]) \<union> digested g"
      "unsigned_row (row_kind t) (end_hash [] s0) (row_payload t) \<in> digested (f @ [x]) \<union> digested g"
      by (blast intro: digestedI)+
  qed
  ultimately have "unsigned_row (row_kind r) (end_hash [] r0) (row_payload r)
      = unsigned_row (row_kind t) (end_hash [] s0) (row_payload t)"
    using snoc.prems(1) x y by (metis inj_onD)
  then have eq: "row_kind r = row_kind t" "end_hash [] r0 = end_hash [] s0" "row_payload r = row_payload t"
    by (simp_all add: unsigned_row_inject)
  have "inj_on dg (digested f \<union> digested g')"
    by (rule inj_on_subset[OF snoc.prems(1)]) (auto simp: digested_def g)
  then have "f = g'" using snoc.IH[OF _ snoc.prems(2) r(1) t(1) eq(2)] by blast
  moreover have "x = y" using x y eq hash by metis
  ultimately show ?case using g by simp
qed

end
