(* ===== verification/Py_Iso.thy ===== *)
theory Py_Iso
  imports Py_Text Py_Time
begin

text \<open>
  Numbers, dates and times as text: \<^verbatim>\<open>str(n)\<close> of a non-negative integer, \<^verbatim>\<open>date.fromisoformat\<close> and the
  \<^verbatim>\<open>isoformat\<close> of dates and of UTC times.
\<close>

section \<open>Integers and dates as text\<close>

function py_nat :: "int \<Rightarrow> pystr" where
  "py_nat n = (if n < 10 then [48 + n] else py_nat (n div 10) @ [48 + n mod 10])"
  by pat_completeness auto
termination by (relation "measure nat") auto

declare py_nat.simps [simp del]

text \<open>The decimal text of a non-negative integer, \<^verbatim>\<open>str(n)\<close>, reads back as itself.\<close>

lemma digits_value_append: "digits_value a (xs @ [c]) = 10 * digits_value a xs + (case digit_value c of None \<Rightarrow> 0 | Some v \<Rightarrow> v)"
  by (induction xs arbitrary: a) auto

lemma digit_value_48: "0 \<le> n \<Longrightarrow> n < 10 \<Longrightarrow> digit_value (48 + n) = Some n"
  using digit_value_ascii[of "48 + n"] by (simp add: is_ascii_digit_def)

lemma py_nat_value: "0 \<le> n \<Longrightarrow> digits_value 0 (py_nat n) = n"
proof (induction n rule: py_nat.induct)
  case (1 n)
  show ?case
  proof (cases "n < 10")
    case True
    then show ?thesis using 1 by (simp add: py_nat.simps[of n] digit_value_48)
  next
    case False
    then have "digits_value 0 (py_nat (n div 10)) = n div 10" using 1 by simp
    then show ?thesis using False by (simp add: py_nat.simps[of n] digits_value_append digit_value_48)
  qed
qed

lemma py_nat_inject: "0 \<le> m \<Longrightarrow> 0 \<le> n \<Longrightarrow> py_nat m = py_nat n \<longleftrightarrow> m = n"
  by (metis py_nat_value)

lemma py_nat_digits: "0 \<le> n \<Longrightarrow> c \<in> set (py_nat n) \<Longrightarrow> is_ascii_digit c"
proof (induction n rule: py_nat.induct)
  case (1 n)
  then show ?case
    by (cases "n < 10") (auto simp: py_nat.simps[of n] is_ascii_digit_def)
qed

text \<open>\<^verbatim>\<open>date.fromisoformat\<close> of Python 3.11: calendar dates with or without dashes and ISO week dates,
  in ASCII digits.\<close>

definition ascii_number :: "pystr \<Rightarrow> int option" where
  "ascii_number s = (if s \<noteq> [] \<and> (\<forall>c \<in> set s. is_ascii_digit c) then Some (digits_value 0 s) else None)"

definition days_in_month :: "int \<Rightarrow> int \<Rightarrow> int" where
  "days_in_month y m = (if m = 2 then (if is_leap y then 29 else 28) else if m \<in> {4, 6, 9, 11} then 30 else 31)"

definition checked_ymd :: "int option \<Rightarrow> int option \<Rightarrow> int option \<Rightarrow> date option" where
  "checked_ymd y m d = (case (y, m, d) of (Some y, Some m, Some d) \<Rightarrow>
       if 1 \<le> y \<and> 1 \<le> m \<and> m \<le> 12 \<and> 1 \<le> d \<and> d \<le> days_in_month y m then Some (ymd y m d) else None
     | _ \<Rightarrow> None)"

text \<open>The Monday of week 1 of a year: the week with the first Thursday.\<close>

definition iso_week1 :: "int \<Rightarrow> date" where
  "iso_week1 y = (let jan4 = ymd y 1 4 in jan4 - weekday jan4)"

definition checked_week :: "int option \<Rightarrow> int option \<Rightarrow> int option \<Rightarrow> date option" where
  "checked_week y w d = (case (y, w, d) of (Some y, Some w, Some d) \<Rightarrow>
       if 1 \<le> y \<and> 1 \<le> w \<and> (w \<le> 52 \<or> w = 53 \<and> iso_week1 (y + 1) = iso_week1 y + 371) \<and> 1 \<le> d \<and> d \<le> 7
       then Some (iso_week1 y + 7 * (w - 1) + (d - 1)) else None
     | _ \<Rightarrow> None)"

definition iso_date :: "pystr \<Rightarrow> date result" where
  "iso_date s =
     (let y = ascii_number (take 4 s); part = (\<lambda>i n. ascii_number (take n (drop i s)));
          sep = (\<lambda>i c. take 1 (drop i s) = [c]);
          r = (if length s = 10 \<and> sep 4 45 \<and> sep 5 87 \<and> sep 8 45 then checked_week y (part 6 2) (part 9 1)
               else if length s = 10 \<and> sep 4 45 \<and> sep 7 45 then checked_ymd y (part 5 2) (part 8 2)
               else if length s = 8 \<and> sep 4 45 \<and> sep 5 87 then checked_week y (part 6 2) (Some 1)
               else if length s = 8 \<and> sep 4 87 then checked_week y (part 5 2) (part 7 1)
               else if length s = 8 then checked_ymd y (part 4 2) (part 6 2)
               else if length s = 7 \<and> sep 4 87 then checked_week y (part 5 2) (Some 1)
               else None)
      in case r of None \<Rightarrow> Inl (ValueError ''Invalid isoformat string'') | Some d \<Rightarrow> Inr d)"

section \<open>isoformat\<close>

text \<open>The year of an ordinal: the estimate from the length of the 400-year cycle is off by at most one.\<close>

definition year_of :: "date \<Rightarrow> int" where
  "year_of d = (let y = (400 * (d - 1)) div 146097 + 1 in
     if d \<le> days_before_year y then y - 1 else if days_before_year (y + 1) < d then y + 1 else y)"

definition month_of :: "date \<Rightarrow> int" where
  "month_of d = (let y = year_of d in
     case filter (\<lambda>m. ymd y m 1 \<le> d) [12, 11, 10, 9, 8, 7, 6, 5, 4, 3, 2] of [] \<Rightarrow> 1 | m # _ \<Rightarrow> m)"

definition day_of :: "date \<Rightarrow> int" where
  "day_of d = d - ymd (year_of d) (month_of d) 0"

definition zero_pad :: "nat \<Rightarrow> int \<Rightarrow> pystr" where
  "zero_pad k n = replicate (k - length (py_nat n)) 48 @ py_nat n"

definition date_iso :: "date \<Rightarrow> pystr" where
  "date_iso d = zero_pad 4 (year_of d) @ [45] @ zero_pad 2 (month_of d) @ [45] @ zero_pad 2 (day_of d)"

text \<open>Of a time in UTC: the fraction is left out when it is zero.\<close>

definition utc_iso :: "utc \<Rightarrow> pystr" where
  "utc_iso u = (let t = micros u mod micros_per_day; sec = t div micros_per_second; us = t mod micros_per_second in
     date_iso (utc_date u) @ [84] @ zero_pad 2 (sec div 3600) @ [58] @ zero_pad 2 (sec div 60 mod 60) @ [58]
     @ zero_pad 2 (sec mod 60) @ (if us = 0 then [] else 46 # zero_pad 6 us) @ py ''+00:00'')"

end
