(* ===== verification/Account_Import.thy ===== *)
theory Account_Import
  imports Account_Store Py_Iso
begin

text \<open>
  \<^verbatim>\<open>account/importer.py\<close>: broker rows to fills, a preview that never touches a ledger.  A row maps
  column names to cells; a cell is a missing value or a text.  (A typed cell of a spreadsheet is read through
  \<^verbatim>\<open>str\<close>, except that dates are passed on as they are; only text cells are modelled.)  The decoding of
  bytes into rows is not modelled; the SHA-256 of the file is an argument.
\<close>

section \<open>Cells\<close>

datatype cell = CNone | CText pystr

type_synonym broker_row = "(pystr \<times> cell) list"
type_synonym column_map = "(pystr \<times> pystr) list"

definition cell_str :: "cell \<Rightarrow> pystr" where
  "cell_str c = (case c of CNone \<Rightarrow> py ''None'' | CText t \<Rightarrow> t)"

definition cell_blank :: "cell option \<Rightarrow> bool" where
  "cell_blank c = (case c of None \<Rightarrow> True | Some CNone \<Rightarrow> True | Some (CText t) \<Rightarrow> py_strip t = [])"

definition column :: "column_map \<Rightarrow> string \<Rightarrow> pystr" where
  "column m f = (case dict_get m (py f) of None \<Rightarrow> [] | Some c \<Rightarrow> c)"

text \<open>\<^verbatim>\<open>row[mapping[field]]\<close>.\<close>

definition required_cell :: "column_map \<Rightarrow> broker_row \<Rightarrow> string \<Rightarrow> cell result" where
  "required_cell m r f = (case dict_get m (py f) of None \<Rightarrow> Inl KeyError
     | Some c \<Rightarrow> (case dict_get r c of None \<Rightarrow> Inl KeyError | Some v \<Rightarrow> Inr v))"

definition clean_export_value :: "pystr \<Rightarrow> pystr" where
  "clean_export_value v =
     (let t = py_strip v in
      if 4 \<le> length t \<and> take 2 t = [61, 34] \<and> last t = 34 then py_strip (butlast (drop 2 t))
      else if take 1 t = [39] then py_strip (drop 1 t) else t)"

definition positive_integer :: "cell \<Rightarrow> int result" where
  "positive_integer c = bindR (bare_decimal (AText (cell_str c))) (\<lambda>d. case d of
       Fin x \<Rightarrow> if x \<le> 0 \<or> of_int \<lfloor>x\<rfloor> \<noteq> x then Inl (ValueError ''{field} must be a positive integer'') else Inr \<lfloor>x\<rfloor>
     | _ \<Rightarrow> Inl (ValueError ''{field} must be a positive integer''))"

definition parse_trade_date :: "cell option \<Rightarrow> date \<Rightarrow> date result" where
  "parse_trade_date c dflt = (if cell_blank c then Inr dflt
     else case c of Some (CText t) \<Rightarrow> iso_date t | _ \<Rightarrow> Inr dflt)"

definition buy_words :: "pystr list" where
  "buy_words = [py ''BUY'', py ''B'', [0x4E70, 0x5165], [0x8BC1, 0x5238, 0x4E70, 0x5165], [0x4E70]]"

definition sell_words :: "pystr list" where
  "sell_words = [py ''SELL'', py ''S'', [0x5356, 0x51FA], [0x8BC1, 0x5238, 0x5356, 0x51FA], [0x5356]]"

definition parse_trade_side :: "cell option \<Rightarrow> trade_side result" where
  "parse_trade_side c =
     (if cell_blank c then Inr BUY
      else case c of Some (CText t) \<Rightarrow>
          let n = py_upper (py_strip t) in
          if n \<in> set buy_words then Inr BUY else if n \<in> set sell_words then Inr SELL
          else Inl (ValueError ''unsupported trade side'')
        | _ \<Rightarrow> Inr BUY)"

section \<open>Rows to fills\<close>

definition import_id :: "pystr \<Rightarrow> nat \<Rightarrow> pystr" where
  "import_id sha n = py ''import-'' @ take 16 sha @ py ''-'' @ py_nat (int n)"

definition cell_name :: "column_map \<Rightarrow> broker_row \<Rightarrow> pystr" where
  "cell_name m r = py_strip (case dict_get r (column m ''name'') of None \<Rightarrow> [] | Some c \<Rightarrow> cell_str c)"

definition row_to_event :: "datetime \<Rightarrow> column_map \<Rightarrow> date \<Rightarrow> pystr \<Rightarrow> nat \<Rightarrow> broker_row \<Rightarrow> fill result" where
  "row_to_event now m dflt sha n r =
     bindR (parse_trade_side (dict_get r (column m ''side''))) (\<lambda>sd.
     bindR (bindR (required_cell m r ''symbol'') (\<lambda>c. normalize_symbol (clean_export_value (cell_str c)))) (\<lambda>s.
     bindR (bindR (required_cell m r ''quantity'') positive_integer) (\<lambda>q.
     bindR (bindR (required_cell m r ''price'') (\<lambda>c. price_arg (AText (cell_str c)))) (\<lambda>p.
     if p \<le> 0 then Inl (ValueError ''price must be positive'')
     else bindR (parse_trade_date (dict_get r (column m ''trade_date'')) dflt) (\<lambda>d.
     if sd = BUY \<and> cell_name m r = [] then Inl (ValueError ''buy imports require a name'')
     else make_fill now (import_id sha n) (Side sd) s q (ADec p) d (cell_name m r) (py ''broker_import'') None)))))"

definition required_fields :: "pystr list" where
  "required_fields = map py [''symbol'', ''quantity'', ''price'']"

definition supported_fields :: "pystr list" where
  "supported_fields = map py [''name'', ''symbol'', ''quantity'', ''price'', ''side'', ''trade_date'']"

definition validate_mapping :: "column_map \<Rightarrow> column_map result" where
  "validate_mapping m =
     (if \<exists>f \<in> set required_fields. py_strip (case dict_get m f of None \<Rightarrow> [] | Some c \<Rightarrow> c) = []
      then Inl (ValueError ''mapping missing required fields'')
      else if \<exists>k \<in> set (map fst m). k \<notin> set supported_fields then Inl (ValueError ''mapping has unsupported fields'')
      else Inr m)"

section \<open>The preview\<close>

record import_preview =
  preview_id :: pystr
  source_sha256 :: pystr
  candidate_events :: "fill list"
  rejected_rows :: "nat list"

definition accepted_rows :: "import_preview \<Rightarrow> nat" where
  "accepted_rows p = length (candidate_events p)"

text \<open>The loop over the rows: \<^verbatim>\<open>except (KeyError, TypeError, ValueError)\<close> rejects a row, any other
  exception leaves the loop.\<close>

fun preview_loop ::
  "(nat \<Rightarrow> broker_row \<Rightarrow> fill result) \<Rightarrow> nat \<Rightarrow> broker_row list \<Rightarrow> (fill list \<times> nat list) result" where
  "preview_loop f n [] = Inr ([], [])"
| "preview_loop f n (r # rs) = (case f n r of
       Inr e \<Rightarrow> bindR (preview_loop f (Suc n) rs) (\<lambda>(es, bad). Inr (e # es, bad))
     | Inl x \<Rightarrow> if is_row_error x then bindR (preview_loop f (Suc n) rs) (\<lambda>(es, bad). Inr (es, n # bad))
                else Inl x)"

definition mapping_json :: "column_map \<Rightarrow> json" where
  "mapping_json m = JList (map (\<lambda>(k, v). JList [JStr k, JStr v]) (sort_key fst m))"

definition preview_broker_rows ::
  "(json \<Rightarrow> pystr) \<Rightarrow> datetime \<Rightarrow> broker_row list \<Rightarrow> column_map \<Rightarrow> date \<Rightarrow> pystr \<Rightarrow> import_preview result" where
  "preview_broker_rows dg now rows mapping dflt sha =
     bindR (validate_mapping mapping) (\<lambda>m.
     bindR (preview_loop (row_to_event now m dflt sha) 1 rows) (\<lambda>(es, bad).
     Inr \<lparr>preview_id = dg (JObj [(''default_trade_date'', JDate dflt), (''mapping'', mapping_json m), (''source_sha256'', JStr sha)]),
          source_sha256 = sha, candidate_events = es, rejected_rows = bad\<rparr>))"

section \<open>What a preview promises\<close>

lemma preview_loop_spec:
  assumes "preview_loop f n rs = Inr (es, bad)"
  shows "length es + length bad = length rs
    \<and> (\<forall>e \<in> set es. \<exists>i r. n \<le> i \<and> i < n + length rs \<and> r = rs ! (i - n) \<and> f i r = Inr e)
    \<and> (\<forall>i \<in> set bad. n \<le> i \<and> i < n + length rs \<and> (\<exists>x. f i (rs ! (i - n)) = Inl x \<and> is_row_error x))
    \<and> sorted bad \<and> distinct bad"
  using assms
proof (induction f n rs arbitrary: es bad rule: preview_loop.induct)
  case (2 f n r rs)
  show ?case
  proof (cases "f n r")
    case (Inr e)
    then obtain es' where es': "preview_loop f (Suc n) rs = Inr (es', bad)" "es = e # es'"
      using "2.prems" by (auto simp: bindR_Inr_iff)
    note IH = "2.IH"(2)[OF Inr es'(1)]
    have idx: "Suc n \<le> i \<Longrightarrow> (r # rs) ! (i - n) = rs ! (i - Suc n)" for i
      by (simp add: nth_Cons' Suc_diff_Suc)
    have "\<exists>i r'. n \<le> i \<and> i < n + length (r # rs) \<and> r' = (r # rs) ! (i - n) \<and> f i r' = Inr e'" if "e' \<in> set es" for e'
    proof (cases "e' = e")
      case True
      then show ?thesis using Inr by (intro exI[of _ n] exI[of _ r]) auto
    next
      case False
      then have "e' \<in> set es'" using that es'(2) by simp
      with conjunct1[OF conjunct2[OF IH]] obtain i where "Suc n \<le> i" "i < Suc n + length rs" "f i (rs ! (i - Suc n)) = Inr e'"
        by blast
      then show ?thesis using idx by (intro exI[of _ i] exI[of _ "rs ! (i - Suc n)"]) auto
    qed
    moreover have "n \<le> i \<and> i < n + length (r # rs) \<and> (\<exists>x. f i ((r # rs) ! (i - n)) = Inl x \<and> is_row_error x)"
      if "i \<in> set bad" for i using IH that idx[of i] by auto
    ultimately show ?thesis using IH es'(2) by simp
  next
    case (Inl x)
    then have x: "is_row_error x" using "2.prems" by (auto split: if_splits)
    then obtain bad' where bad': "preview_loop f (Suc n) rs = Inr (es, bad')" "bad = n # bad'"
      using "2.prems" Inl by (auto simp: bindR_Inr_iff)
    note IH = "2.IH"(1)[OF Inl x bad'(1)]
    have idx: "Suc n \<le> i \<Longrightarrow> (r # rs) ! (i - n) = rs ! (i - Suc n)" for i
      by (simp add: nth_Cons' Suc_diff_Suc)
    have "\<exists>i r'. n \<le> i \<and> i < n + length (r # rs) \<and> r' = (r # rs) ! (i - n) \<and> f i r' = Inr e'" if "e' \<in> set es" for e'
    proof -
      from conjunct1[OF conjunct2[OF IH]] that
      obtain i where "Suc n \<le> i" "i < Suc n + length rs" "f i (rs ! (i - Suc n)) = Inr e'" by blast
      then show ?thesis using idx by (intro exI[of _ i] exI[of _ "rs ! (i - Suc n)"]) auto
    qed
    moreover have "n \<le> i \<and> i < n + length (r # rs) \<and> (\<exists>x. f i ((r # rs) ! (i - n)) = Inl x \<and> is_row_error x)"
      if "i \<in> set bad" for i using IH that idx[of i] bad'(2) Inl x by auto
    moreover have "sorted bad \<and> distinct bad" using IH bad'(2) by auto
    ultimately show ?thesis using IH bad'(2) by simp
  qed
qed simp

lemma make_fill_sel:
  "make_fill now i (Side sd) s q p d nm src rec = Inr e \<Longrightarrow>
     event_id e = py_strip i \<and> side e = sd \<and> fill_name e = py_strip nm \<and> source e = py_strip src \<and> trade_date e = d"
  by (auto simp: make_fill_def bindR_Inr_iff parse_side_def split: if_splits)

lemma import_id_strip: "py_strip (import_id sha n) = import_id sha n"
proof (rule py_strip_id)
  have ne: "py_nat (int n) \<noteq> []" by (subst py_nat.simps) simp
  show "import_id sha n \<noteq> []" by (simp add: import_id_def)
  have "hd (py ''import-'') = 105" by code_simp
  then show "\<not> py_isspace (hd (import_id sha n))" by (simp add: import_id_def py_isspace_def)
  have "last (import_id sha n) = last (py_nat (int n))" using ne by (simp add: import_id_def)
  moreover have "is_ascii_digit (last (py_nat (int n)))" using ne by (intro py_nat_digits[of "int n"]) auto
  ultimately show "\<not> py_isspace (last (import_id sha n))" by (auto simp: is_ascii_digit_def py_isspace_def)
qed

lemma import_id_inject: "import_id sha m = import_id sha n \<longleftrightarrow> m = n"
  by (auto simp: import_id_def py_nat_inject)

lemma row_to_event_Inr:
  assumes "row_to_event now m dflt sha n r = Inr e"
  shows "fill_ok e \<and> event_id e = import_id sha n \<and> source e = py ''broker_import'' \<and> (side e = BUY \<longrightarrow> fill_name e \<noteq> [])"
proof -
  from assms obtain sd s q p d where mk: "make_fill now (import_id sha n) (Side sd) s q (ADec p) d (cell_name m r) (py ''broker_import'') None = Inr e"
    and nm: "\<not> (sd = BUY \<and> cell_name m r = [])"
    by (auto simp: row_to_event_def bindR_Inr_iff split: if_splits)
  have "py_strip (py ''broker_import'') = py ''broker_import''" by code_simp
  then show ?thesis using make_fill_ok[OF mk] make_fill_sel[OF mk] nm
    by (auto simp: import_id_strip cell_name_def)
qed

lemma preview_loop_ids:
  assumes "preview_loop (row_to_event now m dflt sha) n rs = Inr (es, bad)"
  shows "map event_id es = map (import_id sha) (filter (\<lambda>i. i \<notin> set bad) [n..<n + length rs])"
  using assms
proof (induction "row_to_event now m dflt sha" n rs arbitrary: es bad rule: preview_loop.induct)
  case (2 n r rs)
  have upt: "[n..<n + length (r # rs)] = n # [Suc n..<Suc n + length rs]" by (simp add: upt_rec)
  show ?case
  proof (cases "row_to_event now m dflt sha n r")
    case (Inr e)
    then obtain es' where es': "preview_loop (row_to_event now m dflt sha) (Suc n) rs = Inr (es', bad)" "es = e # es'"
      using "2.prems" by (auto simp: bindR_Inr_iff)
    have "n \<notin> set bad" using preview_loop_spec[OF es'(1)] by auto
    then show ?thesis using "2.hyps"(2)[OF Inr es'(1)] es'(2) row_to_event_Inr[OF Inr]
      unfolding upt by (simp del: upt_Suc)
  next
    case (Inl x)
    then have x: "is_row_error x" using "2.prems" by (auto split: if_splits)
    then obtain bad' where bad': "preview_loop (row_to_event now m dflt sha) (Suc n) rs = Inr (es, bad')" "bad = n # bad'"
      using "2.prems" Inl by (auto simp: bindR_Inr_iff)
    have "filter (\<lambda>i. i \<notin> set bad) [Suc n..<Suc n + length rs] = filter (\<lambda>i. i \<notin> set bad') [Suc n..<Suc n + length rs]"
      using bad'(2) by (intro filter_cong) auto
    then show ?thesis using "2.hyps"(1)[OF Inl x bad'(1)] bad'(2)
      unfolding upt by (simp del: upt_Suc)
  qed
qed simp

end
