(* ===== verification/Account_Inbox.thy ===== *)
theory Account_Inbox
  imports Account_Import
begin

text \<open>
  \<^verbatim>\<open>account/import_inbox.py\<close> and \<^verbatim>\<open>account/snapshot_store.py\<close>: one directory of broker exports, previews of
  fills and of position snapshots, and the stored snapshot of a confirmed export.

  A directory entry is what the code reads of a file: its name, its status, the digest of its bytes and the
  rows that \<^verbatim>\<open>read_broker_file\<close> makes of them.
\<close>

section \<open>Column detection\<close>

text \<open>The Chinese headers are written as code points.\<close>

definition aliases :: "string \<Rightarrow> pystr list" where
  "aliases f =
    (if f = ''name'' then [[0x8BC1, 0x5238, 0x540D, 0x79F0],
        [0x8BC1, 0x5238, 0x7B80, 0x79F0],
        [0x80A1, 0x7968, 0x540D, 0x79F0],
        [0x540D, 0x79F0],
        py ''name'']
     else if f = ''symbol'' then [[0x8BC1, 0x5238, 0x4EE3, 0x7801],
        [0x80A1, 0x7968, 0x4EE3, 0x7801],
        [0x4EE3, 0x7801],
        py ''symbol'',
        py ''code'']
     else if f = ''fill_quantity'' then [[0x6210, 0x4EA4, 0x6570, 0x91CF],
        [0x53D1, 0x751F, 0x6570, 0x91CF],
        [0x6210, 0x4EA4, 0x80A1, 0x6570],
        py ''quantity'']
     else if f = ''fill_price'' then [[0x6210, 0x4EA4, 0x4EF7, 0x683C],
        [0x6210, 0x4EA4, 0x5747, 0x4EF7],
        [0x6210, 0x4EA4, 0x4EF7],
        py ''price'']
     else if f = ''side'' then [[0x4E70, 0x5356, 0x6807, 0x5FD7],
        [0x4E70, 0x5356, 0x65B9, 0x5411],
        [0x64CD, 0x4F5C],
        [0x4E1A, 0x52A1, 0x540D, 0x79F0],
        py ''side'']
     else if f = ''trade_date'' then [[0x6210, 0x4EA4, 0x65E5, 0x671F],
        [0x53D1, 0x751F, 0x65E5, 0x671F],
        [0x4EA4, 0x6613, 0x65E5, 0x671F],
        py ''trade_date'']
     else if f = ''position_quantity'' then [[0x8BC1, 0x5238, 0x6570, 0x91CF],
        [0x80A1, 0x7968, 0x4F59, 0x989D],
        [0x6301, 0x4ED3, 0x6570, 0x91CF],
        [0x80A1, 0x4EFD, 0x4F59, 0x989D]]
     else if f = ''available_quantity'' then [[0x53EF, 0x7528, 0x6570, 0x91CF],
        [0x53EF, 0x7528, 0x4F59, 0x989D],
        [0x53EF, 0x5356, 0x6570, 0x91CF],
        [0x80A1, 0x4EFD, 0x53EF, 0x7528]]
     else if f = ''frozen_quantity'' then [[0x51BB, 0x7ED3, 0x6570, 0x91CF],
        [0x51BB, 0x7ED3, 0x80A1, 0x4EFD]]
     else if f = ''average_cost'' then [[0x6210, 0x672C, 0x4EF7],
        [0x644A, 0x8584, 0x6210, 0x672C, 0x4EF7],
        [0x53C2, 0x8003, 0x6210, 0x672C, 0x4EF7],
        [0x53C2, 0x8003, 0x6210, 0x672C],
        py ''average_cost'']
     else if f = ''cash'' then [[0x53EF, 0x7528, 0x8D44, 0x91D1],
        [0x8D44, 0x91D1, 0x4F59, 0x989D],
        py ''cash'']
     else if f = ''as_of'' then [[0x65E5, 0x671F],
        [0x6570, 0x636E, 0x65E5, 0x671F],
        [0x6301, 0x4ED3, 0x65E5, 0x671F],
        py ''as_of'']
     else [])"

definition header_index :: "pystr list \<Rightarrow> (pystr \<times> pystr) list" where
  "header_index hs = foldl (\<lambda>d h. if py_strip h = [] then d else dict_set d (py_strip h) h) [] hs"

definition alias_matches :: "(pystr \<times> pystr) list \<Rightarrow> string \<Rightarrow> pystr list" where
  "alias_matches idx f = List.map_filter (dict_get idx) (aliases f)"

fun detect_fields :: "(pystr \<times> pystr) list \<Rightarrow> (string \<times> string) list \<Rightarrow> column_map result" where
  "detect_fields idx [] = Inr []"
| "detect_fields idx ((f, nm) # fs) =
     (case alias_matches idx f of
        [] \<Rightarrow> detect_fields idx fs
      | [h] \<Rightarrow> bindR (detect_fields idx fs) (\<lambda>m. Inr ((py nm, h) # m))
      | _ \<Rightarrow> Inl (ValueError ''ambiguous account export column for {field}''))"

definition detect_fill_mapping :: "pystr list \<Rightarrow> column_map result" where
  "detect_fill_mapping hs = detect_fields (header_index hs)
     [(''name'', ''name''), (''symbol'', ''symbol''), (''fill_quantity'', ''quantity''), (''fill_price'', ''price''),
      (''side'', ''side''), (''trade_date'', ''trade_date'')]"

definition detect_position_mapping :: "pystr list \<Rightarrow> column_map result" where
  "detect_position_mapping hs = detect_fields (header_index hs)
     [(''name'', ''name''), (''symbol'', ''symbol''), (''position_quantity'', ''total_quantity''),
      (''available_quantity'', ''available_quantity''), (''frozen_quantity'', ''frozen_quantity''),
      (''average_cost'', ''average_cost''), (''cash'', ''cash''), (''as_of'', ''as_of'')]"

section \<open>Imported positions\<close>

record imported_position =
  ip_symbol :: pystr
  ip_name :: pystr
  ip_total :: int
  ip_available :: int
  ip_frozen :: int
  ip_cost :: rat

definition make_imported_position :: "pystr \<Rightarrow> pystr \<Rightarrow> int \<Rightarrow> int \<Rightarrow> int \<Rightarrow> num_arg \<Rightarrow> imported_position result" where
  "make_imported_position s nm t a f c =
     bindR (normalize_symbol s) (\<lambda>y.
     if t < 0 then Inl (ValueError ''total quantity must be non-negative'')
     else if a < 0 \<or> f < 0 then Inl (ValueError ''position quantities must be non-negative'')
     else if a + f \<noteq> t then Inl (ValueError ''position quantities are inconsistent'')
     else bindR (price_arg c) (\<lambda>p.
     if p < 0 then Inl (ValueError ''average cost must be non-negative'')
     else Inr \<lparr>ip_symbol = y, ip_name = py_strip nm, ip_total = t, ip_available = a, ip_frozen = f, ip_cost = p\<rparr>))"

definition position_ok :: "imported_position \<Rightarrow> bool" where
  "position_ok p \<longleftrightarrow> six_digits (ip_symbol p) \<and> py_strip (ip_name p) = ip_name p \<and> 0 \<le> ip_available p \<and> 0 \<le> ip_frozen p
     \<and> ip_available p + ip_frozen p = ip_total p \<and> 0 \<le> ip_cost p \<and> price (ip_cost p) = Inr (ip_cost p)"

lemma make_imported_position_ok: "make_imported_position s nm t a f c = Inr p \<Longrightarrow> position_ok p"
  by (auto simp: make_imported_position_def position_ok_def bindR_Inr_iff price_arg_def normalize_symbol_six
      dest: price_idem split: if_splits)

lemma make_imported_position_fixed:
  "position_ok p \<Longrightarrow> make_imported_position (ip_symbol p) (ip_name p) (ip_total p) (ip_available p) (ip_frozen p) (ADec (ip_cost p)) = Inr p"
  by (simp add: make_imported_position_def position_ok_def normalize_symbol_fixed price_arg_def)

section \<open>Position previews\<close>

definition non_negative_integer :: "cell \<Rightarrow> int result" where
  "non_negative_integer c = bindR (bare_decimal (AText (cell_str c))) (\<lambda>d. case d of
       Fin x \<Rightarrow> if x < 0 \<or> of_int \<lfloor>x\<rfloor> \<noteq> x then Inl (ValueError ''{field} must be a non-negative integer'') else Inr \<lfloor>x\<rfloor>
     | _ \<Rightarrow> Inl (ValueError ''{field} must be a non-negative integer''))"

definition parse_date :: "cell \<Rightarrow> date \<Rightarrow> date result" where
  "parse_date c dflt = (if cell_blank (Some c) then Inr dflt
     else case c of CText t \<Rightarrow> iso_date (take 10 (py_strip t)) | CNone \<Rightarrow> Inr dflt)"

text \<open>\<^verbatim>\<open>field in mapping and str(row.get(mapping[field], "")).strip()\<close>: the cell, when that is true.\<close>

definition present_cell :: "column_map \<Rightarrow> broker_row \<Rightarrow> string \<Rightarrow> cell option" where
  "present_cell m r f = (case dict_get m (py f) of None \<Rightarrow> None
     | Some c \<Rightarrow> (case dict_get r c of None \<Rightarrow> None | Some v \<Rightarrow> if py_strip (cell_str v) = [] then None else Some v))"

record scan_state =
  ss_positions :: "imported_position list"
  ss_rejected :: "nat list"
  ss_seen :: "pystr list"
  ss_cash :: "rat list"
  ss_as_of :: "date list"

text \<open>\<^verbatim>\<open>str(row.get(mapping.get("name", ""), "") or "").strip()\<close>.\<close>

definition position_name :: "column_map \<Rightarrow> broker_row \<Rightarrow> pystr" where
  "position_name m r = (case dict_get r (column m ''name'') of Some (CText t) \<Rightarrow> py_strip t | _ \<Rightarrow> [])"

definition row_position :: "column_map \<Rightarrow> broker_row \<Rightarrow> pystr \<Rightarrow> imported_position result" where
  "row_position m r s =
     bindR (bindR (required_cell m r ''total_quantity'') non_negative_integer) (\<lambda>t.
     bindR (case present_cell m r ''available_quantity'' of Some c \<Rightarrow> non_negative_integer c | None \<Rightarrow> Inr t) (\<lambda>a.
     bindR (case present_cell m r ''frozen_quantity'' of Some c \<Rightarrow> non_negative_integer c | None \<Rightarrow> Inr (t - a)) (\<lambda>f.
     if a + f \<noteq> t then Inl (ValueError ''position quantities are inconsistent'')
     else bindR (bindR (required_cell m r ''average_cost'') (\<lambda>c. price_arg (AText (cell_str c)))) (\<lambda>p.
     if p < 0 then Inl (ValueError ''average cost must be non-negative'')
     else make_imported_position s (position_name m r) t a f (ADec p)))))"

text \<open>One row: the state it leaves, with the exception that it raised, if any.  The symbol is remembered
  before the quantities are read, and the position is added before the cash and the date are.\<close>

definition row_step :: "column_map \<Rightarrow> date \<Rightarrow> broker_row \<Rightarrow> scan_state \<Rightarrow> scan_state \<times> pyerror option" where
  "row_step m dflt r st =
     (case bindR (required_cell m r ''symbol'') (\<lambda>c. normalize_symbol (clean_export_value (cell_str c))) of
        Inl e \<Rightarrow> (st, Some e)
      | Inr s \<Rightarrow>
          if s \<in> set (ss_seen st) then (st, Some (ValueError ''duplicate position symbol''))
          else let st1 = st\<lparr>ss_seen := s # ss_seen st\<rparr> in
          (case row_position m r s of
             Inl e \<Rightarrow> (st1, Some e)
           | Inr p \<Rightarrow> let st2 = st1\<lparr>ss_positions := ss_positions st @ [p]\<rparr> in
             (case (case present_cell m r ''cash'' of None \<Rightarrow> Inr (ss_cash st)
                      | Some c \<Rightarrow> bindR (money_arg (AText (cell_str c))) (\<lambda>x. Inr (List.insert x (ss_cash st)))) of
                Inl e \<Rightarrow> (st2, Some e)
              | Inr cs \<Rightarrow> let st3 = st2\<lparr>ss_cash := cs\<rparr> in
                (case (case present_cell m r ''as_of'' of None \<Rightarrow> Inr (ss_as_of st)
                         | Some c \<Rightarrow> bindR (parse_date c dflt) (\<lambda>d. Inr (List.insert d (ss_as_of st)))) of
                   Inl e \<Rightarrow> (st3, Some e)
                 | Inr ds \<Rightarrow> (st3\<lparr>ss_as_of := ds\<rparr>, None)))))"

fun scan_rows :: "column_map \<Rightarrow> date \<Rightarrow> nat \<Rightarrow> broker_row list \<Rightarrow> scan_state \<Rightarrow> scan_state result" where
  "scan_rows m dflt n [] st = Inr st"
| "scan_rows m dflt n (r # rs) st =
     (case row_step m dflt r st of
        (st', None) \<Rightarrow> scan_rows m dflt (Suc n) rs st'
      | (st', Some e) \<Rightarrow> if is_row_error e then scan_rows m dflt (Suc n) rs (st'\<lparr>ss_rejected := ss_rejected st' @ [n]\<rparr>)
                        else Inl e)"

definition no_scan :: scan_state where
  "no_scan = \<lparr>ss_positions = [], ss_rejected = [], ss_seen = [], ss_cash = [], ss_as_of = []\<rparr>"

datatype import_kind = FILLS | POSITIONS

record file_preview =
  fp_preview_id :: pystr
  fp_file_id :: pystr
  fp_sha :: pystr
  fp_name :: pystr
  fp_kind :: import_kind
  fp_mapping :: column_map
  fp_fills :: "import_preview option"
  fp_positions :: "imported_position list"
  fp_cash :: "rat option"
  fp_as_of :: date
  fp_rejected :: "nat list"
  fp_warnings :: "string list"

definition make_file_preview :: "file_preview \<Rightarrow> file_preview result" where
  "make_file_preview p = (case fp_kind p of
       FILLS \<Rightarrow> if fp_fills p = None \<or> fp_positions p \<noteq> [] then Inl (ValueError ''fill preview payload is inconsistent'') else Inr p
     | POSITIONS \<Rightarrow> if fp_fills p \<noteq> None \<or> fp_positions p = [] then Inl (ValueError ''position preview payload is inconsistent'') else Inr p)"

definition position_json :: "imported_position \<Rightarrow> json" where
  "position_json p = JObj [(''available_quantity'', JInt (ip_available p)), (''average_cost'', JDec (ip_cost p)),
     (''frozen_quantity'', JInt (ip_frozen p)), (''name'', JStr (ip_name p)), (''symbol'', JStr (ip_symbol p)),
     (''total_quantity'', JInt (ip_total p))]"

definition cash_json :: "rat option \<Rightarrow> json" where
  "cash_json c = (case c of None \<Rightarrow> JNull | Some x \<Rightarrow> JDec x)"

definition position_preview ::
  "(json \<Rightarrow> pystr) \<Rightarrow> pystr \<Rightarrow> pystr \<Rightarrow> pystr \<Rightarrow> broker_row list \<Rightarrow> column_map \<Rightarrow> date \<Rightarrow> file_preview result" where
  "position_preview dg fid nm sha rows m dflt =
     bindR (scan_rows m dflt 1 rows no_scan) (\<lambda>st.
     if ss_positions st = []
     then if length (ss_rejected st) = 1 \<and> length rows = 1 then Inl (ValueError ''position quantities are inconsistent'')
          else Inl (ValueError ''position export contains no valid rows'')
     else if 1 < length (ss_cash st) then Inl (ValueError ''position export contains inconsistent cash values'')
     else if 1 < length (ss_as_of st) then Inl (ValueError ''position export contains inconsistent dates'')
     else let csh = (case ss_cash st of [] \<Rightarrow> None | c # _ \<Rightarrow> Some c);
              d = (case ss_as_of st of [] \<Rightarrow> dflt | d # _ \<Rightarrow> d)
          in make_file_preview
             \<lparr>fp_preview_id = dg (JObj [(''as_of'', JDate d), (''cash'', cash_json csh), (''file_id'', JStr fid),
                 (''mapping'', mapping_json m), (''positions'', JList (map position_json (ss_positions st))),
                 (''source_sha256'', JStr sha)]),
              fp_file_id = fid, fp_sha = sha, fp_name = nm, fp_kind = POSITIONS, fp_mapping = m, fp_fills = None,
              fp_positions = ss_positions st, fp_cash = csh, fp_as_of = d, fp_rejected = ss_rejected st, fp_warnings = []\<rparr>)"

section \<open>The inbox\<close>

record dir_entry =
  de_name :: pystr
  de_regular :: bool
  de_size :: int
  de_mtime :: int
  de_bytes :: int
  de_sha :: pystr
  de_rows :: "broker_row list result"

record inbox =
  max_files :: int
  max_rows :: int
  max_columns :: int
  entries :: "(pystr \<times> dir_entry) list"

definition make_inbox :: "int \<Rightarrow> int \<Rightarrow> int \<Rightarrow> inbox result" where
  "make_inbox f r c =
     (if f \<le> 0 \<or> 100 < f then Inl (ValueError ''max_files is outside the supported range'')
      else if r \<le> 0 \<or> 20000 < r then Inl (ValueError ''max_rows is outside the supported range'')
      else if c \<le> 0 \<or> 100 < c then Inl (ValueError ''max_columns is outside the supported range'')
      else Inr \<lparr>max_files = f, max_rows = r, max_columns = c, entries = []\<rparr>)"

text \<open>\<^verbatim>\<open>Path.suffix\<close>: the last dot of the name and what follows it, unless the dot is first or last.\<close>

definition path_suffix :: "pystr \<Rightarrow> pystr" where
  "path_suffix nm = (let ext = rev (takeWhile (\<lambda>c. c \<noteq> 46) (rev nm)); stem = length nm - Suc (length ext)
     in if 46 \<notin> set nm \<or> stem = 0 \<or> ext = [] then [] else 46 # ext)"

definition supported_suffixes :: "pystr list" where
  "supported_suffixes = [py ''.csv'', py ''.xlsx'', py ''.xls'']"

definition listed :: "dir_entry \<Rightarrow> bool" where
  "listed d \<longleftrightarrow> py_lower (path_suffix (de_name d)) \<in> set supported_suffixes \<and> de_regular d \<and> de_bytes d \<le> 25 * 1024 * 1024"

definition file_id_of :: "(json \<Rightarrow> pystr) \<Rightarrow> dir_entry \<Rightarrow> pystr" where
  "file_id_of dg d = dg (JObj [(''modified_ns'', JInt (de_mtime d)), (''name'', JStr (de_name d)),
     (''size'', JInt (de_size d)), (''source_sha256'', JStr (de_sha d))])"

datatype root_status = Missing | Unsafe | Directory "dir_entry list"

text \<open>A scan starts by forgetting the files of the previous one.\<close>

definition scan :: "(json \<Rightarrow> pystr) \<Rightarrow> inbox \<Rightarrow> root_status \<Rightarrow> inbox \<times> (pystr \<times> dir_entry) list result" where
  "scan dg ib rt = (case rt of
       Missing \<Rightarrow> (ib\<lparr>entries := []\<rparr>, Inr [])
     | Unsafe \<Rightarrow> (ib\<lparr>entries := []\<rparr>, Inl (ValueError ''account import inbox is not a regular directory''))
     | Directory ds \<Rightarrow>
         let fs = map (\<lambda>d. (file_id_of dg d, d)) (take (nat (max_files ib)) (filter listed (sort_key (\<lambda>d. py_lower (de_name d)) ds)))
         in (ib\<lparr>entries := foldl (\<lambda>es (i, d). dict_set es i d) [] fs\<rparr>, Inr fs))"

definition entry :: "inbox \<Rightarrow> pystr \<Rightarrow> dir_entry result" where
  "entry ib i = (case dict_get (entries ib) i of None \<Rightarrow> Inl (ValueError ''unknown account import file'') | Some d \<Rightarrow> Inr d)"

definition validate_dimensions :: "inbox \<Rightarrow> broker_row list \<Rightarrow> unit result" where
  "validate_dimensions ib rows =
     (if max_rows ib < int (length rows) then Inl (ValueError ''account import contains too many rows'')
      else case rows of [] \<Rightarrow> Inr ()
        | r # _ \<Rightarrow> if max_columns ib < int (length r) then Inl (ValueError ''account import contains too many columns'') else Inr ())"

definition has_fields :: "column_map \<Rightarrow> string list \<Rightarrow> bool" where
  "has_fields m fs \<longleftrightarrow> (\<forall>f \<in> set fs. py f \<in> set (map fst m))"

text \<open>\<open>fs\<close> is the file system at the time of the call, by name.\<close>

definition inbox_preview ::
  "(json \<Rightarrow> pystr) \<Rightarrow> datetime \<Rightarrow> (pystr \<Rightarrow> dir_entry option) \<Rightarrow> inbox \<Rightarrow> pystr \<Rightarrow> date \<Rightarrow> file_preview result" where
  "inbox_preview dg now fs ib fid dflt =
     bindR (entry ib fid) (\<lambda>old.
     case fs (de_name old) of None \<Rightarrow> Inl OSError
     | Some d \<Rightarrow>
       if de_sha d \<noteq> de_sha old \<or> de_size d \<noteq> de_size old \<or> de_mtime d \<noteq> de_mtime old
       then Inl (ValueError ''file changed after scan'')
       else bindR (de_rows d) (\<lambda>rows.
       bindR (validate_dimensions ib rows) (\<lambda>_.
       let hs = (case rows of [] \<Rightarrow> [] | r # _ \<Rightarrow> map fst r) in
       bindR (detect_position_mapping hs) (\<lambda>pm.
       if has_fields pm [''symbol'', ''total_quantity'', ''average_cost'']
       then position_preview dg fid (de_name old) (de_sha old) rows pm dflt
       else bindR (detect_fill_mapping hs) (\<lambda>m.
       if \<not> has_fields m [''symbol'', ''quantity'', ''price''] then Inl (ValueError ''account export columns are not recognized'')
       else bindR (preview_broker_rows dg now rows m dflt (de_sha d)) (\<lambda>p.
         make_file_preview
           \<lparr>fp_preview_id = dg (JObj [(''default_trade_date'', JDate dflt), (''file_id'', JStr fid), (''mapping'', mapping_json m),
               (''source_sha256'', JStr (de_sha old))]),
            fp_file_id = fid, fp_sha = de_sha old, fp_name = de_name old, fp_kind = FILLS, fp_mapping = m, fp_fills = Some p,
            fp_positions = [], fp_cash = None, fp_as_of = dflt, fp_rejected = rejected_rows p,
            fp_warnings = (if py ''side'' \<in> set (map fst m) then [] else [''MISSING_SIDE_DEFAULTED_TO_BUY''])\<rparr>))))))"

definition verify_unchanged :: "(pystr \<Rightarrow> dir_entry option) \<Rightarrow> inbox \<Rightarrow> file_preview \<Rightarrow> unit result" where
  "verify_unchanged fs ib p =
     bindR (entry ib (fp_file_id p)) (\<lambda>old.
     case fs (de_name old) of None \<Rightarrow> Inl (ValueError ''account import source is no longer a regular file'')
     | Some d \<Rightarrow> if \<not> de_regular d then Inl (ValueError ''account import source is no longer a regular file'')
         else if de_sha d \<noteq> fp_sha p then Inl (ValueError ''file changed after preview'') else Inr ())"

section \<open>What a position preview promises\<close>

definition scan_ok :: "scan_state \<Rightarrow> bool" where
  "scan_ok st \<longleftrightarrow> (\<forall>p \<in> set (ss_positions st). position_ok p \<and> ip_symbol p \<in> set (ss_seen st))
     \<and> distinct (map ip_symbol (ss_positions st)) \<and> (\<forall>c \<in> set (ss_cash st). on_grid 2 c)"

lemma row_position_symbol: "row_position m r s = Inr p \<Longrightarrow> normalize_symbol s = Inr (ip_symbol p) \<and> position_ok p"
  by (auto simp: row_position_def bindR_Inr_iff intro: make_imported_position_ok split: if_splits)
     (auto simp: make_imported_position_def bindR_Inr_iff split: if_splits)

lemma row_step_ok:
  assumes "row_step m dflt r st = (st', x)" "scan_ok st"
  shows "scan_ok st'"
proof (cases "bindR (required_cell m r ''symbol'') (\<lambda>c. normalize_symbol (clean_export_value (cell_str c)))")
  case (Inl e)
  then show ?thesis using assms by (simp add: row_step_def)
next
  case s: (Inr s)
  have fixed: "normalize_symbol s = Inr s"
    using s by (auto simp: bindR_Inr_iff dest: normalize_symbol_idem)
  show ?thesis
  proof (cases "s \<in> set (ss_seen st) \<or> (\<exists>e. row_position m r s = Inl e)")
    case True
    then show ?thesis using assms s by (auto simp: row_step_def Let_def scan_ok_def split: if_splits)
  next
    case False
    then obtain p where p: "row_position m r s = Inr p" by (cases "row_position m r s") auto
    have sp: "ip_symbol p = s" "position_ok p" using row_position_symbol[OF p] fixed by auto
    have new: "s \<notin> ip_symbol ` set (ss_positions st)" using assms(2) False by (auto simp: scan_ok_def)
    have base: "scan_ok (st\<lparr>ss_seen := s # ss_seen st, ss_positions := ss_positions st @ [p], ss_cash := cs, ss_as_of := ds\<rparr>)"
      if "\<forall>c \<in> set cs. on_grid 2 c" for cs ds
      using assms(2) sp new that by (auto simp: scan_ok_def)
    have g: "\<forall>c \<in> set (ss_cash st). on_grid 2 c" using assms(2) by (simp add: scan_ok_def)
    have cash_grid: "\<forall>c \<in> set cs. on_grid 2 c" if "(case present_cell m r ''cash'' of None \<Rightarrow> Inr (ss_cash st)
        | Some c \<Rightarrow> bindR (money_arg (AText (cell_str c))) (\<lambda>x. Inr (List.insert x (ss_cash st)))) = (Inr cs :: rat list result)" for cs
      using that g by (auto simp: bindR_Inr_iff money_arg_def dest: money_grid split: option.splits)
    have rest: "st' = st\<lparr>ss_seen := s # ss_seen st, ss_positions := ss_positions st @ [p], ss_cash := ss_cash st', ss_as_of := ss_as_of st'\<rparr>
        \<and> (\<forall>c \<in> set (ss_cash st'). on_grid 2 c)"
    proof (cases "(case present_cell m r ''cash'' of None \<Rightarrow> Inr (ss_cash st)
        | Some c \<Rightarrow> bindR (money_arg (AText (cell_str c))) (\<lambda>x. Inr (List.insert x (ss_cash st))))  :: rat list result")
      case (Inl e)
      then show ?thesis using assms(1) s p False g by (auto simp: row_step_def Let_def)
    next
      case (Inr cs)
      then show ?thesis using assms(1) s p False cash_grid[OF Inr]
        by (cases "(case present_cell m r ''as_of'' of None \<Rightarrow> Inr (ss_as_of st)
             | Some c \<Rightarrow> bindR (parse_date c dflt) (\<lambda>d. Inr (List.insert d (ss_as_of st)))) :: date list result")
           (auto simp: row_step_def Let_def)
    qed
    then show ?thesis using base[of "ss_cash st'" "ss_as_of st'"] by metis
  qed
qed

lemma scan_rows_ok: "scan_rows m dflt n rs st = Inr st' \<Longrightarrow> scan_ok st \<Longrightarrow> scan_ok st'"
proof (induction m dflt n rs st rule: scan_rows.induct)
  case (2 m dflt n r rs st)
  obtain st1 x where step: "row_step m dflt r st = (st1, x)" by (cases "row_step m dflt r st")
  have ok: "scan_ok st1" by (rule row_step_ok[OF step "2.prems"(2)])
  show ?case
  proof (cases x)
    case None
    then show ?thesis using 2 step ok by simp
  next
    case (Some e)
    have "scan_ok (st1\<lparr>ss_rejected := ss_rejected st1 @ [n]\<rparr>)" using ok by (simp add: scan_ok_def)
    then show ?thesis using 2 step Some by (auto split: if_splits)
  qed
qed simp

lemma no_scan_ok [simp]: "scan_ok no_scan"
  by (simp add: scan_ok_def no_scan_def)

lemma position_preview_Inr:
  assumes "position_preview dg fid nm sha rows m dflt = Inr p"
  shows "fp_positions p \<noteq> [] \<and> (\<forall>q \<in> set (fp_positions p). position_ok q) \<and> distinct (map ip_symbol (fp_positions p))
    \<and> fp_fills p = None \<and> fp_sha p = sha \<and> (\<forall>c. fp_cash p = Some c \<longrightarrow> on_grid 2 c)"
proof -
  from assms obtain st where st: "scan_rows m dflt 1 rows no_scan = Inr st" "ss_positions st \<noteq> []"
    "fp_positions p = ss_positions st" "fp_fills p = None" "fp_sha p = sha"
    "fp_cash p = (case ss_cash st of [] \<Rightarrow> None | c # _ \<Rightarrow> Some c)"
    by (auto simp: position_preview_def make_file_preview_def bindR_Inr_iff Let_def split: if_splits)
  have "scan_ok st" by (rule scan_rows_ok[OF st(1)]) simp
  then show ?thesis using st by (auto simp: scan_ok_def split: list.splits)
qed

end
