(* ===== verification/Account_Service.thy ===== *)
theory Account_Service
  imports Account_Inbox Account_Replay
begin

text \<open>
  \<^verbatim>\<open>account/service.py\<close>: previews are confirmed first on a copy of the ledger, then event by event in the
  file and in the ledger.  An operation returns the state it leaves, also when it raises, because the
  state then is what a restart finds.
\<close>

section \<open>State and operations\<close>

record service =
  sv_ledger :: ledger
  sv_file :: "line list"
  sv_previews :: "(pystr \<times> import_preview) list"

definition preview_rows ::
  "(json \<Rightarrow> pystr) \<Rightarrow> datetime \<Rightarrow> service \<Rightarrow> broker_row list \<Rightarrow> column_map \<Rightarrow> date \<Rightarrow> pystr \<Rightarrow> service \<times> import_preview result" where
  "preview_rows dg now s rows m dflt sha = (case preview_broker_rows dg now rows m dflt sha of
       Inl e \<Rightarrow> (s, Inl e)
     | Inr p \<Rightarrow> (s\<lparr>sv_previews := dict_set (sv_previews s) (preview_id p) p\<rparr>, Inr p))"

fun record_all :: "ledger \<Rightarrow> fill list \<Rightarrow> (ledger \<times> receipt list) result" where
  "record_all L [] = Inr (L, [])"
| "record_all L (e # es) = bindR (record_fill L e) (\<lambda>(L', r). bindR (record_all L' es) (\<lambda>(L'', rs). Inr (L'', r # rs)))"

definition copy_ledger :: "datetime \<Rightarrow> ledger \<Rightarrow> ledger result" where
  "copy_ledger now L = from_records now (ADec (initial_cash L)) (fees_of L) (known_instruments L) (next_trading_day L)
     (lot_size L) (records L)"

text \<open>The loop over the pairs of events and prospective receipts.\<close>

fun confirm_loop :: "(json \<Rightarrow> pystr) \<Rightarrow> ledger \<Rightarrow> line list \<Rightarrow> (fill \<times> receipt) list \<Rightarrow> (ledger \<times> line list) \<times> receipt list result" where
  "confirm_loop dg L f [] = ((L, f), Inr [])"
| "confirm_loop dg L f ((e, pr) # ps) =
     (case (if idempotent pr then Inr f else store_add dg f (Fill e)) of
        Inl x \<Rightarrow> ((L, f), Inl x)
      | Inr f' \<Rightarrow> (case record_fill L e of
          Inl x \<Rightarrow> ((L, f'), Inl x)
        | Inr (L', r) \<Rightarrow>
            if idempotent r \<noteq> idempotent pr then ((L', f'), Inl (RuntimeError ''ledger idempotency changed during confirmation''))
            else (case confirm_loop dg L' f' ps of
                (st, Inl x) \<Rightarrow> (st, Inl x)
              | (st, Inr rs) \<Rightarrow> (st, Inr (r # rs)))))"

definition confirm_validated_preview ::
  "(json \<Rightarrow> pystr) \<Rightarrow> datetime \<Rightarrow> service \<Rightarrow> import_preview \<Rightarrow> service \<times> receipt list result" where
  "confirm_validated_preview dg now s p =
     (case bindR (copy_ledger now (sv_ledger s)) (\<lambda>M. record_all M (candidate_events p)) of
        Inl x \<Rightarrow> (s, Inl x)
      | Inr (_, rs) \<Rightarrow> (case confirm_loop dg (sv_ledger s) (sv_file s) (zip (candidate_events p) rs) of
          ((L', f'), x) \<Rightarrow> (s\<lparr>sv_ledger := L', sv_file := f'\<rparr>, x)))"

definition confirm_preview :: "(json \<Rightarrow> pystr) \<Rightarrow> datetime \<Rightarrow> service \<Rightarrow> pystr \<Rightarrow> service \<times> receipt list result" where
  "confirm_preview dg now s pid = (case dict_get (sv_previews s) pid of
       None \<Rightarrow> (s, Inl (ValueError ''unknown or expired import preview''))
     | Some p \<Rightarrow> confirm_validated_preview dg now s p)"

section \<open>The copy agrees with the ledger\<close>

lemma copy_start:
  assumes "ledger_inv L0" "records L0 = []" "make_ledger c fs kn ntd n = Inr L0"
  shows "make_ledger (ADec (initial_cash L0)) (fees_of L0) (known_instruments L0) (next_trading_day L0) (lot_size L0) = Inr L0"
proof -
  obtain c' kn' where L0: "0 \<le> c'" "0 < n" "\<forall>(s, m) \<in> set kn'. m \<noteq> []"
    "L0 = \<lparr>initial_cash = c', fees_of = fs, known_instruments = kn', next_trading_day = ntd, lot_size = n,
       events = [], events_by_id = Map.empty, corrections = [], voided = [], records = []\<rparr>"
    using assms(3) by (rule make_ledger_Inr) blast
  have cfg: "config_ok L0" using assms(1) unfolding ledger_inv_def by blast
  then have grid: "money_arg (ADec c') = Inr c'"
    using L0(4) by (simp add: config_ok_def money_arg_def money_on_grid)
  have kn: "distinct (map fst kn')" "\<forall>(s, m) \<in> set kn'. six_digits s \<and> py_strip m = m"
    using cfg L0(4) by (auto simp: config_ok_def)
  have known: "known_of acc xs = Inr (acc @ xs)"
    if "distinct (map fst (acc @ xs))" "\<forall>(s, m) \<in> set xs. six_digits s \<and> py_strip m = m" for acc xs
    using that
  proof (induction xs arbitrary: acc)
    case (Cons x xs)
    obtain s m where x: "x = (s, m)" by (cases x)
    have s: "normalize_symbol s = Inr s" "py_strip m = m" using Cons.prems(2) x by (auto simp: normalize_symbol_fixed)
    have "dict_set acc s m = acc @ [(s, m)]" if "s \<notin> fst ` set acc" for acc
      using that by (induction acc) auto
    then have "dict_set acc s m = acc @ [(s, m)]" using Cons.prems(1) x by auto
    then show ?case using Cons.IH[of "acc @ [(s, m)]"] Cons.prems x s by simp
  qed simp
  have k: "known_of [] kn' = Inr kn'" using known[of "[]" kn'] kn by simp
  have ne: "\<not> (\<exists>(s, m) \<in> set kn'. m = [])" using L0(3) by auto
  have "make_ledger (ADec c') fs kn' ntd n = Inr L0"
    unfolding make_ledger_def grid bindR_simps k if_not_P[OF ne] using L0 by simp
  then show ?thesis using L0(4) by simp
qed

lemma copy_ledger_same:
  assumes "make_ledger c fs kn ntd n = Inr L0" "reachable L0 L" "is_aware now"
  shows "\<exists>M. copy_ledger now L = Inr M \<and> same_ledger L M"
proof -
  have e: "records L0 = []" using assms(1) by (auto elim: make_ledger_Inr)
  note inv = make_ledger_inv[OF assms(1)]
  from reachable_replay[OF assms(2) inv e assms(3)]
  obtain M where M: "foldR (replay_step now) L0 (records L) = Inr M" "same_ledger L M" by blast
  have cfg: "initial_cash L = initial_cash L0" "fees_of L = fees_of L0" "next_trading_day L = next_trading_day L0"
    "known_instruments L = known_instruments L0" "lot_size L = lot_size L0"
    using assms(2) inv
    by (induction rule: reachable.induct) (use ledger_step_extends reachable_inv in fastforce)+
  have "copy_ledger now L = Inr M"
    using M(1) copy_start[OF inv e assms(1)] by (simp add: copy_ledger_def from_records_def cfg)
  then show ?thesis using M(2) by blast
qed

lemma same_ledger_lookup: "same_ledger L M \<Longrightarrow> events_by_id L = events_by_id M \<and> events L = events M
    \<and> known_instruments L = known_instruments M \<and> lot_size L = lot_size M \<and> same_basis L M"
  by (auto simp: same_ledger_def same_basis_def)

lemma append_event_same:
  assumes "same_ledger L M" "append_event M e = Inr (M', r)"
  shows "\<exists>L'. append_event L e = Inr (L', r) \<and> same_ledger L' M'"
  using assms(2)
proof (cases rule: append_event_cases)
  case (old old)
  then have "append_event L e = Inr (L, r)"
    using same_ledger_lookup[OF assms(1)] receipt_basis[of L M] by (simp add: append_event_def)
  then show ?thesis using assms(1) old by blast
next
  case new
  have L: "events_by_id L (event_id e) = None" "\<not> (\<exists>x \<in> set (events L). trade_date e < trade_date x)"
    using new same_ledger_lookup[OF assms(1)] by (auto simp: not_less)
  have "receipt_for (L\<lparr>events := events L @ [e]\<rparr>) e False = Inr r"
    using receipt_basis[OF same_basis_extended_fill[OF assms(1)]] new(3) by simp
  then have "append_event L e = Inr (L\<lparr>events := events L @ [e], events_by_id := (events_by_id L)(event_id e \<mapsto> e),
      records := records L @ [Fill e]\<rparr>, r)"
    unfolding append_event_def L(1) option.case if_not_P[OF L(2)] Let_def by simp
  moreover have "L\<lparr>events := events L @ [e], events_by_id := (events_by_id L)(event_id e \<mapsto> e),
      records := records L @ [Fill e]\<rparr> = extended L (Fill e)" by (simp add: extended_def)
  ultimately show ?thesis using new(4) same_ledger_extended[OF assms(1), of "Fill e" "Fill e"] by auto
qed

lemma record_fill_same:
  assumes "same_ledger L M" "record_fill M e = Inr (M', r)"
  shows "\<exists>L'. record_fill L e = Inr (L', r) \<and> same_ledger L' M'"
proof -
  have app: "append_event M e = Inr (M', r)" by (rule record_fill_append[OF assms(2)])
  then obtain L' where L': "append_event L e = Inr (L', r)" "same_ledger L' M'"
    using append_event_same[OF assms(1)] by blast
  have "snapshot L 0 (Some (trade_date e)) = snapshot M 0 (Some (trade_date e))"
    using snapshot_basis same_ledger_lookup[OF assms(1)] by blast
  then have avail: "check_available L (trade_date e) (symbol e) (quantity e) = check_available M (trade_date e) (symbol e) (quantity e)"
    by (simp add: check_available_def)
  have eqs: "known_instruments L = known_instruments M" "lot_size L = lot_size M"
    using same_ledger_lookup[OF assms(1)] by blast+
  have name: "validate_name L (symbol e) (fill_name e) = validate_name M (symbol e) (fill_name e)"
    by (simp only: validate_name_def eqs)
  have "record_fill L e = Inr (L', r)"
    using assms(2) L'(1) app unfolding record_fill_def avail name eqs by (auto simp: bindR_Inr_iff)
  then show ?thesis using L'(2) by blast
qed

section \<open>Confirming is all or nothing\<close>

text \<open>The file holds the records of the ledger, up to the time stamps of corrections.\<close>

definition in_sync :: "(json \<Rightarrow> pystr) \<Rightarrow> ledger \<Rightarrow> line list \<Rightarrow> bool" where
  "in_sync dg L f \<longleftrightarrow> store_inv dg f \<and> map erase_record (stored dg f) = map erase_record (records L)"

lemma in_sync_fresh:
  assumes "in_sync dg L f" "ledger_inv L" "events_by_id L (event_id e) = None"
  shows "record_identity (Fill e) \<notin> record_identity ` set (stored dg f)"
proof
  assume "record_identity (Fill e) \<in> record_identity ` set (stored dg f)"
  then obtain x where x: "x \<in> set (stored dg f)" "record_identity x = (''fill'', event_id e)" by auto
  have "\<exists>e'. x = Fill e' \<and> event_id e' = event_id e" using x(2) by (cases x) simp_all
  then obtain e' where e': "x = Fill e'" "event_id e' = event_id e" by blast
  have "erase_record x \<in> set (map erase_record (records L))"
    using x(1) assms(1) unfolding in_sync_def by (metis image_eqI list.set_map)
  then obtain y where y: "y \<in> set (records L)" "erase_record y = Fill e'" using e' by auto
  have "y = Fill e'" using y(2) by (cases y) simp_all
  then have "e' \<in> fill_of ` set (records L)" using y(1) by force
  then have "e' \<in> set (events L)" using assms(2) unfolding ledger_inv_def by (metis list.set_map)
  then show False using inv_fresh[OF assms(2,3)] e'(2) by (metis imageI)
qed

lemma store_add_fresh:
  assumes "store_inv dg f" "record_identity rec \<notin> record_identity ` set (stored dg f)"
  shows "\<exists>f'. store_add dg f rec = Inr f'"
proof -
  from assms(1) obtain rows where rows: "validated_rows dg [] f = Inr rows" "mapR record_from_row rows = Inr (stored dg f)"
    by (auto simp: store_inv_def load_records_def bindR_Inr_iff)
  then have "find_existing rec rows = Inr None" using find_existing_spec[OF rows(2)] assms(2) by blast
  then show ?thesis using rows by (auto simp: store_add_def store_append_def Let_def)
qed

lemma receipt_flag: "receipt_for L e i = Inr r \<Longrightarrow> idempotent r = i"
  by (auto simp: receipt_for_def bindR_Inr_iff)

lemma confirm_loop_ok:
  assumes "record_all M es = Inr (M', rs)" "same_ledger L M" "ledger_inv L" "in_sync dg L f" "\<forall>e \<in> set es. fill_ok e"
  shows "\<exists>L' f'. confirm_loop dg L f (zip es rs) = ((L', f'), Inr rs) \<and> in_sync dg L' f' \<and> same_ledger L' M' \<and> reachable L L'
     \<and> (\<exists>new. f' = f @ new) \<and> length rs = length es
     \<and> event_id ` set (events L') = event_id ` set es \<union> event_id ` set (events L)"
  using assms
proof (induction M es arbitrary: L f M' rs rule: record_all.induct)
  case (1 M)
  then show ?case by (auto intro: reachable.start)
next
  case (2 M e es)
  then obtain M1 r rs' where st: "record_fill M e = Inr (M1, r)" "record_all M1 es = Inr (M', rs')" "rs = r # rs'"
    by (auto simp: bindR_Inr_iff)
  obtain L1 where L1: "record_fill L e = Inr (L1, r)" "same_ledger L1 M1"
    using record_fill_same[OF "2.prems"(2) st(1)] by blast
  have step: "ledger_step L L1" using L1(1) "2.prems"(5) by (auto intro: fill_step)
  have inv1: "ledger_inv L1" by (rule ledger_step_inv[OF step "2.prems"(3)])
  have ok: "\<forall>e \<in> set es. fill_ok e" using "2.prems"(5) by simp
  obtain f1 where f1: "(if idempotent r then Inr f else store_add dg f (Fill e)) = Inr f1" "in_sync dg L1 f1" "\<exists>new. f1 = f @ new"
  proof (cases rule: append_event_cases[OF record_fill_append[OF L1(1)]])
    case (1 old)
    then have "idempotent r" by (auto simp: receipt_for_def bindR_Inr_iff)
    then show ?thesis using that[of f] 1 "2.prems"(4) by simp
  next
    case 2
    have "\<not> idempotent r" using 2(3) by (auto simp: receipt_for_def bindR_Inr_iff)
    have new: "record_identity (Fill e) \<notin> record_identity ` set (stored dg f)"
      by (rule in_sync_fresh[OF "2.prems"(4,3) 2(1)])
    have sinv: "store_inv dg f" using "2.prems"(4) by (simp add: in_sync_def)
    obtain f1 h where f1: "store_append dg f (Fill e) = Inr (f1, h)"
      using store_add_fresh[OF sinv new] by (auto simp: store_add_Inr)
    have rok: "record_ok (Fill e)" using "2.prems"(5) by (simp add: record_ok_def)
    have res: "store_inv dg f1 \<and> stored dg f1 = stored dg f @ [Fill e] \<and> (\<exists>l. f1 = f @ [l])"
      using store_append_cases[OF f1 sinv rok] new by (metis image_eqI)
    moreover have "map erase_record (stored dg f) = map erase_record (records L)" using "2.prems"(4) by (simp add: in_sync_def)
    ultimately have "in_sync dg L1 f1" using 2(4) by (simp add: in_sync_def)
    moreover have "store_add dg f (Fill e) = Inr f1" using f1 by (simp add: store_add_def)
    ultimately show ?thesis using that[of f1] \<open>\<not> idempotent r\<close> res by auto
  qed
  obtain L' f' where rec: "confirm_loop dg L1 f1 (zip es rs') = ((L', f'), Inr rs')" "in_sync dg L' f'" "same_ledger L' M'"
    "reachable L1 L'" "\<exists>new. f' = f1 @ new" "length rs' = length es"
    "event_id ` set (events L') = event_id ` set es \<union> event_id ` set (events L1)"
    using "2.IH"[OF st(1) refl st(2) L1(2) inv1 f1(2) ok] by blast
  have "confirm_loop dg L f (zip (e # es) rs) = ((L', f'), Inr rs)"
    using f1(1) L1(1) rec(1) st(3) by (simp split: if_splits)
  moreover have "reachable L L'" using rec(4)
    by (induction rule: reachable.induct) (use step in \<open>auto intro: reachable.intros\<close>)
  moreover have "event_add L e = Inr L1" using record_fill_append[OF L1(1)] by (simp add: event_add_def)
  then have "event_id ` set (events L1) = insert (event_id e) (event_id ` set (events L))"
    using evlog.add_keys "2.prems"(3,5) by auto
  moreover have "\<exists>new. f' = f @ new" using rec(5) f1(3) by auto
  ultimately show ?case using rec(2,3,6,7) st(3) by auto
qed

end
