(* ===== verification/Account_Snapshots.thy ===== *)
theory Account_Snapshots
  imports Account_Inbox
begin

text \<open>
  \<^verbatim>\<open>account/snapshot_store.py\<close>: the stored snapshot of a broker's positions.  The file holds one JSON
  value; \<open>nbytes\<close> is the length of its encoding, and the path checks are the boolean \<open>safe\<close>.
\<close>

section \<open>The snapshot\<close>

record imported_snapshot =
  sn_id :: pystr
  sn_sha :: pystr
  sn_source :: pystr
  sn_as_of :: date
  sn_imported_at :: utc
  sn_cash :: "rat option"
  sn_positions :: "imported_position list"

definition is_hex64 :: "pystr \<Rightarrow> bool" where
  "is_hex64 s \<longleftrightarrow> length s = 64 \<and> (\<forall>c \<in> set s. 48 \<le> c \<and> c \<le> 57 \<or> 97 \<le> c \<and> c \<le> 102)"

definition make_imported_snapshot ::
  "pystr \<Rightarrow> pystr \<Rightarrow> pystr \<Rightarrow> date \<Rightarrow> datetime \<Rightarrow> decimal option \<Rightarrow> imported_position list \<Rightarrow> imported_snapshot result" where
  "make_imported_snapshot i sha src d t c ps =
     (if py_strip i = [] then Inl (ValueError ''snapshot_id is required'')
      else if \<not> is_hex64 sha then Inl (ValueError ''source_sha256 must be lowercase SHA-256'')
      else let nm = py_strip src in
        if nm = [] \<or> 47 \<in> set nm \<or> 92 \<in> set nm then Inl (ValueError ''source_name is invalid'')
        else bindR (as_utc t ''snapshot imported_at'') (\<lambda>u.
        bindR (case c of None \<Rightarrow> Inr None | Some (Fin x) \<Rightarrow> bindR (money x) (\<lambda>y. Inr (Some y))
               | Some _ \<Rightarrow> Inl (ValueError ''cash must be finite'')) (\<lambda>csh.
        if \<not> distinct (map ip_symbol ps) then Inl (ValueError ''duplicate position symbol'')
        else Inr \<lparr>sn_id = i, sn_sha = sha, sn_source = nm, sn_as_of = d, sn_imported_at = u, sn_cash = csh, sn_positions = ps\<rparr>)))"

definition snapshot_ok :: "imported_snapshot \<Rightarrow> bool" where
  "snapshot_ok s \<longleftrightarrow> py_strip (sn_id s) \<noteq> [] \<and> is_hex64 (sn_sha s) \<and> sn_source s \<noteq> [] \<and> py_strip (sn_source s) = sn_source s
     \<and> 47 \<notin> set (sn_source s) \<and> 92 \<notin> set (sn_source s) \<and> (\<forall>c. sn_cash s = Some c \<longrightarrow> on_grid 2 c)
     \<and> distinct (map ip_symbol (sn_positions s)) \<and> (\<forall>p \<in> set (sn_positions s). position_ok p)"

lemma make_imported_snapshot_ok:
  "make_imported_snapshot i sha src d t c ps = Inr s \<Longrightarrow> \<forall>p \<in> set ps. position_ok p \<Longrightarrow> snapshot_ok s"
  by (auto simp: make_imported_snapshot_def snapshot_ok_def bindR_Inr_iff Let_def dest: money_grid
      split: if_splits option.splits decimal.splits)

section \<open>Saving and loading\<close>

definition snapshot_payload :: "imported_snapshot \<Rightarrow> json" where
  "snapshot_payload s = JObj [(''as_of'', JDate (sn_as_of s)), (''cash'', cash_json (sn_cash s)),
     (''imported_at'', JTime (utc_datetime (sn_imported_at s))), (''positions'', JList (map position_json (sn_positions s))),
     (''snapshot_id'', JStr (sn_id s)), (''source_name'', JStr (sn_source s)), (''source_sha256'', JStr (sn_sha s))]"

definition max_snapshot_bytes :: int where "max_snapshot_bytes = 5 * 1024 * 1024"

definition envelope :: "(json \<Rightarrow> pystr) \<Rightarrow> json \<Rightarrow> json" where
  "envelope dg p = JObj [(''format_version'', JInt 1), (''payload'', p), (''payload_sha256'', JStr (dg p))]"

text \<open>The new content of the file, or the exception; the temporary file and the replacement are one step.\<close>

definition save_snapshot ::
  "(json \<Rightarrow> pystr) \<Rightarrow> (json \<Rightarrow> int) \<Rightarrow> bool \<Rightarrow> datetime \<Rightarrow> imported_snapshot \<Rightarrow> json result" where
  "save_snapshot dg nbytes safe now s =
     bindR (as_utc now ''snapshot clock'') (\<lambda>u.
     if sn_imported_at s > utc_add u (5 * 60 * micros_per_second) then Inl (ValueError ''snapshot imported_at is in the future'')
     else if \<not> safe then Inl (ValueError ''snapshot path is not safe'')
     else let v = envelope dg (snapshot_payload s) in
       if max_snapshot_bytes < nbytes v then Inl (ValueError ''account snapshot exceeds the nbytes limit'') else Inr v)"

definition integrity_error :: "'a result" where
  "integrity_error = Inl (ValueError ''snapshot integrity validation failed'')"

text \<open>\<^verbatim>\<open>Decimal(str(v))\<close> of a JSON value: not caught when it is no number.\<close>

definition json_decimal :: "json \<Rightarrow> decimal result" where
  "json_decimal v = bindR (num_of v) bare_decimal"

definition position_from_json :: "json \<Rightarrow> imported_position option result" where
  "position_from_json v = (case v of
       JObj [(a, va), (b, vb), (c, vc), (d, vd), (e, ve), (f, vf)] \<Rightarrow>
         if [a, b, c, d, e, f] = [''available_quantity'', ''average_cost'', ''frozen_quantity'', ''name'', ''symbol'', ''total_quantity'']
         then bindR (text_of ve) (\<lambda>s. bindR (text_of vd) (\<lambda>n. bindR (int_of vf) (\<lambda>t. bindR (int_of va) (\<lambda>av.
              bindR (int_of vc) (\<lambda>fr. bindR (json_decimal vb) (\<lambda>x.
              bindR (case x of Fin q \<Rightarrow> make_imported_position s n t av fr (ADec q)
                     | _ \<Rightarrow> Inl (ValueError ''price must be finite'')) (\<lambda>p. Inr (Some p))))))))
         else Inr None
     | _ \<Rightarrow> Inr None)"

definition snapshot_from_payload :: "(string \<times> json) list \<Rightarrow> imported_snapshot result" where
  "snapshot_from_payload ob =
     (case ob of
        [(a, d), (b, c), (k, t), (e, ps), (f, i), (g, src), (h, sha)] \<Rightarrow>
          if [a, b, k, e, f, g, h] \<noteq> [''as_of'', ''cash'', ''imported_at'', ''positions'', ''snapshot_id'', ''source_name'', ''source_sha256'']
          then Inl (ValueError ''payload keys are invalid'')
          else (case ps of
              JList raw \<Rightarrow>
                if raw = [] then Inl (ValueError ''positions are invalid'')
                else bindR (mapR position_from_json raw) (\<lambda>opts.
                  if length (List.map_filter id opts) \<noteq> length raw then Inl (ValueError ''position payload is invalid'')
                  else bindR (case c of JNull \<Rightarrow> Inr None | _ \<Rightarrow> bindR (json_decimal c) (\<lambda>x. Inr (Some x))) (\<lambda>csh.
                  bindR (text_of i) (\<lambda>i'. bindR (text_of sha) (\<lambda>sha'. bindR (text_of src) (\<lambda>src'.
                  bindR (date_of d) (\<lambda>d'. bindR (time_of t) (\<lambda>t'.
                  make_imported_snapshot i' sha' src' d' t' csh (List.map_filter id opts))))))))
            | _ \<Rightarrow> Inl (ValueError ''positions are invalid''))
      | _ \<Rightarrow> Inl (ValueError ''payload keys are invalid''))"

definition catch_row_errors :: "'a result \<Rightarrow> 'a result" where
  "catch_row_errors r = (case r of Inl e \<Rightarrow> if is_row_error e then integrity_error else Inl e | Inr x \<Rightarrow> Inr x)"

text \<open>\<open>content\<close>: \<open>None\<close> for no file, otherwise what \<^verbatim>\<open>json.loads\<close> makes of it, \<open>None\<close> when it is not JSON.\<close>

definition load_snapshot ::
  "(json \<Rightarrow> pystr) \<Rightarrow> (json \<Rightarrow> int) \<Rightarrow> bool \<Rightarrow> json option option \<Rightarrow> imported_snapshot option result" where
  "load_snapshot dg nbytes safe content = (case content of
       None \<Rightarrow> Inr None
     | Some v \<Rightarrow> if \<not> safe then Inl (ValueError ''snapshot path is not safe'')
         else (case v of
             Some (JObj [(a, ver), (b, p), (c, h)]) \<Rightarrow>
               if max_snapshot_bytes < nbytes (JObj [(a, ver), (b, p), (c, h)]) then integrity_error
               else if [a, b, c] \<noteq> [''format_version'', ''payload'', ''payload_sha256''] \<or> ver \<noteq> JInt 1 then integrity_error
               else (case (p, h) of
                   (JObj ob, JStr t) \<Rightarrow> if \<not> is_hex64 t \<or> t \<noteq> dg p then integrity_error
                      else bindR (catch_row_errors (snapshot_from_payload ob)) (\<lambda>s. Inr (Some s))
                 | _ \<Rightarrow> integrity_error)
           | _ \<Rightarrow> integrity_error))"

section \<open>Round trip\<close>

lemma position_from_to: "position_ok p \<Longrightarrow> position_from_json (position_json p) = Inr (Some p)"
  by (simp add: position_from_json_def position_json_def text_of_def int_of_def json_decimal_def num_of_def bare_decimal_def
      decimal_of_def make_imported_position_fixed)

lemma positions_from_to: "\<forall>p \<in> set ps. position_ok p \<Longrightarrow> mapR position_from_json (map position_json ps) = Inr (map Some ps)"
  by (induction ps) (simp_all add: position_from_to)

lemma map_filter_Some [simp]: "List.map_filter id (map Some xs) = xs"
  by (induction xs) (simp_all add: List.map_filter_def)

lemma snapshot_from_to:
  assumes "snapshot_ok s" "sn_positions s \<noteq> []"
  shows "snapshot_from_payload [(''as_of'', JDate (sn_as_of s)), (''cash'', cash_json (sn_cash s)),
     (''imported_at'', JTime (utc_datetime (sn_imported_at s))), (''positions'', JList (map position_json (sn_positions s))),
     (''snapshot_id'', JStr (sn_id s)), (''source_name'', JStr (sn_source s)), (''source_sha256'', JStr (sn_sha s))] = Inr s"
proof -
  have ps: "mapR position_from_json (map position_json (sn_positions s)) = Inr (map Some (sn_positions s))"
    using assms(1) by (intro positions_from_to) (simp add: snapshot_ok_def)
  have cash: "(case cash_json (sn_cash s) of JNull \<Rightarrow> Inr None | _ \<Rightarrow> bindR (json_decimal (cash_json (sn_cash s))) (\<lambda>x. Inr (Some x)))
      = Inr (map_option Fin (sn_cash s))"
    by (cases "sn_cash s") (simp_all add: cash_json_def json_decimal_def num_of_def bare_decimal_def decimal_of_def)
  have "make_imported_snapshot (sn_id s) (sn_sha s) (sn_source s) (sn_as_of s) (utc_datetime (sn_imported_at s))
      (map_option Fin (sn_cash s)) (sn_positions s) = Inr s"
    using assms(1) by (cases "sn_cash s") (simp_all add: make_imported_snapshot_def snapshot_ok_def as_utc_def money_on_grid)
  then show ?thesis
    using assms(2) ps cash by (simp add: snapshot_from_payload_def text_of_def date_of_def time_of_def)
qed

lemma load_saved:
  assumes "save_snapshot dg nbytes safe now s = Inr v" "snapshot_ok s" "is_hex64 (dg (snapshot_payload s))"
  shows "load_snapshot dg nbytes safe (Some (Some v)) = (if sn_positions s = [] then integrity_error else Inr (Some s))"
proof -
  have v: "v = envelope dg (snapshot_payload s)" "safe" "nbytes v \<le> max_snapshot_bytes"
    using assms(1) by (auto simp: save_snapshot_def bindR_Inr_iff Let_def split: if_splits)
  show ?thesis
  proof (cases "sn_positions s = []")
    case True
    have "snapshot_from_payload [(''as_of'', JDate (sn_as_of s)), (''cash'', cash_json (sn_cash s)),
     (''imported_at'', JTime (utc_datetime (sn_imported_at s))), (''positions'', JList (map position_json (sn_positions s))),
     (''snapshot_id'', JStr (sn_id s)), (''source_name'', JStr (sn_source s)), (''source_sha256'', JStr (sn_sha s))]
     = Inl (ValueError ''positions are invalid'')" using True by (simp add: snapshot_from_payload_def)
    then show ?thesis using v assms(3) True
      by (simp add: load_snapshot_def envelope_def snapshot_payload_def catch_row_errors_def is_row_error_def integrity_error_def)
  next
    case False
    then show ?thesis using v assms(3) snapshot_from_to[OF assms(2) False]
      by (simp add: load_snapshot_def envelope_def snapshot_payload_def catch_row_errors_def)
  qed
qed

end
