(* ===== verification/Import_Properties.thy ===== *)
theory Import_Properties
  imports Account_Service Account_Snapshots Account_Examples
begin

text \<open>
  What the files and imports of the account promise: the hash-chained file as a log, the evidence it
  gives of tampering and the evidence it does not give, previews of broker files, and the confirmation that
  makes them durable.
\<close>

section \<open>The hash-chained file\<close>

text \<open>A digest for the witnesses, which only need some digest.\<close>

definition demo_digest :: "json \<Rightarrow> pystr" where
  "demo_digest v = (case v of JObj ((_, JStr k) # _) \<Rightarrow> replicate 64 (48 + int (length k)) | _ \<Rightarrow> replicate 64 48)"



text \<open>The chain of digests is evidence: two files that validate and end in the same digest are the same
  file, line by line, as long as the digest does not collide on the rows of the two files.\<close>

theorem store_chain_evidence:
  assumes "inj_on dg (digested f \<union> digested g)" "\<forall>v. dg v \<noteq> []"
    and "validated_rows dg [] f = Inr rs" "validated_rows dg [] g = Inr ss" "previous_hash rs = previous_hash ss"
  shows "f = g"
  using chain_unique[OF assms(1-4)] assms(5) by (simp add: previous_hash_end)

theorem store_chain_evidence_witness:
  "\<exists>f rs. store_add demo_digest [] (Fill demo_buy) = Inr f \<and> validated_rows demo_digest [] f = Inr rs \<and> f \<noteq> []
     \<and> (\<forall>g. validated_rows demo_digest [] g = Inr rs \<longrightarrow> inj_on demo_digest (digested f \<union> digested g) \<longrightarrow> f = g)"
proof -
  obtain f where f: "store_add demo_digest [] (Fill demo_buy) = Inr f"
    using store_add_fresh[OF store_inv_empty(1)] by (auto simp: store_inv_empty)
  then have "store_inv demo_digest f" "stored demo_digest f \<noteq> []"
    using jsonl.add_inv[OF store_inv_empty(1) _ f] jsonl.add_cases[OF store_inv_empty(1) _ f] demo_fills_ok
    by (auto simp: store_inv_empty record_ok_def)
  then obtain rs where rs: "validated_rows demo_digest [] f = Inr rs" "f \<noteq> []"
    using store_inv_empty(2) by (auto simp: store_inv_def load_records_def bindR_Inr_iff)
  have ne: "\<forall>v. demo_digest v \<noteq> []"
    by (auto simp: demo_digest_def split: json.splits list.splits)
  show ?thesis using store_chain_evidence[OF _ ne rs(1)] f rs by blast
qed

text \<open>What the chain does not show is truncation: a file cut off after any whole line validates, and loads
  the records of the lines that are left.\<close>

theorem store_truncation_unnoticed:
  assumes "load_records dg f = Inr rs"
  shows "load_records dg (take k f) = Inr (take k rs)"
proof -
  from assms obtain rows where rows: "validated_rows dg [] f = Inr rows" "mapR record_from_row rows = Inr rs"
    by (auto simp: load_records_def bindR_Inr_iff)
  show ?thesis using validated_rows_take[OF rows(1)] mapR_take[OF rows(2)] by (simp add: load_records_def)
qed

theorem store_truncation_unnoticed_witness:
  "\<exists>f. load_records demo_digest f = Inr [Fill demo_buy] \<and> load_records demo_digest (take 0 f) = Inr []"
proof -
  obtain f where f: "store_add demo_digest [] (Fill demo_buy) = Inr f"
    using store_add_fresh[OF store_inv_empty(1)] by (auto simp: store_inv_empty)
  then have "store_inv demo_digest f" "stored demo_digest f = [Fill demo_buy]"
    using jsonl.add_inv[OF store_inv_empty(1) _ f] jsonl.add_cases[OF store_inv_empty(1) _ f] demo_fills_ok
    by (auto simp: store_inv_empty record_ok_def)
  then have load: "load_records demo_digest f = Inr [Fill demo_buy]" by (simp add: store_inv_def)
  show ?thesis using store_truncation_unnoticed[OF load, of 0] load by auto
qed

section \<open>Previews\<close>

definition demo_map :: column_map where
  "demo_map = map (\<lambda>f. (py f, py f)) [''symbol'', ''quantity'', ''price'', ''name'']"

definition demo_row :: "string \<Rightarrow> cell \<Rightarrow> broker_row" where
  "demo_row q nm = [(py ''symbol'', CText (py ''600001'')), (py ''quantity'', CText (py q)), (py ''price'', CText (py ''10'')),
     (py ''name'', nm)]"

definition demo_now :: datetime where "demo_now = \<lparr>dt_local = 0, dt_offset = Some 0\<rparr>"

text \<open>A preview that is returned accounts for every row once: the accepted events and the rejected rows
  together are the rows; each accepted event is a valid fill with the id of its row, so ids are distinct and a
  repeated import of the same bytes proposes the same ids; a buy carries a name; each rejected row raised a
  validation error.\<close>

theorem preview_partition:
  assumes "preview_broker_rows dg now rows m dflt sha = Inr p"
  shows "length (candidate_events p) + length (rejected_rows p) = length rows
    \<and> map event_id (candidate_events p) = map (import_id sha) (filter (\<lambda>i. i \<notin> set (rejected_rows p)) [1..<Suc (length rows)])
    \<and> distinct (map event_id (candidate_events p)) \<and> distinct (rejected_rows p)
    \<and> (\<forall>e \<in> set (candidate_events p). fill_ok e \<and> (side e = BUY \<longrightarrow> fill_name e \<noteq> []))
    \<and> (\<forall>i \<in> set (rejected_rows p). \<exists>x. row_to_event now m dflt sha i (rows ! (i - 1)) = Inl x \<and> is_row_error x)"
proof -
  from assms have loop: "preview_loop (row_to_event now m dflt sha) 1 rows = Inr (candidate_events p, rejected_rows p)"
    by (auto simp: preview_broker_rows_def validate_mapping_def bindR_Inr_iff split: if_splits)
  note spec = preview_loop_spec[OF loop] and ids = preview_loop_ids[OF loop]
  have inj: "inj_on (import_id sha) A" for A by (simp add: inj_on_def import_id_inject)
  have "distinct (map event_id (candidate_events p))"
    unfolding ids by (simp add: distinct_map inj)
  moreover have "\<forall>e \<in> set (candidate_events p). fill_ok e \<and> (side e = BUY \<longrightarrow> fill_name e \<noteq> [])"
    using spec row_to_event_Inr by blast
  ultimately show ?thesis using spec ids by auto
qed

theorem preview_partition_witness:
  "\<exists>p. preview_broker_rows demo_digest demo_now [demo_row ''100'' (CText (py ''A'')), demo_row ''0'' (CText (py ''A''))] demo_map 739000 (py ''ab'') = Inr p
     \<and> length (candidate_events p) + length (rejected_rows p) = 2 \<and> rejected_rows p = [2]"
proof -
  have "\<exists>e. row_to_event demo_now demo_map 739000 (py ''ab'') 1 (demo_row ''100'' (CText (py ''A''))) = Inr e"
  proof -
    have "returns (row_to_event demo_now demo_map 739000 (py ''ab'') 1 (demo_row ''100'' (CText (py ''A''))))" by code_simp
    then show ?thesis by (simp add: returns_iff)
  qed
  then obtain e where e: "row_to_event demo_now demo_map 739000 (py ''ab'') 1 (demo_row ''100'' (CText (py ''A''))) = Inr e" ..
  have bad: "row_to_event demo_now demo_map 739000 (py ''ab'') 2 (demo_row ''0'' (CText (py ''A''))) = Inl (ValueError ''{field} must be a positive integer'')"
    by code_simp
  have m: "validate_mapping demo_map = Inr demo_map" by code_simp
  have two: "Suc 1 = (2 :: nat)" by simp
  define p where "p = \<lparr>preview_id = demo_digest (JObj [(''default_trade_date'', JDate 739000), (''mapping'', mapping_json demo_map), (''source_sha256'', JStr (py ''ab''))]),
    source_sha256 = py ''ab'', candidate_events = [e], rejected_rows = [2]\<rparr>"
  have p: "preview_broker_rows demo_digest demo_now [demo_row ''100'' (CText (py ''A'')), demo_row ''0'' (CText (py ''A''))] demo_map 739000 (py ''ab'') = Inr p"
    by (simp add: preview_broker_rows_def m e[unfolded One_nat_def] bad two[unfolded One_nat_def] is_row_error_def p_def)
  show ?thesis using preview_partition[OF p] p by (auto simp: p_def)
qed

text \<open>One quantity that is no number aborts the whole preview: \<^verbatim>\<open>Decimal(str(value))\<close> signals
  \<^verbatim>\<open>InvalidOperation\<close>, an \<^verbatim>\<open>ArithmeticError\<close>, which the row's handler does not catch, so the
  valid rows before and after it are lost with it.  A price that is no number only rejects its row.\<close>

theorem malformed_quantity_aborts_preview:
  "preview_broker_rows dg demo_now [demo_row ''100'' (CText (py ''A'')), demo_row ''1,000'' (CText (py ''A''))] demo_map 739000 (py ''ab'')
     = Inl InvalidOperation
   \<and> price_arg (AText (py ''1,000'')) = Inl (ValueError ''price must be a decimal number'')"
proof -
  have "returns (row_to_event demo_now demo_map 739000 (py ''ab'') 1 (demo_row ''100'' (CText (py ''A''))))" by code_simp
  then obtain e where e: "row_to_event demo_now demo_map 739000 (py ''ab'') 1 (demo_row ''100'' (CText (py ''A''))) = Inr e"
    by (auto simp: returns_iff)
  have bad: "row_to_event demo_now demo_map 739000 (py ''ab'') 2 (demo_row ''1,000'' (CText (py ''A''))) = Inl InvalidOperation"
    by code_simp
  have m: "validate_mapping demo_map = Inr demo_map" by code_simp
  have two: "Suc (Suc 0) = (2 :: nat)" by simp
  have "is_row_error InvalidOperation = False" by code_simp
  then have "preview_broker_rows dg demo_now [demo_row ''100'' (CText (py ''A'')), demo_row ''1,000'' (CText (py ''A''))] demo_map 739000 (py ''ab'')
     = Inl InvalidOperation"
    by (simp add: preview_broker_rows_def m e[unfolded One_nat_def] bad two)
  moreover have "price_arg (AText (py ''1,000'')) = Inl (ValueError ''price must be a decimal number'')" by code_simp
  ultimately show ?thesis by (simp add: is_row_error_def)
qed

text \<open>A buy without a name is refused when its cell is an empty text, but not when the cell is missing:
  \<^verbatim>\<open>str(None)\<close> is a name, and the fill is recorded as a buy of \<^verbatim>\<open>None\<close>.\<close>

theorem missing_name_becomes_None:
  "(\<exists>e. row_to_event demo_now demo_map 739000 (py ''ab'') 1 (demo_row ''100'' CNone) = Inr e \<and> side e = BUY \<and> fill_name e = py ''None'')
   \<and> row_to_event demo_now demo_map 739000 (py ''ab'') 1 (demo_row ''100'' (CText [])) = Inl (ValueError ''buy imports require a name'')"
proof -
  have "(case row_to_event demo_now demo_map 739000 (py ''ab'') 1 (demo_row ''100'' CNone) of
      Inl _ \<Rightarrow> False | Inr e \<Rightarrow> side e = BUY \<and> fill_name e = py ''None'')" by code_simp
  moreover have "row_to_event demo_now demo_map 739000 (py ''ab'') 1 (demo_row ''100'' (CText [])) = Inl (ValueError ''buy imports require a name'')"
    by code_simp
  ultimately show ?thesis by (auto split: sum.splits)
qed

text \<open>A position preview holds at least one position; its positions are consistent (available and frozen
  shares are non-negative and add up to the total), their symbols are distinct six-digit codes, and its cash is
  an amount of cents.\<close>

theorem position_preview_consistent:
  assumes "position_preview dg fid nm sha rows m dflt = Inr p"
  shows "fp_positions p \<noteq> [] \<and> distinct (map ip_symbol (fp_positions p))
    \<and> (\<forall>q \<in> set (fp_positions p). six_digits (ip_symbol q) \<and> 0 \<le> ip_available q \<and> 0 \<le> ip_frozen q
         \<and> ip_available q + ip_frozen q = ip_total q \<and> 0 \<le> ip_cost q)
    \<and> (\<forall>c. fp_cash p = Some c \<longrightarrow> on_grid 2 c)"
  using position_preview_Inr[OF assms] by (auto simp: position_ok_def)

definition demo_pmap :: column_map where
  "demo_pmap = map (\<lambda>f. (py f, py f)) [''symbol'', ''total_quantity'', ''average_cost'', ''cash'']"

definition demo_prow :: "string \<Rightarrow> string \<Rightarrow> broker_row" where
  "demo_prow s c = [(py ''symbol'', CText (py s)), (py ''total_quantity'', CText (py ''300'')),
     (py ''average_cost'', CText (py ''10'')), (py ''cash'', CText (py c))]"

theorem position_preview_consistent_witness:
  "\<exists>p. position_preview demo_digest (py ''f'') (py ''n'') (py ''s'') [demo_prow ''600001'' ''5''] demo_pmap 739000 = Inr p
     \<and> fp_positions p \<noteq> [] \<and> (\<forall>q \<in> set (fp_positions p). ip_available q + ip_frozen q = ip_total q)"
proof -
  have "returns (position_preview demo_digest (py ''f'') (py ''n'') (py ''s'') [demo_prow ''600001'' ''5''] demo_pmap 739000)"
    by code_simp
  then obtain p where p: "position_preview demo_digest (py ''f'') (py ''n'') (py ''s'') [demo_prow ''600001'' ''5''] demo_pmap 739000 = Inr p"
    by (auto simp: returns_iff)
  show ?thesis using position_preview_consistent[OF p] p by blast
qed

text \<open>A row of a position export can be rejected and imported at once: its position is added before its
  cash cell is read, and the handler of the error does not take it back.\<close>

theorem rejected_position_kept:
  "\<exists>p. position_preview demo_digest (py ''f'') (py ''n'') (py ''s'') [demo_prow ''600001'' ''x''] demo_pmap 739000 = Inr p
     \<and> fp_rejected p = [1] \<and> map ip_symbol (fp_positions p) = [py ''600001'']"
proof -
  have "(case position_preview demo_digest (py ''f'') (py ''n'') (py ''s'') [demo_prow ''600001'' ''x''] demo_pmap 739000 of
      Inl _ \<Rightarrow> False | Inr p \<Rightarrow> fp_rejected p = [1] \<and> map ip_symbol (fp_positions p) = [py ''600001''])" by code_simp
  then show ?thesis by (auto split: sum.splits)
qed

section \<open>Confirmation\<close>



text \<open>A stored snapshot of positions is loaded back as it was, if it has a position; one without positions
  can be saved, and every later load then fails the integrity check.\<close>

theorem snapshot_store_roundtrip:
  assumes "make_imported_snapshot i sha src d t c ps = Inr s" "\<forall>q \<in> set ps. position_ok q"
    and "save_snapshot dg nbytes safe now s = Inr v" "is_hex64 (dg (snapshot_payload s))"
  shows "load_snapshot dg nbytes safe (Some (Some v)) = (if ps = [] then integrity_error else Inr (Some s))"
proof -
  have "sn_positions s = ps" using assms(1)
    by (auto simp: make_imported_snapshot_def bindR_Inr_iff Let_def split: if_splits option.splits decimal.splits)
  then show ?thesis using load_saved[OF assms(3) make_imported_snapshot_ok[OF assms(1,2)] assms(4)] by simp
qed

theorem snapshot_store_roundtrip_witness:
  "\<exists>s v. make_imported_snapshot (py ''i'') (replicate 64 48) (py ''n'') 739000 demo_now None [] = Inr s
     \<and> save_snapshot demo_digest (\<lambda>_. 100) True demo_now s = Inr v
     \<and> load_snapshot demo_digest (\<lambda>_. 100) True (Some (Some v)) = integrity_error"
proof -
  have "(case make_imported_snapshot (py ''i'') (replicate 64 48) (py ''n'') 739000 demo_now None [] of Inl _ \<Rightarrow> False
      | Inr s \<Rightarrow> returns (save_snapshot demo_digest (\<lambda>_. 100) True demo_now s) \<and> is_hex64 (demo_digest (snapshot_payload s)))"
    by code_simp
  then obtain s v where s: "make_imported_snapshot (py ''i'') (replicate 64 48) (py ''n'') 739000 demo_now None [] = Inr s"
    "save_snapshot demo_digest (\<lambda>_. 100) True demo_now s = Inr v" "is_hex64 (demo_digest (snapshot_payload s))"
    by (auto simp: returns_iff split: sum.splits)
  show ?thesis using snapshot_store_roundtrip[OF s(1) _ s(2,3)] s by auto
qed

end
