(* ===== verification/Advisory_Contracts.thy ===== *)
theory Advisory_Contracts
  imports Symbols Py_Iso
begin

text \<open>
  \<^verbatim>\<open>advisory/contracts.py\<close> and \<^verbatim>\<open>advisory/store.py\<close>: immutable forecasts, realized outcomes, and the
  append-only store that matures the ones into the others.  The arguments of the forecast constructor
  are a record; SHA-256 of a text is the argument \<open>sha\<close>.
\<close>

section \<open>Forecasts\<close>

datatype advisory_state = BUY_CANDIDATE | ADD_CANDIDATE | HOLD | WATCH | REDUCE | EXIT | BLOCKED | INSUFFICIENT_DATA

definition advisory_states :: "(pystr \<times> advisory_state) list" where
  "advisory_states = [(py ''BUY_CANDIDATE'', BUY_CANDIDATE), (py ''ADD_CANDIDATE'', ADD_CANDIDATE), (py ''HOLD'', HOLD),
     (py ''WATCH'', WATCH), (py ''REDUCE'', REDUCE), (py ''EXIT'', EXIT), (py ''BLOCKED'', BLOCKED),
     (py ''INSUFFICIENT_DATA'', INSUFFICIENT_DATA)]"

datatype state_arg = State advisory_state | StateText pystr

definition parse_state :: "state_arg \<Rightarrow> advisory_state result" where
  "parse_state a = (case a of State s \<Rightarrow> Inr s | StateText t \<Rightarrow>
     (case dict_get advisory_states (py_upper t) of None \<Rightarrow> Inl (ValueError ''not a valid AdvisoryState'') | Some s \<Rightarrow> Inr s))"

record forecast_args =
  a_id :: pystr
  a_symbol :: pystr
  a_generated_at :: datetime
  a_data_cutoff :: datetime
  a_reference_price :: num_arg
  a_model_version :: pystr
  a_data_version :: pystr
  a_feature_version :: pystr
  a_horizon :: int
  a_maturity :: date
  a_return :: num_arg
  a_probability :: num_arg
  a_rank :: int
  a_uncertainty :: num_arg
  a_state :: state_arg
  a_report_id :: pystr
  a_data_mode :: pystr
  a_benchmark :: pystr
  a_minimum_edge :: num_arg
  a_calibration :: pystr
  a_lower :: "num_arg option"
  a_upper :: "num_arg option"
  a_interval_status :: pystr
  a_artifact :: pystr

record forecast =
  forecast_id :: pystr
  f_symbol :: pystr
  generated_at :: utc
  data_cutoff :: utc
  reference_price :: rat
  model_version :: pystr
  data_version :: pystr
  feature_version :: pystr
  horizon_days :: int
  maturity_date :: date
  predicted_return :: rat
  predicted_probability :: rat
  predicted_rank :: int
  uncertainty :: rat
  proposed_state :: advisory_state
  report_id :: pystr
  f_data_mode :: data_mode
  benchmark_symbol :: pystr
  minimum_edge :: rat
  calibration_version :: pystr
  interval_lower :: "rat option"
  interval_upper :: "rat option"
  calibrated :: bool
  artifact_sha256 :: pystr

definition allowed_horizons :: "int list" where "allowed_horizons = [5, 10, 20]"

definition q_price :: "rat \<Rightarrow> rat result" where "q_price = quantize 4 ROUND_HALF_EVEN"
definition q_return :: "rat \<Rightarrow> rat result" where "q_return = quantize 6 ROUND_HALF_EVEN"

definition optional_decimal :: "num_arg option \<Rightarrow> string \<Rightarrow> rat option result" where
  "optional_decimal a f = (case a of None \<Rightarrow> Inr None
     | Some (AText t) \<Rightarrow> if py_strip t = [] then Inr None else bindR (as_decimal (AText t) f) (\<lambda>x. Inr (Some x))
     | Some (ADec q) \<Rightarrow> Inr (Some q))"

definition unit_interval :: "num_arg \<Rightarrow> string \<Rightarrow> rat result" where
  "unit_interval a f = bindR (as_decimal a f) (\<lambda>x.
     if 0 \<le> x \<and> x \<le> 1 then q_return x else Inl (ValueError (f @ '' must be between zero and one'')))"

definition required_text :: "pystr \<Rightarrow> string \<Rightarrow> pystr result" where
  "required_text s f = (if py_strip s = [] then Inl (ValueError (f @ '' is required'')) else Inr (py_strip s))"

definition optional_quantize :: "rat option \<Rightarrow> rat option result" where
  "optional_quantize x = (case x of None \<Rightarrow> Inr None | Some v \<Rightarrow> bindR (q_price v) (\<lambda>y. Inr (Some y)))"

definition parse_interval :: "forecast_args \<Rightarrow> (rat option \<times> rat option \<times> bool) result" where
  "parse_interval a =
     (let status = py_upper (py_strip (a_interval_status a)) in
      if status \<noteq> py ''UNCALIBRATED'' \<and> status \<noteq> py ''CALIBRATED''
      then Inl (ValueError ''interval_status must be UNCALIBRATED or CALIBRATED'')
      else bindR (optional_decimal (a_lower a) ''interval_lower'') (\<lambda>lo.
      bindR (optional_decimal (a_upper a) ''interval_upper'') (\<lambda>hi.
      if (lo = None) \<noteq> (hi = None) then Inl (ValueError ''interval_lower and interval_upper must be provided together'')
      else if (case (lo, hi) of (Some l, Some h) \<Rightarrow> l \<le> 0 \<or> h < l | _ \<Rightarrow> False)
      then Inl (ValueError ''forecast interval prices are invalid'')
      else if status = py ''CALIBRATED'' \<and> lo = None then Inl (ValueError ''calibrated interval requires lower and upper prices'')
      else bindR (optional_quantize lo) (\<lambda>l. bindR (optional_quantize hi) (\<lambda>h.
        Inr (l, h, status = py ''CALIBRATED''))))))"

definition is_artifact :: "pystr \<Rightarrow> bool" where
  "is_artifact s \<longleftrightarrow> length s = 64 \<and> (\<forall>c \<in> set s. 48 \<le> c \<and> c \<le> 57 \<or> 97 \<le> c \<and> c \<le> 102)"

text \<open>The fields in the order of \<^verbatim>\<open>__post_init__\<close>: the identity with its times, the versions, the numbers,
  and the rest.\<close>

definition forecast_times :: "forecast_args \<Rightarrow> (pystr \<times> pystr \<times> utc \<times> utc) result" where
  "forecast_times a =
     bindR (required_text (a_id a) ''forecast_id'') (\<lambda>i.
     bindR (normalize_symbol (a_symbol a)) (\<lambda>s.
     bindR (as_utc (a_generated_at a) ''generated_at'') (\<lambda>g.
     bindR (as_utc (a_data_cutoff a) ''data_cutoff'') (\<lambda>c.
     if g < c then Inl (ValueError ''data_cutoff cannot be later than generated_at'')
     else if a_horizon a \<notin> set allowed_horizons then Inl (ValueError ''horizon_days must be one of 5, 10, or 20'')
     else if a_maturity a \<le> utc_date c then Inl (ValueError ''maturity_date must be after the data cutoff'')
     else Inr (i, s, g, c)))))"

definition forecast_versions :: "forecast_args \<Rightarrow> (pystr \<times> pystr \<times> pystr) result" where
  "forecast_versions a =
     bindR (required_text (a_model_version a) ''model_version'') (\<lambda>mv.
     bindR (required_text (a_data_version a) ''data_version'') (\<lambda>dv.
     bindR (required_text (a_feature_version a) ''feature_version'') (\<lambda>fv. Inr (mv, dv, fv))))"

definition forecast_numbers :: "forecast_args \<Rightarrow> (rat \<times> rat \<times> rat \<times> rat) result" where
  "forecast_numbers a =
     bindR (bindR (as_decimal (a_reference_price a) ''reference_price'') q_price) (\<lambda>p.
     if p \<le> 0 then Inl (ValueError ''reference_price must be positive'')
     else bindR (bindR (as_decimal (a_return a) ''predicted_return'') q_return) (\<lambda>r.
     bindR (unit_interval (a_probability a) ''predicted_probability'') (\<lambda>pr.
     if a_rank a < 1 then Inl (ValueError ''predicted_rank must be a positive integer'')
     else bindR (unit_interval (a_uncertainty a) ''uncertainty'') (\<lambda>u. Inr (p, r, pr, u)))))"

definition minimum_edge_of :: "forecast_args \<Rightarrow> rat result" where
  "minimum_edge_of a = bindR (as_decimal (a_minimum_edge a) ''minimum_edge'') (\<lambda>e.
     if e < 0 then Inl (ValueError ''minimum_edge cannot be negative'') else q_return e)"

definition artifact_of :: "forecast_args \<Rightarrow> pystr result" where
  "artifact_of a = (let art = py_lower (py_strip (a_artifact a)) in
     if art \<noteq> [] \<and> \<not> is_artifact art then Inl (ValueError ''artifact_sha256 must be a SHA-256 hex digest'') else Inr art)"

definition make_forecast :: "forecast_args \<Rightarrow> forecast result" where
  "make_forecast a =
     bindR (forecast_times a) (\<lambda>(i, s, g, c).
     bindR (forecast_versions a) (\<lambda>(mv, dv, fv).
     bindR (forecast_numbers a) (\<lambda>(p, r, pr, u).
     bindR (parse_state (a_state a)) (\<lambda>st.
     bindR (validate_data_mode (a_data_mode a)) (\<lambda>dm.
     bindR (if py_strip (a_benchmark a) = [] then Inr [] else normalize_symbol (py_strip (a_benchmark a))) (\<lambda>b.
     bindR (minimum_edge_of a) (\<lambda>me.
     bindR (parse_interval a) (\<lambda>(lo, hi, cal).
     bindR (artifact_of a) (\<lambda>art.
     Inr \<lparr>forecast_id = i, f_symbol = s, generated_at = g, data_cutoff = c, reference_price = p, model_version = mv,
       data_version = dv, feature_version = fv, horizon_days = a_horizon a, maturity_date = a_maturity a, predicted_return = r,
       predicted_probability = pr, predicted_rank = a_rank a, uncertainty = u, proposed_state = st,
       report_id = py_strip (a_report_id a), f_data_mode = dm, benchmark_symbol = b, minimum_edge = me,
       calibration_version = py_strip (a_calibration a), interval_lower = lo, interval_upper = hi, calibrated = cal,
       artifact_sha256 = art\<rparr>)))))))))"

definition make_forecast_id :: "(pystr \<Rightarrow> pystr) \<Rightarrow> forecast_args \<Rightarrow> int \<Rightarrow> pystr result" where
  "make_forecast_id sha a h =
     bindR (normalize_symbol (a_symbol a)) (\<lambda>s.
     bindR (as_utc (a_generated_at a) ''generated_at'') (\<lambda>g.
     Inr (py ''forecast-'' @ take 24 (sha (s @ [124] @ utc_iso g @ [124] @ a_model_version a @ [124] @ a_data_version a
       @ [124] @ a_feature_version a @ [124] @ py_nat h)))))"

text \<open>\<^verbatim>\<open>for_horizons\<close>: the fields that do not depend on the horizon come from \<open>a\<close>, the others from mappings.\<close>

record horizon_maps =
  hm_maturity :: "(int \<times> date) list"
  hm_return :: "(int \<times> num_arg) list"
  hm_probability :: "(int \<times> num_arg) list"
  hm_rank :: "(int \<times> int) list"
  hm_uncertainty :: "(int \<times> num_arg) list"
  hm_lower :: "(int \<times> num_arg) list"
  hm_upper :: "(int \<times> num_arg) list"

definition getd :: "(int \<times> 'v) list \<Rightarrow> int \<Rightarrow> 'v \<Rightarrow> 'v" where
  "getd m h d = (case dict_get m h of None \<Rightarrow> d | Some v \<Rightarrow> v)"

definition half_arg :: num_arg where "half_arg = ADec (1 / 2)"

definition for_horizons :: "(pystr \<Rightarrow> pystr) \<Rightarrow> forecast_args \<Rightarrow> horizon_maps \<Rightarrow> int list \<Rightarrow> forecast list result" where
  "for_horizons sha a m hs =
     (if hs = [] \<or> (\<exists>h \<in> set hs. h \<notin> set allowed_horizons)
      then Inl (ValueError ''horizons must be a non-empty subset of 5, 10, and 20'')
      else mapR (\<lambda>h. case dict_get (hm_maturity m) h of
          None \<Rightarrow> Inl (ValueError ''maturity_dates must cover every requested horizon'')
        | Some d \<Rightarrow> bindR (make_forecast_id sha a h) (\<lambda>i.
            make_forecast (a\<lparr>a_id := i, a_horizon := h, a_maturity := d, a_return := getd (hm_return m) h (ADec 0),
              a_probability := getd (hm_probability m) h half_arg, a_rank := getd (hm_rank m) h 1,
              a_uncertainty := getd (hm_uncertainty m) h half_arg, a_state := State WATCH,
              a_lower := dict_get (hm_lower m) h, a_upper := dict_get (hm_upper m) h\<rparr>))) hs)"

definition forecast_ok :: "forecast \<Rightarrow> bool" where
  "forecast_ok f \<longleftrightarrow> forecast_id f \<noteq> [] \<and> six_digits (f_symbol f) \<and> data_cutoff f \<le> generated_at f
     \<and> horizon_days f \<in> set allowed_horizons \<and> utc_date (data_cutoff f) < maturity_date f
     \<and> 0 < reference_price f \<and> on_grid 4 (reference_price f)
     \<and> 0 \<le> predicted_probability f \<and> predicted_probability f \<le> 1 \<and> 0 \<le> uncertainty f \<and> uncertainty f \<le> 1
     \<and> 1 \<le> predicted_rank f \<and> 0 \<le> minimum_edge f
     \<and> (interval_lower f = None \<longleftrightarrow> interval_upper f = None) \<and> (calibrated f \<longrightarrow> interval_lower f \<noteq> None)
     \<and> (\<forall>l h. interval_lower f = Some l \<longrightarrow> interval_upper f = Some h \<longrightarrow> 0 \<le> l \<and> l \<le> h)"

lemma quantize_1: "quantize 6 m 1 = Inr 1"
proof -
  have "(1 :: rat) = of_int 1000000 / 10 ^ 6" by simp
  then have "on_grid 6 1" unfolding on_grid_def by (intro exI[of _ 1000000]) simp
  then show ?thesis by (rule quantize_on_grid)
qed

lemma unit_interval_range:
  assumes "unit_interval a f = Inr x"
  shows "0 \<le> x \<and> x \<le> 1"
proof -
  from assms obtain y where y: "0 \<le> y" "y \<le> 1" "quantize 6 ROUND_HALF_EVEN y = Inr x"
    by (auto simp: unit_interval_def bindR_Inr_iff q_return_def split: if_splits)
  have "x \<le> 1" by (rule quantize_mono[OF y(2) y(3) quantize_1])
  then show ?thesis using quantize_nonneg[OF y(1,3)] by simp
qed

lemma parse_interval_ok:
  assumes "parse_interval a = Inr (lo, hi, cal)"
  shows "(lo = None \<longleftrightarrow> hi = None) \<and> (cal \<longrightarrow> lo \<noteq> None) \<and> (\<forall>l h. lo = Some l \<longrightarrow> hi = Some h \<longrightarrow> 0 \<le> l \<and> l \<le> h)"
proof -
  from assms obtain l0 h0 where i: "optional_quantize l0 = Inr lo" "optional_quantize h0 = Inr hi"
    "(l0 = None) = (h0 = None)" "\<not> (case (l0, h0) of (Some l, Some h) \<Rightarrow> l \<le> 0 \<or> h < l | _ \<Rightarrow> False)"
    "cal \<longrightarrow> l0 \<noteq> None"
    by (auto simp: parse_interval_def bindR_Inr_iff Let_def split: if_splits)
  show ?thesis
  proof (cases l0)
    case None
    then show ?thesis using i by (auto simp: optional_quantize_def)
  next
    case (Some l)
    then obtain h where h: "h0 = Some h" using i(3) by auto
    obtain l' h' where q: "q_price l = Inr l'" "q_price h = Inr h'" "lo = Some l'" "hi = Some h'"
      using i(1,2) Some h by (auto simp: optional_quantize_def bindR_Inr_iff)
    have "0 < l" "l \<le> h" using i(4) Some h by auto
    then have "0 \<le> l'" "l' \<le> h'"
      using q(1,2) quantize_nonneg[of l 4 ROUND_HALF_EVEN l'] quantize_mono[of l h 4 ROUND_HALF_EVEN l' h']
      by (auto simp: q_price_def)
    then show ?thesis using q by simp
  qed
qed

lemma make_forecast_Inr:
  assumes "make_forecast a = Inr f"
  shows "forecast_times a = Inr (forecast_id f, f_symbol f, generated_at f, data_cutoff f)"
    "\<exists>r. forecast_numbers a = Inr (reference_price f, r, predicted_probability f, uncertainty f)"
    "minimum_edge_of a = Inr (minimum_edge f)"
    "parse_interval a = Inr (interval_lower f, interval_upper f, calibrated f)"
    "maturity_date f = a_maturity a" "horizon_days f = a_horizon a" "predicted_rank f = a_rank a"
  using assms by (auto simp: make_forecast_def bindR_Inr_iff)

lemma forecast_times_Inr:
  assumes "forecast_times a = Inr (i, s, g, c)"
  shows "i \<noteq> [] \<and> py_strip i = i \<and> six_digits s \<and> c \<le> g \<and> a_horizon a \<in> set allowed_horizons \<and> utc_date c < a_maturity a"
  using assms
  by (auto simp: forecast_times_def bindR_Inr_iff required_text_def not_le not_less normalize_symbol_six split: if_splits)

lemma forecast_numbers_Inr:
  assumes "forecast_numbers a = Inr (p, r, pr, u)"
  shows "0 < p \<and> on_grid 4 p \<and> 0 \<le> pr \<and> pr \<le> 1 \<and> 0 \<le> u \<and> u \<le> 1 \<and> 1 \<le> a_rank a"
  using assms
  by (auto simp: forecast_numbers_def bindR_Inr_iff q_price_def not_le not_less dest: quantize_grid unit_interval_range split: if_splits)

lemma make_forecast_ok:
  assumes "make_forecast a = Inr f"
  shows "forecast_ok f"
proof -
  note fields = make_forecast_Inr[OF assms]
  have "0 \<le> minimum_edge f"
    using fields(3) by (auto simp: minimum_edge_of_def q_return_def bindR_Inr_iff not_less dest: quantize_nonneg split: if_splits)
  moreover note forecast_times_Inr[OF fields(1)] parse_interval_ok[OF fields(4)]
  moreover obtain r where "forecast_numbers a = Inr (reference_price f, r, predicted_probability f, uncertainty f)"
    using fields(2) by blast
  note forecast_numbers_Inr[OF this]
  ultimately show ?thesis using fields(5-7) by (auto simp: forecast_ok_def)
qed

end
