(* ===== verification/Advisory_Risk.thy ===== *)
theory Advisory_Risk
  imports Symbols
begin

text \<open>
  \<^verbatim>\<open>advisory/risk.py\<close>: the portfolio gates that a new position has to pass and the size it gets.  All
  amounts are \<^verbatim>\<open>Decimal\<close> and every operation rounds in the 28-digit context, so the bounds below carry
  the rounding explicitly.  The YAML reader of the policy is not modelled.
\<close>

section \<open>Portfolio and policy\<close>

record risk_position =
  rp_symbol :: pystr
  market_value :: rat
  rp_industry :: pystr

record portfolio =
  equity :: rat
  pf_cash :: rat
  drawdown :: rat
  pf_positions :: "risk_position list"

record risk_policy =
  normal_gross_cap :: rat
  cautious_gross_cap :: rat
  risk_off_gross_cap :: rat
  initial_position_cap :: rat
  absolute_single_name_cap :: rat
  industry_cap :: rat
  minimum_cash_reserve :: rat
  planned_risk_per_position :: rat
  maximum_positions :: int
  minimum_liquidity_amount :: rat
  maximum_forecast_uncertainty :: rat
  drawdown_caution :: rat
  drawdown_new_buy_freeze :: rat
  drawdown_protection :: rat
  policy_lot_size :: int

definition make_risk_position :: "pystr \<Rightarrow> num_arg \<Rightarrow> pystr \<Rightarrow> risk_position result" where
  "make_risk_position s v ind =
     bindR (normalize_symbol s) (\<lambda>y. bindR (as_decimal v ''market_value'') (\<lambda>x.
     if x < 0 then Inl (ValueError ''market_value must be non-negative'')
     else if py_strip ind = [] then Inl (ValueError ''industry is required'')
     else Inr \<lparr>rp_symbol = y, market_value = x, rp_industry = py_strip ind\<rparr>))"

definition make_portfolio :: "num_arg \<Rightarrow> num_arg \<Rightarrow> num_arg \<Rightarrow> risk_position list \<Rightarrow> portfolio result" where
  "make_portfolio e c d ps =
     bindR (as_decimal e ''equity'') (\<lambda>eq. bindR (as_decimal c ''cash'') (\<lambda>csh. bindR (as_decimal d ''drawdown'') (\<lambda>dd.
     if eq \<le> 0 then Inl (ValueError ''equity must be positive'')
     else if csh < 0 then Inl (ValueError ''cash must be non-negative'')
     else if \<not> (0 \<le> dd \<and> dd < 1) then Inl (ValueError ''drawdown must be between zero and one'')
     else Inr \<lparr>equity = eq, pf_cash = csh, drawdown = dd, pf_positions = ps\<rparr>)))"

definition portfolio_ok :: "portfolio \<Rightarrow> bool" where
  "portfolio_ok pf \<longleftrightarrow> 0 < equity pf \<and> 0 \<le> pf_cash pf \<and> 0 \<le> drawdown pf \<and> drawdown pf < 1
     \<and> (\<forall>p \<in> set (pf_positions pf). 0 \<le> market_value p)"

definition exposure_of :: "rat list \<Rightarrow> rat \<Rightarrow> rat result" where
  "exposure_of vs e = bindR (ddiv (dsum vs) e) (quantize 4 ROUND_DOWN)"

definition gross_exposure :: "portfolio \<Rightarrow> rat result" where
  "gross_exposure pf = exposure_of (map market_value (pf_positions pf)) (equity pf)"

definition industry_exposure :: "portfolio \<Rightarrow> pystr \<Rightarrow> rat result" where
  "industry_exposure pf ind = exposure_of (map market_value (filter (\<lambda>p. rp_industry p = ind) (pf_positions pf))) (equity pf)"

definition conservative :: risk_policy where
  "conservative = \<lparr>normal_gross_cap = 70 / 100, cautious_gross_cap = 40 / 100, risk_off_gross_cap = 20 / 100,
     initial_position_cap = 4 / 100, absolute_single_name_cap = 8 / 100, industry_cap = 25 / 100,
     minimum_cash_reserve = 30 / 100, planned_risk_per_position = 75 / 10000, maximum_positions = 10,
     minimum_liquidity_amount = 10000000, maximum_forecast_uncertainty = 35 / 100, drawdown_caution = 6 / 100,
     drawdown_new_buy_freeze = 8 / 100, drawdown_protection = 12 / 100, policy_lot_size = 100\<rparr>"

definition unit_ok :: "rat \<Rightarrow> bool" where "unit_ok x \<longleftrightarrow> 0 \<le> x \<and> x \<le> 1"

definition unit_fields :: "risk_policy \<Rightarrow> rat list" where
  "unit_fields p = [normal_gross_cap p, cautious_gross_cap p, risk_off_gross_cap p, initial_position_cap p,
     absolute_single_name_cap p, industry_cap p, minimum_cash_reserve p, planned_risk_per_position p,
     maximum_forecast_uncertainty p, drawdown_caution p, drawdown_new_buy_freeze p, drawdown_protection p]"

text \<open>\<^verbatim>\<open>RiskPolicy.__post_init__\<close> on finite decimals.\<close>

definition check_policy :: "risk_policy \<Rightarrow> risk_policy result" where
  "check_policy p =
     (if \<exists>x \<in> set (unit_fields p). \<not> unit_ok x then Inl (ValueError ''{field} must be between zero and one'')
      else if minimum_liquidity_amount p \<le> 0 then Inl (ValueError ''minimum_liquidity_amount must be positive'')
      else if maximum_positions p < 1 \<or> policy_lot_size p < 1
      then Inl (ValueError ''maximum_positions and lot_size must be positive'')
      else if \<not> (drawdown_caution p \<le> drawdown_new_buy_freeze p \<and> drawdown_new_buy_freeze p \<le> drawdown_protection p)
      then Inl (ValueError ''drawdown thresholds must be ordered'')
      else Inr p)"

definition regime_name :: "pystr \<Rightarrow> pystr" where "regime_name r = py_upper (py_strip r)"

definition gross_cap_for :: "risk_policy \<Rightarrow> pystr \<Rightarrow> rat result" where
  "gross_cap_for p r =
     (let n = regime_name r in
      if n = py ''NORMAL'' then Inr (normal_gross_cap p)
      else if n = py ''CAUTIOUS'' then Inr (cautious_gross_cap p)
      else if n = py ''RISK_OFF'' then Inr (risk_off_gross_cap p)
      else Inl (ValueError ''regime must be NORMAL, CAUTIOUS, or RISK_OFF''))"

section \<open>The assessment\<close>

record assessment =
  allowed :: bool
  target_weight :: rat
  suggested_quantity :: int
  as_reasons :: "string list"

definition blocked :: "string \<Rightarrow> assessment" where
  "blocked r = \<lparr>allowed = False, target_weight = 0, suggested_quantity = 0, as_reasons = [r]\<rparr>"

text \<open>The smallest of the capacities.\<close>

definition capacity :: "risk_policy \<Rightarrow> portfolio \<Rightarrow> pystr \<Rightarrow> rat \<Rightarrow> rat \<Rightarrow> rat \<Rightarrow> rat result" where
  "capacity pol pf ind price inval cap =
     bindR (gross_exposure pf) (\<lambda>ge.
     bindR (ddiv (pf_cash pf) (equity pf)) (\<lambda>cr.
     bindR (industry_exposure pf ind) (\<lambda>ie.
     bindR (ddiv inval price) (\<lambda>ratio.
     bindR (ddiv (planned_risk_per_position pol) (dsub 1 ratio)) (\<lambda>rw.
     Inr (Min {initial_position_cap pol, absolute_single_name_cap pol, dsub cap ge,
               dsub cr (minimum_cash_reserve pol), dsub (industry_cap pol) ie, rw}))))))"

definition assess_new_position ::
  "risk_policy \<Rightarrow> portfolio \<Rightarrow> pystr \<Rightarrow> num_arg \<Rightarrow> num_arg \<Rightarrow> num_arg \<Rightarrow> pystr \<Rightarrow> assessment result" where
  "assess_new_position pol pf ind p ivp lq regime =
     bindR (as_decimal p ''price'') (\<lambda>price.
     bindR (as_decimal ivp ''invalidation_price'') (\<lambda>inval.
     bindR (as_decimal lq ''liquidity_amount'') (\<lambda>liq.
     if price \<le> 0 \<or> inval \<le> 0 \<or> price \<le> inval then Inr (blocked ''INVALID_INVALIDATION'')
     else if liq < minimum_liquidity_amount pol then Inr (blocked ''LIQUIDITY_TOO_LOW'')
     else if regime_name regime = py ''RISK_OFF'' then Inr (blocked ''RISK_OFF'')
     else bindR (gross_cap_for pol regime) (\<lambda>cap.
     if drawdown_protection pol \<le> drawdown pf then Inr (blocked ''PROTECTION_MODE'')
     else if drawdown_new_buy_freeze pol \<le> drawdown pf then Inr (blocked ''DRAWDOWN_NEW_BUY_FREEZE'')
     else if maximum_positions pol \<le> int (length (pf_positions pf)) then Inr (blocked ''MAX_POSITIONS'')
     else bindR (capacity pol pf ind price inval cap) (\<lambda>w.
     if w \<le> 0 then Inr (blocked ''PORTFOLIO_CAPACITY_EXHAUSTED'')
     else bindR (ddiv (dmul (equity pf) w) price) (\<lambda>raw.
     bindR (dfloordiv raw (of_int (policy_lot_size pol))) (\<lambda>lots.
     let q = lots * policy_lot_size pol in
     if q < policy_lot_size pol then Inr (blocked ''INSUFFICIENT_CAPACITY_FOR_LOT'')
     else bindR (bindR (ddiv (dmul (of_int q) price) (equity pf)) (quantize 4 ROUND_DOWN)) (\<lambda>aw.
     Inr \<lparr>allowed = True, target_weight = aw, suggested_quantity = q,
          as_reasons = ''ALL_RISK_GATES_PASSED'' # (if drawdown_caution pol \<le> drawdown pf then [''DRAWDOWN_CAUTION''] else [])\<rparr>))))))))"

section \<open>Rounding bounds\<close>

abbreviation ulp :: rat where "ulp \<equiv> 1 / 10 ^ 27"

lemma ctx_upper: "0 \<le> x \<Longrightarrow> ctx x \<le> x * (1 + ulp)"
proof -
  assume "0 \<le> x"
  then have "ctx x - x \<le> x / 10 ^ 27" using ctx_error[of x] by (simp only: abs_le_iff abs_of_nonneg)
  moreover have "x * (1 + ulp) = x + x / 10 ^ 27" by (simp add: distrib_left)
  ultimately show ?thesis by linarith
qed

lemma ctx_lower: "0 \<le> x \<Longrightarrow> x * (1 - ulp) \<le> ctx x"
proof -
  assume "0 \<le> x"
  then have "- (ctx x - x) \<le> x / 10 ^ 27" using ctx_error[of x] by (simp only: abs_le_iff abs_of_nonneg)
  moreover have "x * (1 - ulp) = x - x / 10 ^ 27" by (simp add: right_diff_distrib)
  ultimately show ?thesis by linarith
qed

text \<open>A result that is positive comes from a positive value.\<close>

lemma ctx_pos_iff: "0 < ctx x \<Longrightarrow> 0 < x"
proof (rule ccontr)
  assume pos: "0 < ctx x" and "\<not> 0 < x"
  then have neg: "0 \<le> - x" by simp
  have "\<bar>ctx x - x\<bar> \<le> \<bar>x\<bar> / 10 ^ 27" by (rule ctx_error)
  then have "ctx x - x \<le> - x / 10 ^ 27" using neg by (simp add: abs_le_iff)
  then have "ctx x \<le> - x / 10 ^ 27 + x" by simp
  also have "\<dots> \<le> 0" using neg by (simp add: field_simps)
  finally show False using pos by simp
qed

lemma dsum_cents:
  assumes "\<forall>x \<in> set xs. 0 \<le> x \<and> (\<exists>c::int. x = of_int c / 100)" "sum_list xs < 10 ^ 26"
  shows "dsum xs = sum_list xs"
proof -
  have step: "foldl dadd a xs = a + sum_list xs"
    if "\<forall>x \<in> set xs. 0 \<le> x \<and> (\<exists>c::int. x = of_int c / 100)" "0 \<le> a" "\<exists>c::int. a = of_int c / 100" "a + sum_list xs < 10 ^ 26"
    for a and xs :: "rat list"
    using that
  proof (induction xs arbitrary: a)
    case (Cons x xs)
    obtain c d :: int where cd: "a = of_int c / 100" "x = of_int d / 100" using Cons.prems by auto
    have nn: "0 \<le> sum_list xs" using Cons.prems(1) by (intro sum_list_nonneg) auto
    have ax: "a + x = of_int (c + d) / 10 ^ 2" using cd by (simp add: add_divide_distrib)
    have "0 \<le> a + x" "a + x < 10 ^ 26" using Cons.prems nn by auto
    then have "0 \<le> (of_int (c + d) :: rat)" "(of_int (c + d) :: rat) < of_int (10 ^ 28)" using ax by (simp_all add: field_simps)
    then have "0 \<le> c + d" "c + d < 10 ^ 28" unfolding of_int_less_iff by (simp_all flip: of_int_add)
    then have "\<bar>c + d\<bar> < 10 ^ 28" by simp
    then have "on_grid 2 (a + x)" unfolding on_grid_def using ax by blast
    then have "dadd a x = a + x" by (simp add: dadd_def ctx_on_grid)
    moreover have "foldl dadd (a + x) xs = a + x + sum_list xs"
    proof (rule Cons.IH)
      show "\<forall>x \<in> set xs. 0 \<le> x \<and> (\<exists>c::int. x = of_int c / 100)" using Cons.prems(1) by simp
      show "0 \<le> a + x" by fact
      show "\<exists>c::int. a + x = of_int c / 100" using ax by (intro exI[of _ "c + d"]) simp
      show "a + x + sum_list xs < 10 ^ 26" using Cons.prems(4) by (simp add: add.assoc)
    qed
    ultimately show ?case by (simp add: add.assoc)
  qed simp
  have "\<exists>c::int. (0 :: rat) = of_int c / 100" by (intro exI[of _ 0]) simp
  then show ?thesis using step[of xs 0] assms by (simp add: dsum_def)
qed

text \<open>The lots bought are worth at most the capacity, up to two roundings.\<close>

lemma sized_quantity:
  assumes "ddiv (dmul e w) price = Inr raw" "dfloordiv raw (of_int lot) = Inr lots"
    and "0 < e" "0 < w" "0 < price" "0 < lot"
  shows "of_int (lots * lot) * price \<le> e * w * (1 + 3 * ulp) \<and> 0 \<le> lots"
proof -
  have raw: "raw = ctx (ctx (e * w) / price)" using assms(1,5) by (auto simp: ddiv_def dmul_def split: if_splits)
  have ew: "0 \<le> e * w" using assms(3,4) by simp
  have c1: "0 \<le> ctx (e * w)" "ctx (e * w) \<le> e * w * (1 + ulp)" using ctx_lower[OF ew] ctx_upper[OF ew] ew
    by (auto intro: order_trans[rotated])
  have c2: "0 \<le> raw" "raw \<le> ctx (e * w) / price * (1 + ulp)"
    using ctx_lower[of "ctx (e * w) / price"] ctx_upper[of "ctx (e * w) / price"] c1(1) assms(5) raw
    by (auto intro: order_trans[rotated])
  have "lots = trunc_rat (raw / of_int lot)" using assms(2,6) by (auto simp: dfloordiv_def Let_def split: if_splits)
  then have "of_int lots \<le> raw / of_int lot" "0 \<le> lots"
    using trunc_rat_le[of "raw / of_int lot"] trunc_rat_nonneg[of "raw / of_int lot"] c2(1) assms(6) by auto
  then have "of_int (lots * lot) \<le> raw" using assms(6) by (simp add: field_simps)
  then have "of_int (lots * lot) * price \<le> raw * price" using assms(5) by (simp add: mult_right_mono)
  also have "\<dots> \<le> ctx (e * w) / price * (1 + ulp) * price" by (intro mult_right_mono c2(2)) (use assms(5) in simp)
  also have "\<dots> = ctx (e * w) * (1 + ulp)" using assms(5) by simp
  also have "\<dots> \<le> e * w * (1 + ulp) * (1 + ulp)" using c1(2) by (intro mult_right_mono) auto
  also have "\<dots> = e * w * ((1 + ulp) * (1 + ulp))" by (simp only: mult.assoc)
  also have "\<dots> \<le> e * w * (1 + 3 * ulp)" using ew by (intro mult_left_mono) auto
  finally show ?thesis using \<open>0 \<le> lots\<close> by blast
qed

lemma capacity_Inr:
  assumes "capacity pol pf ind price inval cap = Inr w" "0 < price" "0 < equity pf"
  obtains ge ie where "gross_exposure pf = Inr ge" "industry_exposure pf ind = Inr ie"
    "w \<le> initial_position_cap pol" "w \<le> absolute_single_name_cap pol" "w \<le> ctx (cap - ge)"
    "w \<le> ctx (ctx (pf_cash pf / equity pf) - minimum_cash_reserve pol)" "w \<le> ctx (industry_cap pol - ie)"
    "w \<le> ctx (planned_risk_per_position pol / ctx (1 - ctx (inval / price)))" "ctx (1 - ctx (inval / price)) \<noteq> 0"
proof -
  have ne: "price \<noteq> 0" "equity pf \<noteq> 0" using assms(2,3) by auto
  from assms(1) obtain ge ie rw where c: "gross_exposure pf = Inr ge" "industry_exposure pf ind = Inr ie"
    "ddiv (planned_risk_per_position pol) (dsub 1 (ctx (inval / price))) = Inr rw"
    and w: "w = Min {initial_position_cap pol, absolute_single_name_cap pol, dsub cap ge,
       dsub (ctx (pf_cash pf / equity pf)) (minimum_cash_reserve pol), dsub (industry_cap pol) ie, rw}"
    using ne by (auto simp only: capacity_def bindR_Inr_iff ddiv_def if_False sum.inject)
  have le: "w \<le> x" if "x \<in> {initial_position_cap pol, absolute_single_name_cap pol, dsub cap ge,
       dsub (ctx (pf_cash pf / equity pf)) (minimum_cash_reserve pol), dsub (industry_cap pol) ie, rw}" for x
    unfolding w by (rule Min_le[OF _ that]) simp
  have rw: "rw = ctx (planned_risk_per_position pol / ctx (1 - ctx (inval / price)))" "ctx (1 - ctx (inval / price)) \<noteq> 0"
    using c(3) by (auto simp: ddiv_def dsub_def split: if_splits)
  show thesis
    by (rule that[OF c(1,2)]) (use le rw in \<open>simp_all add: dsub_def\<close>)
qed

definition policy_ok :: "risk_policy \<Rightarrow> bool" where
  "policy_ok p \<longleftrightarrow> (\<forall>x \<in> set (unit_fields p). unit_ok x) \<and> 1 \<le> policy_lot_size p"

lemma check_policy_ok: "check_policy p = Inr q \<Longrightarrow> q = p \<and> policy_ok p"
  by (auto simp: check_policy_def policy_ok_def split: if_splits)

lemma assess_allowed:
  assumes "assess_new_position pol pf ind p ivp lq regime = Inr a" "allowed a"
  obtains price inval cap w raw lots where "as_decimal p ''price'' = Inr price" "as_decimal ivp ''invalidation_price'' = Inr inval"
    "0 < inval" "inval < price" "gross_cap_for pol regime = Inr cap" "regime_name regime \<noteq> py ''RISK_OFF''"
    "drawdown pf < drawdown_new_buy_freeze pol" "int (length (pf_positions pf)) < maximum_positions pol"
    "capacity pol pf ind price inval cap = Inr w" "0 < w" "ddiv (dmul (equity pf) w) price = Inr raw"
    "dfloordiv raw (of_int (policy_lot_size pol)) = Inr lots" "suggested_quantity a = lots * policy_lot_size pol"
    "policy_lot_size pol \<le> suggested_quantity a"
proof -
  have not_blocked: "\<not> allowed (blocked r)" for r by (simp add: blocked_def)
  from assms(1) obtain price inval liq where in1: "as_decimal p ''price'' = Inr price" "as_decimal ivp ''invalidation_price'' = Inr inval"
    "as_decimal lq ''liquidity_amount'' = Inr liq"
    unfolding assess_new_position_def bindR_Inr_iff by blast
  have g1: "\<not> (price \<le> 0 \<or> inval \<le> 0 \<or> price \<le> inval)" "\<not> liq < minimum_liquidity_amount pol"
    "regime_name regime \<noteq> py ''RISK_OFF''"
    using assms in1 not_blocked by (auto simp: assess_new_position_def split: if_splits)
  then obtain cap where cap: "gross_cap_for pol regime = Inr cap"
    using assms in1 by (auto simp: assess_new_position_def bindR_Inr_iff)
  have g2: "\<not> drawdown_protection pol \<le> drawdown pf" "\<not> drawdown_new_buy_freeze pol \<le> drawdown pf"
    "\<not> maximum_positions pol \<le> int (length (pf_positions pf))"
    using assms in1 g1 cap not_blocked by (auto simp: assess_new_position_def split: if_splits)
  then obtain w where w: "capacity pol pf ind price inval cap = Inr w"
    using assms in1 g1 cap by (auto simp: assess_new_position_def bindR_Inr_iff)
  have g3: "\<not> w \<le> 0" using assms in1 g1 g2 cap w not_blocked by (auto simp: assess_new_position_def split: if_splits)
  then obtain raw lots where r: "ddiv (dmul (equity pf) w) price = Inr raw" "dfloordiv raw (of_int (policy_lot_size pol)) = Inr lots"
    using assms in1 g1 g2 cap w by (auto simp: assess_new_position_def bindR_Inr_iff)
  have g4: "\<not> lots * policy_lot_size pol < policy_lot_size pol"
    using assms in1 g1 g2 g3 cap w r not_blocked by (auto simp: assess_new_position_def Let_def split: if_splits)
  then have q: "suggested_quantity a = lots * policy_lot_size pol"
    using assms in1 g1 g2 g3 cap w r by (auto simp: assess_new_position_def Let_def bindR_Inr_iff)
  show thesis by (rule that[OF in1(1,2) _ _ cap g1(3) _ _ w _ r q]) (use g1 g2 g3 g4 q in auto)
qed

section \<open>What an allowed position keeps\<close>

lemma small_factors: "(1 + 3 * ulp) * (1 + ulp) \<le> 1 + 5 * (ulp :: rat)" "(1 + 5 * ulp) * (1 + ulp) \<le> 1 + 7 * (ulp :: rat)"
  by simp_all

text \<open>A position sized within what an exposure leaves of its cap: the exposure is rounded down to a basis
  point before it is subtracted, so the cap can be exceeded by that much.\<close>

lemma within_exposure_cap:
  assumes ex: "exposure_of vs e = Inr x" and e: "0 < e" and vs: "\<forall>v \<in> set vs. 0 \<le> v \<and> (\<exists>c::int. v = of_int c / 100)" "sum_list vs < 10 ^ 26"
    and cap: "cap \<le> 1" and w: "0 < w" "w \<le> ctx (cap - x)" and v: "v \<le> e * w * (1 + 3 * ulp)"
  shows "v + sum_list vs \<le> e * (cap + 1 / 10 ^ 4 + 1 / 10 ^ 26)"
proof -
  define s where "s = sum_list vs / e"
  have nn: "0 \<le> sum_list vs" using vs(1) by (intro sum_list_nonneg) auto
  then have s: "0 \<le> s" using e by (simp add: s_def)
  have "quantize 4 ROUND_DOWN (ctx s) = Inr x"
    using ex e by (auto simp: exposure_of_def ddiv_def dsum_cents[OF vs] s_def bindR_Inr_iff split: if_splits)
  note q = this
  from quantize_down[OF q ctx_nonneg[OF s]] have x: "0 \<le> x" "ctx s - 1 / 10 ^ 4 \<le> x"
    using quantize_nonneg[OF ctx_nonneg[OF s] q] by linarith+
  have lower: "s * (1 - ulp) - 1 / 10 ^ 4 \<le> x" using ctx_lower[OF s] x(2) by linarith
  have pos: "0 < cap - x" by (rule ctx_pos_iff[OF less_le_trans[OF w]])
  have wle: "w \<le> (cap - x) * (1 + ulp)" by (rule order_trans[OF w(2) ctx_upper]) (use pos in simp)
  have "w * (1 + 3 * ulp) \<le> (cap - x) * (1 + ulp) * (1 + 3 * ulp)" by (rule mult_right_mono[OF wle]) simp
  also have "\<dots> = (cap - x) * ((1 + 3 * ulp) * (1 + ulp))" by simp
  also have "\<dots> \<le> (cap - x) * (1 + 5 * ulp)" by (rule mult_left_mono[OF small_factors(1)]) (use pos in simp)
  also have "\<dots> = cap - x + (cap - x) * (5 * ulp)" by (simp only: distrib_left mult_1_right)
  also have "\<dots> \<le> cap - x + 5 * ulp" using cap x(1) mult_right_mono[of "cap - x" 1 "5 * ulp"] by simp
  finally have bound: "w * (1 + 3 * ulp) \<le> cap - x + 5 * ulp" .
  have "s * (1 - ulp) \<le> 1 + 1 / 10 ^ 4" using lower pos cap by linarith
  then have s2: "s \<le> 2" by simp
  have "s \<le> s * (1 - ulp) + 2 * ulp" using s2 by (simp add: algebra_simps)
  then have "w * (1 + 3 * ulp) + s \<le> cap + 1 / 10 ^ 4 + 10 * ulp"
  proof -
    have add: "a + t \<le> c + (d + v) + 7 * v" if "t \<le> r + 2 * v" "a \<le> c - y + 5 * v" "r - d \<le> y" "0 \<le> v" for a t c d v r y :: rat
      using that by linarith
    have "w * (1 + 3 * ulp) + s \<le> cap + (1 / 10 ^ 4 + ulp) + 7 * ulp"
      by (rule add[OF \<open>s \<le> s * (1 - ulp) + 2 * ulp\<close> bound lower]) simp
    then show ?thesis by simp
  qed
  then have total: "e * (w * (1 + 3 * ulp) + s) \<le> e * (cap + 1 / 10 ^ 4 + 10 * ulp)" using e by (intro mult_left_mono) auto
  have "v + sum_list vs \<le> e * (w * (1 + 3 * ulp) + s)" using v e by (simp add: s_def distrib_left mult.assoc)
  also note total
  finally show ?thesis by simp
qed

lemma within_cash_reserve:
  assumes e: "0 < e" and csh: "0 \<le> csh" and r: "0 \<le> r" and w: "0 < w" "w \<le> ctx (ctx (csh / e) - r)"
    and v: "v \<le> e * w * (1 + 3 * ulp)"
  shows "v + e * r \<le> csh * (1 + 1 / 10 ^ 26)"
proof -
  define c where "c = csh / e"
  have c: "0 \<le> c" "e * c = csh" using csh e by (simp_all add: c_def)
  note w2 = w(2)[folded c_def]
  have pos: "0 < ctx c - r" by (rule ctx_pos_iff[OF less_le_trans[OF w(1) w2]])
  have "w \<le> (ctx c - r) * (1 + ulp)" by (rule order_trans[OF w2 ctx_upper]) (use pos in simp)
  then have "w * (1 + 3 * ulp) \<le> (ctx c - r) * (1 + ulp) * (1 + 3 * ulp)" by (rule mult_right_mono) simp
  also have "\<dots> = (ctx c - r) * ((1 + 3 * ulp) * (1 + ulp))" by simp
  also have "\<dots> \<le> (ctx c - r) * (1 + 5 * ulp)" by (rule mult_left_mono[OF small_factors(1)]) (use pos in simp)
  also have "\<dots> = ctx c * (1 + 5 * ulp) - r * (1 + 5 * ulp)" by (rule left_diff_distrib)
  also have "\<dots> \<le> ctx c * (1 + 5 * ulp) - r" using mult_left_mono[OF _ r, of 1 "1 + 5 * ulp"] by simp
  also have "ctx c * (1 + 5 * ulp) \<le> c * (1 + ulp) * (1 + 5 * ulp)" by (rule mult_right_mono[OF ctx_upper[OF c(1)]]) simp
  also have "c * (1 + ulp) * (1 + 5 * ulp) = c * ((1 + 5 * ulp) * (1 + ulp))" by simp
  also have "\<dots> \<le> c * (1 + 10 * ulp)" using c(1) by (intro mult_left_mono) auto
  finally have "w * (1 + 3 * ulp) + r \<le> c * (1 + 10 * ulp)" by simp
  then have "e * (w * (1 + 3 * ulp) + r) \<le> e * (c * (1 + 10 * ulp))" using e by (intro mult_left_mono) auto
  then have "e * w * (1 + 3 * ulp) + e * r \<le> csh * (1 + 10 * ulp)" using c(2) by (simp add: distrib_left mult.assoc flip: mult.assoc[of e c])
  then show ?thesis using v by simp
qed

lemma within_planned_risk:
  assumes e: "0 < e" and pr: "0 \<le> pr" "pr \<le> 1" and p: "0 < inval" "inval < price" and w: "0 < w" "w \<le> 1"
    and rw: "w \<le> ctx (pr / ctx (1 - ctx (inval / price)))" and ne: "ctx (1 - ctx (inval / price)) \<noteq> 0"
    and v: "of_int q * price \<le> e * w * (1 + 3 * ulp)"
  shows "of_int q * (price - inval) \<le> e * (pr + 1 / 10 ^ 26)"
proof -
  define rho where "rho = inval / price"
  define D where "D = ctx (1 - ctx rho)"
  have rho: "0 < rho" "rho < 1" using p by (simp_all add: rho_def)
  have ctxrho: "ctx rho \<le> rho + ulp" "rho \<le> ctx rho + ulp"
  proof -
    have "\<bar>ctx rho - rho\<bar> \<le> \<bar>rho\<bar> / 10 ^ 27" by (rule ctx_error)
    moreover have "\<bar>rho\<bar> / 10 ^ 27 \<le> ulp" using rho by simp
    ultimately show "ctx rho \<le> rho + ulp" "rho \<le> ctx rho + ulp" by linarith+
  qed
  note rw2 = rw[folded rho_def, folded D_def]
  have prD: "0 < pr / D" by (rule ctx_pos_iff[OF less_le_trans[OF w(1) rw2]])
  then have Dpos: "0 < D" using pr(1) ne unfolding D_def rho_def by (auto simp: zero_less_divide_iff)
  then have one: "0 < 1 - ctx rho" unfolding D_def by (rule ctx_pos_iff)
  have "(1 - ctx rho) * (1 - ulp) \<le> D" unfolding D_def using ctx_lower[of "1 - ctx rho"] one by simp
  moreover have "1 - rho \<le> (1 - ctx rho) + ulp" using ctxrho by linarith
  ultimately have dist: "1 - rho \<le> D * (1 + 2 * ulp) + ulp"
    using one by (simp add: algebra_simps)
  have "w \<le> pr / D * (1 + ulp)" by (rule order_trans[OF rw2 ctx_upper]) (use prD in simp)
  then have wD: "w * D \<le> pr * (1 + ulp)" using Dpos by (simp add: field_simps)
  have "w * (1 - rho) \<le> w * (D * (1 + 2 * ulp) + ulp)" by (rule mult_left_mono[OF dist]) (use w in simp)
  also have "\<dots> = w * D * (1 + 2 * ulp) + w * ulp" by (simp add: distrib_left mult.assoc)
  also have "\<dots> \<le> pr * (1 + ulp) * (1 + 2 * ulp) + ulp"
    using wD w(2) by (intro add_mono mult_right_mono) auto
  also have "\<dots> \<le> pr + 5 * ulp" using pr by simp
  finally have loss: "w * (1 - rho) \<le> pr + 5 * ulp" .
  have "of_int q * (price - inval) = of_int q * price * (1 - rho)" using p by (simp add: rho_def field_simps)
  also have "\<dots> \<le> e * w * (1 + 3 * ulp) * (1 - rho)" by (rule mult_right_mono[OF v]) (use rho in simp)
  also have "\<dots> = e * (1 + 3 * ulp) * (w * (1 - rho))" by simp
  also have "\<dots> \<le> e * (1 + 3 * ulp) * (pr + 5 * ulp)" by (rule mult_left_mono[OF loss]) (use e in simp)
  also have "\<dots> = e * ((1 + 3 * ulp) * (pr + 5 * ulp))" by (simp only: mult.assoc)
  also have "\<dots> \<le> e * (pr + 1 / 10 ^ 26)" using pr e by (intro mult_left_mono) auto
  finally show ?thesis .
qed

end
