(* ===== verification/Advisory_Engine.thy ===== *)
theory Advisory_Engine
  imports Advisory_Contracts Advisory_Risk
begin

text \<open>
  \<^verbatim>\<open>advisory/engine.py\<close>: the ordered gates that turn a forecast, a portfolio and a market context into one
  advisory decision.  The display texts of a decision (\<^verbatim>\<open>action_zh\<close>, \<^verbatim>\<open>explanation_zh\<close>,
  \<^verbatim>\<open>cancel_conditions\<close>) are left out; every other field is modelled.
\<close>

section \<open>Context and decision\<close>

record advisory_context =
  ctx_forecast :: forecast
  ctx_portfolio :: portfolio
  data_quality :: pystr
  tradeable :: bool
  market_regime :: pystr
  market_price :: rat
  ctx_invalidation :: rat
  ctx_industry :: pystr
  liquidity_amount :: rat
  event_risk :: bool
  holding_quantity :: int
  available_quantity :: int

definition positive_field :: "num_arg \<Rightarrow> string \<Rightarrow> rat result" where
  "positive_field a f = bindR (as_decimal a f) (\<lambda>x. if x \<le> 0 then Inl (ValueError (f @ '' must be positive'')) else Inr x)"

definition make_advisory_context ::
  "forecast \<Rightarrow> portfolio \<Rightarrow> pystr \<Rightarrow> bool \<Rightarrow> pystr \<Rightarrow> num_arg \<Rightarrow> num_arg \<Rightarrow> pystr \<Rightarrow> num_arg \<Rightarrow> bool \<Rightarrow> int \<Rightarrow> int
    \<Rightarrow> advisory_context result" where
  "make_advisory_context f pf dq tr reg mp ivp ind lq er hq aq =
     (if py_strip dq = [] then Inl (ValueError ''data_quality is required'')
      else if py_strip ind = [] then Inl (ValueError ''industry is required'')
      else bindR (positive_field mp ''market_price'') (\<lambda>m.
      bindR (positive_field ivp ''invalidation_price'') (\<lambda>i.
      bindR (positive_field lq ''liquidity_amount'') (\<lambda>l.
      if hq < 0 \<or> aq < 0 then Inl (ValueError ''holding quantities must be non-negative'')
      else if hq < aq then Inl (ValueError ''available_quantity cannot exceed holding_quantity'')
      else Inr \<lparr>ctx_forecast = f, ctx_portfolio = pf, data_quality = py_upper (py_strip dq), tradeable = tr,
             market_regime = py_upper (py_strip reg), market_price = m, ctx_invalidation = i, ctx_industry = py_strip ind,
             liquidity_amount = l, event_risk = er, holding_quantity = hq, available_quantity = aq\<rparr>))))"

record decision =
  d_state :: advisory_state
  reason_codes :: "string list"
  d_target_weight :: rat
  d_quantity :: int
  maximum_acceptable_price :: "rat option"
  d_invalidation :: "rat option"
  evidence_cutoff :: pystr
  valid_until :: date
  confidence :: rat
  manual_execution_required :: bool

definition confidence_of :: "forecast \<Rightarrow> rat result" where
  "confidence_of f = quantize 4 ROUND_HALF_UP (dmul (predicted_probability f) (dsub 1 (uncertainty f)))"

text \<open>\<^verbatim>\<open>_decision\<close>, which \<^verbatim>\<open>_blocked\<close>, \<^verbatim>\<open>_watch\<close> and \<^verbatim>\<open>_insufficient\<close> call with their state.\<close>

definition decision_of :: "advisory_context \<Rightarrow> advisory_state \<Rightarrow> string list \<Rightarrow> decision result" where
  "decision_of c s rs = bindR (confidence_of (ctx_forecast c)) (\<lambda>cf.
     Inr \<lparr>d_state = s, reason_codes = rs, d_target_weight = 0, d_quantity = 0, maximum_acceptable_price = None,
          d_invalidation = None, evidence_cutoff = utc_iso (data_cutoff (ctx_forecast c)),
          valid_until = maturity_date (ctx_forecast c), confidence = cf, manual_execution_required = True\<rparr>)"

definition held_position_decision :: "advisory_context \<Rightarrow> decision result" where
  "held_position_decision c =
     (if predicted_return (ctx_forecast c) \<le> 0
      then if 0 < available_quantity c then decision_of c REDUCE [''FORECAST_EDGE_NEGATIVE'']
           else decision_of c WATCH [''T_PLUS_ONE_SELL_NOT_AVAILABLE'']
      else decision_of c HOLD [''EXISTING_POSITION_REMAINS_VALID''])"

definition buy_decision :: "advisory_context \<Rightarrow> assessment \<Rightarrow> decision result" where
  "buy_decision c r =
     bindR (quantize 4 ROUND_HALF_UP (dmul (market_price c) (101 / 100))) (\<lambda>mx.
     bindR (confidence_of (ctx_forecast c)) (\<lambda>cf.
     Inr \<lparr>d_state = BUY_CANDIDATE, reason_codes = as_reasons r @ [''FORMAL_FORECAST_AND_PORTFOLIO_GATES_PASSED''],
          d_target_weight = target_weight r, d_quantity = suggested_quantity r, maximum_acceptable_price = Some mx,
          d_invalidation = Some (ctx_invalidation c), evidence_cutoff = utc_iso (data_cutoff (ctx_forecast c)),
          valid_until = maturity_date (ctx_forecast c), confidence = cf, manual_execution_required = True\<rparr>))"

definition evaluate :: "risk_policy \<Rightarrow> advisory_context \<Rightarrow> decision result" where
  "evaluate pol c =
     (if data_quality c \<noteq> py ''GOOD'' then decision_of c BLOCKED [''DATA_QUALITY_NOT_GOOD'']
      else if \<not> tradeable c then decision_of c BLOCKED [''NOT_TRADABLE'']
      else if event_risk c then decision_of c WATCH [''EVENT_RISK'']
      else if maximum_forecast_uncertainty pol < uncertainty (ctx_forecast c)
      then decision_of c INSUFFICIENT_DATA [''FORECAST_UNCERTAINTY_TOO_HIGH'']
      else if 0 < holding_quantity c then held_position_decision c
      else if predicted_return (ctx_forecast c) \<le> 0 \<or> predicted_probability (ctx_forecast c) < 55 / 100
      then decision_of c WATCH [''FORECAST_EDGE_NOT_MATERIAL'']
      else bindR (assess_new_position pol (ctx_portfolio c) (ctx_industry c) (ADec (market_price c))
             (ADec (ctx_invalidation c)) (ADec (liquidity_amount c)) (market_regime c)) (\<lambda>r.
      if \<not> allowed r then decision_of c BLOCKED (as_reasons r) else buy_decision c r))"

section \<open>Facts\<close>

lemma decision_of_Inr:
  assumes "decision_of c s rs = Inr d"
  shows "d_state d = s \<and> reason_codes d = rs \<and> d_quantity d = 0 \<and> d_target_weight d = 0 \<and> manual_execution_required d"
  using assms by (auto simp: decision_of_def bindR_Inr_iff)

text \<open>A unit interval value times a unit interval value quantizes.\<close>

lemma unit_ctx: "0 \<le> x \<Longrightarrow> x \<le> 1 \<Longrightarrow> 0 \<le> ctx x \<and> ctx x \<le> 2"
  using ctx_nonneg[of x] ctx_upper[of x] by auto

lemma quantize_small:
  assumes "0 \<le> x" "x \<le> 10"
  shows "\<exists>y. quantize 4 m x = Inr y"
proof -
  have "round_int m 0 \<le> round_int m (x * 10 ^ 4)" by (rule round_int_mono) (use assms in simp)
  moreover have "round_int m (x * 10 ^ 4) \<le> round_int m (of_int 100000)" by (rule round_int_mono) (use assms in simp)
  moreover have "round_int m (of_int 100000) = 100000"
    by (cases m) (simp_all only: half_even_of_int half_up_of_int round_int.simps trunc_rat_def, simp_all)
  moreover have "round_int m 0 = 0"
    using half_even_of_int[of 0] half_up_of_int[of 0] by (cases m) (simp_all add: trunc_rat_def)
  ultimately have "\<bar>round_int m (x * 10 ^ 4)\<bar> < 10 ^ 28" by simp
  then show ?thesis unfolding quantize_def Let_def by (simp only: if_True) blast
qed

lemma confidence_total:
  assumes "forecast_ok f"
  shows "\<exists>y. confidence_of f = Inr y"
proof -
  have r: "0 \<le> predicted_probability f" "predicted_probability f \<le> 1" "0 \<le> uncertainty f" "uncertainty f \<le> 1"
    using assms by (simp_all add: forecast_ok_def)
  have s: "0 \<le> dsub 1 (uncertainty f)" "dsub 1 (uncertainty f) \<le> 2"
    using unit_ctx[of "1 - uncertainty f"] r by (simp_all add: dsub_def)
  have "0 \<le> predicted_probability f * dsub 1 (uncertainty f)" using r s by simp
  moreover have "predicted_probability f * dsub 1 (uncertainty f) \<le> 1 * 2" using r s by (intro mult_mono) auto
  ultimately have "0 \<le> dmul (predicted_probability f) (dsub 1 (uncertainty f))"
    "dmul (predicted_probability f) (dsub 1 (uncertainty f)) \<le> 10"
    using ctx_nonneg ctx_upper[of "predicted_probability f * dsub 1 (uncertainty f)"] by (auto simp: dmul_def)
  from quantize_small[OF this] show ?thesis by (simp add: confidence_of_def)
qed

text \<open>A buy decision passed every gate in front of it.\<close>

lemma evaluate_buy:
  assumes "evaluate pol c = Inr d" "d_state d = BUY_CANDIDATE"
  obtains r where "data_quality c = py ''GOOD''" "tradeable c" "\<not> event_risk c" "holding_quantity c \<le> 0"
    "uncertainty (ctx_forecast c) \<le> maximum_forecast_uncertainty pol"
    "0 < predicted_return (ctx_forecast c)" "55 / 100 \<le> predicted_probability (ctx_forecast c)"
    "assess_new_position pol (ctx_portfolio c) (ctx_industry c) (ADec (market_price c))
       (ADec (ctx_invalidation c)) (ADec (liquidity_amount c)) (market_regime c) = Inr r"
    "allowed r" "buy_decision c r = Inr d"
proof -
  have no: "decision_of c s rs \<noteq> Inr d" if "s \<noteq> BUY_CANDIDATE" for s rs
    using decision_of_Inr[of c s rs d] assms(2) that by auto
  have held: "held_position_decision c \<noteq> Inr d" by (simp add: held_position_decision_def no)
  have g: "data_quality c = py ''GOOD''" "tradeable c" "\<not> event_risk c"
    "uncertainty (ctx_forecast c) \<le> maximum_forecast_uncertainty pol" "holding_quantity c \<le> 0"
    "0 < predicted_return (ctx_forecast c)" "55 / 100 \<le> predicted_probability (ctx_forecast c)"
    using assms(1) no held by (auto simp: evaluate_def not_le not_less split: if_splits)
  have "evaluate pol c = bindR (assess_new_position pol (ctx_portfolio c) (ctx_industry c) (ADec (market_price c))
       (ADec (ctx_invalidation c)) (ADec (liquidity_amount c)) (market_regime c))
      (\<lambda>r. if \<not> allowed r then decision_of c BLOCKED (as_reasons r) else buy_decision c r)"
    unfolding evaluate_def using g by (simp add: not_le not_less)
  then have "bindR (assess_new_position pol (ctx_portfolio c) (ctx_industry c) (ADec (market_price c))
       (ADec (ctx_invalidation c)) (ADec (liquidity_amount c)) (market_regime c))
      (\<lambda>r. if \<not> allowed r then decision_of c BLOCKED (as_reasons r) else buy_decision c r) = Inr d" using assms(1) by simp
  then obtain r where r: "assess_new_position pol (ctx_portfolio c) (ctx_industry c) (ADec (market_price c))
       (ADec (ctx_invalidation c)) (ADec (liquidity_amount c)) (market_regime c) = Inr r"
    "(if \<not> allowed r then decision_of c BLOCKED (as_reasons r) else buy_decision c r) = Inr d"
    unfolding bindR_Inr_iff by blast
  then have "allowed r" "buy_decision c r = Inr d" using no by (auto split: if_splits)
  show thesis by (rule that[OF g(1-3) g(5) g(4) g(6,7) r(1) \<open>allowed r\<close> \<open>buy_decision c r = Inr d\<close>])
qed

lemma buy_decision_Inr:
  assumes "buy_decision c r = Inr d"
  shows "d_state d = BUY_CANDIDATE \<and> d_quantity d = suggested_quantity r \<and> manual_execution_required d
    \<and> d_invalidation d = Some (ctx_invalidation c)
    \<and> (\<exists>mx. maximum_acceptable_price d = Some mx \<and> quantize 4 ROUND_HALF_UP (dmul (market_price c) (101 / 100)) = Inr mx)"
  using assms by (auto simp: buy_decision_def bindR_Inr_iff)

end
