(* ===== verification/Advisory_Store.thy ===== *)
theory Advisory_Store
  imports Advisory_Contracts Keyed_Log
begin

text \<open>
  \<^verbatim>\<open>OutcomeRecord\<close> of \<^verbatim>\<open>advisory/contracts.py\<close> and \<^verbatim>\<open>advisory/store.py\<close>: forecasts are appended
  once, and \<open>mature\<close> adds an outcome for each forecast whose maturity date has come.  An exception in
  the middle of \<open>mature\<close> keeps the outcomes added before it, so the operation returns the state with its
  result.
\<close>

section \<open>Outcomes\<close>

record outcome =
  o_forecast_id :: pystr
  o_symbol :: pystr
  o_horizon :: int
  o_maturity :: date
  matured_at :: utc
  realized_price :: rat
  realized_return :: rat

definition make_outcome :: "pystr \<Rightarrow> pystr \<Rightarrow> int \<Rightarrow> date \<Rightarrow> datetime \<Rightarrow> num_arg \<Rightarrow> num_arg \<Rightarrow> outcome result" where
  "make_outcome i s h m t p r =
     bindR (required_text i ''forecast_id'') (\<lambda>i'.
     bindR (normalize_symbol s) (\<lambda>s'.
     if h \<notin> set allowed_horizons then Inl (ValueError ''horizon_days must be one of 5, 10, or 20'')
     else bindR (as_utc t ''matured_at'') (\<lambda>u.
     bindR (bindR (as_decimal p ''realized_price'') q_price) (\<lambda>x.
     if x \<le> 0 then Inl (ValueError ''realized_price must be positive'')
     else bindR (bindR (as_decimal r ''realized_return'') q_return) (\<lambda>y.
     Inr \<lparr>o_forecast_id = i', o_symbol = s', o_horizon = h, o_maturity = m, matured_at = u, realized_price = x,
          realized_return = y\<rparr>)))))"

section \<open>The store\<close>

record prediction_store =
  predictions :: "forecast list"
  predictions_by_id :: "pystr \<rightharpoonup> forecast"
  outcomes :: "outcome list"
  outcome_ids :: "pystr list"

definition new_prediction_store :: prediction_store where
  "new_prediction_store = \<lparr>predictions = [], predictions_by_id = Map.empty, outcomes = [], outcome_ids = []\<rparr>"

definition append_prediction :: "prediction_store \<Rightarrow> forecast \<Rightarrow> (prediction_store \<times> bool) result" where
  "append_prediction st p = (case predictions_by_id st (forecast_id p) of
       Some e \<Rightarrow> if e = p then Inr (st, False) else Inl (ValueError ''forecast_id already exists with different details'')
     | None \<Rightarrow> Inr (st\<lparr>predictions := predictions st @ [p],
                      predictions_by_id := (predictions_by_id st)(forecast_id p \<mapsto> p)\<rparr>, True))"

definition realized_return_of :: "rat \<Rightarrow> rat \<Rightarrow> rat result" where
  "realized_return_of p ref = bindR (ddiv p ref) (\<lambda>q. quantize 6 ROUND_HALF_UP (dsub q 1))"

definition mature_one :: "(pystr \<Rightarrow> date \<Rightarrow> num_arg result) \<Rightarrow> date \<Rightarrow> forecast \<Rightarrow> outcome result" where
  "mature_one lookup d p =
     bindR (bindR (lookup (f_symbol p) (maturity_date p)) bare_decimal) (\<lambda>x. case x of
         Fin v \<Rightarrow> if v \<le> 0 then Inl (ValueError ''price_lookup must return a positive finite price'')
           else bindR (realized_return_of v (reference_price p)) (\<lambda>r.
             make_outcome (forecast_id p) (f_symbol p) (horizon_days p) (maturity_date p)
               (utc_datetime (utc_midnight d)) (ADec v) (ADec r))
       | _ \<Rightarrow> Inl (ValueError ''price_lookup must return a positive finite price''))"

fun mature_loop :: "(pystr \<Rightarrow> date \<Rightarrow> num_arg result) \<Rightarrow> date \<Rightarrow> forecast list \<Rightarrow> prediction_store \<Rightarrow> prediction_store \<times> outcome list result" where
  "mature_loop lookup d [] st = (st, Inr [])"
| "mature_loop lookup d (p # ps) st =
     (if forecast_id p \<in> set (outcome_ids st) \<or> d < maturity_date p then mature_loop lookup d ps st
      else case mature_one lookup d p of
          Inl e \<Rightarrow> (st, Inl e)
        | Inr oc \<Rightarrow> (case mature_loop lookup d ps
              (st\<lparr>outcomes := outcomes st @ [oc], outcome_ids := forecast_id p # outcome_ids st\<rparr>) of
            (st', Inl e) \<Rightarrow> (st', Inl e)
          | (st', Inr ocs) \<Rightarrow> (st', Inr (oc # ocs))))"

definition mature :: "(pystr \<Rightarrow> date \<Rightarrow> num_arg result) \<Rightarrow> date \<Rightarrow> prediction_store \<Rightarrow> prediction_store \<times> outcome list result" where
  "mature lookup d st =
     mature_loop lookup d (sort_key (\<lambda>p. (maturity_date p, f_symbol p, horizon_days p)) (predictions st)) st"

section \<open>The invariant\<close>

definition pstore_inv :: "prediction_store \<Rightarrow> bool" where
  "pstore_inv st \<longleftrightarrow> distinct (map forecast_id (predictions st))
     \<and> (\<forall>i p. predictions_by_id st i = Some p \<longleftrightarrow> p \<in> set (predictions st) \<and> forecast_id p = i)
     \<and> (\<forall>p \<in> set (predictions st). py_strip (forecast_id p) = forecast_id p)
     \<and> outcome_ids st = rev (map o_forecast_id (outcomes st)) \<and> distinct (outcome_ids st)
     \<and> (\<forall>oc \<in> set (outcomes st). \<exists>p \<in> set (predictions st). forecast_id p = o_forecast_id oc
           \<and> maturity_date p = o_maturity oc \<and> o_maturity oc \<le> utc_date (matured_at oc) \<and> 0 < realized_price oc)"

lemma pstore_lookup:
  "pstore_inv st \<Longrightarrow> predictions_by_id st i = Some p \<longleftrightarrow> p \<in> set (predictions st) \<and> forecast_id p = i"
  by (simp add: pstore_inv_def)

lemma pstore_fresh:
  assumes "pstore_inv st" "predictions_by_id st i = None"
  shows "i \<notin> forecast_id ` set (predictions st)"
proof
  assume "i \<in> forecast_id ` set (predictions st)"
  then obtain p where "p \<in> set (predictions st)" "forecast_id p = i" by blast
  then have "predictions_by_id st i = Some p" by (simp add: pstore_lookup[OF assms(1)])
  with assms(2) show False by simp
qed

definition prediction_add :: "prediction_store \<Rightarrow> forecast \<Rightarrow> prediction_store result" where
  "prediction_add st p = bindR (append_prediction st p) (\<lambda>(st', _). Inr st')"

definition stripped_id :: "forecast \<Rightarrow> bool" where
  "stripped_id p \<longleftrightarrow> py_strip (forecast_id p) = forecast_id p"

lemma make_forecast_stripped: "make_forecast a = Inr f \<Longrightarrow> stripped_id f"
  using forecast_times_Inr[OF make_forecast_Inr(1)] by (simp add: stripped_id_def)

lemma prediction_add_cases:
  assumes "pstore_inv st" "prediction_add st p = Inr st'"
  shows "(p \<in> set (predictions st) \<and> st' = st) \<or> (forecast_id p \<notin> forecast_id ` set (predictions st)
    \<and> st' = st\<lparr>predictions := predictions st @ [p], predictions_by_id := (predictions_by_id st)(forecast_id p \<mapsto> p)\<rparr>)"
proof (cases "predictions_by_id st (forecast_id p)")
  case None
  then show ?thesis using assms pstore_fresh[OF assms(1) None] by (simp add: prediction_add_def append_prediction_def)
next
  case (Some e)
  then have "e \<in> set (predictions st)" using pstore_lookup[OF assms(1)] by blast
  then show ?thesis using assms(2) Some by (auto simp: prediction_add_def append_prediction_def split: if_splits)
qed

lemma prediction_add_inv:
  assumes "pstore_inv st" "stripped_id p" "prediction_add st p = Inr st'"
  shows "pstore_inv st'"
  using prediction_add_cases[OF assms(1,3)]
proof (elim disjE conjE)
  assume new: "forecast_id p \<notin> forecast_id ` set (predictions st)"
    and st': "st' = st\<lparr>predictions := predictions st @ [p], predictions_by_id := (predictions_by_id st)(forecast_id p \<mapsto> p)\<rparr>"
  have look: "\<forall>i q. predictions_by_id st' i = Some q \<longleftrightarrow> q \<in> set (predictions st') \<and> forecast_id q = i"
    using new pstore_lookup[OF assms(1)] by (auto simp: st' image_iff)
  have old: "distinct (map forecast_id (predictions st))" "\<forall>p \<in> set (predictions st). py_strip (forecast_id p) = forecast_id p"
    "outcome_ids st = rev (map o_forecast_id (outcomes st))" "distinct (outcome_ids st)"
    "\<forall>oc \<in> set (outcomes st). \<exists>p \<in> set (predictions st). forecast_id p = o_forecast_id oc
       \<and> maturity_date p = o_maturity oc \<and> o_maturity oc \<le> utc_date (matured_at oc) \<and> 0 < realized_price oc"
    using assms(1) unfolding pstore_inv_def by blast+
  show ?thesis unfolding pstore_inv_def
  proof (intro conjI look)
    show "distinct (map forecast_id (predictions st'))" using old(1) new by (simp add: st')
    show "\<forall>p \<in> set (predictions st'). py_strip (forecast_id p) = forecast_id p" using old(2) assms(2) by (simp add: st' stripped_id_def)
    show "outcome_ids st' = rev (map o_forecast_id (outcomes st'))" "distinct (outcome_ids st')" using old(3,4) by (simp_all add: st')
    show "\<forall>oc \<in> set (outcomes st'). \<exists>p \<in> set (predictions st'). forecast_id p = o_forecast_id oc
       \<and> maturity_date p = o_maturity oc \<and> o_maturity oc \<le> utc_date (matured_at oc) \<and> 0 < realized_price oc"
      using old(5) by (simp add: st')
  qed
qed (use assms in simp)

interpretation forecasts: keyed_log pstore_inv predictions prediction_add forecast_id stripped_id
proof (unfold_locales, goal_cases)
  case (1 st)
  then show ?case unfolding pstore_inv_def by blast
next
  case (2 st p st')
  then show ?case by (rule prediction_add_inv)
next
  case (3 st p st')
  then show ?case using prediction_add_cases[OF 3(1,3)] by auto
qed

section \<open>Maturing\<close>

lemma make_outcome_Inr:
  assumes "make_outcome i s h m t p r = Inr oc"
  shows "o_forecast_id oc = py_strip i \<and> o_maturity oc = m \<and> matured_at oc = instant t \<and> 0 < realized_price oc"
  using assms by (auto simp: make_outcome_def required_text_def bindR_Inr_iff as_utc_def split: if_splits)

lemma mature_one_Inr:
  assumes "mature_one lookup d p = Inr oc" "stripped_id p"
  shows "o_forecast_id oc = forecast_id p \<and> o_maturity oc = maturity_date p \<and> matured_at oc = utc_midnight d \<and> 0 < realized_price oc"
proof -
  from assms(1) obtain x where x: "bindR (lookup (f_symbol p) (maturity_date p)) bare_decimal = Inr x"
    by (auto simp: mature_one_def bindR_Inr_iff)
  then obtain v r where "make_outcome (forecast_id p) (f_symbol p) (horizon_days p) (maturity_date p)
      (utc_datetime (utc_midnight d)) (ADec v) (ADec r) = Inr oc"
    using assms(1) unfolding mature_one_def by (cases x) (auto simp: bindR_Inr_iff[of "realized_return_of _ _"] split: if_splits)
  from make_outcome_Inr[OF this] show ?thesis using assms(2) by (simp add: stripped_id_def)
qed

lemma mature_loop_inv:
  assumes "mature_loop lookup d ps st = (st', r)" "pstore_inv st" "set ps \<subseteq> set (predictions st)"
  shows "pstore_inv st' \<and> predictions st' = predictions st \<and> (\<exists>new. outcomes st' = outcomes st @ new \<and> (\<forall>ocs. r = Inr ocs \<longrightarrow> new = ocs))
    \<and> ((\<exists>ocs. r = Inr ocs) \<longrightarrow> (\<forall>p \<in> set ps. maturity_date p \<le> d \<longrightarrow> forecast_id p \<in> set (outcome_ids st')))
    \<and> set (outcome_ids st) \<subseteq> set (outcome_ids st')"
  using assms
proof (induction lookup d ps st arbitrary: st' r rule: mature_loop.induct)
  case (1 lookup d st)
  then show ?case by auto
next
  case (2 lookup d p ps st)
  show ?case
  proof (cases "forecast_id p \<in> set (outcome_ids st) \<or> d < maturity_date p")
    case True
    then have run: "mature_loop lookup d ps st = (st', r)" using "2.prems"(1) by simp
    have IH: "pstore_inv st' \<and> predictions st' = predictions st \<and> (\<exists>new. outcomes st' = outcomes st @ new \<and> (\<forall>ocs. r = Inr ocs \<longrightarrow> new = ocs))
    \<and> ((\<exists>ocs. r = Inr ocs) \<longrightarrow> (\<forall>p \<in> set ps. maturity_date p \<le> d \<longrightarrow> forecast_id p \<in> set (outcome_ids st')))
    \<and> set (outcome_ids st) \<subseteq> set (outcome_ids st')"
      using "2.IH"(1)[OF True run] "2.prems" by simp
    then show ?thesis using True by auto
  next
    case False
    show ?thesis
    proof (cases "mature_one lookup d p")
      case (Inl e)
      then show ?thesis using "2.prems" False by auto
    next
      case (Inr oc)
      define st1 where "st1 = st\<lparr>outcomes := outcomes st @ [oc], outcome_ids := forecast_id p # outcome_ids st\<rparr>"
      have mem: "p \<in> set (predictions st)" using "2.prems"(3) by simp
      then have "stripped_id p" using "2.prems"(2) unfolding pstore_inv_def stripped_id_def by blast
      note one = mature_one_Inr[OF Inr this]
      have old: "distinct (map forecast_id (predictions st))" "\<forall>p \<in> set (predictions st). py_strip (forecast_id p) = forecast_id p"
        "outcome_ids st = rev (map o_forecast_id (outcomes st))" "distinct (outcome_ids st)"
        "\<forall>oc \<in> set (outcomes st). \<exists>p \<in> set (predictions st). forecast_id p = o_forecast_id oc
           \<and> maturity_date p = o_maturity oc \<and> o_maturity oc \<le> utc_date (matured_at oc) \<and> 0 < realized_price oc"
        using "2.prems"(2) unfolding pstore_inv_def by blast+
      have inv1: "pstore_inv st1"
        unfolding pstore_inv_def
      proof (intro conjI)
        show "\<forall>i q. predictions_by_id st1 i = Some q \<longleftrightarrow> q \<in> set (predictions st1) \<and> forecast_id q = i"
          using pstore_lookup[OF "2.prems"(2)] by (simp add: st1_def)
        show "distinct (outcome_ids st1)" using old(4) False by (simp add: st1_def)
        have "o_maturity oc \<le> utc_date (matured_at oc)" using one False by simp
        then have "\<exists>p \<in> set (predictions st1). forecast_id p = o_forecast_id oc
            \<and> maturity_date p = o_maturity oc \<and> o_maturity oc \<le> utc_date (matured_at oc) \<and> 0 < realized_price oc"
          using mem one by (auto simp: st1_def)
        then show "\<forall>oc \<in> set (outcomes st1). \<exists>p \<in> set (predictions st1). forecast_id p = o_forecast_id oc
            \<and> maturity_date p = o_maturity oc \<and> o_maturity oc \<le> utc_date (matured_at oc) \<and> 0 < realized_price oc"
          using old(5) by (simp add: st1_def)
      qed (use old one in \<open>simp_all add: st1_def\<close>)
      obtain st2 r2 where run: "mature_loop lookup d ps st1 = (st2, r2)" by (cases "mature_loop lookup d ps st1")
      have sub: "set ps \<subseteq> set (predictions st1)" using "2.prems"(3) by (simp add: st1_def)
      note IH = "2.IH"(2)[OF False Inr run[unfolded st1_def] inv1[unfolded st1_def] sub[unfolded st1_def]]
      have res: "st' = st2" "(\<exists>e. r2 = Inl e \<and> r = Inl e) \<or> (\<exists>ocs. r2 = Inr ocs \<and> r = Inr (oc # ocs))"
        using "2.prems"(1) False Inr run unfolding st1_def by (auto split: sum.splits)
      have id: "forecast_id p \<in> set (outcome_ids st2)" "set (outcome_ids st) \<subseteq> set (outcome_ids st2)" using IH by auto
      have new: "\<exists>new. outcomes st2 = (outcomes st @ [oc]) @ new \<and> (\<forall>ocs. r2 = Inr ocs \<longrightarrow> new = ocs)" using IH by simp
      show ?thesis unfolding res(1)
      proof (intro conjI)
        show "\<exists>new. outcomes st2 = outcomes st @ new \<and> (\<forall>ocs. r = Inr ocs \<longrightarrow> new = ocs)"
          using new res(2) by auto
        show "(\<exists>ocs. r = Inr ocs) \<longrightarrow> (\<forall>p\<in>set (p # ps). maturity_date p \<le> d \<longrightarrow> forecast_id p \<in> set (outcome_ids st2))"
          using IH res(2) id(1) by auto
      qed (use IH id in simp_all)
    qed
  qed
qed

end
