(* ===== verification/Advisory_Properties.thy ===== *)
theory Advisory_Properties
  imports Advisory_Engine Advisory_Store
begin

text \<open>
  The properties of the advisory core: forecasts, the store that matures them, the portfolio gates and the
  decision engine, with the example they are evaluated at.
\<close>

section \<open>An example\<close>

definition demo_forecast_args :: forecast_args where
  "demo_forecast_args = \<lparr>a_id = py ''f-1'', a_symbol = py ''600000'',
     a_generated_at = utc_datetime (utc_midnight 739000), a_data_cutoff = utc_datetime (utc_midnight 739000),
     a_reference_price = ADec 10, a_model_version = py ''m'', a_data_version = py ''d'', a_feature_version = py ''v'',
     a_horizon = 5, a_maturity = 739007, a_return = ADec (2 / 100), a_probability = ADec (6 / 10), a_rank = 1,
     a_uncertainty = ADec (2 / 10), a_state = State WATCH, a_report_id = [], a_data_mode = py ''paper'', a_benchmark = [],
     a_minimum_edge = ADec 0, a_calibration = [], a_lower = None, a_upper = None,
     a_interval_status = py ''UNCALIBRATED'', a_artifact = []\<rparr>"

definition demo_portfolio :: portfolio where
  "demo_portfolio = \<lparr>equity = 1000000, pf_cash = 639901, drawdown = 0,
     pf_positions = [\<lparr>rp_symbol = py ''000001'', market_value = 360099, rp_industry = py ''Y''\<rparr>]\<rparr>"

definition demo_context :: advisory_context where
  "demo_context = (case make_advisory_context (projr (make_forecast demo_forecast_args)) demo_portfolio (py ''good'') True
     (py ''cautious'') (ADec 10) (ADec 9) (py ''X'') (ADec 20000000) False 0 0 of Inr c \<Rightarrow> c)"

definition demo_forecast :: forecast where
  "demo_forecast = ctx_forecast demo_context"

lemma demo_made: "make_forecast demo_forecast_args = Inr demo_forecast" by code_simp
lemma demo_policy: "check_policy conservative = Inr conservative" by code_simp


definition demo_lookup :: "pystr \<Rightarrow> date \<Rightarrow> num_arg result" where "demo_lookup s d = Inr (ADec 11)"

section \<open>Forecasts\<close>




section \<open>The store\<close>

inductive pstore_step :: "prediction_store \<Rightarrow> prediction_store \<Rightarrow> bool" where
  predict: "make_forecast a = Inr p \<Longrightarrow> append_prediction st p = Inr (st', b) \<Longrightarrow> pstore_step st st'"
| matured: "mature lookup d st = (st', r) \<Longrightarrow> pstore_step st st'"

lemma mature_inv:
  assumes "mature lookup d st = (st', r)" "pstore_inv st"
  shows "pstore_inv st' \<and> predictions st' = predictions st \<and> (\<exists>new. outcomes st' = outcomes st @ new \<and> (\<forall>ocs. r = Inr ocs \<longrightarrow> new = ocs))
    \<and> ((\<exists>ocs. r = Inr ocs) \<longrightarrow> (\<forall>p \<in> set (predictions st). maturity_date p \<le> d \<longrightarrow> forecast_id p \<in> set (outcome_ids st')))"
  using mature_loop_inv[OF assms(1)[unfolded mature_def] assms(2)] by simp

lemma pstore_step_inv: "pstore_step st st' \<Longrightarrow> pstore_inv st \<Longrightarrow> pstore_inv st'"
proof (induction rule: pstore_step.induct)
  case (predict a p st st' b)
  then have "prediction_add st p = Inr st'" by (simp add: prediction_add_def)
  with predict show ?case using prediction_add_inv make_forecast_stripped by blast
next
  case (matured lookup d st st' r)
  then show ?case using mature_inv by blast
qed

lemma pstore_inv_new: "pstore_inv new_prediction_store"
  by (simp add: pstore_inv_def new_prediction_store_def)

lemma pstore_reachable_inv: "pstore_step\<^sup>*\<^sup>* new_prediction_store st \<Longrightarrow> pstore_inv st"
  by (induction rule: rtranclp_induct) (auto simp: pstore_inv_new intro: pstore_step_inv)

text \<open>C10: After any sequence of appended forecasts and maturings, also of ones that raised midway, a forecast has at most
  one outcome, an outcome belongs to a recorded forecast and its maturity date has come.  A maturing keeps the
  forecasts and the earlier outcomes, returns exactly the outcomes it appended, and when it returns every
  forecast due at that date has its outcome.\<close>

theorem maturing_exactly_once:
  assumes "pstore_step\<^sup>*\<^sup>* new_prediction_store st" "mature lookup d st = (st', r)"
  shows "distinct (map o_forecast_id (outcomes st')) \<and> predictions st' = predictions st
    \<and> (\<forall>oc \<in> set (outcomes st'). \<exists>p \<in> set (predictions st). forecast_id p = o_forecast_id oc
         \<and> maturity_date p = o_maturity oc \<and> o_maturity oc \<le> utc_date (matured_at oc) \<and> 0 < realized_price oc)
    \<and> (\<exists>new. outcomes st' = outcomes st @ new \<and> (\<forall>ocs. r = Inr ocs \<longrightarrow> new = ocs))
    \<and> (returns r \<longrightarrow> (\<forall>p \<in> set (predictions st). maturity_date p \<le> d \<longrightarrow> forecast_id p \<in> o_forecast_id ` set (outcomes st')))"
proof -
  have inv: "pstore_inv st" by (rule pstore_reachable_inv[OF assms(1)])
  note m = mature_inv[OF assms(2) inv]
  have ids: "outcome_ids st' = rev (map o_forecast_id (outcomes st'))" "distinct (outcome_ids st')"
    "\<forall>oc \<in> set (outcomes st'). \<exists>p \<in> set (predictions st'). forecast_id p = o_forecast_id oc
         \<and> maturity_date p = o_maturity oc \<and> o_maturity oc \<le> utc_date (matured_at oc) \<and> 0 < realized_price oc"
    using m unfolding pstore_inv_def by blast+
  have set: "set (outcome_ids st') = o_forecast_id ` set (outcomes st')" by (simp add: ids(1))
  show ?thesis
  proof (intro conjI)
    show "distinct (map o_forecast_id (outcomes st'))" using ids(1,2) by simp
    show "\<forall>oc \<in> set (outcomes st'). \<exists>p \<in> set (predictions st). forecast_id p = o_forecast_id oc
         \<and> maturity_date p = o_maturity oc \<and> o_maturity oc \<le> utc_date (matured_at oc) \<and> 0 < realized_price oc"
      using ids(3) m by simp
    show "returns r \<longrightarrow> (\<forall>p \<in> set (predictions st). maturity_date p \<le> d \<longrightarrow> forecast_id p \<in> o_forecast_id ` set (outcomes st'))"
      using m unfolding set returns_iff by blast
  qed (use m in blast)+
qed

definition demo_pstore :: prediction_store where
  "demo_pstore = fst (projr (append_prediction new_prediction_store demo_forecast))"

theorem maturing_exactly_once_witness:
  "(case mature demo_lookup 739007 demo_pstore of (st', r) \<Rightarrow> returns r \<and> map o_forecast_id (outcomes st') = [py ''f-1'']
      \<and> distinct (map o_forecast_id (outcomes st')))"
proof -
  have add: "append_prediction new_prediction_store demo_forecast = Inr (demo_pstore, True)"
    by (simp add: append_prediction_def demo_pstore_def new_prediction_store_def)
  then have "pstore_step new_prediction_store demo_pstore" by (rule pstore_step.predict[OF demo_made])
  then have reach: "pstore_step\<^sup>*\<^sup>* new_prediction_store demo_pstore" by (rule r_into_rtranclp)
  obtain st' r where run: "mature demo_lookup 739007 demo_pstore = (st', r)" by (cases "mature demo_lookup 739007 demo_pstore")
  have v: "(case mature demo_lookup 739007 demo_pstore of (st', r) \<Rightarrow> returns r \<and> map o_forecast_id (outcomes st') = [py ''f-1''])"
    by code_simp
  show ?thesis using maturing_exactly_once[OF reach run] v run by simp
qed

section \<open>The portfolio gates\<close>

definition in_cents :: "portfolio \<Rightarrow> bool" where
  "in_cents pf \<longleftrightarrow> (\<forall>p \<in> set (pf_positions pf). 0 \<le> market_value p \<and> (\<exists>c::int. market_value p = of_int c / 100))
     \<and> sum_list (map market_value (pf_positions pf)) < 10 ^ 26"

definition worth :: "portfolio \<Rightarrow> (risk_position \<Rightarrow> bool) \<Rightarrow> rat" where
  "worth pf P = sum_list (map market_value (filter P (pf_positions pf)))"

lemma filtered_cents:
  assumes "in_cents pf"
  shows "\<forall>v \<in> set (map market_value (filter P (pf_positions pf))). 0 \<le> v \<and> (\<exists>c::int. v = of_int c / 100)"
    "sum_list (map market_value (filter P (pf_positions pf))) < 10 ^ 26"
proof -
  show "\<forall>v \<in> set (map market_value (filter P (pf_positions pf))). 0 \<le> v \<and> (\<exists>c::int. v = of_int c / 100)"
    using assms by (auto simp: in_cents_def)
  have "sum_list (map market_value (filter P xs)) \<le> sum_list (map market_value xs)"
    if "\<forall>p \<in> set xs. 0 \<le> market_value p" for xs using that by (induction xs) auto
  from this[of "pf_positions pf"] show "sum_list (map market_value (filter P (pf_positions pf))) < 10 ^ 26"
    using assms unfolding in_cents_def by auto
qed

lemma cap_range:
  assumes "gross_cap_for pol r = Inr cap" "policy_ok pol"
  shows "0 \<le> cap \<and> cap \<le> 1"
proof -
  have "\<forall>x \<in> set (unit_fields pol). 0 \<le> x \<and> x \<le> 1" using assms(2) by (simp add: policy_ok_def unit_ok_def)
  then show ?thesis using assms(1) by (auto simp: gross_cap_for_def unit_fields_def Let_def split: if_splits)
qed

lemma policy_units:
  assumes "policy_ok pol"
  shows "initial_position_cap pol \<le> 1" "industry_cap pol \<le> 1" "0 \<le> minimum_cash_reserve pol"
    "0 \<le> planned_risk_per_position pol" "planned_risk_per_position pol \<le> 1" "0 < policy_lot_size pol"
  using assms by (auto simp: policy_ok_def unit_fields_def unit_ok_def)

text \<open>C7: A position the gates allow is a positive number of whole lots, worth at most the initial and the single-name cap
  of the equity, and loses at most the planned risk when it falls to its invalidation price (up to the rounding of the
  28-digit context); it is never allowed in the RISK_OFF regime, with a drawdown at the buy freeze, or with the
  maximum number of positions.\<close>

theorem risk_position_bounds:
  assumes "assess_new_position pol pf ind p ivp lq regime = Inr a" "allowed a" "check_policy pol0 = Inr pol" "portfolio_ok pf"
  shows "\<exists>pr iv. as_decimal p ''price'' = Inr pr \<and> as_decimal ivp ''invalidation_price'' = Inr iv \<and> 0 < iv \<and> iv < pr
    \<and> 0 < suggested_quantity a \<and> policy_lot_size pol dvd suggested_quantity a
    \<and> of_int (suggested_quantity a) * pr \<le> equity pf * initial_position_cap pol * (1 + 3 * ulp)
    \<and> of_int (suggested_quantity a) * pr \<le> equity pf * absolute_single_name_cap pol * (1 + 3 * ulp)
    \<and> of_int (suggested_quantity a) * (pr - iv) \<le> equity pf * (planned_risk_per_position pol + 1 / 10 ^ 26)
    \<and> regime_name regime \<noteq> py ''RISK_OFF'' \<and> drawdown pf < drawdown_new_buy_freeze pol
    \<and> int (length (pf_positions pf)) < maximum_positions pol"
proof -
  have pol: "policy_ok pol" using check_policy_ok[OF assms(3)] by simp
  note u = policy_units[OF pol]
  have e: "0 < equity pf" using assms(4) by (simp add: portfolio_ok_def)
  obtain pr iv cap w raw lots where a: "as_decimal p ''price'' = Inr pr" "as_decimal ivp ''invalidation_price'' = Inr iv"
    "0 < iv" "iv < pr" "gross_cap_for pol regime = Inr cap" "regime_name regime \<noteq> py ''RISK_OFF''"
    "drawdown pf < drawdown_new_buy_freeze pol" "int (length (pf_positions pf)) < maximum_positions pol"
    "capacity pol pf ind pr iv cap = Inr w" "0 < w" "ddiv (dmul (equity pf) w) pr = Inr raw"
    "dfloordiv raw (of_int (policy_lot_size pol)) = Inr lots" "suggested_quantity a = lots * policy_lot_size pol"
    "policy_lot_size pol \<le> suggested_quantity a"
    by (rule assess_allowed[OF assms(1,2)])
  have pr: "0 < pr" using a(3,4) by simp
  obtain ge ie where c: "w \<le> initial_position_cap pol" "w \<le> absolute_single_name_cap pol"
    "w \<le> ctx (planned_risk_per_position pol / ctx (1 - ctx (iv / pr)))" "ctx (1 - ctx (iv / pr)) \<noteq> 0"
    by (rule capacity_Inr[OF a(9) pr e])
  have v: "of_int (suggested_quantity a) * pr \<le> equity pf * w * (1 + 3 * ulp)"
    using sized_quantity[OF a(11,12) e a(10) pr u(6)] a(13) by simp
  have scale: "of_int (suggested_quantity a) * pr \<le> equity pf * x * (1 + 3 * ulp)" if "w \<le> x" for x
  proof -
    have "equity pf * w * (1 + 3 * ulp) \<le> equity pf * x * (1 + 3 * ulp)"
      using that e by (intro mult_right_mono mult_left_mono) auto
    with v show ?thesis by (rule order_trans)
  qed
  have "w \<le> 1" using c(1) u(1) by simp
  note loss = within_planned_risk[OF e u(4,5) a(3,4) a(10) this c(3,4) v]
  have "0 < suggested_quantity a" "policy_lot_size pol dvd suggested_quantity a" using a(13,14) u(6) by auto
  then show ?thesis using a scale[OF c(1)] scale[OF c(2)] loss by blast
qed

theorem risk_position_bounds_witness:
  "case assess_new_position conservative demo_portfolio (py ''X'') (ADec 10) (ADec 9) (ADec 20000000) (py ''CAUTIOUS'') of
     Inl _ \<Rightarrow> False
   | Inr a \<Rightarrow> suggested_quantity a = 4000 \<and> of_int (suggested_quantity a) * (10 - 9) \<le> equity demo_portfolio * (75 / 10000 + 1 / 10 ^ 26)"
proof -
  have "case assess_new_position conservative demo_portfolio (py ''X'') (ADec 10) (ADec 9) (ADec 20000000) (py ''CAUTIOUS'') of
     Inl _ \<Rightarrow> False | Inr a \<Rightarrow> allowed a \<and> suggested_quantity a = 4000" by code_simp
  then obtain a where a: "assess_new_position conservative demo_portfolio (py ''X'') (ADec 10) (ADec 9) (ADec 20000000) (py ''CAUTIOUS'') = Inr a"
    "allowed a" "suggested_quantity a = 4000" by (auto split: sum.splits)
  have "portfolio_ok demo_portfolio" by code_simp
  from risk_position_bounds[OF a(1,2) demo_policy this] a show ?thesis by (auto simp: conservative_def)
qed

text \<open>C8: With positions valued in cents, an allowed position keeps the gross cap of the regime and the cap of its industry
  up to one basis point of the equity, and the cash reserve of the policy.\<close>

theorem risk_caps_kept:
  assumes "assess_new_position pol pf ind p ivp lq regime = Inr a" "allowed a" "check_policy pol0 = Inr pol" "portfolio_ok pf"
    and "in_cents pf"
  shows "\<exists>pr cap. as_decimal p ''price'' = Inr pr \<and> gross_cap_for pol regime = Inr cap
    \<and> of_int (suggested_quantity a) * pr + worth pf (\<lambda>_. True) \<le> equity pf * (cap + 1 / 10 ^ 4 + 1 / 10 ^ 26)
    \<and> of_int (suggested_quantity a) * pr + worth pf (\<lambda>x. rp_industry x = ind) \<le> equity pf * (industry_cap pol + 1 / 10 ^ 4 + 1 / 10 ^ 26)
    \<and> of_int (suggested_quantity a) * pr + equity pf * minimum_cash_reserve pol \<le> pf_cash pf * (1 + 1 / 10 ^ 26)"
proof -
  have pol: "policy_ok pol" using check_policy_ok[OF assms(3)] by simp
  note u = policy_units[OF pol]
  have e: "0 < equity pf" "0 \<le> pf_cash pf" using assms(4) by (simp_all add: portfolio_ok_def)
  obtain pr iv cap w raw lots where a: "as_decimal p ''price'' = Inr pr" "0 < iv" "iv < pr" "gross_cap_for pol regime = Inr cap"
    "capacity pol pf ind pr iv cap = Inr w" "0 < w" "ddiv (dmul (equity pf) w) pr = Inr raw"
    "dfloordiv raw (of_int (policy_lot_size pol)) = Inr lots" "suggested_quantity a = lots * policy_lot_size pol"
    by (rule assess_allowed[OF assms(1,2)])
  have pr: "0 < pr" using a(2,3) by simp
  obtain ge ie where c: "gross_exposure pf = Inr ge" "industry_exposure pf ind = Inr ie" "w \<le> ctx (cap - ge)"
    "w \<le> ctx (ctx (pf_cash pf / equity pf) - minimum_cash_reserve pol)" "w \<le> ctx (industry_cap pol - ie)"
    by (rule capacity_Inr[OF a(5) pr e(1)])
  have v: "of_int (suggested_quantity a) * pr \<le> equity pf * w * (1 + 3 * ulp)"
    using sized_quantity[OF a(7,8) e(1) a(6) pr u(6)] a(9) by simp
  have gross: "of_int (suggested_quantity a) * pr + worth pf (\<lambda>_. True) \<le> equity pf * (cap + 1 / 10 ^ 4 + 1 / 10 ^ 26)"
    unfolding worth_def
    by (rule within_exposure_cap[OF _ e(1) filtered_cents[OF assms(5)] _ a(6) c(3) v])
      (use c(1) cap_range[OF a(4) pol] in \<open>simp_all add: gross_exposure_def\<close>)
  have industry: "of_int (suggested_quantity a) * pr + worth pf (\<lambda>x. rp_industry x = ind) \<le> equity pf * (industry_cap pol + 1 / 10 ^ 4 + 1 / 10 ^ 26)"
    unfolding worth_def
    by (rule within_exposure_cap[OF c(2)[unfolded industry_exposure_def] e(1) filtered_cents[OF assms(5)] u(2) a(6) c(5) v])
  note cash = within_cash_reserve[OF e u(3) a(6) c(4) v]
  show ?thesis using a(1,4) gross industry cash by blast
qed

lemma demo_cents: "in_cents demo_portfolio"
proof -
  have "\<exists>c::int. (360099 :: rat) = of_int c / 100" by (intro exI[of _ 36009900]) simp
  then show ?thesis by (simp add: in_cents_def demo_portfolio_def)
qed

theorem risk_caps_kept_witness:
  "case assess_new_position conservative demo_portfolio (py ''X'') (ADec 10) (ADec 9) (ADec 20000000) (py ''CAUTIOUS'') of
     Inl _ \<Rightarrow> False
   | Inr a \<Rightarrow> suggested_quantity a = 4000
       \<and> of_int (suggested_quantity a) * 10 + worth demo_portfolio (\<lambda>_. True) \<le> equity demo_portfolio * (40 / 100 + 1 / 10 ^ 4 + 1 / 10 ^ 26)"
proof -
  have "case assess_new_position conservative demo_portfolio (py ''X'') (ADec 10) (ADec 9) (ADec 20000000) (py ''CAUTIOUS'') of
     Inl _ \<Rightarrow> False | Inr a \<Rightarrow> allowed a \<and> suggested_quantity a = 4000" by code_simp
  then obtain a where a: "assess_new_position conservative demo_portfolio (py ''X'') (ADec 10) (ADec 9) (ADec 20000000) (py ''CAUTIOUS'') = Inr a"
    "allowed a" "suggested_quantity a = 4000" by (auto split: sum.splits)
  have ok: "portfolio_ok demo_portfolio" by code_simp
  have cap: "gross_cap_for conservative (py ''CAUTIOUS'') = Inr (40 / 100)" by code_simp
  have "of_int (suggested_quantity a) * 10 + worth demo_portfolio (\<lambda>_. True) \<le> equity demo_portfolio * (40 / 100 + 1 / 10 ^ 4 + 1 / 10 ^ 26)"
    using risk_caps_kept[OF a(1,2) demo_policy ok demo_cents] unfolding cap as_decimal_ADec sum.inject by blast
  then show ?thesis by (simp only: a(1,3) sum.case refl simp_thms)
qed

text \<open>The basis point is real: because an exposure is rounded down before it is subtracted from the cap, a portfolio in
  the CAUTIOUS regime is allowed a position that takes its gross exposure above the cap of 40 percent.\<close>

theorem gross_cap_exceeded:
  "case assess_new_position conservative demo_portfolio (py ''X'') (ADec 10) (ADec 9) (ADec 20000000) (py ''CAUTIOUS'') of
     Inl _ \<Rightarrow> False
   | Inr a \<Rightarrow> allowed a \<and> equity demo_portfolio * cautious_gross_cap conservative
       < of_int (suggested_quantity a) * 10 + worth demo_portfolio (\<lambda>_. True)"
  by code_simp

section \<open>The engine\<close>

text \<open>C9: A decision suggests a quantity only as BUY_CANDIDATE, and then only when the data are good, the stock is tradeable
  and not held, no event risk is flagged, the forecast is certain enough, positive and probable enough, and the
  portfolio gates allowed exactly that quantity.  Every other decision suggests none, and every decision asks for
  manual execution.\<close>

theorem engine_buys_only_through_gates:
  assumes "evaluate pol c = Inr d"
  shows "manual_execution_required d \<and> d_state d \<notin> {ADD_CANDIDATE, EXIT}
    \<and> (d_state d \<noteq> BUY_CANDIDATE \<longrightarrow> d_quantity d = 0 \<and> d_target_weight d = 0)
    \<and> (d_state d = BUY_CANDIDATE \<longrightarrow> data_quality c = py ''GOOD'' \<and> tradeable c \<and> \<not> event_risk c \<and> holding_quantity c \<le> 0
        \<and> uncertainty (ctx_forecast c) \<le> maximum_forecast_uncertainty pol \<and> 0 < predicted_return (ctx_forecast c)
        \<and> 55 / 100 \<le> predicted_probability (ctx_forecast c)
        \<and> (\<exists>r. assess_new_position pol (ctx_portfolio c) (ctx_industry c) (ADec (market_price c)) (ADec (ctx_invalidation c))
               (ADec (liquidity_amount c)) (market_regime c) = Inr r \<and> allowed r \<and> d_quantity d = suggested_quantity r))"
proof (cases "d_state d = BUY_CANDIDATE")
  case True
  obtain r where g: "data_quality c = py ''GOOD''" "tradeable c" "\<not> event_risk c" "holding_quantity c \<le> 0"
    "uncertainty (ctx_forecast c) \<le> maximum_forecast_uncertainty pol"
    "0 < predicted_return (ctx_forecast c)" "55 / 100 \<le> predicted_probability (ctx_forecast c)"
    "assess_new_position pol (ctx_portfolio c) (ctx_industry c) (ADec (market_price c))
       (ADec (ctx_invalidation c)) (ADec (liquidity_amount c)) (market_regime c) = Inr r"
    "allowed r" "buy_decision c r = Inr d"
    by (rule evaluate_buy[OF assms True])
  have b: "d_quantity d = suggested_quantity r" "manual_execution_required d" using buy_decision_Inr[OF g(10)] by simp_all
  show ?thesis unfolding True using g b by blast
next
  case False
  have "\<exists>s rs. s \<notin> {ADD_CANDIDATE, EXIT} \<and> decision_of c s rs = Inr d"
    using assms False buy_decision_Inr[of c _ d]
    by (auto simp: evaluate_def held_position_decision_def bindR_Inr_iff split: if_splits)
  then show ?thesis using False decision_of_Inr by blast
qed

theorem engine_buys_only_through_gates_witness:
  "case evaluate conservative demo_context of Inl _ \<Rightarrow> False
   | Inr d \<Rightarrow> d_state d = BUY_CANDIDATE \<and> d_quantity d = 4000 \<and> manual_execution_required d \<and> data_quality demo_context = py ''GOOD''"
proof -
  have "case evaluate conservative demo_context of Inl _ \<Rightarrow> False | Inr d \<Rightarrow> d_state d = BUY_CANDIDATE \<and> d_quantity d = 4000" by code_simp
  then obtain d where d: "evaluate conservative demo_context = Inr d" "d_state d = BUY_CANDIDATE" "d_quantity d = 4000"
    by (auto split: sum.splits)
  from engine_buys_only_through_gates[OF d(1)] d show ?thesis by simp
qed

end
