(* ===== verification/Price_Plan.thy ===== *)
theory Price_Plan
  imports Symbols Py_Json
begin

text \<open>
  \<^verbatim>\<open>advisory/price_contracts.py\<close>: the frozen next-session price plan and the observations made of it, with their
  \<^verbatim>\<open>to_dict\<close> and \<^verbatim>\<open>from_dict\<close>.  The fields of the constructors are typed: enumeration members or texts,
  dates, times, optional numbers.
\<close>

section \<open>Enumerations\<close>

datatype plan_kind = DAILY_CANDIDATE | HOLDING
datatype guidance_level = RESEARCH_LEVEL | CONDITIONS_LEVEL
datatype guidance_state = RESEARCH_REFERENCE | CONDITIONS_MET | WAIT_FOR_PRICE | PRICE_TOO_HIGH | INVALIDATED | RISK_ALERT
  | NO_RELIABLE_GUIDANCE | T_PLUS_ONE_BLOCKED | REDUCE_WATCH | HOLD_WATCH

datatype 'a enum_arg = Member 'a | EnumText pystr

fun kind_value :: "plan_kind \<Rightarrow> pystr" where
  "kind_value DAILY_CANDIDATE = py ''DAILY_CANDIDATE''"
| "kind_value HOLDING = py ''HOLDING''"

fun level_value :: "guidance_level \<Rightarrow> pystr" where
  "level_value RESEARCH_LEVEL = py ''RESEARCH_REFERENCE''"
| "level_value CONDITIONS_LEVEL = py ''CONDITIONS_MET''"

fun state_value :: "guidance_state \<Rightarrow> pystr" where
  "state_value RESEARCH_REFERENCE = py ''RESEARCH_REFERENCE''"
| "state_value CONDITIONS_MET = py ''CONDITIONS_MET''"
| "state_value WAIT_FOR_PRICE = py ''WAIT_FOR_PRICE''"
| "state_value PRICE_TOO_HIGH = py ''PRICE_TOO_HIGH''"
| "state_value INVALIDATED = py ''INVALIDATED''"
| "state_value RISK_ALERT = py ''RISK_ALERT''"
| "state_value NO_RELIABLE_GUIDANCE = py ''NO_RELIABLE_GUIDANCE''"
| "state_value T_PLUS_ONE_BLOCKED = py ''T_PLUS_ONE_BLOCKED''"
| "state_value REDUCE_WATCH = py ''REDUCE_WATCH''"
| "state_value HOLD_WATCH = py ''HOLD_WATCH''"

definition plan_kinds :: "plan_kind list" where "plan_kinds = [DAILY_CANDIDATE, HOLDING]"
definition guidance_levels :: "guidance_level list" where "guidance_levels = [RESEARCH_LEVEL, CONDITIONS_LEVEL]"
definition guidance_states :: "guidance_state list" where
  "guidance_states = [RESEARCH_REFERENCE, CONDITIONS_MET, WAIT_FOR_PRICE, PRICE_TOO_HIGH, INVALIDATED, RISK_ALERT,
     NO_RELIABLE_GUIDANCE, T_PLUS_ONE_BLOCKED, REDUCE_WATCH, HOLD_WATCH]"

text \<open>\<^verbatim>\<open>Enum(value)\<close>: the member with the given value.\<close>

definition enum_of :: "('a \<Rightarrow> pystr) \<Rightarrow> 'a list \<Rightarrow> string \<Rightarrow> pystr \<Rightarrow> 'a result" where
  "enum_of val members msg t = (case find (\<lambda>m. val m = t) members of None \<Rightarrow> Inl (ValueError msg) | Some m \<Rightarrow> Inr m)"

definition enum_field :: "('a \<Rightarrow> pystr) \<Rightarrow> 'a list \<Rightarrow> string \<Rightarrow> 'a enum_arg \<Rightarrow> 'a result" where
  "enum_field val members msg a = (case a of Member m \<Rightarrow> Inr m | EnumText t \<Rightarrow> enum_of val members msg (py_upper t))"

section \<open>Plans\<close>

record plan_args =
  pa_id :: pystr
  pa_symbol :: pystr
  pa_kind :: "plan_kind enum_arg"
  pa_level :: "guidance_level enum_arg"
  pa_state :: "guidance_state enum_arg"
  pa_calculation :: date
  pa_valid_for :: date
  pa_entry_lower :: "num_arg option"
  pa_entry_upper :: "num_arg option"
  pa_maximum :: "num_arg option"
  pa_invalidation :: "num_arg option"
  pa_protection :: "num_arg option"
  pa_reduce_lower :: "num_arg option"
  pa_reduce_upper :: "num_arg option"
  pa_quantity :: int
  pa_cutoff :: datetime
  pa_model :: pystr
  pa_feature :: pystr
  pa_config :: pystr
  pa_data :: pystr
  pa_reasons :: "pystr list"
  pa_manual :: bool

record plan =
  plan_id :: pystr
  plan_symbol :: pystr
  plan_type :: plan_kind
  guidance :: guidance_level
  plan_state :: guidance_state
  calculation_date :: date
  valid_for :: date
  entry_lower :: "rat option"
  entry_upper :: "rat option"
  maximum_price :: "rat option"
  invalidation_price :: "rat option"
  protection_price :: "rat option"
  reduce_lower :: "rat option"
  reduce_upper :: "rat option"
  plan_quantity :: int
  cutoff_time :: utc
  plan_model :: pystr
  plan_feature :: pystr
  plan_config :: pystr
  plan_data :: pystr
  plan_reasons :: "pystr list"
  plan_manual :: bool

definition price_field :: "string \<Rightarrow> num_arg option \<Rightarrow> rat option result" where
  "price_field f a = (case a of None \<Rightarrow> Inr None
     | Some v \<Rightarrow> bindR (as_decimal v f) (\<lambda>x. bindR (quantize 2 ROUND_HALF_UP x) (\<lambda>y.
         if y \<le> 0 then Inl (ValueError (f @ '' must be positive'')) else Inr (Some y))))"

definition required :: "string \<Rightarrow> pystr \<Rightarrow> pystr result" where
  "required f s = (if py_strip s = [] then Inl (ValueError (f @ '' is required'')) else Inr (py_strip s))"

definition boundaries_ok :: "rat option \<Rightarrow> rat option \<Rightarrow> rat option \<Rightarrow> rat option \<Rightarrow> bool" where
  "boundaries_ok inval lo up mx = (case (inval, lo, up, mx) of
       (None, None, None, None) \<Rightarrow> True
     | (Some i, Some l, Some u, Some m) \<Rightarrow> i < l \<and> l \<le> u \<and> u \<le> m
     | _ \<Rightarrow> False)"

definition reduce_ok :: "rat option \<Rightarrow> rat option \<Rightarrow> bool" where
  "reduce_ok lo up = (case (lo, up) of (None, None) \<Rightarrow> True | (Some l, Some u) \<Rightarrow> l \<le> u | _ \<Rightarrow> False)"

definition inconsistent :: pyerror where "inconsistent = ValueError ''price boundaries are inconsistent''"
definition research_quantity :: pyerror where "research_quantity = ValueError ''research guidance quantity must be zero''"

definition plan_identity :: "plan_args \<Rightarrow> (pystr \<times> pystr \<times> plan_kind \<times> guidance_level \<times> guidance_state) result" where
  "plan_identity a =
     bindR (required ''plan_id'' (pa_id a)) (\<lambda>i.
     bindR (normalize_symbol (pa_symbol a)) (\<lambda>s.
     bindR (enum_field kind_value plan_kinds ''invalid plan_type'' (pa_kind a)) (\<lambda>k.
     bindR (enum_field level_value guidance_levels ''invalid guidance_level'' (pa_level a)) (\<lambda>l.
     bindR (enum_field state_value guidance_states ''invalid state'' (pa_state a)) (\<lambda>st.
     if pa_valid_for a \<le> pa_calculation a then Inl (ValueError ''valid_for must be after calculation_date'')
     else Inr (i, s, k, l, st))))))"

definition plan_prices :: "plan_args \<Rightarrow> (rat option \<times> rat option \<times> rat option \<times> rat option \<times> rat option \<times> rat option \<times> rat option) result" where
  "plan_prices a =
     bindR (price_field ''entry_lower'' (pa_entry_lower a)) (\<lambda>lo.
     bindR (price_field ''entry_upper'' (pa_entry_upper a)) (\<lambda>up.
     bindR (price_field ''maximum_acceptable_price'' (pa_maximum a)) (\<lambda>mx.
     bindR (price_field ''invalidation_price'' (pa_invalidation a)) (\<lambda>iv.
     bindR (price_field ''protection_price'' (pa_protection a)) (\<lambda>pr.
     bindR (price_field ''reduce_lower'' (pa_reduce_lower a)) (\<lambda>rl.
     bindR (price_field ''reduce_upper'' (pa_reduce_upper a)) (\<lambda>ru.
     if \<not> boundaries_ok iv lo up mx then Inl inconsistent
     else if \<not> reduce_ok rl ru then Inl inconsistent
     else Inr (lo, up, mx, iv, pr, rl, ru))))))))"

definition plan_versions :: "plan_args \<Rightarrow> (utc \<times> pystr \<times> pystr \<times> pystr \<times> pystr \<times> pystr list) result" where
  "plan_versions a =
     bindR (as_utc (pa_cutoff a) ''evidence_cutoff'') (\<lambda>c.
     bindR (required ''model_version'' (pa_model a)) (\<lambda>m.
     bindR (required ''feature_version'' (pa_feature a)) (\<lambda>f.
     bindR (required ''config_version'' (pa_config a)) (\<lambda>g.
     bindR (required ''data_version'' (pa_data a)) (\<lambda>d.
     if [] \<in> set (map py_strip (pa_reasons a)) then Inl (ValueError ''reason_codes cannot contain empty values'')
     else Inr (c, m, f, g, d, map py_strip (pa_reasons a)))))))"

definition make_plan :: "plan_args \<Rightarrow> plan result" where
  "make_plan a =
     bindR (plan_identity a) (\<lambda>(i, s, k, l, st).
     bindR (plan_prices a) (\<lambda>(lo, up, mx, iv, pr, rl, ru).
     if pa_quantity a < 0 then Inl (ValueError ''suggested_quantity must be a non-negative integer'')
     else if l = RESEARCH_LEVEL \<and> pa_quantity a \<noteq> 0 then Inl research_quantity
     else if \<not> pa_manual a then Inl (ValueError ''manual execution is required'')
     else bindR (plan_versions a) (\<lambda>(c, m, f, g, d, rs).
     Inr \<lparr>plan_id = i, plan_symbol = s, plan_type = k, guidance = l, plan_state = st, calculation_date = pa_calculation a,
          valid_for = pa_valid_for a, entry_lower = lo, entry_upper = up, maximum_price = mx, invalidation_price = iv,
          protection_price = pr, reduce_lower = rl, reduce_upper = ru, plan_quantity = pa_quantity a, cutoff_time = c,
          plan_model = m, plan_feature = f, plan_config = g, plan_data = d, plan_reasons = rs, plan_manual = True\<rparr>)))"

section \<open>The invariant of a plan\<close>

definition price_ok :: "rat option \<Rightarrow> bool" where
  "price_ok p \<longleftrightarrow> (\<forall>x. p = Some x \<longrightarrow> 0 < x \<and> on_grid 2 x)"

definition plan_ok :: "plan \<Rightarrow> bool" where
  "plan_ok p \<longleftrightarrow> named (plan_id p) \<and> six_digits (plan_symbol p) \<and> calculation_date p < valid_for p
     \<and> price_ok (entry_lower p) \<and> price_ok (entry_upper p) \<and> price_ok (maximum_price p) \<and> price_ok (invalidation_price p)
     \<and> price_ok (protection_price p) \<and> price_ok (reduce_lower p) \<and> price_ok (reduce_upper p)
     \<and> boundaries_ok (invalidation_price p) (entry_lower p) (entry_upper p) (maximum_price p)
     \<and> reduce_ok (reduce_lower p) (reduce_upper p)
     \<and> 0 \<le> plan_quantity p \<and> (guidance p = RESEARCH_LEVEL \<longrightarrow> plan_quantity p = 0)
     \<and> named (plan_model p) \<and> named (plan_feature p) \<and> named (plan_config p) \<and> named (plan_data p)
     \<and> (\<forall>r \<in> set (plan_reasons p). named r) \<and> plan_manual p"

lemma required_named: "required f s = Inr t \<Longrightarrow> named t"
  by (auto simp: required_def named_def split: if_splits)

lemma required_id: "named s \<Longrightarrow> required f s = Inr s"
  by (simp add: required_def named_def)

lemma named_stripped: "[] \<notin> set (map py_strip rs) \<Longrightarrow> \<forall>r \<in> set (map py_strip rs). named r"
  by (induction rs) (auto simp: named_def)

lemma price_field_ok: "price_field f a = Inr p \<Longrightarrow> price_ok p"
  by (auto simp: price_field_def price_ok_def bindR_Inr_iff not_le dest: quantize_grid split: option.splits if_splits)

lemma price_field_id: "price_ok p \<Longrightarrow> price_field f (map_option ADec p) = Inr p"
  by (cases p) (auto simp: price_field_def price_ok_def quantize_on_grid)

lemma plan_identity_Inr:
  assumes "plan_identity a = Inr (i, s, k, l, st)"
  shows "named i \<and> six_digits s \<and> pa_calculation a < pa_valid_for a"
  using assms by (auto simp: plan_identity_def bindR_Inr_iff required_named normalize_symbol_six split: if_splits)

lemma plan_prices_Inr:
  assumes "plan_prices a = Inr (lo, up, mx, iv, pr, rl, ru)"
  shows "price_ok lo \<and> price_ok up \<and> price_ok mx \<and> price_ok iv \<and> price_ok pr \<and> price_ok rl \<and> price_ok ru
    \<and> boundaries_ok iv lo up mx \<and> reduce_ok rl ru"
  using assms by (auto simp: plan_prices_def bindR_Inr_iff price_field_ok split: if_splits)

lemma plan_versions_Inr:
  assumes "plan_versions a = Inr (c, m, f, g, d, rs)"
  shows "named m \<and> named f \<and> named g \<and> named d \<and> (\<forall>r \<in> set rs. named r)"
proof -
  from assms have rs: "rs = map py_strip (pa_reasons a)" "[] \<notin> set rs" "named m" "named f" "named g" "named d"
    by (auto simp: plan_versions_def bindR_Inr_iff required_named split: if_splits)
  then show ?thesis using named_stripped[of "pa_reasons a"] by blast
qed

lemma make_plan_ok:
  assumes "make_plan a = Inr p"
  shows "plan_ok p"
proof -
  from assms obtain i s k l st lo up mx iv pr rl ru c m f g d rs where
    parts: "plan_identity a = Inr (i, s, k, l, st)" "plan_prices a = Inr (lo, up, mx, iv, pr, rl, ru)"
      "plan_versions a = Inr (c, m, f, g, d, rs)"
    and q: "\<not> pa_quantity a < 0" "\<not> (l = RESEARCH_LEVEL \<and> pa_quantity a \<noteq> 0)"
    and p: "p = \<lparr>plan_id = i, plan_symbol = s, plan_type = k, guidance = l, plan_state = st, calculation_date = pa_calculation a,
          valid_for = pa_valid_for a, entry_lower = lo, entry_upper = up, maximum_price = mx, invalidation_price = iv,
          protection_price = pr, reduce_lower = rl, reduce_upper = ru, plan_quantity = pa_quantity a, cutoff_time = c,
          plan_model = m, plan_feature = f, plan_config = g, plan_data = d, plan_reasons = rs, plan_manual = True\<rparr>"
    by (auto simp: make_plan_def bindR_Inr_iff split: if_splits)
  show ?thesis using plan_identity_Inr[OF parts(1)] plan_prices_Inr[OF parts(2)] plan_versions_Inr[OF parts(3)] q
    unfolding p plan_ok_def by auto
qed

text \<open>A plan is what its own fields make again.\<close>

definition args_of :: "plan \<Rightarrow> plan_args" where
  "args_of p = \<lparr>pa_id = plan_id p, pa_symbol = plan_symbol p, pa_kind = Member (plan_type p), pa_level = Member (guidance p),
     pa_state = Member (plan_state p), pa_calculation = calculation_date p, pa_valid_for = valid_for p,
     pa_entry_lower = map_option ADec (entry_lower p), pa_entry_upper = map_option ADec (entry_upper p),
     pa_maximum = map_option ADec (maximum_price p), pa_invalidation = map_option ADec (invalidation_price p),
     pa_protection = map_option ADec (protection_price p), pa_reduce_lower = map_option ADec (reduce_lower p),
     pa_reduce_upper = map_option ADec (reduce_upper p), pa_quantity = plan_quantity p,
     pa_cutoff = utc_datetime (cutoff_time p), pa_model = plan_model p, pa_feature = plan_feature p,
     pa_config = plan_config p, pa_data = plan_data p, pa_reasons = plan_reasons p, pa_manual = plan_manual p\<rparr>"

lemma named_reasons: "\<forall>r \<in> set rs. named r \<Longrightarrow> [] \<notin> set rs \<and> map py_strip rs = rs"
  by (induction rs) (auto simp: named_def)

lemma plan_again:
  assumes "plan_ok p"
  shows "make_plan (args_of p) = Inr p"
proof -
  have ident: "plan_identity (args_of p) = Inr (plan_id p, plan_symbol p, plan_type p, guidance p, plan_state p)"
    using assms by (simp add: plan_ok_def plan_identity_def args_of_def required_id normalize_symbol_fixed enum_field_def)
  have prices: "plan_prices (args_of p) = Inr (entry_lower p, entry_upper p, maximum_price p, invalidation_price p,
      protection_price p, reduce_lower p, reduce_upper p)"
    using assms by (simp add: plan_ok_def plan_prices_def args_of_def price_field_id)
  have "[] \<notin> set (plan_reasons p) \<and> map py_strip (plan_reasons p) = plan_reasons p"
    using assms by (intro named_reasons) (simp add: plan_ok_def)
  then have versions: "plan_versions (args_of p) = Inr (cutoff_time p, plan_model p, plan_feature p, plan_config p, plan_data p, plan_reasons p)"
    using assms by (simp add: plan_ok_def plan_versions_def args_of_def required_id)
  have rest: "\<not> plan_quantity p < 0" "\<not> (guidance p = RESEARCH_LEVEL \<and> plan_quantity p \<noteq> 0)" "plan_manual p"
    using assms by (auto simp: plan_ok_def)
  show ?thesis unfolding make_plan_def ident prices versions by (simp add: args_of_def rest)
qed

section \<open>Plans as JSON\<close>

definition price_json :: "rat option \<Rightarrow> json" where
  "price_json p = (case p of None \<Rightarrow> JNull | Some x \<Rightarrow> JDec x)"

definition plan_to_dict :: "plan \<Rightarrow> (string \<times> json) list" where
  "plan_to_dict p =
     [(''plan_id'', JStr (plan_id p)), (''symbol'', JStr (plan_symbol p)), (''plan_type'', JStr (kind_value (plan_type p))),
      (''guidance_level'', JStr (level_value (guidance p))), (''state'', JStr (state_value (plan_state p))),
      (''calculation_date'', JDate (calculation_date p)), (''valid_for'', JDate (valid_for p)),
      (''entry_lower'', price_json (entry_lower p)), (''entry_upper'', price_json (entry_upper p)),
      (''maximum_acceptable_price'', price_json (maximum_price p)), (''invalidation_price'', price_json (invalidation_price p)),
      (''protection_price'', price_json (protection_price p)), (''reduce_lower'', price_json (reduce_lower p)),
      (''reduce_upper'', price_json (reduce_upper p)), (''suggested_quantity'', JInt (plan_quantity p)),
      (''evidence_cutoff'', JTime (utc_datetime (cutoff_time p))), (''model_version'', JStr (plan_model p)),
      (''feature_version'', JStr (plan_feature p)), (''config_version'', JStr (plan_config p)),
      (''data_version'', JStr (plan_data p)), (''reason_codes'', JList (map JStr (plan_reasons p))),
      (''manual_execution_required'', JBool (plan_manual p))]"

definition allowed_fields :: "string list" where
  "allowed_fields = [''plan_id'', ''symbol'', ''plan_type'', ''guidance_level'', ''state'', ''calculation_date'', ''valid_for'',
     ''entry_lower'', ''entry_upper'', ''maximum_acceptable_price'', ''invalidation_price'', ''protection_price'', ''reduce_lower'',
     ''reduce_upper'', ''suggested_quantity'', ''evidence_cutoff'', ''model_version'', ''feature_version'', ''config_version'',
     ''data_version'', ''reason_codes'', ''manual_execution_required'']"

text \<open>The read of an enumeration member, an optional price and the reasons; \<^verbatim>\<open>tuple\<close> of a string is its characters.\<close>

definition enum_read :: "('a \<Rightarrow> pystr) \<Rightarrow> 'a list \<Rightarrow> json \<Rightarrow> 'a result" where
  "enum_read val members v = bindR (text_of v) (enum_of val members ''not a valid member'')"

definition price_read :: "json \<Rightarrow> num_arg option result" where
  "price_read v = (case v of JNull \<Rightarrow> Inr None | _ \<Rightarrow> bindR (num_of v) (\<lambda>x. Inr (Some x)))"

definition reasons_read :: "json \<Rightarrow> pystr list result" where
  "reasons_read v = (case v of JList vs \<Rightarrow> mapR text_of vs | JStr s \<Rightarrow> Inr (map (\<lambda>c. [c]) s)
     | _ \<Rightarrow> Inl (TypeError ''object is not iterable''))"

definition manual_flag :: "json \<Rightarrow> bool result" where
  "manual_flag v = (case v of JBool b \<Rightarrow> Inr b | _ \<Rightarrow> Inl (ValueError ''manual execution is required''))"

definition read_field :: "(json \<Rightarrow> 'a result) \<Rightarrow> (string \<times> json) list \<Rightarrow> string \<Rightarrow> 'a result" where
  "read_field rd ob k = bindR (field ob k) rd"

definition plan_args_of_dict :: "(string \<times> json) list \<Rightarrow> plan_args result" where
  "plan_args_of_dict ob =
     bindR (read_field (enum_read kind_value plan_kinds) ob ''plan_type'') (\<lambda>k.
     bindR (read_field (enum_read level_value guidance_levels) ob ''guidance_level'') (\<lambda>l.
     bindR (read_field (enum_read state_value guidance_states) ob ''state'') (\<lambda>st.
     bindR (read_field date_of ob ''calculation_date'') (\<lambda>cd.
     bindR (read_field date_of ob ''valid_for'') (\<lambda>vf.
     bindR (read_field time_of ob ''evidence_cutoff'') (\<lambda>c.
     bindR (read_field reasons_read ob ''reason_codes'') (\<lambda>rs.
     bindR (read_field text_of ob ''plan_id'') (\<lambda>i.
     bindR (read_field text_of ob ''symbol'') (\<lambda>s.
     bindR (read_field price_read ob ''entry_lower'') (\<lambda>lo.
     bindR (read_field price_read ob ''entry_upper'') (\<lambda>up.
     bindR (read_field price_read ob ''maximum_acceptable_price'') (\<lambda>mx.
     bindR (read_field price_read ob ''invalidation_price'') (\<lambda>iv.
     bindR (read_field price_read ob ''protection_price'') (\<lambda>pr.
     bindR (read_field price_read ob ''reduce_lower'') (\<lambda>rl.
     bindR (read_field price_read ob ''reduce_upper'') (\<lambda>ru.
     bindR (read_field int_of ob ''suggested_quantity'') (\<lambda>q.
     bindR (read_field text_of ob ''model_version'') (\<lambda>m.
     bindR (read_field text_of ob ''feature_version'') (\<lambda>f.
     bindR (read_field text_of ob ''config_version'') (\<lambda>g.
     bindR (read_field text_of ob ''data_version'') (\<lambda>d.
     bindR (case dict_get ob ''manual_execution_required'' of None \<Rightarrow> Inr True | Some v \<Rightarrow> manual_flag v) (\<lambda>mn.
     Inr \<lparr>pa_id = i, pa_symbol = s, pa_kind = Member k, pa_level = Member l, pa_state = Member st, pa_calculation = cd,
          pa_valid_for = vf, pa_entry_lower = lo, pa_entry_upper = up, pa_maximum = mx, pa_invalidation = iv, pa_protection = pr,
          pa_reduce_lower = rl, pa_reduce_upper = ru, pa_quantity = q, pa_cutoff = c, pa_model = m, pa_feature = f,
          pa_config = g, pa_data = d, pa_reasons = rs, pa_manual = mn\<rparr>))))))))))))))))))))))"

text \<open>\<^verbatim>\<open>except (KeyError, TypeError, ValueError, OverflowError)\<close>: two messages go through, the decimal signals
  are not caught.\<close>

definition reworded :: "string \<Rightarrow> 'a result \<Rightarrow> 'a result" where
  "reworded msg r = (case r of Inr p \<Rightarrow> Inr p
     | Inl e \<Rightarrow> if \<not> is_row_error e then Inl e
               else if e = research_quantity \<or> e = inconsistent then Inl e else Inl (ValueError msg))"

definition plan_from_dict :: "json \<Rightarrow> plan result" where
  "plan_from_dict v = (case v of JObj ob \<Rightarrow>
       if \<not> set (map fst ob) \<subseteq> set allowed_fields then Inl (ValueError ''unknown fields in price guidance plan'')
       else if set (map fst ob) \<noteq> set allowed_fields - {''manual_execution_required''}
            \<and> ''manual_execution_required'' \<notin> set (map fst ob)
       then Inl (ValueError ''price guidance plan is missing fields'')
       else reworded ''price guidance plan is invalid'' (bindR (plan_args_of_dict ob) make_plan)
     | _ \<Rightarrow> Inl (ValueError ''price guidance plan is invalid''))"

section \<open>The round trip\<close>

lemma enum_read_kind [simp]: "enum_read kind_value plan_kinds (JStr (kind_value k)) = Inr k"
  by (cases k) (simp_all add: enum_read_def enum_of_def plan_kinds_def text_of_def)

lemma enum_read_level [simp]: "enum_read level_value guidance_levels (JStr (level_value k)) = Inr k"
  by (cases k) (simp_all add: enum_read_def enum_of_def guidance_levels_def text_of_def)

lemma enum_read_state [simp]: "enum_read state_value guidance_states (JStr (state_value k)) = Inr k"
  by (cases k) (simp_all add: enum_read_def enum_of_def guidance_states_def text_of_def)

lemma price_read_json [simp]: "price_read (price_json p) = Inr (map_option ADec p)"
  by (cases p) (simp_all add: price_read_def price_json_def num_of_def)

lemma reasons_read_json [simp]: "reasons_read (JList (map JStr rs)) = Inr rs"
proof -
  have "mapR text_of (map JStr rs) = Inr rs" by (induction rs) (simp_all add: text_of_def)
  then show ?thesis by (simp add: reasons_read_def)
qed

lemma plan_args_round: "plan_args_of_dict (plan_to_dict p) = Inr (args_of p)"
  by (simp add: plan_args_of_dict_def plan_to_dict_def read_field_def field_def args_of_def date_of_def time_of_def text_of_def
      int_of_def manual_flag_def)

lemma plan_fields: "map fst (plan_to_dict p) = allowed_fields"
  by (simp add: plan_to_dict_def allowed_fields_def)

lemma plan_from_to:
  assumes "plan_ok p"
  shows "plan_from_dict (JObj (plan_to_dict p)) = Inr p"
proof -
  have "''manual_execution_required'' \<in> set allowed_fields" by (simp add: allowed_fields_def)
  then show ?thesis unfolding plan_from_dict_def json.case plan_fields plan_args_round
    by (simp add: plan_again[OF assms] reworded_def)
qed

section \<open>Observations\<close>

record observation =
  ob_id :: pystr
  ob_plan_id :: pystr
  ob_symbol :: pystr
  observed_at :: utc
  quote_timestamp :: utc
  current_price :: "rat option"
  ob_quality :: pystr
  ob_state :: guidance_state
  ob_reasons :: "pystr list"

definition five_minutes :: int where "five_minutes = 300 * micros_per_second"

definition make_observation ::
  "utc \<Rightarrow> pystr \<Rightarrow> pystr \<Rightarrow> pystr \<Rightarrow> datetime \<Rightarrow> datetime \<Rightarrow> num_arg option \<Rightarrow> pystr \<Rightarrow> guidance_state enum_arg \<Rightarrow> pystr list
    \<Rightarrow> observation result" where
  "make_observation now i pid s t qt p ql st rs =
     bindR (required ''observation_id'' i) (\<lambda>i'.
     bindR (required ''plan_id'' pid) (\<lambda>pid'.
     bindR (normalize_symbol s) (\<lambda>s'.
     bindR (as_utc t ''observed_at'') (\<lambda>t'.
     bindR (as_utc qt ''quote_timestamp'') (\<lambda>qt'.
     if utc_add now five_minutes < t' then Inl (ValueError ''observed_at cannot be in the future'')
     else bindR (price_field ''current_price'' p) (\<lambda>p'.
     let ql' = py_upper (py_strip ql) in
     if ql' \<notin> set (map py [''GOOD'', ''STALE'', ''FAILED'', ''DEGRADED'']) then Inl (ValueError ''invalid data quality'')
     else bindR (case st of Member m \<Rightarrow> Inr m | EnumText x \<Rightarrow> enum_of state_value guidance_states ''not a valid GuidanceState'' x) (\<lambda>st'.
     if [] \<in> set (map py_strip rs) then Inl (ValueError ''reason_codes cannot contain empty values'')
     else Inr \<lparr>ob_id = i', ob_plan_id = pid', ob_symbol = s', observed_at = t', quote_timestamp = qt', current_price = p',
                ob_quality = ql', ob_state = st', ob_reasons = map py_strip rs\<rparr>)))))))"

definition observation_ok :: "utc \<Rightarrow> observation \<Rightarrow> bool" where
  "observation_ok now ob \<longleftrightarrow> named (ob_id ob) \<and> named (ob_plan_id ob) \<and> six_digits (ob_symbol ob)
     \<and> observed_at ob \<le> utc_add now five_minutes \<and> price_ok (current_price ob)
     \<and> ob_quality ob \<in> set (map py [''GOOD'', ''STALE'', ''FAILED'', ''DEGRADED'']) \<and> (\<forall>r \<in> set (ob_reasons ob). named r)"

definition observation_to_dict :: "observation \<Rightarrow> (string \<times> json) list" where
  "observation_to_dict ob =
     [(''observation_id'', JStr (ob_id ob)), (''plan_id'', JStr (ob_plan_id ob)), (''symbol'', JStr (ob_symbol ob)),
      (''observed_at'', JTime (utc_datetime (observed_at ob))), (''quote_timestamp'', JTime (utc_datetime (quote_timestamp ob))),
      (''current_price'', price_json (current_price ob)), (''data_quality'', JStr (ob_quality ob)),
      (''state'', JStr (state_value (ob_state ob))), (''reason_codes'', JList (map JStr (ob_reasons ob)))]"

definition observation_fields :: "string list" where
  "observation_fields = [''observation_id'', ''plan_id'', ''symbol'', ''observed_at'', ''quote_timestamp'', ''current_price'',
     ''data_quality'', ''state'', ''reason_codes'']"

text \<open>An unknown key reaches the constructor as an unexpected keyword, a \<^verbatim>\<open>TypeError\<close>.\<close>

definition observation_from_dict :: "utc \<Rightarrow> json \<Rightarrow> observation result" where
  "observation_from_dict now v = reworded ''price guidance observation is invalid'' (case v of
       JObj ob \<Rightarrow>
         bindR (read_field time_of ob ''observed_at'') (\<lambda>t.
         bindR (read_field time_of ob ''quote_timestamp'') (\<lambda>qt.
         bindR (read_field (enum_read state_value guidance_states) ob ''state'') (\<lambda>st.
         bindR (read_field reasons_read ob ''reason_codes'') (\<lambda>rs.
         if \<not> set (map fst ob) \<subseteq> set observation_fields then Inl (TypeError ''unexpected keyword argument'')
         else bindR (read_field text_of ob ''observation_id'') (\<lambda>i.
         bindR (read_field text_of ob ''plan_id'') (\<lambda>pid.
         bindR (read_field text_of ob ''symbol'') (\<lambda>s.
         bindR (read_field price_read ob ''current_price'') (\<lambda>p.
         bindR (read_field text_of ob ''data_quality'') (\<lambda>ql.
         make_observation now i pid s t qt p ql (Member st) rs)))))))))
     | _ \<Rightarrow> Inl (TypeError ''not a mapping''))"

lemma make_observation_ok:
  assumes "make_observation now i pid s t qt p ql st rs = Inr ob"
  shows "observation_ok now ob"
proof -
  from assms have a: "named (ob_id ob)" "named (ob_plan_id ob)" "six_digits (ob_symbol ob)" "observed_at ob \<le> utc_add now five_minutes"
    "price_ok (current_price ob)" "ob_quality ob \<in> set (map py [''GOOD'', ''STALE'', ''FAILED'', ''DEGRADED''])"
    "ob_reasons ob = map py_strip rs" "[] \<notin> set (map py_strip rs)"
    by (auto simp: make_observation_def bindR_Inr_iff required_named normalize_symbol_six price_field_ok not_less Let_def split: if_splits)
  show ?thesis using a(1-6) named_stripped[OF a(8)] unfolding observation_ok_def a(7) by blast
qed

lemma quality_fixed: "q \<in> set (map py [''GOOD'', ''STALE'', ''FAILED'', ''DEGRADED'']) \<Longrightarrow> py_upper (py_strip q) = q"
proof -
  have all: "\<forall>q \<in> set (map py [''GOOD'', ''STALE'', ''FAILED'', ''DEGRADED'']). py_upper (py_strip q) = q" by code_simp
  assume "q \<in> set (map py [''GOOD'', ''STALE'', ''FAILED'', ''DEGRADED''])"
  then show ?thesis by (rule bspec[OF all])
qed

lemma observation_from_to:
  assumes "observation_ok now ob"
  shows "observation_from_dict now (JObj (observation_to_dict ob)) = Inr ob"
proof -
  have rs: "[] \<notin> set (ob_reasons ob) \<and> map py_strip (ob_reasons ob) = ob_reasons ob"
    using assms by (intro named_reasons) (simp add: observation_ok_def)
  have keys: "map fst (observation_to_dict ob) = observation_fields" by (simp add: observation_to_dict_def observation_fields_def)
  have ok: "named (ob_id ob)" "named (ob_plan_id ob)" "six_digits (ob_symbol ob)" "\<not> utc_add now five_minutes < observed_at ob"
    "price_ok (current_price ob)" "ob_quality ob \<in> set (map py [''GOOD'', ''STALE'', ''FAILED'', ''DEGRADED''])"
    using assms unfolding observation_ok_def by (blast, blast, blast, simp add: not_less, blast, blast)
  have make: "make_observation now (ob_id ob) (ob_plan_id ob) (ob_symbol ob) (utc_datetime (observed_at ob)) (utc_datetime (quote_timestamp ob))
      (map_option ADec (current_price ob)) (ob_quality ob) (Member (ob_state ob)) (ob_reasons ob) = Inr ob"
    using ok rs unfolding make_observation_def by (simp add: required_id normalize_symbol_fixed price_field_id quality_fixed Let_def del: list.map)
  have rd: "read_field time_of (observation_to_dict ob) ''observed_at'' = Inr (utc_datetime (observed_at ob))"
    "read_field time_of (observation_to_dict ob) ''quote_timestamp'' = Inr (utc_datetime (quote_timestamp ob))"
    "read_field (enum_read state_value guidance_states) (observation_to_dict ob) ''state'' = Inr (ob_state ob)"
    "read_field reasons_read (observation_to_dict ob) ''reason_codes'' = Inr (ob_reasons ob)"
    "read_field text_of (observation_to_dict ob) ''observation_id'' = Inr (ob_id ob)"
    "read_field text_of (observation_to_dict ob) ''plan_id'' = Inr (ob_plan_id ob)"
    "read_field text_of (observation_to_dict ob) ''symbol'' = Inr (ob_symbol ob)"
    "read_field price_read (observation_to_dict ob) ''current_price'' = Inr (map_option ADec (current_price ob))"
    "read_field text_of (observation_to_dict ob) ''data_quality'' = Inr (ob_quality ob)"
    by (simp_all add: read_field_def field_def observation_to_dict_def time_of_def text_of_def)
  show ?thesis unfolding observation_from_dict_def json.case rd bindR_simps keys by (simp add: make reworded_def)
qed

end
