(* ===== verification/Price_Engine.thy ===== *)
theory Price_Engine
  imports Price_Plan Py_Iso
begin

text \<open>
  \<^verbatim>\<open>advisory/price_engine.py\<close>, \<^verbatim>\<open>advisory/price_overlay.py\<close> and \<^verbatim>\<open>advisory/holding_guidance.py\<close>: the
  candidate plan computed from price features, the size of a paper position, the intraday state of a plan against a
  quote, and the guidance for a held position.  The features are data of this model (the pandas pipeline that computes
  them is not modelled), with \<^verbatim>\<open>to_actual\<close> of \<^verbatim>\<open>features/price_guidance.py\<close>.
\<close>

section \<open>Candidate plans\<close>

record price_features =
  pf_symbol :: pystr
  pf_cutoff :: date
  raw_close :: rat
  atr14 :: rat
  ma20 :: rat
  ma60 :: rat
  support20 :: rat
  adjustment_factor :: rat
  pf_data_version :: pystr
  pf_feature_version :: pystr

definition to_actual :: "price_features \<Rightarrow> rat \<Rightarrow> rat result" where
  "to_actual f x = quantize 2 ROUND_HALF_EVEN (dmul x (adjustment_factor f))"

definition round_up :: "rat \<Rightarrow> rat \<Rightarrow> rat result" where
  "round_up v tick = bindR (ddiv v tick) (\<lambda>q. Inr (dmul (of_int \<lceil>q\<rceil>) tick))"

definition round_down :: "rat \<Rightarrow> rat \<Rightarrow> rat result" where
  "round_down v tick = bindR (ddiv v tick) (\<lambda>q. Inr (dmul (of_int \<lfloor>q\<rfloor>) tick))"

text \<open>The actual prices, and the levels before rounding: anchor, lower, upper, maximum and invalidation.\<close>

definition actual_prices :: "price_features \<Rightarrow> (rat \<times> rat \<times> rat \<times> rat) result" where
  "actual_prices f =
     bindR (to_actual f (atr14 f)) (\<lambda>atr. bindR (to_actual f (ma20 f)) (\<lambda>m20.
     bindR (to_actual f (ma60 f)) (\<lambda>m60. bindR (to_actual f (support20 f)) (\<lambda>s. Inr (atr, m20, m60, s)))))"

definition raw_levels :: "rat \<Rightarrow> rat \<Rightarrow> rat \<Rightarrow> rat \<Rightarrow> rat \<Rightarrow> rat \<times> rat \<times> rat \<times> rat" where
  "raw_levels close atr m20 m60 s =
     (let anchor = min close (dadd m20 (dmul (1 / 2) atr));
          lower = dsub anchor (dmul (1 / 2) atr);
          upper = dadd anchor (dmul (1 / 4) atr);
          mx = min upper (dmul close (101 / 100));
          inval = max (max (dsub s (dmul (1 / 4) atr)) (dsub m60 (dmul (1 / 2) atr))) (dsub close (dmul 2 atr))
      in (lower, upper, mx, inval))"

text \<open>\<open>None\<close> is the protection \<^verbatim>\<open>Decimal("Infinity")\<close>, which no plan can have.\<close>

definition protection_of :: "num_arg option \<Rightarrow> rat \<Rightarrow> rat option result" where
  "protection_of prev inval = (case prev of None \<Rightarrow> Inr (Some inval)
     | Some v \<Rightarrow> bindR (bare_decimal v) (\<lambda>d. case d of
           Fin x \<Rightarrow> Inr (Some (max x inval))
         | Infinite neg \<Rightarrow> Inr (if neg then Some inval else None)
         | NaN \<Rightarrow> Inl InvalidOperation))"

definition boundary_reasons :: "rat \<Rightarrow> rat \<Rightarrow> rat \<Rightarrow> rat \<Rightarrow> string list" where
  "boundary_reasons inval lower upper mx =
     (if inval < lower \<and> lower \<le> upper \<and> upper \<le> mx then []
      else let rs = (if lower \<le> inval then [''INVALIDATION_NOT_BELOW_ENTRY''] else [])
             @ (if upper < lower then [''ENTRY_RANGE_INVERTED''] else [])
             @ (if mx < upper then [''ENTRY_ABOVE_MAXIMUM''] else [])
           in if rs = [] then [''PRICE_BOUNDARIES_INCONSISTENT''] else rs)"

definition distance_reasons :: "rat \<Rightarrow> rat option \<Rightarrow> string list result" where
  "distance_reasons close pr = (case pr of None \<Rightarrow> Inr [''RISK_DISTANCE_TOO_LOW'']
     | Some p \<Rightarrow> bindR (ddiv (dsub close p) close) (\<lambda>d.
         Inr (if 2 / 100 \<le> d \<and> d \<le> 12 / 100 then []
              else if d < 2 / 100 then [''RISK_DISTANCE_TOO_LOW''] else [''RISK_DISTANCE_TOO_HIGH''])))"

definition candidate_id :: "price_features \<Rightarrow> pystr" where
  "candidate_id f = py ''price-'' @ pf_symbol f @ py ''-'' @ date_iso (pf_cutoff f)"

definition candidate_args ::
  "pystr \<Rightarrow> price_features \<Rightarrow> bool \<Rightarrow> date option \<Rightarrow> date option \<Rightarrow> pystr \<Rightarrow> rat \<Rightarrow> rat \<Rightarrow> rat \<Rightarrow> rat \<Rightarrow> rat \<Rightarrow> rat \<Rightarrow> rat \<Rightarrow> plan_args" where
  "candidate_args cfg f promoted calc valid mv m20 atr lower upper mx inval pr =
     (let c = (case calc of Some d \<Rightarrow> d | None \<Rightarrow> pf_cutoff f) in
      \<lparr>pa_id = candidate_id f, pa_symbol = pf_symbol f, pa_kind = Member DAILY_CANDIDATE,
       pa_level = Member (if promoted then CONDITIONS_LEVEL else RESEARCH_LEVEL),
       pa_state = Member (if promoted then CONDITIONS_MET else RESEARCH_REFERENCE), pa_calculation = c,
       pa_valid_for = (case valid of Some d \<Rightarrow> d | None \<Rightarrow> c + 1),
       pa_entry_lower = Some (ADec lower), pa_entry_upper = Some (ADec upper), pa_maximum = Some (ADec mx),
       pa_invalidation = Some (ADec inval), pa_protection = Some (ADec pr),
       pa_reduce_lower = Some (ADec (dadd m20 (dmul 2 atr))), pa_reduce_upper = Some (ADec (dadd m20 (dmul 3 atr))),
       pa_quantity = 0, pa_cutoff = utc_datetime (utc_midnight c), pa_model = mv, pa_feature = pf_feature_version f,
       pa_config = cfg, pa_data = pf_data_version f,
       pa_reasons = [if promoted then py ''FORMAL_MODEL_PROMOTED'' else py ''RESEARCH_ONLY''], pa_manual = True\<rparr>)"

definition rejected :: "string list \<Rightarrow> string list \<Rightarrow> 'a result" where
  "rejected bs ds = Inl (GuidanceValidationError
     (if bs \<noteq> [] then ''price boundaries are inconsistent'' else ''risk distance is outside configured bounds'') (bs @ ds))"

definition candidate_plan ::
  "pystr \<Rightarrow> price_features \<Rightarrow> bool \<Rightarrow> num_arg option \<Rightarrow> date option \<Rightarrow> date option \<Rightarrow> pystr \<Rightarrow> plan result" where
  "candidate_plan cfg f promoted prev calc valid mv =
     bindR (resolve_security_rule (pf_symbol f) no_flags) (\<lambda>rule.
     bindR (actual_prices f) (\<lambda>(atr, m20, m60, s).
     let (lower0, upper0, mx0, inval0) = raw_levels (raw_close f) atr m20 m60 s in
     bindR (protection_of prev inval0) (\<lambda>pr0.
     bindR (round_up lower0 (tick_size rule)) (\<lambda>lower.
     bindR (round_up inval0 (tick_size rule)) (\<lambda>inval.
     bindR (round_down upper0 (tick_size rule)) (\<lambda>upper.
     bindR (round_down mx0 (tick_size rule)) (\<lambda>mx.
     bindR (case pr0 of None \<Rightarrow> Inr None | Some p \<Rightarrow> bindR (round_up p (tick_size rule)) (\<lambda>x. Inr (Some x))) (\<lambda>pr.
     bindR (distance_reasons (raw_close f) pr) (\<lambda>ds.
     let bs = boundary_reasons inval lower upper mx in
     if bs \<noteq> [] \<or> ds \<noteq> [] then rejected bs ds
     else case pr of None \<Rightarrow> rejected bs ds
       | Some p \<Rightarrow> make_plan (candidate_args cfg f promoted calc valid mv m20 atr lower upper mx inval p))))))))))"

section \<open>Paper position size\<close>

text \<open>On finite decimals; a text that is no number raises \<^verbatim>\<open>InvalidOperation\<close> before.\<close>

definition position_size :: "rat \<Rightarrow> rat \<Rightarrow> rat \<Rightarrow> rat \<Rightarrow> rat \<Rightarrow> int result" where
  "position_size eq csh p inval ind =
     (if eq \<le> 0 \<or> csh \<le> 0 \<or> p \<le> 0 \<or> inval \<le> 0 \<or> p \<le> inval then Inr 0
      else bindR (ddiv (dmul eq (5 / 1000)) (dsub p inval)) (\<lambda>risk_cap.
      bindR (ddiv (dmul eq (5 / 100)) p) (\<lambda>position_cap.
      bindR (ddiv (max 0 (dsub (dmul eq (20 / 100)) ind)) p) (\<lambda>industry_cap.
      bindR (ddiv csh p) (\<lambda>cash_cap.
      bindR (dfloordiv (min (min risk_cap position_cap) (min industry_cap cash_cap)) 100) (\<lambda>lots.
      Inr (max 0 (lots * 100))))))))"

section \<open>The intraday overlay\<close>

text \<open>The quote mapping: the texts and numbers under its keys, \<open>None\<close> for a missing key or a null; the timestamps
  are datetimes (their \<^verbatim>\<open>fromisoformat\<close> is not modelled).\<close>

record price_quote =
  q_quality :: "pystr option"
  q_timestamp :: "datetime option"
  q_observed :: "datetime option"
  q_current :: "num_arg option option"
  q_last :: "num_arg option"

record overlay_result =
  or_plan_id :: pystr
  or_symbol :: pystr
  or_state :: guidance_state
  or_price :: "rat option"
  or_quote_time :: "utc option"
  or_observed_at :: utc
  or_quality :: pystr
  or_reasons :: "string list"

definition timestamp :: "datetime option \<Rightarrow> utc option result" where
  "timestamp t = (case t of None \<Rightarrow> Inr None
     | Some d \<Rightarrow> if is_aware d then Inr (Some (instant d)) else Inl (ValueError ''timestamp must be timezone-aware''))"

definition quote_price :: "price_quote \<Rightarrow> rat option result" where
  "quote_price q = (case (case q_current q of None \<Rightarrow> q_last q | Some v \<Rightarrow> v) of None \<Rightarrow> Inr None
     | Some v \<Rightarrow> bindR (bare_decimal v) (\<lambda>d. case d of
           Fin x \<Rightarrow> if x \<le> 0 then Inl (ValueError ''current price must be positive'') else Inr (Some x)
         | _ \<Rightarrow> Inl (ValueError ''current price must be positive'')))"

definition overlay_state :: "plan \<Rightarrow> pystr \<Rightarrow> rat option \<Rightarrow> utc option \<Rightarrow> guidance_state \<times> string" where
  "overlay_state p quality pr qt = (case pr of
       None \<Rightarrow> (NO_RELIABLE_GUIDANCE, ''DATA_QUALITY_NOT_GOOD'')
     | Some x \<Rightarrow>
         if quality \<noteq> py ''GOOD'' \<or> qt = None then (NO_RELIABLE_GUIDANCE, ''DATA_QUALITY_NOT_GOOD'')
         else if (case invalidation_price p of None \<Rightarrow> False | Some i \<Rightarrow> x < i) then (INVALIDATED, ''PRICE_BELOW_INVALIDATION'')
         else if (case maximum_price p of None \<Rightarrow> False | Some m \<Rightarrow> m < x) then (PRICE_TOO_HIGH, ''PRICE_ABOVE_MAXIMUM'')
         else if (case (entry_lower p, entry_upper p) of (Some l, Some u) \<Rightarrow> l \<le> x \<and> x \<le> u | _ \<Rightarrow> False)
         then (if guidance p = CONDITIONS_LEVEL then CONDITIONS_MET else RESEARCH_REFERENCE, ''IN_ENTRY_RANGE'')
         else (WAIT_FOR_PRICE, ''WAIT_FOR_ENTRY_RANGE''))"

definition overlay_evaluate :: "plan \<Rightarrow> price_quote \<Rightarrow> datetime \<Rightarrow> overlay_result result" where
  "overlay_evaluate p q now =
     (if \<not> is_aware now then Inl (ValueError ''now must be timezone-aware'')
      else if valid_for p < local_date (dt_local now) then Inl (ValueError ''plan is no longer valid'')
      else let quality = py_upper (case q_quality q of None \<Rightarrow> py ''FAILED'' | Some s \<Rightarrow> s) in
      bindR (timestamp (q_timestamp q)) (\<lambda>qt.
      bindR (timestamp (q_observed q)) (\<lambda>ob.
      let seen = (case ob of None \<Rightarrow> instant now | Some t \<Rightarrow> t) in
      if instant now < seen then Inl (ValueError ''observed_at is in the future'')
      else if (case qt of None \<Rightarrow> False | Some t \<Rightarrow> instant now < t) then Inl (ValueError ''quote timestamp is in the future'')
      else bindR (quote_price q) (\<lambda>pr.
      Inr \<lparr>or_plan_id = plan_id p, or_symbol = plan_symbol p, or_state = fst (overlay_state p quality pr qt), or_price = pr,
           or_quote_time = qt, or_observed_at = seen, or_quality = quality,
           or_reasons = [snd (overlay_state p quality pr qt)]\<rparr>))))"

section \<open>Held positions\<close>

record holding =
  h_total :: "int option"
  h_available :: "int option"
  h_cost :: "num_arg option"
  h_previous :: "num_arg option"

record holding_result =
  hr_symbol :: pystr
  hr_state :: guidance_state
  hr_price :: rat
  hr_cost :: decimal
  hr_total :: int
  hr_available :: int
  hr_protection :: "decimal option"
  hr_sell :: int

definition quantity_of :: "int \<Rightarrow> int result" where
  "quantity_of n = (if n < 0 then Inl (ValueError ''quantity must be non-negative'') else Inr n)"

text \<open>\<^verbatim>\<open>max\<close> and \<^verbatim>\<open><=\<close> of a decimal and a finite one; a comparison with NaN signals.\<close>

definition dmax :: "rat \<Rightarrow> decimal \<Rightarrow> decimal result" where
  "dmax x d = (case d of Fin y \<Rightarrow> Inr (Fin (if x < y then y else x)) | Infinite neg \<Rightarrow> Inr (if neg then Fin x else d)
     | NaN \<Rightarrow> Inl InvalidOperation)"

definition at_most :: "rat \<Rightarrow> decimal option \<Rightarrow> bool" where
  "at_most x d = (case d of Some (Fin y) \<Rightarrow> x \<le> y | Some (Infinite neg) \<Rightarrow> \<not> neg | _ \<Rightarrow> False)"

definition held_protection :: "plan \<Rightarrow> num_arg option \<Rightarrow> decimal option result" where
  "held_protection p prev = (case protection_price p of None \<Rightarrow> Inr None
     | Some x \<Rightarrow> (case prev of None \<Rightarrow> Inr (Some (Fin x))
         | Some v \<Rightarrow> bindR (bare_decimal v) (\<lambda>d. bindR (dmax x d) (\<lambda>m. Inr (Some m)))))"

definition holding_evaluate :: "holding \<Rightarrow> plan \<Rightarrow> num_arg \<Rightarrow> bool \<Rightarrow> bool \<Rightarrow> bool \<Rightarrow> holding_result result" where
  "holding_evaluate h p price edge_weakened overheated portfolio_risk =
     bindR (bare_decimal price) (\<lambda>d. case d of
       Fin x \<Rightarrow>
        if x \<le> 0 then Inl (ValueError ''current price must be positive'')
        else bindR (quantity_of (case h_total h of None \<Rightarrow> 0 | Some n \<Rightarrow> n)) (\<lambda>total.
        bindR (quantity_of (case h_available h of None \<Rightarrow> total | Some n \<Rightarrow> n)) (\<lambda>avail.
        if total < avail then Inl (ValueError ''available quantity cannot exceed total quantity'')
        else bindR (case h_cost h of None \<Rightarrow> Inr (Fin 0) | Some c \<Rightarrow> bare_decimal c) (\<lambda>cost.
        bindR (held_protection p (h_previous h)) (\<lambda>prot.
        let (st, sell) =
          (if at_most x prot then (if 0 < avail then (RISK_ALERT, avail) else (T_PLUS_ONE_BLOCKED, 0))
           else if (case (reduce_lower p, reduce_upper p) of (Some l, Some u) \<Rightarrow> l \<le> x \<and> x \<le> u | _ \<Rightarrow> False)
                \<and> (edge_weakened \<or> overheated \<or> portfolio_risk)
           then (REDUCE_WATCH, 0) else (HOLD_WATCH, 0)) in
        Inr \<lparr>hr_symbol = plan_symbol p, hr_state = st, hr_price = x, hr_cost = cost, hr_total = total, hr_available = avail,
             hr_protection = prot, hr_sell = sell\<rparr>))))
     | _ \<Rightarrow> Inl (ValueError ''current price must be positive''))"

end
