(* ===== verification/Price_Properties.thy ===== *)
theory Price_Properties
  imports Price_Engine
begin

text \<open>
  The properties of price guidance: plans and their JSON form, the candidate plan, the intraday states, the paper
  position size and the guidance for holdings.
\<close>

section \<open>Rounding to ticks\<close>

lemma dmul_mono: "a \<le> b \<Longrightarrow> 0 \<le> c \<Longrightarrow> dmul a c \<le> dmul b c"
  unfolding dmul_def by (intro ctx_mono mult_right_mono)

lemma round_up_mono:
  assumes "round_up v t = Inr a" "round_up w t = Inr b" "v \<le> w" "0 < t"
  shows "a \<le> b"
proof -
  have e: "a = dmul (of_int \<lceil>ctx (v / t)\<rceil>) t" "b = dmul (of_int \<lceil>ctx (w / t)\<rceil>) t"
    using assms(1,2,4) by (auto simp: round_up_def ddiv_def)
  have "ctx (v / t) \<le> ctx (w / t)" by (intro ctx_mono divide_right_mono) (use assms in simp_all)
  then have "(of_int \<lceil>ctx (v / t)\<rceil> :: rat) \<le> of_int \<lceil>ctx (w / t)\<rceil>" by (simp only: of_int_le_iff ceiling_mono)
  then show ?thesis unfolding e using assms(4) by (intro dmul_mono) simp_all
qed

lemma round_down_mono:
  assumes "round_down v t = Inr a" "round_down w t = Inr b" "v \<le> w" "0 < t"
  shows "a \<le> b"
proof -
  have e: "a = dmul (of_int \<lfloor>ctx (v / t)\<rfloor>) t" "b = dmul (of_int \<lfloor>ctx (w / t)\<rfloor>) t"
    using assms(1,2,4) by (auto simp: round_down_def ddiv_def)
  have "ctx (v / t) \<le> ctx (w / t)" by (intro ctx_mono divide_right_mono) (use assms in simp_all)
  then have "(of_int \<lfloor>ctx (v / t)\<rfloor> :: rat) \<le> of_int \<lfloor>ctx (w / t)\<rfloor>" by (simp only: of_int_le_iff floor_mono)
  then show ?thesis unfolding e using assms(4) by (intro dmul_mono) simp_all
qed

text \<open>A number of cents that a price field accepts is kept as it is.\<close>

lemma tick_field:
  assumes "price_field f (Some (ADec (dmul (of_int n) (1 / 100)))) = Inr q"
  shows "q = Some (dmul (of_int n) (1 / 100)) \<and> on_grid 2 (dmul (of_int n) (1 / 100))"
proof -
  have "(of_int n / 100 :: rat) * 10 ^ 2 = of_int n" by simp
  then show ?thesis
  proof (cases rule: grid_small_or_big)
    case 1
    then have "dmul (of_int n) (1 / 100) = of_int n / 100" by (simp add: dmul_def)
    then have grid: "on_grid 2 (dmul (of_int n) (1 / 100))" using 1(1) by (simp only:)
    show ?thesis using assms quantize_on_grid[OF grid] grid by (auto simp: price_field_def split: if_splits)
  next
    case 2
    then have "quantize 2 ROUND_HALF_UP (dmul (of_int n) (1 / 100)) = Inl InvalidOperation"
      unfolding dmul_def by (intro quantize_overflow ctx_abs_ge) simp
    then show ?thesis using assms by (simp add: price_field_def)
  qed
qed

lemma round_up_cents: "round_up v (1 / 100) = Inr a \<Longrightarrow> \<exists>n. a = dmul (of_int n) (1 / 100)"
  by (auto simp: round_up_def ddiv_def)

lemma round_down_cents: "round_down v (1 / 100) = Inr a \<Longrightarrow> \<exists>n. a = dmul (of_int n) (1 / 100)"
  by (auto simp: round_down_def ddiv_def)

lemma round_up_grid:
  assumes "on_grid 2 v"
  shows "round_up v (1 / 100) = Inr v"
proof -
  obtain c :: int where c: "v = of_int c / 10 ^ 2" "\<bar>c\<bar> < 10 ^ 28" using assms by (auto simp: on_grid_def)
  have "on_grid 0 (of_int c)" unfolding on_grid_def using c(2) by (intro exI[of _ c]) simp
  then have "ctx (of_int c) = of_int c" by (rule ctx_on_grid)
  moreover have "ctx v = v" by (rule ctx_on_grid[OF assms])
  ultimately show ?thesis using c(1) by (simp add: round_up_def ddiv_def dmul_def)
qed

section \<open>The candidate plan\<close>

lemma candidate_Inr:
  assumes "candidate_plan cfg f promoted prev calc valid mv = Inr p"
  obtains atr m20 m60 s l0 u0 x0 i0 pr0 lower inval upper mx pr where
    "raw_levels (raw_close f) atr m20 m60 s = (l0, u0, x0, i0)" "protection_of prev i0 = Inr (Some pr0)"
    "round_up l0 (1 / 100) = Inr lower" "round_up i0 (1 / 100) = Inr inval" "round_down u0 (1 / 100) = Inr upper"
    "round_down x0 (1 / 100) = Inr mx" "round_up pr0 (1 / 100) = Inr pr" "distance_reasons (raw_close f) (Some pr) = Inr []"
    "boundary_reasons inval lower upper mx = []"
    "make_plan (candidate_args cfg f promoted calc valid mv m20 atr lower upper mx inval pr) = Inr p"
proof -
  from assms obtain rule atr m20 m60 s where a: "resolve_security_rule (pf_symbol f) no_flags = Inr rule"
    "actual_prices f = Inr (atr, m20, m60, s)"
    by (auto simp: candidate_plan_def bindR_Inr_iff)
  have tick: "tick_size rule = 1 / 100" using resolve_security_rule_value[OF a(1)] by simp
  obtain l0 u0 x0 i0 where lv: "raw_levels (raw_close f) atr m20 m60 s = (l0, u0, x0, i0)" by (metis prod_cases4)
  have run: "bindR (protection_of prev i0) (\<lambda>pr0.
     bindR (round_up l0 (1 / 100)) (\<lambda>lower.
     bindR (round_up i0 (1 / 100)) (\<lambda>inval.
     bindR (round_down u0 (1 / 100)) (\<lambda>upper.
     bindR (round_down x0 (1 / 100)) (\<lambda>mx.
     bindR (case pr0 of None \<Rightarrow> Inr None | Some p \<Rightarrow> bindR (round_up p (1 / 100)) (\<lambda>x. Inr (Some x))) (\<lambda>pr.
     bindR (distance_reasons (raw_close f) pr) (\<lambda>ds.
     let bs = boundary_reasons inval lower upper mx in
     if bs \<noteq> [] \<or> ds \<noteq> [] then rejected bs ds
     else case pr of None \<Rightarrow> rejected bs ds
       | Some p \<Rightarrow> make_plan (candidate_args cfg f promoted calc valid mv m20 atr lower upper mx inval p)))))))) = Inr p"
    using assms unfolding candidate_plan_def a bindR_simps prod.case lv Let_def tick .
  obtain pr0 where p0: "protection_of prev i0 = Inr pr0" using run by (auto simp: bindR_Inr_iff)
  obtain lower where r1: "round_up l0 (1 / 100) = Inr lower" using run p0 by (auto simp: bindR_Inr_iff)
  obtain inval where r2: "round_up i0 (1 / 100) = Inr inval" using run p0 r1 by (auto simp: bindR_Inr_iff)
  obtain upper where r3: "round_down u0 (1 / 100) = Inr upper" using run p0 r1 r2 by (auto simp: bindR_Inr_iff)
  obtain mx where r4: "round_down x0 (1 / 100) = Inr mx" using run p0 r1 r2 r3 by (auto simp: bindR_Inr_iff)
  have run2: "bindR (case pr0 of None \<Rightarrow> Inr None | Some p \<Rightarrow> bindR (round_up p (1 / 100)) (\<lambda>x. Inr (Some x))) (\<lambda>pr.
     bindR (distance_reasons (raw_close f) pr) (\<lambda>ds.
     let bs = boundary_reasons inval lower upper mx in
     if bs \<noteq> [] \<or> ds \<noteq> [] then rejected bs ds
     else case pr of None \<Rightarrow> rejected bs ds
       | Some p \<Rightarrow> make_plan (candidate_args cfg f promoted calc valid mv m20 atr lower upper mx inval p))) = Inr p"
    using run unfolding p0 r1 r2 r3 r4 bindR_simps .
  have no: "rejected bs ds \<noteq> Inr p" for bs ds by (simp add: rejected_def)
  obtain q0 where q0: "pr0 = Some q0" using run2 no by (cases pr0) (auto simp: distance_reasons_def Let_def)
  obtain pr where pr: "round_up q0 (1 / 100) = Inr pr" using run2 q0 by (auto simp: bindR_Inr_iff)
  obtain ds where ds: "distance_reasons (raw_close f) (Some pr) = Inr ds" using run2 q0 pr by (auto simp: bindR_Inr_iff)
  have fin: "boundary_reasons inval lower upper mx = [] \<and> ds = []
     \<and> make_plan (candidate_args cfg f promoted calc valid mv m20 atr lower upper mx inval pr) = Inr p"
    using run2 q0 pr ds no by (auto simp: Let_def split: if_splits)
  show thesis by (rule that[OF lv _ r1 r2 r3 r4 pr]) (use p0 q0 ds fin in auto)
qed

lemma make_plan_fields:
  assumes "make_plan a = Inr p"
  shows "price_field ''entry_upper'' (pa_entry_upper a) = Inr (entry_upper p)"
    "price_field ''maximum_acceptable_price'' (pa_maximum a) = Inr (maximum_price p)"
    "price_field ''invalidation_price'' (pa_invalidation a) = Inr (invalidation_price p)"
    "price_field ''protection_price'' (pa_protection a) = Inr (protection_price p)"
    "price_field ''entry_lower'' (pa_entry_lower a) = Inr (entry_lower p)"
    "plan_quantity p = pa_quantity a"
    "enum_field level_value guidance_levels ''invalid guidance_level'' (pa_level a) = Inr (guidance p)"
  using assms by (auto simp: make_plan_def plan_prices_def plan_identity_def bindR_Inr_iff split: if_splits)

lemma protection_of_ge:
  assumes "protection_of prev i = Inr (Some q)"
  shows "i \<le> q \<and> (\<forall>v. prev = Some (ADec v) \<longrightarrow> v \<le> q)"
  using assms by (auto simp: protection_of_def bare_decimal_def decimal_of_def bindR_Inr_iff split: option.splits decimal.splits if_splits)

text \<open>A candidate plan is well formed and suggests no quantity; it is marked as meeting its conditions exactly when the
  model is promoted.  Its maximum price is the upper end of its entry range, its protection is at least its
  invalidation and at least the previous protection, and lies between 2 and 12 percent below the close.\<close>

theorem candidate_plan_sound:
  assumes "candidate_plan cfg f promoted prev calc valid mv = Inr p"
  shows "plan_ok p \<and> plan_quantity p = 0 \<and> (guidance p = CONDITIONS_LEVEL \<longleftrightarrow> promoted)
    \<and> (\<exists>i l u q. invalidation_price p = Some i \<and> entry_lower p = Some l \<and> entry_upper p = Some u \<and> maximum_price p = Some u
         \<and> protection_price p = Some q \<and> i < l \<and> l \<le> u \<and> i \<le> q
         \<and> (\<forall>v. prev = Some (ADec v) \<longrightarrow> on_grid 2 v \<longrightarrow> v \<le> q)
         \<and> 2 / 100 \<le> ctx (ctx (raw_close f - q) / raw_close f) \<and> ctx (ctx (raw_close f - q) / raw_close f) \<le> 12 / 100)"
proof -
  obtain atr m20 m60 s l0 u0 x0 i0 pr0 lower inval upper mx pr where
    lv: "raw_levels (raw_close f) atr m20 m60 s = (l0, u0, x0, i0)" and p0: "protection_of prev i0 = Inr (Some pr0)"
    and r: "round_up l0 (1 / 100) = Inr lower" "round_up i0 (1 / 100) = Inr inval" "round_down u0 (1 / 100) = Inr upper"
    "round_down x0 (1 / 100) = Inr mx" "round_up pr0 (1 / 100) = Inr pr"
    and ds: "distance_reasons (raw_close f) (Some pr) = Inr []" and bs: "boundary_reasons inval lower upper mx = []"
    and mk: "make_plan (candidate_args cfg f promoted calc valid mv m20 atr lower upper mx inval pr) = Inr p"
    by (rule candidate_Inr[OF assms])
  have order: "inval < lower" "lower \<le> upper" "upper \<le> mx" using bs by (auto simp: boundary_reasons_def Let_def split: if_splits)
  have "x0 \<le> u0" using lv by (auto simp: raw_levels_def Let_def)
  then have mx: "mx = upper" using round_down_mono[OF r(4) r(3)] order(3) by simp
  note fld = make_plan_fields[OF mk, unfolded candidate_args_def Let_def, simplified]
  have cents: "\<exists>n. upper = dmul (of_int n) (1 / 100)" "\<exists>n. inval = dmul (of_int n) (1 / 100)"
    "\<exists>n. pr = dmul (of_int n) (1 / 100)" "\<exists>n. lower = dmul (of_int n) (1 / 100)"
    using r round_up_cents round_down_cents by blast+
  have fields: "entry_upper p = Some upper" "maximum_price p = Some upper" "invalidation_price p = Some inval"
    "protection_price p = Some pr" "entry_lower p = Some lower"
    using fld(1-5) cents mx tick_field by blast+
  have prot: "i0 \<le> pr0" "\<forall>v. prev = Some (ADec v) \<longrightarrow> v \<le> pr0" using protection_of_ge[OF p0] by auto
  have iq: "inval \<le> pr" by (rule round_up_mono[OF r(2) r(5) prot(1)]) simp
  have ratchet: "v \<le> pr" if "prev = Some (ADec v)" "on_grid 2 v" for v
    by (rule round_up_mono[OF round_up_grid[OF that(2)] r(5)]) (use prot(2) that in auto)
  have dist: "2 / 100 \<le> ctx (ctx (raw_close f - pr) / raw_close f)" "ctx (ctx (raw_close f - pr) / raw_close f) \<le> 12 / 100"
    using ds by (auto simp: distance_reasons_def ddiv_def dsub_def bindR_Inr_iff split: if_splits)
  have lev: "guidance p = CONDITIONS_LEVEL \<longleftrightarrow> promoted" using fld(7) by (cases promoted) (auto simp: enum_field_def)
  show ?thesis using make_plan_ok[OF mk] fld(6) lev fields order(1,2) iq ratchet dist by blast
qed

definition demo_features :: price_features where
  "demo_features = \<lparr>pf_symbol = py ''600000'', pf_cutoff = 739000, raw_close = 10, atr14 = 2 / 10, ma20 = 99 / 10, ma60 = 96 / 10,
     support20 = 95 / 10, adjustment_factor = 1, pf_data_version = py ''d'', pf_feature_version = py ''v''\<rparr>"

definition demo_plan :: plan where
  "demo_plan = \<lparr>plan_id = py ''price-600000-2024-04-24'', plan_symbol = py ''600000'', plan_type = DAILY_CANDIDATE,
     guidance = CONDITIONS_LEVEL, plan_state = CONDITIONS_MET, calculation_date = 739000, valid_for = 739001,
     entry_lower = Some (99 / 10), entry_upper = Some (1005 / 100), maximum_price = Some (1005 / 100),
     invalidation_price = Some (96 / 10), protection_price = Some (965 / 100), reduce_lower = Some (103 / 10),
     reduce_upper = Some (105 / 10), plan_quantity = 0, cutoff_time = utc_midnight 739000, plan_model = py ''m'',
     plan_feature = py ''v'', plan_config = py ''c'', plan_data = py ''d'', plan_reasons = [py ''FORMAL_MODEL_PROMOTED''],
     plan_manual = True\<rparr>"

lemma demo_rule: "resolve_security_rule (pf_symbol demo_features) no_flags
    = Inr \<lparr>tick_size = 1 / 100, rule_lot_size = 100, daily_limit = 1 / 10\<rparr>" by code_simp
lemma demo_prices: "actual_prices demo_features = Inr (2 / 10, 99 / 10, 96 / 10, 95 / 10)" by code_simp
lemma demo_levels: "raw_levels (raw_close demo_features) (2 / 10) (99 / 10) (96 / 10) (95 / 10) = (99 / 10, 1005 / 100, 1005 / 100, 96 / 10)" by code_simp
lemma demo_rounds: "round_up (99 / 10) (1 / 100) = Inr (99 / 10)" "round_up (96 / 10) (1 / 100) = Inr (96 / 10)"
  "round_down (1005 / 100) (1 / 100) = Inr (1005 / 100)" "round_up (965 / 100) (1 / 100) = Inr (965 / 100)"
  by code_simp+
lemma demo_protection: "protection_of (Some (ADec (965 / 100))) (96 / 10) = Inr (Some (965 / 100))" by code_simp
lemma demo_distance: "distance_reasons (raw_close demo_features) (Some (965 / 100)) = Inr []" by code_simp
lemma demo_boundaries: "boundary_reasons (96 / 10) (99 / 10) (1005 / 100) (1005 / 100) = []" by code_simp
lemma demo_make: "make_plan (candidate_args (py ''c'') demo_features True None None (py ''m'') (99 / 10) (2 / 10) (99 / 10) (1005 / 100)
    (1005 / 100) (96 / 10) (965 / 100)) = Inr demo_plan" by code_simp
lemma demo_plan_made: "candidate_plan (py ''c'') demo_features True (Some (ADec (965 / 100))) None None (py ''m'') = Inr demo_plan"
  by (simp only: candidate_plan_def demo_rule demo_prices demo_levels demo_protection demo_rounds demo_distance demo_boundaries demo_make
      bindR_simps prod.case Let_def security_price_rule.simps option.case simp_thms if_False list.distinct)
lemma demo_plan_prices: "invalidation_price demo_plan = Some (96 / 10) \<and> entry_lower demo_plan = Some (99 / 10)
  \<and> entry_upper demo_plan = Some (1005 / 100) \<and> protection_price demo_plan = Some (965 / 100)" by (simp add: demo_plan_def)

theorem candidate_plan_sound_witness:
  "plan_ok demo_plan \<and> maximum_price demo_plan = entry_upper demo_plan \<and> (\<exists>q. protection_price demo_plan = Some q \<and> 965 / 100 \<le> q)"
proof -
  have "(965 / 100 :: rat) = of_int 965 / 10 ^ 2" by simp
  then have grid: "on_grid 2 (965 / 100)" unfolding on_grid_def by (intro exI[of _ 965]) simp
  have all: "plan_ok demo_plan" "\<exists>q. protection_price demo_plan = Some q \<and> 965 / 100 \<le> q"
    "maximum_price demo_plan = entry_upper demo_plan"
    using candidate_plan_sound[OF demo_plan_made] grid by (blast, blast, metis)
  then show ?thesis by blast
qed

section \<open>The intraday zones\<close>

text \<open>What the overlay promises of a plan with levels \<open>i < l \<le> u\<close>: five disjoint zones of the price line.\<close>

definition zone :: "bool \<Rightarrow> rat \<Rightarrow> rat \<Rightarrow> rat \<Rightarrow> rat \<Rightarrow> guidance_state" where
  "zone promoted i l u x =
     (if x < i then INVALIDATED else if x < l then WAIT_FOR_PRICE
      else if x \<le> u then (if promoted then CONDITIONS_MET else RESEARCH_REFERENCE) else PRICE_TOO_HIGH)"

text \<open>At every quote the overlay accepts, the state of a candidate plan is the zone of the price between its invalidation
  and entry levels when the quote is good, priced and timed, and NO_RELIABLE_GUIDANCE otherwise; in particular it
  waits only below the entry range, and meets its conditions only for a promoted model and a price inside the range.\<close>

theorem overlay_of_candidate:
  assumes "candidate_plan cfg f promoted prev calc valid mv = Inr p" "overlay_evaluate p q now = Inr r"
  shows "\<exists>i l u. invalidation_price p = Some i \<and> entry_lower p = Some l \<and> entry_upper p = Some u \<and> or_plan_id r = plan_id p
    \<and> or_state r = (case or_price r of None \<Rightarrow> NO_RELIABLE_GUIDANCE
        | Some x \<Rightarrow> if or_quality r = py ''GOOD'' \<and> or_quote_time r \<noteq> None then zone promoted i l u x else NO_RELIABLE_GUIDANCE)"
proof -
  obtain i l u where p: "invalidation_price p = Some i" "entry_lower p = Some l" "entry_upper p = Some u" "maximum_price p = Some u"
    "i < l" "l \<le> u" "guidance p = CONDITIONS_LEVEL \<longleftrightarrow> promoted"
    using candidate_plan_sound[OF assms(1)] by blast
  have r: "or_state r = fst (overlay_state p (or_quality r) (or_price r) (or_quote_time r))" "or_plan_id r = plan_id p"
    using assms(2) by (auto simp: overlay_evaluate_def Let_def bindR_Inr_iff split: if_splits)
  have "fst (overlay_state p (or_quality r) (or_price r) (or_quote_time r)) = (case or_price r of None \<Rightarrow> NO_RELIABLE_GUIDANCE
        | Some x \<Rightarrow> if or_quality r = py ''GOOD'' \<and> or_quote_time r \<noteq> None then zone promoted i l u x else NO_RELIABLE_GUIDANCE)"
    using p(5-7) by (auto simp: overlay_state_def zone_def p(1-4) split: option.splits)
  note st = trans[OF r(1) this]
  show ?thesis by (intro exI conjI) (rule p(1) p(2) p(3) r(2) st)+
qed

definition demo_quote :: price_quote where
  "demo_quote = \<lparr>q_quality = Some (py ''good''), q_timestamp = Some (utc_datetime (utc_midnight 739001)), q_observed = None,
     q_current = None, q_last = Some (ADec 10)\<rparr>"

theorem overlay_of_candidate_witness:
  "case overlay_evaluate demo_plan demo_quote (utc_datetime (utc_midnight 739001)) of Inl _ \<Rightarrow> False
   | Inr r \<Rightarrow> or_state r = CONDITIONS_MET \<and> or_state r = zone True (96 / 10) (99 / 10) (1005 / 100) 10"
proof -
  have "case overlay_evaluate demo_plan demo_quote (utc_datetime (utc_midnight 739001)) of Inl _ \<Rightarrow> False
   | Inr r \<Rightarrow> or_price r = Some 10 \<and> or_quality r = py ''GOOD'' \<and> or_quote_time r \<noteq> None" by code_simp
  then obtain r where r: "overlay_evaluate demo_plan demo_quote (utc_datetime (utc_midnight 739001)) = Inr r"
    "or_price r = Some 10" "or_quality r = py ''GOOD''" "or_quote_time r \<noteq> None" by (auto split: sum.splits)
  have st: "or_state r = zone True (96 / 10) (99 / 10) (1005 / 100) 10"
    using overlay_of_candidate[OF demo_plan_made r(1)] demo_plan_prices
    unfolding r(2) option.case using r(3,4) by (metis option.inject)
  then show ?thesis using r(1) by (simp add: zone_def)
qed

section \<open>Round trips\<close>

text \<open>C12: Every plan and every observation that can be constructed is written to JSON and read back as itself.\<close>

theorem guidance_roundtrip:
  assumes "make_plan a = Inr p" "make_observation now i pid s t qt pr ql st rs = Inr ob"
  shows "plan_from_dict (JObj (plan_to_dict p)) = Inr p \<and> observation_from_dict now (JObj (observation_to_dict ob)) = Inr ob"
  using plan_from_to[OF make_plan_ok[OF assms(1)]] observation_from_to[OF make_observation_ok[OF assms(2)]] by blast

definition demo_observation :: observation where
  "demo_observation = projr (make_observation (utc_midnight 739001) (py ''o'') (py ''p'') (py ''600000'') (utc_datetime (utc_midnight 739001))
     (utc_datetime (utc_midnight 739001)) (Some (ADec 10)) (py ''good'') (EnumText (py ''CONDITIONS_MET'')) [py ''r''])"

theorem guidance_roundtrip_witness:
  "plan_from_dict (JObj (plan_to_dict demo_plan)) = Inr demo_plan
   \<and> observation_from_dict (utc_midnight 739001) (JObj (observation_to_dict demo_observation)) = Inr demo_observation"
proof -
  have plan: "plan_ok demo_plan" using candidate_plan_sound[OF demo_plan_made] by blast
  have "returns (make_observation (utc_midnight 739001) (py ''o'') (py ''p'') (py ''600000'') (utc_datetime (utc_midnight 739001))
     (utc_datetime (utc_midnight 739001)) (Some (ADec 10)) (py ''good'') (EnumText (py ''CONDITIONS_MET'')) [py ''r''])" by code_simp
  then have "make_observation (utc_midnight 739001) (py ''o'') (py ''p'') (py ''600000'') (utc_datetime (utc_midnight 739001))
     (utc_datetime (utc_midnight 739001)) (Some (ADec 10)) (py ''good'') (EnumText (py ''CONDITIONS_MET'')) [py ''r''] = Inr demo_observation"
    by (auto simp: returns_iff demo_observation_def)
  from guidance_roundtrip[OF plan_again[OF plan] this] show ?thesis .
qed

text \<open>Reading a plan promises a \<^verbatim>\<open>ValueError\<close> for every malformed payload, but a price of \<open>10 ^ 26\<close> leaves
  \<^verbatim>\<open>from_dict\<close> as the decimal module's \<^verbatim>\<open>InvalidOperation\<close>, which no handler of \<^verbatim>\<open>ValueError\<close> catches.\<close>

theorem huge_price_escapes:
  "plan_from_dict (JObj (map (\<lambda>(k, v). if k = ''entry_lower'' then (k, JStr (py ''1e26'')) else (k, v)) (plan_to_dict demo_plan)))
     = Inl InvalidOperation \<and> \<not> is_value_error InvalidOperation"
  by code_simp

section \<open>Paper position size\<close>

lemma size_part:
  assumes "ddiv v p = Inr c" "n \<le> trunc_rat (m / 100)" "m \<le> c" "0 \<le> m" "0 < p" "0 \<le> v"
  shows "of_int (n * 100) * p \<le> v * (1 + 1 / 10 ^ 27)"
proof -
  have c: "c = ctx (v / p)" using assms(1,5) by (auto simp: ddiv_def split: if_splits)
  have "of_int n \<le> m / 100" using assms(2) trunc_rat_le[of "m / 100"] assms(4) by (meson divide_nonneg_nonneg of_int_le_iff order_trans zero_le_numeral)
  then have "of_int (n * 100) \<le> c" using assms(3) by simp
  also have "c \<le> v / p + \<bar>v / p\<bar> / 10 ^ 27" unfolding c using ctx_error[of "v / p"] by (simp only: abs_le_iff) linarith
  also have "\<bar>v / p\<bar> = v / p" using assms(5,6) by simp
  finally have "of_int (n * 100) * p \<le> (v / p + v / p / 10 ^ 27) * p" by (intro mult_right_mono) (use assms(5) in simp_all)
  also have "\<dots> = v * (1 + 1 / 10 ^ 27)" using assms(5) by (simp add: field_simps)
  finally show ?thesis .
qed

text \<open>C13: The paper position size is a non-negative number of whole lots whose value is at most 5 percent of the equity, the
  cash, and what the industry value leaves of 20 percent of the equity, and whose loss down to the invalidation
  price is at most half a percent of the equity, up to the rounding of the 28-digit context.\<close>

theorem position_size_bounds:
  assumes "position_size eq csh p inval ind = Inr n" "0 < n"
  shows "100 dvd n \<and> 0 < inval \<and> inval < p
    \<and> of_int n * p \<le> dmul eq (5 / 100) * (1 + 1 / 10 ^ 27) \<and> of_int n * p \<le> csh * (1 + 1 / 10 ^ 27)
    \<and> of_int n * p \<le> max 0 (dsub (dmul eq (20 / 100)) ind) * (1 + 1 / 10 ^ 27)
    \<and> of_int n * dsub p inval \<le> dmul eq (5 / 1000) * (1 + 1 / 10 ^ 27)"
proof -
  have pos: "0 < eq" "0 < csh" "0 < p" "0 < inval" "inval < p"
    using assms by (auto simp: position_size_def not_le split: if_splits)
  then obtain rc pc ic cc lots where c: "ddiv (dmul eq (5 / 1000)) (dsub p inval) = Inr rc" "ddiv (dmul eq (5 / 100)) p = Inr pc"
    "ddiv (max 0 (dsub (dmul eq (20 / 100)) ind)) p = Inr ic" "ddiv csh p = Inr cc"
    "dfloordiv (min (min rc pc) (min ic cc)) 100 = Inr lots" "n = max 0 (lots * 100)"
    using assms(1) by (auto simp: position_size_def bindR_Inr_iff)
  have n: "n = lots * 100" using c(6) assms(2) by (auto simp: max_def split: if_splits)
  define m where "m = min (min rc pc) (min ic cc)"
  have lots: "lots = trunc_rat (m / 100)" using c(5) by (auto simp: dfloordiv_def m_def Let_def split: if_splits)
  have nn: "0 \<le> dmul eq (5 / 1000)" "0 \<le> dmul eq (5 / 100)" "0 \<le> max 0 (dsub (dmul eq (20 / 100)) ind)" "0 \<le> csh"
    using pos by (simp_all add: dmul_nonneg)
  have d: "0 \<le> dsub p inval" using pos by (simp add: dsub_def ctx_nonneg)
  moreover have "dsub p inval \<noteq> 0" using c(1) by (auto simp: ddiv_def split: if_splits)
  ultimately have dp: "0 < dsub p inval" by simp
  have "0 \<le> rc" "0 \<le> pc" "0 \<le> ic" "0 \<le> cc"
    using ddiv_nonneg[OF nn(1) dp c(1)] ddiv_nonneg[OF nn(2) pos(3) c(2)] ddiv_nonneg[OF nn(3) pos(3) c(3)] ddiv_nonneg[OF nn(4) pos(3) c(4)] by blast+
  then have m: "0 \<le> m" "m \<le> rc" "m \<le> pc" "m \<le> ic" "m \<le> cc" unfolding m_def by auto
  have le: "lots \<le> trunc_rat (m / 100)" by (simp add: lots)
  show ?thesis unfolding n
    using size_part[OF c(1) le m(2) m(1) dp nn(1)] size_part[OF c(2) le m(3) m(1) pos(3) nn(2)]
      size_part[OF c(3) le m(4) m(1) pos(3) nn(3)] size_part[OF c(4) le m(5) m(1) pos(3) nn(4)] pos(4,5)
    by (intro conjI) (assumption | simp only: dvd_triv_right)+
qed

theorem position_size_bounds_witness:
  "position_size 1000000 50000 10 (96 / 10) 0 = Inr 5000 \<and> of_int 5000 * 10 \<le> (50000 :: rat) * (1 + 1 / 10 ^ 27)"
proof -
  have run: "position_size 1000000 50000 10 (96 / 10) 0 = Inr 5000" by code_simp
  show ?thesis using position_size_bounds[OF run] run by simp
qed

section \<open>Held positions\<close>



end
