(* ===== verification/Model_Promotion.thy ===== *)
theory Model_Promotion
  imports Symbols Py_Time
begin

text \<open>
  \<^verbatim>\<open>promotion.py\<close> and \<^verbatim>\<open>research/governance.py\<close>: the sequential promotion machine with its structural gate, and the
  governance of the champion model.  An operation that raises leaves its state as it was, so it returns the new
  state only with its result.  The clock and \<^verbatim>\<open>uuid4\<close> are arguments.
\<close>

section \<open>The promotion machine\<close>

datatype promotion_state = RESEARCH | SIGNAL_VALIDATED | SIGNAL_VALIDATED_FIXTURE | FAST_BACKTEST_PASS | ROBUSTNESS_PASS
  | RQALPHA_PASS | WALK_FORWARD_PASS | PAPER_TRADING | PAPER_VALIDATED

definition promotion_names :: "(pystr \<times> promotion_state) list" where
  "promotion_names = [(py ''RESEARCH'', RESEARCH), (py ''SIGNAL_VALIDATED'', SIGNAL_VALIDATED),
     (py ''SIGNAL_VALIDATED_FIXTURE'', SIGNAL_VALIDATED_FIXTURE), (py ''FAST_BACKTEST_PASS'', FAST_BACKTEST_PASS),
     (py ''ROBUSTNESS_PASS'', ROBUSTNESS_PASS), (py ''RQALPHA_PASS'', RQALPHA_PASS), (py ''WALK_FORWARD_PASS'', WALK_FORWARD_PASS),
     (py ''PAPER_TRADING'', PAPER_TRADING), (py ''PAPER_VALIDATED'', PAPER_VALIDATED)]"

datatype promotion_arg = Target promotion_state | TargetText pystr

definition parse_promotion :: "promotion_arg \<Rightarrow> promotion_state result" where
  "parse_promotion a = (case a of Target s \<Rightarrow> Inr s | TargetText t \<Rightarrow>
     if py_upper t = py ''LIVE'' then Inl (ValueError ''LIVE promotion state is forbidden'')
     else (case dict_get promotion_names (py_upper t) of None \<Rightarrow> Inl (ValueError ''invalid promotion state: {value}'')
       | Some s \<Rightarrow> Inr s))"

definition required_checks :: "string list" where
  "required_checks = [''no_pit_leak'', ''no_look_ahead'', ''dataset_valid'', ''test_split_valid'', ''signal_frame_valid'', ''ic_valid'',
     ''rank_ic_valid'', ''minimum_sample_count_valid'']"

type_synonym checks = "(string \<times> bool) list"

definition gate_evaluate :: "checks \<Rightarrow> bool \<times> checks" where
  "gate_evaluate cs = (let n = map (\<lambda>k. (k, dict_get cs k = Some True)) required_checks in (list_all snd n, n))"

record gate_decision =
  gd_accepted :: bool
  from_state :: promotion_state
  to_state :: promotion_state
  gd_checks :: checks
  gd_reason :: string

record machine =
  m_state :: promotion_state
  history :: "gate_decision list"

definition promotion_order :: "promotion_state list" where
  "promotion_order = [RESEARCH, SIGNAL_VALIDATED, FAST_BACKTEST_PASS, ROBUSTNESS_PASS, RQALPHA_PASS, WALK_FORWARD_PASS,
     PAPER_TRADING, PAPER_VALIDATED]"

definition new_machine :: "promotion_arg \<Rightarrow> machine result" where
  "new_machine a = bindR (parse_promotion a) (\<lambda>s. Inr \<lparr>m_state = s, history = []\<rparr>)"

fun index_of :: "'a list \<Rightarrow> 'a \<Rightarrow> nat option" where
  "index_of [] x = None"
| "index_of (y # ys) x = (if x = y then Some 0 else map_option Suc (index_of ys x))"

definition decide :: "machine \<Rightarrow> promotion_state \<Rightarrow> checks \<Rightarrow> string \<Rightarrow> machine \<times> gate_decision" where
  "decide m target cs ok_reason =
     (let (passed, n) = gate_evaluate cs;
          d = \<lparr>gd_accepted = passed, from_state = m_state m, to_state = target, gd_checks = n,
               gd_reason = (if passed then ok_reason else ''one or more structural checks failed'')\<rparr>
      in (\<lparr>m_state = (if passed then target else m_state m), history = history m @ [d]\<rparr>, d))"

definition transition :: "machine \<Rightarrow> promotion_arg \<Rightarrow> checks \<Rightarrow> pystr \<Rightarrow> (machine \<times> gate_decision) result" where
  "transition m target cs mode_text =
     bindR (validate_data_mode mode_text) (\<lambda>mode.
     bindR (parse_promotion target) (\<lambda>t.
     if mode = fixture
     then let t' = (if t = SIGNAL_VALIDATED then SIGNAL_VALIDATED_FIXTURE else t) in
       if m_state m \<noteq> RESEARCH then Inl (ValueError ''fixture data cannot promote from the current state'')
       else if t' \<noteq> SIGNAL_VALIDATED_FIXTURE then Inl (ValueError ''fixture data cannot promote to a production state'')
       else Inr (decide m t' cs ''fixture structural checks passed; production promotion is forbidden'')
     else if t = SIGNAL_VALIDATED_FIXTURE then Inl (ValueError ''SIGNAL_VALIDATED_FIXTURE requires fixture data'')
     else if m_state m = SIGNAL_VALIDATED_FIXTURE then Inl (ValueError ''fixture data cannot promote to a production state'')
     else (case (index_of promotion_order (m_state m), index_of promotion_order t) of
         (Some i, Some j) \<Rightarrow> if j \<noteq> Suc i then Inl (ValueError ''promotion transitions must be sequential'')
           else Inr (decide m t cs ''all structural checks passed'')
       | _ \<Rightarrow> Inl (ValueError ''tuple.index(x): x not in tuple''))))"

section \<open>What the machine keeps\<close>

definition path_of :: "machine \<Rightarrow> promotion_state list" where
  "path_of m = map to_state (filter gd_accepted (history m))"

definition machine_inv :: "machine \<Rightarrow> bool" where
  "machine_inv m \<longleftrightarrow>
     ((m_state m = SIGNAL_VALIDATED_FIXTURE \<and> path_of m = [SIGNAL_VALIDATED_FIXTURE])
      \<or> (\<exists>k < length promotion_order. m_state m = promotion_order ! k \<and> path_of m = take k (tl promotion_order)))
     \<and> (\<forall>d \<in> set (history m). map fst (gd_checks d) = required_checks \<and> gd_accepted d = list_all snd (gd_checks d))"

inductive machine_step :: "machine \<Rightarrow> machine \<Rightarrow> bool" where
  "transition m a cs md = Inr (m', d) \<Longrightarrow> machine_step m m'"

inductive_cases machine_stepE: "machine_step m m'"

lemma index_of_Some: "index_of xs x = Some i \<Longrightarrow> i < length xs \<and> xs ! i = x"
  by (induction xs arbitrary: i) (auto split: if_splits)

lemma gate_evaluate_checks: "gate_evaluate cs = (b, n) \<Longrightarrow> map fst n = required_checks \<and> b = list_all snd n"
  by (auto simp: gate_evaluate_def Let_def comp_def)

text \<open>A transition that returns records one decision of the gate, along an allowed edge.\<close>

definition edge :: "promotion_state \<Rightarrow> promotion_state \<Rightarrow> bool" where
  "edge s t \<longleftrightarrow> (s = RESEARCH \<and> t = SIGNAL_VALIDATED_FIXTURE)
     \<or> (\<exists>i. Suc i < length promotion_order \<and> s = promotion_order ! i \<and> t = promotion_order ! Suc i)"

lemma transition_Inr:
  assumes "transition m a cs md = Inr (m', d)"
  shows "edge (m_state m) (to_state d) \<and> history m' = history m @ [d] \<and> from_state d = m_state m
    \<and> m_state m' = (if gd_accepted d then to_state d else m_state m)
    \<and> map fst (gd_checks d) = required_checks \<and> gd_accepted d = list_all snd (gd_checks d)"
proof -
  obtain t r where e: "edge (m_state m) t" and run: "decide m t cs r = (m', d)"
  proof -
    obtain mode t where m: "validate_data_mode md = Inr mode" "parse_promotion a = Inr t"
      using assms by (auto simp: transition_def bindR_Inr_iff)
    show thesis
    proof (cases "mode = fixture")
      case True
      then have "m_state m = RESEARCH" "decide m SIGNAL_VALIDATED_FIXTURE cs ''fixture structural checks passed; production promotion is forbidden'' = (m', d)"
        using assms m by (auto simp: transition_def Let_def split: if_splits)
      then show thesis by (intro that) (auto simp: edge_def)
    next
      case False
      then obtain i j where ij: "index_of promotion_order (m_state m) = Some i" "index_of promotion_order t = Some j" "j = Suc i"
        "decide m t cs ''all structural checks passed'' = (m', d)"
        using assms m by (auto simp: transition_def split: if_splits option.splits)
      show thesis
        by (rule that[OF _ ij(4)]) (use index_of_Some[OF ij(1)] index_of_Some[OF ij(2)] ij(3) in \<open>auto simp: edge_def\<close>)
    qed
  qed
  obtain b n where g: "gate_evaluate cs = (b, n)" by (cases "gate_evaluate cs")
  show ?thesis using e run gate_evaluate_checks[OF g] by (auto simp: decide_def g Let_def)
qed

lemma order_distinct: "distinct promotion_order" "length promotion_order = 8" "SIGNAL_VALIDATED_FIXTURE \<notin> set promotion_order"
  "promotion_order ! 0 = RESEARCH"
  by (simp_all add: promotion_order_def)

lemma machine_step_inv:
  assumes "machine_step m m'" "machine_inv m"
  shows "machine_inv m'"
  using assms(1)
proof (rule machine_stepE)
  fix a cs md d
  assume run: "transition m a cs md = Inr (m', d)"
  note t = transition_Inr[OF run]
  have checks: "\<forall>d \<in> set (history m'). map fst (gd_checks d) = required_checks \<and> gd_accepted d = list_all snd (gd_checks d)"
    using t assms(2) by (auto simp: machine_inv_def)
  have path: "path_of m' = path_of m @ (if gd_accepted d then [to_state d] else [])" using t by (simp add: path_of_def)
  show ?thesis
  proof (cases "gd_accepted d")
    case False
    then show ?thesis using assms(2) t path checks by (simp add: machine_inv_def)
  next
    case True
    have st: "m_state m' = to_state d" "path_of m' = path_of m @ [to_state d]" using t path True by auto
    have notfix: "m_state m \<noteq> SIGNAL_VALIDATED_FIXTURE"
    proof
      assume f: "m_state m = SIGNAL_VALIDATED_FIXTURE"
      then have "\<exists>i. Suc i < length promotion_order \<and> SIGNAL_VALIDATED_FIXTURE = promotion_order ! i" using t by (auto simp: edge_def)
      then show False using order_distinct(3) by (metis Suc_lessD nth_mem)
    qed
    then obtain k where k: "k < length promotion_order" "m_state m = promotion_order ! k" "path_of m = take k (tl promotion_order)"
      using assms(2) by (auto simp: machine_inv_def)
    from t have "edge (m_state m) (to_state d)" by blast
    then consider "m_state m = RESEARCH" "to_state d = SIGNAL_VALIDATED_FIXTURE"
      | i where "Suc i < length promotion_order" "m_state m = promotion_order ! i" "to_state d = promotion_order ! Suc i"
      by (auto simp: edge_def)
    then show ?thesis
    proof cases
      case 1
      then have "k = 0" using k order_distinct by (metis distinct_conv_nth length_greater_0_conv list.size(3) zero_neq_numeral)
      then have "path_of m' = [SIGNAL_VALIDATED_FIXTURE]" using st k(3) 1 by simp
      then show ?thesis using st 1 checks by (simp add: machine_inv_def)
    next
      case (2 i)
      have "k = i" using k(1,2) 2(1,2) order_distinct(1) by (simp add: nth_eq_iff_index_eq)
      then have "path_of m' = take (Suc i) (tl promotion_order)" using st(2) k(3) 2(1,3) by (simp add: take_Suc_conv_app_nth nth_tl)
      then have "\<exists>k < length promotion_order. m_state m' = promotion_order ! k \<and> path_of m' = take k (tl promotion_order)"
        by (intro exI[of _ "Suc i"]) (use st(1) 2 in simp)
      then show ?thesis using checks unfolding machine_inv_def by (intro conjI disjI2)
    qed
  qed
qed

lemma machine_inv_new: "machine_inv \<lparr>m_state = RESEARCH, history = []\<rparr>"
  unfolding machine_inv_def path_of_def using order_distinct by (auto intro!: exI[of _ 0])

lemma machine_reachable_inv: "machine_step\<^sup>*\<^sup>* \<lparr>m_state = RESEARCH, history = []\<rparr> m \<Longrightarrow> machine_inv m"
  by (induction rule: rtranclp_induct) (auto simp: machine_inv_new intro: machine_step_inv)

section \<open>Governance\<close>

record hypothesis =
  factor_name :: pystr
  mechanism :: pystr
  expected_direction :: pystr
  required_fields :: "pystr list"
  decay_horizon_days :: int
  failure_modes :: "pystr list"
  neutralization_rules :: "pystr list"

definition nonblank :: "string \<Rightarrow> pystr \<Rightarrow> pystr result" where
  "nonblank f s = (if py_strip s = [] then Inl (ValueError (f @ '' is required'')) else Inr (py_strip s))"

definition blank_items :: "pystr list \<Rightarrow> bool" where
  "blank_items xs \<longleftrightarrow> xs = [] \<or> (\<exists>x \<in> set xs. py_strip x = [])"

definition make_hypothesis :: "pystr \<Rightarrow> pystr \<Rightarrow> pystr \<Rightarrow> pystr list \<Rightarrow> int \<Rightarrow> pystr list \<Rightarrow> pystr list \<Rightarrow> hypothesis result" where
  "make_hypothesis fn mech dir rf dh fm nr =
     bindR (nonblank ''factor_name'' fn) (\<lambda>f. bindR (nonblank ''mechanism'' mech) (\<lambda>m.
     let d = py_lower (py_strip dir) in
     if d \<notin> {py ''positive'', py ''negative'', py ''neutral''}
     then Inl (ValueError ''expected_direction must be positive, negative, or neutral'')
     else if blank_items rf then Inl (ValueError ''required_fields cannot be empty'')
     else if dh \<le> 0 then Inl (ValueError ''decay_horizon_days must be positive'')
     else if blank_items fm then Inl (ValueError ''failure_modes cannot be empty'')
     else Inr \<lparr>factor_name = f, mechanism = m, expected_direction = d, required_fields = rf, decay_horizon_days = dh,
                failure_modes = fm, neutralization_rules = nr\<rparr>))"

record model_card =
  candidate_id :: pystr
  model_family :: pystr
  intended_use :: pystr
  card_horizons :: "int list"
  hypotheses :: "hypothesis list"
  created_at :: utc
  code_hash :: pystr
  card_mode :: data_mode

definition make_model_card ::
  "pystr \<Rightarrow> pystr \<Rightarrow> pystr \<Rightarrow> int list \<Rightarrow> hypothesis list \<Rightarrow> datetime \<Rightarrow> pystr \<Rightarrow> pystr \<Rightarrow> model_card result" where
  "make_model_card i fam u hs hyps t ch md =
     bindR (nonblank ''candidate_id'' i) (\<lambda>i'. bindR (nonblank ''model_family'' fam) (\<lambda>fam'.
     bindR (nonblank ''intended_use'' u) (\<lambda>u'. bindR (nonblank ''code_hash'' ch) (\<lambda>ch'.
     if hs = [] \<or> \<not> set hs \<subseteq> {5, 10, 20} then Inl (ValueError ''horizons must be a non-empty subset of 5, 10, and 20'')
     else if \<not> distinct hs then Inl (ValueError ''horizons must be unique'')
     else if hyps = [] then Inl (ValueError ''hypotheses must contain EconomicHypothesis records'')
     else bindR (as_utc t ''created_at'') (\<lambda>t'. bindR (validate_data_mode md) (\<lambda>md'.
     Inr \<lparr>candidate_id = i', model_family = fam', intended_use = u', card_horizons = hs, hypotheses = hyps, created_at = t',
          code_hash = ch', card_mode = md'\<rparr>))))))"

definition validation_checks :: "string list" where
  "validation_checks = [''causality_pass'', ''reproducible_pass'', ''walk_forward_pass'', ''post_cost_pass'', ''drawdown_pass'',
     ''tail_risk_pass'', ''calibration_pass'', ''perturbation_pass'', ''drift_pass'', ''shadow_pass'']"

text \<open>A bundle keeps its ten flags under their field names.\<close>

record evidence_bundle =
  bundle_id :: pystr
  flags :: checks
  bundle_mode :: data_mode

definition make_bundle :: "pystr \<Rightarrow> checks \<Rightarrow> pystr \<Rightarrow> evidence_bundle result" where
  "make_bundle i fl md = bindR (nonblank ''bundle_id'' i) (\<lambda>i'. bindR (validate_data_mode md) (\<lambda>md'.
     Inr \<lparr>bundle_id = i', flags = map (\<lambda>k. (k, dict_get fl k = Some True)) validation_checks, bundle_mode = md'\<rparr>))"

definition all_passed :: "pystr \<Rightarrow> checks \<Rightarrow> pystr option \<Rightarrow> evidence_bundle result" where
  "all_passed i ovs md =
     (if \<not> fst ` set ovs \<subseteq> set validation_checks then Inl (ValueError ''unknown validation override'')
      else make_bundle i (map (\<lambda>k. (k, case dict_get ovs k of None \<Rightarrow> True | Some b \<Rightarrow> b)) validation_checks)
             (case md of None \<Rightarrow> py ''historical'' | Some t \<Rightarrow> t))"

definition passes :: "evidence_bundle \<Rightarrow> bool" where
  "passes b \<longleftrightarrow> bundle_mode b \<noteq> fixture \<and> list_all snd (flags b)"

record promotion_request =
  request_id :: pystr
  req_candidate :: pystr
  req_bundle :: pystr
  requested_at :: utc
  req_status :: string

record promotion_decision =
  pd_request :: pystr
  pd_accepted :: bool
  pd_champion :: "pystr option"
  pd_previous :: "pystr option"
  approved_by :: pystr
  decided_at :: utc
  pd_reason :: string

record governance =
  cards :: "pystr \<rightharpoonup> model_card"
  bundles :: "pystr \<rightharpoonup> evidence_bundle"
  candidate_bundle_ids :: "pystr \<rightharpoonup> pystr"
  requests :: "pystr \<rightharpoonup> promotion_request"
  decisions :: "promotion_decision list"
  champion_id :: "pystr option"

definition new_governance :: governance where
  "new_governance = \<lparr>cards = Map.empty, bundles = Map.empty, candidate_bundle_ids = Map.empty, requests = Map.empty,
     decisions = [], champion_id = None\<rparr>"

definition register_challenger :: "governance \<Rightarrow> model_card \<Rightarrow> evidence_bundle \<Rightarrow> governance result" where
  "register_challenger g mcard ev =
     (if cards g (candidate_id mcard) \<noteq> None then Inl (ValueError ''candidate_id is already registered'')
      else Inr (g\<lparr>cards := (cards g)(candidate_id mcard \<mapsto> mcard), bundles := (bundles g)(bundle_id ev \<mapsto> ev),
                 candidate_bundle_ids := (candidate_bundle_ids g)(candidate_id mcard \<mapsto> bundle_id ev)\<rparr>))"

definition validation_for :: "governance \<Rightarrow> pystr \<Rightarrow> evidence_bundle result" where
  "validation_for g c =
     (if cards g c = None then Inl (ValueError ''candidate_id is not registered'')
      else case candidate_bundle_ids g c of None \<Rightarrow> Inl KeyError
        | Some b \<Rightarrow> (case bundles g b of None \<Rightarrow> Inl KeyError | Some ev \<Rightarrow> Inr ev))"

definition request_promotion :: "governance \<Rightarrow> pystr \<Rightarrow> pystr \<Rightarrow> utc \<Rightarrow> (governance \<times> promotion_request) result" where
  "request_promotion g uuid c now =
     bindR (validation_for g c) (\<lambda>b.
     if \<not> passes b then Inl (ValueError ''validation evidence does not authorize promotion'')
     else let r = \<lparr>request_id = py ''promotion-'' @ uuid, req_candidate = c, req_bundle = bundle_id b, requested_at = now,
                   req_status = ''PENDING_APPROVAL''\<rparr>
       in Inr (g\<lparr>requests := (requests g)(request_id r \<mapsto> r)\<rparr>, r))"

definition decided :: "governance \<Rightarrow> pystr \<Rightarrow> pystr option \<Rightarrow> pystr \<Rightarrow> utc \<Rightarrow> string \<Rightarrow> governance \<times> promotion_decision" where
  "decided g rid target who now reason =
     (let d = \<lparr>pd_request = rid, pd_accepted = True, pd_champion = target, pd_previous = champion_id g, approved_by = who,
               decided_at = now, pd_reason = reason\<rparr>
      in (g\<lparr>champion_id := target, decisions := decisions g @ [d]\<rparr>, d))"

definition approve_promotion :: "governance \<Rightarrow> pystr \<Rightarrow> pystr \<Rightarrow> utc \<Rightarrow> (governance \<times> promotion_decision) result" where
  "approve_promotion g rid who now = (case requests g rid of
       None \<Rightarrow> Inl (ValueError ''unknown promotion request'')
     | Some r \<Rightarrow>
         if py_strip who = [] then Inl (ValueError ''approved_by is required'')
         else bindR (validation_for g (req_candidate r)) (\<lambda>b.
         if \<not> passes b then Inl (ValueError ''validation evidence no longer authorizes promotion'')
         else Inr (decided g rid (Some (req_candidate r)) (py_strip who) now
                ''explicit local approval after complete validation evidence'')))"

definition rollback :: "governance \<Rightarrow> pystr \<Rightarrow> pystr option \<Rightarrow> pystr \<Rightarrow> utc \<Rightarrow> (governance \<times> promotion_decision) result" where
  "rollback g uuid target who now =
     (if py_strip who = [] then Inl (ValueError ''approved_by is required'')
      else let t = map_option py_strip target in
      if (case t of None \<Rightarrow> False | Some c \<Rightarrow> cards g c = None)
      then Inl (ValueError ''rollback target is not a registered candidate'')
      else Inr (decided g (py ''rollback-'' @ uuid) t (py_strip who) now
             ''explicit local rollback after model or data-quality review''))"

section \<open>What governance keeps\<close>

inductive governance_step :: "governance \<Rightarrow> governance \<Rightarrow> bool" where
  register: "register_challenger g mcard ev = Inr g' \<Longrightarrow> governance_step g g'"
| request: "request_promotion g uuid c now = Inr (g', r) \<Longrightarrow> governance_step g g'"
| approve: "approve_promotion g rid who now = Inr (g', d) \<Longrightarrow> governance_step g g'"
| roll_back: "rollback g uuid target who now = Inr (g', d) \<Longrightarrow> governance_step g g'"

text \<open>The decisions are a chain: each starts from the champion the one before it made.\<close>

fun linked :: "pystr option \<Rightarrow> promotion_decision list \<Rightarrow> pystr option \<Rightarrow> bool" where
  "linked start [] end' \<longleftrightarrow> start = end'"
| "linked start (d # ds) end' \<longleftrightarrow> pd_previous d = start \<and> linked (pd_champion d) ds end'"

lemma linked_snoc: "linked s ds e \<Longrightarrow> pd_previous d = e \<Longrightarrow> linked s (ds @ [d]) (pd_champion d)"
  by (induction s ds e rule: linked.induct) auto

definition governance_inv :: "governance \<Rightarrow> bool" where
  "governance_inv g \<longleftrightarrow> linked None (decisions g) (champion_id g)
     \<and> (\<forall>d \<in> set (decisions g). approved_by d \<noteq> [] \<and> pd_accepted d
          \<and> (\<forall>c. pd_champion d = Some c \<longrightarrow> cards g c \<noteq> None))
     \<and> (\<forall>c. champion_id g = Some c \<longrightarrow> cards g c \<noteq> None)
     \<and> (\<forall>c. cards g c \<noteq> None \<longrightarrow> (\<exists>b ev. candidate_bundle_ids g c = Some b \<and> bundles g b = Some ev \<and> bundle_id ev = b))
     \<and> (\<forall>i r. requests g i = Some r \<longrightarrow> cards g (req_candidate r) \<noteq> None)"

lemma validation_for_Inr: "validation_for g c = Inr b \<Longrightarrow> cards g c \<noteq> None"
  by (auto simp: validation_for_def split: if_splits)

lemma decided_inv:
  assumes "governance_inv g" "decided g rid t who now reason = (g', d)" "who \<noteq> []" "\<forall>c. t = Some c \<longrightarrow> cards g c \<noteq> None"
  shows "governance_inv g'"
proof -
  have d: "d = \<lparr>pd_request = rid, pd_accepted = True, pd_champion = t, pd_previous = champion_id g, approved_by = who,
               decided_at = now, pd_reason = reason\<rparr>" "g' = g\<lparr>champion_id := t, decisions := decisions g @ [d]\<rparr>"
    using assms(2) by (auto simp: decided_def Let_def)
  have "linked None (decisions g) (champion_id g)" using assms(1) by (simp add: governance_inv_def)
  then have "linked None (decisions g @ [d]) (pd_champion d)" by (rule linked_snoc) (simp add: d(1))
  then have link: "linked None (decisions g') (champion_id g')" by (simp add: d)
  show ?thesis unfolding governance_inv_def
  proof (intro conjI link)
    show "\<forall>x \<in> set (decisions g'). approved_by x \<noteq> [] \<and> pd_accepted x \<and> (\<forall>c. pd_champion x = Some c \<longrightarrow> cards g' c \<noteq> None)"
      using assms by (auto simp: d governance_inv_def)
    show "\<forall>c. champion_id g' = Some c \<longrightarrow> cards g' c \<noteq> None" using assms(4) by (simp add: d)
  qed (use assms(1) in \<open>simp_all add: d(2) governance_inv_def\<close>)
qed

lemma register_inv:
  assumes "governance_inv g" "register_challenger g mcard ev = Inr g'"
  shows "governance_inv g'"
proof -
  have g': "g' = g\<lparr>cards := (cards g)(candidate_id mcard \<mapsto> mcard), bundles := (bundles g)(bundle_id ev \<mapsto> ev),
                 candidate_bundle_ids := (candidate_bundle_ids g)(candidate_id mcard \<mapsto> bundle_id ev)\<rparr>"
    using assms(2) by (auto simp: register_challenger_def split: if_splits)
  have old: "linked None (decisions g) (champion_id g)"
    "\<forall>d \<in> set (decisions g). approved_by d \<noteq> [] \<and> pd_accepted d \<and> (\<forall>c. pd_champion d = Some c \<longrightarrow> cards g c \<noteq> None)"
    "\<forall>c. champion_id g = Some c \<longrightarrow> cards g c \<noteq> None"
    "\<forall>c. cards g c \<noteq> None \<longrightarrow> (\<exists>b ev. candidate_bundle_ids g c = Some b \<and> bundles g b = Some ev \<and> bundle_id ev = b)"
    "\<forall>i r. requests g i = Some r \<longrightarrow> cards g (req_candidate r) \<noteq> None"
    using assms(1) unfolding governance_inv_def by blast+
  show ?thesis unfolding governance_inv_def
  proof (intro conjI)
    show "\<forall>c. cards g' c \<noteq> None \<longrightarrow> (\<exists>b ev. candidate_bundle_ids g' c = Some b \<and> bundles g' b = Some ev \<and> bundle_id ev = b)"
    proof (intro allI impI)
      fix c
      assume c: "cards g' c \<noteq> None"
      show "\<exists>b ev. candidate_bundle_ids g' c = Some b \<and> bundles g' b = Some ev \<and> bundle_id ev = b"
      proof (cases "c = candidate_id mcard")
        case False
        then obtain b e where "candidate_bundle_ids g c = Some b" "bundles g b = Some e" "bundle_id e = b"
          using c old(4) by (auto simp: g')
        then show ?thesis using False by (cases "b = bundle_id ev") (auto simp: g')
      qed (simp add: g')
    qed
  qed (use old in \<open>auto simp: g'\<close>)
qed

lemma governance_step_inv: "governance_step g g' \<Longrightarrow> governance_inv g \<Longrightarrow> governance_inv g'"
proof (induction rule: governance_step.induct)
  case (register g mcard ev g')
  then show ?case using register_inv by blast
next
  case (request g uuid c now g' r)
  then obtain b where "validation_for g c = Inr b" "g' = g\<lparr>requests := (requests g)(request_id r \<mapsto> r)\<rparr>" "req_candidate r = c"
    by (auto simp: request_promotion_def bindR_Inr_iff Let_def split: if_splits)
  then show ?case using request.prems validation_for_Inr by (auto simp: governance_inv_def)
next
  case (approve g rid who now g' d)
  then obtain r where r: "requests g rid = Some r" "py_strip who \<noteq> []"
    "decided g rid (Some (req_candidate r)) (py_strip who) now ''explicit local approval after complete validation evidence'' = (g', d)"
    by (auto simp: approve_promotion_def bindR_Inr_iff split: option.splits if_splits)
  show ?case by (rule decided_inv[OF approve.prems r(3,2)]) (use approve.prems r(1) in \<open>auto simp: governance_inv_def\<close>)
next
  case (roll_back g uuid target who now g' d)
  then have r: "py_strip who \<noteq> []" "\<forall>c. map_option py_strip target = Some c \<longrightarrow> cards g c \<noteq> None"
    "decided g (py ''rollback-'' @ uuid) (map_option py_strip target) (py_strip who) now ''explicit local rollback after model or data-quality review'' = (g', d)"
    by (auto simp: rollback_def Let_def split: if_splits option.splits)
  show ?case by (rule decided_inv[OF roll_back.prems r(3,1,2)])
qed

lemma governance_inv_new: "governance_inv new_governance"
  by (simp add: governance_inv_def new_governance_def)

lemma governance_reachable_inv: "governance_step\<^sup>*\<^sup>* new_governance g \<Longrightarrow> governance_inv g"
  by (induction rule: rtranclp_induct) (auto simp: governance_inv_new intro: governance_step_inv)

end
