(* ===== verification/Promotion_Properties.thy ===== *)
theory Promotion_Properties
  imports Model_Promotion
begin

text \<open>
  The properties of model promotion: the order of the states, the audit chain of the champion, and what the
  evidence behind it is worth.
\<close>

definition all_checks :: checks where
  "all_checks = map (\<lambda>k. (k, True)) required_checks"

definition start :: machine where "start = \<lparr>m_state = RESEARCH, history = []\<rparr>"

text \<open>C15: After any sequence of transitions from RESEARCH the accepted ones form an initial path of the promotion order ending
  in the current state, or the machine is in SIGNAL_VALIDATED_FIXTURE, reached by fixture data alone and never left; a
  decision is accepted exactly when all eight structural checks passed.\<close>

theorem promotion_sequential:
  assumes "machine_step\<^sup>*\<^sup>* start m"
  shows "((m_state m = SIGNAL_VALIDATED_FIXTURE \<and> path_of m = [SIGNAL_VALIDATED_FIXTURE] \<and> (\<forall>m'. \<not> machine_step m m'))
      \<or> (\<exists>k < 8. m_state m = promotion_order ! k \<and> path_of m = take k (tl promotion_order)))
    \<and> (\<forall>d \<in> set (history m). map fst (gd_checks d) = required_checks \<and> gd_accepted d = list_all snd (gd_checks d))"
proof -
  have "machine_inv m" using machine_reachable_inv assms by (simp add: start_def)
  moreover have "\<not> machine_step m m'" if "m_state m = SIGNAL_VALIDATED_FIXTURE" for m'
  proof
    assume "machine_step m m'"
    then obtain a cs md d where "transition m a cs md = Inr (m', d)" by (rule machine_stepE)
    then have "edge (m_state m) (to_state d)" using transition_Inr by blast
    then have "\<exists>i < length promotion_order. SIGNAL_VALIDATED_FIXTURE = promotion_order ! i" using that by (auto simp: edge_def) (metis Suc_lessD)
    then have "SIGNAL_VALIDATED_FIXTURE \<in> set promotion_order" by (auto simp: in_set_conv_nth)
    then show False using order_distinct(3) by blast
  qed
  ultimately show ?thesis using order_distinct(2) unfolding machine_inv_def by metis
qed

theorem promotion_sequential_witness:
  "\<exists>m. machine_step\<^sup>*\<^sup>* start m \<and> m_state m = SIGNAL_VALIDATED
     \<and> (\<forall>d \<in> set (history m). gd_accepted d = list_all snd (gd_checks d))"
proof -
  have "case transition start (Target SIGNAL_VALIDATED) all_checks (py ''historical'') of
     Inl _ \<Rightarrow> False | Inr (m, d) \<Rightarrow> m_state m = SIGNAL_VALIDATED" by code_simp
  then obtain m d where run: "transition start (Target SIGNAL_VALIDATED) all_checks (py ''historical'') = Inr (m, d)" "m_state m = SIGNAL_VALIDATED"
    by (auto split: sum.splits)
  then have reach: "machine_step\<^sup>*\<^sup>* start m" by (meson machine_step.intros r_into_rtranclp)
  show ?thesis using promotion_sequential[OF reach] reach run(2) by blast
qed

text \<open>C16: The promotion machine refines the graph of allowed promotions: a transition that returns moves along an edge when
  its gate accepts, and stays when it does not, recording one decision either way; with fixture data it moves at most to
  SIGNAL_VALIDATED_FIXTURE.\<close>

theorem transition_refines_graph:
  assumes "transition m a cs md = Inr (m', d)"
  shows "edge (m_state m) (to_state d) \<and> history m' = history m @ [d]
    \<and> (m_state m' = m_state m \<or> edge (m_state m) (m_state m'))
    \<and> (validate_data_mode md = Inr fixture \<longrightarrow> m_state m' \<in> {m_state m, SIGNAL_VALIDATED_FIXTURE})
    \<and> (m_state m' \<noteq> m_state m \<longrightarrow> (\<forall>k \<in> set required_checks. dict_get cs k = Some True))"
proof -
  note t = transition_Inr[OF assms]
  have fix1: "m_state m' \<in> {m_state m, SIGNAL_VALIDATED_FIXTURE}" if "validate_data_mode md = Inr fixture"
  proof -
    from assms that obtain x where "parse_promotion a = Inr x"
      "decide m SIGNAL_VALIDATED_FIXTURE cs ''fixture structural checks passed; production promotion is forbidden'' = (m', d)"
      by (auto simp: transition_def bindR_Inr_iff Let_def split: if_splits)
    then show ?thesis by (auto simp: decide_def Let_def split: prod.splits)
  qed
  have gate: "\<forall>k \<in> set required_checks. dict_get cs k = Some True" if "m_state m' \<noteq> m_state m"
  proof -
    obtain tt r where "decide m tt cs r = (m', d)"
      using assms by (auto simp: transition_def bindR_Inr_iff Let_def split: if_splits option.splits)
    then show ?thesis using that by (auto simp: decide_def gate_evaluate_def Let_def list_all_iff split: if_splits)
  qed
  show ?thesis using t fix1 gate by auto
qed

theorem transition_refines_graph_witness:
  "case transition start (TargetText (py ''signal_validated'')) all_checks (py ''fixture'') of
     Inl _ \<Rightarrow> False | Inr (m, d) \<Rightarrow> m_state m = SIGNAL_VALIDATED_FIXTURE \<and> edge RESEARCH (m_state m)"
proof -
  have "case transition start (TargetText (py ''signal_validated'')) all_checks (py ''fixture'') of
     Inl _ \<Rightarrow> False | Inr (m, d) \<Rightarrow> m_state m = SIGNAL_VALIDATED_FIXTURE" by code_simp
  then obtain m d where run: "transition start (TargetText (py ''signal_validated'')) all_checks (py ''fixture'') = Inr (m, d)"
    "m_state m = SIGNAL_VALIDATED_FIXTURE" by (auto split: sum.splits)
  from transition_refines_graph[OF run(1)] run show ?thesis by (auto simp: start_def)
qed

text \<open>C17: The champion changes only by an approval or a rollback that names its approver and is recorded; the recorded
  decisions link up from no champion to the present one, and a champion is always a registered candidate.  An
  approval requires a recorded request and evidence on file that passes, which fixture evidence never does.\<close>

theorem champion_changes_are_recorded:
  assumes "governance_step\<^sup>*\<^sup>* new_governance g" "governance_step g g'"
  shows "linked None (decisions g') (champion_id g')
    \<and> (\<forall>c. champion_id g' = Some c \<longrightarrow> cards g' c \<noteq> None)
    \<and> (champion_id g' \<noteq> champion_id g \<longrightarrow> (\<exists>d. decisions g' = decisions g @ [d] \<and> pd_champion d = champion_id g' \<and> approved_by d \<noteq> []))
    \<and> (\<forall>rid who now d. approve_promotion g rid who now = Inr (g', d) \<longrightarrow>
         (\<exists>r b. requests g rid = Some r \<and> champion_id g' = Some (req_candidate r) \<and> validation_for g (req_candidate r) = Inr b
            \<and> passes b \<and> bundle_mode b \<noteq> fixture))"
proof -
  have inv: "governance_inv g'" using governance_reachable_inv[OF assms(1)] governance_step_inv[OF assms(2)] by blast
  have rec: "\<exists>d. decisions g' = decisions g @ [d] \<and> pd_champion d = champion_id g' \<and> approved_by d \<noteq> []"
    if "champion_id g' \<noteq> champion_id g"
    using assms(2) that
  proof (cases rule: governance_step.cases)
    case (register mcard ev)
    then show ?thesis using that by (auto simp: register_challenger_def split: if_splits)
  next
    case (request uuid c now r)
    then show ?thesis using that by (auto simp: request_promotion_def bindR_Inr_iff Let_def split: if_splits)
  next
    case (approve rid who now d)
    then show ?thesis by (auto simp: approve_promotion_def decided_def bindR_Inr_iff Let_def split: if_splits option.splits)
  next
    case (roll_back uuid target who now d)
    then show ?thesis by (auto simp: rollback_def decided_def Let_def split: if_splits option.splits)
  qed
  have app: "\<exists>r b. requests g rid = Some r \<and> champion_id g' = Some (req_candidate r) \<and> validation_for g (req_candidate r) = Inr b
            \<and> passes b \<and> bundle_mode b \<noteq> fixture" if "approve_promotion g rid who now = Inr (g', d)" for rid who now d
    using that by (auto simp: approve_promotion_def decided_def passes_def bindR_Inr_iff Let_def split: if_splits option.splits)
  show ?thesis using inv rec app unfolding governance_inv_def by blast
qed

definition demo_card :: "string \<Rightarrow> model_card" where
  "demo_card i = \<lparr>candidate_id = py i, model_family = py ''f'', intended_use = py ''u'', card_horizons = [5],
     hypotheses = [\<lparr>factor_name = py ''x'', mechanism = py ''m'', expected_direction = py ''positive'', required_fields = [py ''close''],
        decay_horizon_days = 5, failure_modes = [py ''r''], neutralization_rules = []\<rparr>],
     created_at = utc_midnight 739000, code_hash = py ''h'', card_mode = historical\<rparr>"

definition demo_evidence :: "bool \<Rightarrow> evidence_bundle" where
  "demo_evidence ok = \<lparr>bundle_id = py ''b'', flags = map (\<lambda>k. (k, ok)) validation_checks, bundle_mode = historical\<rparr>"

text \<open>The first candidate with evidence that passes or not, then a request for it.\<close>

definition one_candidate :: "bool \<Rightarrow> governance" where
  "one_candidate ok = projr (register_challenger new_governance (demo_card ''A'') (demo_evidence ok))"

definition requested :: "governance \<Rightarrow> governance" where
  "requested g = fst (projr (request_promotion g (py ''1'') (py ''A'') (utc_midnight 739000)))"

theorem champion_changes_are_recorded_witness:
  "case approve_promotion (requested (one_candidate True)) (py ''promotion-1'') (py ''me'') (utc_midnight 739000) of
     Inl _ \<Rightarrow> False | Inr (g', d) \<Rightarrow> champion_id g' = Some (py ''A'') \<and> linked None (decisions g') (champion_id g')"
proof -
  have "returns (register_challenger new_governance (demo_card ''A'') (demo_evidence True))" by code_simp
  then have s1: "governance_step new_governance (one_candidate True)"
    by (auto simp: returns_iff one_candidate_def intro: governance_step.register)
  have "returns (request_promotion (one_candidate True) (py ''1'') (py ''A'') (utc_midnight 739000))" by code_simp
  then have s2: "governance_step (one_candidate True) (requested (one_candidate True))"
    by (auto simp: returns_iff requested_def intro: governance_step.request)
  have reach: "governance_step\<^sup>*\<^sup>* new_governance (requested (one_candidate True))"
    using s1 s2 by (meson r_into_rtranclp rtranclp.rtrancl_into_rtrancl)
  have "case approve_promotion (requested (one_candidate True)) (py ''promotion-1'') (py ''me'') (utc_midnight 739000) of
     Inl _ \<Rightarrow> False | Inr (g', d) \<Rightarrow> champion_id g' = Some (py ''A'')" by code_simp
  then obtain g' d where run: "approve_promotion (requested (one_candidate True)) (py ''promotion-1'') (py ''me'') (utc_midnight 739000) = Inr (g', d)"
    "champion_id g' = Some (py ''A'')" by (auto split: sum.splits)
  from champion_changes_are_recorded[OF reach governance_step.approve[OF run(1)]] run show ?thesis by simp
qed

text \<open>Evidence is kept under its bundle id alone, so registering a second candidate with evidence of the same id replaces
  the first one's: a candidate whose own evidence fails every check, and whose request is refused for it, is
  promoted to champion after another candidate with passing evidence was registered.\<close>

theorem evidence_overwritten:
  "(case request_promotion (one_candidate False) (py ''1'') (py ''A'') (utc_midnight 739000) of Inr _ \<Rightarrow> False
      | Inl e \<Rightarrow> e = ValueError ''validation evidence does not authorize promotion'')
   \<and> (case register_challenger (one_candidate False) (demo_card ''B'') (demo_evidence True) of Inl _ \<Rightarrow> False
      | Inr g \<Rightarrow> (case approve_promotion (requested g) (py ''promotion-1'') (py ''me'') (utc_midnight 739000) of Inl _ \<Rightarrow> False
         | Inr (g', d) \<Rightarrow> champion_id g' = Some (py ''A'')))"
  by code_simp

end
