(* ===== verification/Realtime_Quotes.thy ===== *)
theory Realtime_Quotes
  imports Symbols Py_Time Py_Float
begin

text \<open>
  The real-time data of \<^verbatim>\<open>contracts/realtime.py\<close>, the overlay of \<^verbatim>\<open>contracts/realtime_overlay.py\<close> and the
  freshness checks of \<^verbatim>\<open>data/realtime/validation.py\<close>.  The code only compares floats, which is exact.  A duration in seconds is its number of microseconds.
\<close>

section \<open>Quality flags\<close>

datatype quality = GOOD | DEGRADED | STALE | FAILED
datatype quality_arg = Flag quality | FlagText pystr

definition quality_names :: "(pystr \<times> quality) list" where
  "quality_names = [(py ''GOOD'', GOOD), (py ''DEGRADED'', DEGRADED), (py ''STALE'', STALE), (py ''FAILED'', FAILED)]"

definition parse_quality :: "quality_arg \<Rightarrow> quality result" where
  "parse_quality a = (case a of Flag q \<Rightarrow> Inr q
     | FlagText t \<Rightarrow> (case dict_get quality_names (py_upper t) of None \<Rightarrow> Inl (ValueError ''invalid data quality status: {value}'')
         | Some q \<Rightarrow> Inr q))"

definition ensure_aware :: "datetime \<Rightarrow> string \<Rightarrow> unit result" where
  "ensure_aware t f = (if is_aware t then Inr () else Inl (ValueError (f @ '' must be timezone-aware'')))"

definition optional_number :: "pyfloat option \<Rightarrow> string \<Rightarrow> bool \<Rightarrow> unit result" where
  "optional_number v f pos = (case v of None \<Rightarrow> Inr ()
     | Some (Num x) \<Rightarrow>
         if pos \<and> x \<le> 0 then Inl (ValueError (f @ '' must be positive''))
         else if \<not> pos \<and> (f = ''volume'' \<or> f = ''amount'') \<and> x < 0 then Inl (ValueError (f @ '' cannot be negative''))
         else Inr ()
     | Some _ \<Rightarrow> Inl (ValueError (f @ '' must be finite'')))"

fun numbers :: "bool \<Rightarrow> (string \<times> pyfloat option) list \<Rightarrow> unit result" where
  "numbers pos [] = Inr ()"
| "numbers pos ((f, v) # r) = bindR (optional_number v f pos) (\<lambda>_. numbers pos r)"

section \<open>Quotes, bars and snapshots\<close>

record quote =
  qt_symbol :: pystr
  qt_market :: pystr
  exchange_time :: datetime
  received_time :: datetime
  last_price :: "pyfloat option"
  qt_source :: pystr
  qt_open :: "pyfloat option"
  qt_high :: "pyfloat option"
  qt_low :: "pyfloat option"
  previous_close :: "pyfloat option"
  qt_volume :: "pyfloat option"
  qt_amount :: "pyfloat option"
  bid1 :: "pyfloat option"
  ask1 :: "pyfloat option"
  qt_change :: "pyfloat option"
  change_pct :: "pyfloat option"
  turnover_rate :: "pyfloat option"
  quality_flag :: quality_arg
  is_stale :: bool

text \<open>\<^verbatim>\<open>RealTimeQuote.__post_init__\<close>, from the fields as given to the fields as stored.\<close>

definition check_quote :: "quote \<Rightarrow> quote result" where
  "check_quote q =
     bindR (normalize_symbol (qt_symbol q)) (\<lambda>s.
     bindR (parse_quality (quality_flag q)) (\<lambda>fl.
     bindR (ensure_aware (exchange_time q) ''timestamp_exchange'') (\<lambda>_.
     bindR (ensure_aware (received_time q) ''timestamp_received'') (\<lambda>_.
     if qt_market q = [] \<or> qt_source q = [] then Inl (ValueError ''market and source are required'')
     else bindR (numbers True [(''last'', last_price q), (''open'', qt_open q), (''high'', qt_high q), (''low'', qt_low q),
         (''previous_close'', previous_close q)]) (\<lambda>_.
     bindR (numbers False [(''volume'', qt_volume q), (''amount'', qt_amount q), (''bid1'', bid1 q), (''ask1'', ask1 q),
         (''change'', qt_change q), (''change_pct'', change_pct q), (''turnover_rate'', turnover_rate q)]) (\<lambda>_.
     if (case (qt_high q, qt_low q) of (Some h, Some l) \<Rightarrow> flt h l | _ \<Rightarrow> False)
     then Inl (ValueError ''high must not be lower than low'')
     else Inr (q\<lparr>qt_symbol := s, quality_flag := Flag (if is_stale q \<and> fl = GOOD then STALE else fl)\<rparr>)))))))"

text \<open>The age of a quote in microseconds.\<close>

definition data_age :: "quote \<Rightarrow> datetime \<Rightarrow> int result" where
  "data_age q now = bindR (ensure_aware now ''now'') (\<lambda>_. Inr (max 0 (micros (instant now) - micros (instant (exchange_time q)))))"

record minute_bar =
  mb_symbol :: pystr
  mb_time :: datetime
  mb_frequency :: pystr
  mb_open :: pyfloat
  mb_high :: pyfloat
  mb_low :: pyfloat
  mb_close :: pyfloat
  mb_volume :: pyfloat
  mb_amount :: pyfloat
  mb_source :: pystr
  is_final :: bool
  mb_flag :: quality_arg

text \<open>\<^verbatim>\<open>max\<close> and \<^verbatim>\<open>min\<close> of two floats, which are finite by then.\<close>

definition fmax :: "pyfloat \<Rightarrow> pyfloat \<Rightarrow> pyfloat" where "fmax a b = (if flt a b then b else a)"
definition fmin :: "pyfloat \<Rightarrow> pyfloat \<Rightarrow> pyfloat" where "fmin a b = (if flt b a then b else a)"

definition check_bar :: "minute_bar \<Rightarrow> minute_bar result" where
  "check_bar b =
     bindR (normalize_symbol (mb_symbol b)) (\<lambda>s.
     bindR (parse_quality (mb_flag b)) (\<lambda>fl.
     bindR (ensure_aware (mb_time b) ''timestamp'') (\<lambda>_.
     if py_lower (mb_frequency b) \<notin> set (map py [''1m'', ''5m'', ''15m'', ''30m'', ''60m''])
     then Inl (ValueError ''frequency must be one of 1m, 5m, 15m, 30m, 60m'')
     else if mb_source b = [] then Inl (ValueError ''source is required'')
     else bindR (numbers True [(''open'', Some (mb_open b)), (''high'', Some (mb_high b)), (''low'', Some (mb_low b)),
         (''close'', Some (mb_close b))]) (\<lambda>_.
     bindR (numbers False [(''volume'', Some (mb_volume b)), (''amount'', Some (mb_amount b))]) (\<lambda>_.
     if flt (mb_high b) (fmax (mb_open b) (mb_close b)) \<or> flt (fmin (mb_open b) (mb_close b)) (mb_low b)
     then Inl (ValueError ''invalid OHLC range'')
     else Inr (b\<lparr>mb_symbol := s, mb_flag := Flag fl\<rparr>))))))"

definition is_provisional :: "minute_bar \<Rightarrow> bool" where "is_provisional b \<longleftrightarrow> \<not> is_final b"

record market_snapshot =
  ms_exchange :: datetime
  ms_received :: datetime
  ms_quotes :: "quote list"
  ms_source :: pystr
  ms_flag :: quality_arg
  ms_stale :: bool

definition check_snapshot :: "market_snapshot \<Rightarrow> market_snapshot result" where
  "check_snapshot m =
     bindR (ensure_aware (ms_exchange m) ''timestamp_exchange'') (\<lambda>_.
     bindR (ensure_aware (ms_received m) ''timestamp_received'') (\<lambda>_.
     bindR (parse_quality (ms_flag m)) (\<lambda>fl.
     if ms_source m = [] then Inl (ValueError ''source is required'') else Inr (m\<lparr>ms_flag := Flag fl\<rparr>))))"

record overlay =
  ov_symbol :: pystr
  ov_time :: datetime
  ov_last :: pyfloat
  vwap :: "pyfloat option"
  volume_ratio :: "pyfloat option"
  intraday_return :: "pyfloat option"
  market_relative_strength :: "pyfloat option"
  trigger_state :: pystr
  risk_state :: pystr
  ov_quality :: quality_arg

definition check_overlay :: "overlay \<Rightarrow> overlay result" where
  "check_overlay v =
     bindR (normalize_symbol (ov_symbol v)) (\<lambda>s.
     bindR (parse_quality (ov_quality v)) (\<lambda>fl.
     bindR (ensure_aware (ov_time v) ''timestamp'') (\<lambda>_.
     bindR (numbers True [(''last'', Some (ov_last v)), (''vwap'', vwap v)]) (\<lambda>_.
     bindR (numbers False [(''volume_ratio'', volume_ratio v), (''intraday_return'', intraday_return v),
         (''market_relative_strength'', market_relative_strength v)]) (\<lambda>_.
     if trigger_state v = [] then Inl (ValueError ''trigger_state is required'')
     else if risk_state v = [] then Inl (ValueError ''risk_state is required'')
     else Inr (v\<lparr>ov_symbol := s, ov_quality := Flag fl\<rparr>))))))"

section \<open>Freshness\<close>

record quality_report =
  rep_status :: quality
  rep_quotes :: "quote list"
  missing_symbols :: "pystr list"
  quarantined_symbols :: "pystr list"
  is_usable :: bool
  can_generate_ready :: bool
  rep_reason :: string

text \<open>\<^verbatim>\<open>tuple(dict.fromkeys(...))\<close>: the first occurrences, in order.\<close>

fun dedup :: "'a list \<Rightarrow> 'a list" where
  "dedup [] = []"
| "dedup (x # xs) = x # filter (\<lambda>y. y \<noteq> x) (dedup xs)"

definition expired :: "quote \<Rightarrow> datetime \<Rightarrow> int \<Rightarrow> bool" where
  "expired q now stale_after \<longleftrightarrow> instant now < instant (exchange_time q)
     \<or> stale_after < max 0 (micros (instant now) - micros (instant (exchange_time q))) \<or> is_stale q"

text \<open>The loop over the quotes: the checked quotes and the quarantined symbols.  \<^verbatim>\<open>replace\<close> builds the marked quote with its
  constructor.\<close>

fun sift :: "datetime \<Rightarrow> int \<Rightarrow> quote list \<Rightarrow> (quote list \<times> pystr list) result" where
  "sift now stale_after [] = Inr ([], [])"
| "sift now stale_after (q # qs) =
     bindR (data_age q now) (\<lambda>_.
     bindR (if expired q now stale_after then check_quote (q\<lparr>is_stale := True, quality_flag := Flag STALE\<rparr>) else Inr q) (\<lambda>c.
     bindR (sift now stale_after qs) (\<lambda>(cs, bad).
     Inr (c # cs, if expired q now stale_after then qt_symbol q # bad else bad))))"

definition assess_quote_quality :: "quote list \<Rightarrow> pystr list \<Rightarrow> datetime \<Rightarrow> int \<Rightarrow> quality_report result" where
  "assess_quote_quality qs expected now stale_after =
     (if \<not> is_aware now then Inl (ValueError ''now must be timezone-aware'')
      else if stale_after \<le> 0 then Inl (ValueError ''stale_after_seconds must be positive'')
      else bindR (mapR normalize_symbol expected) (\<lambda>ex0.
      bindR (sift now stale_after qs) (\<lambda>(checked, bad).
      let ex = dedup ex0; fresh = filter (\<lambda>q. \<not> is_stale q) checked;
          missing = filter (\<lambda>s. s \<notin> qt_symbol ` set fresh) ex;
          (st, why) = (if checked = [] then (FAILED, ''no quotes received'')
             else if fresh = [] then (STALE, ''all received quotes exceeded the configured freshness threshold'')
             else if missing \<noteq> [] \<or> bad \<noteq> []
             then (DEGRADED, ''expected symbols are missing or stale quotes were quarantined'')
             else (GOOD, ''all received quotes passed freshness checks'')) in
      Inr \<lparr>rep_status = st, rep_quotes = checked, missing_symbols = missing, quarantined_symbols = bad,
           is_usable = (st = GOOD \<or> st = DEGRADED), can_generate_ready = (st = GOOD \<and> missing = [] \<and> bad = []),
           rep_reason = why\<rparr>)))"

section \<open>The timestamp tracker and the circuit breaker\<close>

record tracker =
  future_tolerance :: int
  last_seen :: "pystr \<rightharpoonup> datetime"

definition new_tracker :: "int \<Rightarrow> tracker" where
  "new_tracker tol = \<lparr>future_tolerance = max 0 tol, last_seen = Map.empty\<rparr>"

definition observe :: "tracker \<Rightarrow> pystr \<Rightarrow> datetime \<Rightarrow> datetime \<Rightarrow> tracker result" where
  "observe tr s t now =
     bindR (normalize_symbol s) (\<lambda>n.
     if \<not> is_aware t then Inl (ValueError ''timestamp must be timezone-aware'')
     else if \<not> is_aware now then Inl (ValueError ''now must be timezone-aware'')
     else if future_tolerance tr < micros (instant t) - micros (instant now) then Inl (ValueError ''timestamp is in the future'')
     else if (case last_seen tr n of None \<Rightarrow> False | Some p \<Rightarrow> instant t < instant p) then Inl (ValueError ''timestamp moved backwards'')
     else Inr (tr\<lparr>last_seen := (last_seen tr)(n \<mapsto> t)\<rparr>))"

datatype breaker_state = OPEN | CLOSED

definition breaker_evaluate :: "int \<Rightarrow> breaker_state \<Rightarrow> quote list \<Rightarrow> pystr list \<Rightarrow> datetime \<Rightarrow> (breaker_state \<times> quality_report) result" where
  "breaker_evaluate stale_after st qs expected now =
     bindR (assess_quote_quality qs expected now stale_after) (\<lambda>r.
     Inr (if rep_status r = STALE \<or> rep_status r = FAILED then OPEN else if is_usable r then CLOSED else st, r))"

end
