(* ===== verification/Provider_Failover.thy ===== *)
theory Provider_Failover
  imports Py_Text Py_Time
begin

text \<open>
  \<^verbatim>\<open>data/realtime/registry.py\<close>: the discovery of providers in their configured order and the failover from one to the
  next.  A provider is code of another package: what its factory, its health check and its methods return or raise is
  an argument of the operations that call them.
\<close>

section \<open>Discovery\<close>

record provider_health =
  connected :: bool
  health_permissions :: "pystr list"
  health_status :: pystr
  latency_ms :: "rat option"
  last_update :: "datetime option"
  health_message :: pystr

record provider_metadata =
  md_market :: pystr
  md_frequencies :: "pystr list"
  md_authenticated :: bool
  md_permissions :: "pystr list"

record capability =
  cap_provider :: pystr
  cap_authenticated :: bool
  cap_market :: pystr
  cap_frequency :: pystr
  cap_latency :: "rat option"
  cap_last_update :: "datetime option"
  cap_permissions :: "pystr list"
  cap_status :: pystr
  cap_message :: pystr

fun join_comma :: "pystr list \<Rightarrow> pystr" where
  "join_comma [] = []"
| "join_comma [x] = x"
| "join_comma (x # xs) = x @ [44] @ join_comma xs"

text \<open>What a factory gives: the provider itself, its health and its metadata, each of which may raise.\<close>

type_synonym 'p probe = "('p \<times> provider_health result \<times> provider_metadata result) result"

record 'p registry =
  reg_providers :: "(pystr \<times> 'p) list"
  reg_health :: "(pystr \<times> provider_health) list"
  capabilities :: "capability list"
  reg_active :: "pystr option"

definition empty_registry :: "'p registry" where
  "empty_registry = \<lparr>reg_providers = [], reg_health = [], capabilities = [], reg_active = None\<rparr>"

definition unavailable :: "pystr \<Rightarrow> capability" where
  "unavailable name = \<lparr>cap_provider = name, cap_authenticated = False, cap_market = py ''A'', cap_frequency = [], cap_latency = None,
     cap_last_update = None, cap_permissions = [], cap_status = py ''UNAVAILABLE'', cap_message = py ''provider discovery failed''\<rparr>"

definition discover_one :: "'p registry \<Rightarrow> pystr \<Rightarrow> 'p probe \<Rightarrow> 'p registry" where
  "discover_one r name probe =
     (case bindR probe (\<lambda>(p, h, m). bindR h (\<lambda>h. bindR m (\<lambda>m. Inr (p, h, m)))) of
        Inl _ \<Rightarrow> r\<lparr>capabilities := capabilities r @ [unavailable name]\<rparr>
      | Inr (p, h, m) \<Rightarrow>
          r\<lparr>reg_health := dict_set (reg_health r) name h,
            reg_providers := (if connected h then dict_set (reg_providers r) name p else reg_providers r),
            reg_active := (if connected h \<and> reg_active r = None then Some name else reg_active r),
            capabilities := capabilities r @ [\<lparr>cap_provider = name, cap_authenticated = md_authenticated m,
              cap_market = md_market m, cap_frequency = join_comma (md_frequencies m), cap_latency = latency_ms h,
              cap_last_update = last_update h,
              cap_permissions = (if md_permissions m \<noteq> [] then md_permissions m else health_permissions h),
              cap_status = health_status h, cap_message = health_message h\<rparr>]\<rparr>)"

definition discover :: "(pystr \<times> 'p probe) list \<Rightarrow> 'p registry" where
  "discover fs = foldl (\<lambda>r (name, probe). discover_one r name probe) empty_registry fs"

definition health_report :: "'p registry \<Rightarrow> provider_health list" where
  "health_report r = map snd (reg_health r)"

definition registry_providers :: "'p registry \<Rightarrow> 'p list" where
  "registry_providers r = map snd (reg_providers r)"

section \<open>Configuration\<close>

fun unique :: "'a list \<Rightarrow> 'a list" where
  "unique [] = []"
| "unique (x # xs) = x # filter (\<lambda>y. y \<noteq> x) (unique xs)"

definition known_providers :: "pystr list" where
  "known_providers = map py [''rqdata'', ''tushare'', ''akshare'']"

definition default_registry_names :: "pystr list \<Rightarrow> pystr list result" where
  "default_registry_names priority =
     (if \<not> set (unique priority) \<subseteq> set known_providers then Inl (ValueError ''unknown real-time providers: {names}'')
      else Inr (unique priority))"

definition environment_flag :: "pystr option \<Rightarrow> bool \<Rightarrow> bool result" where
  "environment_flag v dflt = (case v of None \<Rightarrow> Inr dflt
     | Some t \<Rightarrow> if py_strip t = [] then Inr dflt
         else let n = py_lower (py_strip t) in
         if n \<in> set (map py [''1'', ''true'', ''yes'', ''on'']) then Inr True
         else if n \<in> set (map py [''0'', ''false'', ''no'', ''off'']) then Inr False
         else Inl (ValueError ''{name} must be true or false''))"

section \<open>Failover\<close>

record switch_event =
  source_from :: pystr
  source_to :: pystr
  switch_reason :: string
  switch_time :: utc

record failover =
  fo_names :: "pystr list"
  active_index :: nat
  switch_events :: "switch_event list"

definition new_failover :: "pystr list \<Rightarrow> failover result" where
  "new_failover names = (if names = [] then Inl (ValueError ''at least one real-time provider is required'')
     else Inr \<lparr>fo_names = names, active_index = 0, switch_events = []\<rparr>)"

definition active_provider_name :: "failover \<Rightarrow> pystr" where
  "active_provider_name s = fo_names s ! active_index s"

text \<open>The loop of \<^verbatim>\<open>_call\<close> and of \<^verbatim>\<open>get_priority_quotes\<close> from index \<open>i\<close> over the \<open>n\<close> remaining providers: \<open>run\<close> is what the
  method of each provider gives, \<open>clock\<close> the time of its failure.\<close>

fun call_from :: "(nat \<Rightarrow> 'r result) \<Rightarrow> (nat \<Rightarrow> utc) \<Rightarrow> nat \<Rightarrow> nat \<Rightarrow> failover \<Rightarrow> failover \<times> 'r result" where
  "call_from run clock i 0 s = (s, Inl (ProviderError ''all real-time providers failed''))"
| "call_from run clock i (Suc n) s = (case run i of
       Inr r \<Rightarrow> (s\<lparr>active_index := i\<rparr>, Inr r)
     | Inl e \<Rightarrow> call_from run clock (Suc i) n
         (if Suc i < length (fo_names s)
          then s\<lparr>switch_events := switch_events s @ [\<lparr>source_from = fo_names s ! i, source_to = fo_names s ! Suc i,
                  switch_reason = error_name e, switch_time = clock i\<rparr>]\<rparr>
          else s))"

definition call :: "(nat \<Rightarrow> 'r result) \<Rightarrow> (nat \<Rightarrow> utc) \<Rightarrow> failover \<Rightarrow> failover \<times> 'r result" where
  "call run clock s = call_from run clock (active_index s) (length (fo_names s) - active_index s) s"

text \<open>\<^verbatim>\<open>get_priority_quotes\<close>: a provider without that method is asked for its quotes.\<close>

definition priority_call ::
  "(nat \<Rightarrow> 'r result option) \<Rightarrow> (nat \<Rightarrow> 'r result) \<Rightarrow> (nat \<Rightarrow> utc) \<Rightarrow> failover \<Rightarrow> failover \<times> 'r result" where
  "priority_call priority quotes clock s = call (\<lambda>i. case priority i of Some r \<Rightarrow> r | None \<Rightarrow> quotes i) clock s"

section \<open>Facts\<close>

text \<open>What a failover promises: the answer of the first provider, from the active one on, that answers.\<close>

fun first_answer :: "(nat \<Rightarrow> 'r result) \<Rightarrow> nat list \<Rightarrow> (nat \<times> 'r) option" where
  "first_answer run [] = None"
| "first_answer run (i # is) = (case run i of Inr r \<Rightarrow> Some (i, r) | Inl _ \<Rightarrow> first_answer run is)"

lemma call_from_spec:
  assumes "call_from run clock i n s = (s', res)" "length (fo_names s) = i + n"
  shows "fo_names s' = fo_names s
    \<and> (case first_answer run [i..<i + n] of
         Some (j, r) \<Rightarrow> res = Inr r \<and> active_index s' = j
       | None \<Rightarrow> res = Inl (ProviderError ''all real-time providers failed'') \<and> active_index s' = active_index s)
    \<and> (\<exists>es. switch_events s' = switch_events s @ es
        \<and> map source_from es = map (\<lambda>k. fo_names s ! k) [i..<(case first_answer run [i..<i + n] of Some (j, _) \<Rightarrow> j | None \<Rightarrow> i + n - 1)])"
  using assms
proof (induction run clock i n s arbitrary: s' res rule: call_from.induct)
  case (1 run clock i s)
  then show ?case by auto
next
  case (2 run clock i n s)
  have up: "[i..<i + Suc n] = i # [Suc i..<Suc i + n]" by (simp add: upt_conv_Cons)
  show ?case
  proof (cases "run i")
    case (Inr r)
    have fa: "first_answer run [i..<i + Suc n] = Some (i, r)" by (simp only: up first_answer.simps Inr sum.case)
    have res: "s' = s\<lparr>active_index := i\<rparr>" "res = Inr r" using "2.prems"(1) Inr by simp_all
    show ?thesis unfolding fa res by simp
  next
    case (Inl e)
    define t where "t = (if Suc i < length (fo_names s)
          then s\<lparr>switch_events := switch_events s @ [\<lparr>source_from = fo_names s ! i, source_to = fo_names s ! Suc i,
                  switch_reason = error_name e, switch_time = clock i\<rparr>]\<rparr> else s)"
    have t: "fo_names t = fo_names s" "active_index t = active_index s" by (simp_all add: t_def)
    have run: "call_from run clock (Suc i) n t = (s', res)" using "2.prems"(1) Inl by (simp add: t_def)
    have len: "length (fo_names t) = Suc i + n" using "2.prems"(2) t by simp
    note IH = "2.IH"[OF Inl run[unfolded t_def] len[unfolded t_def], folded t_def]
    have fa: "first_answer run [i..<i + Suc n] = first_answer run [Suc i..<Suc i + n]" using Inl by (simp only: up first_answer.simps sum.case)
    define last where "last = (case first_answer run [Suc i..<Suc i + n] of Some (j, _) \<Rightarrow> j | None \<Rightarrow> i + n)"
    have ends: "(case first_answer run [Suc i..<Suc i + n] of Some (j, _) \<Rightarrow> j | None \<Rightarrow> Suc i + n - 1) = last"
      unfolding last_def by (cases "first_answer run [Suc i..<Suc i + n]") auto
    have "\<exists>es. switch_events s' = switch_events t @ es \<and> map source_from es = map (\<lambda>k. fo_names s ! k) [Suc i..<last]"
      using IH[unfolded ends t] by blast
    then obtain es where es: "switch_events s' = switch_events t @ es" "map source_from es = map (\<lambda>k. fo_names s ! k) [Suc i..<last]"
      by blast
    have "\<exists>es. switch_events s' = switch_events s @ es \<and> map source_from es = map (\<lambda>k. fo_names s ! k) [i..<last]"
    proof (cases n)
      case 0
      then have "t = s" "last = i" using "2.prems"(2) by (simp_all add: t_def last_def)
      then show ?thesis using es by auto
    next
      case (Suc m)
      have sub: "j \<in> set is" if "first_answer run is = Some (j, r)" for j r "is"
        using that by (induction "is") (auto split: sum.splits)
      have "i < last"
      proof (cases "first_answer run [Suc i..<Suc i + n]")
        case (Some jr)
        then have "fst jr \<in> set [Suc i..<Suc i + n]" using sub[of "[Suc i..<Suc i + n]" "fst jr" "snd jr"] by simp
        then have "i < fst jr" by (simp only: set_upt atLeastLessThan_iff Suc_le_eq)
        then show ?thesis unfolding last_def Some by (cases jr) simp
      qed (use Suc in \<open>simp add: last_def\<close>)
      then have "[i..<last] = i # [Suc i..<last]" by (simp add: upt_conv_Cons)
      moreover have "Suc i < length (fo_names s)" using "2.prems"(2) Suc by simp
      ultimately show ?thesis using es by (auto simp: t_def)
    qed
    moreover have "(case first_answer run [Suc i..<Suc i + n] of Some (j, _) \<Rightarrow> j | None \<Rightarrow> i + Suc n - 1) = last"
      unfolding last_def by (cases "first_answer run [Suc i..<Suc i + n]") auto
    ultimately show ?thesis using IH unfolding fa t by simp
  qed
qed

end
