(* ===== verification/Realtime_Scheduler.thy ===== *)
theory Realtime_Scheduler
  imports Realtime_Quotes Provider_Failover Trading_Calendar
begin

text \<open>
  \<^verbatim>\<open>storage/realtime_store.py\<close> and \<^verbatim>\<open>runtime/scheduler.py\<close>: the in-memory store of quotes and bars, the market
  session of a time, the gap tracker, and the scheduler that polls the provider.  What the provider answers at each
  attempt is an input of a tick; the background refresh of the full market is a step of its own.  A tick that catches an
  exception keeps the changes made before it, so the steps return the state with their result.
\<close>

section \<open>The store\<close>

type_synonym bar_id = "pystr \<times> pystr \<times> utc"

record rt_store =
  st_quotes :: "(pystr \<times> quote) list"
  provisional :: "(bar_id \<times> minute_bar) list"
  historical_bars_of :: "(bar_id \<times> minute_bar) list"
  finalized_dates :: "date set"

definition new_store :: rt_store where
  "new_store = \<lparr>st_quotes = [], provisional = [], historical_bars_of = [], finalized_dates = {}\<rparr>"

definition put_quote :: "(pystr \<times> quote) list \<Rightarrow> quote \<Rightarrow> (pystr \<times> quote) list" where
  "put_quote d q = (case dict_get d (qt_symbol q) of
       None \<Rightarrow> dict_set d (qt_symbol q) q
     | Some p \<Rightarrow> if instant (received_time p) \<le> instant (received_time q) then dict_set d (qt_symbol q) q else d)"

definition put_quotes :: "rt_store \<Rightarrow> quote list \<Rightarrow> rt_store" where
  "put_quotes s qs = s\<lparr>st_quotes := foldl put_quote (st_quotes s) qs\<rparr>"

definition replace_quote_snapshot :: "rt_store \<Rightarrow> quote list \<Rightarrow> rt_store" where
  "replace_quote_snapshot s qs = s\<lparr>st_quotes := foldl (\<lambda>d q. dict_set d (qt_symbol q) q) [] qs\<rparr>"

definition stored_quotes :: "rt_store \<Rightarrow> pystr list option \<Rightarrow> quote list result" where
  "stored_quotes s syms = (case syms of
       None \<Rightarrow> Inr (sort_key qt_symbol (map snd (st_quotes s)))
     | Some xs \<Rightarrow> bindR (mapR normalize_symbol xs) (\<lambda>ns.
         Inr (sort_key qt_symbol (map snd (filter (\<lambda>(k, _). k \<in> set ns) (st_quotes s))))))"

definition bar_key :: "minute_bar \<Rightarrow> bar_id" where
  "bar_key b = (mb_symbol b, mb_frequency b, instant (mb_time b))"

definition put_minute_bars :: "rt_store \<Rightarrow> minute_bar list \<Rightarrow> rt_store" where
  "put_minute_bars s bs = s\<lparr>provisional := foldl (\<lambda>d b. dict_set d (bar_key b) b) (provisional s) bs\<rparr>"

definition ordered_bars :: "(bar_id \<times> minute_bar) list \<Rightarrow> minute_bar list" where
  "ordered_bars d = map snd (sort_key (\<lambda>((s, f, t), b). (t, s, f)) d)"

record finalization =
  fin_date :: date
  finalized_count :: int
  discarded_count :: int
  fin_status :: string

definition bar_date :: "minute_bar \<Rightarrow> date" where "bar_date b = local_date (dt_local (mb_time b))"

text \<open>The reconciler is the caller's; when it raises nothing has been changed.\<close>

definition finalize_eod :: "(minute_bar list \<Rightarrow> minute_bar list result) \<Rightarrow> date \<Rightarrow> rt_store \<Rightarrow> (rt_store \<times> finalization) result" where
  "finalize_eod reconciler d s =
     (if d \<in> finalized_dates s
      then Inr (s, \<lparr>fin_date = d, finalized_count = 0, discarded_count = 0, fin_status = ''ALREADY_FINALIZED''\<rparr>)
      else let candidates = filter (\<lambda>b. bar_date b = d \<and> is_final b) (map snd (provisional s)) in
      bindR (reconciler candidates) (\<lambda>rec.
      let valid = filter (\<lambda>b. bar_date b = d \<and> is_final b) rec in
      Inr (s\<lparr>historical_bars_of := foldl (\<lambda>m b. dict_set m (bar_key b) b) (historical_bars_of s) valid,
             provisional := filter (\<lambda>(_, b). bar_date b \<noteq> d) (provisional s),
             finalized_dates := insert d (finalized_dates s)\<rparr>,
           \<lparr>fin_date = d, finalized_count = int (length valid),
            discarded_count = int (length candidates) - int (length valid), fin_status = ''FINALIZED''\<rparr>)))"

section \<open>Sessions\<close>

datatype market_session = PRE_MARKET | SESSION_OPEN | LUNCH_BREAK | SESSION_CLOSED | NON_TRADING

record market_hours =
  pre_market_start :: int
  open_start :: int
  morning_end :: int
  afternoon_start :: int
  close_end :: int

definition default_hours :: market_hours where
  "default_hours = \<lparr>pre_market_start = hm 9 0, open_start = hm 9 30, morning_end = hm 11 30, afternoon_start = hm 13 0,
     close_end = hm 15 0\<rparr>"

definition static_trading_day :: "date set option \<Rightarrow> date \<Rightarrow> bool result" where
  "static_trading_day days d = (case days of Some ds \<Rightarrow> Inr (d \<in> ds) | None \<Rightarrow> Inr (weekday d < 5))"

text \<open>\<^verbatim>\<open>SessionResolver.resolve\<close> in the zone of Shanghai, over the \<^verbatim>\<open>is_trading_day\<close> of any calendar.\<close>

definition resolve_session :: "market_hours \<Rightarrow> (date \<Rightarrow> bool result) \<Rightarrow> datetime \<Rightarrow> market_session result" where
  "resolve_session h trading now =
     (if \<not> is_aware now then Inl (ValueError ''now must be timezone-aware'')
      else let l = shanghai_local now; t = local_time l in
      bindR (trading (local_date l)) (\<lambda>open_day.
      Inr (if \<not> open_day then NON_TRADING
           else if t < pre_market_start h \<or> close_end h \<le> t then SESSION_CLOSED
           else if t < open_start h then PRE_MARKET
           else if t < morning_end h then SESSION_OPEN
           else if t < afternoon_start h then LUNCH_BREAK
           else if t < close_end h then SESSION_OPEN else SESSION_CLOSED)))"

fun non_open_reason :: "market_session \<Rightarrow> string" where
  "non_open_reason PRE_MARKET = ''MARKET_NOT_OPEN''"
| "non_open_reason LUNCH_BREAK = ''MARKET_LUNCH_BREAK''"
| "non_open_reason SESSION_CLOSED = ''MARKET_CLOSED''"
| "non_open_reason NON_TRADING = ''MARKET_CLOSED''"
| "non_open_reason SESSION_OPEN = []"

section \<open>The gap tracker\<close>

record gap_tracker =
  gap_interval :: int
  gap_last_seen :: "pystr \<rightharpoonup> datetime"

definition new_gap_tracker :: "int \<Rightarrow> gap_tracker result" where
  "new_gap_tracker n = (if n \<le> 0 then Inl (ValueError ''interval_seconds must be positive'')
     else Inr \<lparr>gap_interval = n * micros_per_second, gap_last_seen = Map.empty\<rparr>)"

text \<open>The \<^verbatim>\<open>while\<close> loop, on the microseconds of the times: the interval is positive.\<close>

function gap_times :: "int \<Rightarrow> int \<Rightarrow> int \<Rightarrow> int list" where
  "gap_times step current until = (if 0 < step \<and> current < until then current # gap_times step (current + step) until else [])"
  by pat_completeness auto
termination by (relation "measure (\<lambda>(s, c, u). nat (u - c))") auto

declare gap_times.simps [simp del]

definition gap_observe :: "gap_tracker \<Rightarrow> pystr \<Rightarrow> datetime \<Rightarrow> (gap_tracker \<times> (pystr \<times> utc) list) result" where
  "gap_observe g s t =
     (if \<not> is_aware t then Inl (ValueError ''timestamp must be timezone-aware'')
      else let g' = g\<lparr>gap_last_seen := (gap_last_seen g)(s \<mapsto> t)\<rparr> in
      case gap_last_seen g s of
        None \<Rightarrow> Inr (g', [])
      | Some p \<Rightarrow> Inr (g', if micros (instant t) \<le> micros (instant p) + gap_interval g then []
          else map (\<lambda>u. (s, UTC u)) (gap_times (gap_interval g) (micros (instant p) + gap_interval g) (micros (instant t)))))"

fun gap_observe_all :: "gap_tracker \<Rightarrow> (pystr \<times> datetime) list \<Rightarrow> (gap_tracker \<times> (pystr \<times> utc) list) result" where
  "gap_observe_all g [] = Inr (g, [])"
| "gap_observe_all g ((s, t) # r) =
     bindR (gap_observe g s t) (\<lambda>(g1, a). bindR (gap_observe_all g1 r) (\<lambda>(g2, b). Inr (g2, a @ b)))"

definition observe_bars :: "gap_tracker \<Rightarrow> minute_bar list \<Rightarrow> (gap_tracker \<times> (pystr \<times> utc) list) result" where
  "observe_bars g bs = gap_observe_all g (map (\<lambda>b. (mb_symbol b, mb_time b))
     (sort_key (\<lambda>b. (mb_symbol b, instant (mb_time b))) bs))"

section \<open>The scheduler\<close>

record tick =
  tick_time :: datetime
  tick_session :: market_session
  tick_requested :: bool
  tick_updated :: bool
  quote_count :: nat
  bar_count :: nat
  tick_quality :: "quality option"
  skip_reason :: string
  tick_error :: string
  priority_only :: bool

record scheduler_config =
  sc_symbols :: "pystr list"
  sc_priority :: "pystr list"
  sc_expected :: "pystr list"
  sc_full_interval :: int
  sc_stale_after :: int
  sc_attempts :: nat
  sc_full_attempts :: nat

record scheduler =
  sd_store :: rt_store
  sd_tracker :: tracker
  sd_breaker :: breaker_state
  last_full_at :: "int option"
  pending_snapshot :: "quote list option"
  pending_error :: "string option"
  refreshing :: bool

text \<open>What a tick meets: the clock, the session the resolver gives, the monotonic clock, and the answers of the provider at
  each attempt.\<close>

record tick_input =
  ti_now :: datetime
  ti_session :: "market_session result"
  ti_mono :: int
  ti_priority :: "nat \<Rightarrow> quote list result"
  ti_full :: "nat \<Rightarrow> quote list result"
  ti_bars :: "nat \<Rightarrow> minute_bar list result"

text \<open>\<^verbatim>\<open>RetryPolicy.__post_init__\<close>; the seconds are the decimals they are written as.\<close>

record retry_policy =
  max_attempts :: int
  initial_backoff :: rat
  multiplier :: rat
  max_backoff :: rat

definition check_retry_policy :: "retry_policy \<Rightarrow> retry_policy result" where
  "check_retry_policy p =
     (if max_attempts p < 1 then Inl (ValueError ''max_attempts must be positive'')
      else if initial_backoff p < 0 \<or> multiplier p < 1
      then Inl (ValueError ''backoff must be non-negative and multiplier must be at least one'')
      else if max_backoff p < initial_backoff p then Inl (ValueError ''max_backoff_seconds must cover the initial delay'')
      else Inr p)"

definition new_scheduler :: "scheduler_config \<Rightarrow> int \<Rightarrow> scheduler result" where
  "new_scheduler c t0 =
     (if sc_full_interval c < 60 * micros_per_second then Inl (ValueError ''full_market_interval_seconds must be at least 60'')
      else Inr \<lparr>sd_store = new_store, sd_tracker = new_tracker 0, sd_breaker = CLOSED,
                last_full_at = (if sc_priority c \<noteq> [] then Some t0 else None),
                pending_snapshot = None, pending_error = None, refreshing = False\<rparr>)"

text \<open>\<^verbatim>\<open>_retry\<close>: the first attempt that answers, or the last error (the sleeping is left out).\<close>

fun retry_from :: "(nat \<Rightarrow> 'a result) \<Rightarrow> nat \<Rightarrow> nat \<Rightarrow> 'a result" where
  "retry_from op i 0 = Inl (RuntimeError ''no attempt'')"
| "retry_from op i (Suc n) = (case op i of Inr x \<Rightarrow> Inr x | Inl e \<Rightarrow> if n = 0 then Inl e else retry_from op (Suc i) n)"

definition retry :: "nat \<Rightarrow> (nat \<Rightarrow> 'a result) \<Rightarrow> 'a result" where
  "retry n op = retry_from op 0 n"

text \<open>\<^verbatim>\<open>_check_quotes\<close>: the timestamps first, then the circuit breaker.\<close>

definition mark_stale :: "quote \<Rightarrow> quote result" where
  "mark_stale q = check_quote (q\<lparr>is_stale := True, quality_flag := Flag STALE\<rparr>)"

fun stamp_quotes :: "datetime \<Rightarrow> quote list \<Rightarrow> tracker \<Rightarrow> tracker \<times> (quote list \<times> bool) result" where
  "stamp_quotes now [] tr = (tr, Inr ([], False))"
| "stamp_quotes now (q # qs) tr = (case observe tr (qt_symbol q) (exchange_time q) now of
       Inr tr' \<Rightarrow> (case stamp_quotes now qs tr' of (t, r) \<Rightarrow> (t, bindR r (\<lambda>(cs, b). Inr (q # cs, b))))
     | Inl e \<Rightarrow> if \<not> is_value_error e then (tr, Inl e)
         else (case mark_stale q of Inl e' \<Rightarrow> (tr, Inl e')
           | Inr c \<Rightarrow> (case stamp_quotes now qs tr of (t, r) \<Rightarrow> (t, bindR r (\<lambda>(cs, b). Inr (c # cs, True))))))"

definition check_quotes :: "scheduler_config \<Rightarrow> datetime \<Rightarrow> quote list \<Rightarrow> scheduler \<Rightarrow> scheduler \<times> (quality_report \<times> bool) result" where
  "check_quotes c now qs s = (case stamp_quotes now qs (sd_tracker s) of
       (tr, Inl e) \<Rightarrow> (s\<lparr>sd_tracker := tr\<rparr>, Inl e)
     | (tr, Inr (cs, b)) \<Rightarrow>
         (case breaker_evaluate (sc_stale_after c) (sd_breaker s) cs (sc_expected c) now of
            Inl e \<Rightarrow> (s\<lparr>sd_tracker := tr\<rparr>, Inl e)
          | Inr (br, rep) \<Rightarrow> (s\<lparr>sd_tracker := tr, sd_breaker := br\<rparr>, Inr (rep, b))))"

definition usable_quotes :: "quality_report \<Rightarrow> quote list" where
  "usable_quotes r = filter (\<lambda>q. \<not> is_stale q) (rep_quotes r)"

definition open_tick :: "datetime \<Rightarrow> tick" where
  "open_tick now = \<lparr>tick_time = now, tick_session = SESSION_OPEN, tick_requested = True, tick_updated = True, quote_count = 0,
     bar_count = 0, tick_quality = None, skip_reason = [], tick_error = [], priority_only = False\<rparr>"

text \<open>The priority quotes: their report when one was made, the number stored, and the error.\<close>

definition priority_phase :: "scheduler_config \<Rightarrow> tick_input \<Rightarrow> scheduler \<Rightarrow> scheduler \<times> quality_report option \<times> nat \<times> pyerror option" where
  "priority_phase c ti s =
     (if sc_priority c = [] then (s, None, 0, None)
      else case retry (sc_attempts c) (ti_priority ti) of
        Inl e \<Rightarrow> (s, None, 0, Some e)
      | Inr qs \<Rightarrow> (case check_quotes c (ti_now ti) qs s of
          (s1, Inl e) \<Rightarrow> (s1, None, 0, Some e)
        | (s1, Inr (rep, _)) \<Rightarrow>
            if is_usable rep
            then (s1\<lparr>sd_store := put_quotes (sd_store s1) (usable_quotes rep)\<rparr>, Some rep, length (usable_quotes rep), None)
            else (s1, Some rep, 0, Some (RuntimeError ''priority data is stale''))))"

definition usable_priority :: "quality_report option \<Rightarrow> bool" where
  "usable_priority r = (case r of None \<Rightarrow> False | Some rep \<Rightarrow> is_usable rep)"

definition priority_tick :: "datetime \<Rightarrow> quality_report option \<Rightarrow> nat \<Rightarrow> string \<Rightarrow> bool \<Rightarrow> tick" where
  "priority_tick now rep n err only = (open_tick now)\<lparr>quote_count := n, tick_quality := map_option rep_status rep, tick_error := err,
     priority_only := only\<rparr>"

definition failed_tick :: "datetime \<Rightarrow> quality \<Rightarrow> string \<Rightarrow> tick" where
  "failed_tick now q err = (open_tick now)\<lparr>tick_updated := False, tick_quality := Some q, tick_error := err\<rparr>"

definition process_full_snapshot ::
  "scheduler_config \<Rightarrow> tick_input \<Rightarrow> quote list \<Rightarrow> quality_report option \<Rightarrow> nat \<Rightarrow> scheduler \<Rightarrow> scheduler \<times> tick result" where
  "process_full_snapshot c ti qs prep n s = (case check_quotes c (ti_now ti) qs s of
       (s1, Inl e) \<Rightarrow> (s1, Inl e)
     | (s1, Inr (rep, quarantined)) \<Rightarrow>
         if \<not> is_usable rep
         then (s1, Inr (if usable_priority prep then priority_tick (ti_now ti) prep n ''FULL_MARKET_DATA_STALE'' False
                        else failed_tick (ti_now ti) (rep_status rep) ''DATA_STALE''))
         else let s2 = s1\<lparr>sd_store := replace_quote_snapshot (sd_store s1) (usable_quotes rep)\<rparr> in
           (case (if sc_symbols c = [] then Inr [] else retry (sc_attempts c) (ti_bars ti)) of
              Inl e \<Rightarrow> (s2, Inl e)
            | Inr bars \<Rightarrow> (s2\<lparr>sd_store := put_minute_bars (sd_store s2) bars\<rparr>,
                Inr ((open_tick (ti_now ti))\<lparr>quote_count := length (usable_quotes rep), bar_count := length bars,
                       tick_quality := Some (rep_status rep),
                       tick_error := (if quarantined then ''PARTIAL_DATA_STALE'' else [])\<rparr>))))"

definition full_market_due :: "scheduler_config \<Rightarrow> tick_input \<Rightarrow> scheduler \<Rightarrow> bool" where
  "full_market_due c ti s = (case last_full_at s of None \<Rightarrow> True | Some t \<Rightarrow> sc_full_interval c \<le> ti_mono ti - t)"

text \<open>The last part of a tick, when no pending full snapshot was delivered.\<close>

definition scheduled_phase :: "scheduler_config \<Rightarrow> tick_input \<Rightarrow> quality_report option \<Rightarrow> nat \<Rightarrow> pyerror option \<Rightarrow> scheduler \<Rightarrow> scheduler \<times> tick" where
  "scheduled_phase c ti prep n perr s =
     (if sc_priority c \<noteq> [] \<and> \<not> full_market_due c ti s
      then (s, if usable_priority prep then priority_tick (ti_now ti) prep n [] True
               else failed_tick (ti_now ti) FAILED (case perr of Some e \<Rightarrow> error_name e | None \<Rightarrow> ''DATA_STALE''))
      else let s1 = s\<lparr>last_full_at := Some (ti_mono ti)\<rparr> in
      if sc_priority c \<noteq> [] \<and> usable_priority prep
      then (s1\<lparr>refreshing := True\<rparr>, priority_tick (ti_now ti) prep n [] True)
      else (case (case retry (sc_full_attempts c) (ti_full ti) of Inl e \<Rightarrow> (s1, Inl e)
                  | Inr qs \<Rightarrow> process_full_snapshot c ti qs prep n s1) of
          (s2, Inr t) \<Rightarrow> (s2, t)
        | (s2, Inl e) \<Rightarrow>
            if usable_priority prep then (s2, priority_tick (ti_now ti) prep n ''FULL_MARKET_UNAVAILABLE'' False)
            else (s2\<lparr>sd_breaker := OPEN\<rparr>, failed_tick (ti_now ti) FAILED (error_name e))))"

definition skipped_tick :: "datetime \<Rightarrow> market_session \<Rightarrow> string \<Rightarrow> string \<Rightarrow> tick" where
  "skipped_tick now ms err why = \<lparr>tick_time = now, tick_session = ms, tick_requested = False, tick_updated = False, quote_count = 0,
     bar_count = 0, tick_quality = None, skip_reason = why, tick_error = err, priority_only = False\<rparr>"

definition run_once :: "scheduler_config \<Rightarrow> tick_input \<Rightarrow> scheduler \<Rightarrow> scheduler \<times> tick result" where
  "run_once c ti s = (case ti_session ti of
       Inl CalendarUnavailableError \<Rightarrow> (s, Inr (skipped_tick (ti_now ti) NON_TRADING ''CALENDAR_UNAVAILABLE'' ''CALENDAR_UNAVAILABLE''))
     | Inl e \<Rightarrow> (s, Inl e)
     | Inr ms \<Rightarrow>
         if ms \<noteq> SESSION_OPEN then (s, Inr (skipped_tick (ti_now ti) ms [] (non_open_reason ms)))
         else (case priority_phase c ti s of (s1, prep, n, perr) \<Rightarrow>
           let snap = pending_snapshot s1; err = pending_error s1;
               s2 = s1\<lparr>pending_snapshot := None, pending_error := None\<rparr> in
           (case snap of
              Some qs \<Rightarrow> (case process_full_snapshot c ti qs prep n s2 of
                  (s3, Inr t) \<Rightarrow> (s3, Inr t)
                | (s3, Inl _) \<Rightarrow>
                    if usable_priority prep then (s3, Inr (priority_tick (ti_now ti) prep n ''FULL_MARKET_UNAVAILABLE'' False))
                    else (case scheduled_phase c ti prep n perr s3 of (s4, t) \<Rightarrow> (s4, Inr t)))
            | None \<Rightarrow>
                if err \<noteq> None \<and> usable_priority prep
                then (s2, Inr (priority_tick (ti_now ti) prep n ''FULL_MARKET_UNAVAILABLE'' False))
                else (case scheduled_phase c ti prep n perr s2 of (s4, t) \<Rightarrow> (s4, Inr t)))))"

text \<open>The background worker ends: its snapshot or the name of its error is left for the next tick.\<close>

definition worker_done :: "scheduler_config \<Rightarrow> (nat \<Rightarrow> quote list result) \<Rightarrow> scheduler \<Rightarrow> scheduler" where
  "worker_done c answers s = (case retry (sc_full_attempts c) answers of
       Inr qs \<Rightarrow> s\<lparr>pending_snapshot := Some qs, pending_error := None, refreshing := False\<rparr>
     | Inl e \<Rightarrow> s\<lparr>pending_snapshot := None, pending_error := Some (error_name e), refreshing := False\<rparr>)"

definition assess_current_data :: "scheduler_config \<Rightarrow> datetime \<Rightarrow> scheduler \<Rightarrow> quality_report result" where
  "assess_current_data c now s =
     bindR (stored_quotes (sd_store s) None) (\<lambda>qs. assess_quote_quality qs (sc_expected c) now (sc_stale_after c))"

inductive scheduler_step :: "scheduler_config \<Rightarrow> scheduler \<Rightarrow> scheduler \<Rightarrow> bool" for c where
  ticked: "run_once c ti s = (s', r) \<Longrightarrow> scheduler_step c s s'"
| refreshed: "refreshing s \<Longrightarrow> scheduler_step c s (worker_done c answers s)"

end
