(* ===== verification/Realtime_Properties.thy ===== *)
theory Realtime_Properties
  imports Realtime_Scheduler
begin

text \<open>
  The properties of the real-time path: the freshness report, the failover between providers, the store and the
  scheduler that feeds it.
\<close>

section \<open>Constructed quotes\<close>

lemma check_quote_Inr:
  assumes "check_quote q = Inr c"
  shows "\<exists>s fl. c = q\<lparr>qt_symbol := s, quality_flag := Flag fl\<rparr> \<and> normalize_symbol (qt_symbol q) = Inr s \<and> six_digits s
    \<and> (is_stale q \<longrightarrow> fl \<noteq> GOOD) \<and> is_aware (exchange_time q) \<and> is_aware (received_time q)"
  using assms by (auto simp: check_quote_def bindR_Inr_iff ensure_aware_def normalize_symbol_six split: if_splits)

text \<open>A stored quote is marked stale by its constructor without any other change.\<close>

definition constructed :: "quote \<Rightarrow> bool" where
  "constructed q \<longleftrightarrow> (\<exists>q0. check_quote q0 = Inr q)"

lemma check_quote_again:
  assumes "check_quote q0 = Inr q"
  shows "check_quote (q\<lparr>is_stale := True, quality_flag := Flag STALE\<rparr>) = Inr (q\<lparr>is_stale := True, quality_flag := Flag STALE\<rparr>)"
proof -
  obtain s fl where c: "q = q0\<lparr>qt_symbol := s, quality_flag := Flag fl\<rparr>" "six_digits s" using check_quote_Inr[OF assms] by blast
  have "bindR (numbers True [(''last'', last_price q0), (''open'', qt_open q0), (''high'', qt_high q0), (''low'', qt_low q0),
         (''previous_close'', previous_close q0)]) (\<lambda>_.
     bindR (numbers False [(''volume'', qt_volume q0), (''amount'', qt_amount q0), (''bid1'', bid1 q0), (''ask1'', ask1 q0),
         (''change'', qt_change q0), (''change_pct'', change_pct q0), (''turnover_rate'', turnover_rate q0)]) (\<lambda>_.
     if (case (qt_high q0, qt_low q0) of (Some h, Some l) \<Rightarrow> flt h l | _ \<Rightarrow> False)
     then Inl (ValueError ''high must not be lower than low'') else Inr x)) = Inr x" for x :: quote
    using assms unfolding check_quote_def by (auto simp del: numbers.simps simp: bindR_Inr_iff split: if_splits)
  then show ?thesis using assms c(2) unfolding check_quote_def
    by (auto simp del: numbers.simps simp: c(1) bindR_Inr_iff normalize_symbol_fixed parse_quality_def split: if_splits)
qed

lemma sift_spec:
  assumes "sift now sa qs = Inr (cs, bad)" "\<forall>q \<in> set qs. constructed q"
  shows "cs = map (\<lambda>q. if expired q now sa then q\<lparr>is_stale := True, quality_flag := Flag STALE\<rparr> else q) qs
    \<and> bad = map qt_symbol (filter (\<lambda>q. expired q now sa) qs)"
  using assms
proof (induction qs arbitrary: cs bad)
  case (Cons q qs)
  obtain q0 where q0: "check_quote q0 = Inr q" using Cons.prems(2) by (auto simp: constructed_def)
  obtain cs' bad' where rec: "sift now sa qs = Inr (cs', bad')" using Cons.prems(1) by (auto simp: bindR_Inr_iff)
  note IH = Cons.IH[OF rec]
  show ?case using Cons.prems IH rec check_quote_again[OF q0] by (auto simp: bindR_Inr_iff split: if_splits)
qed simp

lemma dedup_set [simp]: "set (dedup xs) = set xs"
  by (induction xs) auto

text \<open>The freshness report keeps every received quote in order, marking as stale exactly those that are expired: stamped in
  the future, older than the threshold, or stale already.  The quarantined symbols are theirs, the missing symbols are the
  expected ones without a fresh quote, and data are ready exactly when quotes were received, none is expired and
  no expected symbol is missing.\<close>

theorem quote_report_exact:
  assumes "assess_quote_quality qs expected now sa = Inr r" "\<forall>q \<in> set qs. constructed q"
  shows "map qt_symbol (rep_quotes r) = map qt_symbol qs \<and> map is_stale (rep_quotes r) = map (\<lambda>q. expired q now sa) qs
    \<and> quarantined_symbols r = map qt_symbol (filter (\<lambda>q. expired q now sa) qs)
    \<and> (\<forall>s. s \<in> set (missing_symbols r) \<longleftrightarrow> (\<exists>e \<in> set expected. normalize_symbol e = Inr s) \<and> (\<forall>q \<in> set qs. qt_symbol q = s \<longrightarrow> expired q now sa))
    \<and> (can_generate_ready r \<longleftrightarrow> qs \<noteq> [] \<and> (\<forall>q \<in> set qs. \<not> expired q now sa) \<and> missing_symbols r = [])
    \<and> (can_generate_ready r \<longleftrightarrow> rep_status r = GOOD) \<and> (is_usable r \<longleftrightarrow> (\<exists>q \<in> set qs. \<not> expired q now sa))"
proof -
  obtain ex0 checked bad where a: "mapR normalize_symbol expected = Inr ex0" "sift now sa qs = Inr (checked, bad)"
    using assms(1) by (auto simp: assess_quote_quality_def bindR_Inr_iff split: if_splits)
  define mark where "mark = (\<lambda>q :: quote. if expired q now sa then q\<lparr>is_stale := True, quality_flag := Flag STALE\<rparr> else q)"
  have c: "checked = map mark qs" "bad = map qt_symbol (filter (\<lambda>q. expired q now sa) qs)"
    using sift_spec[OF a(2) assms(2)] by (simp_all add: mark_def)
  have st: "is_stale (mark q) = expired q now sa" "qt_symbol (mark q) = qt_symbol q" for q by (auto simp: mark_def expired_def)
  define fresh where "fresh = filter (\<lambda>q. \<not> is_stale q) checked"
  define missing where "missing = filter (\<lambda>s. s \<notin> qt_symbol ` set fresh) (dedup ex0)"
  have r: "rep_quotes r = checked" "quarantined_symbols r = bad" "missing_symbols r = missing"
    "rep_status r = (if checked = [] then FAILED else if fresh = [] then STALE else if missing \<noteq> [] \<or> bad \<noteq> [] then DEGRADED else GOOD)"
    "is_usable r = (rep_status r = GOOD \<or> rep_status r = DEGRADED)"
    "can_generate_ready r = (rep_status r = GOOD \<and> missing = [] \<and> bad = [])"
    using assms(1) a unfolding assess_quote_quality_def fresh_def missing_def by (auto simp: Let_def split: if_splits)
  have fr: "fresh = [] \<longleftrightarrow> (\<forall>q \<in> set qs. expired q now sa)" "qt_symbol ` set fresh = qt_symbol ` {q \<in> set qs. \<not> expired q now sa}"
  proof -
    have "fresh = map mark (filter (\<lambda>q. \<not> expired q now sa) qs)" by (simp add: fresh_def c filter_map comp_def st)
    then show "fresh = [] \<longleftrightarrow> (\<forall>q \<in> set qs. expired q now sa)" "qt_symbol ` set fresh = qt_symbol ` {q \<in> set qs. \<not> expired q now sa}"
      by (auto simp: filter_empty_conv image_image st)
  qed
  have bd: "bad = [] \<longleftrightarrow> (\<forall>q \<in> set qs. \<not> expired q now sa)" unfolding c by (auto simp: filter_empty_conv)
  have ex: "set ex0 = {s. \<exists>e \<in> set expected. normalize_symbol e = Inr s}"
    using a(1) unfolding mapR_Inr_iff by (induction rule: list_all2_induct) auto
  have mis: "s \<in> set missing \<longleftrightarrow> (\<exists>e \<in> set expected. normalize_symbol e = Inr s) \<and> (\<forall>q \<in> set qs. qt_symbol q = s \<longrightarrow> expired q now sa)" for s
    unfolding missing_def fr(2) using ex by auto
  have ne: "checked = [] \<longleftrightarrow> qs = []" by (simp add: c)
  have usable: "is_usable r \<longleftrightarrow> (\<exists>q \<in> set qs. \<not> expired q now sa)" unfolding r(5) r(4) ne fr(1) by auto
  have ready: "can_generate_ready r \<longleftrightarrow> qs \<noteq> [] \<and> (\<forall>q \<in> set qs. \<not> expired q now sa) \<and> missing = []"
    unfolding r(6) r(4) ne fr(1) bd by auto
  have good: "can_generate_ready r \<longleftrightarrow> rep_status r = GOOD" unfolding r(6) unfolding r(4) by auto
  show ?thesis using ready good usable mis st unfolding r(1-3) c by simp
qed

definition demo_quote0 :: quote where
  "demo_quote0 = \<lparr>qt_symbol = py ''600000'', qt_market = py ''A'', exchange_time = utc_datetime (utc_midnight 739000),
     received_time = utc_datetime (utc_midnight 739000), last_price = Some (Num 10), qt_source = py ''s'', qt_open = None, qt_high = None,
     qt_low = None, previous_close = None, qt_volume = None, qt_amount = None, bid1 = None, ask1 = None, qt_change = None,
     change_pct = None, turnover_rate = None, quality_flag = Flag FAILED, is_stale = False\<rparr>"

lemma demo_constructed: "constructed demo_quote0"
proof -
  have "case check_quote demo_quote0 of Inl _ \<Rightarrow> False | Inr q \<Rightarrow> q = demo_quote0" by code_simp
  then have "check_quote demo_quote0 = Inr demo_quote0" by (auto split: sum.splits)
  then show ?thesis by (auto simp: constructed_def)
qed

theorem quote_report_exact_witness:
  "\<exists>r. assess_quote_quality [demo_quote0] [py ''sh600000''] (utc_datetime (utc_midnight 739000)) 60000000 = Inr r
     \<and> can_generate_ready r \<and> missing_symbols r = []"
proof -
  have "case assess_quote_quality [demo_quote0] [py ''sh600000''] (utc_datetime (utc_midnight 739000)) 60000000 of Inl _ \<Rightarrow> False
     | Inr r \<Rightarrow> can_generate_ready r" by code_simp
  then obtain r where r: "assess_quote_quality [demo_quote0] [py ''sh600000''] (utc_datetime (utc_midnight 739000)) 60000000 = Inr r"
    "can_generate_ready r" by (auto split: sum.splits)
  have "\<forall>q \<in> set [demo_quote0]. constructed q" using demo_constructed by simp
  from quote_report_exact[OF r(1) this] r show ?thesis by blast
qed

text \<open>The report does not look at the quality flag of a quote: one quote that its provider flagged FAILED, with a fresh
  timestamp, makes the data GOOD and ready.\<close>

theorem failed_quote_is_ready:
  "case assess_quote_quality [demo_quote0] [] (utc_datetime (utc_midnight 739000)) 60000000 of Inl _ \<Rightarrow> False
   | Inr r \<Rightarrow> rep_status r = GOOD \<and> can_generate_ready r \<and> map quality_flag (rep_quotes r) = [Flag FAILED]"
  by code_simp

section \<open>Failover\<close>

text \<open>C18: A call through the failover provider gives what the first provider from the active one on that answers gives, and
  that one becomes active; when none answers it raises and the active provider stays.  Each provider passed over
  leaves one switch event, and the active index never goes back.\<close>

theorem failover_first_answer:
  assumes "call run clock s = (s', res)" "active_index s < length (fo_names s)"
  shows "(case first_answer run [active_index s..<length (fo_names s)] of
         Some (j, r) \<Rightarrow> res = Inr r \<and> active_index s' = j
       | None \<Rightarrow> res = Inl (ProviderError ''all real-time providers failed'') \<and> active_index s' = active_index s)
    \<and> active_index s \<le> active_index s' \<and> active_index s' < length (fo_names s')
    \<and> (\<exists>es. switch_events s' = switch_events s @ es \<and> (returns res \<longrightarrow> map source_from es
          = map (\<lambda>k. fo_names s ! k) [active_index s..<active_index s']))"
proof -
  have len: "length (fo_names s) = active_index s + (length (fo_names s) - active_index s)" using assms(2) by simp
  note sp = call_from_spec[OF assms(1)[unfolded call_def] len, folded len]
  have sub: "j \<in> set is" if "first_answer run is = Some (j, r)" for j r "is"
    using that by (induction "is") (auto split: sum.splits)
  show ?thesis
  proof (cases "first_answer run [active_index s..<length (fo_names s)]")
    case None
    then show ?thesis using sp assms(2) by (auto simp: returns_def)
  next
    case (Some jr)
    obtain j r where jr: "jr = (j, r)" by (cases jr)
    have "j \<in> set [active_index s..<length (fo_names s)]" using sub Some jr by blast
    then have "active_index s \<le> j" "j < length (fo_names s)" by simp_all
    then show ?thesis using sp unfolding Some jr by auto
  qed
qed

theorem failover_first_answer_witness:
  "\<exists>s'. call (\<lambda>i. if i = 1 then Inr True else Inl KeyError) (\<lambda>_. utc_midnight 739000)
       \<lparr>fo_names = [py ''a'', py ''b'', py ''c''], active_index = 0, switch_events = []\<rparr> = (s', Inr True)
     \<and> active_index s' = 1 \<and> map source_from (switch_events s') = [py ''a'']"
proof -
  let ?s = "\<lparr>fo_names = [py ''a'', py ''b'', py ''c''], active_index = 0, switch_events = []\<rparr>"
  let ?run = "\<lambda>i :: nat. if i = 1 then Inr True else Inl KeyError :: bool result"
  obtain s' res where run: "call ?run (\<lambda>_. utc_midnight 739000) ?s = (s', res)" by (cases "call ?run (\<lambda>_. utc_midnight 739000) ?s")
  have fa: "first_answer ?run [active_index ?s..<length (fo_names ?s)] = Some (1, True)" by (simp add: upt_conv_Cons)
  have "active_index ?s < length (fo_names ?s)" by simp
  note f = failover_first_answer[OF run this, unfolded fa option.case prod.case]
  then have res: "res = Inr True" "active_index s' = 1" by blast+
  then show ?thesis using f run by (auto simp: returns_def)
qed

section \<open>The scheduler\<close>

definition keyed :: "(quote \<Rightarrow> bool) \<Rightarrow> (pystr \<times> quote) list \<Rightarrow> bool" where
  "keyed P d \<longleftrightarrow> distinct (map fst d) \<and> (\<forall>(k, q) \<in> set d. qt_symbol q = k \<and> P q)"

lemma keyed_set: "keyed P d \<Longrightarrow> P q \<Longrightarrow> keyed P (dict_set d (qt_symbol q) q)"
  unfolding keyed_def by (auto simp: dict_distinct_set dest: dict_set_mem)

lemma keyed_put: "keyed P d \<Longrightarrow> \<forall>q \<in> set qs. P q \<Longrightarrow> keyed P (foldl put_quote d qs)"
  by (induction qs arbitrary: d) (auto simp: put_quote_def keyed_set split: option.splits)

lemma keyed_replace: "keyed P d \<Longrightarrow> \<forall>q \<in> set qs. P q \<Longrightarrow> keyed P (foldl (\<lambda>d q. dict_set d (qt_symbol q) q) d qs)"
  by (induction qs arbitrary: d) (auto simp: keyed_set)

lemma keyed_Nil [simp]: "keyed P []" by (simp add: keyed_def)

lemma keyed_mono: "keyed P d \<Longrightarrow> (\<And>q. P q \<Longrightarrow> Q q) \<Longrightarrow> keyed Q d"
  unfolding keyed_def by auto

lemma sift_fresh:
  assumes "sift now sa qs = Inr (cs, bad)" "c \<in> set cs" "\<not> is_stale c"
  shows "\<not> expired c now sa"
  using assms
proof (induction qs arbitrary: cs bad)
  case (Cons q qs)
  obtain x cs' bad' where x: "(if expired q now sa then check_quote (q\<lparr>is_stale := True, quality_flag := Flag STALE\<rparr>) else Inr q) = Inr x"
    "sift now sa qs = Inr (cs', bad')" "cs = x # cs'"
    using Cons.prems(1) by (auto simp: bindR_Inr_iff)
  show ?case
  proof (cases "c = x")
    case True
    show ?thesis
    proof (cases "expired q now sa")
      case e: True
      then have "check_quote (q\<lparr>is_stale := True, quality_flag := Flag STALE\<rparr>) = Inr x" using x(1) by simp
      from check_quote_Inr[OF this] have "is_stale x" by auto
      then show ?thesis using Cons.prems(3) True by simp
    qed (use x(1) True in simp)
  next
    case False
    then show ?thesis using Cons.IH[OF x(2)] Cons.prems x(3) by simp
  qed
qed simp

definition report_ok :: "datetime \<Rightarrow> int \<Rightarrow> quality_report \<Rightarrow> bool" where
  "report_ok now sa r \<longleftrightarrow> (is_usable r \<longleftrightarrow> rep_status r \<in> {GOOD, DEGRADED}) \<and> (\<forall>q \<in> set (usable_quotes r). \<not> expired q now sa)"

lemma check_quotes_frame:
  assumes "check_quotes c now qs s = (s', r)"
  shows "sd_store s' = sd_store s \<and> (\<forall>rep b. r = Inr (rep, b) \<longrightarrow> report_ok now (sc_stale_after c) rep)"
proof -
  have rep: "report_ok now (sc_stale_after c) rep" if "breaker_evaluate (sc_stale_after c) st cs ex now = Inr (br, rep)" for st cs ex br rep
  proof -
    have run: "assess_quote_quality cs ex now (sc_stale_after c) = Inr rep"
      using that by (auto simp: breaker_evaluate_def bindR_Inr_iff)
    then obtain ex0 checked bad where a: "mapR normalize_symbol ex = Inr ex0" "sift now (sc_stale_after c) cs = Inr (checked, bad)"
      by (auto simp: assess_quote_quality_def bindR_Inr_iff split: if_splits)
    have "rep_quotes rep = checked" "is_usable rep \<longleftrightarrow> rep_status rep = GOOD \<or> rep_status rep = DEGRADED"
      using run a by (auto simp: assess_quote_quality_def Let_def split: if_splits)
    note a(2) this
    then show ?thesis using sift_fresh by (auto simp: report_ok_def usable_quotes_def)
  qed
  show ?thesis using assms rep by (auto simp: check_quotes_def split: prod.splits sum.splits)
qed

text \<open>A quote in the store was there before the tick or is fresh at its time.\<close>

definition fed :: "datetime \<Rightarrow> int \<Rightarrow> (pystr \<times> quote) list \<Rightarrow> quote \<Rightarrow> bool" where
  "fed now sa d q \<longleftrightarrow> q \<in> snd ` set d \<or> \<not> expired q now sa"

definition tick_ok :: "tick \<Rightarrow> bool" where
  "tick_ok t \<longleftrightarrow> tick_session t = SESSION_OPEN \<and> tick_requested t \<and> (tick_updated t \<longrightarrow> tick_quality t \<in> {Some GOOD, Some DEGRADED})"

definition prep_ok :: "datetime \<Rightarrow> int \<Rightarrow> quality_report option \<Rightarrow> bool" where
  "prep_ok now sa prep \<longleftrightarrow> (\<forall>r. prep = Some r \<longrightarrow> report_ok now sa r)"

lemma priority_tick_ok: "prep_ok now sa prep \<Longrightarrow> usable_priority prep \<Longrightarrow> tick_ok (priority_tick now' prep n err only)"
  by (cases prep) (auto simp: tick_ok_def priority_tick_def open_tick_def usable_priority_def prep_ok_def report_ok_def)

lemma failed_tick_ok: "tick_ok (failed_tick now q err)"
  by (simp add: tick_ok_def failed_tick_def open_tick_def)

lemma process_full_step:
  assumes "process_full_snapshot c ti qs prep n s = (s', r)" "prep_ok (ti_now ti) (sc_stale_after c) prep"
    and "keyed (fed (ti_now ti) (sc_stale_after c) d) (st_quotes (sd_store s))"
  shows "keyed (fed (ti_now ti) (sc_stale_after c) d) (st_quotes (sd_store s')) \<and> (\<forall>t. r = Inr t \<longrightarrow> tick_ok t)"
proof -
  obtain s1 r1 where ck: "check_quotes c (ti_now ti) qs s = (s1, r1)" by (cases "check_quotes c (ti_now ti) qs s")
  note fr = check_quotes_frame[OF ck]
  show ?thesis
  proof (cases r1)
    case (Inl e)
    then show ?thesis using assms ck fr by (auto simp: process_full_snapshot_def)
  next
    case (Inr rb)
    obtain rep b where rb: "rb = (rep, b)" by (cases rb)
    have ok: "report_ok (ti_now ti) (sc_stale_after c) rep" using fr Inr rb by simp
    show ?thesis
    proof (cases "is_usable rep")
      case False
      then have "s' = s1" "r = Inr (if usable_priority prep then priority_tick (ti_now ti) prep n ''FULL_MARKET_DATA_STALE'' False
                        else failed_tick (ti_now ti) (rep_status rep) ''DATA_STALE'')"
        using assms(1) ck Inr rb by (auto simp: process_full_snapshot_def)
      then show ?thesis using fr assms(2,3) by (auto intro: priority_tick_ok failed_tick_ok)
    next
      case True
      have new: "keyed (fed (ti_now ti) (sc_stale_after c) d) (foldl (\<lambda>d q. dict_set d (qt_symbol q) q) [] (usable_quotes rep))"
        by (rule keyed_replace) (use ok in \<open>auto simp: report_ok_def fed_def\<close>)
      have "st_quotes (sd_store s') = foldl (\<lambda>d q. dict_set d (qt_symbol q) q) [] (usable_quotes rep)"
        "\<forall>t. r = Inr t \<longrightarrow> tick_session t = SESSION_OPEN \<and> tick_requested t \<and> tick_quality t = Some (rep_status rep)"
        using assms(1) ck Inr rb True
        by (auto simp: process_full_snapshot_def replace_quote_snapshot_def put_minute_bars_def open_tick_def Let_def split: sum.splits)
      then show ?thesis using new ok True by (auto simp: tick_ok_def report_ok_def)
    qed
  qed
qed

lemma priority_phase_step:
  assumes "priority_phase c ti s = (s', prep, n, e)" "keyed (fed (ti_now ti) (sc_stale_after c) d) (st_quotes (sd_store s))"
  shows "keyed (fed (ti_now ti) (sc_stale_after c) d) (st_quotes (sd_store s')) \<and> prep_ok (ti_now ti) (sc_stale_after c) prep"
proof (cases "sc_priority c = []")
  case True
  then show ?thesis using assms by (auto simp: priority_phase_def prep_ok_def)
next
  case False
  show ?thesis
  proof (cases "retry (sc_attempts c) (ti_priority ti)")
    case (Inl x)
    then show ?thesis using assms False by (auto simp: priority_phase_def prep_ok_def)
  next
    case (Inr qs)
    obtain s1 r1 where ck: "check_quotes c (ti_now ti) qs s = (s1, r1)" by (cases "check_quotes c (ti_now ti) qs s")
    note fr = check_quotes_frame[OF ck]
    show ?thesis
    proof (cases r1)
      case (Inl x)
      then show ?thesis using assms False Inr ck fr by (auto simp: priority_phase_def prep_ok_def)
    next
      case rb: (Inr rb)
      obtain rep b where rep: "rb = (rep, b)" by (cases rb)
      have ok: "report_ok (ti_now ti) (sc_stale_after c) rep" using fr rb rep by simp
      have "keyed (fed (ti_now ti) (sc_stale_after c) d) (foldl put_quote (st_quotes (sd_store s1)) (usable_quotes rep))"
        by (rule keyed_put) (use fr ok assms(2) in \<open>auto simp: report_ok_def fed_def\<close>)
      then show ?thesis using assms False Inr ck fr rb rep ok
        by (auto simp: priority_phase_def prep_ok_def put_quotes_def split: if_splits)
    qed
  qed
qed

lemma scheduled_phase_step:
  assumes "scheduled_phase c ti prep n perr s = (s', t)" "prep_ok (ti_now ti) (sc_stale_after c) prep"
    and "keyed (fed (ti_now ti) (sc_stale_after c) d) (st_quotes (sd_store s))"
  shows "keyed (fed (ti_now ti) (sc_stale_after c) d) (st_quotes (sd_store s')) \<and> tick_ok t"
proof -
  note pok = priority_tick_ok[OF assms(2)]
  define s1 where "s1 = s\<lparr>last_full_at := Some (ti_mono ti)\<rparr>"
  have k1: "keyed (fed (ti_now ti) (sc_stale_after c) d) (st_quotes (sd_store s1))" using assms(3) by (simp add: s1_def)
  consider (wait) "sc_priority c \<noteq> [] \<and> \<not> full_market_due c ti s" | (later) "\<not> (sc_priority c \<noteq> [] \<and> \<not> full_market_due c ti s)" "sc_priority c \<noteq> [] \<and> usable_priority prep"
    | (now) "\<not> (sc_priority c \<noteq> [] \<and> \<not> full_market_due c ti s)" "\<not> (sc_priority c \<noteq> [] \<and> usable_priority prep)" by blast
  then show ?thesis
  proof cases
    case wait
    then show ?thesis using assms(1,3) pok failed_tick_ok by (auto simp: scheduled_phase_def split: if_splits)
  next
    case later
    then show ?thesis using assms(1) k1 pok by (auto simp: scheduled_phase_def Let_def s1_def)
  next
    case now
    obtain s2 r2 where full: "(case retry (sc_full_attempts c) (ti_full ti) of Inl e \<Rightarrow> (s1, Inl e)
                  | Inr qs \<Rightarrow> process_full_snapshot c ti qs prep n s1) = (s2, r2)"
      by (cases "case retry (sc_full_attempts c) (ti_full ti) of Inl e \<Rightarrow> (s1, Inl e)
                  | Inr qs \<Rightarrow> process_full_snapshot c ti qs prep n s1")
    have st: "keyed (fed (ti_now ti) (sc_stale_after c) d) (st_quotes (sd_store s2)) \<and> (\<forall>t. r2 = Inr t \<longrightarrow> tick_ok t)"
    proof (cases "retry (sc_full_attempts c) (ti_full ti)")
      case (Inl e)
      then show ?thesis using full k1 by auto
    next
      case (Inr qs)
      then show ?thesis using process_full_step[OF _ assms(2) k1] full by simp
    qed
    have "(s', t) = (case r2 of Inr t \<Rightarrow> (s2, t)
        | Inl e \<Rightarrow> if usable_priority prep then (s2, priority_tick (ti_now ti) prep n ''FULL_MARKET_UNAVAILABLE'' False)
            else (s2\<lparr>sd_breaker := OPEN\<rparr>, failed_tick (ti_now ti) FAILED (error_name e)))"
      using assms(1) now full by (auto simp: scheduled_phase_def s1_def Let_def split: sum.splits)
    then show ?thesis using st pok failed_tick_ok by (auto split: sum.splits if_splits)
  qed
qed

lemma run_once_open:
  assumes "ti_session ti = Inr SESSION_OPEN" "run_once c ti s = (s', r)" "keyed (fed (ti_now ti) (sc_stale_after c) d) (st_quotes (sd_store s))"
  shows "keyed (fed (ti_now ti) (sc_stale_after c) d) (st_quotes (sd_store s')) \<and> (\<exists>t. r = Inr t \<and> tick_ok t)"
proof -
  obtain s1 prep n perr where ph: "priority_phase c ti s = (s1, prep, n, perr)" by (cases "priority_phase c ti s")
  note p = priority_phase_step[OF ph assms(3)]
  define s2 where "s2 = s1\<lparr>pending_snapshot := None, pending_error := None\<rparr>"
  have k2: "keyed (fed (ti_now ti) (sc_stale_after c) d) (st_quotes (sd_store s2))" using p by (simp add: s2_def)
  note pok = priority_tick_ok[of _ _ prep]
  show ?thesis
  proof (cases "pending_snapshot s1")
    case None
    obtain s4 t where sch: "scheduled_phase c ti prep n perr s2 = (s4, t)" by (cases "scheduled_phase c ti prep n perr s2")
    have "keyed (fed (ti_now ti) (sc_stale_after c) d) (st_quotes (sd_store s4)) \<and> tick_ok t"
      using scheduled_phase_step[OF sch _ k2] p by blast
    then show ?thesis using assms(1,2) ph None sch k2 p pok
      by (auto simp: run_once_def Let_def s2_def split: if_splits)
  next
    case (Some qs)
    obtain s3 r3 where pf: "process_full_snapshot c ti qs prep n s2 = (s3, r3)" by (cases "process_full_snapshot c ti qs prep n s2")
    note f = process_full_step[OF pf conjunct2[OF p] k2]
    show ?thesis
    proof (cases r3)
      case (Inr t)
      then show ?thesis using assms(1,2) ph Some pf f by (auto simp: run_once_def Let_def s2_def)
    next
      case (Inl e)
      obtain s4 t where sch: "scheduled_phase c ti prep n perr s3 = (s4, t)" by (cases "scheduled_phase c ti prep n perr s3")
      have "keyed (fed (ti_now ti) (sc_stale_after c) d) (st_quotes (sd_store s4)) \<and> tick_ok t"
        using scheduled_phase_step[OF sch conjunct2[OF p]] f by blast
      then show ?thesis using assms(1,2) ph Some pf f sch Inl p pok
        by (auto simp: run_once_def Let_def s2_def split: if_splits)
    qed
  qed
qed

lemma keyed_self: "keyed P d \<Longrightarrow> keyed (fed now sa d) d"
  by (force simp: keyed_def fed_def)

lemma run_once_closed:
  assumes "ti_session ti \<noteq> Inr SESSION_OPEN" "run_once c ti s = (s', r)"
  shows "s' = s \<and> (\<forall>ms. ti_session ti = Inr ms \<longrightarrow> r = Inr (skipped_tick (ti_now ti) ms [] (non_open_reason ms)))"
proof (cases "ti_session ti")
  case (Inl e)
  then show ?thesis using assms by (cases e) (auto simp: run_once_def)
next
  case (Inr ms)
  then show ?thesis using assms by (auto simp: run_once_def)
qed

lemma fed_fresh:
  assumes "keyed (fed now sa d) e" "keyed (\<lambda>q. \<not> is_stale q) d"
  shows "keyed (\<lambda>q. \<not> is_stale q) e"
  by (rule keyed_mono[OF assms(1)]) (use assms(2) in \<open>auto simp: fed_def keyed_def expired_def\<close>)

lemma scheduler_step_fresh:
  "scheduler_step c s s' \<Longrightarrow> keyed (\<lambda>q. \<not> is_stale q) (st_quotes (sd_store s)) \<Longrightarrow> keyed (\<lambda>q. \<not> is_stale q) (st_quotes (sd_store s'))"
proof (induction rule: scheduler_step.induct)
  case (ticked ti s s' r)
  show ?case
  proof (cases "ti_session ti = Inr SESSION_OPEN")
    case True
    show ?thesis using run_once_open[OF True ticked(1) keyed_self[OF ticked(2)]] fed_fresh ticked(2) by blast
  next
    case False
    then show ?thesis using run_once_closed[OF False ticked(1)] ticked(2) by simp
  qed
next
  case (refreshed s answers)
  then show ?case by (simp add: worker_done_def split: sum.splits)
qed

lemma scheduler_reachable_fresh:
  assumes "new_scheduler c t0 = Inr s0" "(scheduler_step c)\<^sup>*\<^sup>* s0 s"
  shows "keyed (\<lambda>q. \<not> is_stale q) (st_quotes (sd_store s))"
  using assms(2)
proof (induction rule: rtranclp_induct)
  case base
  then show ?case using assms(1) by (auto simp: new_scheduler_def new_store_def split: if_splits)
next
  case (step s s')
  then show ?case using scheduler_step_fresh by blast
qed

text \<open>C19: In every reachable state a tick at a resolved session ends with a tick record, whatever the provider answers or raises:
  outside the open session it asks nothing and changes nothing, and inside it reports an update only with GOOD or
  DEGRADED data.  The stored quotes have distinct symbols and are never marked stale, and every quote that the tick
  brought into the store was fresh at its time.\<close>

theorem scheduler_serves_fresh:
  assumes "new_scheduler c t0 = Inr s0" "(scheduler_step c)\<^sup>*\<^sup>* s0 s" "ti_session ti = Inr ms" "run_once c ti s = (s', r)"
  shows "(\<exists>t. r = Inr t \<and> tick_session t = ms \<and> (tick_requested t \<longleftrightarrow> ms = SESSION_OPEN)
      \<and> (ms \<noteq> SESSION_OPEN \<longrightarrow> s' = s \<and> \<not> tick_updated t) \<and> (tick_updated t \<longrightarrow> tick_quality t \<in> {Some GOOD, Some DEGRADED}))
    \<and> distinct (map fst (st_quotes (sd_store s')))
    \<and> (\<forall>(k, q) \<in> set (st_quotes (sd_store s')). qt_symbol q = k \<and> \<not> is_stale q
        \<and> (q \<in> snd ` set (st_quotes (sd_store s)) \<or> \<not> expired q (ti_now ti) (sc_stale_after c)))"
proof -
  have k: "keyed (\<lambda>q. \<not> is_stale q) (st_quotes (sd_store s))" by (rule scheduler_reachable_fresh[OF assms(1,2)])
  show ?thesis
  proof (cases "ms = SESSION_OPEN")
    case True
    note o' = run_once_open[OF assms(3)[unfolded True] assms(4) keyed_self[OF k]]
    then obtain t where t: "r = Inr t" "tick_ok t" by blast
    have kf: "keyed (fed (ti_now ti) (sc_stale_after c) (st_quotes (sd_store s))) (st_quotes (sd_store s'))" using o' by blast
    have ks: "keyed (\<lambda>q. \<not> is_stale q) (st_quotes (sd_store s'))" by (rule fed_fresh[OF kf k])
    show ?thesis using t True kf ks by (auto simp: tick_ok_def keyed_def fed_def)
  next
    case False
    then have "ti_session ti \<noteq> Inr SESSION_OPEN" using assms(3) by simp
    from run_once_closed[OF this assms(4)] assms(3) have "s' = s" "r = Inr (skipped_tick (ti_now ti) ms [] (non_open_reason ms))" by auto
    then show ?thesis using False k by (force simp: skipped_tick_def keyed_def)
  qed
qed

definition demo_config :: scheduler_config where
  "demo_config = \<lparr>sc_symbols = [], sc_priority = [py ''600000''], sc_expected = [], sc_full_interval = 60000000, sc_stale_after = 60000000,
     sc_attempts = 3, sc_full_attempts = 3\<rparr>"

text \<open>A good quote for a symbol whose exchange stamped it some microseconds after midnight of day 739000.\<close>

definition quote_at :: "string \<Rightarrow> int \<Rightarrow> quote" where
  "quote_at s t = demo_quote0\<lparr>qt_symbol := py s, exchange_time := utc_datetime (utc_add (utc_midnight 739000) t),
     received_time := utc_datetime (utc_add (utc_midnight 739000) t), quality_flag := Flag GOOD\<rparr>"

definition tick_at :: "int \<Rightarrow> tick_input" where
  "tick_at t = \<lparr>ti_now = utc_datetime (utc_add (utc_midnight 739000) t), ti_session = Inr SESSION_OPEN, ti_mono = t,
     ti_priority = (\<lambda>_. Inr [quote_at ''600000'' t]), ti_full = (\<lambda>_. Inl OSError), ti_bars = (\<lambda>_. Inr [])\<rparr>"

definition demo_started :: scheduler where
  "demo_started = projr (new_scheduler demo_config 0)"

definition demo_first :: "scheduler \<times> tick result" where
  "demo_first = run_once demo_config (tick_at 70000000) demo_started"

lemma demo_started_ok: "new_scheduler demo_config 0 = Inr demo_started"
  by (simp add: demo_started_def new_scheduler_def demo_config_def micros_per_second_def)

theorem scheduler_serves_fresh_witness:
  "case demo_first of (s', r) \<Rightarrow> \<exists>t. r = Inr t \<and> tick_requested t \<and> distinct (map fst (st_quotes (sd_store s')))"
proof -
  obtain s' r where run: "demo_first = (s', r)" by (cases demo_first)
  have "ti_session (tick_at 70000000) = Inr SESSION_OPEN" by (simp add: tick_at_def)
  note f = scheduler_serves_fresh[OF demo_started_ok rtranclp.rtrancl_refl this run[unfolded demo_first_def]]
  show ?thesis unfolding run prod.case using f by blast
qed

text \<open>A full snapshot fetched in the background replaces the whole store, and its quotes are checked against the times of the
  priority quotes seen in the meantime: the priority quote that the very same tick had stored is dropped from the store
  as soon as the snapshot holds an older one of that symbol, while the tick still reports an update.\<close>

theorem fresh_priority_quote_dropped:
  "case run_once demo_config (tick_at 75000000)
      (worker_done demo_config (\<lambda>_. Inr [quote_at ''600000'' 69000000, quote_at ''000001'' 71000000]) (fst demo_first)) of
     (s', r) \<Rightarrow> map fst (st_quotes (sd_store s')) = [py ''000001'']
       \<and> (case r of Inl _ \<Rightarrow> False | Inr t \<Rightarrow> tick_updated t \<and> tick_error t = ''PARTIAL_DATA_STALE'')"
  by code_simp

section \<open>End of day\<close>

lemma final_fold:
  assumes "\<forall>(k, b) \<in> set m. is_final b" "\<forall>b \<in> set bs. is_final b"
  shows "\<forall>(k, b) \<in> set (foldl (\<lambda>m b. dict_set m (bar_key b) b) m bs). is_final b"
  using assms
proof (induction bs arbitrary: m)
  case (Cons b bs)
  have "\<forall>(k, x) \<in> set (dict_set m (bar_key b) b). is_final x"
  proof (rule ballI, rule case_prodI2)
    fix p k x
    assume "p \<in> set (dict_set m (bar_key b) b)" "p = (k, x)"
    then have "x = b \<or> (k, x) \<in> set m" using dict_set_mem[of k x m "bar_key b" b] by blast
    then show "is_final x" using Cons.prems by auto
  qed
  then have "\<forall>(k, x) \<in> set (foldl (\<lambda>m b. dict_set m (bar_key b) b) (dict_set m (bar_key b) b) bs). is_final x"
    by (rule Cons.IH) (use Cons.prems in simp)
  then show ?case by simp
qed simp

text \<open>C20: Finalizing a day moves only final bars of that day into the history and leaves no provisional bar of it; finalizing it
  again changes nothing, and other days are untouched.\<close>

theorem finalize_once:
  assumes "finalize_eod reconciler d s = Inr (s1, f1)" "\<forall>(k, b) \<in> set (historical_bars_of s). is_final b" "d \<notin> finalized_dates s"
  shows "(\<forall>(k, b) \<in> set (historical_bars_of s1). is_final b) \<and> (\<forall>(k, b) \<in> set (provisional s1). bar_date b \<noteq> d)
    \<and> filter (\<lambda>(k, b). bar_date b \<noteq> d) (provisional s1) = filter (\<lambda>(k, b). bar_date b \<noteq> d) (provisional s)
    \<and> (\<forall>reconciler'. finalize_eod reconciler' d s1 = Inr (s1, \<lparr>fin_date = d, finalized_count = 0, discarded_count = 0, fin_status = ''ALREADY_FINALIZED''\<rparr>))"
proof -
  obtain rec where s1: "s1 = s\<lparr>historical_bars_of := foldl (\<lambda>m b. dict_set m (bar_key b) b) (historical_bars_of s) (filter (\<lambda>b. bar_date b = d \<and> is_final b) rec),
             provisional := filter (\<lambda>(_, b). bar_date b \<noteq> d) (provisional s), finalized_dates := insert d (finalized_dates s)\<rparr>"
    using assms(1,3) by (auto simp: finalize_eod_def bindR_Inr_iff Let_def)
  have "\<forall>(k, b) \<in> set (historical_bars_of s1). is_final b" using final_fold[OF assms(2), of "filter (\<lambda>b. bar_date b = d \<and> is_final b) rec"] by (simp add: s1)
  then show ?thesis by (auto simp: s1 finalize_eod_def)
qed

definition demo_bar :: minute_bar where
  "demo_bar = \<lparr>mb_symbol = py ''600000'', mb_time = utc_datetime (utc_midnight 739000), mb_frequency = py ''1m'', mb_open = Num 10, mb_high = Num 10,
     mb_low = Num 10, mb_close = Num 10, mb_volume = Num 0, mb_amount = Num 0, mb_source = py ''s'', is_final = True, mb_flag = Flag GOOD\<rparr>"

theorem finalize_once_witness:
  "\<exists>s1 f. finalize_eod Inr 739000 (put_minute_bars new_store [demo_bar]) = Inr (s1, f) \<and> provisional s1 = []
     \<and> (\<forall>(k, b) \<in> set (historical_bars_of s1). is_final b)"
proof -
  let ?s = "put_minute_bars new_store [demo_bar]"
  have d: "bar_date demo_bar = 739000" by code_simp
  obtain s1 f where run: "finalize_eod Inr 739000 ?s = Inr (s1, f)" by (simp add: finalize_eod_def put_minute_bars_def new_store_def Let_def)
  have h: "\<forall>(k, b) \<in> set (historical_bars_of ?s). is_final b" "739000 \<notin> finalized_dates ?s" by (simp_all add: put_minute_bars_def new_store_def)
  note fin = finalize_once[OF run h]
  have "provisional s1 = []" using run d by (auto simp: finalize_eod_def put_minute_bars_def new_store_def Let_def)
  then show ?thesis using run fin by blast
qed

section \<open>Gaps\<close>

lemma le_div_mult: "0 < (s :: int) \<Longrightarrow> x \<le> y div s \<longleftrightarrow> x * s \<le> y"
proof
  assume s: "0 < s" and le: "x \<le> y div s"
  have "x * s \<le> y div s * s" using le s by (intro mult_right_mono) auto
  also have "\<dots> \<le> y" using s pos_mod_sign[of s y] div_mult_mod_eq[of y s] by linarith
  finally show "x * s \<le> y" .
next
  assume s: "0 < s" and le: "x * s \<le> y"
  have "x * s div s \<le> y div s" using le s by (rule zdiv_mono1)
  then show "x \<le> y div s" using s by simp
qed

lemma gap_times_spec:
  "0 < step \<Longrightarrow> gap_times step a u = map (\<lambda>k. a + int k * step) [0..<nat ((u - a + step - 1) div step)]"
proof (induction step a u rule: gap_times.induct)
  case (1 step a u)
  show ?case
  proof (cases "a < u")
    case False
    then have "\<not> 1 \<le> (u - a + step - 1) div step" using "1.prems" by (simp add: le_div_mult)
    then have "(u - a + step - 1) div step \<le> 0" by linarith
    then show ?thesis using False by (simp add: gap_times.simps[of step a u])
  next
    case True
    have div: "(u - a + step - 1) div step = (u - (a + step) + step - 1) div step + 1"
      using div_add_self2[of step "u - (a + step) + step - 1"] "1.prems" by (simp add: algebra_simps)
    have nn: "0 \<le> (u - (a + step) + step - 1) div step" using True "1.prems" by (simp add: pos_imp_zdiv_nonneg_iff)
    define n where "n = nat ((u - (a + step) + step - 1) div step)"
    have n: "nat ((u - a + step - 1) div step) = Suc n" using div nn by (simp add: n_def nat_add_distrib)
    have IH: "gap_times step (a + step) u = map (\<lambda>k. a + step + int k * step) [0..<n]"
      using 1 True by (simp add: n_def)
    have "gap_times step a u = a # map (\<lambda>k. a + step + int k * step) [0..<n]"
      using True "1.prems" IH by (simp add: gap_times.simps[of step a u])
    also have "\<dots> = map (\<lambda>k. a + int k * step) (0 # map Suc [0..<n])" by (simp add: algebra_simps)
    also have "0 # map Suc [0..<n] = [0..<Suc n]" by (simp only: map_Suc_upt upt_conv_Cons[of 0 "Suc n"] zero_less_Suc)
    finally show ?thesis by (simp only: n)
  qed
qed

text \<open>C21: The loop of the gap tracker ends for every pair of times, and the gaps it reports are exactly the whole intervals
  after the previous bar that lie before the new one, in order.\<close>

theorem gaps_exact:
  assumes "new_gap_tracker n = Inr g0" "gap_interval g = gap_interval g0" "gap_last_seen g s = Some p" "is_aware t"
  shows "\<exists>g' gaps. gap_observe g s t = Inr (g', gaps) \<and> gap_last_seen g' s = Some t
    \<and> (\<forall>x u. (x, u) \<in> set gaps \<longleftrightarrow> x = s \<and> u < instant t \<and> (\<exists>k. 1 \<le> k \<and> micros u = micros (instant p) + k * gap_interval g))
    \<and> sorted (map (micros \<circ> snd) gaps) \<and> distinct gaps"
proof -
  have step: "0 < gap_interval g" using assms(1,2) by (auto simp: new_gap_tracker_def micros_per_second_def split: if_splits)
  define a where "a = micros (instant p) + gap_interval g"
  define u0 where "u0 = micros (instant t)"
  define N where "N = nat ((u0 - a + gap_interval g - 1) div gap_interval g)"
  define gaps where "gaps = (if u0 \<le> a then [] else map (\<lambda>u. (s, UTC u)) (gap_times (gap_interval g) a u0))"
  have run: "gap_observe g s t = Inr (g\<lparr>gap_last_seen := (gap_last_seen g)(s \<mapsto> t)\<rparr>, gaps)"
    using assms(3,4) by (simp add: gap_observe_def gaps_def a_def u0_def Let_def)
  have gt: "gap_times (gap_interval g) a u0 = map (\<lambda>k. a + int k * gap_interval g) [0..<N]"
    using gap_times_spec[OF step] by (simp add: N_def)
  have lt: "k < N \<longleftrightarrow> a + int k * gap_interval g < u0" for k
  proof -
    have "k < N \<longleftrightarrow> int k + 1 \<le> (u0 - a + gap_interval g - 1) div gap_interval g" unfolding N_def by linarith
    also have "\<dots> \<longleftrightarrow> (int k + 1) * gap_interval g \<le> u0 - a + gap_interval g - 1" using step by (rule le_div_mult)
    also have "\<dots> \<longleftrightarrow> a + int k * gap_interval g < u0" by (auto simp: algebra_simps)
    finally show ?thesis .
  qed
  have empty: "N = 0" if "u0 \<le> a" using lt[of 0] that by simp
  have gaps2: "gaps = map (\<lambda>k. (s, UTC (a + int k * gap_interval g))) [0..<N]" using empty by (simp add: gaps_def gt)
  have mem: "(x, u) \<in> set gaps \<longleftrightarrow> x = s \<and> u < instant t \<and> (\<exists>k. 1 \<le> k \<and> micros u = micros (instant p) + k * gap_interval g)" for x u
  proof
    assume "(x, u) \<in> set gaps"
    then obtain k where k: "x = s" "u = UTC (a + int k * gap_interval g)" "k < N" using step by (auto simp: gaps2)
    then have "u < instant t" using lt[of k] by (simp add: utc_order u0_def)
    moreover have "micros u = micros (instant p) + (int k + 1) * gap_interval g" using k by (simp add: a_def algebra_simps)
    ultimately show "x = s \<and> u < instant t \<and> (\<exists>k. 1 \<le> k \<and> micros u = micros (instant p) + k * gap_interval g)"
      using k(1) by (intro conjI exI[of _ "int k + 1"]) simp_all
  next
    assume r: "x = s \<and> u < instant t \<and> (\<exists>k. 1 \<le> k \<and> micros u = micros (instant p) + k * gap_interval g)"
    then obtain k where k: "1 \<le> k" "micros u = micros (instant p) + k * gap_interval g" by blast
    have u: "u = UTC (a + int (nat (k - 1)) * gap_interval g)" using k by (cases u) (simp add: a_def algebra_simps)
    have "a + int (nat (k - 1)) * gap_interval g < u0" using r unfolding u by (simp add: utc_order u0_def)
    then have "nat (k - 1) < N" using lt by blast
    then have "(s, UTC (a + int (nat (k - 1)) * gap_interval g)) \<in> set gaps" unfolding gaps2 set_map by (intro imageI) simp
    then show "(x, u) \<in> set gaps" using r u by simp
  qed
  have sorted: "sorted (map (micros \<circ> snd) gaps)" unfolding gaps2 using step
    by (auto simp: sorted_wrt_iff_nth_less mult_right_mono)
  have "inj_on (\<lambda>k. (s, UTC (a + int k * gap_interval g))) {0..<N}" using step by (intro inj_onI) auto
  then have "distinct gaps" unfolding gaps2 by (simp add: distinct_map)
  then show ?thesis using run mem sorted by auto
qed

theorem gaps_exact_witness:
  "\<exists>g' gaps. gap_observe \<lparr>gap_interval = 60000000, gap_last_seen = [py ''600000'' \<mapsto> utc_datetime (utc_midnight 739000)]\<rparr> (py ''600000'')
      (utc_datetime (utc_add (utc_midnight 739000) 180000000)) = Inr (g', gaps) \<and> distinct gaps"
proof -
  have g0: "new_gap_tracker 60 = Inr \<lparr>gap_interval = 60000000, gap_last_seen = Map.empty\<rparr>" by (simp add: new_gap_tracker_def micros_per_second_def)
  show ?thesis
    using gaps_exact[OF g0, of "\<lparr>gap_interval = 60000000, gap_last_seen = [py ''600000'' \<mapsto> utc_datetime (utc_midnight 739000)]\<rparr>" "py ''600000''"
        "utc_datetime (utc_midnight 739000)" "utc_datetime (utc_add (utc_midnight 739000) 180000000)"] by auto
qed

end
