(* ===== verification/Eod_Coordinator.thy ===== *)
theory Eod_Coordinator
  imports Trading_Calendar Py_Json Py_Iso
begin

text \<open>
  \<^verbatim>\<open>runtime/eod_coordinator.py\<close>: the end-of-day refresh with its retries and its checkpoint file.

  The refresh callback runs outside the coordinator's lock, so a run is two steps, \<open>begin_run\<close> up to the call of the
  refresh and \<open>end_run\<close> from its outcome on, with the locals of the running thread kept in \<open>run_in_progress\<close> (which is also
  the run lock); every other operation may come between them.  The clock, the outcome of the refresh and what each
  write of the checkpoint reports (\<open>None\<close>, or the exception it raises, after which the old file is still in place) are
  arguments.  The checkpoint file is what \<^verbatim>\<open>read_checked_json\<close> makes of it: missing, refused with an exception, or a body.
  Durations are numbers of microseconds, finite by their type.  An exception text that \<^verbatim>\<open>last_error\<close> cuts at 500
  characters is kept as the exception; Chinese exception texts are paraphrased.
\<close>

section \<open>Display texts\<close>

text \<open>The texts for the user, as code points; they are stored in the checkpoint.\<close>

definition notice_waiting :: json where
  "notice_waiting = JStr [0x7B49, 0x5F85, 0x65E5, 0x7EBF, 0x5237, 0x65B0, 0x3002]"

definition notice_holdings_paused :: json where
  "notice_holdings_paused = JStr [0x6301, 0x4ED3, 0x8303, 0x56F4, 0x5DF2, 0x66F4, 0x65B0, 0xFF1B, 0x65E5, 0x7EBF, 0x4EFB, 0x52A1, 0x4ECD,
    0x6682, 0x505C, 0xFF0C, 0x4FEE, 0x590D, 0x539F, 0x56E0, 0x5E76, 0x6838, 0x9A8C, 0x540E, 0x518D, 0x91CD,
    0x8BD5, 0x3002]"

definition notice_holdings_changed :: json where
  "notice_holdings_changed = JStr [0x6301, 0x4ED3, 0x8303, 0x56F4, 0x6539, 0x53D8, 0xFF0C, 0x7B49, 0x5F85, 0x8865, 0x9F50, 0x5FC5, 0x8981,
    0x65E5, 0x7EBF, 0x8F93, 0x5165, 0x548C, 0x6301, 0x4ED3, 0x8BA1, 0x5212, 0x3002]"

definition notice_calendar_missing :: json where
  "notice_calendar_missing = JStr [0x7F3A, 0x5C11, 0x8BE5, 0x5E74, 0x4EFD, 0x7684, 0x6B63, 0x5F0F, 0x4EA4, 0x6613, 0x65E5, 0x5386, 0xFF0C,
    0x65E5, 0x7EBF, 0x4EFB, 0x52A1, 0x6682, 0x505C, 0xFF1B, 0x4E0D, 0x4F1A, 0x731C, 0x6D4B, 0x4EA4, 0x6613,
    0x65E5, 0x3002]"

definition notice_permission_missing :: json where
  "notice_permission_missing = JStr [0x6587, 0x4EF6, 0x6743, 0x9650, 0x4E0D, 0x8DB3, 0xFF0C, 0x65E5, 0x7EBF, 0x4EFB, 0x52A1, 0x6682, 0x505C,
    0xFF1B, 0x4FEE, 0x590D, 0x6743, 0x9650, 0x5E76, 0x6838, 0x9A8C, 0x540E, 0x89E3, 0x9664, 0x4EFB, 0x52A1,
    0x963B, 0x585E, 0xFF0C, 0x4E0D, 0x4F1A, 0x81EA, 0x52A8, 0x6269, 0x5927, 0x6743, 0x9650, 0x3002]"

definition notice_retry_later :: json where
  "notice_retry_later = JStr [0x65E5, 0x7EBF, 0x5237, 0x65B0, 0x5931, 0x8D25, 0xFF0C, 0x4FDD, 0x7559, 0x4E0A, 0x6B21, 0x7ED3, 0x679C,
    0x5E76, 0x6309, 0x9650, 0x989D, 0x91CD, 0x8BD5, 0x3002]"

definition notice_refreshed :: json where
  "notice_refreshed = JStr [0x65E5, 0x7EBF, 0x5237, 0x65B0, 0x5B8C, 0x6210, 0x3002]"

definition notice_not_saved :: json where
  "notice_not_saved = JStr [0x4EFB, 0x52A1, 0x72B6, 0x6001, 0x65E0, 0x6CD5, 0x53EF, 0x9760, 0x4FDD, 0x5B58, 0xFF0C, 0x5DF2, 0x6682,
    0x505C, 0xFF1B, 0x4E0D, 0x4F1A, 0x628A, 0x672A, 0x4FDD, 0x5B58, 0x7684, 0x4EFB, 0x52A1, 0x6807, 0x4E3A,
    0x5B8C, 0x6210, 0x3002]"

definition notice_interrupted :: json where
  "notice_interrupted = JStr [0x4E0A, 0x6B21, 0x8FD0, 0x884C, 0x4E2D, 0x65AD, 0xFF0C, 0x7B49, 0x5F85, 0x6309, 0x539F, 0x76EE, 0x6807,
    0x548C, 0x91CD, 0x8BD5, 0x9650, 0x989D, 0x6062, 0x590D, 0x3002]"

definition notice_rejected :: json where
  "notice_rejected = JStr [0x4EFB, 0x52A1, 0x68C0, 0x67E5, 0x70B9, 0x6821, 0x9A8C, 0x5931, 0x8D25, 0xFF0C, 0x5DF2, 0x6682, 0x505C,
    0xFF1B, 0x9700, 0x6838, 0x9A8C, 0x8BE5, 0x6587, 0x4EF6, 0x540E, 0x6062, 0x590D, 0x3002]"

definition notice_refreshing :: "date \<Rightarrow> json" where
  "notice_refreshing d = JStr ([0x6B63, 0x5728, 0x5237, 0x65B0, 0x20] @ date_iso d @ [0x20, 0x7684, 0x65E5, 0x7EBF, 0x4E0E, 0x5019, 0x9009, 0x3002])"
section \<open>The state\<close>

datatype disk = Missing | Damaged pyerror | Checked "(string \<times> json) list"

datatype failure_note = Note json | Raised pyerror

record eod_config =
  cf_calendar :: calendar
  close_time :: int
  retry_base :: int
  retry_max :: int
  maximum_attempts :: int
  has_checkpoint :: bool
  completion_is_valid :: "(date \<Rightarrow> bool) option"

record eod =
  completed :: "date set"
  pending_target :: "date option"
  attempts :: int
  next_retry :: "datetime option"
  last_attempt :: "datetime option"
  last_success :: "datetime option"
  last_success_day :: "date option"
  eod_status :: json
  notice_zh :: json
  error_code :: json
  last_error :: "failure_note option"
  blocked_target :: "date option"
  eod_stop :: bool
  request_revision :: nat
  input_summary :: json
  run_in_progress :: "(date \<times> nat \<times> int) option"
  checkpoint :: disk

abbreviation word :: "string \<Rightarrow> json" where
  "word s \<equiv> JStr (py s)"

definition paused_codes :: "json list" where
  "paused_codes = [word ''PERMISSION_DENIED'', word ''CHECKPOINT_WRITE_FAILED'']"

definition is_paused :: "eod \<Rightarrow> bool" where
  "is_paused s \<longleftrightarrow> eod_status s = word ''BLOCKED'' \<and> error_code s \<in> set paused_codes"

definition fresh_coordinator :: "disk \<Rightarrow> eod" where
  "fresh_coordinator f = \<lparr>completed = {}, pending_target = None, attempts = 0, next_retry = None, last_attempt = None,
     last_success = None, last_success_day = None, eod_status = word ''NOT_RUN'', notice_zh = notice_waiting, error_code = JNull,
     last_error = None, blocked_target = None, eod_stop = False, request_revision = 0, input_summary = JNull,
     run_in_progress = None, checkpoint = f\<rparr>"

section \<open>The clock and the checkpoint\<close>

definition in_shanghai :: "datetime \<Rightarrow> datetime" where
  "in_shanghai t = \<lparr>dt_local = shanghai_local t, dt_offset = Some (8 * 3600 * micros_per_second)\<rparr>"

definition eod_now :: "datetime \<Rightarrow> datetime result" where
  "eod_now t = (if is_aware t then Inr (in_shanghai t) else Inl (ValueError ''EOD clock must be timezone-aware''))"

definition json_option :: "('a \<Rightarrow> json) \<Rightarrow> 'a option \<Rightarrow> json" where
  "json_option f v = (case v of None \<Rightarrow> JNull | Some x \<Rightarrow> f x)"

definition eod_snapshot :: "eod_config \<Rightarrow> eod \<Rightarrow> (string \<times> json) list" where
  "eod_snapshot cf s =
     [(''status'', eod_status s), (''notice_zh'', notice_zh s), (''target_session'', json_option JDate (pending_target s)),
      (''attempts'', JInt (attempts s)), (''maximum_attempts'', JInt (maximum_attempts cf)),
      (''last_attempt_at'', json_option JTime (last_attempt s)), (''last_success_at'', json_option JTime (last_success s)),
      (''last_success_session'', json_option JDate (last_success_day s)), (''next_retry_at'', json_option JTime (next_retry s)),
      (''error_code'', error_code s), (''input_summary'', input_summary s)]"

definition newest :: "nat \<Rightarrow> date set \<Rightarrow> date list" where
  "newest k ds = (let xs = sorted_list_of_set ds in drop (length xs - k) xs)"

definition checkpoint_body :: "eod_config \<Rightarrow> eod \<Rightarrow> (string \<times> json) list" where
  "checkpoint_body cf s = (''format_version'', JInt 1) # eod_snapshot cf s
     @ [(''completed'', JList (map JDate (newest 64 (completed s)))), (''blocked_target'', json_option JDate (blocked_target s))]"

definition persist :: "eod_config \<Rightarrow> pyerror option \<Rightarrow> eod \<Rightarrow> eod result" where
  "persist cf w s = (if \<not> has_checkpoint cf then Inr s
     else case w of Some e \<Rightarrow> Inl e | None \<Rightarrow> Inr (s\<lparr>checkpoint := Checked (checkpoint_body cf s)\<rparr>))"

section \<open>Restoring\<close>

definition is_one :: "json \<Rightarrow> bool" where
  "is_one v \<longleftrightarrow> v = JInt 1 \<or> v = JBool True \<or> v = JDec 1"

text \<open>\<^verbatim>\<open>isinstance(v, int)\<close>, which a bool is.\<close>

definition int_like :: "json \<Rightarrow> int result" where
  "int_like v = (case v of JInt i \<Rightarrow> Inr i | JBool b \<Rightarrow> Inr (if b then 1 else 0) | _ \<Rightarrow> Inl (ValueError ''unsupported checkpoint''))"

text \<open>Iterating over a value of the file: an object gives its keys.\<close>

definition dates_of :: "json \<Rightarrow> date list result" where
  "dates_of v = (case v of JList xs \<Rightarrow> mapR date_of xs | JObj ob \<Rightarrow> mapR (\<lambda>(k, _). iso_date (py k)) ob
     | JStr [] \<Rightarrow> Inr [] | JStr _ \<Rightarrow> Inl (ValueError ''Invalid isoformat string'') | _ \<Rightarrow> Inl (TypeError ''object is not iterable''))"

definition date_or_none :: "json \<Rightarrow> date option result" where
  "date_or_none v = (if v = JNull then Inr None else bindR (date_of v) (\<lambda>d. Inr (Some d)))"

definition datetime_or_none :: "json \<Rightarrow> datetime option result" where
  "datetime_or_none v = (if v = JNull then Inr None else bindR (time_of v) (\<lambda>t.
     if is_aware t then Inr (Some t) else Inl (ValueError ''checkpoint timestamps must be aware'')))"

text \<open>The assignments of \<^verbatim>\<open>_restore\<close>, in their order: one that raises leaves the earlier ones in place.\<close>

definition restore_version :: "(string \<times> json) list \<Rightarrow> int result" where
  "restore_version b = bindR (field b ''format_version'') (\<lambda>v.
     if is_one v then bindR (field b ''attempts'') int_like else Inl (ValueError ''unsupported checkpoint''))"

definition restore_completed :: "eod_config \<Rightarrow> (string \<times> json) list \<Rightarrow> eod \<Rightarrow> eod result" where
  "restore_completed cf b s = bindR (restore_version b) (\<lambda>n.
     bindR (bindR (field b ''completed'') dates_of) (\<lambda>ds.
     if 64 < length (remdups ds) \<or> n < 0 \<or> maximum_attempts cf < n then Inl (ValueError ''invalid checkpoint attempts'')
     else Inr (s\<lparr>completed := set (case completion_is_valid cf of None \<Rightarrow> ds | Some ok \<Rightarrow> filter ok ds)\<rparr>)))"

definition restore_clock :: "datetime \<Rightarrow> eod \<Rightarrow> eod result" where
  "restore_clock now s = (case last_attempt s of None \<Rightarrow> Inr s
     | Some t \<Rightarrow> bindR (eod_now now) (\<lambda>cur.
         if instant cur < instant t then Inl (ValueError ''checkpoint clock is ahead of current time'') else Inr s))"

definition resume_interrupted :: "eod \<Rightarrow> eod" where
  "resume_interrupted s = (if eod_status s = word ''RUNNING''
     then s\<lparr>eod_status := word ''PENDING'', notice_zh := notice_interrupted\<rparr> else s)"

definition restore_steps :: "eod_config \<Rightarrow> datetime \<Rightarrow> (string \<times> json) list \<Rightarrow> (eod \<Rightarrow> eod result) list" where
  "restore_steps cf now b =
     [restore_completed cf b,
      \<lambda>s. bindR (bindR (field b ''target_session'') date_or_none) (\<lambda>d. Inr (s\<lparr>pending_target := d\<rparr>)),
      \<lambda>s. bindR (bindR (field b ''blocked_target'') date_or_none) (\<lambda>d. Inr (s\<lparr>blocked_target := d\<rparr>)),
      \<lambda>s. bindR (bindR (field b ''attempts'') int_like) (\<lambda>n. Inr (s\<lparr>attempts := n\<rparr>)),
      \<lambda>s. bindR (bindR (field b ''next_retry_at'') datetime_or_none) (\<lambda>t. Inr (s\<lparr>next_retry := t\<rparr>)),
      \<lambda>s. bindR (bindR (field b ''last_attempt_at'') datetime_or_none) (\<lambda>t. Inr (s\<lparr>last_attempt := t\<rparr>)),
      \<lambda>s. bindR (bindR (field b ''last_success_at'') datetime_or_none) (\<lambda>t. Inr (s\<lparr>last_success := t\<rparr>)),
      \<lambda>s. bindR (bindR (field b ''last_success_session'') date_or_none) (\<lambda>d. Inr (s\<lparr>last_success_day := d\<rparr>)),
      restore_clock now,
      \<lambda>s. bindR (field b ''status'') (\<lambda>v. Inr (s\<lparr>eod_status := v\<rparr>)),
      \<lambda>s. bindR (field b ''notice_zh'') (\<lambda>v. Inr (s\<lparr>notice_zh := v\<rparr>)),
      \<lambda>s. bindR (field b ''error_code'') (\<lambda>v. Inr (s\<lparr>error_code := v\<rparr>)),
      \<lambda>s. Inr (resume_interrupted (s\<lparr>input_summary := (case dict_get b ''input_summary'' of None \<Rightarrow> JNull | Some v \<Rightarrow> v)\<rparr>))]"

fun run_steps :: "('s \<Rightarrow> 's result) list \<Rightarrow> 's \<Rightarrow> 's \<times> pyerror option" where
  "run_steps [] s = (s, None)"
| "run_steps (f # fs) s = (case f s of Inl e \<Rightarrow> (s, Some e) | Inr s' \<Rightarrow> run_steps fs s')"

definition reject_checkpoint :: "eod \<Rightarrow> eod" where
  "reject_checkpoint s = s\<lparr>eod_status := word ''BLOCKED'', notice_zh := notice_rejected,
     error_code := word ''CHECKPOINT_REJECTED'', eod_stop := True\<rparr>"

definition restore :: "eod_config \<Rightarrow> datetime \<Rightarrow> eod \<Rightarrow> eod result" where
  "restore cf now s = (case (case checkpoint s of Missing \<Rightarrow> (s, None) | Damaged e \<Rightarrow> (s, Some e)
        | Checked b \<Rightarrow> run_steps (restore_steps cf now b) s) of
       (s', None) \<Rightarrow> Inr s'
     | (s', Some e) \<Rightarrow> if is_os_or_value_error e \<or> is_row_error e then Inr (reject_checkpoint s') else Inl e)"

definition new_coordinator :: "eod_config \<Rightarrow> datetime \<Rightarrow> disk \<Rightarrow> eod result" where
  "new_coordinator cf now f =
     (if retry_base cf < 0 \<or> retry_max cf < retry_base cf \<or> maximum_attempts cf < 1 then Inl (ValueError ''invalid EOD retry limits'')
      else if has_checkpoint cf then restore cf now (fresh_coordinator f) else Inr (fresh_coordinator f))"

section \<open>Requests and reviews\<close>

definition request_refresh :: "eod_config \<Rightarrow> datetime \<Rightarrow> pyerror option \<Rightarrow> eod \<Rightarrow> eod \<times> unit result" where
  "request_refresh cf now w s =
     (case bindR (eod_now now) (\<lambda>cur. latest_completed_session (cf_calendar cf) cur (close_time cf)) of
        Inl e \<Rightarrow> (s, Inl e)
      | Inr target \<Rightarrow>
          if error_code s = word ''CHECKPOINT_REJECTED'' then (s, Inl (ValueError ''rejected checkpoint cannot be overwritten''))
          else let s1 = s\<lparr>request_revision := Suc (request_revision s), completed := completed s - {target},
                      pending_target := Some target, attempts := (if is_paused s then attempts s else 0), next_retry := None\<rparr>;
                   s2 = (if is_paused s then s1\<lparr>notice_zh := notice_holdings_paused\<rparr>
                         else s1\<lparr>eod_status := word ''PENDING'', notice_zh := notice_holdings_changed\<rparr>)
               in (case persist cf w s2 of Inl e \<Rightarrow> (s2, Inl e) | Inr s3 \<Rightarrow> (s3, Inr ())))"

definition retry_after_review :: "eod_config \<Rightarrow> datetime \<Rightarrow> pyerror option \<Rightarrow> eod \<Rightarrow> eod \<times> (string \<times> json) list result" where
  "retry_after_review cf now w s =
     (if error_code s = word ''CHECKPOINT_REJECTED'' then (s, Inl (ValueError ''the checkpoint was rejected; review the file first''))
      else if eod_stop s then (s, Inl (RuntimeError ''the system is stopping''))
      else if run_in_progress s \<noteq> None then (s, Inl (RuntimeError ''a refresh is running''))
      else (case request_refresh cf now w (s\<lparr>blocked_target := None, eod_status := word ''PENDING'', last_error := None, error_code := JNull\<rparr>) of
          (s1, Inl e) \<Rightarrow> (s1, Inl e)
        | (s1, Inr _) \<Rightarrow> (s1, Inr (eod_snapshot cf s1))))"

section \<open>A run\<close>

definition calendar_failure :: "eod_config \<Rightarrow> pyerror option \<Rightarrow> eod \<Rightarrow> eod \<times> bool result" where
  "calendar_failure cf w s =
     (let s1 = s\<lparr>last_error := Some (Note (word ''CALENDAR_UNAVAILABLE'')), error_code := word ''CALENDAR_UNAVAILABLE'',
            eod_status := word ''BLOCKED'', notice_zh := notice_calendar_missing\<rparr>
      in case persist cf w s1 of
           Inr s2 \<Rightarrow> (s2, Inr False)
         | Inl e \<Rightarrow> if is_os_or_value_error e then (s1\<lparr>error_code := word ''CHECKPOINT_WRITE_FAILED''\<rparr>, Inr False) else (s1, Inl e))"

text \<open>The handler around a run: the outcome could not be saved, so the target counts as pending.\<close>

definition checkpoint_failed :: "date \<Rightarrow> pyerror \<Rightarrow> eod \<Rightarrow> eod" where
  "checkpoint_failed target e s = s\<lparr>completed := completed s - {target}, pending_target := Some target,
     eod_status := word ''BLOCKED'', blocked_target := Some target, error_code := word ''CHECKPOINT_WRITE_FAILED'',
     last_error := Some (Raised e), notice_zh := notice_not_saved\<rparr>"

definition handled :: "date \<Rightarrow> eod \<times> bool result \<Rightarrow> eod \<times> bool result" where
  "handled target r = (case r of
       (s, Inl e) \<Rightarrow> if is_os_or_value_error e then (checkpoint_failed target e s, Inr False) else (s, Inl e)
     | (s, Inr b) \<Rightarrow> (s, Inr b))"

text \<open>\<^verbatim>\<open>_run_target\<close> up to the call of the refresh; the result says whether it is called.\<close>

definition begin_run :: "eod_config \<Rightarrow> pyerror option \<Rightarrow> date \<Rightarrow> datetime \<Rightarrow> eod \<Rightarrow> eod \<times> bool result" where
  "begin_run cf w target cur s =
     (if run_in_progress s \<noteq> None then (s, Inr False)
      else if target \<in> completed s \<or> blocked_target s = Some target \<or> is_paused s \<or> eod_stop s then (s, Inr False)
      else let s1 = (if pending_target s = Some target then s
                     else s\<lparr>pending_target := Some target, attempts := 0, next_retry := None\<rparr>)
      in if maximum_attempts cf \<le> attempts s1 \<or> (case next_retry s1 of None \<Rightarrow> False | Some t \<Rightarrow> instant cur < instant t)
         then (s1, Inr False)
         else let s2 = s1\<lparr>attempts := attempts s1 + 1, last_attempt := Some cur, eod_status := word ''RUNNING'',
                   notice_zh := notice_refreshing target\<rparr>
              in handled target (case persist cf w s2 of
                   Inl e \<Rightarrow> (s2, Inl e)
                 | Inr s3 \<Rightarrow> (s3\<lparr>run_in_progress := Some (target, request_revision s3, attempts s3)\<rparr>, Inr True)))"

definition run_at :: "(datetime \<Rightarrow> date option result) \<Rightarrow> eod_config \<Rightarrow> datetime \<Rightarrow> pyerror option \<Rightarrow> eod \<Rightarrow> eod \<times> bool result" where
  "run_at target_of cf now w s =
     (if eod_stop s then (s, Inr False)
      else case eod_now now of Inl e \<Rightarrow> (s, Inl e)
      | Inr cur \<Rightarrow> (case target_of cur of
          Inl CalendarUnavailableError \<Rightarrow> calendar_failure cf w s
        | Inl e \<Rightarrow> (s, Inl e)
        | Inr None \<Rightarrow> (s, Inr False)
        | Inr (Some t) \<Rightarrow> begin_run cf w t cur s))"

definition session_over :: "eod_config \<Rightarrow> datetime \<Rightarrow> bool result" where
  "session_over cf cur = bindR (is_session (cf_calendar cf) (local_date (dt_local cur))) (\<lambda>b.
     Inr (b \<and> close_time cf \<le> local_time (dt_local cur)))"

definition due_target :: "eod_config \<Rightarrow> eod \<Rightarrow> datetime \<Rightarrow> date option result" where
  "due_target cf s cur = bindR (session_over cf cur) (\<lambda>b.
     Inr (if b then Some (local_date (dt_local cur)) else pending_target s))"

definition initial_target :: "eod_config \<Rightarrow> datetime \<Rightarrow> date option result" where
  "initial_target cf cur = bindR (session_over cf cur) (\<lambda>b.
     if b then Inr (Some (local_date (dt_local cur)))
     else bindR (previous_session (cf_calendar cf) (local_date (dt_local cur))) (\<lambda>d. Inr (Some d)))"

definition run_due :: "eod_config \<Rightarrow> datetime \<Rightarrow> pyerror option \<Rightarrow> eod \<Rightarrow> eod \<times> bool result" where
  "run_due cf now w s = run_at (due_target cf s) cf now w s"

definition run_initial :: "eod_config \<Rightarrow> datetime \<Rightarrow> pyerror option \<Rightarrow> eod \<Rightarrow> eod \<times> bool result" where
  "run_initial cf now w s = run_at (initial_target cf) cf now w s"

definition retry_delay :: "eod_config \<Rightarrow> int \<Rightarrow> int" where
  "retry_delay cf n = min (retry_max cf) (retry_base cf * 2 ^ nat (n - 1))"

definition later :: "datetime \<Rightarrow> int \<Rightarrow> datetime" where
  "later t n = t\<lparr>dt_local := dt_local t + n\<rparr>"

definition record_failure :: "eod_config \<Rightarrow> pyerror option \<Rightarrow> datetime \<Rightarrow> nat \<Rightarrow> int \<Rightarrow> eod \<Rightarrow> eod \<times> bool result" where
  "record_failure cf w cur rv n s =
     (let exhausted = maximum_attempts cf \<le> attempts s;
          s1 = (if rv \<noteq> request_revision s then s\<lparr>eod_status := word ''PENDING''\<rparr>
                else s\<lparr>eod_status := word (if exhausted then ''RETRY_EXHAUSTED'' else ''FAILED''),
                       next_retry := (if exhausted then None else Some (later cur (retry_delay cf n)))\<rparr>)
      in case persist cf w s1 of Inl e \<Rightarrow> (s1, Inl e) | Inr s2 \<Rightarrow> (s2, Inr False))"

definition failure_now :: "eod_config \<Rightarrow> datetime \<Rightarrow> pyerror option \<Rightarrow> nat \<Rightarrow> int \<Rightarrow> eod \<Rightarrow> eod \<times> bool result" where
  "failure_now cf now w rv n s = (case eod_now now of Inl e \<Rightarrow> (s, Inl e) | Inr cur \<Rightarrow> record_failure cf w cur rv n s)"

text \<open>\<^verbatim>\<open>except Exception\<close> around the refresh, which also catches what the recording of a failed refresh raises.\<close>

definition refresh_raised :: "eod_config \<Rightarrow> datetime \<Rightarrow> pyerror option \<Rightarrow> date \<Rightarrow> nat \<Rightarrow> int \<Rightarrow> pyerror \<Rightarrow> eod \<Rightarrow> eod \<times> bool result" where
  "refresh_raised cf now w target rv n e s =
     (let s1 = s\<lparr>last_error := Some (Raised e),
            error_code := word (if e = PermissionError then ''PERMISSION_DENIED'' else error_name e)\<rparr>
      in if e = PermissionError
         then let s2 = s1\<lparr>blocked_target := Some target, eod_status := word ''BLOCKED'', next_retry := None, notice_zh := notice_permission_missing\<rparr>
              in (case persist cf w s2 of Inl x \<Rightarrow> (s2, Inl x) | Inr s3 \<Rightarrow> (s3, Inr False))
         else failure_now cf now w rv n (s1\<lparr>notice_zh := notice_retry_later\<rparr>))"

record refresh_result =
  rr_success :: bool
  rr_status :: pystr
  rr_notice :: pystr
  rr_summary :: json

text \<open>What the refresh does: it returns nothing or a result, or it raises (a value of another type raises as well).\<close>

datatype refresh_outcome = Returned "refresh_result option" | Failed pyerror

record end_input =
  first_clock :: datetime
  second_clock :: datetime
  first_write :: "pyerror option"
  second_write :: "pyerror option"

definition refresh_succeeded :: "eod_config \<Rightarrow> end_input \<Rightarrow> date \<Rightarrow> nat \<Rightarrow> json \<Rightarrow> eod \<Rightarrow> eod \<times> bool result" where
  "refresh_succeeded cf i target rv msg s =
     (let s1 = s\<lparr>last_error := None, error_code := JNull\<rparr>;
          s2 = (if rv = request_revision s1 then s1\<lparr>completed := insert target (completed s1), pending_target := None\<rparr> else s1)\<lparr>next_retry := None\<rparr>
      in case eod_now (first_clock i) of Inl e \<Rightarrow> (s2, Inl e)
       | Inr cur \<Rightarrow> let s3 = s2\<lparr>last_success := Some cur, last_success_day := Some target,
             eod_status := word (if pending_target s2 = None then ''SUCCESS'' else ''PENDING''), notice_zh := msg\<rparr>
           in (case persist cf (first_write i) s3 of Inl e \<Rightarrow> (s3, Inl e) | Inr s4 \<Rightarrow> (s4, Inr True)))"

text \<open>The rest of \<^verbatim>\<open>_run_target\<close>, from the outcome of the refresh to the release of the run lock.\<close>

definition refreshed :: "eod_config \<Rightarrow> end_input \<Rightarrow> refresh_outcome \<Rightarrow> date \<Rightarrow> nat \<Rightarrow> int \<Rightarrow> eod \<Rightarrow> eod \<times> bool result" where
  "refreshed cf i oc target rv n s = (case oc of
       Failed e \<Rightarrow> refresh_raised cf (first_clock i) (first_write i) target rv n e s
     | Returned None \<Rightarrow> refresh_succeeded cf i target rv notice_refreshed s
     | Returned (Some r) \<Rightarrow>
         let s1 = s\<lparr>input_summary := rr_summary r\<rparr> in
         if rr_success r then refresh_succeeded cf i target rv (JStr (rr_notice r)) s1
         else (case failure_now cf (first_clock i) (first_write i) rv n
                 (s1\<lparr>last_error := Some (Note (JStr (rr_status r))), error_code := JStr (rr_status r), notice_zh := JStr (rr_notice r)\<rparr>) of
             (s2, Inl e) \<Rightarrow> refresh_raised cf (second_clock i) (second_write i) target rv n e s2
           | (s2, Inr b) \<Rightarrow> (s2, Inr b)))"

definition end_run :: "eod_config \<Rightarrow> end_input \<Rightarrow> refresh_outcome \<Rightarrow> eod \<Rightarrow> eod \<times> bool result" where
  "end_run cf i oc s = (case run_in_progress s of None \<Rightarrow> (s, Inr False)
     | Some (target, rv, n) \<Rightarrow> (case handled target (refreshed cf i oc target rv n s) of
         (s1, r) \<Rightarrow> (s1\<lparr>run_in_progress := None\<rparr>, r)))"

section \<open>Starting, stopping and the steps of the coordinator\<close>

definition eod_start :: "eod \<Rightarrow> eod" where
  "eod_start s = s\<lparr>eod_stop := (error_code s = word ''CHECKPOINT_REJECTED'')\<rparr>"

definition eod_halt :: "eod \<Rightarrow> eod" where
  "eod_halt s = s\<lparr>eod_stop := True\<rparr>"

text \<open>The session a call of \<open>run_due\<close> or \<open>run_initial\<close> aims at, if any.\<close>

definition aimed :: "(datetime \<Rightarrow> date option result) \<Rightarrow> datetime \<Rightarrow> eod \<Rightarrow> date option" where
  "aimed target_of now s = (if eod_stop s then None
     else case bindR (eod_now now) target_of of Inr (Some t) \<Rightarrow> Some t | _ \<Rightarrow> None)"

datatype eod_label = Tried date bool | Ended bool | Requested | Restarted | Quiet

inductive eod_step :: "eod_config \<Rightarrow> eod \<Rightarrow> eod_label \<Rightarrow> eod \<Rightarrow> bool" for cf where
  tried_due: "run_due cf now w s = (s', r) \<Longrightarrow> aimed (due_target cf s) now s = Some t \<Longrightarrow> eod_step cf s (Tried t (r = Inr True)) s'"
| tried_initial: "run_initial cf now w s = (s', r) \<Longrightarrow> aimed (initial_target cf) now s = Some t \<Longrightarrow> eod_step cf s (Tried t (r = Inr True)) s'"
| idle_due: "run_due cf now w s = (s', r) \<Longrightarrow> aimed (due_target cf s) now s = None \<Longrightarrow> eod_step cf s Quiet s'"
| idle_initial: "run_initial cf now w s = (s', r) \<Longrightarrow> aimed (initial_target cf) now s = None \<Longrightarrow> eod_step cf s Quiet s'"
| ended: "run_in_progress s = Some (t, rv, n) \<Longrightarrow> end_run cf i oc s = (s', r) \<Longrightarrow> eod_step cf s (Ended (t \<in> completed s')) s'"
| requested: "request_refresh cf now w s = (s', r) \<Longrightarrow> eod_step cf s Requested s'"
| reviewed: "retry_after_review cf now w s = (s', r') \<Longrightarrow> eod_step cf s Requested s'"
| started: "eod_step cf s Quiet (eod_start s)"
| stopped: "eod_step cf s Quiet (eod_halt s)"
| restarted: "new_coordinator cf now (checkpoint s) = Inr s' \<Longrightarrow> eod_step cf s Restarted s'"

inductive eod_trace :: "eod_config \<Rightarrow> eod \<Rightarrow> eod_label list \<Rightarrow> eod \<Rightarrow> bool" for cf s where
  here: "eod_trace cf s [] s"
| more: "eod_trace cf s ls s1 \<Longrightarrow> eod_step cf s1 l s2 \<Longrightarrow> eod_trace cf s (ls @ [l]) s2"

inductive_cases eod_stepE: "eod_step cf s l s'"

end
