(* ===== verification/Eod_Properties.thy ===== *)
theory Eod_Properties
  imports Eod_Coordinator
begin

text \<open>
  The end-of-day coordinator: a session counts as completed only through a refresh that succeeded and was saved, a crash
  loop cannot exceed the limit of attempts, the checkpoint restores the state it was written from, and a rejected
  checkpoint is never overwritten.
\<close>

section \<open>What every step keeps\<close>

definition aware_opt :: "datetime option \<Rightarrow> bool" where
  "aware_opt v \<longleftrightarrow> (case v of None \<Rightarrow> True | Some t \<Rightarrow> is_aware t)"

lemma aware_opt_simps [simp]: "aware_opt None" "aware_opt (Some t) \<longleftrightarrow> is_aware t"
  by (simp_all add: aware_opt_def)

definition eod_wf :: "eod_config \<Rightarrow> eod \<Rightarrow> bool" where
  "eod_wf cf s \<longleftrightarrow> finite (completed s) \<and> 0 \<le> attempts s \<and> attempts s \<le> maximum_attempts cf
     \<and> aware_opt (next_retry s) \<and> aware_opt (last_attempt s) \<and> aware_opt (last_success s)"

lemma aware_in_shanghai [simp]: "is_aware (in_shanghai t)" "is_aware (later (in_shanghai t) n)"
  by (simp_all add: is_aware_def in_shanghai_def later_def)

lemma instant_in_shanghai [simp]: "instant (in_shanghai t) = instant t"
proof -
  have "instant (in_shanghai t) = UTC (micros (instant t))"
    by (simp only: instant_def[of "in_shanghai t"]) (simp add: in_shanghai_def shanghai_local_def)
  then show ?thesis by simp
qed

lemma eod_now_Inr: "eod_now t = Inr cur \<longleftrightarrow> is_aware t \<and> cur = in_shanghai t"
  by (auto simp: eod_now_def)

text \<open>A write leaves the state alone but for the file.\<close>

lemma wf_checkpoint [simp]: "eod_wf cf (s\<lparr>checkpoint := f\<rparr>) = eod_wf cf s"
  by (simp add: eod_wf_def)

lemma persist_Inr:
  "persist cf w s = Inr s' \<longleftrightarrow> s' = (if has_checkpoint cf then s\<lparr>checkpoint := Checked (checkpoint_body cf s)\<rparr> else s)
     \<and> (has_checkpoint cf \<longrightarrow> w = None)"
  by (auto simp: persist_def split: option.splits)

lemma persist_Inl: "persist cf w s = Inl e \<longleftrightarrow> has_checkpoint cf \<and> w = Some e"
  by (auto simp: persist_def split: option.splits)

lemmas persist_iff = persist_Inr persist_Inl

lemma wf_begin_run:
  assumes "begin_run cf w t (in_shanghai now) s = (s', r)" "eod_wf cf s" "1 \<le> maximum_attempts cf"
  shows "eod_wf cf s'"
  using assms by (auto simp: begin_run_def Let_def handled_def checkpoint_failed_def eod_wf_def persist_iff
      split: if_splits sum.splits option.splits)

lemma wf_calendar_failure:
  "calendar_failure cf w s = (s', r) \<Longrightarrow> eod_wf cf s \<Longrightarrow> eod_wf cf s'"
  by (auto simp: calendar_failure_def Let_def eod_wf_def persist_iff split: if_splits sum.splits)

lemma wf_request:
  "request_refresh cf now w s = (s', r) \<Longrightarrow> eod_wf cf s \<Longrightarrow> eod_wf cf s'"
  by (auto simp: request_refresh_def Let_def eod_wf_def persist_iff split: if_splits sum.splits)

lemma wf_record_failure:
  "record_failure cf w (in_shanghai now) rv n s = (s', r) \<Longrightarrow> eod_wf cf s \<Longrightarrow> eod_wf cf s'"
  by (auto simp: record_failure_def Let_def eod_wf_def persist_iff split: if_splits sum.splits)

lemma wf_failure_now:
  "failure_now cf now w rv n s = (s', r) \<Longrightarrow> eod_wf cf s \<Longrightarrow> eod_wf cf s'"
  using wf_record_failure by (auto simp: failure_now_def eod_now_def split: if_splits)

lemma wf_refresh_raised:
  assumes "refresh_raised cf now w t rv n e s = (s', r)" "eod_wf cf s"
  shows "eod_wf cf s'"
proof (cases "e = PermissionError")
  case True
  then show ?thesis using assms
    by (auto simp: refresh_raised_def Let_def eod_wf_def persist_iff split: sum.splits)
next
  case False
  then have "failure_now cf now w rv n (s\<lparr>last_error := Some (Raised e), error_code := word (error_name e), notice_zh := notice_retry_later\<rparr>) = (s', r)"
    using assms by (simp add: refresh_raised_def)
  from wf_failure_now[OF this] show ?thesis using assms by (simp add: eod_wf_def)
qed

lemma wf_refresh_succeeded:
  "refresh_succeeded cf i t rv msg s = (s', r) \<Longrightarrow> eod_wf cf s \<Longrightarrow> eod_wf cf s'"
  by (auto simp: refresh_succeeded_def Let_def eod_wf_def persist_iff eod_now_def split: if_splits sum.splits)

lemma wf_refreshed:
  assumes "refreshed cf i oc t rv n s = (s', r)" "eod_wf cf s"
  shows "eod_wf cf s'"
proof (cases oc)
  case (Failed e)
  then show ?thesis using assms wf_refresh_raised by (auto simp: refreshed_def)
next
  case (Returned v)
  show ?thesis
  proof (cases v)
    case None
    then show ?thesis using assms Returned wf_refresh_succeeded by (auto simp: refreshed_def)
  next
    case (Some x)
    let ?s1 = "s\<lparr>input_summary := rr_summary x\<rparr>"
    let ?s2 = "?s1\<lparr>last_error := Some (Note (JStr (rr_status x))), error_code := JStr (rr_status x), notice_zh := JStr (rr_notice x)\<rparr>"
    have w1: "eod_wf cf ?s1" and w2: "eod_wf cf ?s2" using assms(2) by (simp_all add: eod_wf_def)
    show ?thesis
    proof (cases "rr_success x")
      case True
      then show ?thesis using assms(1) Returned Some wf_refresh_succeeded[OF _ w1] by (auto simp: refreshed_def)
    next
      case False
      obtain s3 q where q: "failure_now cf (first_clock i) (first_write i) rv n ?s2 = (s3, q)" by fastforce
      have w3: "eod_wf cf s3" by (rule wf_failure_now[OF q w2])
      then show ?thesis using assms(1) Returned Some False q wf_refresh_raised[OF _ w3]
        by (auto simp: refreshed_def split: sum.splits)
    qed
  qed
qed

lemma wf_handled: "handled t (s, r) = (s', r') \<Longrightarrow> eod_wf cf s \<Longrightarrow> eod_wf cf s'"
  by (auto simp: handled_def checkpoint_failed_def eod_wf_def split: sum.splits if_splits)

lemma wf_end_run:
  assumes "end_run cf i oc s = (s', r)" "eod_wf cf s"
  shows "eod_wf cf s'"
proof (cases "run_in_progress s")
  case (Some p)
  obtain t rv n where p: "p = (t, rv, n)" by (cases p)
  obtain s1 q where q: "refreshed cf i oc t rv n s = (s1, q)" by fastforce
  obtain s2 q2 where q2: "handled t (s1, q) = (s2, q2)" by fastforce
  have "eod_wf cf s2" using wf_handled[OF q2] wf_refreshed[OF q assms(2)] by blast
  then show ?thesis using assms(1) Some p q q2 by (auto simp: end_run_def eod_wf_def)
qed (use assms in \<open>simp add: end_run_def\<close>)

lemma wf_fresh: "1 \<le> maximum_attempts cf \<Longrightarrow> eod_wf cf (fresh_coordinator f)"
  by (simp add: eod_wf_def fresh_coordinator_def)

text \<open>What holds before the steps of a restore, and is kept by each, holds after them, also after a failing one.\<close>

lemma run_steps_inv:
  assumes "run_steps fs s = (s', e)" "P s" "\<forall>f \<in> set fs. \<forall>a b. P a \<longrightarrow> f a = Inr b \<longrightarrow> P b"
  shows "P s'"
  using assms
proof (induction fs arbitrary: s)
  case (Cons f fs)
  show ?case
  proof (cases "f s")
    case (Inr b)
    have "\<forall>g \<in> set (f # fs). \<forall>a b. P a \<longrightarrow> g a = Inr b \<longrightarrow> P b" by (rule Cons.prems(3))
    then have "P b" and rest: "\<forall>g \<in> set fs. \<forall>a b. P a \<longrightarrow> g a = Inr b \<longrightarrow> P b"
      using Cons.prems(2) Inr by (metis list.set_intros(1), metis list.set_intros(2))
    moreover have "run_steps fs b = (s', e)" using Cons.prems(1) Inr by simp
    ultimately show ?thesis by (intro Cons.IH)
  next
    case (Inl x)
    then show ?thesis using Cons.prems(1,2) by simp
  qed
qed simp

lemma datetime_or_none_aware: "datetime_or_none v = Inr t \<Longrightarrow> aware_opt t"
  by (auto simp: datetime_or_none_def bindR_Inr_iff split: if_splits)

definition run_free :: "eod_config \<Rightarrow> disk \<Rightarrow> eod \<Rightarrow> bool" where
  "run_free cf f s \<longleftrightarrow> eod_wf cf s \<and> run_in_progress s = None \<and> request_revision s = 0 \<and> checkpoint s = f"

lemma restore_attempts_range:
  assumes "restore_completed cf b s = Inr s'"
  obtains n ds where "bindR (field b ''attempts'') int_like = Inr n" "0 \<le> n" "n \<le> maximum_attempts cf" "s' = s\<lparr>completed := set ds\<rparr>"
proof -
  obtain n ds where n: "restore_version b = Inr n" and r: "0 \<le> n" "n \<le> maximum_attempts cf"
    and s': "s' = s\<lparr>completed := set (case completion_is_valid cf of None \<Rightarrow> ds | Some ok \<Rightarrow> filter ok ds)\<rparr>"
    using assms by (auto simp: restore_completed_def bindR_Inr_iff split: if_splits)
  have "bindR (field b ''attempts'') int_like = Inr n"
    using n by (auto simp: restore_version_def bindR_Inr_iff split: if_splits)
  then show ?thesis using that r s' by blast
qed

lemma run_free_steps:
  assumes "run_steps (restore_steps cf now b) s = (s', e)" "run_free cf f s"
  shows "run_free cf f s'"
proof (cases "restore_completed cf b s")
  case (Inl x)
  then show ?thesis using assms by (simp add: restore_steps_def)
next
  case (Inr s1)
  obtain n ds where n: "bindR (field b ''attempts'') int_like = Inr n" "0 \<le> n" "n \<le> maximum_attempts cf"
    "s1 = s\<lparr>completed := set ds\<rparr>" using restore_attempts_range[OF Inr] .
  have free: "run_free cf f s1" using assms(2) by (simp add: n(4) run_free_def eod_wf_def)
  have run: "run_steps (tl (restore_steps cf now b)) s1 = (s', e)" using assms(1) Inr by (simp add: restore_steps_def)
  show ?thesis
  proof (rule run_steps_inv[where P = "run_free cf f", OF run free], intro ballI allI impI)
    fix g a c assume "g \<in> set (tl (restore_steps cf now b))" "run_free cf f a" "g a = Inr c"
    then show "run_free cf f c"
      using n(1,2,3) datetime_or_none_aware
      by (auto simp: restore_steps_def run_free_def eod_wf_def bindR_Inr_iff restore_clock_def resume_interrupted_def
          split: option.splits if_splits)
  qed
qed

lemma run_free_fresh: "1 \<le> maximum_attempts cf \<Longrightarrow> run_free cf f (fresh_coordinator f)"
  using wf_fresh[of cf f] by (simp add: run_free_def) (simp add: fresh_coordinator_def)

lemma run_free_reject [simp]: "run_free cf f (reject_checkpoint s) = run_free cf f s"
  by (simp add: run_free_def eod_wf_def reject_checkpoint_def)

lemma new_coordinator_free:
  assumes "new_coordinator cf now f = Inr s"
  shows "run_free cf f s \<and> 1 \<le> maximum_attempts cf"
proof -
  have m: "1 \<le> maximum_attempts cf" using assms by (auto simp: new_coordinator_def split: if_splits)
  note fresh = run_free_fresh[OF m, of f]
  show ?thesis
  proof (cases "has_checkpoint cf")
    case True
    then have r: "restore cf now (fresh_coordinator f) = Inr s" using assms by (simp add: new_coordinator_def split: if_splits)
    obtain s1 e where s1: "(case checkpoint (fresh_coordinator f) of Missing \<Rightarrow> (fresh_coordinator f, None)
        | Damaged e \<Rightarrow> (fresh_coordinator f, Some e) | Checked b \<Rightarrow> run_steps (restore_steps cf now b) (fresh_coordinator f)) = (s1, e)" by fastforce
    have "run_free cf f s1" using s1 fresh by (cases "checkpoint (fresh_coordinator f)") (auto dest: run_free_steps)
    then show ?thesis using r s1 m by (auto simp: restore_def split: option.splits if_splits)
  qed (use assms fresh m in \<open>auto simp: new_coordinator_def split: if_splits\<close>)
qed

section \<open>What each operation does to the targets\<close>

lemma run_at_cases:
  assumes "run_at f cf now w s = (s', r)"
  obtains (aims) t where "aimed f now s = Some t" "begin_run cf w t (in_shanghai now) s = (s', r)"
    | (calendar) "aimed f now s = None" "calendar_failure cf w s = (s', r)" "\<not> eod_stop s" "r \<noteq> Inr True"
    | (nothing) "aimed f now s = None" "s' = s" "r \<noteq> Inr True"
proof (cases "eod_stop s")
  case True
  then have "s' = s" "r = Inr False" "aimed f now s = None" using assms by (simp_all add: run_at_def aimed_def)
  then show ?thesis
    by - (rule nothing, simp_all)
next
  case False
  show ?thesis
  proof (cases "is_aware now")
    case True
    then have n: "eod_now now = Inr (in_shanghai now)" by (simp add: eod_now_def)
    have run: "(case f (in_shanghai now) of Inl CalendarUnavailableError \<Rightarrow> calendar_failure cf w s | Inl e \<Rightarrow> (s, Inl e)
        | Inr None \<Rightarrow> (s, Inr False) | Inr (Some t) \<Rightarrow> begin_run cf w t (in_shanghai now) s) = (s', r)"
      using assms False n by (simp add: run_at_def)
    have aim: "aimed f now s = (case f (in_shanghai now) of Inr (Some t) \<Rightarrow> Some t | _ \<Rightarrow> None)"
      using False n by (simp add: aimed_def)
    show ?thesis
    proof (cases "f (in_shanghai now)")
      case (Inl e)
      then show ?thesis
      proof (cases "e = CalendarUnavailableError")
        case True
        then have c: "calendar_failure cf w s = (s', r)" using run Inl by simp
        then have "r \<noteq> Inr True" by (auto simp: calendar_failure_def Let_def split: sum.splits if_splits)
        then show ?thesis using calendar aim c Inl False by simp
      next
        case no: False
        then have "s' = s" "r = Inl e" using run Inl by (cases e; simp)+
        moreover have "aimed f now s = None" using aim Inl by simp
        ultimately show ?thesis by - (rule nothing, simp_all)
      qed
    next
      case (Inr v)
      show ?thesis
      proof (cases v)
        case None
        then have "s' = s" "r = Inr False" "aimed f now s = None" using run aim Inr by simp_all
        then show ?thesis by - (rule nothing, simp_all)
      next
        case (Some t)
        then have "aimed f now s = Some t" "begin_run cf w t (in_shanghai now) s = (s', r)" using run aim Inr by simp_all
        then show ?thesis by (rule aims)
      qed
    qed
  next
    case no: False
    then have "s' = s" "r \<noteq> Inr True" "aimed f now s = None" using assms False by (auto simp: run_at_def aimed_def eod_now_def)
    then show ?thesis by - (rule nothing, simp_all)
  qed
qed

lemma begin_run_completed: "begin_run cf w t cur s = (s', r) \<Longrightarrow> completed s' \<subseteq> completed s"
  by (auto simp: begin_run_def Let_def handled_def checkpoint_failed_def persist_iff split: if_splits sum.splits)

lemma calendar_failure_keeps:
  "calendar_failure cf w s = (s', r) \<Longrightarrow> completed s' = completed s \<and> pending_target s' = pending_target s \<and> attempts s' = attempts s
     \<and> run_in_progress s' = run_in_progress s \<and> request_revision s' = request_revision s \<and> eod_stop s' = eod_stop s
     \<and> (checkpoint s' = checkpoint s \<or> checkpoint s' = Checked (checkpoint_body cf s'))"
  by (auto simp: calendar_failure_def Let_def persist_iff checkpoint_body_def eod_snapshot_def split: if_splits sum.splits)

lemma request_completed: "request_refresh cf now w s = (s', r) \<Longrightarrow> completed s' \<subseteq> completed s"
  by (auto simp: request_refresh_def Let_def persist_iff split: if_splits sum.splits)

text \<open>What recording a failure leaves alone.\<close>

definition same_target :: "eod_config \<Rightarrow> eod \<Rightarrow> eod \<Rightarrow> bool" where
  "same_target cf s s' \<longleftrightarrow> completed s' = completed s \<and> pending_target s' = pending_target s \<and> attempts s' = attempts s
     \<and> request_revision s' = request_revision s \<and> run_in_progress s' = run_in_progress s
     \<and> (checkpoint s' = checkpoint s \<or> (\<exists>s1. eod_wf cf s1 \<and> completed s1 = completed s \<and> pending_target s1 = pending_target s \<and> attempts s1 = attempts s
           \<and> checkpoint s' = Checked (checkpoint_body cf s1)))"

lemma same_target_trans: "same_target cf a b \<Longrightarrow> same_target cf b c \<Longrightarrow> same_target cf a c"
  unfolding same_target_def by metis

lemma failure_now_same:
  assumes "failure_now cf now w rv n s = (s', r)" "eod_wf cf s"
  shows "same_target cf s s' \<and> r \<noteq> Inr True"
proof (cases "eod_now now")
  case (Inr cur)
  then have cur: "is_aware cur" by (auto simp: eod_now_Inr)
  define s1 where "s1 = (if rv \<noteq> request_revision s then s\<lparr>eod_status := word ''PENDING''\<rparr>
     else s\<lparr>eod_status := word (if maximum_attempts cf \<le> attempts s then ''RETRY_EXHAUSTED'' else ''FAILED''),
            next_retry := (if maximum_attempts cf \<le> attempts s then None else Some (later cur (retry_delay cf n)))\<rparr>)"
  have run: "(case persist cf w s1 of Inl e \<Rightarrow> (s1, Inl e) | Inr s2 \<Rightarrow> (s2, Inr False)) = (s', r)"
    using assms(1) unfolding failure_now_def record_failure_def Let_def s1_def Inr sum.case .
  have s1: "completed s1 = completed s" "pending_target s1 = pending_target s" "attempts s1 = attempts s"
    "request_revision s1 = request_revision s" "run_in_progress s1 = run_in_progress s" "checkpoint s1 = checkpoint s"
    by (simp_all add: s1_def)
  have "is_aware (later cur k)" for k using cur by (simp add: is_aware_def later_def)
  then have w: "eod_wf cf s1" using assms(2) by (simp add: s1_def eod_wf_def)
  show ?thesis
  proof (cases "persist cf w s1")
    case (Inl e)
    then have "s' = s1" "r = Inl e" using run by simp_all
    then show ?thesis using s1 by (simp add: same_target_def)
  next
    case (Inr s2)
    then have "s' = s2" "r = Inr False" using run by simp_all
    then show ?thesis using s1 w Inr by (auto simp: same_target_def persist_Inr)
  qed
next
  case (Inl e)
  then have "s' = s" "r = Inl e" using assms(1) by (simp_all add: failure_now_def)
  then show ?thesis by (simp add: same_target_def)
qed

lemma refresh_raised_same:
  assumes "refresh_raised cf now w t rv n e s = (s', r)" "eod_wf cf s"
  shows "same_target cf s s' \<and> r \<noteq> Inr True"
proof (cases "e = PermissionError")
  case True
  define s2 where "s2 = s\<lparr>last_error := Some (Raised e), error_code := word ''PERMISSION_DENIED'', blocked_target := Some t,
     eod_status := word ''BLOCKED'', next_retry := None, notice_zh := notice_permission_missing\<rparr>"
  have run: "(case persist cf w s2 of Inl x \<Rightarrow> (s2, Inl x) | Inr s3 \<Rightarrow> (s3, Inr False)) = (s', r)"
    using assms(1) by (simp only: refresh_raised_def Let_def s2_def True if_True refl simp_thms)
  have w: "eod_wf cf s2" using assms(2) by (simp add: s2_def eod_wf_def)
  have s2: "completed s2 = completed s" "pending_target s2 = pending_target s" "attempts s2 = attempts s"
    "request_revision s2 = request_revision s" "run_in_progress s2 = run_in_progress s" "checkpoint s2 = checkpoint s"
    by (simp_all add: s2_def)
  show ?thesis
  proof (cases "persist cf w s2")
    case (Inl e)
    then have "s' = s2" "r = Inl e" using run by simp_all
    then show ?thesis using s2 by (simp add: same_target_def)
  next
    case (Inr s3)
    then have "s' = s3" "r = Inr False" using run by simp_all
    then show ?thesis using s2 w Inr by (auto simp: same_target_def persist_Inr)
  qed
next
  case False
  define s1 where "s1 = s\<lparr>last_error := Some (Raised e), error_code := word (error_name e), notice_zh := notice_retry_later\<rparr>"
  have "failure_now cf now w rv n s1 = (s', r)" using assms(1) False by (simp add: refresh_raised_def s1_def)
  moreover have "eod_wf cf s1" using assms(2) by (simp add: s1_def eod_wf_def)
  moreover have "same_target cf s s1" by (simp add: same_target_def s1_def)
  ultimately show ?thesis using failure_now_same same_target_trans by blast
qed

definition succeeded :: "refresh_outcome \<Rightarrow> bool" where
  "succeeded oc \<longleftrightarrow> (case oc of Returned None \<Rightarrow> True | Returned (Some x) \<Rightarrow> rr_success x | Failed _ \<Rightarrow> False)"

lemma refreshed_cases:
  assumes "refreshed cf i oc t rv n s = (s', r)" "eod_wf cf s"
  obtains (failed) "\<not> succeeded oc" "same_target cf s s'" "r \<noteq> Inr True"
    | (success) s0 msg where "succeeded oc" "refresh_succeeded cf i t rv msg s0 = (s', r)" "same_target cf s s0" "eod_wf cf s0"
        "checkpoint s0 = checkpoint s"
proof (cases oc)
  case (Failed e)
  then have "refresh_raised cf (first_clock i) (first_write i) t rv n e s = (s', r)" using assms(1) by (simp add: refreshed_def)
  from refresh_raised_same[OF this assms(2)] show ?thesis using failed Failed by (simp add: succeeded_def)
next
  case (Returned v)
  show ?thesis
  proof (cases v)
    case None
    have "same_target cf s s" by (simp add: same_target_def)
    moreover have "refresh_succeeded cf i t rv notice_refreshed s = (s', r)" using assms(1) Returned None by (simp add: refreshed_def)
    ultimately show ?thesis using success Returned None assms(2) by (simp add: succeeded_def)
  next
    case (Some x)
    define s1 where "s1 = s\<lparr>input_summary := rr_summary x\<rparr>"
    have s1: "same_target cf s s1" "eod_wf cf s1" "checkpoint s1 = checkpoint s" using assms(2) by (simp_all add: same_target_def s1_def eod_wf_def)
    show ?thesis
    proof (cases "rr_success x")
      case True
      then have "refresh_succeeded cf i t rv (JStr (rr_notice x)) s1 = (s', r)" using assms(1) Returned Some by (simp add: refreshed_def s1_def)
      then show ?thesis using success s1 Returned Some True by (simp add: succeeded_def)
    next
      case False
      define s2 where "s2 = s1\<lparr>last_error := Some (Note (JStr (rr_status x))), error_code := JStr (rr_status x), notice_zh := JStr (rr_notice x)\<rparr>"
      have s2: "same_target cf s s2" "eod_wf cf s2" using assms(2) by (simp_all add: same_target_def s2_def s1_def eod_wf_def)
      obtain s3 q where q: "failure_now cf (first_clock i) (first_write i) rv n s2 = (s3, q)" by fastforce
      have s3: "same_target cf s s3" "eod_wf cf s3" "q \<noteq> Inr True"
        using failure_now_same[OF q s2(2)] same_target_trans[OF s2(1)] wf_failure_now[OF q s2(2)] by blast+
      have run: "(case q of Inl e \<Rightarrow> refresh_raised cf (second_clock i) (second_write i) t rv n e s3 | Inr b \<Rightarrow> (s3, Inr b)) = (s', r)"
        using assms(1) Returned Some False q by (auto simp: refreshed_def s1_def s2_def split: sum.splits)
      have "same_target cf s s' \<and> r \<noteq> Inr True"
      proof (cases q)
        case (Inl e)
        then show ?thesis using run refresh_raised_same[OF _ s3(2)] same_target_trans[OF s3(1)] by simp
      next
        case (Inr b)
        then show ?thesis using run s3 by auto
      qed
      then show ?thesis using failed Returned Some False by (simp add: succeeded_def)
    qed
  qed
qed

lemma refresh_succeeded_spec:
  assumes "refresh_succeeded cf i t rv msg s = (s', r)"
  shows "(r = Inr True \<or> (\<exists>e. r = Inl e)) \<and> attempts s' = attempts s \<and> request_revision s' = request_revision s
    \<and> run_in_progress s' = run_in_progress s
    \<and> (if rv = request_revision s then completed s' = insert t (completed s) \<and> pending_target s' = None
       else completed s' = completed s \<and> pending_target s' = pending_target s)
    \<and> (r = Inr True \<and> has_checkpoint cf \<longrightarrow> checkpoint s' = Checked (checkpoint_body cf s'))
    \<and> (r \<noteq> Inr True \<longrightarrow> checkpoint s' = checkpoint s)"
proof -
  have body: "checkpoint_body cf (x\<lparr>checkpoint := f\<rparr>) = checkpoint_body cf x" for x f
    by (simp add: checkpoint_body_def eod_snapshot_def)
  show ?thesis using assms
    by (auto simp: refresh_succeeded_def Let_def persist_iff body split: sum.splits if_splits)
qed

section \<open>Completion\<close>

lemma review_completed: "retry_after_review cf now w s = (s', r) \<Longrightarrow> completed s' \<subseteq> completed s"
proof -
  assume a: "retry_after_review cf now w s = (s', r)"
  let ?s0 = "s\<lparr>blocked_target := None, eod_status := word ''PENDING'', last_error := None, error_code := JNull\<rparr>"
  obtain s1 q where q: "request_refresh cf now w ?s0 = (s1, q)" by fastforce
  have "s' = s \<or> s' = s1" using a q by (auto simp: retry_after_review_def split: if_splits sum.splits)
  then show ?thesis using request_completed[OF q] by auto
qed

lemma run_at_completed: "run_at f cf now w s = (s', r) \<Longrightarrow> completed s' \<subseteq> completed s"
  by (erule run_at_cases) (auto dest: begin_run_completed calendar_failure_keeps)

lemma handled_completed: "handled t (s, r) = (s', r') \<Longrightarrow> completed s' = completed s \<and> s' = s \<and> r' = r \<or> t \<notin> completed s' \<and> completed s' \<subseteq> completed s"
  by (auto simp: handled_def checkpoint_failed_def split: sum.splits if_splits)

lemma end_run_completes:
  assumes "end_run cf i oc s = (s', r)" "eod_wf cf s" "x \<in> completed s'" "x \<notin> completed s"
  obtains n where "run_in_progress s = Some (x, request_revision s, n)" "succeeded oc"
    "r = Inr True \<and> (has_checkpoint cf \<longrightarrow> checkpoint s' = Checked (checkpoint_body cf s')) \<or> (\<exists>e. r = Inl e \<and> \<not> is_os_or_value_error e)"
proof -
  obtain t rv n where p: "run_in_progress s = Some (t, rv, n)" using assms(1,3,4) by (cases "run_in_progress s") (auto simp: end_run_def)
  obtain s1 q where q: "refreshed cf i oc t rv n s = (s1, q)" by fastforce
  obtain s2 where h: "handled t (s1, q) = (s2, r)" and s': "s' = s2\<lparr>run_in_progress := None\<rparr>"
    using assms(1) p q by (auto simp: end_run_def split: prod.splits)
  have x2: "x \<in> completed s2" using assms(3) s' by simp
  from q assms(2) show ?thesis
  proof (cases rule: refreshed_cases)
    case failed
    then show ?thesis using handled_completed[OF h] x2 assms(4) by (auto simp: same_target_def)
  next
    case (success s0 msg)
    note spec = refresh_succeeded_spec[OF success(2)]
    have c0: "completed s0 = completed s" "request_revision s0 = request_revision s" using success(3) by (simp_all add: same_target_def)
    have x1: "x \<in> completed s1" using handled_completed[OF h] x2 by blast
    then have rv: "rv = request_revision s" "x = t" using spec c0 assms(4) by (auto split: if_splits)
    then have eq: "s2 = s1" "r = q" using handled_completed[OF h] x2 by blast+
    have body: "checkpoint_body cf (y\<lparr>run_in_progress := v\<rparr>) = checkpoint_body cf y" for y v
      by (simp add: checkpoint_body_def eod_snapshot_def)
    show ?thesis
    proof (rule that)
      show "run_in_progress s = Some (x, request_revision s, n)" using p rv by simp
      show "succeeded oc" by (rule success(1))
      have "q = Inr True \<or> (\<exists>e. q = Inl e)" using spec by blast
      then show "r = Inr True \<and> (has_checkpoint cf \<longrightarrow> checkpoint s' = Checked (checkpoint_body cf s')) \<or> (\<exists>e. r = Inl e \<and> \<not> is_os_or_value_error e)"
      proof
        assume "q = Inr True"
        then show ?thesis using spec eq s' body by simp
      next
        assume "\<exists>e. q = Inl e"
        then obtain e where e: "q = Inl e" by blast
        have "\<not> is_os_or_value_error e"
          using h e x2 rv(2) by (auto simp: handled_def checkpoint_failed_def split: if_splits)
        then show ?thesis using e eq by simp
      qed
    qed
  qed
qed

text \<open>C22: A session becomes completed only when the refresh that was running for it returned a success and no new request had
  come in since it began; the end of that run then reports the success and the completed state is what the checkpoint
  holds - unless an exception other than an operating-system or value error leaves the run.\<close>

theorem completion_is_earned:
  assumes "eod_wf cf s" "eod_step cf s l s'" "l \<noteq> Restarted" "t \<in> completed s'" "t \<notin> completed s"
  shows "\<exists>n i oc r. run_in_progress s = Some (t, request_revision s, n) \<and> end_run cf i oc s = (s', r) \<and> succeeded oc
    \<and> (r = Inr True \<and> (has_checkpoint cf \<longrightarrow> checkpoint s' = Checked (checkpoint_body cf s')) \<or> (\<exists>e. r = Inl e \<and> \<not> is_os_or_value_error e))"
  using assms(2)
proof (cases rule: eod_step.cases)
  case (ended t' rv n i oc r)
  show ?thesis
  proof (rule end_run_completes[OF ended(3) assms(1,4,5)])
    fix m
    assume "run_in_progress s = Some (t, request_revision s, m)" "succeeded oc"
      "r = Inr True \<and> (has_checkpoint cf \<longrightarrow> checkpoint s' = Checked (checkpoint_body cf s')) \<or> (\<exists>e. r = Inl e \<and> \<not> is_os_or_value_error e)"
    then show ?thesis using ended(3) by (intro exI conjI)
  qed
next
  case (tried_due now w r t')
  have "completed s' \<subseteq> completed s" by (rule run_at_completed[OF tried_due(2)[unfolded run_due_def]])
  then show ?thesis using assms(4,5) by blast
next
  case (tried_initial now w r t')
  have "completed s' \<subseteq> completed s" by (rule run_at_completed[OF tried_initial(2)[unfolded run_initial_def]])
  then show ?thesis using assms(4,5) by blast
next
  case (idle_due now w r)
  have "completed s' \<subseteq> completed s" by (rule run_at_completed[OF idle_due(2)[unfolded run_due_def]])
  then show ?thesis using assms(4,5) by blast
next
  case (idle_initial now w r)
  have "completed s' \<subseteq> completed s" by (rule run_at_completed[OF idle_initial(2)[unfolded run_initial_def]])
  then show ?thesis using assms(4,5) by blast
next
  case (requested now w r)
  then show ?thesis using request_completed[OF requested(2)] assms(4,5) by blast
next
  case (reviewed now w r)
  then show ?thesis using review_completed[OF reviewed(2)] assms(4,5) by blast
qed (use assms in \<open>auto simp: eod_start_def eod_halt_def\<close>)

definition demo_cf :: eod_config where
  "demo_cf = \<lparr>cf_calendar = make_calendar (Some []), close_time = hm 15 30, retry_base = 60000000, retry_max = 1800000000,
     maximum_attempts = 8, has_checkpoint = True, completion_is_valid = None\<rparr>"

definition demo_evening :: datetime where
  "demo_evening = utc_datetime (utc_add (utc_midnight 739000) (hm 8 0))"

definition demo_begun :: eod where
  "demo_begun = fst (run_due demo_cf demo_evening None (fresh_coordinator Missing))"

definition demo_end :: end_input where
  "demo_end = \<lparr>first_clock = demo_evening, second_clock = demo_evening, first_write = None, second_write = None\<rparr>"

definition demo_done :: eod where
  "demo_done = fst (end_run demo_cf demo_end (Returned None) demo_begun)"

lemma demo_begun_facts:
  "run_in_progress demo_begun = Some (739000, 0, 1)" "739000 \<notin> completed demo_begun" "739000 \<in> completed demo_done"
  by code_simp+

lemma demo_begun_wf: "eod_wf demo_cf demo_begun"
proof -
  obtain r where r: "run_due demo_cf demo_evening None (fresh_coordinator Missing) = (demo_begun, r)"
    unfolding demo_begun_def by (metis prod.collapse)
  have m: "1 \<le> maximum_attempts demo_cf" by (simp add: demo_cf_def)
  from r[unfolded run_due_def] show ?thesis
  proof (cases rule: run_at_cases)
    case (aims t)
    show ?thesis by (rule wf_begin_run[OF aims(2) wf_fresh[OF m] m])
  next
    case calendar
    show ?thesis by (rule wf_calendar_failure[OF calendar(2) wf_fresh[OF m]])
  next
    case nothing
    then show ?thesis using wf_fresh[OF m, of Missing] by simp
  qed
qed

theorem completion_is_earned_witness:
  "\<exists>n. run_in_progress demo_begun = Some (739000, request_revision demo_begun, n) \<and> 739000 \<in> completed demo_done"
proof -
  obtain r where r: "end_run demo_cf demo_end (Returned None) demo_begun = (demo_done, r)"
    unfolding demo_done_def by (metis prod.collapse)
  have "eod_step demo_cf demo_begun (Ended (739000 \<in> completed demo_done)) demo_done"
    by (rule eod_step.ended[OF demo_begun_facts(1) r])
  from completion_is_earned[OF demo_begun_wf this _ demo_begun_facts(3,2)] demo_begun_facts(3) show ?thesis by blast
qed

section \<open>Crash loops\<close>

lemma wf_review: "retry_after_review cf now w s = (s', r) \<Longrightarrow> eod_wf cf s \<Longrightarrow> eod_wf cf s'"
proof -
  assume a: "retry_after_review cf now w s = (s', r)" and w: "eod_wf cf s"
  let ?s0 = "s\<lparr>blocked_target := None, eod_status := word ''PENDING'', last_error := None, error_code := JNull\<rparr>"
  obtain s1 q where q: "request_refresh cf now w ?s0 = (s1, q)" by fastforce
  have "eod_wf cf ?s0" using w by (simp add: eod_wf_def)
  then have "eod_wf cf s1" by (rule wf_request[OF q])
  moreover have "s' = s \<or> s' = s1" using a q by (auto simp: retry_after_review_def split: if_splits sum.splits)
  ultimately show ?thesis using w by blast
qed

lemma wf_run_at: "run_at f cf now w s = (s', r) \<Longrightarrow> eod_wf cf s \<Longrightarrow> 1 \<le> maximum_attempts cf \<Longrightarrow> eod_wf cf s'"
  by (erule run_at_cases) (auto dest: wf_begin_run wf_calendar_failure)

lemma wf_step:
  assumes "eod_step cf s l s'" "eod_wf cf s" "1 \<le> maximum_attempts cf"
  shows "eod_wf cf s'"
  using assms(1)
proof (cases rule: eod_step.cases)
  case (tried_due now w r t')
  show ?thesis by (rule wf_run_at[OF tried_due(2)[unfolded run_due_def] assms(2,3)])
next
  case (tried_initial now w r t')
  show ?thesis by (rule wf_run_at[OF tried_initial(2)[unfolded run_initial_def] assms(2,3)])
next
  case (idle_due now w r)
  show ?thesis by (rule wf_run_at[OF idle_due(2)[unfolded run_due_def] assms(2,3)])
next
  case (idle_initial now w r)
  show ?thesis by (rule wf_run_at[OF idle_initial(2)[unfolded run_initial_def] assms(2,3)])
next
  case (ended t' rv n i oc r)
  show ?thesis by (rule wf_end_run[OF ended(3) assms(2)])
next
  case (requested now w r)
  show ?thesis by (rule wf_request[OF requested(2) assms(2)])
next
  case (reviewed now w r)
  show ?thesis by (rule wf_review[OF reviewed(2) assms(2)])
next
  case (restarted now)
  then show ?thesis using new_coordinator_free[OF restarted(2)] by (simp add: run_free_def)
qed (use assms in \<open>simp_all add: eod_start_def eod_halt_def eod_wf_def\<close>)

text \<open>The restore of a written checkpoint: the state it was written from, or a rejected one when the clock is behind it.\<close>

definition reopened :: "eod_config \<Rightarrow> disk \<Rightarrow> eod \<Rightarrow> eod" where
  "reopened cf f s = resume_interrupted (s\<lparr>completed := set (case completion_is_valid cf of None \<Rightarrow> newest 64 (completed s)
       | Some ok \<Rightarrow> filter ok (newest 64 (completed s))),
     last_error := None, eod_stop := False, request_revision := 0, run_in_progress := None, checkpoint := f\<rparr>)"

lemma mapR_dates: "mapR date_of (map JDate ds) = Inr ds"
  by (induction ds) (simp_all add: date_of_def)

lemma length_newest: "length (newest k ds) \<le> k"
  by (simp add: newest_def Let_def)

lemma json_option_date: "date_or_none (json_option JDate v) = Inr v"
  by (cases v) (simp_all add: date_or_none_def json_option_def date_of_def)

lemma json_option_time: "aware_opt v \<Longrightarrow> datetime_or_none (json_option JTime v) = Inr v"
  by (cases v) (simp_all add: datetime_or_none_def json_option_def time_of_def)

lemma checkpoint_fields:
  "field (checkpoint_body cf s) ''format_version'' = Inr (JInt 1)"
  "field (checkpoint_body cf s) ''attempts'' = Inr (JInt (attempts s))"
  "field (checkpoint_body cf s) ''completed'' = Inr (JList (map JDate (newest 64 (completed s))))"
  "field (checkpoint_body cf s) ''target_session'' = Inr (json_option JDate (pending_target s))"
  "field (checkpoint_body cf s) ''blocked_target'' = Inr (json_option JDate (blocked_target s))"
  "field (checkpoint_body cf s) ''next_retry_at'' = Inr (json_option JTime (next_retry s))"
  "field (checkpoint_body cf s) ''last_attempt_at'' = Inr (json_option JTime (last_attempt s))"
  "field (checkpoint_body cf s) ''last_success_at'' = Inr (json_option JTime (last_success s))"
  "field (checkpoint_body cf s) ''last_success_session'' = Inr (json_option JDate (last_success_day s))"
  "field (checkpoint_body cf s) ''status'' = Inr (eod_status s)"
  "field (checkpoint_body cf s) ''notice_zh'' = Inr (notice_zh s)"
  "field (checkpoint_body cf s) ''error_code'' = Inr (error_code s)"
  "dict_get (checkpoint_body cf s) ''input_summary'' = Some (input_summary s)"
  by (simp_all add: checkpoint_body_def eod_snapshot_def field_def)

lemma restore_written:
  assumes "eod_wf cf s"
  shows "run_steps (restore_steps cf now (checkpoint_body cf s)) (fresh_coordinator f)
    = (case last_attempt s of
        Some t \<Rightarrow> if is_aware now \<and> instant t \<le> instant now then (reopened cf f s, None)
          else ((fresh_coordinator f)\<lparr>completed := completed (reopened cf f s), pending_target := pending_target s,
             blocked_target := blocked_target s, attempts := attempts s, next_retry := next_retry s, last_attempt := last_attempt s,
             last_success := last_success s, last_success_day := last_success_day s\<rparr>,
             Some (ValueError (if is_aware now then ''checkpoint clock is ahead of current time'' else ''EOD clock must be timezone-aware'')))
      | None \<Rightarrow> (reopened cf f s, None))"
proof -
  have len: "\<not> 64 < length (remdups (newest 64 (completed s)))"
    using length_newest[of 64 "completed s"] le_trans[OF length_remdups_leq] by (metis not_less)
  have wf: "0 \<le> attempts s" "attempts s \<le> maximum_attempts cf" "aware_opt (next_retry s)" "aware_opt (last_attempt s)" "aware_opt (last_success s)"
    using assms by (simp_all add: eod_wf_def)
  define cs where "cs = set (case completion_is_valid cf of None \<Rightarrow> newest 64 (completed s) | Some ok \<Rightarrow> filter ok (newest 64 (completed s)))"
  have c: "restore_completed cf (checkpoint_body cf s) x = Inr (x\<lparr>completed := cs\<rparr>)" for x
    using len wf by (simp add: restore_completed_def restore_version_def checkpoint_fields is_one_def int_like_def dates_of_def mapR_dates cs_def)
  have re: "reopened cf f s = resume_interrupted (s\<lparr>completed := cs, last_error := None, eod_stop := False, request_revision := 0, run_in_progress := None, checkpoint := f\<rparr>)"
    by (simp add: reopened_def cs_def)
  have cs: "completed (reopened cf f s) = cs" by (simp add: re resume_interrupted_def)
  have steps: "datetime_or_none (json_option JTime (last_attempt s)) = Inr (last_attempt s)" using wf by (intro json_option_time)
  define x where "x = (fresh_coordinator f)\<lparr>completed := cs, pending_target := pending_target s,
             blocked_target := blocked_target s, attempts := attempts s, next_retry := next_retry s, last_attempt := last_attempt s,
             last_success := last_success s, last_success_day := last_success_day s\<rparr>"
  have run: "run_steps (restore_steps cf now (checkpoint_body cf s)) (fresh_coordinator f) = run_steps (drop 8 (restore_steps cf now (checkpoint_body cf s))) x"
    by (simp add: restore_steps_def c checkpoint_fields json_option_date json_option_time wf int_like_def x_def steps)
  have fin: "resume_interrupted (x\<lparr>eod_status := eod_status s, notice_zh := notice_zh s, error_code := error_code s, input_summary := input_summary s\<rparr>)
      = reopened cf f s"
    unfolding re x_def by (cases s) (simp add: fresh_coordinator_def)
  have rest: "run_steps (drop 8 (restore_steps cf now (checkpoint_body cf s))) x
      = (case restore_clock now x of Inl e \<Rightarrow> (x, Some e) | Inr y \<Rightarrow> run_steps (drop 9 (restore_steps cf now (checkpoint_body cf s))) y)"
    by (simp add: restore_steps_def split: sum.split)
  have tail: "run_steps (drop 9 (restore_steps cf now (checkpoint_body cf s))) x = (reopened cf f s, None)"
    by (simp add: restore_steps_def checkpoint_fields flip: fin)
  have la: "last_attempt x = last_attempt s" by (simp add: x_def)
  show ?thesis
    unfolding run rest cs x_def[symmetric] using tail
    by (cases "last_attempt s") (simp_all add: restore_clock_def la eod_now_def not_le)
qed

definition is_rejected :: "eod \<Rightarrow> bool" where
  "is_rejected s \<longleftrightarrow> error_code s = word ''CHECKPOINT_REJECTED'' \<and> eod_stop s \<and> run_in_progress s = None"

definition filed :: "eod_config \<Rightarrow> date \<Rightarrow> int \<Rightarrow> disk \<Rightarrow> bool" where
  "filed cf t k f \<longleftrightarrow> (\<exists>s. eod_wf cf s \<and> pending_target s = Some t \<and> k \<le> attempts s \<and> f = Checked (checkpoint_body cf s))"

text \<open>After \<open>k\<close> begun refreshes of \<open>t\<close>: the state and the file both count at least these attempts at \<open>t\<close>.\<close>

definition tally :: "eod_config \<Rightarrow> date \<Rightarrow> int \<Rightarrow> eod \<Rightarrow> bool" where
  "tally cf t k s \<longleftrightarrow> eod_wf cf s \<and> k \<le> maximum_attempts cf
     \<and> (\<forall>t' rv n. run_in_progress s = Some (t', rv, n) \<longrightarrow> t' = t \<and> rv = request_revision s)
     \<and> (0 < k \<longrightarrow> filed cf t k (checkpoint s) \<and> (is_rejected s \<or> pending_target s = Some t \<and> k \<le> attempts s))"

lemma filedI: "eod_wf cf s \<Longrightarrow> pending_target s = Some t \<Longrightarrow> k \<le> attempts s \<Longrightarrow> filed cf t k (Checked (checkpoint_body cf s))"
  unfolding filed_def by blast

lemma tally_begin_run:
  assumes "begin_run cf w t (in_shanghai now) s = (s', r)" "tally cf t k s" "\<not> eod_stop s" "has_checkpoint cf" "1 \<le> maximum_attempts cf" "0 \<le> k"
  shows "tally cf t (if r = Inr True then k + 1 else k) s'"
proof -
  have wf: "eod_wf cf s'" using assms(2) by (intro wf_begin_run[OF assms(1) _ assms(5)]) (simp add: tally_def)
  have notrej: "\<not> is_rejected s" using assms(3) by (simp add: is_rejected_def)
  define s1 where "s1 = (if pending_target s = Some t then s else s\<lparr>pending_target := Some t, attempts := 0, next_retry := None\<rparr>)"
  define s2 where "s2 = s1\<lparr>attempts := attempts s1 + 1, last_attempt := Some (in_shanghai now), eod_status := word ''RUNNING'', notice_zh := notice_refreshing t\<rparr>"
  have k: "k \<le> attempts s1" using assms(2,6) notrej by (auto simp: tally_def s1_def eod_wf_def)
  have s1: "pending_target s1 = Some t" "run_in_progress s1 = run_in_progress s" "checkpoint s1 = checkpoint s" "request_revision s1 = request_revision s"
    by (simp_all add: s1_def)
  consider (same) "s' = s" "r = Inr False"
    | (early) "s' = s1" "r = Inr False"
    | (attempt) "run_in_progress s = None" "attempts s1 < maximum_attempts cf" "handled t (case persist cf w s2 of
                   Inl e \<Rightarrow> (s2, Inl e)
                 | Inr s3 \<Rightarrow> (s3\<lparr>run_in_progress := Some (t, request_revision s3, attempts s3)\<rparr>, Inr True)) = (s', r)"
  proof (cases "run_in_progress s = None")
    case False
    then have "s' = s" "r = Inr False" using assms(1) by (simp_all add: begin_run_def)
    then show ?thesis by (rule that(1))
  next
    case True
    then show ?thesis using assms(1) that
      unfolding begin_run_def Let_def s1_def[symmetric] s2_def[symmetric] by (simp split: if_splits add: not_le)
  qed
  then show ?thesis
  proof cases
    case same
    then show ?thesis using assms(2) by simp
  next
    case early
    then show ?thesis using assms(2) wf k s1 notrej by (auto simp: tally_def)
  next
    case attempt
    show ?thesis
    proof (cases "persist cf w s2")
      case (Inl e)
      then have "s' = s2 \<or> s' = checkpoint_failed t e s2" "r \<noteq> Inr True" using attempt(3) by (auto simp: handled_def split: if_splits)
      then show ?thesis using assms(2) wf k s1 notrej attempt(1) by (auto simp: tally_def s2_def checkpoint_failed_def)
    next
      case (Inr s3)
      then have s3: "s3 = s2\<lparr>checkpoint := Checked (checkpoint_body cf s2)\<rparr>" using assms(4) by (simp add: persist_Inr)
      have s': "s' = s3\<lparr>run_in_progress := Some (t, request_revision s3, attempts s3)\<rparr>" "r = Inr True" using attempt(3) Inr by (simp_all add: handled_def)
      have "eod_wf cf s2" using wf unfolding s' s3 by (simp add: eod_wf_def)
      then have "filed cf t (k + 1) (checkpoint s')" unfolding s' s3 using k s1 by (auto intro!: filedI simp: s2_def)
      then show ?thesis using wf k s1 attempt(2) by (auto simp: tally_def s' s3 s2_def)
    qed
  qed
qed

lemma tally_calendar:
  assumes "calendar_failure cf w s = (s', r)" "tally cf t k s" "\<not> eod_stop s"
  shows "tally cf t k s'"
proof -
  have wf: "eod_wf cf s'" using assms(2) by (intro wf_calendar_failure[OF assms(1)]) (simp add: tally_def)
  note keeps = calendar_failure_keeps[OF assms(1)]
  have notrej: "\<not> is_rejected s" using assms(3) by (simp add: is_rejected_def)
  have "filed cf t k (checkpoint s')" if "0 < k"
  proof -
    have "filed cf t k (checkpoint s)" "pending_target s' = Some t" "k \<le> attempts s'" using that assms(2) notrej keeps by (auto simp: tally_def)
    then show ?thesis using keeps wf filedI by metis
  qed
  then show ?thesis using assms(2) wf keeps notrej by (auto simp: tally_def)
qed

lemma tally_run_at:
  assumes "run_at f cf now w s = (s', r)" "tally cf t k s" "has_checkpoint cf" "1 \<le> maximum_attempts cf" "0 \<le> k"
    and "\<forall>x. aimed f now s = Some x \<longrightarrow> x = t"
  shows "tally cf t (if r = Inr True then k + 1 else k) s' \<and> (aimed f now s = None \<longrightarrow> r \<noteq> Inr True)"
  using assms(1)
proof (cases rule: run_at_cases)
  case (aims x)
  then have x: "x = t" "\<not> eod_stop s" using assms(6) by (auto simp: aimed_def split: if_splits)
  show ?thesis using tally_begin_run[OF aims(2)[unfolded x(1)] assms(2) x(2) assms(3,4,5)] aims(1) by simp
next
  case calendar
  then show ?thesis using tally_calendar[OF calendar(2) assms(2) calendar(3)] by simp
next
  case nothing
  then show ?thesis using assms(2) by simp
qed

lemma tally_end_run:
  assumes "end_run cf i oc s = (s', r)" "tally cf t k s" "run_in_progress s = Some (x, rv, n)" "x \<notin> completed s'"
  shows "tally cf t k s'"
proof -
  have w: "eod_wf cf s" "x = t" "rv = request_revision s" "k \<le> maximum_attempts cf" using assms(2,3) by (simp_all add: tally_def)
  have wf: "eod_wf cf s'" by (rule wf_end_run[OF assms(1) w(1)])
  have notrej: "\<not> is_rejected s" using assms(3) by (simp add: is_rejected_def)
  obtain s1 q where q: "refreshed cf i oc t rv n s = (s1, q)" by fastforce
  obtain s2 where h: "handled t (s1, q) = (s2, r)" and s': "s' = s2\<lparr>run_in_progress := None\<rparr>"
    using assms(1,3) w(2) q by (auto simp: end_run_def split: prod.splits)
  have hc: "s2 = s1 \<or> (\<exists>e. q = Inl e \<and> s2 = checkpoint_failed t e s1)"
    using h by (auto simp: handled_def split: sum.splits if_splits)
  have "(0 < k \<longrightarrow> filed cf t k (checkpoint s2) \<and> pending_target s2 = Some t \<and> k \<le> attempts s2)"
  proof
    assume pos: "0 < k"
    then have s: "filed cf t k (checkpoint s)" "pending_target s = Some t" "k \<le> attempts s" using assms(2) notrej by (simp_all add: tally_def)
    from q w(1) show "filed cf t k (checkpoint s2) \<and> pending_target s2 = Some t \<and> k \<le> attempts s2"
    proof (cases rule: refreshed_cases)
      case failed
      then have "filed cf t k (checkpoint s1)" "pending_target s1 = Some t" "k \<le> attempts s1"
        using s filedI by (auto simp: same_target_def)
      then show ?thesis using hc by (auto simp: checkpoint_failed_def)
    next
      case (success s0 msg)
      note spec = refresh_succeeded_spec[OF success(2)]
      have s0: "request_revision s0 = request_revision s" "attempts s0 = attempts s" using success(3) by (simp_all add: same_target_def)
      have "t \<in> completed s1" using spec s0 w(3) by simp
      then obtain e where e: "q = Inl e" "s2 = checkpoint_failed t e s1" using hc assms(4) s' w(2) by auto
      then have "checkpoint s1 = checkpoint s" using spec success(5) by simp
      then show ?thesis using e s spec s0 by (simp add: checkpoint_failed_def)
    qed
  qed
  then show ?thesis using wf w(4) by (simp add: tally_def s')
qed

lemma tally_restart:
  assumes "new_coordinator cf now (checkpoint s) = Inr s'" "tally cf t k s" "has_checkpoint cf"
  shows "tally cf t k s'"
proof -
  have free: "run_free cf (checkpoint s) s'" "1 \<le> maximum_attempts cf" using new_coordinator_free[OF assms(1)] by simp_all
  have "filed cf t k (checkpoint s') \<and> (is_rejected s' \<or> pending_target s' = Some t \<and> k \<le> attempts s')" if pos: "0 < k"
  proof -
    obtain s1 where s1: "eod_wf cf s1" "pending_target s1 = Some t" "k \<le> attempts s1" "checkpoint s = Checked (checkpoint_body cf s1)"
      using assms(2) pos by (auto simp: tally_def filed_def)
    have r: "restore cf now (fresh_coordinator (checkpoint s)) = Inr s'"
      using assms(1,3) by (simp add: new_coordinator_def split: if_splits)
    have cp: "checkpoint (fresh_coordinator (checkpoint s)) = Checked (checkpoint_body cf s1)" using s1(4) by (simp add: fresh_coordinator_def)
    have re: "pending_target (reopened cf f s1) = Some t \<and> k \<le> attempts (reopened cf f s1)" for f
      using s1 by (simp add: reopened_def resume_interrupted_def)
    have "(\<exists>y e. run_steps (restore_steps cf now (checkpoint_body cf s1)) (fresh_coordinator (checkpoint s)) = (y, Some e))
      \<or> run_steps (restore_steps cf now (checkpoint_body cf s1)) (fresh_coordinator (checkpoint s)) = (reopened cf (checkpoint s) s1, None)"
      unfolding restore_written[OF s1(1)] by (simp split: option.split)
    then consider e y where "run_steps (restore_steps cf now (checkpoint_body cf s1)) (fresh_coordinator (checkpoint s)) = (y, Some e)"
      | "run_steps (restore_steps cf now (checkpoint_body cf s1)) (fresh_coordinator (checkpoint s)) = (reopened cf (checkpoint s) s1, None)"
      by blast
    then show ?thesis
    proof cases
      case (1 e y)
      then have "s' = reject_checkpoint y" using r cp by (auto simp: restore_def split: if_splits)
      then have "is_rejected s'" using free by (simp add: is_rejected_def run_free_def reject_checkpoint_def)
      then show ?thesis using assms(2) pos free by (simp add: tally_def run_free_def)
    next
      case 2
      then have "s' = reopened cf (checkpoint s) s1" using r cp by (auto simp: restore_def)
      then show ?thesis using assms(2) pos free re by (simp add: tally_def run_free_def)
    qed
  qed
  then show ?thesis using assms(2) free by (simp add: tally_def run_free_def)
qed

lemma tally_step:
  assumes "eod_step cf s l s'" "tally cf t k s" "has_checkpoint cf" "1 \<le> maximum_attempts cf" "0 \<le> k"
    and "l \<noteq> Requested" "l \<noteq> Ended True" "\<forall>x b. l = Tried x b \<longrightarrow> x = t"
  shows "tally cf t (if l = Tried t True then k + 1 else k) s'"
  using assms(1)
proof (cases rule: eod_step.cases)
  case (tried_due now w r x)
  then have x: "x = t" using assms(8) by blast
  show ?thesis using tally_run_at[OF tried_due(2)[unfolded run_due_def] assms(2,3,4,5)] tried_due(1,3) x by auto
next
  case (tried_initial now w r x)
  then have x: "x = t" using assms(8) by blast
  show ?thesis using tally_run_at[OF tried_initial(2)[unfolded run_initial_def] assms(2,3,4,5)] tried_initial(1,3) x by auto
next
  case (idle_due now w r)
  show ?thesis using tally_run_at[OF idle_due(2)[unfolded run_due_def] assms(2,3,4,5)] idle_due(1,3) by auto
next
  case (idle_initial now w r)
  show ?thesis using tally_run_at[OF idle_initial(2)[unfolded run_initial_def] assms(2,3,4,5)] idle_initial(1,3) by auto
next
  case (ended x rv n i oc r)
  then have "x \<notin> completed s'" using assms(7) by auto
  from tally_end_run[OF ended(3) assms(2) ended(2) this] show ?thesis using ended(1) by simp
next
  case (restarted now)
  show ?thesis using tally_restart[OF restarted(2) assms(2,3)] restarted(1) by simp
next
  case started
  then show ?thesis using assms(2) by (auto simp: tally_def eod_start_def eod_wf_def is_rejected_def)
next
  case stopped
  then show ?thesis using assms(2) by (auto simp: tally_def eod_halt_def eod_wf_def is_rejected_def)
qed (use assms(6) in simp_all)

definition begun :: "date \<Rightarrow> eod_label list \<Rightarrow> nat" where
  "begun t ls = length (filter (\<lambda>l. l = Tried t True) ls)"

lemma tally_trace:
  assumes "eod_trace cf s0 ls s" "tally cf t 0 s0" "has_checkpoint cf" "1 \<le> maximum_attempts cf"
    and "\<forall>l \<in> set ls. l \<noteq> Requested \<and> l \<noteq> Ended True \<and> (\<forall>x b. l = Tried x b \<longrightarrow> x = t)"
  shows "tally cf t (int (begun t ls)) s"
  using assms
proof (induction rule: eod_trace.induct)
  case here
  then show ?case by (simp add: begun_def)
next
  case (more ls s1 l s2)
  have "tally cf t (int (begun t ls)) s1" using more by simp
  from tally_step[OF more.hyps(2) this more.prems(2,3)] more.prems(4) show ?case by (auto simp: begun_def)
qed

text \<open>C23: However often the process is killed and restarted, no more refreshes are begun for a session than the limit of
  attempts, as long as no refresh succeeds and nobody requests or reviews one: every attempt is counted in the
  checkpoint before the refresh is called, and a restart resumes the count.\<close>

theorem crash_loop_bounded:
  assumes "new_coordinator cf now f = Inr s0" "has_checkpoint cf" "eod_trace cf s0 ls s"
    and "\<forall>l \<in> set ls. l \<noteq> Requested \<and> l \<noteq> Ended True \<and> (\<forall>x b. l = Tried x b \<longrightarrow> x = t)"
  shows "int (begun t ls) \<le> maximum_attempts cf"
proof -
  have free: "run_free cf f s0" "1 \<le> maximum_attempts cf" using new_coordinator_free[OF assms(1)] by simp_all
  then have "tally cf t 0 s0" by (simp add: tally_def run_free_def)
  from tally_trace[OF assms(3) this assms(2) free(2) assms(4)] show ?thesis by (simp add: tally_def)
qed

definition demo_crashed :: eod where
  "demo_crashed = reopened demo_cf (checkpoint demo_begun) demo_begun"

theorem crash_loop_bounded_witness:
  "\<exists>s. eod_trace demo_cf (fresh_coordinator Missing) [Tried 739000 True, Restarted] s \<and> attempts s = 1
     \<and> int (begun 739000 [Tried 739000 True, Restarted]) \<le> maximum_attempts demo_cf"
proof -
  have n0: "new_coordinator demo_cf demo_evening Missing = Inr (fresh_coordinator Missing)"
    by (simp add: new_coordinator_def demo_cf_def restore_def fresh_coordinator_def)
  obtain r where r: "run_due demo_cf demo_evening None (fresh_coordinator Missing) = (demo_begun, r)"
    unfolding demo_begun_def by (metis prod.collapse)
  have "case snd (run_due demo_cf demo_evening None (fresh_coordinator Missing)) of Inr True \<Rightarrow> True | _ \<Rightarrow> False" by code_simp
  then have rt: "r = Inr True" unfolding r by (auto split: sum.splits bool.splits)
  have a: "aimed (due_target demo_cf (fresh_coordinator Missing)) demo_evening (fresh_coordinator Missing) = Some 739000" by code_simp
  have t1: "eod_trace demo_cf (fresh_coordinator Missing) [Tried 739000 True] demo_begun"
    using eod_trace.more[OF eod_trace.here eod_step.tried_due[OF r a]] rt by simp
  have "case new_coordinator demo_cf demo_evening (checkpoint demo_begun) of Inl _ \<Rightarrow> False | Inr s \<Rightarrow> attempts s = 1" by code_simp
  then obtain s where s: "new_coordinator demo_cf demo_evening (checkpoint demo_begun) = Inr s" "attempts s = 1" by (auto split: sum.splits)
  have t2: "eod_trace demo_cf (fresh_coordinator Missing) ([Tried 739000 True] @ [Restarted]) s"
    by (rule eod_trace.more[OF t1 eod_step.restarted[OF s(1)]])
  have "has_checkpoint demo_cf" by (simp add: demo_cf_def)
  from crash_loop_bounded[OF n0 this t2, of 739000] show ?thesis using t2 s(2) by auto
qed

section \<open>The checkpoint\<close>

lemma newest_set: "finite ds \<Longrightarrow> set (newest k ds) \<subseteq> ds \<and> (card ds \<le> k \<longrightarrow> set (newest k ds) = ds)"
  by (auto simp: newest_def Let_def dest: in_set_dropD)

text \<open>A restart from the checkpoint of a state gives back that state - target, attempts, retry time, outcome, texts - with
  an interrupted run as pending, nothing running, and of the completed sessions those among the newest 64 that are
  still valid; none is lost when there are at most 64 and all are valid.\<close>

theorem checkpoint_restores:
  assumes "eod_wf cf s" "has_checkpoint cf" "0 \<le> retry_base cf" "retry_base cf \<le> retry_max cf" "1 \<le> maximum_attempts cf"
    and "is_aware now" "\<forall>t. last_attempt s = Some t \<longrightarrow> instant t \<le> instant now"
  defines "f \<equiv> Checked (checkpoint_body cf s)"
  shows "new_coordinator cf now f = Inr (reopened cf f s) \<and> completed (reopened cf f s) \<subseteq> completed s
    \<and> (card (completed s) \<le> 64 \<and> completion_is_valid cf = None \<longrightarrow> completed (reopened cf f s) = completed s)"
proof -
  have "run_steps (restore_steps cf now (checkpoint_body cf s)) (fresh_coordinator f) = (reopened cf f s, None)"
    unfolding restore_written[OF assms(1)] using assms(6,7) by (simp split: option.split)
  moreover have "checkpoint (fresh_coordinator f) = Checked (checkpoint_body cf s)" by (simp add: fresh_coordinator_def f_def)
  ultimately have "new_coordinator cf now f = Inr (reopened cf f s)" using assms(2-5) by (simp add: new_coordinator_def restore_def)
  moreover have "finite (completed s)" using assms(1) by (simp add: eod_wf_def)
  ultimately show ?thesis using newest_set[of "completed s" 64]
    by (auto simp: reopened_def resume_interrupted_def split: option.splits)
qed

theorem checkpoint_restores_witness:
  "new_coordinator demo_cf demo_evening (Checked (checkpoint_body demo_cf demo_begun))
     = Inr (reopened demo_cf (Checked (checkpoint_body demo_cf demo_begun)) demo_begun)"
proof -
  have l: "\<forall>t. last_attempt demo_begun = Some t \<longrightarrow> instant t \<le> instant demo_evening"
  proof -
    have "case last_attempt demo_begun of None \<Rightarrow> True | Some t \<Rightarrow> instant t \<le> instant demo_evening" by code_simp
    then show ?thesis by auto
  qed
  have c: "has_checkpoint demo_cf" "0 \<le> retry_base demo_cf" "retry_base demo_cf \<le> retry_max demo_cf" "1 \<le> maximum_attempts demo_cf" "is_aware demo_evening"
    by (simp_all add: demo_cf_def demo_evening_def)
  show ?thesis using checkpoint_restores[OF demo_begun_wf c l] by blast
qed

lemma rejected_step:
  assumes "eod_step cf s l s'" "is_rejected s" "l \<noteq> Restarted"
  shows "is_rejected s' \<and> checkpoint s' = checkpoint s \<and> (\<forall>t. l \<noteq> Tried t True)"
proof -
  have run: "run_at f cf now w s = (s, Inr False)" for f now w using assms(2) by (simp add: run_at_def is_rejected_def)
  have aim: "aimed f now s = None" for f now using assms(2) by (simp add: aimed_def is_rejected_def)
  have req: "request_refresh cf now w s = (s', r) \<Longrightarrow> s' = s" for now w r
    using assms(2) by (auto simp: request_refresh_def is_rejected_def split: sum.splits)
  from assms(1) show ?thesis
  proof (cases rule: eod_step.cases)
    case (ended x rv n i oc r)
    then show ?thesis using assms(2) by (simp add: is_rejected_def)
  next
    case (requested now w r)
    then show ?thesis using req[OF requested(2)] assms(2) by simp
  next
    case (reviewed now w r)
    then show ?thesis using assms(2) by (simp add: retry_after_review_def is_rejected_def)
  qed (use assms run aim in \<open>auto simp: run_due_def run_initial_def eod_start_def eod_halt_def is_rejected_def\<close>)
qed

text \<open>A checkpoint that was refused at start-up stays on the disk as it is: until the next restart no operation of the
  coordinator writes it or begins a refresh.\<close>

theorem rejected_checkpoint_kept:
  assumes "new_coordinator cf now f = Inr s0" "eod_stop s0" "eod_trace cf s0 ls s" "Restarted \<notin> set ls"
  shows "checkpoint s = f \<and> (\<forall>t. Tried t True \<notin> set ls)"
proof -
  have free: "run_free cf f s0" using new_coordinator_free[OF assms(1)] by simp
  have "error_code s0 = word ''CHECKPOINT_REJECTED''"
  proof -
    have stop: "\<not> eod_stop x" if "run_steps (restore_steps cf now b) (fresh_coordinator f) = (x, e)" for b x e
      by (rule run_steps_inv[where P = "\<lambda>x. \<not> eod_stop x", OF that])
         (auto simp: fresh_coordinator_def restore_steps_def restore_completed_def restore_clock_def resume_interrupted_def bindR_Inr_iff
            split: if_splits option.splits)
    have "\<not> eod_stop (fresh_coordinator f)" by (simp add: fresh_coordinator_def)
    then show ?thesis using assms(1,2) stop
      by (auto simp: new_coordinator_def restore_def reject_checkpoint_def split: if_splits prod.splits disk.splits option.splits)
  qed
  then have rej: "is_rejected s0" using assms(2) free by (simp add: is_rejected_def run_free_def)
  have "is_rejected s \<and> checkpoint s = checkpoint s0 \<and> (\<forall>t. Tried t True \<notin> set ls)"
    using assms(3,4)
  proof (induction rule: eod_trace.induct)
    case here
    then show ?case using rej by simp
  next
    case (more ls s1 l s2)
    then show ?case using rejected_step[OF more.hyps(2)] by auto
  qed
  then show ?thesis using free by (simp add: run_free_def)
qed

theorem rejected_checkpoint_kept_witness:
  "\<exists>s. new_coordinator demo_cf demo_evening (Damaged (ValueError ''invalid workflow artifact'')) = Inr s \<and> eod_stop s
     \<and> checkpoint (eod_start s) = Damaged (ValueError ''invalid workflow artifact'')"
proof -
  have "case new_coordinator demo_cf demo_evening (Damaged (ValueError ''invalid workflow artifact'')) of Inl _ \<Rightarrow> False | Inr s \<Rightarrow> eod_stop s" by code_simp
  then obtain s where s: "new_coordinator demo_cf demo_evening (Damaged (ValueError ''invalid workflow artifact'')) = Inr s" "eod_stop s"
    by (auto split: sum.splits)
  have t: "eod_trace demo_cf s ([] @ [Quiet]) (eod_start s)" by (rule eod_trace.more[OF eod_trace.here eod_step.started])
  from rejected_checkpoint_kept[OF s t] s show ?thesis by auto
qed

end
