(* ===== verification/Prospective_Contracts.thy ===== *)
theory Prospective_Contracts
  imports Symbols Trading_Calendar Py_Json Py_Iso
begin

text \<open>
  \<^verbatim>\<open>ProspectivePrediction\<close> and \<^verbatim>\<open>OutcomeObservation\<close> of \<^verbatim>\<open>research/prospective_competition.py\<close>: a prediction registered before
  its label can be known, and a possible future result, with their JSON forms.  The arguments of a constructor are a
  record of typed values; SHA-256 of the canonical JSON of a value is the argument \<open>dg\<close>.  The price bands, a
  mapping, are kept in the order of their names (mappings compare without regard to order).
\<close>

section \<open>Field checks\<close>

definition stripped_field :: "pystr \<Rightarrow> string \<Rightarrow> pystr result" where
  "stripped_field s f = (if py_strip s = [] then Inl (ValueError (f @ '' is required'')) else Inr (py_strip s))"

definition is_hex :: "pystr \<Rightarrow> bool" where
  "is_hex s \<longleftrightarrow> (\<forall>c \<in> set s. 48 \<le> c \<and> c \<le> 57 \<or> 97 \<le> c \<and> c \<le> 102)"

definition digest_field :: "pystr \<Rightarrow> string \<Rightarrow> pystr result" where
  "digest_field s f = (let v = py_lower (py_strip s) in
     if v \<noteq> [] \<and> (length v \<noteq> 64 \<or> \<not> is_hex v) then Inl (ValueError (f @ '' must be a sha256 digest'')) else Inr v)"

definition cycle_char :: "int \<Rightarrow> bool" where
  "cycle_char c \<longleftrightarrow> 97 \<le> c \<and> c \<le> 122 \<or> 65 \<le> c \<and> c \<le> 90 \<or> 48 \<le> c \<and> c \<le> 57 \<or> c = 95 \<or> c = 45"

definition cycle_field :: "pystr \<Rightarrow> pystr result" where
  "cycle_field s = (let v = py_strip s in
     if 128 < length v \<or> \<not> list_all cycle_char v then Inl (ValueError ''cycle_key is invalid'') else Inr v)"

definition source_field :: "pystr \<Rightarrow> pystr result" where
  "source_field s = (let v = map (\<lambda>c. if c = 92 then 47 else c) (py_strip s) in
     if v \<noteq> [] \<and> (\<not> py_startswith v [py ''.runtime/research/''] \<or> (\<exists>p \<in> set (py_split 47 v). p \<in> {[], py ''.'', py ''..''}))
     then Inl (ValueError ''source_artifact_path is invalid'') else Inr v)"

text \<open>A band is given as a mapping with its bounds, as a pair, or as something else.\<close>

datatype band_arg = Bounds pyfloat pyfloat | NotTwo

type_synonym bands = "(pystr \<times> rat \<times> rat) list"

fun collect_bands :: "bands \<Rightarrow> (pystr \<times> band_arg) list \<Rightarrow> bands result" where
  "collect_bands d [] = Inr d"
| "collect_bands d ((n, b) # r) =
     (if py_strip n = [] then Inl (ValueError ''guidance price band name is required'')
      else case b of NotTwo \<Rightarrow> Inl (ValueError ''guidance price band must have two bounds'')
      | Bounds l u \<Rightarrow> bindR (finite_float l ''guidance_price_band.lower'') (\<lambda>lo. bindR (finite_float u ''guidance_price_band.upper'') (\<lambda>up.
          if lo \<le> 0 \<or> up < lo then Inl (ValueError ''guidance price band bounds are invalid'')
          else collect_bands (dict_set d (py_strip n) (lo, up)) r)))"

definition freeze_bands :: "(pystr \<times> band_arg) list \<Rightarrow> bands result" where
  "freeze_bands bs = (if bs = [] then Inl (ValueError ''guidance_price_bands must be a non-empty mapping'')
     else bindR (collect_bands [] bs) (\<lambda>d. Inr (sort_key fst d)))"

fun future_session :: "nat \<Rightarrow> date \<Rightarrow> date result" where
  "future_session 0 d = Inr d"
| "future_session (Suc n) d = bindR (next_session (make_calendar None) d) (future_session n)"

section \<open>Predictions\<close>

record prediction_args =
  pa_model_id :: pystr
  pa_model_version :: pystr
  pa_config_hash :: pystr
  pa_snapshot_hash :: pystr
  pa_symbol :: pystr
  pa_name :: pystr
  pa_prediction_at :: datetime
  pa_as_of :: date
  pa_horizon :: int
  pa_score :: pyfloat
  pa_probability :: "pyfloat option"
  pa_bands :: "(pystr \<times> band_arg) list"
  pa_evidence_mode :: pystr
  pa_maturity :: "date option"
  pa_prediction_id :: pystr
  pa_input_digest :: pystr
  pa_calendar_digest :: pystr
  pa_cycle_key :: pystr
  pa_bundle_digest :: pystr
  pa_calibrated :: bool
  pa_source_path :: pystr

record prospective =
  pp_id :: pystr
  pp_model_id :: pystr
  pp_model_version :: pystr
  pp_config_hash :: pystr
  pp_snapshot_hash :: pystr
  pp_symbol :: pystr
  pp_name :: pystr
  prediction_at :: utc
  as_of :: date
  pp_horizon :: int
  score :: rat
  probability :: "rat option"
  price_bands :: bands
  pp_maturity :: date
  maturity_explicit :: bool
  input_digest :: pystr
  calendar_digest :: pystr
  cycle_key :: pystr
  bundle_digest :: pystr
  probability_calibrated :: bool
  source_path :: pystr

text \<open>The fields in the order of \<^verbatim>\<open>__post_init__\<close>: the identity, the times with the numbers, the maturity, the provenance.\<close>

definition prediction_names :: "prediction_args \<Rightarrow> (pystr \<times> pystr \<times> pystr \<times> pystr \<times> pystr \<times> pystr) result" where
  "prediction_names a =
     bindR (stripped_field (pa_model_id a) ''model_id'') (\<lambda>m.
     bindR (stripped_field (pa_model_version a) ''model_version'') (\<lambda>v.
     bindR (stripped_field (pa_config_hash a) ''config_hash'') (\<lambda>c.
     bindR (stripped_field (pa_snapshot_hash a) ''training_snapshot_hash'') (\<lambda>h.
     bindR (stripped_field (pa_name a) ''name'') (\<lambda>n.
     bindR (normalize_symbol (pa_symbol a)) (\<lambda>s. Inr (m, v, c, h, n, s)))))))"

definition probability_field :: "bool \<Rightarrow> pyfloat option \<Rightarrow> rat option result" where
  "probability_field cal v = (case v of
       None \<Rightarrow> if cal then Inl (ValueError ''probability is required when calibrated'') else Inr None
     | Some x \<Rightarrow> bindR (finite_float x ''probability'') (\<lambda>p.
         if 0 \<le> p \<and> p \<le> 1 then Inr (Some p) else Inl (ValueError ''probability must be between zero and one'')))"

definition prediction_numbers :: "prediction_args \<Rightarrow> (utc \<times> rat \<times> rat option \<times> bands) result" where
  "prediction_numbers a =
     bindR (as_utc (pa_prediction_at a) ''prediction_at'') (\<lambda>t.
     if utc_date t < pa_as_of a then Inl (ValueError ''as_of cannot be in the future of prediction_at'')
     else if pa_horizon a \<notin> {5, 10, 20} then Inl (ValueError ''horizon must be one of 5, 10, or 20'')
     else bindR (finite_float (pa_score a) ''score'') (\<lambda>sc.
     bindR (probability_field (pa_calibrated a) (pa_probability a)) (\<lambda>pr.
     bindR (freeze_bands (pa_bands a)) (\<lambda>bs.
     if py_upper (py_strip (pa_evidence_mode a)) \<noteq> py ''PROSPECTIVE'' then Inl (ValueError ''evidence_mode must be PROSPECTIVE'')
     else Inr (t, sc, pr, bs)))))"

definition prediction_maturity :: "prediction_args \<Rightarrow> utc \<Rightarrow> date result" where
  "prediction_maturity a t =
     bindR (case pa_maturity a of Some d \<Rightarrow> Inr d | None \<Rightarrow> future_session (nat (pa_horizon a)) (pa_as_of a)) (\<lambda>m.
     if m \<le> pa_as_of a then Inl (ValueError ''maturity_date must be after as_of'')
     else if m \<le> utc_date t then Inl (ValueError ''prediction_at must precede maturity_date'')
     else Inr m)"

definition prediction_provenance :: "prediction_args \<Rightarrow> (pystr \<times> pystr \<times> pystr \<times> pystr \<times> pystr) result" where
  "prediction_provenance a =
     bindR (digest_field (pa_input_digest a) ''source_input_digest'') (\<lambda>i.
     bindR (digest_field (pa_calendar_digest a) ''session_calendar_digest'') (\<lambda>c.
     bindR (digest_field (pa_bundle_digest a) ''model_bundle_digest'') (\<lambda>b.
     bindR (cycle_field (pa_cycle_key a)) (\<lambda>k.
     bindR (source_field (pa_source_path a)) (\<lambda>p. Inr (i, c, b, k, p))))))"

definition json_rat :: "rat option \<Rightarrow> json" where
  "json_rat v = (case v of None \<Rightarrow> JNull | Some x \<Rightarrow> JFloat x)"

definition bands_json :: "bands \<Rightarrow> json" where
  "bands_json bs = JDict (map (\<lambda>(n, l, u). (n, JList [JFloat l, JFloat u])) bs)"

definition identity_payload :: "prospective \<Rightarrow> (string \<times> json) list" where
  "identity_payload p =
     [(''as_of'', JDate (as_of p)), (''config_hash'', JStr (pp_config_hash p)), (''cycle_key'', JStr (cycle_key p)),
      (''evidence_mode'', JStr (py ''PROSPECTIVE'')), (''guidance_price_bands'', bands_json (price_bands p)), (''horizon'', JInt (pp_horizon p)),
      (''maturity_date'', JDate (pp_maturity p)), (''maturity_explicit'', JBool (maturity_explicit p)),
      (''model_bundle_digest'', JStr (bundle_digest p)), (''model_id'', JStr (pp_model_id p)), (''model_version'', JStr (pp_model_version p)),
      (''name'', JStr (pp_name p)), (''prediction_at'', JTime (utc_datetime (prediction_at p))),
      (''probability'', json_rat (probability p)), (''probability_calibrated'', JBool (probability_calibrated p)),
      (''score'', JFloat (score p)), (''session_calendar_digest'', JStr (calendar_digest p)), (''source_artifact_path'', JStr (source_path p)),
      (''source_input_digest'', JStr (input_digest p)), (''symbol'', JStr (pp_symbol p)),
      (''training_snapshot_hash'', JStr (pp_snapshot_hash p))]"

definition computed_id :: "(json \<Rightarrow> pystr) \<Rightarrow> prospective \<Rightarrow> pystr" where
  "computed_id dg p = py ''prediction-'' @ take 32 (dg (JObj (identity_payload p)))"

definition make_prediction :: "(json \<Rightarrow> pystr) \<Rightarrow> prediction_args \<Rightarrow> prospective result" where
  "make_prediction dg a =
     bindR (prediction_names a) (\<lambda>(m, v, c, h, n, s).
     bindR (prediction_numbers a) (\<lambda>(t, sc, pr, bs).
     bindR (prediction_maturity a t) (\<lambda>d.
     bindR (prediction_provenance a) (\<lambda>(i, cd, b, k, path).
     let p = \<lparr>pp_id = [], pp_model_id = m, pp_model_version = v, pp_config_hash = c, pp_snapshot_hash = h, pp_symbol = s, pp_name = n,
           prediction_at = t, as_of = pa_as_of a, pp_horizon = pa_horizon a, score = sc, probability = pr, price_bands = bs,
           pp_maturity = d, maturity_explicit = (pa_maturity a \<noteq> None), input_digest = i, calendar_digest = cd, cycle_key = k,
           bundle_digest = b, probability_calibrated = pa_calibrated a, source_path = path\<rparr>
     in Inr (p\<lparr>pp_id := (if py_strip (pa_prediction_id a) = [] then computed_id dg p else py_strip (pa_prediction_id a))\<rparr>)))))"

text \<open>\<^verbatim>\<open>==\<close> of two predictions, which leaves \<^verbatim>\<open>maturity_explicit\<close> out.\<close>

definition same_prediction :: "prospective \<Rightarrow> prospective \<Rightarrow> bool" where
  "same_prediction p q \<longleftrightarrow> p\<lparr>maturity_explicit := False\<rparr> = q\<lparr>maturity_explicit := False\<rparr>"

definition prediction_to_dict :: "prospective \<Rightarrow> (string \<times> json) list" where
  "prediction_to_dict p = (''prediction_id'', JStr (pp_id p)) # identity_payload p"

text \<open>The reads of \<^verbatim>\<open>from_dict\<close>: what the constructor makes of the values of the payload.\<close>

definition band_of :: "json \<Rightarrow> band_arg result" where
  "band_of v = (case v of
       JList [l, u] \<Rightarrow> bindR (float_of l ''guidance_price_band.lower'') (\<lambda>x. bindR (float_of u ''guidance_price_band.upper'') (\<lambda>y. Inr (Bounds x y)))
     | _ \<Rightarrow> Inr NotTwo)"

definition bands_of :: "json \<Rightarrow> (pystr \<times> band_arg) list result" where
  "bands_of v = (case v of JDict ob \<Rightarrow> mapR (\<lambda>(n, x). bindR (band_of x) (\<lambda>b. Inr (n, b))) ob
     | _ \<Rightarrow> Inl (ValueError ''guidance_price_bands must be a non-empty mapping''))"

definition float_option_of :: "json \<Rightarrow> string \<Rightarrow> pyfloat option result" where
  "float_option_of v f = (if v = JNull then Inr None else bindR (float_of v f) (\<lambda>x. Inr (Some x)))"

definition bool_field_or :: "(string \<times> json) list \<Rightarrow> string \<Rightarrow> bool \<Rightarrow> bool result" where
  "bool_field_or ob k d = (case dict_get ob k of None \<Rightarrow> Inr d | Some v \<Rightarrow> bool_of v)"

definition prediction_fields :: "string list" where
  "prediction_fields = ''prediction_id'' # [''as_of'', ''config_hash'', ''cycle_key'', ''evidence_mode'', ''guidance_price_bands'', ''horizon'',
     ''maturity_date'', ''maturity_explicit'', ''model_bundle_digest'', ''model_id'', ''model_version'', ''name'', ''prediction_at'', ''probability'',
     ''probability_calibrated'', ''score'', ''session_calendar_digest'', ''source_artifact_path'', ''source_input_digest'', ''symbol'',
     ''training_snapshot_hash'']"

definition payload_names :: "(string \<times> json) list \<Rightarrow> (pystr \<times> pystr \<times> pystr \<times> pystr \<times> pystr \<times> pystr) result" where
  "payload_names ob =
     bindR (bindR (argument ob ''model_id'') text_of) (\<lambda>m. bindR (bindR (argument ob ''model_version'') text_of) (\<lambda>v. bindR (bindR (argument ob ''config_hash'') text_of) (\<lambda>c.
     bindR (bindR (argument ob ''training_snapshot_hash'') text_of) (\<lambda>h. bindR (bindR (argument ob ''name'') text_of) (\<lambda>n. bindR (bindR (argument ob ''symbol'') text_of) (\<lambda>s.
     Inr (m, v, c, h, n, s)))))))"

definition payload_numbers :: "(string \<times> json) list \<Rightarrow> (int \<times> pyfloat \<times> pyfloat option \<times> (pystr \<times> band_arg) list) result" where
  "payload_numbers ob =
     bindR (bindR (argument ob ''horizon'') int_of) (\<lambda>h.
     bindR (bindR (argument ob ''score'') (\<lambda>v. float_of v ''score'')) (\<lambda>sc.
     bindR (bindR (argument ob ''probability'') (\<lambda>v. float_option_of v ''probability'')) (\<lambda>pr.
     bindR (bindR (argument ob ''guidance_price_bands'') bands_of) (\<lambda>bs. Inr (h, sc, pr, bs)))))"

definition payload_provenance :: "(string \<times> json) list \<Rightarrow> (pystr \<times> pystr \<times> pystr \<times> pystr \<times> pystr) result" where
  "payload_provenance ob =
     bindR (text_field_or ob ''source_input_digest'' []) (\<lambda>i. bindR (text_field_or ob ''session_calendar_digest'' []) (\<lambda>cd.
     bindR (text_field_or ob ''model_bundle_digest'' []) (\<lambda>b. bindR (text_field_or ob ''cycle_key'' []) (\<lambda>k.
     bindR (text_field_or ob ''source_artifact_path'' []) (\<lambda>path. Inr (i, cd, b, k, path))))))"

definition prediction_from_dict :: "(json \<Rightarrow> pystr) \<Rightarrow> (string \<times> json) list \<Rightarrow> prospective result" where
  "prediction_from_dict dg ob =
     bindR (bool_field_or ob ''maturity_explicit'' True) (\<lambda>ex.
     bindR (bindR (field ob ''prediction_at'') time_of) (\<lambda>t.
     bindR (bindR (field ob ''as_of'') date_of) (\<lambda>d.
     bindR (bindR (field ob ''maturity_date'') date_of) (\<lambda>md.
     if \<not> set (map fst ob) \<subseteq> set prediction_fields then Inl (TypeError ''unexpected keyword argument'')
     else bindR (payload_names ob) (\<lambda>(m, v, c, h, n, s).
     bindR (payload_numbers ob) (\<lambda>(hz, sc, pr, bs).
     bindR (payload_provenance ob) (\<lambda>(i, cd, b, k, path).
     bindR (text_field_or ob ''evidence_mode'' (py ''PROSPECTIVE'')) (\<lambda>ev.
     bindR (text_field_or ob ''prediction_id'' []) (\<lambda>pid.
     bindR (bool_field_or ob ''probability_calibrated'' False) (\<lambda>cal.
     bindR (make_prediction dg \<lparr>pa_model_id = m, pa_model_version = v, pa_config_hash = c, pa_snapshot_hash = h, pa_symbol = s, pa_name = n,
       pa_prediction_at = t, pa_as_of = d, pa_horizon = hz, pa_score = sc, pa_probability = pr, pa_bands = bs, pa_evidence_mode = ev,
       pa_maturity = Some md, pa_prediction_id = pid, pa_input_digest = i, pa_calendar_digest = cd, pa_cycle_key = k, pa_bundle_digest = b,
       pa_calibrated = cal, pa_source_path = path\<rparr>) (\<lambda>p. Inr (p\<lparr>maturity_explicit := ex\<rparr>))))))))))))"

section \<open>Constructed predictions\<close>

definition band_ok :: "pystr \<times> rat \<times> rat \<Rightarrow> bool" where
  "band_ok b \<longleftrightarrow> named (fst b) \<and> 0 < fst (snd b) \<and> fst (snd b) \<le> snd (snd b)"

definition bands_ok :: "bands \<Rightarrow> bool" where
  "bands_ok bs \<longleftrightarrow> bs \<noteq> [] \<and> sorted (map fst bs) \<and> distinct (map fst bs) \<and> (\<forall>b \<in> set bs. band_ok b)"

definition digest_ok :: "pystr \<Rightarrow> bool" where
  "digest_ok s \<longleftrightarrow> s = [] \<or> length s = 64 \<and> is_hex s"

definition prediction_ok :: "prospective \<Rightarrow> bool" where
  "prediction_ok p \<longleftrightarrow> named (pp_id p) \<and> named (pp_model_id p) \<and> named (pp_model_version p) \<and> named (pp_config_hash p)
     \<and> named (pp_snapshot_hash p) \<and> named (pp_name p) \<and> six_digits (pp_symbol p)
     \<and> as_of p \<le> utc_date (prediction_at p) \<and> utc_date (prediction_at p) < pp_maturity p \<and> pp_horizon p \<in> {5, 10, 20}
     \<and> (case probability p of None \<Rightarrow> \<not> probability_calibrated p | Some x \<Rightarrow> 0 \<le> x \<and> x \<le> 1) \<and> bands_ok (price_bands p)
     \<and> digest_ok (input_digest p) \<and> digest_ok (calendar_digest p) \<and> digest_ok (bundle_digest p)
     \<and> cycle_field (cycle_key p) = Inr (cycle_key p) \<and> source_field (source_path p) = Inr (source_path p)"

lemma stripped_field_named [result_simps]: "stripped_field s f = Inr t \<Longrightarrow> named t"
  by (auto simp: stripped_field_def named_def split: if_splits)

lemma stripped_field_id: "named s \<Longrightarrow> stripped_field s f = Inr s"
  by (simp add: stripped_field_def named_def)

lemma hex_not_special: "is_hex s \<Longrightarrow> c \<in> set s \<Longrightarrow> \<not> py_isspace c \<and> (if 65 \<le> c \<and> c \<le> 90 then c + 32 else c) = c"
  by (force simp: is_hex_def py_isspace_def)

lemma hex_strip: "is_hex s \<Longrightarrow> py_strip s = s"
proof (cases "s = []")
  case False
  assume h: "is_hex s"
  have "hd s \<in> set s" "last s \<in> set s" using False by simp_all
  then show ?thesis using False hex_not_special[OF h] by (intro py_strip_id) blast+
qed (simp add: py_strip_def)

lemma hex_lower: "is_hex s \<Longrightarrow> py_lower s = s"
  unfolding py_lower_def by (intro map_idI) (blast dest: hex_not_special)

lemma digest_field_ok: "digest_field s f = Inr t \<Longrightarrow> digest_ok t"
  unfolding digest_field_def digest_ok_def Let_def by (auto split: if_splits)

lemma digest_field_id: "digest_ok s \<Longrightarrow> digest_field s f = Inr s"
  unfolding digest_ok_def
proof (elim disjE)
  assume "s = []"
  then show ?thesis by (simp add: digest_field_def py_strip_def py_lower_def)
next
  assume "length s = 64 \<and> is_hex s"
  then show ?thesis by (simp add: digest_field_def hex_strip hex_lower)
qed

lemma cycle_strip: "list_all cycle_char s \<Longrightarrow> py_strip s = s"
proof (cases "s = []")
  case False
  assume "list_all cycle_char s"
  then have "\<forall>c \<in> set s. \<not> py_isspace c" by (auto simp: list_all_iff cycle_char_def py_isspace_def)
  then show ?thesis using False by (intro py_strip_id) auto
qed (simp add: py_strip_def)

lemma cycle_field_fixed: "cycle_field s = Inr t \<Longrightarrow> cycle_field t = Inr t"
  using cycle_strip by (auto simp: cycle_field_def Let_def split: if_splits)

lemma source_strip:
  assumes "named (py_strip s)"
  shows "py_strip (map (\<lambda>c. if c = 92 then 47 else c) (py_strip s)) = map (\<lambda>c. if c = 92 then 47 else c) (py_strip s)"
proof -
  let ?g = "\<lambda>c :: int. if c = 92 then 47 else c" and ?u = "py_strip s"
  have ne: "?u \<noteq> []" using assms by (simp add: named_def)
  have sp: "py_isspace (?g c) = py_isspace c" for c by (simp add: py_isspace_def)
  have drop: "dropWhile py_isspace (map ?g xs) = map ?g (dropWhile py_isspace xs)" for xs
    by (induction xs) (auto simp: sp)
  have "py_strip (map ?g xs) = map ?g (py_strip xs)" for xs
  proof -
    have "rev (map ?g ys) = map ?g (rev ys)" for ys by (rule rev_map)
    then show ?thesis unfolding py_strip_def by (simp only: drop)
  qed
  then have "py_strip (map ?g ?u) = map ?g (py_strip ?u)" .
  then show ?thesis unfolding py_strip_idem .
qed

lemma source_field_fixed: "source_field s = Inr t \<Longrightarrow> source_field t = Inr t"
proof -
  assume a: "source_field s = Inr t"
  let ?g = "\<lambda>c :: int. if c = 92 then 47 else c"
  have t: "t = map ?g (py_strip s)" using a by (auto simp: source_field_def Let_def split: if_splits)
  have "py_strip t = t"
  proof (cases "py_strip s = []")
    case True
    then have "t = []" using t by simp
    then show ?thesis by (simp add: py_strip_def)
  next
    case False
    then show ?thesis unfolding t by (intro source_strip) (simp add: named_def)
  qed
  moreover have "map ?g t = t" unfolding t by simp
  moreover have "\<not> (t \<noteq> [] \<and> (\<not> py_startswith t [py ''.runtime/research/''] \<or> (\<exists>p \<in> set (py_split 47 t). p \<in> {[], py ''.'', py ''..''})))"
    using a unfolding source_field_def Let_def t[symmetric] by (simp split: if_splits)
  ultimately show ?thesis unfolding source_field_def Let_def by simp
qed

lemma collect_bands_ok:
  "collect_bands d bs = Inr r \<Longrightarrow> distinct (map fst d) \<Longrightarrow> \<forall>b \<in> set d. band_ok b \<Longrightarrow>
     distinct (map fst r) \<and> (\<forall>b \<in> set r. band_ok b) \<and> fst ` set r = fst ` set d \<union> py_strip ` fst ` set bs"
proof (induction d bs rule: collect_bands.induct)
  case (2 d n b bs)
  then obtain l u lo up where b: "b = Bounds l u" "py_strip n \<noteq> []" "finite_float l ''guidance_price_band.lower'' = Inr lo"
    "finite_float u ''guidance_price_band.upper'' = Inr up" "0 < lo" "lo \<le> up" "collect_bands (dict_set d (py_strip n) (lo, up)) bs = Inr r"
    by (auto simp: bindR_Inr_iff not_le not_less split: if_splits band_arg.splits)
  have d: "\<forall>x \<in> set (dict_set d (py_strip n) (lo, up)). band_ok x"
  proof
    fix x assume "x \<in> set (dict_set d (py_strip n) (lo, up))"
    then have "x = (py_strip n, lo, up) \<or> x \<in> set d" by (metis dict_set_mem prod.collapse)
    then show "band_ok x" using "2.prems"(3) b by (auto simp: band_ok_def named_def)
  qed
  have c: "\<not> (lo \<le> 0 \<or> up < lo)" using b by auto
  show ?case using "2.IH"[OF b(2) b(1) b(3) b(4) c b(7) dict_distinct_set[OF "2.prems"(2)] d] dict_keys_set[of d "py_strip n" "(lo, up)"] by auto
qed auto

lemma freeze_bands_ok: "freeze_bands bs = Inr r \<Longrightarrow> bands_ok r"
proof -
  assume "freeze_bands bs = Inr r"
  then obtain d where d: "bs \<noteq> []" "collect_bands [] bs = Inr d" "r = sort_key fst d" by (auto simp: freeze_bands_def bindR_Inr_iff split: if_splits)
  have ok: "distinct (map fst d) \<and> (\<forall>b \<in> set d. band_ok b) \<and> fst ` set d = py_strip ` fst ` set bs"
    using collect_bands_ok[OF d(2)] by simp
  have "d \<noteq> []" using ok d(1) by (cases bs) auto
  moreover have "distinct (map fst r)" unfolding d(3) using ok by (simp add: distinct_map)
  moreover have "r \<noteq> []" using \<open>d \<noteq> []\<close> d(3) by (metis length_0_conv length_sort)
  ultimately show ?thesis using ok d(3) by (auto simp: bands_ok_def)
qed

lemma collect_bands_fresh:
  "distinct (map fst (d @ bs)) \<Longrightarrow> \<forall>b \<in> set bs. band_ok b \<Longrightarrow>
     collect_bands d (map (\<lambda>(n, l, u). (n, Bounds (Num l) (Num u))) bs) = Inr (d @ bs)"
proof (induction bs arbitrary: d)
  case (Cons b bs)
  obtain n l u where b: "b = (n, l, u)" by (cases b)
  have ok: "py_strip n = n" "n \<noteq> []" "\<not> (l \<le> 0 \<or> u < l)" using Cons.prems b by (auto simp: band_ok_def named_def)
  have snoc: "k \<notin> fst ` set d \<Longrightarrow> dict_set d k v = d @ [(k, v)]" for k v and d :: bands by (induction d) auto
  have set: "dict_set d n (l, u) = d @ [(n, l, u)]" using Cons.prems(1) b by (intro snoc) auto
  show ?case using Cons.IH[of "d @ [(n, l, u)]"] Cons.prems ok b set by (simp add: finite_float_def)
qed simp

lemma freeze_bands_fixed: "bands_ok bs \<Longrightarrow> freeze_bands (map (\<lambda>(n, l, u). (n, Bounds (Num l) (Num u))) bs) = Inr bs"
  using collect_bands_fresh[of "[]" bs] by (simp add: freeze_bands_def bands_ok_def sort_key_id_if_sorted)

definition hex_digests :: "(json \<Rightarrow> pystr) \<Rightarrow> bool" where
  "hex_digests dg \<longleftrightarrow> (\<forall>v. length (dg v) = 64 \<and> is_hex (dg v))"

lemma tagged_digest_named:
  assumes "hex_digests dg" "tag \<noteq> []" "\<not> py_isspace (hd tag)"
  shows "named (tag @ take 32 (dg v))"
proof -
  have h: "length (dg v) = 64" "is_hex (dg v)" using assms(1) by (auto simp: hex_digests_def)
  have ne: "take 32 (dg v) \<noteq> []" using h by auto
  have "last (take 32 (dg v)) \<in> set (dg v)" using ne by (meson in_set_takeD last_in_set)
  then have "\<not> py_isspace (last (take 32 (dg v)))" using h(2) hex_not_special by blast
  then have "py_strip (tag @ take 32 (dg v)) = tag @ take 32 (dg v)" using assms ne by (intro py_strip_id) auto
  then show ?thesis using assms(2) by (simp add: named_def)
qed

lemma make_prediction_ok:
  assumes "make_prediction dg a = Inr p" "hex_digests dg"
  shows "prediction_ok p"
proof -
  obtain m v c h n s where nm: "prediction_names a = Inr (m, v, c, h, n, s)" using assms(1) by (auto simp: make_prediction_def bindR_Inr_iff)
  obtain t sc pr bs where nu: "prediction_numbers a = Inr (t, sc, pr, bs)" using assms(1) by (auto simp: make_prediction_def bindR_Inr_iff)
  obtain d where md: "prediction_maturity a t = Inr d" using assms(1) nu by (auto simp: make_prediction_def bindR_Inr_iff)
  obtain i cd b k path where pv: "prediction_provenance a = Inr (i, cd, b, k, path)" using assms(1) by (auto simp: make_prediction_def bindR_Inr_iff)
  define q where "q = \<lparr>pp_id = [], pp_model_id = m, pp_model_version = v, pp_config_hash = c, pp_snapshot_hash = h, pp_symbol = s, pp_name = n,
           prediction_at = t, as_of = pa_as_of a, pp_horizon = pa_horizon a, score = sc, probability = pr, price_bands = bs,
           pp_maturity = d, maturity_explicit = (pa_maturity a \<noteq> None), input_digest = i, calendar_digest = cd, cycle_key = k,
           bundle_digest = b, probability_calibrated = pa_calibrated a, source_path = path\<rparr>"
  have p: "p = q\<lparr>pp_id := (if py_strip (pa_prediction_id a) = [] then computed_id dg q else py_strip (pa_prediction_id a))\<rparr>"
    using assms(1) unfolding make_prediction_def nm nu md pv bindR_simps prod.case Let_def q_def[symmetric] by simp
  have names: "named m \<and> named v \<and> named c \<and> named h \<and> named n \<and> six_digits s"
    using nm by (auto simp: prediction_names_def bindR_Inr_iff dest: stripped_field_named normalize_symbol_six)
  have nums: "pa_as_of a \<le> utc_date t \<and> pa_horizon a \<in> {5, 10, 20} \<and> probability_field (pa_calibrated a) (pa_probability a) = Inr pr \<and> freeze_bands (pa_bands a) = Inr bs"
    using nu by (auto simp: prediction_numbers_def bindR_Inr_iff split: if_splits)
  have pr: "case pr of None \<Rightarrow> \<not> pa_calibrated a | Some x \<Rightarrow> 0 \<le> x \<and> x \<le> 1"
    using nums by (auto simp: probability_field_def bindR_Inr_iff split: option.splits if_splits)
  have mat: "utc_date t < d" using md by (auto simp: prediction_maturity_def bindR_Inr_iff split: if_splits)
  have prov: "digest_ok i \<and> digest_ok cd \<and> digest_ok b \<and> cycle_field k = Inr k \<and> source_field path = Inr path"
    using pv by (auto simp: prediction_provenance_def bindR_Inr_iff dest: digest_field_ok cycle_field_fixed source_field_fixed)
  have pid: "named (pp_id p)"
  proof (cases "py_strip (pa_prediction_id a) = []")
    case True
    have "hd (py ''prediction-'') = 112" by (simp add: py_def)
    then show ?thesis using True p tagged_digest_named[OF assms(2), of "py ''prediction-''"] by (simp add: computed_id_def py_isspace_def)
  qed (use p in \<open>simp add: named_def\<close>)
  have sel: "pp_model_id p = m" "pp_model_version p = v" "pp_config_hash p = c" "pp_snapshot_hash p = h" "pp_name p = n" "pp_symbol p = s"
    "prediction_at p = t" "as_of p = pa_as_of a" "pp_horizon p = pa_horizon a" "probability p = pr" "price_bands p = bs" "pp_maturity p = d"
    "input_digest p = i" "calendar_digest p = cd" "cycle_key p = k" "bundle_digest p = b" "probability_calibrated p = pa_calibrated a" "source_path p = path"
    by (simp_all add: p q_def)
  show ?thesis unfolding prediction_ok_def sel using pid names nums pr mat prov freeze_bands_ok[of "pa_bands a" bs] by blast
qed

lemma bands_json_read: "bands_of (bands_json bs) = Inr (map (\<lambda>(n, l, u). (n, Bounds (Num l) (Num u))) bs)"
proof -
  have "mapR (\<lambda>(n, x). bindR (band_of x) (\<lambda>b. Inr (n, b))) (map (\<lambda>(n, l, u). (n, JList [JFloat l, JFloat u])) bs)
      = Inr (map (\<lambda>(n, l, u). (n, Bounds (Num l) (Num u))) bs)"
    by (induction bs) (auto simp: band_of_def float_of_def)
  then show ?thesis by (simp add: bands_of_def bands_json_def)
qed

lemma prediction_from_to:
  assumes "prediction_ok p"
  shows "prediction_from_dict dg (prediction_to_dict p) = Inr p"
proof -
  let ?ob = "prediction_to_dict p"
  have keys: "map fst ?ob = prediction_fields" by (simp add: prediction_to_dict_def identity_payload_def prediction_fields_def)
  have n: "payload_names ?ob = Inr (pp_model_id p, pp_model_version p, pp_config_hash p, pp_snapshot_hash p, pp_name p, pp_symbol p)"
    by (simp add: payload_names_def prediction_to_dict_def identity_payload_def argument_def text_of_def)
  have u: "payload_numbers ?ob = Inr (pp_horizon p, Num (score p), map_option Num (probability p), map (\<lambda>(n, l, u). (n, Bounds (Num l) (Num u))) (price_bands p))"
    by (cases "probability p") (simp_all add: payload_numbers_def prediction_to_dict_def identity_payload_def argument_def int_of_def float_of_def float_option_of_def json_rat_def bands_json_read)
  have v: "payload_provenance ?ob = Inr (input_digest p, calendar_digest p, bundle_digest p, cycle_key p, source_path p)"
    by (simp add: payload_provenance_def prediction_to_dict_def identity_payload_def text_field_or_def text_of_def)
  have r: "bool_field_or ?ob ''maturity_explicit'' True = Inr (maturity_explicit p)" "bindR (field ?ob ''prediction_at'') time_of = Inr (utc_datetime (prediction_at p))"
    "bindR (field ?ob ''as_of'') date_of = Inr (as_of p)" "bindR (field ?ob ''maturity_date'') date_of = Inr (pp_maturity p)"
    "text_field_or ?ob ''evidence_mode'' (py ''PROSPECTIVE'') = Inr (py ''PROSPECTIVE'')" "text_field_or ?ob ''prediction_id'' [] = Inr (pp_id p)"
    "bool_field_or ?ob ''probability_calibrated'' False = Inr (probability_calibrated p)"
    by (simp_all add: prediction_to_dict_def identity_payload_def bool_field_or_def bool_of_def field_def time_of_def date_of_def text_field_or_def text_of_def)
  have up: "py_upper (py_strip (py ''PROSPECTIVE'')) = py ''PROSPECTIVE''" by code_simp
  have ok: "named (pp_id p)" "stripped_field (pp_model_id p) f = Inr (pp_model_id p)" "stripped_field (pp_model_version p) f = Inr (pp_model_version p)"
    "stripped_field (pp_config_hash p) f = Inr (pp_config_hash p)" "stripped_field (pp_snapshot_hash p) f = Inr (pp_snapshot_hash p)"
    "stripped_field (pp_name p) f = Inr (pp_name p)" "normalize_symbol (pp_symbol p) = Inr (pp_symbol p)"
    "as_of p \<le> utc_date (prediction_at p)" "utc_date (prediction_at p) < pp_maturity p" "pp_horizon p \<in> {5, 10, 20}"
    "digest_field (input_digest p) f = Inr (input_digest p)" "digest_field (calendar_digest p) f = Inr (calendar_digest p)"
    "digest_field (bundle_digest p) f = Inr (bundle_digest p)" "cycle_field (cycle_key p) = Inr (cycle_key p)" "source_field (source_path p) = Inr (source_path p)"
    "freeze_bands (map (\<lambda>(n, l, u). (n, Bounds (Num l) (Num u))) (price_bands p)) = Inr (price_bands p)" for f
    using assms unfolding prediction_ok_def by (blast intro: stripped_field_id digest_field_id normalize_symbol_fixed freeze_bands_fixed)+
  have pr: "probability_field (probability_calibrated p) (map_option Num (probability p)) = Inr (probability p)"
    using assms by (auto simp: probability_field_def prediction_ok_def finite_float_def split: option.splits)
  have id: "py_strip (pp_id p) = pp_id p" "pp_id p \<noteq> []" using ok(1) by (simp_all add: named_def)
  define A where "A = \<lparr>pa_model_id = pp_model_id p, pa_model_version = pp_model_version p, pa_config_hash = pp_config_hash p, pa_snapshot_hash = pp_snapshot_hash p,
       pa_symbol = pp_symbol p, pa_name = pp_name p, pa_prediction_at = utc_datetime (prediction_at p), pa_as_of = as_of p, pa_horizon = pp_horizon p,
       pa_score = Num (score p), pa_probability = map_option Num (probability p), pa_bands = map (\<lambda>(n, l, u). (n, Bounds (Num l) (Num u))) (price_bands p),
       pa_evidence_mode = py ''PROSPECTIVE'', pa_maturity = Some (pp_maturity p), pa_prediction_id = pp_id p, pa_input_digest = input_digest p,
       pa_calendar_digest = calendar_digest p, pa_cycle_key = cycle_key p, pa_bundle_digest = bundle_digest p,
       pa_calibrated = probability_calibrated p, pa_source_path = source_path p\<rparr>"
  have "prediction_names A = Inr (pp_model_id p, pp_model_version p, pp_config_hash p, pp_snapshot_hash p, pp_name p, pp_symbol p)"
    by (simp add: prediction_names_def A_def ok)
  moreover have "prediction_numbers A = Inr (prediction_at p, score p, probability p, price_bands p)"
    using ok(8,10) by (simp add: prediction_numbers_def A_def ok(16) pr up finite_float_def not_less)
  moreover have "prediction_maturity A (prediction_at p) = Inr (pp_maturity p)" using ok(8,9) by (simp add: prediction_maturity_def A_def)
  moreover have "prediction_provenance A = Inr (input_digest p, calendar_digest p, bundle_digest p, cycle_key p, source_path p)"
    by (simp add: prediction_provenance_def A_def ok)
  ultimately have "make_prediction dg A = Inr (p\<lparr>maturity_explicit := True\<rparr>)"
    using id by (simp add: make_prediction_def) (simp add: A_def)
  then show ?thesis using keys by (simp add: prediction_from_dict_def n u v r A_def)
qed

end
