(* ===== verification/Prospective_Outcomes.thy ===== *)
theory Prospective_Outcomes
  imports Prospective_Contracts
begin

text \<open>
  \<^verbatim>\<open>OutcomeObservation\<close> of \<^verbatim>\<open>research/prospective_competition.py\<close>: a possible future result of a prediction, its identifier and
  its JSON form.  An identifier is \<^verbatim>\<open>outcome-\<close> followed by the first half of the digest of the JSON form.
\<close>

section \<open>Construction\<close>

record outcome_args =
  oa_prediction_id :: pystr
  oa_symbol :: pystr
  oa_maturity :: date
  oa_outcome_at :: datetime
  oa_price :: "pyfloat option"
  oa_return :: "pyfloat option"
  oa_data_version :: pystr
  oa_data_sha256 :: pystr
  oa_status :: pystr
  oa_fresh :: bool
  oa_complete :: bool
  oa_aligned :: bool
  oa_action_ok :: bool

record outcome_obs =
  oo_prediction_id :: pystr
  oo_symbol :: pystr
  oo_maturity :: date
  oo_outcome_at :: utc
  oo_price :: "rat option"
  oo_return :: "rat option"
  oo_data_version :: pystr
  oo_data_sha256 :: pystr
  oo_status :: pystr
  oo_fresh :: bool
  oo_complete :: bool
  oo_aligned :: bool
  oo_action_ok :: bool

definition outcome_statuses :: "pystr list" where
  "outcome_statuses = [py ''OK'', py ''MISSING'', py ''SUSPENDED'', py ''STALE'', py ''CONFLICT'']"

definition required_digest :: "pystr \<Rightarrow> pystr result" where
  "required_digest s = (let v = py_lower (py_strip s) in
     if length v \<noteq> 64 \<or> \<not> is_hex v then Inl (ValueError ''data_sha256 must be a SHA-256 hex digest'') else Inr v)"

definition status_field :: "pystr \<Rightarrow> pystr result" where
  "status_field s = (let v = py_upper (py_strip s) in
     if v \<in> set outcome_statuses then Inr v else Inl (ValueError ''status is invalid''))"

definition realized_price_field :: "pyfloat option \<Rightarrow> rat option result" where
  "realized_price_field v = (case v of None \<Rightarrow> Inr None
     | Some x \<Rightarrow> bindR (finite_float x ''realized_price'') (\<lambda>p. if p \<le> 0 then Inl (ValueError ''realized_price must be positive'') else Inr (Some p)))"

definition realized_return_field :: "pyfloat option \<Rightarrow> rat option result" where
  "realized_return_field v = (case v of None \<Rightarrow> Inr None | Some x \<Rightarrow> bindR (finite_float x ''realized_return'') (\<lambda>r. Inr (Some r)))"

definition make_outcome_obs :: "outcome_args \<Rightarrow> outcome_obs result" where
  "make_outcome_obs a =
     bindR (stripped_field (oa_prediction_id a) ''prediction_id'') (\<lambda>i.
     bindR (normalize_symbol (oa_symbol a)) (\<lambda>s.
     bindR (as_utc (oa_outcome_at a) ''outcome_at'') (\<lambda>t.
     bindR (stripped_field (oa_data_version a) ''data_version'') (\<lambda>v.
     bindR (required_digest (oa_data_sha256 a)) (\<lambda>h.
     bindR (status_field (oa_status a)) (\<lambda>st.
     bindR (realized_price_field (oa_price a)) (\<lambda>p.
     bindR (realized_return_field (oa_return a)) (\<lambda>r.
     Inr \<lparr>oo_prediction_id = i, oo_symbol = s, oo_maturity = oa_maturity a, oo_outcome_at = t, oo_price = p, oo_return = r,
        oo_data_version = v, oo_data_sha256 = h, oo_status = st, oo_fresh = oa_fresh a, oo_complete = oa_complete a,
        oo_aligned = oa_aligned a, oo_action_ok = oa_action_ok a\<rparr>))))))))"

section \<open>JSON\<close>

definition outcome_obs_to_dict :: "outcome_obs \<Rightarrow> (string \<times> json) list" where
  "outcome_obs_to_dict v =
     [(''complete'', JBool (oo_complete v)), (''corporate_action_ok'', JBool (oo_action_ok v)), (''data_sha256'', JStr (oo_data_sha256 v)),
      (''data_version'', JStr (oo_data_version v)), (''fresh'', JBool (oo_fresh v)), (''maturity_date'', JDate (oo_maturity v)),
      (''outcome_at'', JTime (utc_datetime (oo_outcome_at v))), (''prediction_id'', JStr (oo_prediction_id v)),
      (''realized_price'', json_rat (oo_price v)), (''realized_return'', json_rat (oo_return v)),
      (''session_aligned'', JBool (oo_aligned v)), (''status'', JStr (oo_status v)), (''symbol'', JStr (oo_symbol v))]"

definition outcome_obs_id :: "(json \<Rightarrow> pystr) \<Rightarrow> outcome_obs \<Rightarrow> pystr" where
  "outcome_obs_id dg v = py ''outcome-'' @ take 32 (dg (JObj (outcome_obs_to_dict v)))"

definition outcome_obs_fields :: "string list" where
  "outcome_obs_fields = [''complete'', ''corporate_action_ok'', ''data_sha256'', ''data_version'', ''fresh'', ''maturity_date'', ''outcome_at'',
     ''prediction_id'', ''realized_price'', ''realized_return'', ''session_aligned'', ''status'', ''symbol'']"

definition outcome_obs_from_dict :: "(string \<times> json) list \<Rightarrow> outcome_obs result" where
  "outcome_obs_from_dict ob =
     bindR (bindR (field ob ''maturity_date'') date_of) (\<lambda>md.
     bindR (bindR (field ob ''outcome_at'') time_of) (\<lambda>t.
     if \<not> set (map fst ob) \<subseteq> set outcome_obs_fields then Inl (TypeError ''unexpected keyword argument'')
     else bindR (bindR (argument ob ''prediction_id'') text_of) (\<lambda>i.
     bindR (bindR (argument ob ''symbol'') text_of) (\<lambda>s.
     bindR (bindR (argument ob ''realized_price'') (\<lambda>v. float_option_of v ''realized_price'')) (\<lambda>p.
     bindR (bindR (argument ob ''realized_return'') (\<lambda>v. float_option_of v ''realized_return'')) (\<lambda>r.
     bindR (bindR (argument ob ''data_version'') text_of) (\<lambda>dv.
     bindR (bindR (argument ob ''data_sha256'') text_of) (\<lambda>h.
     bindR (text_field_or ob ''status'' (py ''OK'')) (\<lambda>st.
     bindR (bool_field_or ob ''fresh'' True) (\<lambda>f.
     bindR (bool_field_or ob ''complete'' True) (\<lambda>c.
     bindR (bool_field_or ob ''session_aligned'' True) (\<lambda>al.
     bindR (bool_field_or ob ''corporate_action_ok'' True) (\<lambda>ca.
     make_outcome_obs \<lparr>oa_prediction_id = i, oa_symbol = s, oa_maturity = md, oa_outcome_at = t, oa_price = p, oa_return = r,
       oa_data_version = dv, oa_data_sha256 = h, oa_status = st, oa_fresh = f, oa_complete = c, oa_aligned = al, oa_action_ok = ca\<rparr>)))))))))))))"

section \<open>Constructed outcomes\<close>

definition outcome_obs_ok :: "outcome_obs \<Rightarrow> bool" where
  "outcome_obs_ok v \<longleftrightarrow> named (oo_prediction_id v) \<and> six_digits (oo_symbol v) \<and> named (oo_data_version v)
     \<and> length (oo_data_sha256 v) = 64 \<and> is_hex (oo_data_sha256 v) \<and> oo_status v \<in> set outcome_statuses
     \<and> (case oo_price v of None \<Rightarrow> True | Some p \<Rightarrow> 0 < p)"

lemma status_fixed: "s \<in> set outcome_statuses \<Longrightarrow> status_field s = Inr s"
proof -
  have "list_all (\<lambda>s. status_field s = Inr s) outcome_statuses" by code_simp
  then show "s \<in> set outcome_statuses \<Longrightarrow> status_field s = Inr s" by (simp add: list_all_iff)
qed

lemma make_outcome_obs_ok: "make_outcome_obs a = Inr v \<Longrightarrow> outcome_obs_ok v"
  by (auto simp: make_outcome_obs_def bindR_Inr_iff outcome_obs_ok_def required_digest_def status_field_def realized_price_field_def Let_def
      dest: stripped_field_named normalize_symbol_six split: if_splits option.splits)

lemma outcome_obs_from_to:
  assumes "outcome_obs_ok v"
  shows "outcome_obs_from_dict (outcome_obs_to_dict v) = Inr v"
proof -
  let ?ob = "outcome_obs_to_dict v"
  have keys: "map fst ?ob = outcome_obs_fields" by (simp add: outcome_obs_to_dict_def outcome_obs_fields_def)
  have opt: "float_option_of (json_rat x) f = Inr (map_option Num x)" for x f
    by (cases x) (simp_all add: float_option_of_def json_rat_def float_of_def)
  have req: "bindR (field ?ob ''maturity_date'') date_of = Inr (oo_maturity v)" "bindR (field ?ob ''outcome_at'') time_of = Inr (utc_datetime (oo_outcome_at v))"
    "bindR (argument ?ob ''prediction_id'') text_of = Inr (oo_prediction_id v)" "bindR (argument ?ob ''symbol'') text_of = Inr (oo_symbol v)"
    "bindR (argument ?ob ''realized_price'') (\<lambda>v. float_option_of v ''realized_price'') = Inr (map_option Num (oo_price v))"
    "bindR (argument ?ob ''realized_return'') (\<lambda>v. float_option_of v ''realized_return'') = Inr (map_option Num (oo_return v))"
    "bindR (argument ?ob ''data_version'') text_of = Inr (oo_data_version v)" "bindR (argument ?ob ''data_sha256'') text_of = Inr (oo_data_sha256 v)"
    by (simp_all add: outcome_obs_to_dict_def field_def argument_def date_of_def time_of_def text_of_def opt)
  have dflt: "text_field_or ?ob ''status'' (py ''OK'') = Inr (oo_status v)" "bool_field_or ?ob ''fresh'' True = Inr (oo_fresh v)"
    "bool_field_or ?ob ''complete'' True = Inr (oo_complete v)" "bool_field_or ?ob ''session_aligned'' True = Inr (oo_aligned v)"
    "bool_field_or ?ob ''corporate_action_ok'' True = Inr (oo_action_ok v)"
    by (simp_all add: outcome_obs_to_dict_def text_field_or_def text_of_def bool_field_or_def bool_of_def)
  have price: "realized_price_field (map_option Num (oo_price v)) = Inr (oo_price v)"
    using assms by (auto simp: outcome_obs_ok_def realized_price_field_def finite_float_def split: option.splits)
  have ret: "realized_return_field (map_option Num (oo_return v)) = Inr (oo_return v)" by (auto simp: realized_return_field_def finite_float_def split: option.splits)
  have ok: "named (oo_prediction_id v)" "named (oo_data_version v)" "normalize_symbol (oo_symbol v) = Inr (oo_symbol v)"
    "required_digest (oo_data_sha256 v) = Inr (oo_data_sha256 v)" "status_field (oo_status v) = Inr (oo_status v)"
    using assms by (simp_all add: outcome_obs_ok_def required_digest_def hex_strip hex_lower status_fixed normalize_symbol_fixed)
  show ?thesis using keys by (simp add: outcome_obs_from_dict_def req dflt make_outcome_obs_def price ret ok stripped_field_id)
qed

end
