(* ===== verification/Prospective_Store.thy ===== *)
theory Prospective_Store
  imports Prospective_Outcomes
begin

text \<open>
  \<^verbatim>\<open>storage/prospective_ledger_store.py\<close>: the append-only JSONL file of the predictions, their settlements and the delayed
  quality decisions.

  The file is the list of its complete lines and, where the last write did not get as far as its newline, an unterminated
  line.  A line is empty, or the object that \<^verbatim>\<open>json.loads\<close> makes of it (its pairs in the order of the keys), or anything
  else.  Every operation takes the lock of the file and loads it afresh, so that it is a function of the file alone; it
  gives back the dictionaries the store then holds, the file and the result.  What the file system does in the course of
  an operation is an argument.  The paths, the lock and its timeout are not modelled.
\<close>

section \<open>The file\<close>

datatype ledger_line = EmptyLine | BadLine | RecordLine "(string \<times> json) list"

record pfile =
  pf_rows :: "ledger_line list"
  pf_tail :: "ledger_line option"

definition no_file :: pfile where
  "no_file = \<lparr>pf_rows = [], pf_tail = None\<rparr>"

text \<open>How much of a line, its newline included, \<^verbatim>\<open>os.write\<close> gets onto the disk.\<close>

datatype amount = Nothing | Part | NoNewline | Whole

text \<open>A line written behind an unterminated one is on the same line as that one.\<close>

definition joined :: "ledger_line option \<Rightarrow> ledger_line \<Rightarrow> ledger_line" where
  "joined t x = (case t of None \<Rightarrow> x | Some _ \<Rightarrow> BadLine)"

fun put_line :: "amount \<Rightarrow> ledger_line \<Rightarrow> pfile \<Rightarrow> pfile" where
  "put_line Nothing x f = f"
| "put_line Part x f = f\<lparr>pf_tail := Some BadLine\<rparr>"
| "put_line NoNewline x f = f\<lparr>pf_tail := Some (joined (pf_tail f) x)\<rparr>"
| "put_line Whole x f = \<lparr>pf_rows = pf_rows f @ [joined (pf_tail f) x], pf_tail = None\<rparr>"

record ledger_disk =
  read_works :: bool
  cut_works :: bool
  write_amount :: amount
  sync_works :: bool

section \<open>The ledger\<close>

record pledger =
  predictions :: "(pystr \<times> prospective) list"
  settlements :: "(pystr \<times> outcome_obs) list"
  waiting :: "(pystr \<times> outcome_obs \<times> pystr) list"

definition empty_ledger :: pledger where
  "empty_ledger = \<lparr>predictions = [], settlements = [], waiting = []\<rparr>"

definition without :: "string \<Rightarrow> (string \<times> json) list \<Rightarrow> (string \<times> json) list" where
  "without k ob = filter (\<lambda>(k', v). k' \<noteq> k) ob"

definition key_order :: "(string \<times> json) list \<Rightarrow> (string \<times> json) list" where
  "key_order ob = sort_key (\<lambda>kv. py (fst kv)) ob"

definition reason_value :: "pystr \<Rightarrow> pystr" where
  "reason_value s = py_upper (py_strip s)"

definition pending_key :: "(json \<Rightarrow> pystr) \<Rightarrow> outcome_obs \<Rightarrow> pystr \<Rightarrow> pystr" where
  "pending_key dg v r = outcome_obs_id dg v @ py '':'' @ r"

text \<open>The pending entries that the settlement of an outcome removes.\<close>

definition drop_pending :: "(json \<Rightarrow> pystr) \<Rightarrow> outcome_obs \<Rightarrow> (pystr \<times> outcome_obs \<times> pystr) list \<Rightarrow> (pystr \<times> outcome_obs \<times> pystr) list" where
  "drop_pending dg v w = filter (\<lambda>(k, u, r). \<not> (py_startswith k [outcome_obs_id dg v @ py '':''] \<or> oo_prediction_id u = oo_prediction_id v)) w"

definition mature_quality :: "outcome_obs \<Rightarrow> bool" where
  "mature_quality v \<longleftrightarrow> oo_status v = py ''OK'' \<and> oo_fresh v \<and> oo_complete v \<and> oo_aligned v \<and> oo_action_ok v
     \<and> oo_price v \<noteq> None \<and> oo_return v \<noteq> None"

fun is_integrity_error :: "pyerror \<Rightarrow> bool" where
  "is_integrity_error (LedgerIntegrityError _) = True"
| "is_integrity_error _ = False"

definition settlement_quality :: "outcome_obs \<Rightarrow> unit result" where
  "settlement_quality v = (if mature_quality v then Inr () else Inl (ValueError ''only complete OK outcomes can be settlements''))"

section \<open>Loading\<close>

definition restore_prediction :: "(json \<Rightarrow> pystr) \<Rightarrow> (string \<times> json) list \<Rightarrow> pledger \<Rightarrow> pledger result" where
  "restore_prediction dg ob L =
     bindR (prediction_from_dict dg ob) (\<lambda>p.
     case dict_get (predictions L) (pp_id p) of
       Some q \<Rightarrow> if same_prediction q p then Inr (L\<lparr>predictions := dict_set (predictions L) (pp_id p) p\<rparr>) else Inl (LedgerIntegrityError ''duplicate prediction record differs'')
     | None \<Rightarrow> Inr (L\<lparr>predictions := dict_set (predictions L) (pp_id p) p\<rparr>))"

definition restore_settlement :: "outcome_obs \<Rightarrow> pledger \<Rightarrow> pledger result" where
  "restore_settlement v L =
     (if utc_date (oo_outcome_at v) < oo_maturity v then Inl (LedgerIntegrityError ''settlement record is before maturity'')
      else bindR (settlement_quality v) (\<lambda>_.
      case dict_get (settlements L) (oo_prediction_id v) of
        Some u \<Rightarrow> if u = v then Inr (L\<lparr>settlements := dict_set (settlements L) (oo_prediction_id v) v\<rparr>) else Inl (LedgerIntegrityError ''duplicate settlement record differs'')
      | None \<Rightarrow> Inr (L\<lparr>settlements := dict_set (settlements L) (oo_prediction_id v) v\<rparr>)))"

definition restore_outcome :: "(json \<Rightarrow> pystr) \<Rightarrow> bool \<Rightarrow> (string \<times> json) list \<Rightarrow> pledger \<Rightarrow> pledger result" where
  "restore_outcome dg settled ob L =
     bindR (text_field_or ob ''delay_reason'' []) (\<lambda>s.
     let reason = reason_value s in
     bindR (outcome_obs_from_dict (without ''delay_reason'' ob)) (\<lambda>v.
     case dict_get (predictions L) (oo_prediction_id v) of
       None \<Rightarrow> Inl (LedgerIntegrityError ''outcome record refers to an unknown prediction'')
     | Some p \<Rightarrow>
         if pp_symbol p \<noteq> oo_symbol v \<or> pp_maturity p \<noteq> oo_maturity v then Inl (LedgerIntegrityError ''outcome record does not match its prediction'')
         else if settled then restore_settlement v L
         else if reason \<noteq> [] then Inr (L\<lparr>waiting := dict_set (waiting L) (pending_key dg v reason) (v, reason)\<rparr>)
         else Inr L))"

definition restore_record :: "(json \<Rightarrow> pystr) \<Rightarrow> (string \<times> json) list \<Rightarrow> pledger \<Rightarrow> pledger result" where
  "restore_record dg rec L =
     (let ob = without ''format_version'' rec; rest = without ''kind'' ob; kind = dict_get ob ''kind'' in
      if kind = Some (JStr (py ''prediction'')) then restore_prediction dg rest L
      else if kind = Some (JStr (py ''settlement'')) then restore_outcome dg True rest L
      else if kind = Some (JStr (py ''pending'')) then restore_outcome dg False rest L
      else Inl (LedgerIntegrityError ''unknown record kind''))"

text \<open>In Python the numbers \<^verbatim>\<open>1.0\<close> and \<^verbatim>\<open>True\<close> are equal to \<^verbatim>\<open>1\<close>.\<close>

definition restore_line :: "(json \<Rightarrow> pystr) \<Rightarrow> ledger_line \<Rightarrow> pledger \<Rightarrow> pledger result" where
  "restore_line dg x L = (case x of
       EmptyLine \<Rightarrow> Inr L
     | BadLine \<Rightarrow> Inl (ValueError ''not a record'')
     | RecordLine ob \<Rightarrow>
         let body = without ''record_sha256'' ob in
         (case dict_get ob ''record_sha256'' of
            Some (JStr h) \<Rightarrow>
              if length h \<noteq> 64 then Inl (ValueError ''record_sha256'')
              else if h \<noteq> dg (JObj body) then Inl (ValueError ''record_sha256'')
              else if dict_get body ''format_version'' \<notin> {Some (JInt 1), Some (JFloat 1), Some (JBool True)} then Inl (ValueError ''format_version'')
              else restore_record dg body L
          | _ \<Rightarrow> Inl (ValueError ''record_sha256'')))"

text \<open>The loop over the complete lines: the dictionaries when it stops, and the error it stops at.\<close>

fun restore_lines :: "(json \<Rightarrow> pystr) \<Rightarrow> ledger_line list \<Rightarrow> pledger \<Rightarrow> pledger \<times> pyerror option" where
  "restore_lines dg [] L = (L, None)"
| "restore_lines dg (x # xs) L = (case restore_line dg x L of Inl e \<Rightarrow> (L, Some e) | Inr L' \<Rightarrow> restore_lines dg xs L')"

text \<open>A \<^verbatim>\<open>LedgerIntegrityError\<close> passes through the handler of the loop, any other error of a line becomes one.\<close>

definition load_error :: "pyerror \<Rightarrow> pyerror" where
  "load_error e = (if is_integrity_error e then e else LedgerIntegrityError ''ledger integrity check failed'')"

definition drop_settled :: "(json \<Rightarrow> pystr) \<Rightarrow> pledger \<Rightarrow> pledger" where
  "drop_settled dg L = L\<lparr>waiting := foldl (\<lambda>w (k, v). drop_pending dg v w) (waiting L) (settlements L)\<rparr>"

text \<open>\<^verbatim>\<open>_load\<close>, which cuts off an unterminated line that is not a record where the store is asked to recover.\<close>

definition pload :: "(json \<Rightarrow> pystr) \<Rightarrow> bool \<Rightarrow> ledger_disk \<Rightarrow> pfile \<Rightarrow> pledger \<times> pfile \<times> unit result" where
  "pload dg recover io f =
     (if \<not> read_works io then (empty_ledger, f, Inl (LedgerIntegrityError ''ledger is not readable''))
      else case restore_lines dg (pf_rows f) empty_ledger of
        (L, Some e) \<Rightarrow> (L, f, Inl (load_error e))
      | (L, None) \<Rightarrow> (case pf_tail f of
            None \<Rightarrow> (drop_settled dg L, f, Inr ())
          | Some x \<Rightarrow> (case restore_line dg x L of
                Inr L' \<Rightarrow> (drop_settled dg L', f, Inr ())
              | Inl e \<Rightarrow>
                  if is_integrity_error e \<or> \<not> recover then (L, f, Inl (load_error e))
                  else if \<not> cut_works io then (L, f, Inl (LedgerIntegrityError ''ledger tail recovery failed''))
                  else (drop_settled dg L, f\<lparr>pf_tail := None\<rparr>, Inr ()))))"

section \<open>Appending\<close>

definition signed_record :: "(json \<Rightarrow> pystr) \<Rightarrow> (string \<times> json) list \<Rightarrow> (string \<times> json) list" where
  "signed_record dg rec =
     (let ob = key_order ((''format_version'', JInt 1) # rec)
      in key_order (ob @ [(''record_sha256'', JStr (dg (JObj ob)))]))"

definition append_record :: "(json \<Rightarrow> pystr) \<Rightarrow> ledger_disk \<Rightarrow> (string \<times> json) list \<Rightarrow> pfile \<Rightarrow> pfile \<times> unit result" where
  "append_record dg io rec f =
     (put_line (write_amount io) (RecordLine (signed_record dg rec)) f,
      if write_amount io = Whole \<and> sync_works io then Inr () else Inl (LedgerIntegrityError ''ledger append failed''))"

type_synonym 'a outcome_of = "pledger \<times> pfile \<times> 'a result"

text \<open>\<^verbatim>\<open>_locked_append\<close>: the body runs on what was loaded.\<close>

definition locked_append :: "(json \<Rightarrow> pystr) \<Rightarrow> bool \<Rightarrow> ledger_disk \<Rightarrow> pfile \<Rightarrow> (pledger \<Rightarrow> pfile \<Rightarrow> 'a outcome_of) \<Rightarrow> 'a outcome_of" where
  "locked_append dg recover io f body = (case pload dg recover io f of
       (L, f1, Inl e) \<Rightarrow> (L, f1, Inl e)
     | (L, f1, Inr _) \<Rightarrow> body L f1)"

definition append_prospective :: "(json \<Rightarrow> pystr) \<Rightarrow> bool \<Rightarrow> ledger_disk \<Rightarrow> prospective \<Rightarrow> pfile \<Rightarrow> prospective outcome_of" where
  "append_prospective dg recover io p f = locked_append dg recover io f (\<lambda>L f1.
     case dict_get (predictions L) (pp_id p) of
       Some q \<Rightarrow> (L, f1, if same_prediction q p then Inr q else Inl (ValueError ''prediction id already exists with different details''))
     | None \<Rightarrow> (case append_record dg io ((''kind'', JStr (py ''prediction'')) # prediction_to_dict p) f1 of
           (f2, Inl e) \<Rightarrow> (L, f2, Inl e)
         | (f2, Inr _) \<Rightarrow> (L\<lparr>predictions := dict_set (predictions L) (pp_id p) p\<rparr>, f2, Inr p)))"

definition validate_outcome :: "pledger \<Rightarrow> outcome_obs \<Rightarrow> unit result" where
  "validate_outcome L v = (case dict_get (predictions L) (oo_prediction_id v) of
       None \<Rightarrow> Inl KeyError
     | Some p \<Rightarrow>
         if pp_symbol p \<noteq> oo_symbol v then Inl (ValueError ''outcome symbol does not match prediction'')
         else if pp_maturity p \<noteq> oo_maturity v then Inl (ValueError ''outcome maturity date does not match prediction'')
         else Inr ())"

definition settlement_checks :: "pledger \<Rightarrow> outcome_obs \<Rightarrow> unit result" where
  "settlement_checks L v =
     bindR (validate_outcome L v) (\<lambda>_.
     if utc_date (oo_outcome_at v) < oo_maturity v then Inl (ValueError ''settlement outcome is before maturity'')
     else settlement_quality v)"

definition append_settlement :: "(json \<Rightarrow> pystr) \<Rightarrow> bool \<Rightarrow> ledger_disk \<Rightarrow> outcome_obs \<Rightarrow> pfile \<Rightarrow> outcome_obs outcome_of" where
  "append_settlement dg recover io v f = locked_append dg recover io f (\<lambda>L f1.
     case settlement_checks L v of Inl e \<Rightarrow> (L, f1, Inl e) | Inr _ \<Rightarrow>
     case dict_get (settlements L) (oo_prediction_id v) of
       Some u \<Rightarrow> (L, f1, if u = v then Inr u else Inl (ValueError ''prediction already has a different settlement''))
     | None \<Rightarrow> (case append_record dg io ((''kind'', JStr (py ''settlement'')) # outcome_obs_to_dict v) f1 of
           (f2, Inl e) \<Rightarrow> (L, f2, Inl e)
         | (f2, Inr _) \<Rightarrow> (L\<lparr>settlements := dict_set (settlements L) (oo_prediction_id v) v, waiting := drop_pending dg v (waiting L)\<rparr>, f2, Inr v)))"

definition pending_body :: "(json \<Rightarrow> pystr) \<Rightarrow> ledger_disk \<Rightarrow> outcome_obs \<Rightarrow> pystr \<Rightarrow> pledger \<Rightarrow> pfile \<Rightarrow> unit outcome_of" where
  "pending_body dg io v r L f = (case validate_outcome L v of Inl e \<Rightarrow> (L, f, Inl e) | Inr _ \<Rightarrow>
     if dict_get (settlements L) (oo_prediction_id v) \<noteq> None then (L, f, Inl (ValueError ''prediction already has a settlement''))
     else let k = pending_key dg v r; L' = L\<lparr>waiting := dict_set (waiting L) k (v, r)\<rparr> in
       if dict_get (waiting L) k \<noteq> None then (L', f, Inr ())
       else (case append_record dg io ((''delay_reason'', JStr r) # (''kind'', JStr (py ''pending'')) # outcome_obs_to_dict v) f of
           (f', Inl e) \<Rightarrow> (L, f', Inl e)
         | (f', Inr _) \<Rightarrow> (L', f', Inr ())))"

definition append_pending :: "(json \<Rightarrow> pystr) \<Rightarrow> bool \<Rightarrow> ledger_disk \<Rightarrow> outcome_obs \<Rightarrow> pystr \<Rightarrow> pledger \<Rightarrow> pfile \<Rightarrow> unit outcome_of" where
  "append_pending dg recover io v reason L f =
     (if reason_value reason = [] then (L, f, Inl (ValueError ''pending reason is required''))
      else locked_append dg recover io f (pending_body dg io v (reason_value reason)))"

definition read_prediction :: "pledger \<Rightarrow> pystr \<Rightarrow> prospective result" where
  "read_prediction L i = (case dict_get (predictions L) i of None \<Rightarrow> Inl KeyError | Some p \<Rightarrow> Inr p)"

end
