(* ===== verification/Prospective_Competition.thy ===== *)
theory Prospective_Competition
  imports Prospective_Store
begin

text \<open>
  \<^verbatim>\<open>ProspectiveContest\<close> and \<^verbatim>\<open>ProspectiveCompetition\<close> of \<^verbatim>\<open>research/prospective_competition.py\<close>: the registration that is frozen
  when a contest starts, the counters of its future sessions and matured predictions with the status they give, and the
  admission and the settlement of predictions.  A contest keeps what it had before the line that raises, so an operation
  gives back the contest and a result.
\<close>

section \<open>The contest\<close>

record metrics =
  directional_hit_rate :: "pyfloat option"
  brier :: "pyfloat option"
  ece :: "pyfloat option"
  rank_ic :: "pyfloat option"
  net_cost_return :: "pyfloat option"
  max_drawdown :: "pyfloat option"
  turnover :: "pyfloat option"
  coverage :: "pyfloat option"
  rejection_rate :: "pyfloat option"
  regime_stability :: "pyfloat option"

datatype contest_status = NOT_STARTED | PROSPECTIVE_COLLECTING | PROVISIONAL_UNMATURED_OBSERVATION | AWAITING_MANUAL_APPROVAL

record registration =
  rg_model_id :: pystr
  rg_model_version :: pystr
  rg_config_hash :: pystr
  rg_snapshot_hash :: pystr
  rg_bundle_digest :: "pystr option"
  rg_primary_metric :: pystr
  rg_tie_break :: "pystr list"

record contest =
  ct_now :: utc
  ct_started_at :: "utc option"
  ct_registration :: "registration option"
  future_sessions :: int
  matured :: int
  gates_pass :: bool
  ct_status :: contest_status
  ct_metrics :: "metrics option"

text \<open>The arguments that default to the thresholds are refused when they are anything else.\<close>

definition approval_sessions :: int where
  "approval_sessions = 60"

definition approval_predictions :: int where
  "approval_predictions = 200"

definition provisional_sessions :: int where
  "provisional_sessions = 20"

definition provisional_predictions :: int where
  "provisional_predictions = 100"

definition new_contest :: "datetime \<Rightarrow> int \<times> int \<times> int \<times> int \<Rightarrow> contest result" where
  "new_contest now thresholds =
     bindR (as_utc now ''now'') (\<lambda>t.
     if thresholds \<noteq> (20, 100, 60, 200) then Inl (ValueError ''contest thresholds are fixed at 20/100 and 60/200'')
     else Inr \<lparr>ct_now = t, ct_started_at = None, ct_registration = None, future_sessions = 0, matured = 0, gates_pass = False,
       ct_status = NOT_STARTED, ct_metrics = None\<rparr>)"

definition started :: "contest \<Rightarrow> bool" where
  "started c \<longleftrightarrow> ct_started_at c \<noteq> None"

record start_args =
  sa_model_id :: pystr
  sa_model_version :: pystr
  sa_config_hash :: pystr
  sa_snapshot_hash :: pystr
  sa_bundle_digest :: "pystr option"
  sa_primary_metric :: pystr
  sa_tie_break :: "pystr list"
  sa_started_at :: "datetime option"

definition registration_of :: "start_args \<Rightarrow> registration result" where
  "registration_of a =
     (let bundle = (case sa_bundle_digest a of None \<Rightarrow> None | Some b \<Rightarrow> if b = [] then None else Some (py_lower (py_strip b)));
          g = \<lparr>rg_model_id = py_strip (sa_model_id a), rg_model_version = py_strip (sa_model_version a), rg_config_hash = py_strip (sa_config_hash a),
            rg_snapshot_hash = py_strip (sa_snapshot_hash a), rg_bundle_digest = bundle, rg_primary_metric = py_strip (sa_primary_metric a),
            rg_tie_break = map py_strip (sa_tie_break a)\<rparr> in
      if [] \<in> {rg_model_id g, rg_model_version g, rg_config_hash g, rg_snapshot_hash g, rg_primary_metric g}
      then Inl (ValueError ''contest registration fields are required'')
      else if rg_tie_break g = [] \<or> [] \<in> set (rg_tie_break g) then Inl (ValueError ''tie_break must be non-empty'')
      else case rg_bundle_digest g of
          None \<Rightarrow> Inr g
        | Some b \<Rightarrow> if length b \<noteq> 64 \<or> \<not> is_hex b then Inl (ValueError ''model_bundle_digest must be a sha256 digest'') else Inr g)"

definition start_contest :: "start_args \<Rightarrow> contest \<Rightarrow> contest \<times> unit result" where
  "start_contest a c = (case registration_of a of Inl e \<Rightarrow> (c, Inl e) | Inr g \<Rightarrow>
     case (case sa_started_at a of None \<Rightarrow> Inr (ct_now c) | Some t \<Rightarrow> as_utc t ''contest_started_at'') of Inl e \<Rightarrow> (c, Inl e) | Inr t0 \<Rightarrow>
     if ct_now c < t0 then (c, Inl (FutureTimestampError ''contest start timestamp is in the future''))
     else if started c then (c, if ct_registration c = Some g then Inr () else Inl (FrozenContestError ''contest registration is frozen''))
     else (c\<lparr>ct_started_at := Some t0, ct_registration := Some g, ct_status := PROSPECTIVE_COLLECTING\<rparr>, Inr ()))"

definition register_version :: "pystr \<Rightarrow> pystr \<Rightarrow> pystr \<Rightarrow> pystr option \<Rightarrow> contest \<Rightarrow> contest \<times> unit result" where
  "register_version version config snapshot model c = (case ct_registration c of
       None \<Rightarrow> (c, Inl (FrozenContestError ''contest has not started''))
     | Some g \<Rightarrow>
         if [] \<in> {py_strip version, py_strip config, py_strip snapshot} then (c, Inl (ValueError ''contest version fields are required''))
         else let g1 = g\<lparr>rg_model_version := py_strip version, rg_config_hash := py_strip config, rg_snapshot_hash := py_strip snapshot\<rparr>;
                  fresh = (\<lambda>g'. c\<lparr>ct_registration := Some g', future_sessions := 0, matured := 0, gates_pass := False,
                     ct_status := PROSPECTIVE_COLLECTING, ct_metrics := None\<rparr>) in
           (case model of
              None \<Rightarrow> (fresh g1, Inr ())
            | Some m \<Rightarrow>
                if py_strip m = [] then (c\<lparr>ct_registration := Some g1\<rparr>, Inl (ValueError ''model_id is required''))
                else (fresh (g1\<lparr>rg_model_id := py_strip m\<rparr>), Inr ())))"

definition gate_value :: "pyfloat option \<Rightarrow> (rat \<Rightarrow> bool) \<Rightarrow> bool" where
  "gate_value v test = (case v of Some (Num x) \<Rightarrow> test x | _ \<Rightarrow> False)"

definition metrics_pass :: "metrics \<Rightarrow> bool" where
  "metrics_pass m \<longleftrightarrow> gate_value (net_cost_return m) (\<lambda>x. 0 < x) \<and> gate_value (max_drawdown m) (\<lambda>x. 0 \<le> x \<and> x \<le> 35 / 100)
     \<and> gate_value (coverage m) (\<lambda>x. 8 / 10 \<le> x)"

definition refresh_status :: "contest \<Rightarrow> contest" where
  "refresh_status c = c\<lparr>ct_status :=
     (if approval_sessions \<le> future_sessions c \<and> approval_predictions \<le> matured c \<and> gates_pass c then AWAITING_MANUAL_APPROVAL
      else if gates_pass c \<and> provisional_sessions \<le> future_sessions c \<and> provisional_predictions \<le> matured c then PROVISIONAL_UNMATURED_OBSERVATION
      else PROSPECTIVE_COLLECTING)\<rparr>"

definition record_observations :: "int \<Rightarrow> int \<Rightarrow> bool \<Rightarrow> int \<Rightarrow> metrics option \<Rightarrow> contest \<Rightarrow> contest \<times> unit result" where
  "record_observations sessions n claimed hist m c =
     (if \<not> started c then (c, Inl (FrozenContestError ''contest has not started''))
      else if min (min sessions n) hist < 0 then (c, Inl (ValueError ''observation counters cannot be negative''))
      else if sessions < future_sessions c \<or> n < matured c then (c, Inl (ValueError ''future observation counters cannot move backwards''))
      else let c1 = c\<lparr>future_sessions := sessions, matured := n\<rparr> in
        (case m of
           None \<Rightarrow> if claimed then (c1, Inl (ValueError ''metrics are required to derive contest gates''))
             else (refresh_status (c1\<lparr>gates_pass := False, ct_metrics := None\<rparr>), Inr ())
         | Some x \<Rightarrow> (refresh_status (c1\<lparr>gates_pass := metrics_pass x, ct_metrics := Some x\<rparr>), Inr ())))"

definition record_session :: "int \<Rightarrow> bool \<Rightarrow> metrics option \<Rightarrow> contest \<Rightarrow> contest \<times> unit result" where
  "record_session n claimed m c =
     (if \<not> started c then (c, Inl (FrozenContestError ''contest has not started''))
      else if n < 0 then (c, Inl (ValueError ''matured_predictions cannot be negative''))
      else record_observations (future_sessions c + 1) (matured c + n) claimed 0 m c)"

definition can_issue_approval :: "contest \<Rightarrow> bool" where
  "can_issue_approval c \<longleftrightarrow> ct_status c = AWAITING_MANUAL_APPROVAL"

text \<open>The changes that the contest always refuses.\<close>

datatype frozen_change = PrimaryMetric | TieBreak

definition change_frozen :: "frozen_change \<Rightarrow> contest \<Rightarrow> contest \<times> unit result" where
  "change_frozen x c = (c, Inl (FrozenContestError (case x of PrimaryMetric \<Rightarrow> ''primary_metric is frozen after contest start''
     | TieBreak \<Rightarrow> ''tie_break is frozen after contest start'')))"

definition remaining :: "contest \<Rightarrow> (string \<times> int) list" where
  "remaining c =
     [(''provisional_remaining_sessions'', max 0 (provisional_sessions - future_sessions c)),
      (''provisional_remaining_predictions'', max 0 (provisional_predictions - matured c)),
      (''approval_remaining_sessions'', max 0 (approval_sessions - future_sessions c)),
      (''approval_remaining_predictions'', max 0 (approval_predictions - matured c))]"

section \<open>The competition\<close>

record competition =
  cp_now :: utc
  cp_calendar :: "date list option"
  cp_contest :: "contest option"

definition calendar_check :: "date list \<Rightarrow> prospective \<Rightarrow> unit result" where
  "calendar_check days p =
     (if pp_maturity p \<notin> set days then Inl (ValueError ''maturity_date is not in the supplied session calendar'')
      else let future = sort (remdups (filter (\<lambda>d. as_of p < d) days)) in
        if int (length future) < pp_horizon p then Inl (ValueError ''session calendar is insufficient for horizon'')
        else if future ! nat (pp_horizon p - 1) \<noteq> pp_maturity p then Inl (ValueError ''maturity_date does not match calendar horizon'')
        else Inr ())"

definition same_model :: "registration \<Rightarrow> prospective \<Rightarrow> bool" where
  "same_model g p \<longleftrightarrow> pp_model_id p = rg_model_id g \<and> pp_model_version p = rg_model_version g \<and> pp_config_hash p = rg_config_hash g
     \<and> pp_snapshot_hash p = rg_snapshot_hash g \<and> (case rg_bundle_digest g of None \<Rightarrow> True | Some b \<Rightarrow> bundle_digest p = b)"

definition contest_check :: "contest \<Rightarrow> prospective \<Rightarrow> unit result" where
  "contest_check c p = (case (ct_started_at c, ct_registration c) of
       (Some t0, Some g) \<Rightarrow>
         if \<not> same_model g p then Inl (ValueError ''prediction does not match frozen contest'')
         else if prediction_at p < t0 then Inl (ValueError ''prediction_at precedes contest start'')
         else Inr ()
     | _ \<Rightarrow> Inl (FrozenContestError ''contest has not started''))"

definition admission :: "competition \<Rightarrow> prospective \<Rightarrow> unit result" where
  "admission k p =
     (if cp_calendar k = None \<and> maturity_explicit p then Inl (ValueError ''explicit maturity_date requires a session calendar'')
      else if cp_now k < prediction_at p then Inl (FutureTimestampError ''prediction timestamp is in the future'')
      else if pp_maturity p \<le> utc_date (cp_now k) then Inl (ValueError ''prediction maturity is past the competition cutoff'')
      else bindR (case cp_calendar k of None \<Rightarrow> Inr () | Some days \<Rightarrow> calendar_check days p) (\<lambda>_.
        case cp_contest k of None \<Rightarrow> Inr () | Some c \<Rightarrow> contest_check c p))"

definition submit :: "(json \<Rightarrow> pystr) \<Rightarrow> bool \<Rightarrow> ledger_disk \<Rightarrow> competition \<Rightarrow> prospective \<Rightarrow> pledger \<Rightarrow> pfile \<Rightarrow> prospective outcome_of" where
  "submit dg recover io k p L f = (case admission k p of Inl e \<Rightarrow> (L, f, Inl e) | Inr _ \<Rightarrow> append_prospective dg recover io p f)"

definition submit_fields :: "(json \<Rightarrow> pystr) \<Rightarrow> bool \<Rightarrow> ledger_disk \<Rightarrow> competition \<Rightarrow> prediction_args \<Rightarrow> pledger \<Rightarrow> pfile \<Rightarrow> prospective outcome_of" where
  "submit_fields dg recover io k a L f =
     (case bindR (as_utc (pa_prediction_at a) ''prediction_at'') (\<lambda>t.
          if cp_now k < t then Inl (FutureTimestampError ''prediction timestamp is in the future'') else make_prediction dg a) of
        Inl e \<Rightarrow> (L, f, Inl e) | Inr p \<Rightarrow> submit dg recover io k p L f)"

definition delay_reason :: "prospective \<Rightarrow> outcome_obs \<Rightarrow> pystr option" where
  "delay_reason p v =
     (if utc_date (oo_outcome_at v) < pp_maturity p then Some (py ''NOT_DUE'')
      else if oo_status v \<noteq> py ''OK'' then Some (oo_status v)
      else if \<not> oo_fresh v then Some (py ''STALE'')
      else if \<not> oo_complete v then Some (py ''INCOMPLETE'')
      else if \<not> oo_aligned v then Some (py ''SESSION_MISMATCH'')
      else if \<not> oo_action_ok v then Some (py ''CORPORATE_ACTION_CONFLICT'')
      else if oo_price v = None \<or> oo_return v = None then Some (py ''MISSING'')
      else None)"

record settlement_result =
  sr_prediction_id :: pystr
  sr_matured :: bool
  sr_outcome :: "outcome_obs option"
  sr_delay :: "pystr option"
  sr_idempotent :: bool

definition settle_due :: "(json \<Rightarrow> pystr) \<Rightarrow> bool \<Rightarrow> ledger_disk \<Rightarrow> competition \<Rightarrow> outcome_obs \<Rightarrow> pledger \<Rightarrow> pfile \<Rightarrow> settlement_result outcome_of" where
  "settle_due dg recover io k v L f =
     (if cp_now k < oo_outcome_at v then (L, f, Inl (FutureTimestampError ''outcome timestamp is in the future''))
      else case read_prediction L (oo_prediction_id v) of Inl e \<Rightarrow> (L, f, Inl e) | Inr p \<Rightarrow>
      if pp_symbol p \<noteq> oo_symbol v then (L, f, Inl (ValueError ''outcome symbol does not match prediction''))
      else case find (\<lambda>u. oo_prediction_id u = pp_id p) (map snd (settlements L)) of
        Some u \<Rightarrow> (L, f, if u = v then Inr \<lparr>sr_prediction_id = pp_id p, sr_matured = True, sr_outcome = Some u, sr_delay = None, sr_idempotent = True\<rparr>
          else Inl (ValueError ''prediction already has a different settlement''))
      | None \<Rightarrow>
        if oo_maturity v \<noteq> pp_maturity p then (L, f, Inl (ValueError ''outcome maturity date does not match prediction''))
        else (case delay_reason p v of
          Some r \<Rightarrow> (case append_pending dg recover io v r L f of
              (L1, f1, Inl e) \<Rightarrow> (L1, f1, Inl e)
            | (L1, f1, Inr _) \<Rightarrow> (L1, f1, Inr \<lparr>sr_prediction_id = pp_id p, sr_matured = False, sr_outcome = None, sr_delay = Some r, sr_idempotent = False\<rparr>))
        | None \<Rightarrow> (case append_settlement dg recover io v f of
              (L1, f1, Inl e) \<Rightarrow> (L1, f1, Inl e)
            | (L1, f1, Inr _) \<Rightarrow> (L1, f1, Inr \<lparr>sr_prediction_id = pp_id p, sr_matured = True, sr_outcome = Some v, sr_delay = None, sr_idempotent = False\<rparr>))))"

text \<open>\<^verbatim>\<open>settle\<close> of several outcomes stops at the first that raises; each settlement has what the disk does for it.\<close>

fun settle_all :: "(json \<Rightarrow> pystr) \<Rightarrow> bool \<Rightarrow> competition \<Rightarrow> (ledger_disk \<times> outcome_obs) list \<Rightarrow> pledger \<Rightarrow> pfile \<Rightarrow> settlement_result list outcome_of" where
  "settle_all dg recover k [] L f = (L, f, Inr [])"
| "settle_all dg recover k ((io, v) # vs) L f = (case settle_due dg recover io k v L f of
       (L1, f1, Inl e) \<Rightarrow> (L1, f1, Inl e)
     | (L1, f1, Inr r) \<Rightarrow> (case settle_all dg recover k vs L1 f1 of
           (L2, f2, Inl e) \<Rightarrow> (L2, f2, Inl e)
         | (L2, f2, Inr rs) \<Rightarrow> (L2, f2, Inr (r # rs))))"

definition contest_predictions :: "competition \<Rightarrow> pledger \<Rightarrow> prospective list" where
  "contest_predictions k L = (case cp_contest k of
       None \<Rightarrow> map snd (predictions L)
     | Some c \<Rightarrow> (case ct_registration c of None \<Rightarrow> [] | Some g \<Rightarrow> filter (same_model g) (map snd (predictions L))))"

definition matured_predictions :: "competition \<Rightarrow> pledger \<Rightarrow> nat" where
  "matured_predictions k L = (case cp_contest k of
       None \<Rightarrow> length (settlements L)
     | Some _ \<Rightarrow> length (filter (\<lambda>u. oo_prediction_id u \<in> set (map pp_id (contest_predictions k L))) (map snd (settlements L))))"

end
