(* ===== verification/Prospective_Properties.thy ===== *)
theory Prospective_Properties
  imports Prospective_Competition
begin

text \<open>
  The prospective competition: what the file of predictions and settlements keeps through any sequence of operations and
  failing writes, what a settlement says, and what a contest needs before it can be approved.
\<close>

section \<open>Objects and the order of their keys\<close>

lemma key_order_perm [simp]: "set (key_order ob) = set ob"
  by (simp add: key_order_def)



lemma key_order_idem [simp]: "key_order (key_order ob) = key_order ob"
  by (simp add: key_order_def sort_key_id_if_sorted)



lemma without_Cons [simp]: "without k ((k', v) # ob) = (if k' = k then without k ob else (k', v) # without k ob)"
  by (simp add: without_def)


lemma without_Nil [simp]: "without k [] = []"
  by (simp add: without_def)




section \<open>A record read back\<close>










section \<open>Every store and every run\<close>

text \<open>What a caller asks of a store; a ledger that is opened again has nothing in its memory.\<close>

datatype store_op = AddPrediction prospective | AddSettlement outcome_obs | AddPending outcome_obs pystr | Reopen

definition perform :: "(json \<Rightarrow> pystr) \<Rightarrow> bool \<Rightarrow> ledger_disk \<Rightarrow> store_op \<Rightarrow> pledger \<Rightarrow> pfile \<Rightarrow> unit outcome_of" where
  "perform dg recover io op L f = (case op of
       AddPrediction p \<Rightarrow> (case append_prospective dg recover io p f of (L', f', r) \<Rightarrow> (L', f', bindR r (\<lambda>_. Inr ())))
     | AddSettlement v \<Rightarrow> (case append_settlement dg recover io v f of (L', f', r) \<Rightarrow> (L', f', bindR r (\<lambda>_. Inr ())))
     | AddPending v s \<Rightarrow> append_pending dg recover io v s L f
     | Reopen \<Rightarrow> pload dg recover io f)"

fun perform_all :: "(json \<Rightarrow> pystr) \<Rightarrow> bool \<Rightarrow> (ledger_disk \<times> store_op) list \<Rightarrow> pledger \<times> pfile \<Rightarrow> pledger \<times> pfile" where
  "perform_all dg recover [] s = s"
| "perform_all dg recover ((io, op) # ops) (L, f) = (case perform dg recover io op L f of (L', f', r) \<Rightarrow> perform_all dg recover ops (L', f'))"

text \<open>The arguments are objects, which their constructors have checked.\<close>

definition op_ok :: "store_op \<Rightarrow> bool" where
  "op_ok op \<longleftrightarrow> (case op of AddPrediction p \<Rightarrow> prediction_ok p | AddSettlement v \<Rightarrow> outcome_obs_ok v | AddPending v _ \<Rightarrow> outcome_obs_ok v | Reopen \<Rightarrow> True)"

section \<open>What a loaded ledger says\<close>

definition early :: "prospective \<Rightarrow> bool" where
  "early p \<longleftrightarrow> utc_date (prediction_at p) < pp_maturity p"

definition settles :: "prospective \<Rightarrow> outcome_obs \<Rightarrow> bool" where
  "settles p v \<longleftrightarrow> pp_symbol p = oo_symbol v \<and> pp_maturity p = oo_maturity v \<and> mature_quality v \<and> pp_maturity p \<le> utc_date (oo_outcome_at v)"

definition sound :: "pledger \<Rightarrow> bool" where
  "sound L \<longleftrightarrow> (\<forall>i p. dict_get (predictions L) i = Some p \<longrightarrow> early p)
     \<and> (\<forall>i v. dict_get (settlements L) i = Some v \<longrightarrow> (\<exists>p. dict_get (predictions L) i = Some p \<and> settles p v))"

lemma same_prediction_iff: "same_prediction p q \<longleftrightarrow> (\<exists>b. p = q\<lparr>maturity_explicit := b\<rparr>)"
proof
  assume "same_prediction p q"
  then have "p = q\<lparr>maturity_explicit := maturity_explicit p\<rparr>" by (cases p, cases q) (simp add: same_prediction_def)
  then show "\<exists>b. p = q\<lparr>maturity_explicit := b\<rparr>" ..
qed (auto simp: same_prediction_def)

lemma sound_empty [simp]: "sound empty_ledger"
  by (simp add: sound_def empty_ledger_def)

lemma sound_waiting [simp]: "sound (L\<lparr>waiting := w\<rparr>) = sound L"
  by (simp add: sound_def)

lemma sound_drop [simp]: "sound (drop_settled dg L) = sound L"
  by (simp add: drop_settled_def)

lemma sound_prediction:
  assumes "sound L" "early p" "\<forall>q. dict_get (predictions L) i = Some q \<longrightarrow> same_prediction q p"
  shows "sound (L\<lparr>predictions := dict_set (predictions L) i p\<rparr>)"
  using assms by (fastforce simp: sound_def settles_def same_prediction_iff)

lemma sound_settlement:
  assumes "sound L" "dict_get (predictions L) i = Some p" "settles p v"
  shows "sound (L\<lparr>settlements := dict_set (settlements L) i v\<rparr>)"
  using assms by (auto simp: sound_def)

lemma from_dict_early: "prediction_from_dict dg ob = Inr p \<Longrightarrow> early p"
proof -
  assume "prediction_from_dict dg ob = Inr p"
  then obtain a q b where q: "make_prediction dg a = Inr q" "p = q\<lparr>maturity_explicit := b\<rparr>"
    by (auto simp: prediction_from_dict_def bindR_Inr_iff split: if_splits)
  obtain t d where t: "prediction_maturity a t = Inr d" "prediction_at q = t" "pp_maturity q = d"
    using q(1) by (auto simp: make_prediction_def bindR_Inr_iff Let_def)
  then have "utc_date t < d" by (auto simp: prediction_maturity_def bindR_Inr_iff split: if_splits)
  then show ?thesis by (simp add: early_def q t)
qed

lemma restore_prediction_sound: "restore_prediction dg ob L = Inr L' \<Longrightarrow> sound L \<Longrightarrow> sound L'"
  by (auto simp: restore_prediction_def bindR_Inr_iff dest!: from_dict_early intro!: sound_prediction split: option.splits if_splits)

lemma restore_outcome_sound: "restore_outcome dg b ob L = Inr L' \<Longrightarrow> sound L \<Longrightarrow> sound L'"
  by (auto simp: restore_outcome_def restore_settlement_def settlement_quality_def bindR_Inr_iff Let_def settles_def not_less
      intro!: sound_settlement split: option.splits if_splits)

lemma restore_line_sound: "restore_line dg x L = Inr L' \<Longrightarrow> sound L \<Longrightarrow> sound L'"
  unfolding restore_line_def restore_record_def Let_def
  by (auto intro: restore_prediction_sound restore_outcome_sound split: ledger_line.splits option.splits json.splits if_splits)

lemma restore_lines_sound: "restore_lines dg xs L = (L', e) \<Longrightarrow> sound L \<Longrightarrow> sound L'"
  by (induction xs arbitrary: L) (auto dest: restore_line_sound split: sum.splits)

lemma pload_sound: "pload dg recover io f = (L, f', r) \<Longrightarrow> sound L"
  by (auto simp: pload_def dest: restore_line_sound restore_lines_sound[OF _ sound_empty] split: if_splits prod.splits option.splits sum.splits)

lemma locked_cases:
  assumes "locked_append dg recover io f body = (L', f', r)"
  obtains (failed) e where "pload dg recover io f = (L', f', Inl e)" "r = Inl e"
    | (loaded) L f1 where "pload dg recover io f = (L, f1, Inr ())" "body L f1 = (L', f', r)"
  using assms that by (auto simp: locked_append_def split: prod.splits sum.splits)

lemma append_record_Inr: "append_record dg io rec f = (f', Inr ()) \<longleftrightarrow> f' = put_line Whole (RecordLine (signed_record dg rec)) f \<and> write_amount io = Whole \<and> sync_works io"
  by (auto simp: append_record_def)

lemma prediction_ok_early: "prediction_ok p \<Longrightarrow> early p"
  by (simp add: prediction_ok_def early_def)

lemma checks_settle: "settlement_checks L v = Inr () \<Longrightarrow> \<exists>p. dict_get (predictions L) (oo_prediction_id v) = Some p \<and> settles p v"
  by (auto simp: settlement_checks_def validate_outcome_def settlement_quality_def settles_def bindR_Inr_iff not_less split: option.splits if_splits)

lemma append_prospective_sound:
  assumes "append_prospective dg recover io p f = (L', f', r)" "early p"
  shows "sound L'"
  using assms(1) unfolding append_prospective_def
proof (cases rule: locked_cases)
  case (loaded L f1)
  then show ?thesis using pload_sound[OF loaded(1)] assms(2)
    by (auto intro!: sound_prediction split: option.splits prod.splits sum.splits)
qed (auto dest: pload_sound)

lemma append_settlement_sound:
  assumes "append_settlement dg recover io v f = (L', f', r)"
  shows "sound L'"
  using assms unfolding append_settlement_def
proof (cases rule: locked_cases)
  case (loaded L f1)
  have s: "settlement_checks L v = Inr () \<Longrightarrow> sound (L\<lparr>settlements := dict_set (settlements L) (oo_prediction_id v) v, waiting := w\<rparr>)" for w
    using sound_settlement[OF pload_sound[OF loaded(1)]] checks_settle[of L v] by auto
  show ?thesis using loaded(2) pload_sound[OF loaded(1)] s by (auto split: option.splits prod.splits sum.splits)
qed (auto dest: pload_sound)

lemma append_pending_sound:
  assumes "append_pending dg recover io v s L f = (L', f', r)" "sound L"
  shows "sound L'"
proof (cases "reason_value s = []")
  case False
  have "locked_append dg recover io f (pending_body dg io v (reason_value s)) = (L', f', r)"
    using assms(1) False by (simp add: append_pending_def)
  then show ?thesis
  proof (cases rule: locked_cases)
    case (loaded K f1)
    then show ?thesis using pload_sound[OF loaded(1)] by (auto simp: pending_body_def Let_def split: if_splits prod.splits sum.splits)
  qed (auto dest: pload_sound)
qed (use assms in \<open>simp add: append_pending_def\<close>)

lemma perform_sound:
  assumes "perform dg recover io op L f = (L', f', r)" "op_ok op" "sound L"
  shows "sound L'"
  using assms
  by (cases op) (auto simp: perform_def op_ok_def split: prod.splits
      dest: append_prospective_sound append_settlement_sound append_pending_sound pload_sound prediction_ok_early)

lemma perform_all_sound:
  "perform_all dg recover ops (L, f) = (L', f') \<Longrightarrow> \<forall>(io, op) \<in> set ops. op_ok op \<Longrightarrow> sound L \<Longrightarrow> sound L'"
proof (induction ops arbitrary: L f)
  case (Cons a ops)
  obtain io op where a: "a = (io, op)" by (cases a)
  obtain K g r where k: "perform dg recover io op L f = (K, g, r)" by (rule prod_cases3)
  show ?case using Cons.IH[of K g] Cons.prems perform_sound[OF k] by (simp add: a k)
qed simp

text \<open>C24: Whatever the file holds, and whatever any number of operations on it do: each settlement in the memory of a store
  belongs to a prediction of the same stock and maturity that is there too, rests on a complete outcome of status OK, and
  its outcome was observed at or after the maturity, which is after the day of the prediction.  No settlement can be of a
  prediction that was made when its result could be known.\<close>

theorem settlements_are_prospective:
  assumes "perform_all dg recover ops (empty_ledger, f) = (L, f')" "\<forall>(io, op) \<in> set ops. op_ok op"
    and "dict_get (settlements L) i = Some v"
  shows "\<exists>p. dict_get (predictions L) i = Some p \<and> pp_symbol p = oo_symbol v \<and> pp_maturity p = oo_maturity v \<and> mature_quality v
    \<and> utc_date (prediction_at p) < pp_maturity p \<and> pp_maturity p \<le> utc_date (oo_outcome_at v) \<and> prediction_at p < oo_outcome_at v"
proof -
  have "sound L" by (rule perform_all_sound[OF assms(1,2)]) simp
  then obtain p where p: "dict_get (predictions L) i = Some p" "settles p v" "early p"
    using assms(3) unfolding sound_def by metis
  then have "utc_date (prediction_at p) < utc_date (oo_outcome_at v)" by (auto simp: settles_def early_def)
  then have "prediction_at p < oo_outcome_at v" by (meson leD not_le utc_date_mono)
  then show ?thesis using p by (auto simp: settles_def early_def)
qed

section \<open>Files without an unterminated record\<close>


definition kept :: "pledger \<Rightarrow> pledger \<Rightarrow> bool" where
  "kept K K' \<longleftrightarrow> (\<exists>ps. predictions K' = predictions K @ ps) \<and> (\<exists>ss. settlements K' = settlements K @ ss)"



lemma kept_refl [simp]: "kept K K"
  by (simp add: kept_def)







lemma drop_settled_sel [simp]: "predictions (drop_settled dg K) = predictions K" "settlements (drop_settled dg K) = settlements K"
  by (simp_all add: drop_settled_def)






lemma validate_drop [simp]: "validate_outcome (drop_settled dg K) v = validate_outcome K v"
  by (simp add: validate_outcome_def)









section \<open>A concrete ledger\<close>

definition demo_ledger_digest :: "json \<Rightarrow> pystr" where
  "demo_ledger_digest v = (case v of JObj ob \<Rightarrow> replicate (64 - min 63 (length ob)) 97 @ replicate (min 63 (length ob)) 48 | _ \<Rightarrow> replicate 64 48)"

definition demo_args :: "pystr \<Rightarrow> prediction_args" where
  "demo_args code = \<lparr>pa_model_id = py ''model'', pa_model_version = py ''v1'', pa_config_hash = py ''c'', pa_snapshot_hash = py ''s'', pa_symbol = code,
     pa_name = code, pa_prediction_at = utc_datetime (utc_midnight 739000), pa_as_of = 739000, pa_horizon = 5, pa_score = Num 60,
     pa_probability = None, pa_bands = [(py ''base'', Bounds (Num 9) (Num 11))], pa_evidence_mode = py ''PROSPECTIVE'', pa_maturity = Some 739007,
     pa_prediction_id = code, pa_input_digest = [], pa_calendar_digest = [], pa_cycle_key = [], pa_bundle_digest = [], pa_calibrated = False,
     pa_source_path = []\<rparr>"

definition demo_prediction :: "pystr \<Rightarrow> prospective" where
  "demo_prediction code = (case make_prediction demo_ledger_digest (demo_args code) of Inr p \<Rightarrow> p | Inl _ \<Rightarrow> undefined)"

definition demo_outcome_args :: outcome_args where
  "demo_outcome_args = \<lparr>oa_prediction_id = py ''600000'', oa_symbol = py ''600000'', oa_maturity = 739007, oa_outcome_at = utc_datetime (utc_midnight 739007),
     oa_price = Some (Num 10), oa_return = Some (Num (1 / 20)), oa_data_version = py ''d1'', oa_data_sha256 = replicate 64 97, oa_status = py ''OK'',
     oa_fresh = True, oa_complete = True, oa_aligned = True, oa_action_ok = True\<rparr>"

definition demo_outcome :: outcome_obs where
  "demo_outcome = (case make_outcome_obs demo_outcome_args of Inr v \<Rightarrow> v | Inl _ \<Rightarrow> undefined)"

definition good_disk :: ledger_disk where
  "good_disk = \<lparr>read_works = True, cut_works = True, write_amount = Whole, sync_works = True\<rparr>"

definition torn :: "amount \<Rightarrow> ledger_disk" where
  "torn n = good_disk\<lparr>write_amount := n\<rparr>"

abbreviation demo_a :: prospective where "demo_a \<equiv> demo_prediction (py ''600000'')"

abbreviation demo_b :: prospective where "demo_b \<equiv> demo_prediction (py ''600001'')"


lemma demo_ok: "op_ok (AddPrediction demo_a)" "op_ok (AddPrediction demo_b)" "op_ok (AddSettlement demo_outcome)"
  by code_simp+

theorem settlements_are_prospective_witness:
  "\<exists>p. dict_get (predictions (fst (perform_all demo_ledger_digest True [(good_disk, AddPrediction demo_a), (good_disk, AddSettlement demo_outcome)]
      (empty_ledger, no_file)))) (py ''600000'') = Some p \<and> prediction_at p < oo_outcome_at demo_outcome"
proof -
  let ?ops = "[(good_disk, AddPrediction demo_a), (good_disk, AddSettlement demo_outcome)]"
  let ?r = "perform_all demo_ledger_digest True ?ops (empty_ledger, no_file)"
  have get: "dict_get (settlements (fst ?r)) (py ''600000'') = Some demo_outcome" by code_simp
  have ok: "\<forall>(io, op) \<in> set ?ops. op_ok op" using demo_ok by simp
  show ?thesis using settlements_are_prospective[OF prod.collapse[symmetric] ok get] by blast
qed





text \<open>
  A record whose newline was not written is loaded as if it were complete, and the next record is written behind it on the
  same line: no store can load the file again.  Had that write stopped too, the next load would have cut both records off.
\<close>

theorem record_without_newline:
  "case perform_all demo_ledger_digest True [(torn NoNewline, AddPrediction demo_a), (good_disk, Reopen)] (empty_ledger, no_file) of (L, f) \<Rightarrow>
     map fst (predictions L) = [py ''600000''] \<and> snd (snd (perform demo_ledger_digest True good_disk (AddPrediction demo_b) L f)) = Inr ()
     \<and> (case perform demo_ledger_digest True good_disk (AddPrediction demo_b) L f of (L', f', r) \<Rightarrow>
         pload demo_ledger_digest True good_disk f' = (empty_ledger, f', Inl (LedgerIntegrityError ''ledger integrity check failed'')))
     \<and> (case perform demo_ledger_digest True (torn Part) (AddPrediction demo_b) L f of (L', f', r) \<Rightarrow>
         pload demo_ledger_digest True good_disk f' = (empty_ledger, no_file, Inr ()))"
  by code_simp

end
