(* ===== verification/Contest_Properties.thy ===== *)
theory Contest_Properties
  imports Prospective_Competition
begin

text \<open>
  The contest of \<^verbatim>\<open>research/prospective_competition.py\<close>: approval is reached by an observation alone, and stays with the
  version it was recorded for unless a registration without a model identifier is attempted.
\<close>

datatype contest_op = Start start_args | Register pystr pystr pystr "pystr option" | Observe int int bool int "metrics option"
  | Session int bool "metrics option" | Change frozen_change

fun contest_step :: "contest_op \<Rightarrow> contest \<Rightarrow> contest \<times> unit result" where
  "contest_step (Start a) c = start_contest a c"
| "contest_step (Register v g s m) c = register_version v g s m c"
| "contest_step (Observe s n b h m) c = record_observations s n b h m c"
| "contest_step (Session n b m) c = record_session n b m c"
| "contest_step (Change x) c = change_frozen x c"

text \<open>A caller goes on after an exception with the contest as the operation left it.\<close>

definition contest_run :: "contest_op list \<Rightarrow> contest \<Rightarrow> contest" where
  "contest_run ops c = foldl (\<lambda>c op. fst (contest_step op c)) c ops"

definition passing :: "int \<Rightarrow> int \<Rightarrow> metrics option \<Rightarrow> bool" where
  "passing s n m \<longleftrightarrow> 60 \<le> s \<and> 200 \<le> n \<and> (case m of None \<Rightarrow> False | Some x \<Rightarrow> metrics_pass x)"

fun earned :: "contest_op \<Rightarrow> contest \<Rightarrow> bool" where
  "earned (Observe s n b h m) c \<longleftrightarrow> passing s n m"
| "earned (Session n b m) c \<longleftrightarrow> passing (future_sessions c + 1) (matured c + n) m"
| "earned _ c \<longleftrightarrow> False"

text \<open>A registration that names a model with an empty identifier raises after it has changed the version.\<close>

fun nameless :: "contest_op \<Rightarrow> bool" where
  "nameless (Register v g s (Some m)) \<longleftrightarrow> py_strip m = []"
| "nameless _ \<longleftrightarrow> False"

lemma refresh_approval: "can_issue_approval (refresh_status c) \<longleftrightarrow> 60 \<le> future_sessions c \<and> 200 \<le> matured c \<and> gates_pass c"
  by (auto simp: can_issue_approval_def refresh_status_def approval_sessions_def approval_predictions_def)

lemma observation_earns:
  assumes "can_issue_approval (fst (record_observations s n b h m c))" "\<not> can_issue_approval c"
  shows "snd (record_observations s n b h m c) = Inr () \<and> passing s n m"
  using assms
  by (auto simp: record_observations_def Let_def refresh_approval passing_def split: if_splits option.splits)
    (auto simp: can_issue_approval_def)

lemma step_earns:
  assumes "can_issue_approval (fst (contest_step op c))" "\<not> can_issue_approval c"
  shows "snd (contest_step op c) = Inr () \<and> earned op c"
proof (cases op)
  case (Start a)
  then show ?thesis using assms by (auto simp: start_contest_def can_issue_approval_def split: sum.splits option.splits if_splits)
next
  case (Register v g s m)
  then show ?thesis using assms by (auto simp: register_version_def can_issue_approval_def Let_def split: option.splits if_splits)
next
  case (Session n b m)
  then show ?thesis using assms observation_earns by (fastforce simp: record_session_def split: if_splits)
qed (use assms observation_earns in \<open>auto simp: change_frozen_def\<close>)

lemma step_keeps_registration:
  assumes "can_issue_approval c" "can_issue_approval (fst (contest_step op c))" "\<not> nameless op" "started c"
  shows "ct_registration (fst (contest_step op c)) = ct_registration c"
proof (cases op)
  case (Start a)
  then show ?thesis using assms(4) by (auto simp: start_contest_def split: sum.splits option.splits)
next
  case (Register v g s m)
  then show ?thesis using assms by (auto simp: register_version_def can_issue_approval_def Let_def split: option.splits if_splits)
qed (auto simp: record_session_def record_observations_def refresh_status_def change_frozen_def Let_def split: option.splits)

lemma step_started: "started c \<Longrightarrow> started (fst (contest_step op c))"
  by (cases op) (auto simp: start_contest_def register_version_def record_session_def record_observations_def refresh_status_def change_frozen_def
      started_def Let_def split: option.splits sum.splits)

lemma earned_started: "snd (contest_step op c) = Inr () \<Longrightarrow> earned op c \<Longrightarrow> started c"
  by (cases op) (auto simp: record_session_def record_observations_def split: if_splits)

lemma run_snoc: "contest_run (ops @ [x]) c = fst (contest_step x (contest_run ops c))"
  by (simp add: contest_run_def)

lemma run_append: "contest_run (a @ b) c = contest_run b (contest_run a c)"
  by (simp add: contest_run_def)

lemma run_started: "started c \<Longrightarrow> started (contest_run ops c)"
  by (induction ops rule: rev_induct) (simp_all add: contest_run_def step_started)

definition earned_at :: "contest_op list \<Rightarrow> contest \<Rightarrow> contest_op list \<Rightarrow> contest_op \<Rightarrow> contest_op list \<Rightarrow> bool" where
  "earned_at ops c before op after \<longleftrightarrow> ops = before @ op # after \<and> snd (contest_step op (contest_run before c)) = Inr ()
     \<and> earned op (contest_run before c) \<and> (\<forall>k \<le> length after. can_issue_approval (contest_run (before @ op # take k after) c))
     \<and> ((\<forall>x \<in> set after. \<not> nameless x) \<longrightarrow> ct_registration (contest_run ops c) = ct_registration (contest_run before c))"

lemma earned_keeps_registration: "earned op c \<Longrightarrow> ct_registration (fst (contest_step op c)) = ct_registration c"
  by (cases op) (auto simp: record_session_def record_observations_def refresh_status_def Let_def split: option.splits)

lemma earned_at_snoc:
  assumes "earned_at ops c before op after" "can_issue_approval (contest_run (ops @ [x]) c)"
  shows "earned_at (ops @ [x]) c before op (after @ [x])"
proof -
  have ops: "ops = before @ op # after" and ok: "snd (contest_step op (contest_run before c)) = Inr ()" "earned op (contest_run before c)"
    and all: "\<forall>k \<le> length after. can_issue_approval (contest_run (before @ op # take k after) c)"
    and reg: "(\<forall>x \<in> set after. \<not> nameless x) \<longrightarrow> ct_registration (contest_run ops c) = ct_registration (contest_run before c)"
    using assms(1) unfolding earned_at_def by blast+
  have can: "can_issue_approval (contest_run ops c)" using all[rule_format, of "length after"] by (simp add: ops)
  have "started (contest_run before c)" using earned_started[OF ok] .
  then have "started (contest_run ops c)" unfolding ops run_append by (rule run_started)
  then have keep: "\<not> nameless x \<Longrightarrow> ct_registration (contest_run (ops @ [x]) c) = ct_registration (contest_run ops c)"
    using step_keeps_registration[OF can, of x] assms(2) by (simp add: run_snoc)
  have "can_issue_approval (contest_run (before @ op # take k (after @ [x])) c)" if "k \<le> length (after @ [x])" for k
    using that all assms(2) ops by (cases "k \<le> length after") (auto simp: not_le le_Suc_eq)
  then show ?thesis using ok reg keep by (auto simp: earned_at_def ops)
qed

text \<open>C26: A contest that can be approved has got there by an observation that was accepted: at least 60 sessions and 200
  matured predictions, with metrics that pass the gates.  It could be approved ever since; and unless a registration with an
  empty model identifier was attempted since, the registration is still the one that the observation was recorded for.\<close>

theorem approval_is_earned:
  assumes "new_contest now (20, 100, 60, 200) = Inr c" "can_issue_approval (contest_run ops c)"
  shows "\<exists>before op after. ops = before @ op # after \<and> snd (contest_step op (contest_run before c)) = Inr ()
     \<and> earned op (contest_run before c) \<and> (\<forall>k \<le> length after. can_issue_approval (contest_run (before @ op # take k after) c))
     \<and> ((\<forall>x \<in> set after. \<not> nameless x) \<longrightarrow> ct_registration (contest_run ops c) = ct_registration (contest_run before c))"
proof -
  have "\<exists>before op after. earned_at ops c before op after"
    using assms(2)
  proof (induction ops rule: rev_induct)
    case Nil
    then show ?case using assms(1) by (auto simp: contest_run_def new_contest_def bindR_Inr_iff can_issue_approval_def)
  next
    case (snoc x ops)
    show ?case
    proof (cases "can_issue_approval (contest_run ops c)")
      case True
      then show ?thesis using snoc.IH earned_at_snoc[OF _ snoc.prems] by blast
    next
      case False
      have "snd (contest_step x (contest_run ops c)) = Inr () \<and> earned x (contest_run ops c)"
        using step_earns[OF _ False, of x] snoc.prems by (simp add: run_snoc)
      then have "earned_at (ops @ [x]) c ops x []"
        using snoc.prems earned_keeps_registration[of x "contest_run ops c"] by (simp add: earned_at_def run_snoc)
      then show ?thesis by blast
    qed
  qed
  then show ?thesis by (simp add: earned_at_def)
qed

definition demo_contest :: contest where
  "demo_contest = (case new_contest (utc_datetime (UTC 0)) (20, 100, 60, 200) of Inr c \<Rightarrow> c | Inl _ \<Rightarrow> undefined)"

definition demo_start_args :: start_args where
  "demo_start_args = \<lparr>sa_model_id = py ''m'', sa_model_version = py ''v1'', sa_config_hash = py ''c'', sa_snapshot_hash = py ''s'',
     sa_bundle_digest = None, sa_primary_metric = py ''net_cost_return'', sa_tie_break = [py ''brier''], sa_started_at = None\<rparr>"

definition demo_metrics :: metrics where
  "demo_metrics = \<lparr>directional_hit_rate = None, brier = None, ece = None, rank_ic = None, net_cost_return = Some (Num (1 / 10)),
     max_drawdown = Some (Num (1 / 5)), turnover = None, coverage = Some (Num 1), rejection_rate = None, regime_stability = None\<rparr>"

definition demo_contest_ops :: "contest_op list" where
  "demo_contest_ops = [Start demo_start_args, Session 100 False (Some demo_metrics), Observe 60 200 True 0 (Some demo_metrics), Change TieBreak]"

theorem approval_is_earned_witness:
  "\<exists>before op after. demo_contest_ops = before @ op # after \<and> earned op (contest_run before demo_contest)"
proof -
  have new: "new_contest (utc_datetime (UTC 0)) (20, 100, 60, 200) = Inr demo_contest"
    by (simp add: demo_contest_def new_contest_def)
  have "can_issue_approval (contest_run demo_contest_ops demo_contest)" by code_simp
  from approval_is_earned[OF new this] show ?thesis by blast
qed

text \<open>
  \<^verbatim>\<open>register_version\<close> changes the version, the configuration and the training snapshot before it looks at the model identifier:
  an attempt with an empty one raises, and the approval earned by the first version is that of the second.
\<close>

theorem approval_passes_to_another_version:
  "case contest_step (Register (py ''v2'') (py ''c2'') (py ''s2'') (Some [])) (contest_run demo_contest_ops demo_contest) of (c, r) \<Rightarrow>
     r = Inl (ValueError ''model_id is required'') \<and> can_issue_approval c \<and> map_option rg_model_version (ct_registration c) = Some (py ''v2'')"
  by code_simp

end
