(* ===== verification/Research_Jobs.thy ===== *)
theory Research_Jobs
  imports Py_Json Py_Iso
begin

text \<open>
  \<^verbatim>\<open>runtime/research_jobs.py\<close> and the tick of \<^verbatim>\<open>ResearchLifecycle\<close> in \<^verbatim>\<open>workbench/app.py\<close>: the supervisor of the research
  children of a workbench.

  The processes and files are a \<open>world\<close>: which children run, how they exited, what their status and evidence files hold and
  whether the checkpoint can be written; every operation that looks at them takes the worlds it looks at.  The dictionaries keep
  their insertion order.  An operation that raises keeps what it did before, so it gives back the supervisor and a result.
  SHA-256 of the canonical JSON of a value is the argument \<open>dg\<close>.  Paths and the path policy are not modelled.
\<close>

section \<open>Arguments and texts\<close>

datatype research_command = HISTORY | SCREEN | PREDICT | SETTLE

datatype resource_class = NETWORK | CPU

definition command_word :: "research_command \<Rightarrow> pystr" where
  "command_word c = (case c of HISTORY \<Rightarrow> py ''history'' | SCREEN \<Rightarrow> py ''screen'' | PREDICT \<Rightarrow> py ''predict'' | SETTLE \<Rightarrow> py ''settle'')"

definition allowed_command :: "pystr list \<Rightarrow> research_command option" where
  "allowed_command ws = find (\<lambda>c. ws = [py ''research'', command_word c]) [HISTORY, SCREEN, PREDICT, SETTLE]"

definition default_stage :: "research_command \<Rightarrow> pystr" where
  "default_stage c = (case c of HISTORY \<Rightarrow> py ''history-backfill'' | SCREEN \<Rightarrow> py ''engineering-screen''
     | PREDICT \<Rightarrow> py ''future-predict'' | SETTLE \<Rightarrow> py ''outcome-settlement'')"

definition valid_stages :: "pystr list" where
  "valid_stages = map default_stage [HISTORY, SCREEN, PREDICT, SETTLE]"

definition unsafe_argument :: "pystr \<Rightarrow> bool" where
  "unsafe_argument s \<longleftrightarrow> (\<exists>t \<in> set [py ''..'', py ''/'', [92], py ''--'']. py_contains t s)"

definition safe_metadata :: "pystr option \<Rightarrow> string \<Rightarrow> pystr option result" where
  "safe_metadata v f = (case v of None \<Rightarrow> Inr None
     | Some s \<Rightarrow> let n = py_strip s in
         if n = [] \<or> 256 < length n \<or> unsafe_argument n then Inl (ValueError (f @ '' is not safe'')) else Inr (Some n))"

definition utc_arg :: "datetime \<Rightarrow> utc result" where
  "utc_arg t = (if is_aware t then Inr (instant t) else Inl (ValueError ''datetime must be timezone-aware''))"

text \<open>\<^verbatim>\<open>str(value)\<close> of a JSON value, for the values whose text the checks below can accept.\<close>

definition py_int :: "int \<Rightarrow> pystr" where
  "py_int i = (if i < 0 then py ''-'' @ py_nat (- i) else py_nat i)"

definition json_str :: "json \<Rightarrow> pystr option" where
  "json_str v = (case v of JStr s \<Rightarrow> Some s | JInt i \<Rightarrow> Some (py_int i) | JBool b \<Rightarrow> Some (py (if b then ''True'' else ''False'')) | _ \<Rightarrow> None)"

definition removeprefix :: "pystr \<Rightarrow> pystr \<Rightarrow> pystr" where
  "removeprefix p s = (if take (length p) s = p then drop (length p) s else s)"

definition sha_prefix :: pystr where
  "sha_prefix = py ''sha256:''"

definition safe_status_digest :: "json option \<Rightarrow> pystr option" where
  "safe_status_digest v = (case v of None \<Rightarrow> None | Some JNull \<Rightarrow> None
     | Some x \<Rightarrow> (case json_str x of None \<Rightarrow> None
       | Some s \<Rightarrow> (case safe_metadata (Some s) ''artifact_digest'' of
           Inr (Some n) \<Rightarrow> let raw = removeprefix sha_prefix n in if length raw \<noteq> 64 \<or> \<not> lower_hex raw then None else Some n
         | _ \<Rightarrow> None)))"

definition reason_char :: "int \<Rightarrow> bool" where
  "reason_char c \<longleftrightarrow> 65 \<le> c \<and> c \<le> 90 \<or> 48 \<le> c \<and> c \<le> 57 \<or> c = 95"

definition safe_reason :: "json option \<Rightarrow> pystr option" where
  "safe_reason v = (case v of None \<Rightarrow> None | Some JNull \<Rightarrow> None
     | Some x \<Rightarrow> (case json_str x of None \<Rightarrow> None
       | Some s \<Rightarrow> let n = py_upper (py_strip s) in if n = [] \<or> 96 < length n \<or> \<not> list_all reason_char n then None else Some n))"

section \<open>Jobs and the supervisor\<close>

record research_job =
  rj_id :: pystr
  rj_command :: research_command
  rj_due :: utc
  rj_fingerprint :: "pystr option"
  rj_stage :: pystr
  rj_artifact :: "pystr option"
  rj_eligible :: "utc option"
  rj_completed :: bool
  rj_exit :: "int option"
  rj_failure :: "pystr option"
  rj_cycle :: pystr

definition class_of :: "research_job \<Rightarrow> resource_class" where
  "class_of j = (if rj_command j = HISTORY then NETWORK else CPU)"

record 'c world =
  running :: "'c \<Rightarrow> bool"
  exit_code :: "'c \<Rightarrow> int option"
  status_file :: "pystr \<Rightarrow> json option"
  evidence_file :: "pystr \<Rightarrow> (json \<times> pystr) option"
  writable :: bool
  wall :: utc

record 'c supervisor =
  jobs :: "(pystr \<times> research_job) list"
  children :: "(pystr \<times> 'c) list"
  terminal :: "pystr set"
  accepting :: bool
  last_history :: "pystr option"
  last_screen :: "pystr option"
  network_enabled :: bool
  job_file :: "json option"

definition dict_pop :: "('k \<times> 'v) list \<Rightarrow> 'k \<Rightarrow> ('k \<times> 'v) list" where
  "dict_pop d k = filter (\<lambda>(k', v). k' \<noteq> k) d"

section \<open>The evidence of a child\<close>

definition status_object :: "research_job \<Rightarrow> json option \<Rightarrow> (string \<times> json) list" where
  "status_object j v = (case v of
       Some (JObj ob) \<Rightarrow> if dict_get ob ''job_id'' = Some (JStr (rj_id j)) \<and> dict_get ob ''job'' = Some (JStr (command_word (rj_command j))) then ob else []
     | _ \<Rightarrow> [])"

definition read_child_status :: "'c world \<Rightarrow> research_job \<Rightarrow> (string \<times> json) list result" where
  "read_child_status w j = (let n = py_strip (rj_id j) in
     if n = [] \<or> unsafe_argument n then Inl (ValueError ''job id is not safe'') else Inr (status_object j (status_file w n)))"

definition evidence_path :: "research_job \<Rightarrow> pystr" where
  "evidence_path j = py ''evidence/'' @ rj_id j @ py ''.json''"

definition verified_artifact :: "'c world \<Rightarrow> research_job \<Rightarrow> (string \<times> json) list \<Rightarrow> pystr \<Rightarrow> bool" where
  "verified_artifact w j status digest \<longleftrightarrow> dict_get status ''artifact_relpath'' = Some (JStr (evidence_path j))
     \<and> (case evidence_file w (rj_id j) of
          Some (JObj ob, sha) \<Rightarrow> is_format 1 (dict_get ob ''format_version'') \<and> dict_get ob ''job_id'' = Some (JStr (rj_id j))
            \<and> dict_get ob ''job'' = Some (JStr (command_word (rj_command j)))
            \<and> (case dict_get ob ''result'' of Some (JObj _) \<Rightarrow> True | Some (JDict _) \<Rightarrow> True | _ \<Rightarrow> False)
            \<and> sha = removeprefix sha_prefix digest
        | _ \<Rightarrow> False)"

definition status_is :: "(string \<times> json) list \<Rightarrow> string \<Rightarrow> bool" where
  "status_is ob s \<longleftrightarrow> (case dict_get ob ''status'' of Some v \<Rightarrow> (case json_str v of Some t \<Rightarrow> py_upper t = py s | None \<Rightarrow> False) | None \<Rightarrow> False)"

text \<open>What the collection of a child that has exited makes of its job.\<close>

definition collected :: "'c world \<Rightarrow> research_job \<Rightarrow> 'c \<Rightarrow> (string \<times> json) list \<Rightarrow> research_job" where
  "collected w j c status =
     (let digest = safe_status_digest (dict_get status ''artifact_digest'');
          success = (exit_code w c = Some 0 \<and> status_is status ''SUCCESS'' \<and> (case digest of None \<Rightarrow> False | Some d \<Rightarrow> verified_artifact w j status d));
          reason = safe_reason (dict_get status ''reason_code'')
      in j\<lparr>rj_completed := success, rj_artifact := (case digest of None \<Rightarrow> rj_artifact j | Some d \<Rightarrow> Some d), rj_exit := exit_code w c,
           rj_failure := (if success then None else case reason of Some r \<Rightarrow> Some r
             | None \<Rightarrow> Some (if status = [] then py ''STATUS_MISSING'' else py ''WORKER_FAILED''))\<rparr>)"

section \<open>The checkpoint\<close>

definition text_option :: "pystr option \<Rightarrow> json" where
  "text_option v = (case v of None \<Rightarrow> JNull | Some s \<Rightarrow> JStr s)"

definition time_json :: "utc \<Rightarrow> json" where
  "time_json t = JTime (utc_datetime t)"

definition job_json :: "research_job \<Rightarrow> json" where
  "job_json j = JObj
     [(''artifact_digest'', text_option (rj_artifact j)), (''command'', JList [JStr (py ''research''), JStr (command_word (rj_command j))]),
      (''completed'', JBool (rj_completed j)), (''completed_artifact_digest'', text_option (rj_artifact j)),
      (''cycle_key'', if rj_cycle j = [] then JNull else JStr (rj_cycle j)), (''due_at'', time_json (rj_due j)),
      (''failure_reason'', text_option (rj_failure j)), (''input_fingerprint'', text_option (rj_fingerprint j)), (''job_id'', JStr (rj_id j)),
      (''next_eligible_at'', time_json (case rj_eligible j of None \<Rightarrow> rj_due j | Some t \<Rightarrow> t)),
      (''process_exit_code'', case rj_exit j of None \<Rightarrow> JNull | Some i \<Rightarrow> JInt i), (''stage'', JStr (rj_stage j))]"

definition job_body :: "utc \<Rightarrow> (pystr \<times> research_job) list \<Rightarrow> (string \<times> json) list" where
  "job_body now js = [(''created_at'', time_json now), (''format_version'', JInt 4), (''jobs'', JList (map (\<lambda>(i, j). job_json j) js))]"

definition write_checkpoint :: "(json \<Rightarrow> pystr) \<Rightarrow> 'c world \<Rightarrow> 'c supervisor \<Rightarrow> 'c supervisor \<times> bool" where
  "write_checkpoint dg w s =
     (if writable w then (let body = job_body (wall w) (jobs s) in
        (s\<lparr>job_file := Some (JObj (body @ [(''sha256'', JStr (dg (JObj body)))]))\<rparr>, True))
      else (s, False))"

definition read_checkpoint :: "(json \<Rightarrow> pystr) \<Rightarrow> json option \<Rightarrow> (string \<times> json) list option" where
  "read_checkpoint dg f = (case f of
       Some (JObj ob) \<Rightarrow>
         let body = filter (\<lambda>(k, v). k \<noteq> ''sha256'') ob in
         if \<not> (\<exists>n \<in> {2, 3, 4}. is_format n (dict_get ob ''format_version'')) then None
         else if dict_get ob ''sha256'' \<noteq> Some (JStr (dg (JObj body))) then None
         else Some body
     | _ \<Rightarrow> None)"

text \<open>The texts and nulls that the program writes; a value of another type in their place is refused here.\<close>

definition metadata_of :: "(string \<times> json) list \<Rightarrow> string \<Rightarrow> pystr option result" where
  "metadata_of ob k = (case dict_get ob k of None \<Rightarrow> Inr None | Some JNull \<Rightarrow> Inr None
     | Some (JStr s) \<Rightarrow> safe_metadata (Some s) k | _ \<Rightarrow> Inl (ValueError (k @ '' is not safe'')))"

definition aware_time :: "(string \<times> json) list \<Rightarrow> string \<Rightarrow> utc option" where
  "aware_time ob k = (case dict_get ob k of Some (JTime t) \<Rightarrow> (case utc_arg t of Inr u \<Rightarrow> Some u | Inl _ \<Rightarrow> None) | _ \<Rightarrow> None)"

definition json_command :: "json option \<Rightarrow> research_command option" where
  "json_command v = (case v of Some (JList ws) \<Rightarrow>
       if list_all (\<lambda>x. case x of JStr _ \<Rightarrow> True | _ \<Rightarrow> False) ws then allowed_command (map (\<lambda>x. case x of JStr s \<Rightarrow> s | _ \<Rightarrow> []) ws) else None
     | _ \<Rightarrow> None)"

definition valid_job :: "(string \<times> json) list \<Rightarrow> bool" where
  "valid_job ob \<longleftrightarrow>
     (case dict_get ob ''job_id'' of Some (JStr i) \<Rightarrow> py_strip i \<noteq> [] | _ \<Rightarrow> False)
     \<and> json_command (dict_get ob ''command'') \<noteq> None
     \<and> (case dict_get ob ''stage'' of Some (JStr s) \<Rightarrow> s \<in> set valid_stages | _ \<Rightarrow> False)
     \<and> aware_time ob ''due_at'' \<noteq> None \<and> aware_time ob ''next_eligible_at'' \<noteq> None
     \<and> returns (metadata_of ob ''input_fingerprint'') \<and> returns (metadata_of ob ''artifact_digest'') \<and> returns (metadata_of ob ''cycle_key'')
     \<and> returns (metadata_of ob ''completed_artifact_digest'')
     \<and> (dict_get ob ''completed_artifact_digest'' \<in> {None, Some JNull} \<or> dict_get ob ''completed_artifact_digest'' = dict_get ob ''artifact_digest'')
     \<and> (case dict_get ob ''completed'' of None \<Rightarrow> True | Some (JBool b) \<Rightarrow> b \<longrightarrow> safe_status_digest (dict_get ob ''artifact_digest'') \<noteq> None | _ \<Rightarrow> False)
     \<and> (case dict_get ob ''process_exit_code'' of None \<Rightarrow> True | Some JNull \<Rightarrow> True | Some (JInt _) \<Rightarrow> True | _ \<Rightarrow> False)
     \<and> (case dict_get ob ''failure_reason'' of None \<Rightarrow> True | Some JNull \<Rightarrow> True
        | Some (JStr r) \<Rightarrow> safe_reason (Some (JStr r)) = Some r | _ \<Rightarrow> False)"

definition legacy_cycle_key :: "research_command \<Rightarrow> pystr option \<Rightarrow> utc \<Rightarrow> pystr" where
  "legacy_cycle_key c fp due = py ''legacy:'' @ command_word c @ py '':'' @ (case fp of None \<Rightarrow> py ''no-fingerprint'' | Some f \<Rightarrow> f) @ py '':'' @ utc_iso due"

text \<open>The job of a valid item.\<close>

definition job_of :: "(string \<times> json) list \<Rightarrow> research_job result" where
  "job_of ob = (case (dict_get ob ''job_id'', json_command (dict_get ob ''command''), aware_time ob ''due_at'', aware_time ob ''next_eligible_at'', dict_get ob ''stage'') of
       (Some (JStr i), Some c, Some due, Some elig, Some (JStr st)) \<Rightarrow>
         bindR (metadata_of ob ''input_fingerprint'') (\<lambda>fp.
         bindR (metadata_of ob ''artifact_digest'') (\<lambda>art.
         bindR (metadata_of ob ''cycle_key'') (\<lambda>ck.
         Inr \<lparr>rj_id = i, rj_command = c, rj_due = due, rj_fingerprint = fp, rj_stage = st, rj_artifact = art, rj_eligible = Some elig,
           rj_completed = (dict_get ob ''completed'' = Some (JBool True)),
           rj_exit = (case dict_get ob ''process_exit_code'' of Some (JInt n) \<Rightarrow> Some n | _ \<Rightarrow> None),
           rj_failure = safe_reason (dict_get ob ''failure_reason''),
           rj_cycle = (case ck of Some k \<Rightarrow> k | None \<Rightarrow> legacy_cycle_key c fp due)\<rparr>)))
     | _ \<Rightarrow> Inl (ValueError ''invalid job''))"

end
