(* ===== verification/Research_Supervisor.thy ===== *)
theory Research_Supervisor
  imports Research_Jobs
begin

text \<open>
  The operations of \<^verbatim>\<open>ResearchJobSupervisor\<close> in \<^verbatim>\<open>runtime/research_jobs.py\<close>, and \<^verbatim>\<open>ResearchLifecycle.tick\<close> of
  \<^verbatim>\<open>workbench/app.py\<close>, which calls two of them at a time and swallows their exceptions.
\<close>

section \<open>Restoring\<close>

text \<open>
  The loop of \<^verbatim>\<open>_restore_schedule_state\<close>: what it has put into the terminal jobs stays when it gives up.  A stored job that
  claims to be completed is asked for its evidence again.
\<close>

definition restored_job :: "'c world \<Rightarrow> research_job \<Rightarrow> (research_job \<times> bool) result" where
  "restored_job w j =
     (if \<not> rj_completed j then Inr (j, False)
      else bindR (read_child_status w j) (\<lambda>status.
        case safe_status_digest (dict_get status ''artifact_digest'') of
          Some d \<Rightarrow> if Some d = rj_artifact j \<and> verified_artifact w j status d then Inr (j, False)
            else Inr (j\<lparr>rj_completed := False, rj_failure := Some (py ''EVIDENCE_INTEGRITY_FAILURE'')\<rparr>, True)
        | None \<Rightarrow> Inr (j\<lparr>rj_completed := False, rj_failure := Some (py ''EVIDENCE_INTEGRITY_FAILURE'')\<rparr>, True)))"

record restoring =
  rs_jobs :: "(pystr \<times> research_job) list"
  rs_terminal :: "pystr set"
  rs_history :: "pystr option"
  rs_screen :: "pystr option"

definition restore_item :: "'c world \<Rightarrow> json \<Rightarrow> restoring \<Rightarrow> restoring \<times> bool result" where
  "restore_item w v r = (case v of
       JObj ob \<Rightarrow>
         if \<not> valid_job ob then (r, Inr False)
         else (case job_of ob of Inl e \<Rightarrow> (r, Inr False) | Inr j0 \<Rightarrow>
           if dict_get (rs_jobs r) (rj_id j0) \<noteq> None then (r, Inr False)
           else (case restored_job w j0 of Inl e \<Rightarrow> (r, Inl e) | Inr (j, failed) \<Rightarrow>
             (\<lparr>rs_jobs = dict_set (rs_jobs r) (rj_id j) j,
               rs_terminal = rs_terminal r \<union> (if failed \<or> rj_completed j \<or> rj_exit j \<noteq> None then {rj_id j} else {}),
               rs_history = (if rj_command j = HISTORY then Some (date_iso (utc_date (rj_due j))) else rs_history r),
               rs_screen = (if rj_command j = SCREEN then rj_fingerprint j else rs_screen r)\<rparr>, Inr True)))
     | _ \<Rightarrow> (r, Inr False))"

fun restore_items :: "'c world \<Rightarrow> json list \<Rightarrow> restoring \<Rightarrow> restoring \<times> bool result" where
  "restore_items w [] r = (r, Inr True)"
| "restore_items w (v # vs) r = (case restore_item w v r of
       (r', Inr True) \<Rightarrow> restore_items w vs r'
     | (r', x) \<Rightarrow> (r', x))"

definition restore_schedule :: "(json \<Rightarrow> pystr) \<Rightarrow> 'c world \<Rightarrow> 'c supervisor \<Rightarrow> 'c supervisor \<times> unit result" where
  "restore_schedule dg w s = (case read_checkpoint dg (job_file s) of
       None \<Rightarrow> (s, Inr ())
     | Some ob \<Rightarrow> (case dict_get ob ''jobs'' of
         Some (JList vs) \<Rightarrow>
           (case restore_items w vs \<lparr>rs_jobs = [], rs_terminal = terminal s, rs_history = None, rs_screen = None\<rparr> of
             (r, Inl e) \<Rightarrow> (s\<lparr>terminal := rs_terminal r\<rparr>, Inl e)
           | (r, Inr False) \<Rightarrow> (s\<lparr>terminal := rs_terminal r\<rparr>, Inr ())
           | (r, Inr True) \<Rightarrow> (s\<lparr>jobs := rs_jobs r, terminal := rs_terminal r, last_history := rs_history r, last_screen := rs_screen r\<rparr>, Inr ()))
       | _ \<Rightarrow> (s, Inr ())))"

definition new_supervisor :: "(json \<Rightarrow> pystr) \<Rightarrow> 'c world \<Rightarrow> bool \<Rightarrow> json option \<Rightarrow> 'c supervisor \<times> unit result" where
  "new_supervisor dg w network f = restore_schedule dg w
     \<lparr>jobs = [], children = [], terminal = {}, accepting = True, last_history = None, last_screen = None, network_enabled = network, job_file = f\<rparr>"

section \<open>Collecting and pruning\<close>

fun collect_children :: "'c world \<Rightarrow> (pystr \<times> 'c) list \<Rightarrow> bool \<Rightarrow> 'c supervisor \<Rightarrow> 'c supervisor \<times> bool result" where
  "collect_children w [] changed s = (s, Inr changed)"
| "collect_children w ((i, c) # cs) changed s =
     (if running w c then collect_children w cs changed s
      else case dict_get (jobs s) i of
        None \<Rightarrow> collect_children w cs changed s
      | Some j \<Rightarrow> (case read_child_status w j of
          Inl e \<Rightarrow> (s, Inl e)
        | Inr status \<Rightarrow> collect_children w cs True
            (s\<lparr>jobs := dict_set (jobs s) i (collected w j c status), terminal := insert i (terminal s), children := dict_pop (children s) i\<rparr>)))"

definition max_terminal :: nat where
  "max_terminal = 64"

definition prunable :: "'c supervisor \<Rightarrow> pystr list" where
  "prunable s = (let old = filter (\<lambda>i. i \<in> terminal s \<and> i \<notin> fst ` set (children s)) (map fst (jobs s))
     in take (length old - max_terminal) old)"

definition prune :: "'c supervisor \<Rightarrow> 'c supervisor" where
  "prune s = s\<lparr>jobs := filter (\<lambda>(i, j). i \<notin> set (prunable s)) (jobs s), terminal := terminal s - set (prunable s)\<rparr>"

definition collect_finished :: "(json \<Rightarrow> pystr) \<Rightarrow> 'c world \<Rightarrow> 'c supervisor \<Rightarrow> 'c supervisor \<times> unit result" where
  "collect_finished dg w s = (case collect_children w (children s) False s of
       (s1, Inl e) \<Rightarrow> (s1, Inl e)
     | (s1, Inr changed) \<Rightarrow> (let s2 = prune s1 in (if changed then fst (write_checkpoint dg w s2) else s2, Inr ())))"

section \<open>Registering\<close>

definition put_job :: "pystr \<Rightarrow> research_job \<Rightarrow> 'c supervisor \<Rightarrow> 'c supervisor" where
  "put_job i j s = s\<lparr>jobs := dict_set (jobs s) i j, terminal := terminal s - {i}\<rparr>"

record registration_args =
  ra_id :: pystr
  ra_command :: "pystr list"
  ra_due :: datetime
  ra_fingerprint :: "pystr option"
  ra_stage :: "pystr option"
  ra_artifact :: "pystr option"
  ra_completed_artifact :: "pystr option"
  ra_eligible_at :: "datetime option"
  ra_eligible :: "datetime option"

text \<open>\<^verbatim>\<open>a or b\<close> of two optional texts.\<close>

definition text_or :: "pystr option \<Rightarrow> pystr option \<Rightarrow> pystr option" where
  "text_or a b = (if a = None \<or> a = Some [] then b else a)"

definition register_job :: "registration_args \<Rightarrow> 'c supervisor \<Rightarrow> 'c supervisor result" where
  "register_job a s = (let i = py_strip (ra_id a) in
     case allowed_command (map py_strip (ra_command a)) of
       None \<Rightarrow> Inl (ValueError ''job is not allowlisted'')
     | Some c \<Rightarrow>
         if i = [] \<or> unsafe_argument i then Inl (ValueError ''job is not allowlisted'')
         else bindR (utc_arg (ra_due a)) (\<lambda>due.
         let st = (case text_or (ra_stage a) None of None \<Rightarrow> default_stage c | Some t \<Rightarrow> t) in
         if st \<notin> set valid_stages then Inl (ValueError ''job stage is not allowlisted'')
         else bindR (safe_metadata (ra_fingerprint a) ''input_fingerprint'') (\<lambda>fp.
         if ra_artifact a \<noteq> None \<and> ra_completed_artifact a \<noteq> None \<and> ra_artifact a \<noteq> ra_completed_artifact a
         then Inl (ValueError ''artifact digests do not match'')
         else bindR (safe_metadata (text_or (ra_artifact a) (ra_completed_artifact a)) ''artifact_digest'') (\<lambda>art.
         if ra_eligible_at a \<noteq> None \<and> ra_eligible a \<noteq> None then Inl (ValueError ''next eligible times do not match'')
         else bindR (case (if ra_eligible_at a \<noteq> None then ra_eligible_at a else ra_eligible a) of None \<Rightarrow> Inr due | Some t \<Rightarrow> utc_arg t) (\<lambda>elig.
         Inr (put_job i \<lparr>rj_id = i, rj_command = c, rj_due = due, rj_fingerprint = fp, rj_stage = st, rj_artifact = art, rj_eligible = Some elig,
           rj_completed = False, rj_exit = None, rj_failure = None, rj_cycle = []\<rparr> s))))))"

definition cycle_job_id :: "(json \<Rightarrow> pystr) \<Rightarrow> research_command \<Rightarrow> pystr \<Rightarrow> pystr" where
  "cycle_job_id dg c key = command_word c @ py ''-'' @
     take 20 (dg (JObj [(''command'', JList [JStr (py ''research''), JStr (command_word c)]), (''cycle_key'', JStr key)]))"

definition register_cycle :: "(json \<Rightarrow> pystr) \<Rightarrow> research_command \<Rightarrow> utc \<Rightarrow> pystr option \<Rightarrow> pystr \<Rightarrow> 'c supervisor \<Rightarrow> ('c supervisor \<times> pystr option) result" where
  "register_cycle dg c due fp key0 s =
     bindR (safe_metadata (Some key0) ''cycle_key'') (\<lambda>k. case k of None \<Rightarrow> Inl (ValueError ''cycle key is required'') | Some key \<Rightarrow>
     let i = cycle_job_id dg c key in
     (case dict_get (jobs s) i of
        Some j \<Rightarrow> if rj_command j \<noteq> c \<or> rj_cycle j \<noteq> key \<or> rj_fingerprint j \<noteq> fp
          then Inl (ValueError ''cycle identity does not match existing job'') else Inr (s, None)
      | None \<Rightarrow> Inr (put_job i \<lparr>rj_id = i, rj_command = c, rj_due = due, rj_fingerprint = fp, rj_stage = default_stage c, rj_artifact = None,
          rj_eligible = Some due, rj_completed = False, rj_exit = None, rj_failure = None, rj_cycle = key\<rparr> s, Some i)))"

definition or_no_fingerprint :: "pystr option \<Rightarrow> pystr" where
  "or_no_fingerprint fp = (case fp of None \<Rightarrow> py ''no-fingerprint'' | Some f \<Rightarrow> f)"

text \<open>One of the four registrations: the condition, the command with its key, and what is noted when it is new.\<close>

definition default_cycle :: "(json \<Rightarrow> pystr) \<Rightarrow> bool \<Rightarrow> research_command \<Rightarrow> utc \<Rightarrow> pystr option \<Rightarrow> pystr \<Rightarrow> ('c supervisor \<Rightarrow> 'c supervisor)
    \<Rightarrow> 'c supervisor \<times> pystr list \<Rightarrow> ('c supervisor \<times> pystr list) result" where
  "default_cycle dg cond c now fp key note st = (if \<not> cond then Inr st
     else bindR (register_cycle dg c now fp key (fst st)) (\<lambda>(s, r). case r of None \<Rightarrow> Inr (s, snd st) | Some i \<Rightarrow> Inr (note s, snd st @ [i])))"

record context_args =
  cx_session_completed :: bool
  cx_fingerprint :: "pystr option"
  cx_refreshed :: bool
  cx_cutoff :: "datetime option"

text \<open>The registrations stand when a later one raises.\<close>

fun then_or_stop :: "'s \<times> 'a \<Rightarrow> ('s \<times> 'a \<Rightarrow> ('s \<times> 'a) result) list \<Rightarrow> 's \<times> 'a result" where
  "then_or_stop (s, a) [] = (s, Inr a)"
| "then_or_stop (s, a) (f # fs) = (case f (s, a) of Inl e \<Rightarrow> (s, Inl e) | Inr x \<Rightarrow> then_or_stop x fs)"

definition cutoff_time :: "context_args \<Rightarrow> utc option result" where
  "cutoff_time cx = (case cx_cutoff cx of None \<Rightarrow> Inr None | Some t \<Rightarrow> bindR (utc_arg t) (\<lambda>u. Inr (Some u)))"

definition predict_cycle :: "(json \<Rightarrow> pystr) \<Rightarrow> context_args \<Rightarrow> utc \<Rightarrow> pystr option \<Rightarrow> 'c supervisor \<times> pystr list \<Rightarrow> ('c supervisor \<times> pystr list) result" where
  "predict_cycle dg cx now fp st = bindR (cutoff_time cx) (\<lambda>u. case u of None \<Rightarrow> Inr st
     | Some t \<Rightarrow> default_cycle dg (now < t) PREDICT now fp (py ''predict:'' @ or_no_fingerprint fp @ py '':'' @ date_iso (utc_date t)) id st)"

definition register_default_jobs :: "(json \<Rightarrow> pystr) \<Rightarrow> datetime \<Rightarrow> context_args \<Rightarrow> 'c supervisor \<Rightarrow> 'c supervisor \<times> pystr list result" where
  "register_default_jobs dg now0 cx s =
     (case bindR (utc_arg now0) (\<lambda>now. bindR (safe_metadata (cx_fingerprint cx) ''input_fingerprint'') (\<lambda>fp. Inr (now, fp))) of
        Inl e \<Rightarrow> (s, Inl e)
      | Inr (now, fp) \<Rightarrow>
          let day = date_iso (utc_date now) in
          (case then_or_stop (s, [])
             [default_cycle dg (network_enabled s \<and> cx_session_completed cx) HISTORY now fp (py ''history:'' @ day) (\<lambda>s. s\<lparr>last_history := Some day\<rparr>),
              (\<lambda>st. case fp of None \<Rightarrow> Inr st | Some f \<Rightarrow> default_cycle dg True SCREEN now fp (py ''screen:'' @ f) (\<lambda>s. s\<lparr>last_screen := fp\<rparr>) st),
              predict_cycle dg cx now fp,
              default_cycle dg (cx_refreshed cx) SETTLE now fp (py ''settle:'' @ or_no_fingerprint fp @ py '':'' @ day) id] of
             (s1, Inl e) \<Rightarrow> (s1, Inl e)
           | (s1, Inr ids) \<Rightarrow> (prune s1, Inr ids)))"

section \<open>Starting\<close>

definition active_classes :: "'c world \<Rightarrow> 'c supervisor \<Rightarrow> resource_class set" where
  "active_classes w s = set (concat (map (\<lambda>(i, c). if running w c then (case dict_get (jobs s) i of None \<Rightarrow> [] | Some j \<Rightarrow> [class_of j]) else []) (children s)))"

lemma active_classesI:
  assumes "(i, c) \<in> set (children s)" "running w c" "dict_get (jobs s) i = Some j"
  shows "class_of j \<in> active_classes w s"
  unfolding active_classes_def set_concat set_map by (rule UN_I, rule imageI, rule assms(1)) (simp add: assms)

definition launch_failed :: "research_job \<Rightarrow> research_job" where
  "launch_failed j = j\<lparr>rj_failure := Some (py ''LAUNCH_FAILED''), rj_exit := Some (- 1)\<rparr>"

text \<open>The guards of the loop, each of which passes over a job.  A finished child stays owned evidence and is not started again.\<close>

definition may_start :: "utc \<Rightarrow> resource_class set \<Rightarrow> 'c supervisor \<Rightarrow> research_job \<Rightarrow> bool" where
  "may_start now act s j \<longleftrightarrow> \<not> (rj_completed j \<or> rj_id j \<in> terminal s) \<and> dict_get (children s) (rj_id j) = None
     \<and> \<not> (now < rj_due j \<or> now < (case rj_eligible j of None \<Rightarrow> rj_due j | Some t \<Rightarrow> t))
     \<and> \<not> (class_of j = NETWORK \<and> \<not> network_enabled s) \<and> class_of j \<notin> act"

definition not_launched :: "research_job \<Rightarrow> 'c supervisor \<Rightarrow> 'c supervisor" where
  "not_launched j s = s\<lparr>jobs := dict_set (jobs s) (rj_id j) (launch_failed j), terminal := insert (rj_id j) (terminal s)\<rparr>"

definition own_child :: "research_job \<Rightarrow> 'c \<Rightarrow> 'c supervisor \<Rightarrow> 'c supervisor" where
  "own_child j c s = s\<lparr>children := dict_set (children s) (rj_id j) c\<rparr>"

fun start_loop :: "(research_job \<Rightarrow> 'c option) \<Rightarrow> utc \<Rightarrow> research_job list \<Rightarrow> resource_class set \<Rightarrow> 'c supervisor \<Rightarrow> 'c supervisor \<times> pystr list" where
  "start_loop launch now [] act s = (s, [])"
| "start_loop launch now (j # js) act s =
     (if \<not> may_start now act s j then start_loop launch now js act s
      else case launch j of
        None \<Rightarrow> start_loop launch now js act (not_launched j s)
      | Some c \<Rightarrow> (case start_loop launch now js (insert (class_of j) act) (own_child j c s) of (s', ids) \<Rightarrow> (s', rj_id j # ids)))"

text \<open>The children are looked at once when they are collected (\<open>w\<close>) and again for the active classes (\<open>w'\<close>).\<close>

definition start_due_jobs :: "(json \<Rightarrow> pystr) \<Rightarrow> 'c world \<Rightarrow> 'c world \<Rightarrow> (research_job \<Rightarrow> 'c option) \<Rightarrow> datetime \<Rightarrow> 'c supervisor \<Rightarrow> 'c supervisor \<times> pystr list result" where
  "start_due_jobs dg w w' launch now0 s =
     (if \<not> accepting s then (s, Inr [])
      else case utc_arg now0 of Inl e \<Rightarrow> (s, Inl e) | Inr now \<Rightarrow>
      (case collect_finished dg w s of
         (s1, Inl e) \<Rightarrow> (s1, Inl e)
       | (s1, Inr _) \<Rightarrow> (case start_loop launch now (map snd (jobs s1)) (active_classes w' s1) s1 of (s2, ids) \<Rightarrow> (s2, Inr ids))))"

definition resume_eligible :: "'c supervisor \<Rightarrow> pystr list" where
  "resume_eligible s = map rj_id (filter (\<lambda>j. \<not> rj_completed j \<and> rj_id j \<notin> terminal s) (map snd (jobs s)))"

text \<open>\<open>w'\<close> is what became of the children after they were told to stop; \<open>raised\<close> are those for which that raised.\<close>

definition shutdown :: "(json \<Rightarrow> pystr) \<Rightarrow> 'c world \<Rightarrow> 'c world \<Rightarrow> ('c \<Rightarrow> bool) \<Rightarrow> 'c supervisor \<Rightarrow> 'c supervisor \<times> (bool \<times> bool) result" where
  "shutdown dg w w' raised s = (case collect_finished dg w (s\<lparr>accepting := False\<rparr>) of
       (s1, Inl e) \<Rightarrow> (s1, Inl e)
     | (s1, Inr _) \<Rightarrow> (case write_checkpoint dg w s1 of (s2, saved) \<Rightarrow>
         (s2, Inr (saved, list_all (\<lambda>(i, c). \<not> raised c \<and> \<not> running w' c) (children s2)))))"

text \<open>One tick of \<^verbatim>\<open>ResearchLifecycle\<close>: the context comes from the workbench, and its exceptions are swallowed.\<close>

definition swallowed :: "pyerror \<Rightarrow> bool" where
  "swallowed e \<longleftrightarrow> is_value_error e \<or> e = OSError \<or> (case e of TypeError _ \<Rightarrow> True | _ \<Rightarrow> False)"

definition lifecycle_tick :: "(json \<Rightarrow> pystr) \<Rightarrow> 'c world \<Rightarrow> 'c world \<Rightarrow> (research_job \<Rightarrow> 'c option) \<Rightarrow> datetime \<Rightarrow> context_args result \<Rightarrow> 'c supervisor
    \<Rightarrow> 'c supervisor \<times> pystr list result" where
  "lifecycle_tick dg w w' launch now cx s =
     (let quiet = (\<lambda>(s', r). (s', case r of Inl e \<Rightarrow> if swallowed e then Inr [] else Inl e | Inr ids \<Rightarrow> Inr ids)) in
      case utc_arg now of Inl e \<Rightarrow> quiet (s, Inl e) | Inr u \<Rightarrow>
      (case cx of Inl e \<Rightarrow> quiet (s, Inl e) | Inr c \<Rightarrow>
      (case register_default_jobs dg (utc_datetime u) c s of
         (s1, Inl e) \<Rightarrow> quiet (s1, Inl e)
       | (s1, Inr _) \<Rightarrow> quiet (start_due_jobs dg w w' launch (utc_datetime u) s1))))"

end
