(* ===== verification/Research_Properties.thy ===== *)
theory Research_Properties
  imports Research_Supervisor
begin

text \<open>
  The research supervisor: no more than one running child of each resource class, no completed job without verified evidence,
  and what a day's changed input does to the ticks of a workbench.
\<close>

section \<open>Operations\<close>

text \<open>
  What a workbench does with its supervisor, with the worlds that each operation sees.  A registration of a chosen identifier
  (\<^verbatim>\<open>register_job\<close>) is an operation of its own.
\<close>

datatype 'c sup_op =
    Add registration_args
  | AddDefaults datetime context_args
  | StartDue "'c world" "'c world" "research_job \<Rightarrow> 'c option" datetime
  | Tick "'c world" "'c world" "research_job \<Rightarrow> 'c option" datetime "context_args result"
  | Stop "'c world" "'c world" "'c \<Rightarrow> bool"

fun perform_op :: "(json \<Rightarrow> pystr) \<Rightarrow> 'c sup_op \<Rightarrow> 'c supervisor \<Rightarrow> 'c supervisor" where
  "perform_op dg (Add a) s = (case register_job a s of Inl _ \<Rightarrow> s | Inr s' \<Rightarrow> s')"
| "perform_op dg (AddDefaults now cx) s = fst (register_default_jobs dg now cx s)"
| "perform_op dg (StartDue w w' launch now) s = fst (start_due_jobs dg w w' launch now s)"
| "perform_op dg (Tick w w' launch now cx) s = fst (lifecycle_tick dg w w' launch now cx s)"
| "perform_op dg (Stop w w' raised) s = fst (shutdown dg w w' raised s)"

text \<open>The world in which an operation collects the children that have exited.\<close>

fun seen :: "'c sup_op \<Rightarrow> 'c world set" where
  "seen (Add _) = {}"
| "seen (AddDefaults _ _) = {}"
| "seen (StartDue w _ _ _) = {w}"
| "seen (Tick w _ _ _ _) = {w}"
| "seen (Stop w _ _) = {w}"

section \<open>Evidence\<close>

definition evidenced :: "'c world \<Rightarrow> research_job \<Rightarrow> bool" where
  "evidenced w j \<longleftrightarrow> (\<exists>status d. read_child_status w j = Inr status \<and> safe_status_digest (dict_get status ''artifact_digest'') = Some d
     \<and> rj_artifact j = Some d \<and> verified_artifact w j status d)"

definition all_evidenced :: "'c world set \<Rightarrow> 'c supervisor \<Rightarrow> bool" where
  "all_evidenced W s \<longleftrightarrow> (\<forall>i j. (i, j) \<in> set (jobs s) \<and> rj_completed j \<longrightarrow> (\<exists>w \<in> W. evidenced w j))"

lemma verified_same: "verified_artifact w j' status d = verified_artifact w j status d" "read_child_status w j' = read_child_status w j"
  if "rj_id j' = rj_id j" "rj_command j' = rj_command j"
  unfolding verified_artifact_def evidence_path_def read_child_status_def status_object_def that by (rule refl)+

lemma collected_evidenced:
  assumes "read_child_status w j = Inr status" "rj_completed (collected w j c status)"
  shows "evidenced w (collected w j c status) \<and> exit_code w c = Some 0"
proof -
  let ?j = "collected w j c status"
  have id: "rj_id ?j = rj_id j" "rj_command ?j = rj_command j" by (simp_all add: collected_def Let_def)
  obtain d where d: "safe_status_digest (dict_get status ''artifact_digest'') = Some d" "verified_artifact w j status d" "exit_code w c = Some 0"
    using assms(2) by (auto simp: collected_def Let_def split: option.splits)
  have "rj_artifact ?j = Some d" by (simp add: collected_def Let_def d)
  then show ?thesis using d assms(1) verified_same[OF id] unfolding evidenced_def by metis
qed

lemma all_evidencedI:
  assumes "all_evidenced W s" "W \<subseteq> W'" "\<And>i j. (i, j) \<in> set (jobs s') \<Longrightarrow> rj_completed j \<Longrightarrow> (i, j) \<in> set (jobs s) \<or> (\<exists>w \<in> W'. evidenced w j)"
  shows "all_evidenced W' s'"
  using assms unfolding all_evidenced_def by blast

lemma collect_children_evidenced:
  "collect_children w cs ch s = (s', r) \<Longrightarrow> all_evidenced W s \<Longrightarrow> w \<in> W \<Longrightarrow> all_evidenced W s'"
proof (induction w cs ch s rule: collect_children.induct)
  case (2 w i c cs ch s)
  show ?case
  proof (cases "running w c \<or> dict_get (jobs s) i = None")
    case True
    then show ?thesis using 2 by (auto split: option.splits)
  next
    case False
    then obtain j where j: "\<not> running w c" "dict_get (jobs s) i = Some j" by auto
    show ?thesis
    proof (cases "read_child_status w j")
      case (Inl e)
      then show ?thesis using "2.prems" j by simp
    next
      case (Inr status)
      let ?s = "s\<lparr>jobs := dict_set (jobs s) i (collected w j c status), terminal := insert i (terminal s), children := dict_pop (children s) i\<rparr>"
      have "all_evidenced W ?s"
        by (rule all_evidencedI[OF "2.prems"(2) subset_refl])
          (use collected_evidenced[OF Inr, of c] "2.prems"(3) in \<open>auto dest!: dict_set_mem\<close>)
      then show ?thesis using "2.IH"(3)[OF j Inr] "2.prems" j Inr by simp
    qed
  qed
qed simp

lemma prune_evidenced: "all_evidenced W s \<Longrightarrow> all_evidenced W (prune s)"
  by (auto simp: all_evidenced_def prune_def)

lemma write_evidenced: "all_evidenced W (fst (write_checkpoint dg w s)) = all_evidenced W s"
  by (simp add: write_checkpoint_def Let_def all_evidenced_def)

lemma collect_finished_evidenced:
  assumes "collect_finished dg w s = (s', r)" "all_evidenced W s" "w \<in> W"
  shows "all_evidenced W s'"
proof -
  obtain s1 x where c: "collect_children w (children s) False s = (s1, x)" by (rule prod.exhaust)
  have "all_evidenced W s1" using collect_children_evidenced[OF c assms(2,3)] .
  then show ?thesis using assms(1) by (auto simp: collect_finished_def c Let_def write_evidenced prune_evidenced split: sum.splits if_splits)
qed

lemma put_job_evidenced: "all_evidenced W s \<Longrightarrow> \<not> rj_completed j \<Longrightarrow> all_evidenced W (put_job i j s)"
  by (auto simp: all_evidenced_def put_job_def dest!: dict_set_mem)

lemma register_job_evidenced: "register_job a s = Inr s' \<Longrightarrow> all_evidenced W s \<Longrightarrow> all_evidenced W s'"
  by (auto simp: register_job_def Let_def bindR_Inr_iff split: option.splits if_splits intro!: put_job_evidenced)

lemma register_cycle_evidenced: "register_cycle dg c due fp key s = Inr (s', i) \<Longrightarrow> all_evidenced W s \<Longrightarrow> all_evidenced W s'"
  by (auto simp: register_cycle_def Let_def bindR_Inr_iff split: option.splits if_splits intro!: put_job_evidenced)

text \<open>A predicate on supervisors that single registrations keep is kept by all of \<^verbatim>\<open>register_default_jobs\<close>.\<close>

definition ignores_notes :: "('c supervisor \<Rightarrow> bool) \<Rightarrow> bool" where
  "ignores_notes P \<longleftrightarrow> (\<forall>s h. P (s\<lparr>last_history := h\<rparr>) = P s) \<and> (\<forall>s h. P (s\<lparr>last_screen := h\<rparr>) = P s)"

lemma then_or_stop_inv:
  assumes "then_or_stop (s, a) fs = (s', r)" "P s" "\<And>f s a s1 a1. f \<in> set fs \<Longrightarrow> P s \<Longrightarrow> f (s, a) = Inr (s1, a1) \<Longrightarrow> P s1"
  shows "P s'"
  using assms
proof (induction "(s, a)" fs arbitrary: s a rule: then_or_stop.induct)
  case (2 s a f fs)
  show ?case
  proof (cases "f (s, a)")
    case (Inl e)
    then show ?thesis using "2.prems" by simp
  next
    case (Inr x)
    obtain s1 a1 where x: "x = (s1, a1)" by (cases x)
    have "P s1" using "2.prems"(3)[of f s a s1 a1] "2.prems"(2) Inr x by simp
    have run: "then_or_stop (s1, a1) fs = (s', r)" using "2.prems"(1) Inr x by simp
    show ?thesis
    proof (rule "2.hyps"(1)[OF Inr[unfolded x] run \<open>P s1\<close>])
      fix g t b u d assume "g \<in> set fs" "P t" "g (t, b) = Inr (u, d)"
      then show "P u" using "2.prems"(3)[of g] by simp
    qed
  qed
qed simp

lemma default_cycle_inv:
  assumes "default_cycle dg cond c now fp key note (s, ids) = Inr (s', ids')" "P s"
    "\<And>s t i. register_cycle dg c now fp key s = Inr (t, i) \<Longrightarrow> P s \<Longrightarrow> P t" "\<And>s. P (note s) = P s"
  shows "P s'"
  using assms by (auto simp: default_cycle_def bindR_Inr_iff split: if_splits prod.splits option.splits)

lemma register_default_inv:
  assumes "register_default_jobs dg now cx s = (s', r)" "P s" "ignores_notes P"
    "\<And>c d fp key s t i. register_cycle dg c d fp key s = Inr (t, i) \<Longrightarrow> P s \<Longrightarrow> P t" "\<And>s. P s \<Longrightarrow> P (prune s)"
  shows "P s'"
proof -
  have cyc: "default_cycle dg b c d fp key nt (s, ids) = Inr (s', ids') \<Longrightarrow> P s \<Longrightarrow> (\<And>s. P (nt s) = P s) \<Longrightarrow> P s'" for b c d fp key nt s ids s' ids'
    by (erule default_cycle_inv[where P = P]) (assumption, erule (1) assms(4), simp)
  have pred: "predict_cycle dg cx d fp (s, ids) = Inr (s', ids') \<Longrightarrow> P s \<Longrightarrow> P s'" for d fp s ids s' ids'
    using cyc by (auto simp: predict_cycle_def bindR_Inr_iff split: option.splits)
  have nts: "P (s\<lparr>last_history := h\<rparr>) = P s" "P (s\<lparr>last_screen := h\<rparr>) = P s" for s h using assms(3) by (simp_all add: ignores_notes_def)
  show ?thesis
  proof (cases "bindR (utc_arg now) (\<lambda>now. bindR (safe_metadata (cx_fingerprint cx) ''input_fingerprint'') (\<lambda>fp. Inr (now, fp)))")
    case (Inl e)
    then show ?thesis using assms(1,2) by (simp add: register_default_jobs_def)
  next
    case (Inr x)
    obtain d fp where x: "x = (d, fp)" by (cases x)
    define fs :: "('a supervisor \<times> pystr list \<Rightarrow> ('a supervisor \<times> pystr list) result) list" where "fs =
       [default_cycle dg (network_enabled s \<and> cx_session_completed cx) HISTORY d fp (py ''history:'' @ date_iso (utc_date d)) (\<lambda>s. s\<lparr>last_history := Some (date_iso (utc_date d))\<rparr>),
        (\<lambda>st. case fp of None \<Rightarrow> Inr st | Some f \<Rightarrow> default_cycle dg True SCREEN d fp (py ''screen:'' @ f) (\<lambda>s. s\<lparr>last_screen := fp\<rparr>) st),
        predict_cycle dg cx d fp,
        default_cycle dg (cx_refreshed cx) SETTLE d fp (py ''settle:'' @ or_no_fingerprint fp @ py '':'' @ date_iso (utc_date d)) id]"
    obtain s1 r1 where run: "then_or_stop (s, []) fs = (s1, r1)" by (rule prod.exhaust)
    have "P s1"
    proof (rule then_or_stop_inv[where P = P, OF run assms(2)])
      fix f and t :: "'a supervisor" and a u b assume f: "f \<in> set fs" and p: "P t" and st: "f (t, a) = Inr (u, b)"
      show "P u" using f p st cyc pred nts by (auto simp: fs_def split: option.splits)
    qed
    moreover have "register_default_jobs dg now cx s = (case (s1, r1) of (s1, Inl e) \<Rightarrow> (s1, Inl e) | (s1, Inr ids) \<Rightarrow> (prune s1, Inr ids))"
      unfolding register_default_jobs_def Inr x Let_def run[symmetric] fs_def by simp
    ultimately show ?thesis using assms(1,5) by (auto split: sum.splits)
  qed
qed

lemma notes_evidenced: "ignores_notes (all_evidenced W)"
  by (simp add: ignores_notes_def all_evidenced_def)

text \<open>What every start and every failed launch keeps is kept by the loop.\<close>

lemma start_loop_inv:
  assumes "start_loop launch now js act s = (s', ids)" "P act s"
    "\<And>act s j. j \<in> set js \<Longrightarrow> P act s \<Longrightarrow> may_start now act s j \<Longrightarrow> launch j = None \<Longrightarrow> P act (not_launched j s)"
    "\<And>act s j c. j \<in> set js \<Longrightarrow> P act s \<Longrightarrow> may_start now act s j \<Longrightarrow> launch j = Some c \<Longrightarrow> P (insert (class_of j) act) (own_child j c s)"
  shows "\<exists>act'. P act' s'"
  using assms
proof (induction js arbitrary: act s ids)
  case (Cons j js)
  have fail: "\<And>act s k. k \<in> set js \<Longrightarrow> P act s \<Longrightarrow> may_start now act s k \<Longrightarrow> launch k = None \<Longrightarrow> P act (not_launched k s)"
    and own: "\<And>act s k c. k \<in> set js \<Longrightarrow> P act s \<Longrightarrow> may_start now act s k \<Longrightarrow> launch k = Some c \<Longrightarrow> P (insert (class_of k) act) (own_child k c s)"
    using Cons.prems(3,4) by simp_all
  show ?case
  proof (cases "may_start now act s j")
    case False
    then have run: "start_loop launch now js act s = (s', ids)" using Cons.prems(1) by simp
    show ?thesis by (rule Cons.IH[OF run Cons.prems(2)]) (erule (3) fail, erule (3) own)
  next
    case True
    show ?thesis
    proof (cases "launch j")
      case None
      have run: "start_loop launch now js act (not_launched j s) = (s', ids)" using Cons.prems(1) True None by simp
      have p: "P act (not_launched j s)" using Cons.prems(3)[OF _ Cons.prems(2) True None] by simp
      show ?thesis by (rule Cons.IH[OF run p]) (erule (3) fail, erule (3) own)
    next
      case (Some c)
      obtain t rest where t: "start_loop launch now js (insert (class_of j) act) (own_child j c s) = (t, rest)" by (rule prod.exhaust)
      then have run: "start_loop launch now js (insert (class_of j) act) (own_child j c s) = (s', rest)" using Cons.prems(1) True Some by simp
      have p: "P (insert (class_of j) act) (own_child j c s)" using Cons.prems(4)[OF _ Cons.prems(2) True Some] by simp
      show ?thesis by (rule Cons.IH[OF run p]) (erule (3) fail, erule (3) own)
    qed
  qed
qed auto

lemma start_loop_evidenced:
  assumes "start_loop launch now js act s = (s', ids)" "all_evidenced W s"
  shows "all_evidenced W s'"
proof -
  have "\<exists>act' :: resource_class set. all_evidenced W s'"
    by (rule start_loop_inv[where P = "\<lambda>_. all_evidenced W", OF assms])
      (auto simp: all_evidenced_def not_launched_def own_child_def launch_failed_def may_start_def dest!: dict_set_mem)
  then show ?thesis by simp
qed

lemma start_due_evidenced:
  assumes "start_due_jobs dg w w' launch now s = (s', r)" "all_evidenced W s" "w \<in> W"
  shows "all_evidenced W s'"
proof (cases "accepting s \<and> (\<exists>u. utc_arg now = Inr u)")
  case True
  then obtain u where u: "accepting s" "utc_arg now = Inr u" by blast
  obtain s1 x where c: "collect_finished dg w s = (s1, x)" by (rule prod.exhaust)
  have e: "all_evidenced W s1" by (rule collect_finished_evidenced[OF c assms(2,3)])
  obtain s2 ids where l: "start_loop launch u (map snd (jobs s1)) (active_classes w' s1) s1 = (s2, ids)" by (rule prod.exhaust)
  show ?thesis using assms(1) u c l e start_loop_evidenced[OF l e] by (cases x) (auto simp: start_due_jobs_def)
next
  case False
  then show ?thesis using assms by (auto simp: start_due_jobs_def split: sum.splits if_splits)
qed

lemma register_default_evidenced:
  assumes "register_default_jobs dg now cx s = (s', r)" "all_evidenced W s"
  shows "all_evidenced W s'"
  by (rule register_default_inv[OF assms notes_evidenced]) (erule (1) register_cycle_evidenced, erule prune_evidenced)

lemma tick_evidenced:
  assumes "lifecycle_tick dg w w' launch now cx s = (s', r)" "all_evidenced W s" "w \<in> W"
  shows "all_evidenced W s'"
proof (cases "\<exists>u c. utc_arg now = Inr u \<and> cx = Inr c")
  case True
  then obtain u c where u: "utc_arg now = Inr u" "cx = Inr c" by blast
  obtain s1 x where d: "register_default_jobs dg (utc_datetime u) c s = (s1, x)" by (rule prod.exhaust)
  obtain s2 y where t: "start_due_jobs dg w w' launch (utc_datetime u) s1 = (s2, y)" by (rule prod.exhaust)
  show ?thesis
    using assms(1) u d t register_default_evidenced[OF d assms(2)] start_due_evidenced[OF t register_default_evidenced[OF d assms(2)] assms(3)]
    by (cases x) (simp_all add: lifecycle_tick_def)
next
  case False
  then show ?thesis using assms by (auto simp: lifecycle_tick_def Let_def split: sum.splits)
qed

lemma shutdown_evidenced:
  assumes "shutdown dg w w' raised s = (s', r)" "all_evidenced W s" "w \<in> W"
  shows "all_evidenced W s'"
proof -
  obtain s1 x where c: "collect_finished dg w (s\<lparr>accepting := False\<rparr>) = (s1, x)" by (rule prod.exhaust)
  have "all_evidenced W s1" by (rule collect_finished_evidenced[OF c _ assms(3)]) (use assms(2) in \<open>simp add: all_evidenced_def\<close>)
  then show ?thesis using assms(1) c write_evidenced[of W dg w s1] by (cases x) (auto simp: shutdown_def split: prod.splits)
qed

lemma perform_op_evidenced: "all_evidenced W s \<Longrightarrow> seen op \<subseteq> W \<Longrightarrow> all_evidenced W (perform_op dg op s)"
  by (cases op) (auto split: sum.splits intro: register_job_evidenced register_default_evidenced[OF prod.collapse[symmetric]]
      start_due_evidenced[OF prod.collapse[symmetric]] tick_evidenced[OF prod.collapse[symmetric]] shutdown_evidenced[OF prod.collapse[symmetric]])

lemma restored_job_evidenced:
  assumes "restored_job w j = Inr (j', b)" "rj_completed j'"
  shows "evidenced w j'"
proof -
  have c: "rj_completed j" using assms by (auto simp: restored_job_def split: if_splits)
  then obtain status where st: "read_child_status w j = Inr status" using assms(1) by (auto simp: restored_job_def bindR_Inr_iff)
  then obtain d where d: "safe_status_digest (dict_get status ''artifact_digest'') = Some d"
    using assms c by (auto simp: restored_job_def split: option.splits)
  then have "Some d = rj_artifact j \<and> verified_artifact w j status d \<and> j' = j" using assms c st by (auto simp: restored_job_def split: if_splits)
  then show ?thesis using st d unfolding evidenced_def by metis
qed

lemma restore_items_evidenced:
  assumes "restore_items w vs r = (r', x)" "\<forall>(i, j) \<in> set (rs_jobs r). rj_completed j \<longrightarrow> evidenced w j"
  shows "\<forall>(i, j) \<in> set (rs_jobs r'). rj_completed j \<longrightarrow> evidenced w j"
  using assms
proof (induction vs arbitrary: r)
  case (Cons v vs)
  obtain r1 y where s: "restore_item w v r = (r1, y)" by (rule prod.exhaust)
  have "\<forall>(i, j) \<in> set (rs_jobs r1). rj_completed j \<longrightarrow> evidenced w j"
    using s Cons.prems(2) by (auto simp: restore_item_def dest!: dict_set_mem dest: restored_job_evidenced split: json.splits if_splits sum.splits prod.splits)
  then show ?case using Cons.IH[of r1] Cons.prems(1) s by (auto split: sum.splits bool.splits)
qed simp

lemma new_supervisor_evidenced:
  assumes "new_supervisor dg w net f = (s, r)"
  shows "all_evidenced {w} s"
  using assms restore_items_evidenced[of w]
  by (fastforce simp: new_supervisor_def restore_schedule_def all_evidenced_def split: option.splits json.splits prod.splits sum.splits bool.splits)

text \<open>C27: In any run of a supervisor from its checkpoint, whatever the file holds: a job counts as completed only if in one of the
  worlds that the run has looked at its own status file named its evidence file and a digest, that file was the evidence of this job
  and command, and its SHA-256 was the digest, which the job still carries.\<close>

theorem completed_has_evidence:
  assumes "new_supervisor dg w0 net f = (s0, r)" "s = foldl (\<lambda>s op. perform_op dg op s) s0 ops"
    and "(i, j) \<in> set (jobs s)" "rj_completed j"
  shows "\<exists>w \<in> insert w0 (\<Union> (seen ` set ops)). \<exists>status d. read_child_status w j = Inr status \<and> safe_status_digest (dict_get status ''artifact_digest'') = Some d
    \<and> rj_artifact j = Some d \<and> verified_artifact w j status d"
proof -
  have run: "all_evidenced W t \<Longrightarrow> (\<And>op. op \<in> set ops \<Longrightarrow> seen op \<subseteq> W) \<Longrightarrow> all_evidenced W (foldl (\<lambda>s op. perform_op dg op s) t ops)" for W t
    by (induction ops arbitrary: t) (auto intro: perform_op_evidenced)
  have "all_evidenced (insert w0 (\<Union> (seen ` set ops))) s0"
    using new_supervisor_evidenced[OF assms(1)] by (auto simp: all_evidenced_def)
  then have "all_evidenced (insert w0 (\<Union> (seen ` set ops))) s" unfolding assms(2) by (rule run) blast
  then show ?thesis using assms(3,4) unfolding all_evidenced_def evidenced_def by blast
qed

section \<open>One child of each class\<close>

definition class_at :: "'c supervisor \<Rightarrow> pystr \<Rightarrow> resource_class option" where
  "class_at s i = map_option class_of (dict_get (jobs s) i)"

text \<open>\<open>A\<close> are the processes that run.\<close>

definition exclusive :: "'c set \<Rightarrow> 'c supervisor \<Rightarrow> bool" where
  "exclusive A s \<longleftrightarrow> distinct (map fst (children s)) \<and> (\<forall>(i, c) \<in> set (children s). class_at s i \<noteq> None)
     \<and> (\<forall>(i, c) \<in> set (children s). \<forall>(i', c') \<in> set (children s). c \<in> A \<longrightarrow> c' \<in> A \<longrightarrow> class_at s i = class_at s i' \<longrightarrow> i = i')
     \<and> (\<not> network_enabled s \<longrightarrow> (\<forall>(i, c) \<in> set (children s). class_at s i \<noteq> Some NETWORK))
     \<and> (\<forall>(i, j) \<in> set (jobs s). rj_id j = i)"

lemma exclusiveD:
  assumes "exclusive A s"
  shows "(i, c) \<in> set (children s) \<Longrightarrow> (i', c') \<in> set (children s) \<Longrightarrow> c \<in> A \<Longrightarrow> c' \<in> A \<Longrightarrow> class_at s i = class_at s i' \<Longrightarrow> i = i'"
    "distinct (map fst (children s))" "(i, c) \<in> set (children s) \<Longrightarrow> \<not> network_enabled s \<Longrightarrow> class_at s i \<noteq> Some NETWORK"
  using assms unfolding exclusive_def by blast+

lemma exclusive_on:
  assumes "exclusive A s" "\<And>i c. (i, c) \<in> set (children s) \<Longrightarrow> c \<in> B \<Longrightarrow> c \<in> A"
  shows "exclusive B s"
proof -
  have "\<forall>(i, c) \<in> set (children s). \<forall>(i', c') \<in> set (children s). c \<in> B \<longrightarrow> c' \<in> B \<longrightarrow> class_at s i = class_at s i' \<longrightarrow> i = i'"
    using assms unfolding exclusive_def by blast
  then show ?thesis using assms(1) unfolding exclusive_def by (elim conjE) (intro conjI)
qed

lemma exclusive_mono: "exclusive A s \<Longrightarrow> B \<subseteq> A \<Longrightarrow> exclusive B s"
  by (erule exclusive_on) blast

lemma exclusive_step:
  assumes "exclusive A s" "set (children s') \<subseteq> set (children s)" "distinct (map fst (children s'))" "network_enabled s' = network_enabled s"
    "\<And>i c. (i, c) \<in> set (children s') \<Longrightarrow> class_at s' i = class_at s i" "\<forall>(i, j) \<in> set (jobs s'). rj_id j = i"
  shows "exclusive A s'"
proof -
  have "\<And>x. x \<in> set (children s') \<Longrightarrow> class_at s' (fst x) = class_at s (fst x) \<and> x \<in> set (children s)" using assms(2,5) by fastforce
  then show ?thesis using assms(1,3,4,6) unfolding exclusive_def by (simp add: split_def)
qed

lemma exclusive_fields:
  "exclusive A (s\<lparr>accepting := a\<rparr>) = exclusive A s" "exclusive A (s\<lparr>last_history := h\<rparr>) = exclusive A s"
  "exclusive A (s\<lparr>last_screen := h\<rparr>) = exclusive A s" "exclusive A (s\<lparr>job_file := f\<rparr>) = exclusive A s"
  by (simp_all add: exclusive_def class_at_def)

lemma exclusive_write: "exclusive A (fst (write_checkpoint dg w s)) = exclusive A s"
  by (simp add: write_checkpoint_def Let_def exclusive_fields)

lemma dict_get_filter: "dict_get (filter (\<lambda>(k, v). k \<notin> X) d) i = (if i \<in> X then None else dict_get d i)"
  by (induction d) (auto split: if_splits)

lemma dict_get_Some_mem: "dict_get d i = Some v \<Longrightarrow> (i, v) \<in> set d"
  by (simp add: dict_get_map_of map_of_SomeD)

lemma exclusive_prune:
  assumes "exclusive A s"
  shows "exclusive A (prune s)"
proof (rule exclusive_step[OF assms])
  fix i c assume "(i, c) \<in> set (children (prune s))"
  then have "i \<notin> set (prunable s)" by (force simp: prune_def prunable_def Let_def dest: in_set_takeD)
  then show "class_at (prune s) i = class_at s i" by (simp add: class_at_def prune_def dict_get_filter)
qed (use assms in \<open>auto simp: exclusive_def prune_def\<close>)

lemma exclusive_collect:
  "collect_children w cs ch s = (s', r) \<Longrightarrow> exclusive A s \<Longrightarrow> exclusive A s' \<and> set (children s') \<subseteq> set (children s)"
proof (induction w cs ch s rule: collect_children.induct)
  case (2 w i c cs ch s)
  show ?case
  proof (cases "running w c \<or> dict_get (jobs s) i = None")
    case True
    then show ?thesis using 2 by (auto split: option.splits)
  next
    case False
    then obtain j where j: "\<not> running w c" "dict_get (jobs s) i = Some j" by auto
    show ?thesis
    proof (cases "read_child_status w j")
      case (Inl e)
      then show ?thesis using "2.prems" j by simp
    next
      case (Inr status)
      let ?s = "s\<lparr>jobs := dict_set (jobs s) i (collected w j c status), terminal := insert i (terminal s), children := dict_pop (children s) i\<rparr>"
      have same: "class_of (collected w j c status) = class_of j" "rj_id (collected w j c status) = rj_id j"
        by (simp_all add: collected_def Let_def class_of_def)
      have id: "rj_id j = i" using "2.prems"(2) dict_get_Some_mem[OF j(2)] by (auto simp: exclusive_def)
      have "exclusive A ?s"
      proof (rule exclusive_step[OF "2.prems"(2)])
        show "\<forall>(i, j) \<in> set (jobs ?s). rj_id j = i" using "2.prems"(2) same id by (auto simp: exclusive_def dest!: dict_set_mem)
        show "class_at ?s k = class_at s k" if "(k, d) \<in> set (children ?s)" for k d using j(2) same by (simp add: class_at_def)
      qed (use "2.prems"(2) in \<open>auto simp: exclusive_def dict_pop_def distinct_map_filter\<close>)
      moreover have "set (children ?s) \<subseteq> set (children s)" by (auto simp: dict_pop_def)
      ultimately show ?thesis using "2.IH"(3)[OF j Inr] "2.prems" j Inr by auto
    qed
  qed
qed simp

lemma exclusive_collect_finished:
  assumes "collect_finished dg w s = (s', r)" "exclusive A s"
  shows "exclusive A s' \<and> set (children s') \<subseteq> set (children s)"
proof -
  obtain s1 x where c: "collect_children w (children s) False s = (s1, x)" by (rule prod.exhaust)
  have kids: "children (prune s1) = children s1" "children (fst (write_checkpoint dg w (prune s1))) = children s1"
    by (simp_all add: prune_def write_checkpoint_def Let_def)
  show ?thesis using assms(1) exclusive_collect[OF c assms(2)]
    by (auto simp: collect_finished_def c Let_def kids exclusive_write exclusive_prune split: sum.splits if_splits)
qed

lemma exclusive_put_new:
  assumes "exclusive A s" "dict_get (jobs s) i = None" "rj_id j = i"
  shows "exclusive A (put_job i j s)"
proof (rule exclusive_step[OF assms(1)])
  show "\<forall>(i, j) \<in> set (jobs (put_job i j s)). rj_id j = i" using assms by (auto simp: exclusive_def put_job_def dest!: dict_set_mem)
  fix k c assume "(k, c) \<in> set (children (put_job i j s))"
  then have "class_at s k \<noteq> None" using assms(1) by (auto simp: exclusive_def put_job_def)
  then show "class_at (put_job i j s) k = class_at s k" using assms(2) by (auto simp: class_at_def put_job_def)
qed (use assms(1) in \<open>auto simp: exclusive_def put_job_def\<close>)

lemma register_cycle_put:
  assumes "register_cycle dg c d fp key s = Inr (t, r)"
  shows "t = s \<or> (\<exists>i j. dict_get (jobs s) i = None \<and> rj_id j = i \<and> t = put_job i j s)"
proof -
  obtain k where k: "safe_metadata (Some key) ''cycle_key'' = Inr (Some k)"
    using assms by (auto simp: register_cycle_def bindR_Inr_iff split: option.splits)
  show ?thesis
  proof (cases "dict_get (jobs s) (cycle_job_id dg c k)")
    case None
    then have "\<exists>j. rj_id j = cycle_job_id dg c k \<and> t = put_job (cycle_job_id dg c k) j s"
      using assms k by (simp add: register_cycle_def Let_def) (metis research_job.select_convs(1))
    then show ?thesis using None by blast
  next
    case (Some j)
    then show ?thesis using assms k by (simp add: register_cycle_def Let_def split: if_splits)
  qed
qed

lemma exclusive_cycle: "register_cycle dg c d fp key s = Inr (t, i) \<Longrightarrow> exclusive A s \<Longrightarrow> exclusive A t"
  by (drule register_cycle_put) (auto intro: exclusive_put_new)

lemma exclusive_defaults:
  assumes "register_default_jobs dg now cx s = (s', r)" "exclusive A s"
  shows "exclusive A s' \<and> set (children s') = set (children s)"
proof
  show "exclusive A s'"
    by (rule register_default_inv[where P = "exclusive A", OF assms])
      (simp add: ignores_notes_def exclusive_fields, erule (1) exclusive_cycle, erule exclusive_prune)
  have "children s' = children s"
    by (rule register_default_inv[where P = "\<lambda>t. children t = children s", OF assms(1)])
      (auto simp: ignores_notes_def put_job_def prune_def dest!: register_cycle_put)
  then show "set (children s') = set (children s)" by simp
qed

text \<open>The loop that starts jobs; \<open>act\<close> covers the classes of the children that run.\<close>

definition guarded :: "'c set \<Rightarrow> (pystr \<Rightarrow> resource_class option) \<Rightarrow> resource_class set \<Rightarrow> 'c supervisor \<Rightarrow> bool" where
  "guarded A cl act s \<longleftrightarrow> exclusive A s \<and> class_at s = cl \<and> (\<forall>(i, c) \<in> set (children s). c \<in> A \<longrightarrow> class_at s i \<in> Some ` act)"

lemma guarded_failed:
  assumes "guarded A cl act s" "cl (rj_id j) = Some (class_of j)"
  shows "guarded A cl act (not_launched j s)"
proof -
  have cl: "class_at (not_launched j s) = cl"
    using assms by (auto simp: guarded_def class_at_def not_launched_def launch_failed_def class_of_def fun_eq_iff)
  have "exclusive A (not_launched j s)"
  proof (rule exclusive_step)
    show "\<forall>(i, k) \<in> set (jobs (not_launched j s)). rj_id k = i"
      using assms(1) by (auto simp: guarded_def exclusive_def not_launched_def launch_failed_def dest!: dict_set_mem)
    show "class_at (not_launched j s) i = class_at s i" for i using cl assms(1) by (simp add: guarded_def)
    show "exclusive A s" using assms(1) by (simp add: guarded_def)
  qed (use assms(1) in \<open>auto simp: guarded_def exclusive_def not_launched_def\<close>)
  then show ?thesis using assms(1) cl by (auto simp: guarded_def not_launched_def)
qed

lemma guarded_started:
  assumes "guarded A cl act s" "cl (rj_id j) = Some (class_of j)" "may_start now act s j"
  shows "guarded A cl (insert (class_of j) act) (own_child j c s)"
proof -
  have kids: "children (own_child j c s) = children s @ [(rj_id j, c)]"
  proof -
    have "dict_get d k = None \<Longrightarrow> dict_set d k v = d @ [(k, v)]" for d :: "(pystr \<times> 'a) list" and k v by (induction d) (auto split: if_splits)
    then show ?thesis using assms(3) by (simp add: own_child_def may_start_def)
  qed
  have same: "class_at (own_child j c s) = class_at s" "jobs (own_child j c s) = jobs s" "network_enabled (own_child j c s) = network_enabled s"
    by (simp_all add: own_child_def class_at_def fun_eq_iff)
  have fresh: "rj_id j \<notin> fst ` set (children s)" using assms(3) by (simp add: may_start_def dict_get_None_iff)
  have ex: "exclusive A s" and cl: "class_at s = cl" and act: "\<forall>(i, d) \<in> set (children s). d \<in> A \<longrightarrow> cl i \<in> Some ` act"
    using assms(1) by (auto simp: guarded_def)
  have other: "cl i \<noteq> Some (class_of j)" if "(i, d) \<in> set (children s)" "d \<in> A" for i d
    using that act assms(3) by (fastforce simp: may_start_def)
  have "exclusive A (own_child j c s)"
    unfolding exclusive_def kids same cl
  proof (intro conjI)
    show "distinct (map fst (children s @ [(rj_id j, c)]))" using ex fresh by (auto simp: exclusive_def)
    show "\<forall>(i, d) \<in> set (children s @ [(rj_id j, c)]). cl i \<noteq> None" using ex assms(2) by (auto simp: exclusive_def cl)
    show "\<forall>(i, d) \<in> set (jobs s). rj_id d = i" using ex by (simp add: exclusive_def)
    show "\<not> network_enabled s \<longrightarrow> (\<forall>(i, d) \<in> set (children s @ [(rj_id j, c)]). cl i \<noteq> Some NETWORK)"
      using ex assms(2,3) by (auto simp: exclusive_def cl may_start_def)
    have old: "\<forall>(i, d) \<in> set (children s). \<forall>(i', d') \<in> set (children s). d \<in> A \<longrightarrow> d' \<in> A \<longrightarrow> cl i = cl i' \<longrightarrow> i = i'"
      using ex unfolding exclusive_def cl by blast
    show "\<forall>(i, d) \<in> set (children s @ [(rj_id j, c)]). \<forall>(i', d') \<in> set (children s @ [(rj_id j, c)]). d \<in> A \<longrightarrow> d' \<in> A \<longrightarrow> cl i = cl i' \<longrightarrow> i = i'"
      using old other assms(2) by (auto simp: split_def) metis
  qed
  moreover have "\<forall>(i, d) \<in> set (children s @ [(rj_id j, c)]). d \<in> A \<longrightarrow> cl i \<in> Some ` insert (class_of j) act"
    using act assms(2) by auto
  ultimately show ?thesis by (simp add: guarded_def kids same cl)
qed

lemma exclusive_start_loop:
  assumes "start_loop launch now (map snd (jobs s)) act s = (s', ids)" "exclusive A s"
    "\<forall>(i, c) \<in> set (children s). c \<in> A \<longrightarrow> class_at s i \<in> Some ` act" "distinct (map fst (jobs s))"
  shows "exclusive A s'"
proof -
  have cl: "class_at s (rj_id j) = Some (class_of j)" if mem: "j \<in> set (map snd (jobs s))" for j
  proof -
    obtain i where i: "(i, j) \<in> set (jobs s)" using mem by fastforce
    then have "rj_id j = i" using assms(2) by (auto simp: exclusive_def)
    then show ?thesis using i assms(4) by (simp add: class_at_def dict_get_map_of)
  qed
  have "\<exists>act'. guarded A (class_at s) act' s'"
  proof (rule start_loop_inv[where P = "guarded A (class_at s)", OF assms(1)])
    show "guarded A (class_at s) act s" using assms(2,3) by (simp add: guarded_def)
  next
    fix act t j assume "j \<in> set (map snd (jobs s))" "guarded A (class_at s) act t"
    then show "guarded A (class_at s) act (not_launched j t)" by (intro guarded_failed cl)
  next
    fix act t j c assume "j \<in> set (map snd (jobs s))" "guarded A (class_at s) act t" "may_start now act t j"
    then show "guarded A (class_at s) (insert (class_of j) act) (own_child j c t)" by (intro guarded_started cl)
  qed
  then show ?thesis by (auto simp: guarded_def)
qed

text \<open>The keys of the jobs are distinct, which every operation keeps.\<close>

definition job_keys :: "'c supervisor \<Rightarrow> bool" where
  "job_keys s \<longleftrightarrow> distinct (map fst (jobs s))"

lemma job_keys_collect: "collect_children w cs ch s = (s', r) \<Longrightarrow> job_keys s \<Longrightarrow> job_keys s'"
proof (induction w cs ch s rule: collect_children.induct)
  case (2 w i c cs ch s)
  show ?case using "2.prems"
    by (simp split: if_splits option.splits sum.splits)
      (use "2.IH" in \<open>auto simp: job_keys_def intro: dict_distinct_set\<close>)
qed simp

lemma job_keys_prune: "job_keys s \<Longrightarrow> job_keys (prune s)"
  by (simp add: job_keys_def prune_def distinct_map_filter)

lemma job_keys_put: "job_keys s \<Longrightarrow> job_keys (put_job i j s)"
  by (simp add: job_keys_def put_job_def dict_distinct_set)

lemma job_keys_write: "job_keys (fst (write_checkpoint dg w s)) = job_keys s"
  by (simp add: job_keys_def write_checkpoint_def Let_def)

lemma job_keys_collect_finished:
  assumes "collect_finished dg w s = (s', r)" "job_keys s"
  shows "job_keys s'"
proof -
  obtain s1 x where c: "collect_children w (children s) False s = (s1, x)" by (rule prod.exhaust)
  show ?thesis using assms(1) job_keys_prune[OF job_keys_collect[OF c assms(2)]] job_keys_collect[OF c assms(2)]
    by (auto simp: collect_finished_def c Let_def job_keys_write split: sum.splits if_splits)
qed

lemma job_keys_defaults:
  assumes "register_default_jobs dg now cx s = (s', r)" "job_keys s"
  shows "job_keys s'"
proof (rule register_default_inv[where P = job_keys, OF assms])
  show "ignores_notes (job_keys :: 'a supervisor \<Rightarrow> bool)" by (simp add: ignores_notes_def job_keys_def)
  show "register_cycle dg c d fp key s = Inr (t, i) \<Longrightarrow> job_keys s \<Longrightarrow> job_keys t" for c d fp key i and s t :: "'a supervisor"
    by (drule register_cycle_put) (auto intro: job_keys_put)
qed (rule job_keys_prune)

lemma job_keys_start_loop:
  assumes "start_loop launch now js act s = (s', ids)" "job_keys s"
  shows "job_keys s'"
proof -
  have "\<exists>act' :: resource_class set. job_keys s'"
    by (rule start_loop_inv[where P = "\<lambda>_. job_keys", OF assms]) (auto simp: job_keys_def not_launched_def own_child_def intro: dict_distinct_set)
  then show ?thesis by simp
qed

text \<open>A tick in which the processes that run are at first those of \<open>w\<close> and then those of \<open>w'\<close>; a launch gives a process of its own.\<close>

definition fresh_launches :: "(research_job \<Rightarrow> 'c option) \<Rightarrow> 'c supervisor \<Rightarrow> bool" where
  "fresh_launches launch s \<longleftrightarrow> (\<forall>j c. launch j = Some c \<longrightarrow> c \<notin> snd ` set (children s))"

lemma exclusive_start_due:
  assumes "start_due_jobs dg w w' launch now s = (s', r)" "exclusive {c. running w c} s" "job_keys s" "\<forall>c. running w' c \<longrightarrow> running w c"
    "fresh_launches launch s" "B \<subseteq> {c. running w' c} \<union> {c. \<exists>j. launch j = Some c}"
  shows "exclusive B s' \<and> job_keys s'"
proof -
  obtain s1 x where c: "collect_finished dg w s = (s1, x)" by (rule prod.exhaust)
  have old: "c \<in> B \<Longrightarrow> running w' c" if "(i, c) \<in> set (children s)" for i c
    using that assms(5,6) unfolding fresh_launches_def by force
  have ex: "exclusive B t" if "exclusive {c. running w c} t" "set (children t) \<subseteq> set (children s)" for t
    using that(1)
  proof (rule exclusive_on)
    show "c \<in> {c. running w c}" if "(i, c) \<in> set (children t)" "c \<in> B" for i c
      using that old[of i c] assms(4) \<open>set (children t) \<subseteq> set (children s)\<close> by blast
  qed
  have k: "exclusive {c. running w c} s1" "set (children s1) \<subseteq> set (children s)" "job_keys s1"
    using exclusive_collect_finished[OF c assms(2)] job_keys_collect_finished[OF c assms(3)] by auto
  show ?thesis
  proof (cases "accepting s \<and> (\<exists>u. utc_arg now = Inr u) \<and> x = Inr ()")
    case True
    then obtain u where u: "accepting s" "utc_arg now = Inr u" "x = Inr ()" by blast
    obtain s2 ids where l: "start_loop launch u (map snd (jobs s1)) (active_classes w' s1) s1 = (s2, ids)" by (rule prod.exhaust)
    have cover: "\<forall>(i, c) \<in> set (children s1). c \<in> B \<longrightarrow> class_at s1 i \<in> Some ` active_classes w' s1"
    proof (clarify)
      fix i c assume m: "(i, c) \<in> set (children s1)" "c \<in> B"
      then obtain j where "dict_get (jobs s1) i = Some j" using k(1) by (auto simp: exclusive_def class_at_def)
      then show "class_at s1 i \<in> Some ` active_classes w' s1"
        using active_classesI[OF m(1)] old[of i c] m k(2) by (auto simp: class_at_def)
    qed
    have "exclusive B s2" by (rule exclusive_start_loop[OF l ex[OF k(1,2)] cover]) (use k(3) in \<open>simp add: job_keys_def\<close>)
    moreover have "job_keys s2" by (rule job_keys_start_loop[OF l k(3)])
    ultimately show ?thesis using assms(1) u c l by (simp add: start_due_jobs_def)
  next
    case False
    then have "s' = s \<or> s' = s1" using assms(1) c by (auto simp: start_due_jobs_def split: sum.splits if_splits)
    then show ?thesis using ex assms(2,3) k by auto
  qed
qed

lemma fresh_defaults:
  assumes "register_default_jobs dg now cx s = (s', r)" "exclusive A s" "fresh_launches launch s"
  shows "fresh_launches launch s'"
  using exclusive_defaults[OF assms(1,2)] assms(3) by (simp add: fresh_launches_def)

lemma exclusive_tick:
  assumes "lifecycle_tick dg w w' launch now cx s = (s', r)" "exclusive {c. running w c} s" "job_keys s" "\<forall>c. running w' c \<longrightarrow> running w c"
    "fresh_launches launch s" "B \<subseteq> {c. running w' c} \<union> {c. \<exists>j. launch j = Some c}"
  shows "exclusive B s' \<and> job_keys s'"
proof -
  have here: "exclusive B t \<and> job_keys t" if "exclusive {c. running w c} t" "job_keys t" "fresh_launches launch t" for t
  proof -
    have "c \<in> {c. running w c}" if "(i, c) \<in> set (children t)" "c \<in> B" for i c
      using that \<open>fresh_launches launch t\<close> assms(4,6) unfolding fresh_launches_def by force
    then show ?thesis using exclusive_on[OF that(1)] that(2) by blast
  qed
  show ?thesis
  proof (cases "\<exists>u c. utc_arg now = Inr u \<and> cx = Inr c")
    case True
    then obtain u c where u: "utc_arg now = Inr u" "cx = Inr c" by blast
    obtain s1 x where d: "register_default_jobs dg (utc_datetime u) c s = (s1, x)" by (rule prod.exhaust)
    obtain s2 y where t: "start_due_jobs dg w w' launch (utc_datetime u) s1 = (s2, y)" by (rule prod.exhaust)
    have k: "exclusive {c. running w c} s1" "job_keys s1" "fresh_launches launch s1"
      using exclusive_defaults[OF d assms(2)] job_keys_defaults[OF d assms(3)] fresh_defaults[OF d assms(2,5)] by auto
    have "s' = s1 \<or> s' = s2" using assms(1) u d t by (cases x) (auto simp: lifecycle_tick_def)
    then show ?thesis using here[OF k] exclusive_start_due[OF t k(1,2) assms(4) k(3) assms(6)] by blast
  next
    case False
    then have "s' = s" using assms(1) by (auto simp: lifecycle_tick_def Let_def split: sum.splits)
    then show ?thesis using here assms(2,3,5) by simp
  qed
qed

lemma exclusive_shutdown:
  assumes "shutdown dg w w' raised s = (s', r)" "exclusive A s" "job_keys s"
  shows "exclusive A s' \<and> job_keys s'"
proof -
  obtain s1 x where c: "collect_finished dg w (s\<lparr>accepting := False\<rparr>) = (s1, x)" by (rule prod.exhaust)
  have "exclusive A (s\<lparr>accepting := False\<rparr>)" "job_keys (s\<lparr>accepting := False\<rparr>)" using assms(2,3) by (simp_all add: exclusive_fields job_keys_def)
  then have k: "exclusive A s1" "job_keys s1" using exclusive_collect_finished[OF c] job_keys_collect_finished[OF c] by auto
  have "s' = s1 \<or> s' = fst (write_checkpoint dg w s1)" using assms(1) c by (cases x) (auto simp: shutdown_def split: prod.splits)
  then show ?thesis using k exclusive_write[of A dg w s1] job_keys_write[of dg w s1] by auto
qed

lemma restored_job_id: "restored_job w j = Inr (j', b) \<Longrightarrow> rj_id j' = rj_id j"
  by (auto simp: restored_job_def bindR_Inr_iff split: if_splits option.splits)

lemma restore_item_cases:
  assumes "restore_item w v r = (r1, y)"
  obtains "r1 = r" | j0 j b where "restored_job w j0 = Inr (j, b)" "rs_jobs r1 = dict_set (rs_jobs r) (rj_id j0) j"
proof (cases "\<exists>ob j0 j b. v = JObj ob \<and> valid_job ob \<and> job_of ob = Inr j0 \<and> dict_get (rs_jobs r) (rj_id j0) = None \<and> restored_job w j0 = Inr (j, b)")
  case True
  then obtain ob j0 j b where j: "v = JObj ob" "valid_job ob" "job_of ob = Inr j0" "dict_get (rs_jobs r) (rj_id j0) = None" "restored_job w j0 = Inr (j, b)" by blast
  have "rs_jobs (fst (restore_item w v r)) = dict_set (rs_jobs r) (rj_id j) j"
    unfolding j(1) restore_item_def json.case by (simp add: j(2-5))
  then have "rs_jobs r1 = dict_set (rs_jobs r) (rj_id j0) j" using restored_job_id[OF j(5)] assms by simp
  then show ?thesis using that(2)[OF j(5)] by simp
next
  case False
  then have "r1 = r" using assms by (auto simp: restore_item_def split: json.splits if_splits sum.splits prod.splits)
  then show ?thesis by (rule that(1))
qed

lemma restore_items_keys:
  assumes "restore_items w vs r = (r', x)" "distinct (map fst (rs_jobs r))" "\<forall>(i, j) \<in> set (rs_jobs r). rj_id j = i"
  shows "distinct (map fst (rs_jobs r')) \<and> (\<forall>(i, j) \<in> set (rs_jobs r'). rj_id j = i)"
  using assms
proof (induction vs arbitrary: r)
  case (Cons v vs)
  obtain r1 y where s: "restore_item w v r = (r1, y)" by (rule prod.exhaust)
  have "distinct (map fst (rs_jobs r1)) \<and> (\<forall>(i, j) \<in> set (rs_jobs r1). rj_id j = i)"
  proof (rule restore_item_cases[OF s])
    fix j0 j b assume j: "restored_job w j0 = Inr (j, b)" "rs_jobs r1 = dict_set (rs_jobs r) (rj_id j0) j"
    then show ?thesis using restored_job_id[OF j(1)] Cons.prems(2,3) by (auto simp: dict_distinct_set dest!: dict_set_mem)
  qed (use Cons.prems in simp)
  then show ?case using Cons.IH[of r1] Cons.prems(1) s by (auto split: sum.splits bool.splits)
qed simp

lemma new_supervisor_keys:
  assumes "new_supervisor dg w net f = (s, r)"
  shows "children s = [] \<and> job_keys s \<and> (\<forall>(i, j) \<in> set (jobs s). rj_id j = i)"
  using assms restore_items_keys[of w]
  by (fastforce simp: new_supervisor_def restore_schedule_def job_keys_def split: option.splits json.splits prod.splits sum.splits bool.splits)

text \<open>
  The states of a supervisor that only the ticks of the workbench and its shutdown use, with the set of processes that run:
  a process ends at any time, none runs again, and a launch gives a new one.
\<close>

inductive lives :: "(json \<Rightarrow> pystr) \<Rightarrow> 'c set \<Rightarrow> 'c supervisor \<Rightarrow> bool" for dg where
  begins: "new_supervisor dg w net f = (s, r) \<Longrightarrow> lives dg A s"
| ends: "lives dg A s \<Longrightarrow> B \<subseteq> A \<Longrightarrow> lives dg B s"
| ticks: "lives dg A s \<Longrightarrow> A = {c. running w c} \<Longrightarrow> \<forall>c. running w' c \<longrightarrow> running w c \<Longrightarrow> fresh_launches launch s
    \<Longrightarrow> B \<subseteq> {c. running w' c} \<union> {c. \<exists>j. launch j = Some c} \<Longrightarrow> lives dg B (fst (lifecycle_tick dg w w' launch now cx s))"
| stops: "lives dg A s \<Longrightarrow> lives dg A (fst (shutdown dg w w' raised s))"

text \<open>C28: Whenever processes end and however the ticks of a workbench fall: of the children it owns no two that run are of the same
  resource class, and a workbench without network owns no network child.\<close>

theorem one_child_per_class:
  assumes "lives dg A s" "(i, c) \<in> set (children s)" "(i', c') \<in> set (children s)" "dict_get (jobs s) i = Some j" "dict_get (jobs s) i' = Some j'"
  shows "(c \<in> A \<and> c' \<in> A \<and> class_of j = class_of j' \<longrightarrow> i = i' \<and> c = c') \<and> (\<not> network_enabled s \<longrightarrow> class_of j = CPU)"
proof -
  have "exclusive A s \<and> job_keys s"
    using assms(1)
  proof induction
    case (begins w net f s r A)
    then show ?case using new_supervisor_keys[OF begins] by (simp add: exclusive_def)
  next
    case (ends A s B)
    then show ?case using exclusive_mono by blast
  next
    case (ticks A s w w' launch B now cx)
    then show ?case using exclusive_tick[OF prod.collapse[symmetric], of w s w' launch B dg now cx] by simp
  next
    case (stops A s w w' raised)
    then show ?case using exclusive_shutdown[OF prod.collapse[symmetric]] by blast
  qed
  then have ex: "exclusive A s" by simp
  have cl: "class_at s i = Some (class_of j)" "class_at s i' = Some (class_of j')" using assms(4,5) by (simp_all add: class_at_def)
  have "c \<in> A \<and> c' \<in> A \<and> class_of j = class_of j' \<longrightarrow> i = i'" using exclusiveD(1)[OF ex assms(2,3)] cl by simp
  moreover have "i = i' \<longrightarrow> c = c'" using exclusiveD(2)[OF ex] assms(2,3) by (metis eq_key_imp_eq_value)
  moreover have "\<not> network_enabled s \<longrightarrow> class_of j \<noteq> NETWORK" using exclusiveD(3)[OF ex assms(2)] cl by simp
  ultimately show ?thesis by (cases "class_of j") auto
qed

section \<open>A changed input\<close>

text \<open>C29: When a tick has registered the history job of a day and the input has another fingerprint later that day, the ticks of a
  workbench with network do nothing: no job is registered or started, no finished child collected, and the exception is swallowed.\<close>

theorem changed_fingerprint_stops_ticks:
  assumes "register_cycle dg HISTORY u fp (py ''history:'' @ date_iso (utc_date u)) s = Inr (s1, Some i)"
    and "dict_get (jobs t) i = Some j" "rj_fingerprint j = fp" "network_enabled t"
    and "utc_arg now = Inr v" "utc_date v = utc_date u" "cx_session_completed cx"
    and "safe_metadata (cx_fingerprint cx) ''input_fingerprint'' = Inr fp'" "fp' \<noteq> fp"
  shows "register_default_jobs dg now cx t = (t, Inl (ValueError ''cycle identity does not match existing job''))
    \<and> lifecycle_tick dg w w' launch now (Inr cx) t = (t, Inr [])"
proof -
  obtain key where key: "safe_metadata (Some (py ''history:'' @ date_iso (utc_date u))) ''cycle_key'' = Inr (Some key)" "i = cycle_job_id dg HISTORY key"
    using assms(1) by (auto simp: register_cycle_def bindR_Inr_iff Let_def split: option.splits if_splits)
  have cyc: "register_cycle dg HISTORY v fp' (py ''history:'' @ date_iso (utc_date v)) t = Inl (ValueError ''cycle identity does not match existing job'')"
    unfolding register_cycle_def assms(6) key(1) using assms(2,3,9) key(2) by simp
  have reg: "register_default_jobs dg now' cx t = (t, Inl (ValueError ''cycle identity does not match existing job''))" if "utc_arg now' = Inr v" for now'
    unfolding register_default_jobs_def that assms(8) Let_def using assms(4,7) cyc by (simp add: default_cycle_def)
  have "utc_arg (utc_datetime v) = Inr v" by (simp add: utc_arg_def)
  then show ?thesis using reg assms(5) by (simp add: lifecycle_tick_def swallowed_def)
qed

section \<open>Examples\<close>

text \<open>A screen that is registered, started and found finished with its evidence.\<close>

definition example_dg :: "json \<Rightarrow> pystr" where
  "example_dg _ = replicate 64 97"

definition example_status :: json where
  "example_status = JObj [(''job_id'', JStr (py ''screen-1'')), (''job'', JStr (py ''screen'')), (''status'', JStr (py ''success'')),
     (''artifact_digest'', JStr (replicate 64 97)), (''artifact_relpath'', JStr (py ''evidence/screen-1.json''))]"

definition example_evidence :: json where
  "example_evidence = JObj [(''format_version'', JInt 1), (''job_id'', JStr (py ''screen-1'')), (''job'', JStr (py ''screen'')), (''result'', JObj [])]"

definition example_world :: "(nat \<Rightarrow> bool) \<Rightarrow> nat world" where
  "example_world r = \<lparr>running = r, exit_code = (\<lambda>_. Some 0), status_file = (\<lambda>_. Some example_status),
     evidence_file = (\<lambda>_. Some (example_evidence, replicate 64 97)), writable = True, wall = UTC 0\<rparr>"

definition example_args :: registration_args where
  "example_args = \<lparr>ra_id = py ''screen-1'', ra_command = [py ''research'', py ''screen''], ra_due = utc_datetime (UTC 0), ra_fingerprint = None,
     ra_stage = None, ra_artifact = None, ra_completed_artifact = None, ra_eligible_at = None, ra_eligible = None\<rparr>"

definition example_ops :: "nat sup_op list" where
  "example_ops = [Add example_args, StartDue (example_world (\<lambda>_. True)) (example_world (\<lambda>_. True)) (\<lambda>_. Some 7) (utc_datetime (UTC 1)),
     Stop (example_world (\<lambda>_. False)) (example_world (\<lambda>_. False)) (\<lambda>_. False)]"

definition example_supervisor :: "bool \<Rightarrow> nat supervisor" where
  "example_supervisor net = fst (new_supervisor example_dg (example_world (\<lambda>_. False)) net None)"

definition example_end :: "nat supervisor" where
  "example_end = foldl (\<lambda>s op. perform_op example_dg op s) (example_supervisor False) example_ops"

theorem completed_has_evidence_witness:
  "\<exists>(i, j) \<in> set (jobs example_end). rj_completed j \<and> (\<exists>w \<in> insert (example_world (\<lambda>_. False)) (\<Union> (seen ` set example_ops)). \<exists>status d.
     read_child_status w j = Inr status \<and> safe_status_digest (dict_get status ''artifact_digest'') = Some d
     \<and> rj_artifact j = Some d \<and> verified_artifact w j status d)"
proof -
  have "map (\<lambda>(i, j). (i, rj_completed j)) (jobs example_end) = [(py ''screen-1'', True)]" by code_simp
  then obtain i j where j: "(i, j) \<in> set (jobs example_end)" "rj_completed j" by (cases "jobs example_end") auto
  obtain r where r: "new_supervisor example_dg (example_world (\<lambda>_. False)) False None = (example_supervisor False, r)"
    by (simp add: example_supervisor_def) (metis prod.collapse)
  show ?thesis using completed_has_evidence[OF r example_end_def j] j by blast
qed

definition example_context :: "string \<Rightarrow> context_args" where
  "example_context fp = \<lparr>cx_session_completed = True, cx_fingerprint = Some (py fp), cx_refreshed = False, cx_cutoff = None\<rparr>"

definition example_launch :: "research_job \<Rightarrow> nat option" where
  "example_launch j = Some (if rj_command j = HISTORY then 1 else 2)"

definition example_ticked :: "nat supervisor" where
  "example_ticked = fst (lifecycle_tick example_dg (example_world (\<lambda>_. False)) (example_world (\<lambda>_. False)) example_launch
     (utc_datetime (UTC 0)) (Inr (example_context ''fp-1'')) (example_supervisor True))"

theorem one_child_per_class_witness:
  "lives example_dg {1, 2} example_ticked \<and> (\<exists>i i' j j'. children example_ticked = [(i, 1), (i', 2)] \<and> dict_get (jobs example_ticked) i = Some j
     \<and> dict_get (jobs example_ticked) i' = Some j' \<and> class_of j \<noteq> class_of j')"
proof -
  let ?w = "example_world (\<lambda>_. False)"
  obtain r where r: "new_supervisor example_dg ?w True None = (example_supervisor True, r)"
    by (simp add: example_supervisor_def) (metis prod.collapse)
  have none: "children (example_supervisor True) = []" by code_simp
  have live: "lives example_dg {1, 2} example_ticked"
    unfolding example_ticked_def
  proof (rule lives.ticks)
    show "lives example_dg {} (example_supervisor True)" by (rule lives.begins[OF r])
    show "fresh_launches example_launch (example_supervisor True)" by (simp add: fresh_launches_def none)
    have "example_launch (undefined\<lparr>rj_command := HISTORY\<rparr>) = Some 1" "example_launch (undefined\<lparr>rj_command := SCREEN\<rparr>) = Some 2"
      by (simp_all add: example_launch_def)
    then show "{1, 2} \<subseteq> {c. running ?w c} \<union> {c. \<exists>j. example_launch j = Some c}" by blast
  qed (simp_all add: example_world_def)
  have "map snd (children example_ticked) = [1, 2] \<and> map (\<lambda>(i, c). dict_get (jobs example_ticked) i \<noteq> None) (children example_ticked) = [True, True]"
    by code_simp
  then obtain i i' j j' where c: "children example_ticked = [(i, 1), (i', 2)]" "dict_get (jobs example_ticked) i = Some j" "dict_get (jobs example_ticked) i' = Some j'"
    by (auto simp: map_eq_Cons_conv)
  have "class_of j \<noteq> class_of j'" using one_child_per_class[OF live, of i 1 i' 2 j j'] c by auto
  then show ?thesis using live c by blast
qed

theorem changed_fingerprint_stops_ticks_witness:
  "lifecycle_tick example_dg (example_world (\<lambda>_. False)) (example_world (\<lambda>_. False)) example_launch (utc_datetime (UTC 60)) (Inr (example_context ''fp-2'')) example_ticked
     = (example_ticked, Inr [])"
proof -
  let ?r = "register_cycle example_dg HISTORY (UTC 0) (Some (py ''fp-1'')) (py ''history:'' @ date_iso (utc_date (UTC 0))) (example_supervisor True)"
  have "case ?r of Inr (_, Some i) \<Rightarrow> map_option rj_fingerprint (dict_get (jobs example_ticked) i) = Some (Some (py ''fp-1'')) | _ \<Rightarrow> False" by code_simp
  then obtain s1 i j where r: "?r = Inr (s1, Some i)" "dict_get (jobs example_ticked) i = Some j" "rj_fingerprint j = Some (py ''fp-1'')"
    by (auto split: sum.splits prod.splits option.splits)
  have n: "network_enabled example_ticked" by code_simp
  have a: "utc_arg (utc_datetime (UTC 60)) = Inr (UTC 60)" "utc_date (UTC 60) = utc_date (UTC 0)" by code_simp+
  have f: "cx_session_completed (example_context ''fp-2'')"
    "safe_metadata (cx_fingerprint (example_context ''fp-2'')) ''input_fingerprint'' = Inr (Some (py ''fp-2''))"
    "Some (py ''fp-2'') \<noteq> Some (py ''fp-1'')" by code_simp+
  show ?thesis using changed_fingerprint_stops_ticks[OF r n a f] by blast
qed

end
