(* ===== verification/Crash_Io.thy ===== *)
theory Crash_Io
  imports Py_Prelude
begin

text \<open>
  Steps on a disk that may fail or be the last of their process: an action on the disk works, raises without an effect, or
  never happens because the process is killed, as a list of faults says (when it is used up everything works).  The exception
  handlers of the code run after a raise and not after a kill.  The triples of \<open>guards\<close> give what holds when the steps return
  and what holds whichever way they stop; the locale says what a recovery needs in order to be repeated until it returns.
\<close>

section \<open>Steps\<close>

datatype fault = Works | Fails | Halts

datatype 'a ending = Returns 'a | Raises pyerror | Killed

type_synonym ('d, 'a) io = "'d \<Rightarrow> fault list \<Rightarrow> 'a ending \<times> 'd \<times> fault list"

definition ret :: "'a \<Rightarrow> ('d, 'a) io" where
  "ret x = (\<lambda>d fs. (Returns x, d, fs))"

definition raise :: "pyerror \<Rightarrow> ('d, 'a) io" where
  "raise e = (\<lambda>d fs. (Raises e, d, fs))"

definition of_result :: "'a result \<Rightarrow> ('d, 'a) io" where
  "of_result r = (case r of Inl e \<Rightarrow> raise e | Inr x \<Rightarrow> ret x)"

definition and_then :: "('d, 'a) io \<Rightarrow> ('a \<Rightarrow> ('d, 'b) io) \<Rightarrow> ('d, 'b) io" where
  "and_then m f = (\<lambda>d fs. case m d fs of
       (Returns x, d', fs') \<Rightarrow> f x d' fs' | (Raises e, d', fs') \<Rightarrow> (Raises e, d', fs') | (Killed, d', fs') \<Rightarrow> (Killed, d', fs'))"

definition on_error :: "('d, 'a) io \<Rightarrow> (pyerror \<Rightarrow> ('d, 'a) io) \<Rightarrow> ('d, 'a) io" where
  "on_error m h = (\<lambda>d fs. case m d fs of
       (Returns x, d', fs') \<Rightarrow> (Returns x, d', fs') | (Raises e, d', fs') \<Rightarrow> h e d' fs' | (Killed, d', fs') \<Rightarrow> (Killed, d', fs'))"

fun act :: "pyerror \<Rightarrow> ('d \<Rightarrow> 'd) \<Rightarrow> ('d, unit) io" where
  "act e f d [] = (Returns (), f d, [])"
| "act e f d (Works # fs) = (Returns (), f d, fs)"
| "act e f d (Fails # fs) = (Raises e, d, fs)"
| "act e f d (Halts # fs) = (Killed, d, fs)"

text \<open>An access that changes nothing the model keeps, and a look at the disk that cannot fail.\<close>

definition touch :: "pyerror \<Rightarrow> ('d, unit) io" where
  "touch e = act e id"

definition inspect :: "('d \<Rightarrow> 'a) \<Rightarrow> ('d, 'a) io" where
  "inspect f = (\<lambda>d fs. (Returns (f d), d, fs))"

text \<open>Memory: what a process changes without an access to the disk.\<close>

definition keep :: "('d \<Rightarrow> 'd) \<Rightarrow> ('d, unit) io" where
  "keep f = (\<lambda>d fs. (Returns (), f d, fs))"

fun each :: "('x \<Rightarrow> ('d, unit) io) \<Rightarrow> 'x list \<Rightarrow> ('d, unit) io" where
  "each f [] = ret ()"
| "each f (x # xs) = and_then (f x) (\<lambda>_. each f xs)"

fun collect :: "('x \<Rightarrow> ('d, 'y) io) \<Rightarrow> 'x list \<Rightarrow> ('d, 'y list) io" where
  "collect f [] = ret []"
| "collect f (x # xs) = and_then (f x) (\<lambda>y. and_then (collect f xs) (\<lambda>ys. ret (y # ys)))"

lemma io_laws [simp]: "and_then (ret x) f = f x" "and_then (raise e) f = raise e" "of_result (Inr x) = ret x" "of_result (Inl e) = raise e"
  by (simp_all add: and_then_def ret_def raise_def of_result_def)

section \<open>Triples\<close>

definition guards :: "('d \<Rightarrow> bool) \<Rightarrow> ('d, 'a) io \<Rightarrow> ('a \<Rightarrow> 'd \<Rightarrow> bool) \<Rightarrow> ('d \<Rightarrow> bool) \<Rightarrow> bool" where
  "guards P m Q C \<longleftrightarrow> (\<forall>d fs. P d \<longrightarrow> (case m d fs of (Returns x, d', _) \<Rightarrow> Q x d' | (Raises _, d', _) \<Rightarrow> C d' | (Killed, d', _) \<Rightarrow> C d'))"

named_theorems guard_rules \<open>triples of the steps\<close>

lemma guardsD:
  assumes "guards P m Q C" "P d"
  shows "m d fs = (Returns x, d', fs') \<Longrightarrow> Q x d'" "m d fs = (Raises e, d', fs') \<Longrightarrow> C d'" "m d fs = (Killed, d', fs') \<Longrightarrow> C d'"
  using assms unfolding guards_def by (metis (no_types, lifting) case_prod_conv ending.case)+

lemma guards_weaken:
  assumes "guards P m Q C" "\<And>d. P' d \<Longrightarrow> P d" "\<And>x d. Q x d \<Longrightarrow> Q' x d" "\<And>d. C d \<Longrightarrow> C' d"
  shows "guards P' m Q' C'"
  unfolding guards_def
proof (intro allI impI)
  fix d fs assume "P' d"
  then have "P d" by (rule assms(2))
  then have "case m d fs of (Returns x, d', _) \<Rightarrow> Q x d' | (Raises _, d', _) \<Rightarrow> C d' | (Killed, d', _) \<Rightarrow> C d'" using assms(1) by (simp add: guards_def)
  then show "case m d fs of (Returns x, d', _) \<Rightarrow> Q' x d' | (Raises _, d', _) \<Rightarrow> C' d' | (Killed, d', _) \<Rightarrow> C' d'"
    using assms(3,4) by (auto split: ending.splits)
qed

lemma guards_pre: "guards P m Q C \<Longrightarrow> (\<And>d. P' d \<Longrightarrow> P d) \<Longrightarrow> guards P' m Q C"
  by (rule guards_weaken)

lemma guards_assume: "(p \<Longrightarrow> guards P m Q C) \<Longrightarrow> guards (\<lambda>d. p \<and> P d) m Q C"
  by (simp add: guards_def)

lemma guards_ret [guard_rules]: "(\<And>d. P d \<Longrightarrow> Q x d) \<Longrightarrow> guards P (ret x) Q C"
  by (simp add: guards_def ret_def)

lemma guards_raise [guard_rules]: "(\<And>d. P d \<Longrightarrow> C d) \<Longrightarrow> guards P (raise e) Q C"
  by (simp add: guards_def raise_def)

lemma guards_of_result [guard_rules]:
  "(\<And>x d. r = Inr x \<Longrightarrow> P d \<Longrightarrow> Q x d) \<Longrightarrow> (\<And>d. P d \<Longrightarrow> C d) \<Longrightarrow> guards P (of_result r) Q C"
  by (cases r) (simp_all add: of_result_def guards_ret guards_raise)

lemma guards_and_then:
  assumes "guards P m Q C" "\<And>x. guards (Q x) (f x) R C"
  shows "guards P (and_then m f) R C"
  unfolding guards_def
proof (intro allI impI)
  fix d fs assume p: "P d"
  obtain r d' fs' where m: "m d fs = (r, d', fs')" by (rule prod_cases3)
  show "case and_then m f d fs of (Returns x, d', _) \<Rightarrow> R x d' | (Raises _, d', _) \<Rightarrow> C d' | (Killed, d', _) \<Rightarrow> C d'"
  proof (cases r)
    case (Returns x)
    then have "Q x d'" using guardsD(1)[OF assms(1) p] m by simp
    then show ?thesis using assms(2)[of x] m Returns unfolding guards_def by (simp add: and_then_def)
  qed (use guardsD(2,3)[OF assms(1) p] m in \<open>simp_all add: and_then_def\<close>)
qed

lemma guards_on_error:
  assumes "guards P m Q C'" "\<And>e. guards C' (h e) Q C" "\<And>d. C' d \<Longrightarrow> C d"
  shows "guards P (on_error m h) Q C"
  unfolding guards_def
proof (intro allI impI)
  fix d fs assume p: "P d"
  obtain r d' fs' where m: "m d fs = (r, d', fs')" by (rule prod_cases3)
  show "case on_error m h d fs of (Returns x, d', _) \<Rightarrow> Q x d' | (Raises _, d', _) \<Rightarrow> C d' | (Killed, d', _) \<Rightarrow> C d'"
  proof (cases r)
    case (Raises e)
    then have "C' d'" using guardsD(2)[OF assms(1) p] m by simp
    then show ?thesis using assms(2)[of e] m Raises unfolding guards_def by (simp add: on_error_def)
  qed (use guardsD(1,3)[OF assms(1) p] m assms(3) in \<open>simp_all add: on_error_def\<close>)
qed

lemma guards_act [guard_rules]: "(\<And>d. P d \<Longrightarrow> C d) \<Longrightarrow> (\<And>d. P d \<Longrightarrow> Q () (f d)) \<Longrightarrow> guards P (act e f) Q C"
  unfolding guards_def
proof (intro allI impI)
  fix d fs assume "\<And>d. P d \<Longrightarrow> C d" "\<And>d. P d \<Longrightarrow> Q () (f d)" "P d"
  then show "case act e f d fs of (Returns x, d', _) \<Rightarrow> Q x d' | (Raises _, d', _) \<Rightarrow> C d' | (Killed, d', _) \<Rightarrow> C d'"
    by (cases "(e, f, d, fs)" rule: act.cases) auto
qed

lemma guards_touch [guard_rules]: "(\<And>d. P d \<Longrightarrow> C d) \<Longrightarrow> (\<And>d. P d \<Longrightarrow> Q () d) \<Longrightarrow> guards P (touch e) Q C"
  unfolding touch_def by (rule guards_act) simp_all

lemma guards_inspect [guard_rules]: "(\<And>d. P d \<Longrightarrow> Q (f d) d) \<Longrightarrow> guards P (inspect f) Q C"
  by (simp add: guards_def inspect_def)

lemma guards_keep [guard_rules]: "(\<And>d. P d \<Longrightarrow> Q () (f d)) \<Longrightarrow> guards P (keep f) Q C"
  by (simp add: guards_def keep_def)

lemma guards_ex:
  assumes "\<And>x. guards (P x) m Q C"
  shows "guards (\<lambda>d. \<exists>x. P x d) m Q C"
  unfolding guards_def
proof (intro allI impI)
  fix d fs assume "\<exists>x. P x d"
  then obtain x where "P x d" ..
  then show "case m d fs of (Returns y, d', _) \<Rightarrow> Q y d' | (Raises _, d', _) \<Rightarrow> C d' | (Killed, d', _) \<Rightarrow> C d'"
    using assms[of x] by (simp add: guards_def)
qed

lemma guards_or: "guards P m Q C \<Longrightarrow> guards P' m Q C \<Longrightarrow> guards (\<lambda>d. P d \<or> P' d) m Q C"
  by (simp add: guards_def)

lemma guards_if: "(b \<Longrightarrow> guards P m Q C) \<Longrightarrow> (\<not> b \<Longrightarrow> guards P m' Q C) \<Longrightarrow> guards P (if b then m else m') Q C"
  by simp

text \<open>Loops: \<open>I xs\<close> holds when \<open>xs\<close> is what is left.\<close>

lemma guards_each:
  assumes "\<And>x ys zs. xs = zs @ x # ys \<Longrightarrow> guards (I (x # ys)) (f x) (\<lambda>_. I ys) C"
  shows "guards (I xs) (each f xs) (\<lambda>_. I []) C"
  using assms
proof (induction xs)
  case (Cons x xs)
  have "guards (I xs) (each f xs) (\<lambda>_. I []) C"
    by (rule Cons.IH) (rule Cons.prems[of "x # zs" for zs], simp)
  moreover have "guards (I (x # xs)) (f x) (\<lambda>_. I xs) C" by (rule Cons.prems[of "[]"]) simp
  ultimately show ?case by (auto intro: guards_and_then)
qed (auto intro: guard_rules)

lemma guards_collect:
  assumes "\<And>x ys zs. xs = zs @ x # ys \<Longrightarrow> guards (I (x # ys)) (f x) (\<lambda>y d. y = g x \<and> I ys d) C"
  shows "guards (I xs) (collect f xs) (\<lambda>ys d. ys = map g xs \<and> I [] d) C"
  using assms
proof (induction xs)
  case (Cons x xs)
  have tl: "guards (I xs) (collect f xs) (\<lambda>ys d. ys = map g xs \<and> I [] d) C"
    by (rule Cons.IH) (rule Cons.prems[of "x # zs" for zs], simp)
  have hd: "guards (I (x # xs)) (f x) (\<lambda>y d. y = g x \<and> I xs d) C" by (rule Cons.prems[of "[]"]) simp
  show ?case
    unfolding collect.simps
  proof (rule guards_and_then[OF hd])
    fix y
    show "guards (\<lambda>d. y = g x \<and> I xs d) (and_then (collect f xs) (\<lambda>ys. ret (y # ys))) (\<lambda>ys d. ys = map g (x # xs) \<and> I [] d) C"
      by (rule guards_assume, rule guards_and_then[OF tl], rule guards_ret) simp
  qed
qed (auto intro: guard_rules)

lemma guards_collect_all:
  assumes "\<And>x. x \<in> set xs \<Longrightarrow> guards P (f x) (\<lambda>y d. R y \<and> P d) C" "\<And>d. P d \<Longrightarrow> C d"
  shows "guards P (collect f xs) (\<lambda>ys d. (\<forall>y \<in> set ys. R y) \<and> P d) C"
  using assms(1)
proof (induction xs)
  case (Cons x xs)
  have hd: "guards P (f x) (\<lambda>y d. R y \<and> P d) C" and tl: "guards P (collect f xs) (\<lambda>ys d. (\<forall>y \<in> set ys. R y) \<and> P d) C"
    using Cons by simp_all
  show ?case unfolding collect.simps
    by (rule guards_and_then[OF hd], rule guards_assume, rule guards_and_then[OF tl], rule guards_ret) simp
qed (auto intro: guard_rules)

text \<open>Steps that leave the disk as it is.\<close>

definition quiet :: "('d, 'a) io \<Rightarrow> bool" where
  "quiet m \<longleftrightarrow> (\<forall>d. guards (\<lambda>s. s = d) m (\<lambda>_ s. s = d) (\<lambda>s. s = d))"

named_theorems quiet_rules \<open>steps that leave the disk as it is\<close>

lemma quiet_basic [quiet_rules]: "quiet (ret x)" "quiet (raise e)" "quiet (of_result r)" "quiet (touch e)" "quiet (inspect f)"
  by (auto simp: quiet_def intro: guard_rules)

lemma quiet_and_then [quiet_rules]: "quiet m \<Longrightarrow> (\<And>x. quiet (f x)) \<Longrightarrow> quiet (and_then m f)"
  unfolding quiet_def by (blast intro: guards_and_then)

lemma quiet_if [quiet_rules]: "(b \<Longrightarrow> quiet m) \<Longrightarrow> (\<not> b \<Longrightarrow> quiet m') \<Longrightarrow> quiet (if b then m else m')"
  by simp

lemma quiet_collect [quiet_rules]: "(\<And>x. quiet (f x)) \<Longrightarrow> quiet (collect f xs)"
  by (induction xs) (auto intro: quiet_rules)

lemma quiet_each [quiet_rules]: "(\<And>x. quiet (f x)) \<Longrightarrow> quiet (each f xs)"
  by (induction xs) (auto intro: quiet_rules)

lemma quietD: "quiet m \<Longrightarrow> guards (\<lambda>s. s = d) m (\<lambda>_ s. s = d) (\<lambda>s. s = d)"
  by (simp add: quiet_def)

lemma quiet_keeps:
  assumes "quiet m"
  shows "guards P m (\<lambda>_. P) P"
  unfolding guards_def
proof (intro allI impI)
  fix d fs assume p: "P d"
  obtain r d' fs' where m: "m d fs = (r, d', fs')" by (rule prod_cases3)
  have "d' = d" using guardsD[OF quietD[OF assms] refl, of d fs] m by (cases r) auto
  then show "case m d fs of (Returns x, d', _) \<Rightarrow> P d' | (Raises _, d', _) \<Rightarrow> P d' | (Killed, d', _) \<Rightarrow> P d'"
    using p m by (cases r) auto
qed

section \<open>When nothing fails\<close>

definition returns_from :: "('d \<Rightarrow> bool) \<Rightarrow> ('d, 'a) io \<Rightarrow> bool" where
  "returns_from P m \<longleftrightarrow> (\<forall>d. P d \<longrightarrow> (\<exists>x d'. m d [] = (Returns x, d', [])))"

named_theorems return_rules \<open>steps that return when nothing fails\<close>

lemma returns_basic [return_rules]:
  "returns_from P (ret x)" "returns_from P (act e f)" "returns_from P (touch e)" "returns_from P (inspect g)" "returns_from P (keep f)"
  "returns_from P (of_result (Inr x))"
  by (simp_all add: returns_from_def ret_def touch_def inspect_def keep_def of_result_def)

lemma returns_False [simp]: "returns_from (\<lambda>d. False) m"
  by (simp add: returns_from_def)

lemma returns_pre: "returns_from P m \<Longrightarrow> (\<And>d. P' d \<Longrightarrow> P d) \<Longrightarrow> returns_from P' m"
  by (simp add: returns_from_def)

lemma returns_assume: "(p \<Longrightarrow> returns_from P m) \<Longrightarrow> returns_from (\<lambda>d. p \<and> P d) m"
  by (simp add: returns_from_def)

lemma returns_and_then:
  assumes "guards P m Q C" "returns_from P m" "\<And>x. returns_from (Q x) (f x)"
  shows "returns_from P (and_then m f)"
  unfolding returns_from_def
proof (intro allI impI)
  fix d assume p: "P d"
  then obtain x d' where m: "m d [] = (Returns x, d', [])" using assms(2) by (auto simp: returns_from_def)
  then have "Q x d'" using guardsD(1)[OF assms(1) p] by blast
  then show "\<exists>y d''. and_then m f d [] = (Returns y, d'', [])" using assms(3)[of x] m by (simp add: returns_from_def and_then_def)
qed

lemma returns_on_error: "returns_from P m \<Longrightarrow> returns_from P (on_error m h)"
  unfolding returns_from_def on_error_def by fastforce

lemma returns_each:
  assumes "\<And>x. x \<in> set xs \<Longrightarrow> guards P (f x) (\<lambda>_. P) C" "\<And>x. x \<in> set xs \<Longrightarrow> returns_from P (f x)"
  shows "returns_from P (each f xs)"
  using assms
proof (induction xs)
  case (Cons x xs)
  have "guards P (f x) (\<lambda>_. P) C" "returns_from P (f x)" "returns_from P (each f xs)" using Cons by simp_all
  then show ?case by (auto intro: returns_and_then)
qed (simp add: return_rules)

lemma returns_collect:
  assumes "\<And>x. x \<in> set xs \<Longrightarrow> guards P (f x) (\<lambda>_. P) C" "\<And>x. x \<in> set xs \<Longrightarrow> returns_from P (f x)"
  shows "returns_from P (collect f xs)"
  using assms
proof (induction xs)
  case (Cons x xs)
  have hd: "guards P (f x) (\<lambda>_. P) C" "returns_from P (f x)" and tl: "returns_from P (collect f xs)" using Cons by simp_all
  have "returns_from P (and_then (collect f xs) (\<lambda>ys. ret (y # ys)))" for y
    by (rule returns_and_then[where Q = "\<lambda>_ _. True" and C = "\<lambda>_. True"]) (auto simp: guards_def tl return_rules split: ending.split)
  then show ?case unfolding collect.simps by (rule returns_and_then[OF hd])
qed (simp add: return_rules)

section \<open>Repeated recovery\<close>

text \<open>
  A recovery that keeps \<open>pending\<close> however it stops and establishes \<open>rest\<close> when it returns.
\<close>

fun attempts :: "('d, unit) io \<Rightarrow> fault list list \<Rightarrow> 'd \<Rightarrow> 'd" where
  "attempts recover [] d = d"
| "attempts recover (fs # fss) d = attempts recover fss (fst (snd (recover d fs)))"

locale recovery =
  fixes recover :: "('d, unit) io" and pending rest :: "'d \<Rightarrow> bool"
  assumes recovers: "guards pending recover (\<lambda>_. rest) pending"
    and rest_pending: "rest d \<Longrightarrow> pending d"
begin

lemma attempt_pending:
  assumes "pending d"
  shows "pending (fst (snd (recover d fs)))"
proof -
  obtain r d' fs' where m: "recover d fs = (r, d', fs')" by (rule prod_cases3)
  have "pending d'"
  proof (cases r)
    case (Returns x)
    then show ?thesis using guardsD(1)[OF recovers assms] m rest_pending by simp
  next
    case (Raises e)
    then show ?thesis using guardsD(2)[OF recovers assms] m by simp
  next
    case Killed
    then show ?thesis using guardsD(3)[OF recovers assms] m by simp
  qed
  then show ?thesis using m by simp
qed

lemma attempts_pending: "pending d \<Longrightarrow> pending (attempts recover fss d)"
  by (induction fss arbitrary: d) (auto intro: attempt_pending)

lemma returns_at_rest: "pending d \<Longrightarrow> recover (attempts recover fss d) fs = (Returns (), d', fs') \<Longrightarrow> rest d'"
  using guardsD(1)[OF recovers attempts_pending] by blast

end

end
