(* ===== verification/Py_Hashing.thy ===== *)
theory Py_Hashing
  imports Py_Json
begin

text \<open>
  What the program takes from \<^verbatim>\<open>hashlib\<close> and \<^verbatim>\<open>json.dumps\<close> as arguments of the model: SHA-256 as a hexadecimal text, and the
  canonical JSON text of a value.
\<close>

record hashing =
  sha :: "pystr \<Rightarrow> pystr"
  canonical :: "json \<Rightarrow> pystr"

end
