(* ===== verification/Backup_Files.thy ===== *)
theory Backup_Files
  imports Crash_Io Py_Hashing Py_Iso
begin

text \<open>
  The files of \<^verbatim>\<open>workbench/backup.py\<close>: archives with their manifest, the journal of a restore and the markers beside its
  destinations, each with the checks that reading it makes.

  The canonical JSON text of a value (\<open>canonical\<close>) and SHA-256 (\<open>sha\<close>) are arguments; the journal and the markers are kept as what
  \<^verbatim>\<open>json.loads\<close> makes of them, \<open>JNull\<close> when it raises.  A local path is its canonical text.
\<close>

section \<open>Paths and digests\<close>

definition is_sha256 :: "pystr \<Rightarrow> bool" where
  "is_sha256 s \<longleftrightarrow> length s = 64 \<and> lower_hex s"

definition is_transaction_id :: "pystr \<Rightarrow> bool" where
  "is_transaction_id s \<longleftrightarrow> length s = 40 \<and> take 8 s = py ''restore-'' \<and> lower_hex (drop 8 s)"

text \<open>A relative POSIX path in normal form: no backslash and no part that is empty, \<^verbatim>\<open>.\<close> or \<^verbatim>\<open>..\<close>.\<close>

definition logical_ok :: "pystr \<Rightarrow> bool" where
  "logical_ok s \<longleftrightarrow> 92 \<notin> set s \<and> (\<forall>p \<in> set (py_split 47 s). p \<noteq> [] \<and> p \<noteq> [46] \<and> p \<noteq> [46, 46])"

definition logical_path :: "json option \<Rightarrow> pystr result" where
  "logical_path v = (case v of Some (JStr s) \<Rightarrow> if logical_ok s then Inr s else Inl (ValueError ''backup logical path is invalid'')
     | _ \<Rightarrow> Inl (ValueError ''backup logical path is invalid''))"

definition zip_member_ok :: "pystr \<Rightarrow> bool" where
  "zip_member_ok s \<longleftrightarrow> s \<noteq> [] \<and> 92 \<notin> set s \<and> hd s \<noteq> 47 \<and> [46, 46] \<notin> set (py_split 47 s)"

definition keys_are :: "(string \<times> json) list \<Rightarrow> string list \<Rightarrow> bool" where
  "keys_are ob ks \<longleftrightarrow> set (map fst ob) = set ks"

definition sha_field :: "(string \<times> json) list \<Rightarrow> string \<Rightarrow> pystr option" where
  "sha_field ob k = (case dict_get ob k of Some (JStr s) \<Rightarrow> if is_sha256 s then Some s else None | _ \<Rightarrow> None)"

definition size_field :: "(string \<times> json) list \<Rightarrow> string \<Rightarrow> int option" where
  "size_field ob k = (case dict_get ob k of Some (JInt n) \<Rightarrow> if 0 \<le> n then Some n else None | _ \<Rightarrow> None)"

text \<open>A local path that a journal or a marker names.\<close>

definition path_field :: "(string \<times> json) list \<Rightarrow> string \<Rightarrow> pystr option" where
  "path_field ob k = (case dict_get ob k of Some (JStr s) \<Rightarrow> if s = [] \<or> py_strip s \<noteq> s \<or> 0 \<in> set s then None else Some s | _ \<Rightarrow> None)"

definition or_invalid :: "string \<Rightarrow> 'a option \<Rightarrow> 'a result" where
  "or_invalid m v = (case v of None \<Rightarrow> Inl (ValueError m) | Some x \<Rightarrow> Inr x)"

section \<open>Manifests and archives\<close>

record backup_file =
  bf_path :: pystr
  bf_sha :: pystr
  bf_size :: int

record manifest =
  bm_version :: json
  bm_id :: pystr
  bm_created :: pystr
  bm_files :: "backup_file list"

definition file_json :: "backup_file \<Rightarrow> json" where
  "file_json f = JObj [(''path'', JStr (bf_path f)), (''sha256'', JStr (bf_sha f)), (''size'', JInt (bf_size f))]"

definition manifest_json :: "manifest \<Rightarrow> json" where
  "manifest_json m = JObj [(''format_version'', bm_version m), (''backup_id'', JStr (bm_id m)), (''created_at'', JStr (bm_created m)),
     (''files'', JList (map file_json (bm_files m)))]"

definition manifest_invalid :: string where
  "manifest_invalid = ''backup archive manifest is invalid''"

definition file_from_json :: "pystr set \<Rightarrow> json \<Rightarrow> backup_file result" where
  "file_from_json seen v = (case v of
       JObj ob \<Rightarrow>
         if \<not> keys_are ob [''path'', ''sha256'', ''size''] then Inl (ValueError manifest_invalid)
         else bindR (logical_path (dict_get ob ''path'')) (\<lambda>p.
         if p \<in> seen then Inl (ValueError manifest_invalid)
         else bindR (or_invalid manifest_invalid (sha_field ob ''sha256'')) (\<lambda>h.
         bindR (or_invalid manifest_invalid (size_field ob ''size'')) (\<lambda>n.
         Inr \<lparr>bf_path = p, bf_sha = h, bf_size = n\<rparr>)))
     | _ \<Rightarrow> Inl (ValueError manifest_invalid))"

fun files_from_json :: "pystr set \<Rightarrow> json list \<Rightarrow> backup_file list result" where
  "files_from_json seen [] = Inr []"
| "files_from_json seen (v # vs) = bindR (file_from_json seen v) (\<lambda>f. bindR (files_from_json (insert (bf_path f) seen) vs) (\<lambda>fs. Inr (f # fs)))"

text \<open>A text that holds more than white space.\<close>

definition filled_field :: "(string \<times> json) list \<Rightarrow> string \<Rightarrow> pystr option" where
  "filled_field ob k = (case dict_get ob k of Some (JStr s) \<Rightarrow> if py_strip s = [] then None else Some s | _ \<Rightarrow> None)"

definition manifest_from_json :: "json \<Rightarrow> manifest result" where
  "manifest_from_json v = (case v of
       JObj ob \<Rightarrow>
         if \<not> keys_are ob [''format_version'', ''backup_id'', ''created_at'', ''files''] then Inl (ValueError manifest_invalid)
         else if \<not> is_format 1 (dict_get ob ''format_version'') then Inl (ValueError ''backup archive format version is unsupported'')
         else bindR (or_invalid manifest_invalid (filled_field ob ''backup_id'')) (\<lambda>i.
         bindR (or_invalid manifest_invalid (filled_field ob ''created_at'')) (\<lambda>c.
         case dict_get ob ''files'' of
           Some (JList vs) \<Rightarrow> bindR (files_from_json {} vs) (\<lambda>fs.
             Inr \<lparr>bm_version = the (dict_get ob ''format_version''), bm_id = i, bm_created = c, bm_files = fs\<rparr>)
         | _ \<Rightarrow> Inl (ValueError manifest_invalid)))
     | _ \<Rightarrow> Inl (ValueError manifest_invalid))"

text \<open>A member of an archive: its name, its bytes, and what \<^verbatim>\<open>json.loads\<close> makes of them.\<close>

record zip_member =
  zm_name :: pystr
  zm_bytes :: pystr
  zm_json :: json

type_synonym archive = "zip_member list"

definition zip_read :: "archive \<Rightarrow> pystr \<Rightarrow> zip_member option" where
  "zip_read z n = find (\<lambda>m. zm_name m = n) (rev z)"

definition manifest_name :: pystr where
  "manifest_name = py ''backup-manifest.json''"

definition managed_prefix :: pystr where
  "managed_prefix = py ''managed/''"

section \<open>Journals and markers\<close>

record journal_entry =
  je_path :: pystr
  je_destination :: "pystr option"
  je_had :: bool
  je_snapshot :: "pystr option"
  je_sha :: "pystr option"
  je_size :: "int option"
  je_planned_sha :: "pystr option"
  je_planned_size :: "int option"

record journal =
  jn_version :: int
  jn_id :: pystr
  jn_digest :: "pystr option"
  jn_entries :: "journal_entry list"

definition opt_text :: "pystr option \<Rightarrow> json" where
  "opt_text v = (case v of None \<Rightarrow> JNull | Some s \<Rightarrow> JStr s)"

definition opt_int :: "int option \<Rightarrow> json" where
  "opt_int v = (case v of None \<Rightarrow> JNull | Some n \<Rightarrow> JInt n)"

definition entry_json :: "journal_entry \<Rightarrow> json" where
  "entry_json e = JObj [(''path'', JStr (je_path e)), (''destination'', opt_text (je_destination e)), (''had_original'', JBool (je_had e)),
     (''snapshot'', opt_text (je_snapshot e)), (''sha256'', opt_text (je_sha e)), (''size'', opt_int (je_size e)),
     (''planned_sha256'', opt_text (je_planned_sha e)), (''planned_size'', opt_int (je_planned_size e))]"

definition journal_json :: "journal \<Rightarrow> json" where
  "journal_json j = JObj [(''format_version'', JInt 2), (''transaction_id'', JStr (jn_id j)), (''configuration_digest'', opt_text (jn_digest j)),
     (''entries'', JList (map entry_json (jn_entries j)))]"

definition journal_invalid :: string where
  "journal_invalid = ''restore journal is invalid''"

definition snapshot_suffix :: "pystr \<Rightarrow> nat \<Rightarrow> pystr" where
  "snapshot_suffix t i = py ''.'' @ t @ py ''.'' @ py_nat (int i) @ py ''.rollback''"

text \<open>The original of an entry: the three fields are there together.\<close>

definition original_of :: "pystr \<Rightarrow> pystr \<Rightarrow> nat \<Rightarrow> bool \<Rightarrow> (string \<times> json) list \<Rightarrow> (pystr option \<times> pystr option \<times> int option) result" where
  "original_of jname t i had ob =
     (if had then
        (if dict_get ob ''snapshot'' \<noteq> Some (JStr (jname @ snapshot_suffix t i)) then Inl (ValueError journal_invalid)
         else bindR (or_invalid journal_invalid (sha_field ob ''sha256'')) (\<lambda>h.
         bindR (or_invalid journal_invalid (size_field ob ''size'')) (\<lambda>n. Inr (Some (jname @ snapshot_suffix t i), Some h, Some n))))
      else if \<exists>k \<in> {''snapshot'', ''sha256'', ''size''}. dict_get ob k \<noteq> Some JNull then Inl (ValueError journal_invalid)
      else Inr (None, None, None))"

definition had_field :: "(string \<times> json) list \<Rightarrow> bool option" where
  "had_field ob = (case dict_get ob ''had_original'' of Some (JBool b) \<Rightarrow> Some b | _ \<Rightarrow> None)"

definition entry_from_json :: "bool \<Rightarrow> pystr \<Rightarrow> pystr \<Rightarrow> nat \<Rightarrow> pystr set \<Rightarrow> json \<Rightarrow> journal_entry result" where
  "entry_from_json legacy jname t i seen v = (case v of
       JObj ob \<Rightarrow>
         if \<not> keys_are ob ([''path'', ''had_original'', ''snapshot'', ''sha256'', ''size'']
              @ (if legacy then [] else [''destination'', ''planned_sha256'', ''planned_size''])) then Inl (ValueError journal_invalid)
         else bindR (logical_path (dict_get ob ''path'')) (\<lambda>p.
         if p \<in> seen then Inl (ValueError journal_invalid)
         else bindR (or_invalid journal_invalid (had_field ob)) (\<lambda>had.
         if legacy then bindR (original_of jname t i had ob) (\<lambda>(s, h, n).
           Inr \<lparr>je_path = p, je_destination = None, je_had = had, je_snapshot = s, je_sha = h, je_size = n, je_planned_sha = None, je_planned_size = None\<rparr>)
         else bindR (or_invalid journal_invalid (path_field ob ''destination'')) (\<lambda>dest.
         bindR (or_invalid journal_invalid (sha_field ob ''planned_sha256'')) (\<lambda>ph.
         bindR (or_invalid journal_invalid (size_field ob ''planned_size'')) (\<lambda>pn.
         bindR (original_of jname t i had ob) (\<lambda>(s, h, n).
         Inr \<lparr>je_path = p, je_destination = Some dest, je_had = had, je_snapshot = s, je_sha = h, je_size = n,
           je_planned_sha = Some ph, je_planned_size = Some pn\<rparr>))))))
     | _ \<Rightarrow> Inl (ValueError journal_invalid))"

fun entries_from_json :: "bool \<Rightarrow> pystr \<Rightarrow> pystr \<Rightarrow> nat \<Rightarrow> pystr set \<Rightarrow> json list \<Rightarrow> journal_entry list result" where
  "entries_from_json legacy jname t i seen [] = Inr []"
| "entries_from_json legacy jname t i seen (v # vs) = bindR (entry_from_json legacy jname t i seen v) (\<lambda>e.
     bindR (entries_from_json legacy jname t (Suc i) (insert (je_path e) seen) vs) (\<lambda>es. Inr (e # es)))"

definition transaction_field :: "(string \<times> json) list \<Rightarrow> pystr option" where
  "transaction_field ob = (case dict_get ob ''transaction_id'' of Some (JStr t) \<Rightarrow> if is_transaction_id t then Some t else None | _ \<Rightarrow> None)"

definition journal_from_json :: "pystr \<Rightarrow> json \<Rightarrow> journal result" where
  "journal_from_json jname v = (case v of
       JObj ob \<Rightarrow>
         (let legacy = is_format 1 (dict_get ob ''format_version'') in
          if \<not> legacy \<and> \<not> is_format 2 (dict_get ob ''format_version'') then Inl (ValueError journal_invalid)
          else if \<not> keys_are ob ([''format_version'', ''transaction_id'', ''entries''] @ (if legacy then [] else [''configuration_digest'']))
          then Inl (ValueError journal_invalid)
          else bindR (if legacy then Inr None else bindR (or_invalid journal_invalid (sha_field ob ''configuration_digest'')) (\<lambda>h. Inr (Some h))) (\<lambda>digest.
          bindR (or_invalid journal_invalid (transaction_field ob)) (\<lambda>t.
          case dict_get ob ''entries'' of
            Some (JList vs) \<Rightarrow> bindR (entries_from_json legacy jname t 0 {} vs) (\<lambda>es.
              Inr \<lparr>jn_version = (if legacy then 1 else 2), jn_id = t, jn_digest = digest, jn_entries = es\<rparr>)
          | _ \<Rightarrow> Inl (ValueError journal_invalid))))
     | _ \<Rightarrow> Inl (ValueError journal_invalid))"

record marker =
  mk_id :: pystr
  mk_digest :: pystr
  mk_journal :: pystr

definition marker_json :: "marker \<Rightarrow> json" where
  "marker_json m = JObj [(''format_version'', JInt 1), (''transaction_id'', JStr (mk_id m)), (''configuration_digest'', JStr (mk_digest m)),
     (''journal_path'', JStr (mk_journal m))]"

definition marker_invalid :: string where
  "marker_invalid = ''pending restore marker is invalid''"

definition marker_from_json :: "json \<Rightarrow> marker result" where
  "marker_from_json v = (case v of
       JObj ob \<Rightarrow>
         if \<not> keys_are ob [''format_version'', ''transaction_id'', ''configuration_digest'', ''journal_path'']
           \<or> \<not> is_format 1 (dict_get ob ''format_version'') then Inl (ValueError marker_invalid)
         else bindR (or_invalid marker_invalid (transaction_field ob)) (\<lambda>t.
         bindR (or_invalid marker_invalid (sha_field ob ''configuration_digest'')) (\<lambda>h.
         bindR (or_invalid marker_invalid (path_field ob ''journal_path'')) (\<lambda>p. Inr \<lparr>mk_id = t, mk_digest = h, mk_journal = p\<rparr>)))
     | _ \<Rightarrow> Inl (ValueError marker_invalid))"

end
