(* ===== verification/Backup_Manager.thy ===== *)
theory Backup_Manager
  imports Backup_Files
begin

text \<open>
  \<^verbatim>\<open>LocalBackupManager\<close> of \<^verbatim>\<open>workbench/backup.py\<close>: backups of declared files, and their restore as a transaction that a kill or
  an exception may interrupt at every access to the disk.

  A \<open>store\<close> is the disk, by the kind of file: the managed files, the markers beside them, journals, their snapshots, audit logs
  and archives, each by its path; \<open>tokens\<close> are the pending restores in the memory of the manager.  Writes go through a temporary
  file and \<^verbatim>\<open>os.replace\<close> and are atomic; the temporaries themselves are not kept in the model, nor are symbolic links, locks (the
  operations of a manager run one at a time) and the checks that keep the kinds of files apart.
\<close>

section \<open>The store and the manager\<close>

record store =
  files :: "pystr \<Rightarrow> pystr option"
  markers :: "pystr \<Rightarrow> json option"
  journals :: "pystr \<Rightarrow> json option"
  snapshots :: "pystr \<Rightarrow> pystr option"
  audits :: "pystr \<Rightarrow> json list"
  archives :: "pystr \<Rightarrow> archive option"
  tokens :: "(pystr \<times> pystr \<times> pystr) list"

record manager =
  mg_files :: "(pystr \<times> pystr) list"
  mg_groups :: "(pystr \<times> pystr list) list"
  mg_audit :: pystr
  mg_journal :: pystr
  mg_jname :: pystr

type_synonym 'a bio = "(store, 'a) io"

definition destinations :: "manager \<Rightarrow> pystr list" where
  "destinations mg = sort (map snd (mg_files mg))"

definition destination_of :: "manager \<Rightarrow> pystr \<Rightarrow> pystr" where
  "destination_of mg l = the (dict_get (mg_files mg) l)"

definition config_digest :: "hashing \<Rightarrow> (pystr \<times> pystr) list \<Rightarrow> pystr" where
  "config_digest H fs = sha H (canonical H (JList (map (\<lambda>(l, p). JObj [(''path'', JStr l), (''destination'', JStr p)]) (sort_key fst fs))))"

definition own_marker :: "hashing \<Rightarrow> manager \<Rightarrow> pystr \<Rightarrow> marker" where
  "own_marker H mg t = \<lparr>mk_id = t, mk_digest = config_digest H (mg_files mg), mk_journal = mg_journal mg\<rparr>"

definition snapshot_path :: "manager \<Rightarrow> pystr \<Rightarrow> nat \<Rightarrow> pystr" where
  "snapshot_path mg t i = mg_journal mg @ snapshot_suffix t i"

definition group_incomplete :: "pystr list \<Rightarrow> pystr list \<Rightarrow> bool" where
  "group_incomplete present ps \<longleftrightarrow> (\<exists>p \<in> set ps. p \<in> set present) \<and> \<not> (\<forall>p \<in> set ps. p \<in> set present)"

definition groups_complete :: "manager \<Rightarrow> pystr list \<Rightarrow> unit result" where
  "groups_complete mg present = (if \<exists>(g, ps) \<in> set (mg_groups mg). group_incomplete present ps
     then Inl (ValueError ''backup consistency group is incomplete'') else Inr ())"

section \<open>Markers\<close>

definition read_marker :: "hashing \<Rightarrow> pystr \<Rightarrow> marker option bio" where
  "read_marker H p = and_then (inspect (\<lambda>s. markers s p)) (\<lambda>v. case v of
       None \<Rightarrow> ret None
     | Some v \<Rightarrow> and_then (touch (ValueError ''pending restore marker cannot be read'')) (\<lambda>_.
         if canonical H v = [] \<or> 4096 < length (canonical H v) then raise (ValueError marker_invalid)
         else and_then (of_result (marker_from_json v)) (\<lambda>m. ret (Some m))))"

definition write_marker :: "pystr \<Rightarrow> marker \<Rightarrow> unit bio" where
  "write_marker p m = and_then (inspect (\<lambda>s. markers s p)) (\<lambda>v.
     if v \<noteq> None then raise (ValueError ''pending restore marker is already present'')
     else act (ValueError ''pending restore marker cannot be written'') (\<lambda>s. s\<lparr>markers := (markers s)(p \<mapsto> marker_json m)\<rparr>))"

definition remove_marker :: "hashing \<Rightarrow> marker \<Rightarrow> pystr \<Rightarrow> unit bio" where
  "remove_marker H m p = and_then (read_marker H p) (\<lambda>v.
     if v \<noteq> Some m then raise (ValueError marker_invalid)
     else act (ValueError ''pending restore marker cannot be finalized'') (\<lambda>s. s\<lparr>markers := (markers s)(p := None)\<rparr>))"

definition clear_markers :: "hashing \<Rightarrow> manager \<Rightarrow> pystr list \<Rightarrow> pystr \<Rightarrow> unit bio" where
  "clear_markers H mg ps t = each (remove_marker H (own_marker H mg t)) ps"

text \<open>The markers that are written already, the last one first, go when a later one cannot be written.\<close>

fun write_markers_from :: "hashing \<Rightarrow> marker \<Rightarrow> pystr list \<Rightarrow> pystr list \<Rightarrow> unit bio" where
  "write_markers_from H m written [] = ret ()"
| "write_markers_from H m written (p # ps) =
     and_then (on_error (write_marker p m) (\<lambda>e. and_then (each (remove_marker H m) written) (\<lambda>_. raise e)))
       (\<lambda>_. write_markers_from H m (p # written) ps)"

definition write_markers :: "hashing \<Rightarrow> manager \<Rightarrow> pystr \<Rightarrow> pystr list \<Rightarrow> unit bio" where
  "write_markers H mg t ps = write_markers_from H (own_marker H mg t) [] ps"

definition read_markers :: "hashing \<Rightarrow> manager \<Rightarrow> (pystr \<times> marker) list bio" where
  "read_markers H mg = and_then (collect (\<lambda>p. and_then (read_marker H p) (\<lambda>v. ret (p, v))) (destinations mg))
     (\<lambda>vs. ret (concat (map (\<lambda>(p, v). case v of None \<Rightarrow> [] | Some m \<Rightarrow> [(p, m)]) vs)))"

definition marker_owner :: "hashing \<Rightarrow> manager \<Rightarrow> (pystr \<times> marker) list \<Rightarrow> pystr option result" where
  "marker_owner H mg ms = (case ms of
       [] \<Rightarrow> Inr None
     | (p, m) # rest \<Rightarrow>
         if \<exists>(p, m) \<in> set ms. mk_digest m \<noteq> config_digest H (mg_files mg) \<or> mk_journal m \<noteq> mg_journal mg
         then Inl (ValueError ''pending restore is owned by another configuration'')
         else if \<exists>(p, m') \<in> set rest. mk_id m' \<noteq> mk_id m then Inl (ValueError marker_invalid)
         else Inr (Some (mk_id m)))"

definition entry_destinations :: "manager \<Rightarrow> journal \<Rightarrow> pystr list" where
  "entry_destinations mg j = map (\<lambda>e. destination_of mg (je_path e)) (jn_entries j)"

definition markers_match :: "manager \<Rightarrow> (pystr \<times> marker) list \<Rightarrow> journal \<Rightarrow> unit result" where
  "markers_match mg ms j =
     (if ms = [] then Inr ()
      else if set (map fst ms) \<noteq> set (entry_destinations mg j) \<or> (\<exists>(p, m) \<in> set ms. mk_id m \<noteq> jn_id j) then Inl (ValueError marker_invalid)
      else Inr ())"

section \<open>The journal\<close>

definition checked_journal :: "hashing \<Rightarrow> manager \<Rightarrow> json \<Rightarrow> journal result" where
  "checked_journal H mg v =
     (if canonical H v = [] \<or> 65536 < length (canonical H v) then Inl (ValueError journal_invalid)
      else bindR (journal_from_json (mg_jname mg) v) (\<lambda>j.
      if \<not> (\<forall>e \<in> set (jn_entries j). je_path e \<in> set (map fst (mg_files mg))) then Inl (ValueError journal_invalid)
      else if jn_version j \<noteq> 2 \<or> jn_digest j \<noteq> Some (config_digest H (mg_files mg)) then Inl (ValueError ''restore journal configuration mismatch'')
      else if \<exists>e \<in> set (jn_entries j). je_destination e \<noteq> Some (destination_of mg (je_path e)) then Inl (ValueError ''restore journal configuration mismatch'')
      else bindR (groups_complete mg (map je_path (jn_entries j))) (\<lambda>_. Inr j)))"

definition read_journal :: "hashing \<Rightarrow> manager \<Rightarrow> journal option bio" where
  "read_journal H mg = and_then (inspect (\<lambda>s. journals s (mg_journal mg))) (\<lambda>v. case v of
       None \<Rightarrow> ret None
     | Some v \<Rightarrow> and_then (touch (ValueError ''restore journal cannot be read'')) (\<lambda>_.
         and_then (of_result (checked_journal H mg v)) (\<lambda>j. ret (Some j))))"

definition size_of :: "pystr \<Rightarrow> int" where
  "size_of c = int (length c)"

definition matches :: "hashing \<Rightarrow> pystr \<Rightarrow> pystr option \<Rightarrow> int option \<Rightarrow> bool" where
  "matches H c h n \<longleftrightarrow> Some (sha H c) = h \<and> Some (size_of c) = n"

text \<open>A destination must hold what it held before the restore or what the restore puts there.\<close>

definition target_state :: "hashing \<Rightarrow> journal_entry \<Rightarrow> pystr \<Rightarrow> unit bio" where
  "target_state H e p = and_then (inspect (\<lambda>s. files s p)) (\<lambda>v. case v of
       None \<Rightarrow> if je_had e then raise (ValueError ''restore journal has unexpected post-interruption state'') else ret ()
     | Some c \<Rightarrow> and_then (touch (ValueError ''restore journal has unexpected post-interruption state'')) (\<lambda>_.
         if \<not> (je_had e \<and> matches H c (je_sha e) (je_size e)) \<and> \<not> matches H c (je_planned_sha e) (je_planned_size e)
         then raise (ValueError ''restore journal has unexpected post-interruption state'') else ret ()))"

definition read_snapshot :: "hashing \<Rightarrow> manager \<Rightarrow> pystr \<Rightarrow> nat \<Rightarrow> journal_entry \<Rightarrow> pystr bio" where
  "read_snapshot H mg t i e = and_then (inspect (\<lambda>s. snapshots s (snapshot_path mg t i))) (\<lambda>v. case v of
       None \<Rightarrow> raise (ValueError journal_invalid)
     | Some c \<Rightarrow> and_then (touch (ValueError ''restore journal cannot be read'')) (\<lambda>_.
         if \<not> matches H c (je_sha e) (je_size e) then raise (ValueError journal_invalid) else ret c))"

text \<open>A target of the recovery: its destination, and the content to put back when it had one.\<close>

definition recovery_target :: "hashing \<Rightarrow> manager \<Rightarrow> pystr \<Rightarrow> nat \<times> journal_entry \<Rightarrow> (pystr \<times> pystr option) bio" where
  "recovery_target H mg t ie = (case ie of (i, e) \<Rightarrow> let p = destination_of mg (je_path e) in
     if \<not> je_had e then and_then (target_state H e p) (\<lambda>_. ret (p, None))
     else and_then (read_snapshot H mg t i e) (\<lambda>c. and_then (target_state H e p) (\<lambda>_. ret (p, Some c))))"

definition recovery_targets :: "hashing \<Rightarrow> manager \<Rightarrow> journal \<Rightarrow> (pystr \<times> pystr option) list bio" where
  "recovery_targets H mg j = collect (recovery_target H mg (jn_id j)) (enumerate 0 (jn_entries j))"

definition replace_file :: "pystr \<Rightarrow> pystr \<Rightarrow> unit bio" where
  "replace_file p c = act OSError (\<lambda>s. s\<lparr>files := (files s)(p \<mapsto> c)\<rparr>)"

definition unlink_file :: "pystr \<Rightarrow> unit bio" where
  "unlink_file p = act OSError (\<lambda>s. s\<lparr>files := (files s)(p := None)\<rparr>)"

definition stage_file :: "unit bio" where
  "stage_file = touch (ValueError ''restore staging file cannot be written'')"

definition verify_target :: "hashing \<Rightarrow> pystr \<times> pystr option \<Rightarrow> unit bio" where
  "verify_target H t = (case t of (p, v) \<Rightarrow> and_then (inspect (\<lambda>s. files s p)) (\<lambda>now.
     case v of
       None \<Rightarrow> if now \<noteq> None then raise (ValueError ''restore journal cannot be recovered'') else ret ()
     | Some c \<Rightarrow> and_then (touch (ValueError ''restore journal cannot be recovered'')) (\<lambda>_.
         case now of None \<Rightarrow> raise (ValueError ''restore journal cannot be recovered'')
         | Some c' \<Rightarrow> if \<not> matches H c' (Some (sha H c)) (Some (size_of c)) then raise (ValueError ''restore journal cannot be recovered'') else ret ())))"

definition finalize_journal :: "hashing \<Rightarrow> manager \<Rightarrow> journal \<Rightarrow> bool \<Rightarrow> unit bio" where
  "finalize_journal H mg j clear = and_then (inspect (\<lambda>s. journals s (mg_journal mg))) (\<lambda>v.
     if v = None then raise (ValueError journal_invalid)
     else and_then (act (ValueError ''restore journal cannot be finalized'') (\<lambda>s. s\<lparr>journals := (journals s)(mg_journal mg := None)\<rparr>)) (\<lambda>_.
     and_then (each (\<lambda>(i, e). if \<not> je_had e then ret ()
         else act (ValueError ''restore journal cannot be finalized'') (\<lambda>s. s\<lparr>snapshots := (snapshots s)(snapshot_path mg (jn_id j) i := None)\<rparr>))
       (enumerate 0 (jn_entries j))) (\<lambda>_.
     if clear then clear_markers H mg (entry_destinations mg j) (jn_id j) else ret ())))"

definition old_files :: "(pystr \<times> pystr option) list \<Rightarrow> (pystr \<times> pystr) list" where
  "old_files ts = concat (map (\<lambda>(p, v). case v of None \<Rightarrow> [] | Some c \<Rightarrow> [(p, c)]) ts)"

definition new_files :: "(pystr \<times> pystr option) list \<Rightarrow> pystr list" where
  "new_files ts = map fst (filter (\<lambda>(p, v). v = None) ts)"

definition recover_journal :: "hashing \<Rightarrow> manager \<Rightarrow> journal \<Rightarrow> (pystr \<times> pystr option) list \<Rightarrow> bool \<Rightarrow> unit bio" where
  "recover_journal H mg j ts clear =
     and_then (each (\<lambda>_. stage_file) (old_files ts)) (\<lambda>_.
     and_then (each (\<lambda>(p, c). replace_file p c) (old_files ts)) (\<lambda>_.
     and_then (each unlink_file (new_files ts)) (\<lambda>_.
     and_then (each (verify_target H) ts) (\<lambda>_.
     finalize_journal H mg j clear))))"

definition recover_found :: "hashing \<Rightarrow> manager \<Rightarrow> (pystr \<times> marker) list \<Rightarrow> pystr option \<Rightarrow> journal option \<Rightarrow> unit bio" where
  "recover_found H mg ms t j = (case j of
       None \<Rightarrow> (case t of None \<Rightarrow> ret () | Some t \<Rightarrow> clear_markers H mg (map fst ms) t)
     | Some j \<Rightarrow> on_error
         (and_then (of_result (markers_match mg ms j)) (\<lambda>_.
          and_then (recovery_targets H mg j) (\<lambda>ts. recover_journal H mg j ts (ms \<noteq> []))))
         (\<lambda>e. raise (if is_value_error e then ValueError ''restore journal cannot be recovered'' else e)))"

definition recover_pending :: "hashing \<Rightarrow> manager \<Rightarrow> unit bio" where
  "recover_pending H mg =
     and_then (read_markers H mg) (\<lambda>ms.
     and_then (of_result (marker_owner H mg ms)) (\<lambda>t.
     and_then (read_journal H mg) (recover_found H mg ms t)))"

section \<open>Opening a manager\<close>

definition checked_group :: "pystr list \<Rightarrow> pystr \<times> pystr list \<Rightarrow> (pystr \<times> pystr list) result" where
  "checked_group managed g = (case g of (n, ps) \<Rightarrow>
     if py_strip n = [] then Inl (ValueError ''backup consistency groups are invalid'')
     else if \<not> list_all logical_ok ps then Inl (ValueError ''backup logical path is invalid'')
     else if length ps < 2 \<or> \<not> distinct ps then Inl (ValueError ''backup consistency groups are invalid'')
     else if \<not> (\<forall>p \<in> set ps. p \<in> set managed) then Inl (ValueError ''backup consistency groups reference unmanaged files'')
     else Inr (n, ps))"

definition new_manager :: "(pystr \<times> pystr) list \<Rightarrow> (pystr \<times> pystr list) list \<Rightarrow> pystr \<Rightarrow> pystr \<Rightarrow> pystr \<Rightarrow> manager result" where
  "new_manager fs gs audit jpath jname =
     (if \<not> list_all (\<lambda>(l, p). logical_ok l) fs then Inl (ValueError ''backup logical path is invalid'')
      else bindR (mapR (checked_group (map fst fs)) gs) (\<lambda>gs.
      if audit \<in> set (map snd fs) then Inl (ValueError ''restore audit file cannot be a managed backup file'')
      else if \<not> distinct (map snd fs) then Inl (ValueError ''managed backup files cannot share a duplicate local destination'')
      else if jpath \<in> set (map snd fs) then Inl (ValueError ''restore journal file cannot be a managed backup file'')
      else Inr \<lparr>mg_files = fs, mg_groups = gs, mg_audit = audit, mg_journal = jpath, mg_jname = jname\<rparr>))"

definition open_manager :: "hashing \<Rightarrow> (pystr \<times> pystr) list \<Rightarrow> (pystr \<times> pystr list) list \<Rightarrow> pystr \<Rightarrow> pystr \<Rightarrow> pystr \<Rightarrow> manager bio" where
  "open_manager H fs gs audit jpath jname =
     and_then (of_result (new_manager fs gs audit jpath jname)) (\<lambda>mg.
     and_then (keep (\<lambda>s. s\<lparr>tokens := []\<rparr>)) (\<lambda>_. and_then (recover_pending H mg) (\<lambda>_. ret mg)))"

section \<open>Backup\<close>

definition read_managed :: "hashing \<Rightarrow> pystr \<times> pystr \<Rightarrow> (backup_file \<times> pystr) option bio" where
  "read_managed H lp = (case lp of (l, p) \<Rightarrow> and_then (inspect (\<lambda>s. files s p)) (\<lambda>v. case v of
       None \<Rightarrow> ret None
     | Some c \<Rightarrow> and_then (touch (ValueError ''managed backup file cannot be read'')) (\<lambda>_.
         ret (Some (\<lparr>bf_path = l, bf_sha = sha H c, bf_size = size_of c\<rparr>, c)))))"

definition archive_of :: "hashing \<Rightarrow> manifest \<Rightarrow> pystr list \<Rightarrow> archive" where
  "archive_of H m cs = \<lparr>zm_name = manifest_name, zm_bytes = canonical H (manifest_json m), zm_json = manifest_json m\<rparr>
     # map (\<lambda>(f, c). \<lparr>zm_name = managed_prefix @ bf_path f, zm_bytes = c, zm_json = JNull\<rparr>) (zip (bm_files m) cs)"

definition create_backup :: "hashing \<Rightarrow> manager \<Rightarrow> pystr \<Rightarrow> pystr \<Rightarrow> pystr \<Rightarrow> manifest bio" where
  "create_backup H mg path bid now =
     and_then (recover_pending H mg) (\<lambda>_.
     and_then (collect (read_managed H) (sort_key fst (mg_files mg))) (\<lambda>vs.
     let found = concat (map (\<lambda>v. case v of None \<Rightarrow> [] | Some x \<Rightarrow> [x]) vs) in
     and_then (of_result (groups_complete mg (map (bf_path \<circ> fst) found))) (\<lambda>_.
     let m = \<lparr>bm_version = JInt 1, bm_id = bid, bm_created = now, bm_files = map fst found\<rparr> in
     and_then (act OSError (\<lambda>s. s\<lparr>archives := (archives s)(path \<mapsto> archive_of H m (map snd found))\<rparr>)) (\<lambda>_. ret m))))"

section \<open>Restore\<close>

definition member_content :: "hashing \<Rightarrow> manager \<Rightarrow> archive \<Rightarrow> backup_file \<Rightarrow> (pystr \<times> pystr) result" where
  "member_content H mg z f =
     (if bf_path f \<notin> set (map fst (mg_files mg)) then Inl (ValueError ''backup archive references an unmanaged file'')
      else case zip_read z (managed_prefix @ bf_path f) of
        None \<Rightarrow> Inl KeyError
      | Some m \<Rightarrow> if size_of (zm_bytes m) \<noteq> bf_size f \<or> sha H (zm_bytes m) \<noteq> bf_sha f then Inl (ValueError ''backup hash validation failed'')
          else Inr (bf_path f, zm_bytes m))"

definition archive_contents :: "hashing \<Rightarrow> manager \<Rightarrow> archive \<Rightarrow> manifest \<Rightarrow> (manifest \<times> (pystr \<times> pystr) list) result" where
  "archive_contents H mg z m =
     (if set (map zm_name z) \<noteq> insert manifest_name (set (map (\<lambda>f. managed_prefix @ bf_path f) (bm_files m)))
      then Inl (ValueError ''backup archive contains undeclared members'')
      else bindR (mapR (member_content H mg z) (bm_files m)) (\<lambda>cs.
      bindR (groups_complete mg (map fst cs)) (\<lambda>_. Inr (m, cs))))"

definition validated_archive :: "hashing \<Rightarrow> manager \<Rightarrow> archive \<Rightarrow> (manifest \<times> (pystr \<times> pystr) list) result" where
  "validated_archive H mg z =
     (if \<not> list_all zip_member_ok (map zm_name z) then Inl (ValueError ''zip traversal rejected'')
      else if \<not> distinct (map zm_name z) then Inl (ValueError ''backup archive contains duplicate members'')
      else case zip_read z manifest_name of
        None \<Rightarrow> Inl (ValueError ''backup archive manifest is missing'')
      | Some mm \<Rightarrow> bindR (manifest_from_json (zm_json mm)) (archive_contents H mg z))"

definition read_archive :: "hashing \<Rightarrow> manager \<Rightarrow> pystr \<Rightarrow> (manifest \<times> (pystr \<times> pystr) list) bio" where
  "read_archive H mg path = and_then (inspect (\<lambda>s. archives s path)) (\<lambda>v. case v of
       None \<Rightarrow> raise (ValueError ''backup archive cannot be read'')
     | Some z \<Rightarrow> and_then (touch (ValueError ''backup archive cannot be read'')) (\<lambda>_. of_result (validated_archive H mg z)))"

definition manifest_digest :: "hashing \<Rightarrow> manifest \<Rightarrow> pystr" where
  "manifest_digest H m = sha H (canonical H (manifest_json m))"

definition preflight_restore :: "hashing \<Rightarrow> manager \<Rightarrow> pystr \<Rightarrow> pystr \<Rightarrow> (manifest \<times> pystr \<times> pystr list) bio" where
  "preflight_restore H mg path token =
     and_then (recover_pending H mg) (\<lambda>_.
     and_then (read_archive H mg path) (\<lambda>(m, cs).
     and_then (keep (\<lambda>s. s\<lparr>tokens := dict_set (tokens s) token (path, manifest_digest H m)\<rparr>)) (\<lambda>_.
     ret (m, token, map bf_path (bm_files m)))))"

definition planned :: "manager \<Rightarrow> (pystr \<times> pystr) list \<Rightarrow> (pystr \<times> pystr \<times> pystr) list" where
  "planned mg cs = map (\<lambda>(l, c). (l, destination_of mg l, c)) cs"

definition snapshot_target :: "hashing \<Rightarrow> manager \<Rightarrow> pystr \<Rightarrow> nat \<times> pystr \<times> pystr \<times> pystr \<Rightarrow> journal_entry bio" where
  "snapshot_target H mg t x = (case x of (i, l, p, c) \<Rightarrow>
     and_then (inspect (\<lambda>s. files s p)) (\<lambda>v. case v of
       None \<Rightarrow> ret \<lparr>je_path = l, je_destination = Some p, je_had = False, je_snapshot = None, je_sha = None, je_size = None,
         je_planned_sha = Some (sha H c), je_planned_size = Some (size_of c)\<rparr>
     | Some c0 \<Rightarrow>
         and_then (touch (ValueError ''managed restore target cannot be snapshotted'')) (\<lambda>_.
         and_then (act (ValueError ''restore journal cannot be written'') (\<lambda>s. s\<lparr>snapshots := (snapshots s)(snapshot_path mg t i \<mapsto> c0)\<rparr>)) (\<lambda>_.
         ret \<lparr>je_path = l, je_destination = Some p, je_had = True, je_snapshot = Some (mg_jname mg @ snapshot_suffix t i), je_sha = Some (sha H c0),
           je_size = Some (size_of c0), je_planned_sha = Some (sha H c), je_planned_size = Some (size_of c)\<rparr>))))"

definition create_journal :: "hashing \<Rightarrow> manager \<Rightarrow> pystr \<Rightarrow> (pystr \<times> pystr \<times> pystr) list \<Rightarrow> journal bio" where
  "create_journal H mg t plan = and_then (collect (snapshot_target H mg t) (enumerate 0 plan)) (\<lambda>es.
     ret \<lparr>jn_version = 2, jn_id = t, jn_digest = Some (config_digest H (mg_files mg)), jn_entries = es\<rparr>)"

definition write_journal :: "manager \<Rightarrow> journal \<Rightarrow> unit bio" where
  "write_journal mg j = act (ValueError ''restore journal cannot be written'') (\<lambda>s. s\<lparr>journals := (journals s)(mg_journal mg \<mapsto> journal_json j)\<rparr>)"

definition audit_json :: "pystr \<Rightarrow> json \<Rightarrow> manifest \<Rightarrow> json" where
  "audit_json aid now m = JObj [(''audit_id'', JStr aid), (''action'', JStr (py ''restore'')), (''phase'', JStr (py ''before_replacement'')),
     (''recorded_at'', now), (''backup_id'', JStr (bm_id m)), (''files'', JList (map (JStr \<circ> bf_path) (bm_files m)))]"

definition append_audit :: "manager \<Rightarrow> json \<Rightarrow> unit bio" where
  "append_audit mg v = act OSError (\<lambda>s. s\<lparr>audits := (audits s)(mg_audit mg := audits s (mg_audit mg) @ [v])\<rparr>)"

definition verify_restored :: "pystr \<times> pystr \<times> pystr \<Rightarrow> unit bio" where
  "verify_restored x = (case x of (l, p, c) \<Rightarrow> and_then (touch (ValueError ''restored file cannot be verified'')) (\<lambda>_.
     and_then (inspect (\<lambda>s. files s p)) (\<lambda>v. if v \<noteq> Some c then raise (ValueError ''restored file cannot be verified'') else ret ())))"

definition clear_after_failure :: "hashing \<Rightarrow> manager \<Rightarrow> pystr list \<Rightarrow> pystr \<Rightarrow> unit bio" where
  "clear_after_failure H mg ps t = (if ps = [] then ret ()
     else on_error (clear_markers H mg ps t) (\<lambda>_. raise (ValueError ''restore marker cleanup failed'')))"

text \<open>The handler of an exception that is raised once there is a journal.\<close>

definition roll_back :: "hashing \<Rightarrow> manager \<Rightarrow> pystr list \<Rightarrow> pystr \<Rightarrow> unit bio" where
  "roll_back H mg ps t = and_then (inspect (\<lambda>s. journals s (mg_journal mg))) (\<lambda>v.
     if v \<noteq> None then on_error (recover_pending H mg) (\<lambda>_. raise (ValueError ''restore journal recovery failed''))
     else clear_after_failure H mg ps t)"

definition replace_all :: "hashing \<Rightarrow> manager \<Rightarrow> pystr \<Rightarrow> json \<Rightarrow> manifest \<Rightarrow> (pystr \<times> pystr \<times> pystr) list \<Rightarrow> journal \<Rightarrow> (pystr list \<times> pystr) bio" where
  "replace_all H mg aid now m plan j =
     and_then (write_journal mg j) (\<lambda>_.
     and_then (append_audit mg (audit_json aid now m)) (\<lambda>_.
     and_then (each (\<lambda>(l, p, c). replace_file p c) plan) (\<lambda>_.
     and_then (each verify_restored plan) (\<lambda>_.
     and_then (finalize_journal H mg j True) (\<lambda>_. ret (map bf_path (bm_files m), aid))))))"

definition restore_plan :: "hashing \<Rightarrow> manager \<Rightarrow> pystr \<Rightarrow> pystr \<Rightarrow> json \<Rightarrow> manifest \<Rightarrow> (pystr \<times> pystr \<times> pystr) list \<Rightarrow> (pystr list \<times> pystr) bio" where
  "restore_plan H mg t aid now m plan = (let ps = map (fst \<circ> snd) plan in
     and_then (each (\<lambda>_. stage_file) plan) (\<lambda>_.
     and_then (write_markers H mg t ps) (\<lambda>_.
     and_then (on_error (create_journal H mg t plan) (\<lambda>e. and_then (clear_after_failure H mg ps t) (\<lambda>_. raise e))) (\<lambda>j.
     on_error (replace_all H mg aid now m plan j) (\<lambda>e. and_then (roll_back H mg ps t) (\<lambda>_. raise e))))))"

text \<open>\<open>t\<close> and \<open>aid\<close> are the fresh identifiers of the transaction and of the audit.\<close>

definition restore_archive :: "hashing \<Rightarrow> manager \<Rightarrow> pystr \<Rightarrow> pystr \<Rightarrow> pystr \<Rightarrow> pystr \<Rightarrow> json \<Rightarrow> (pystr list \<times> pystr) bio" where
  "restore_archive H mg path token t aid now =
     and_then (recover_pending H mg) (\<lambda>_.
     and_then (inspect (\<lambda>s. dict_get (tokens s) token)) (\<lambda>pending.
     and_then (keep (\<lambda>s. s\<lparr>tokens := filter (\<lambda>(k, v). k \<noteq> token) (tokens s)\<rparr>)) (\<lambda>_.
     case pending of
       None \<Rightarrow> raise (ValueError ''explicit restore confirmation is required'')
     | Some (path', digest) \<Rightarrow>
         if path' \<noteq> path then raise (ValueError ''explicit restore confirmation is required'')
         else and_then (read_archive H mg path) (\<lambda>(m, cs).
         if manifest_digest H m \<noteq> digest then raise (ValueError ''explicit restore confirmation is required'')
         else restore_plan H mg t aid now m (planned mg cs)))))"

end
