(* ===== verification/Backup_Recovery.thy ===== *)
theory Backup_Recovery
  imports Backup_Manager
begin

text \<open>
  The states of a store in which a restore of \<^verbatim>\<open>workbench/backup.py\<close> can be stopped (\<open>pending\<close>), and the triples of the
  restore and of its recovery: each step keeps them, a recovery that returns leaves them for a store at rest, so that the recovery is
  an instance of the locale of \<open>Crash_Io\<close>.
\<close>

section \<open>Reading what was written\<close>

definition local_ok :: "pystr \<Rightarrow> bool" where
  "local_ok p \<longleftrightarrow> p \<noteq> [] \<and> py_strip p = p \<and> 0 \<notin> set p"

text \<open>What a manager that the constructor returned satisfies; SHA-256 gives 64 hexadecimal digits.\<close>

definition well_set :: "hashing \<Rightarrow> manager \<Rightarrow> bool" where
  "well_set H mg \<longleftrightarrow> (\<forall>b. is_sha256 (sha H b)) \<and> distinct (map fst (mg_files mg)) \<and> distinct (map snd (mg_files mg))
     \<and> (\<forall>(l, p) \<in> set (mg_files mg). logical_ok l \<and> local_ok p) \<and> local_ok (mg_journal mg)"

lemma marker_roundtrip:
  assumes "well_set H mg" "is_transaction_id t"
  shows "marker_from_json (marker_json (own_marker H mg t)) = Inr (own_marker H mg t)"
  using assms
  by (simp add: marker_from_json_def marker_json_def own_marker_def keys_are_def is_format_def transaction_field_def sha_field_def
      path_field_def or_invalid_def well_set_def local_ok_def config_digest_def)

definition planned_entry :: "hashing \<Rightarrow> manager \<Rightarrow> pystr \<Rightarrow> (pystr \<Rightarrow> pystr option) \<Rightarrow> nat \<times> pystr \<times> pystr \<times> pystr \<Rightarrow> journal_entry" where
  "planned_entry H mg t F x = (case x of (i, l, p, c) \<Rightarrow> (case F p of
       None \<Rightarrow> \<lparr>je_path = l, je_destination = Some p, je_had = False, je_snapshot = None, je_sha = None, je_size = None,
         je_planned_sha = Some (sha H c), je_planned_size = Some (size_of c)\<rparr>
     | Some c0 \<Rightarrow> \<lparr>je_path = l, je_destination = Some p, je_had = True, je_snapshot = Some (mg_jname mg @ snapshot_suffix t i),
         je_sha = Some (sha H c0), je_size = Some (size_of c0), je_planned_sha = Some (sha H c), je_planned_size = Some (size_of c)\<rparr>))"

definition journal_for :: "hashing \<Rightarrow> manager \<Rightarrow> pystr \<Rightarrow> (pystr \<Rightarrow> pystr option) \<Rightarrow> (pystr \<times> pystr \<times> pystr) list \<Rightarrow> journal" where
  "journal_for H mg t F plan = \<lparr>jn_version = 2, jn_id = t, jn_digest = Some (config_digest H (mg_files mg)),
     jn_entries = map (planned_entry H mg t F) (enumerate 0 plan)\<rparr>"

definition file_plan_ok :: "manager \<Rightarrow> (pystr \<times> pystr \<times> pystr) list \<Rightarrow> bool" where
  "file_plan_ok mg plan \<longleftrightarrow> distinct (map fst plan) \<and> (\<forall>(l, p, c) \<in> set plan. (l, p) \<in> set (mg_files mg))"

lemma entry_roundtrip:
  assumes "\<forall>b. is_sha256 (sha H b)" "logical_ok l" "local_ok p" "l \<notin> seen"
  shows "entry_from_json False (mg_jname mg) t i seen (entry_json (planned_entry H mg t F (i, l, p, c))) = Inr (planned_entry H mg t F (i, l, p, c))"
  using assms
  by (cases "F p") (auto simp: entry_from_json_def entry_json_def planned_entry_def keys_are_def logical_path_def had_field_def path_field_def
      sha_field_def size_field_def or_invalid_def original_of_def opt_text_def opt_int_def local_ok_def size_of_def)

lemma entry_path [simp]: "je_path (planned_entry H mg t F (i, l, p, c)) = l" "je_destination (planned_entry H mg t F (i, l, p, c)) = Some p"
  "je_had (planned_entry H mg t F (i, l, p, c)) = (F p \<noteq> None)"
  by (auto simp: planned_entry_def split: option.splits)

lemma entries_roundtrip:
  assumes "\<forall>b. is_sha256 (sha H b)" "\<forall>(l, p, c) \<in> set plan. logical_ok l \<and> local_ok p" "distinct (map fst plan)" "fst ` set plan \<inter> seen = {}"
  shows "entries_from_json False (mg_jname mg) t i seen (map entry_json (map (planned_entry H mg t F) (enumerate i plan)))
    = Inr (map (planned_entry H mg t F) (enumerate i plan))"
  using assms(2-)
proof (induction plan arbitrary: i seen)
  case (Cons x plan)
  obtain l p c where x: "x = (l, p, c)" by (rule prod_cases3)
  have "entry_from_json False (mg_jname mg) t i seen (entry_json (planned_entry H mg t F (i, l, p, c))) = Inr (planned_entry H mg t F (i, l, p, c))"
    by (rule entry_roundtrip) (use assms(1) Cons.prems x in auto)
  moreover have "entries_from_json False (mg_jname mg) t (Suc i) (insert l seen) (map entry_json (map (planned_entry H mg t F) (enumerate (Suc i) plan)))
    = Inr (map (planned_entry H mg t F) (enumerate (Suc i) plan))"
    by (rule Cons.IH) (use Cons.prems x in \<open>auto simp: image_iff\<close>)
  ultimately show ?case by (simp add: x)
qed simp

lemma file_plan_managed:
  assumes "well_set H mg" "file_plan_ok mg plan"
  shows "\<forall>(l, p, c) \<in> set plan. logical_ok l \<and> local_ok p"
  using assms unfolding well_set_def file_plan_ok_def by fast

lemma destination_of_managed:
  assumes "well_set H mg" "(l, p) \<in> set (mg_files mg)"
  shows "destination_of mg l = p"
  using assms by (simp add: destination_of_def well_set_def dict_get_map_of)

lemma journal_roundtrip:
  assumes "well_set H mg" "file_plan_ok mg plan" "is_transaction_id t"
  shows "journal_from_json (mg_jname mg) (journal_json (journal_for H mg t F plan)) = Inr (journal_for H mg t F plan)"
proof -
  have h: "\<forall>b. is_sha256 (sha H b)" "is_sha256 (config_digest H (mg_files mg))" using assms(1) by (simp_all add: well_set_def config_digest_def)
  have "entries_from_json False (mg_jname mg) t 0 {} (map entry_json (jn_entries (journal_for H mg t F plan))) = Inr (jn_entries (journal_for H mg t F plan))"
    unfolding journal_for_def journal.select_convs
    by (rule entries_roundtrip) (use h file_plan_managed[OF assms(1,2)] assms(2) in \<open>auto simp: file_plan_ok_def\<close>)
  then show ?thesis using h assms(3)
    by (simp add: journal_from_json_def journal_json_def journal_for_def is_format_def keys_are_def sha_field_def opt_text_def or_invalid_def
        transaction_field_def Let_def insert_commute)
qed

lemma checked_journal_same:
  assumes "well_set H mg" "file_plan_ok mg plan" "is_transaction_id t" "checked_journal H mg (journal_json (journal_for H mg t F plan)) = Inr j"
  shows "j = journal_for H mg t F plan"
  using assms(4) by (auto simp: checked_journal_def journal_roundtrip[OF assms(1-3)] bindR_Inr_iff split: if_splits)

section \<open>Markers\<close>

definition marks :: "hashing \<Rightarrow> manager \<Rightarrow> pystr \<Rightarrow> pystr set \<Rightarrow> store \<Rightarrow> bool" where
  "marks H mg t D s \<longleftrightarrow> (\<forall>p \<in> set (destinations mg). markers s p = (if p \<in> D then Some (marker_json (own_marker H mg t)) else None))"

text \<open>A predicate that does not look at the markers.\<close>

definition markless :: "(store \<Rightarrow> bool) \<Rightarrow> bool" where
  "markless K \<longleftrightarrow> (\<forall>s m. K (s\<lparr>markers := m\<rparr>) = K s)"

lemma marks_fields [simp]:
  "marks H mg t D (s\<lparr>files := x\<rparr>) = marks H mg t D s" "marks H mg t D (s\<lparr>journals := y\<rparr>) = marks H mg t D s"
  "marks H mg t D (s\<lparr>snapshots := z\<rparr>) = marks H mg t D s" "marks H mg t D (s\<lparr>audits := u\<rparr>) = marks H mg t D s"
  "marks H mg t D (s\<lparr>archives := v\<rparr>) = marks H mg t D s" "marks H mg t D (s\<lparr>tokens := w\<rparr>) = marks H mg t D s"
  by (simp_all add: marks_def)

lemma read_marker_guards:
  assumes "well_set H mg" "is_transaction_id t" "p \<in> set (destinations mg)" "\<And>s. P s \<Longrightarrow> marks H mg t D s"
  shows "guards P (read_marker H p) (\<lambda>v s. v = (if p \<in> D then Some (own_marker H mg t) else None) \<and> P s) P"
  unfolding read_marker_def
proof (rule guards_and_then[where Q = "\<lambda>v s. v = (if p \<in> D then Some (marker_json (own_marker H mg t)) else None) \<and> P s"])
  show "guards P (inspect (\<lambda>s. markers s p)) (\<lambda>v s. v = (if p \<in> D then Some (marker_json (own_marker H mg t)) else None) \<and> P s) P"
    by (rule guards_inspect) (use assms(3,4) in \<open>auto simp: marks_def\<close>)
next
  fix v
  show "guards (\<lambda>s. v = (if p \<in> D then Some (marker_json (own_marker H mg t)) else None) \<and> P s)
      (case v of None \<Rightarrow> ret None | Some v \<Rightarrow> and_then (touch (ValueError ''pending restore marker cannot be read'')) (\<lambda>_.
         if canonical H v = [] \<or> 4096 < length (canonical H v) then raise (ValueError marker_invalid)
         else and_then (of_result (marker_from_json v)) (\<lambda>m. ret (Some m))))
      (\<lambda>v s. v = (if p \<in> D then Some (own_marker H mg t) else None) \<and> P s) P"
    by (rule guards_assume)
      (auto simp: marker_roundtrip[OF assms(1,2)] intro!: guards_and_then[where Q = "\<lambda>_. P"] guards_if guard_rules)
qed

lemma remove_marker_guards:
  assumes "well_set H mg" "is_transaction_id t" "p \<in> set (destinations mg)" "markless K"
  shows "guards (\<lambda>s. K s \<and> marks H mg t D s) (remove_marker H (own_marker H mg t) p) (\<lambda>_ s. K s \<and> marks H mg t (D - {p}) s) (\<lambda>s. K s \<and> marks H mg t D s)"
  unfolding remove_marker_def
  by (rule guards_and_then[OF read_marker_guards[OF assms(1-3), where D = D]])
    (use assms(4) in \<open>auto simp: markless_def marks_def intro!: guards_if guard_rules\<close>)

lemma clear_markers_guards:
  assumes "well_set H mg" "is_transaction_id t" "set ps \<subseteq> set (destinations mg)" "markless K"
  shows "guards (\<lambda>s. K s \<and> marks H mg t D s) (clear_markers H mg ps t) (\<lambda>_ s. K s \<and> marks H mg t (D - set ps) s) (\<lambda>s. K s \<and> (\<exists>D. marks H mg t D s))"
  using assms(3)
proof (induction ps arbitrary: D)
  case (Cons p ps)
  have "guards (\<lambda>s. K s \<and> marks H mg t D s) (remove_marker H (own_marker H mg t) p) (\<lambda>_ s. K s \<and> marks H mg t (D - {p}) s) (\<lambda>s. K s \<and> (\<exists>D. marks H mg t D s))"
    by (rule guards_weaken[OF remove_marker_guards[OF assms(1,2) _ assms(4)]]) (use Cons.prems in auto)
  moreover have "D - {p} - set ps = D - set (p # ps)" by auto
  ultimately show ?case using Cons.IH[of "D - {p}"] Cons.prems by (simp add: clear_markers_def guards_and_then)
qed (auto simp: clear_markers_def intro: guard_rules)

lemma write_marker_guards:
  assumes "p \<in> set (destinations mg)" "p \<notin> D" "markless K"
  shows "guards (\<lambda>s. K s \<and> marks H mg t D s) (write_marker p (own_marker H mg t)) (\<lambda>_ s. K s \<and> marks H mg t (insert p D) s) (\<lambda>s. K s \<and> marks H mg t D s)"
  unfolding write_marker_def
  by (rule guards_and_then[where Q = "\<lambda>_ s. K s \<and> marks H mg t D s"])
    (use assms in \<open>auto simp: markless_def marks_def intro!: guards_if guard_rules\<close>)

lemma write_markers_guards:
  assumes "well_set H mg" "is_transaction_id t" "set ps \<subseteq> set (destinations mg)" "distinct ps" "markless K"
  shows "guards (\<lambda>s. K s \<and> marks H mg t {} s) (write_markers H mg t ps) (\<lambda>_ s. K s \<and> marks H mg t (set ps) s) (\<lambda>s. K s \<and> (\<exists>D. marks H mg t D s))"
proof -
  have "guards (\<lambda>s. K s \<and> marks H mg t (set ws) s) (write_markers_from H (own_marker H mg t) ws ps)
      (\<lambda>_ s. K s \<and> marks H mg t (set ws \<union> set ps) s) (\<lambda>s. K s \<and> (\<exists>D. marks H mg t D s))"
    if "set ws \<inter> set ps = {}" "set ws \<subseteq> set (destinations mg)" for ws
    using assms(3,4) that
  proof (induction ps arbitrary: ws)
    case (Cons p ps)
    have w: "guards (\<lambda>s. K s \<and> marks H mg t (set ws) s) (write_marker p (own_marker H mg t)) (\<lambda>_ s. K s \<and> marks H mg t (set (p # ws)) s)
        (\<lambda>s. K s \<and> marks H mg t (set ws) s)"
      using write_marker_guards[of p mg "set ws" K H t] Cons.prems assms(5) by auto
    have undo: "guards (\<lambda>s. K s \<and> marks H mg t (set ws) s) (and_then (each (remove_marker H (own_marker H mg t)) ws) (\<lambda>_. raise e)) Q
        (\<lambda>s. K s \<and> (\<exists>D. marks H mg t D s))" for e Q
      by (rule guards_and_then[OF clear_markers_guards[OF assms(1,2) _ assms(5), unfolded clear_markers_def]])
        (use Cons.prems in \<open>auto intro: guards_raise\<close>)
    have first: "guards (\<lambda>s. K s \<and> marks H mg t (set ws) s)
        (on_error (write_marker p (own_marker H mg t)) (\<lambda>e. and_then (each (remove_marker H (own_marker H mg t)) ws) (\<lambda>_. raise e)))
        (\<lambda>_ s. K s \<and> marks H mg t (set (p # ws)) s) (\<lambda>s. K s \<and> (\<exists>D. marks H mg t D s))"
      by (rule guards_on_error[OF w undo]) blast
    have rest: "guards (\<lambda>s. K s \<and> marks H mg t (set (p # ws)) s) (write_markers_from H (own_marker H mg t) (p # ws) ps)
        (\<lambda>_ s. K s \<and> marks H mg t (set (p # ws) \<union> set ps) s) (\<lambda>s. K s \<and> (\<exists>D. marks H mg t D s))"
      by (rule Cons.IH) (use Cons.prems in auto)
    have "set (p # ws) \<union> set ps = set ws \<union> set (p # ps)" by auto
    then show ?case using guards_and_then[OF first rest] by simp
  qed (auto intro: guard_rules)
  from this[of "[]"] show ?thesis by (simp add: write_markers_def)
qed

definition marked :: "hashing \<Rightarrow> manager \<Rightarrow> pystr \<Rightarrow> pystr set \<Rightarrow> (pystr \<times> marker) list" where
  "marked H mg t D = map (\<lambda>p. (p, own_marker H mg t)) (filter (\<lambda>p. p \<in> D) (destinations mg))"

lemma read_markers_guards:
  assumes "well_set H mg" "is_transaction_id t" "\<And>s. P s \<Longrightarrow> marks H mg t D s"
  shows "guards P (read_markers H mg) (\<lambda>ms s. ms = marked H mg t D \<and> P s) P"
proof -
  let ?g = "\<lambda>p. (p, if p \<in> D then Some (own_marker H mg t) else None)"
  have one: "guards P (and_then (read_marker H p) (\<lambda>v. ret (p, v))) (\<lambda>y s. y = ?g p \<and> P s) P" if p: "p \<in> set (destinations mg)" for p
    by (rule guards_and_then[OF read_marker_guards[OF assms(1,2) p assms(3)]]) (auto intro: guard_rules)
  have all: "guards P (collect (\<lambda>p. and_then (read_marker H p) (\<lambda>v. ret (p, v))) (destinations mg)) (\<lambda>ys s. ys = map ?g (destinations mg) \<and> P s) P"
  proof (rule guards_collect[where I = "\<lambda>_. P"])
    fix x ys zs assume "destinations mg = zs @ x # ys"
    then have "x \<in> set (destinations mg)" by simp
    then show "guards P (and_then (read_marker H x) (\<lambda>v. ret (x, v))) (\<lambda>y s. y = ?g x \<and> P s) P" by (rule one)
  qed
  have eq: "concat (map (\<lambda>(p, v). case v of None \<Rightarrow> [] | Some m \<Rightarrow> [(p, m)]) (map ?g ps)) = map (\<lambda>p. (p, own_marker H mg t)) (filter (\<lambda>p. p \<in> D) ps)" for ps
    by (induction ps) auto
  show ?thesis unfolding read_markers_def
    by (rule guards_and_then[OF all], rule guards_assume, rule guards_ret) (auto simp only: eq marked_def)
qed

lemma marked_owner: "marker_owner H mg (marked H mg t D) = Inr (if marked H mg t D = [] then None else Some t)"
proof (cases "marked H mg t D")
  case (Cons x ms)
  have "\<forall>(p, m) \<in> set (x # ms). m = own_marker H mg t" unfolding Cons[symmetric] by (auto simp: marked_def)
  then show ?thesis unfolding Cons by (cases x) (auto simp: marker_owner_def own_marker_def)
qed (simp add: marker_owner_def)

lemma marked_fst: "set (map fst (marked H mg t D)) = set (destinations mg) \<inter> D"
  by (auto simp: marked_def)

section \<open>The states of a restore\<close>

definition restored :: "(pystr \<Rightarrow> pystr option) \<Rightarrow> (pystr \<times> pystr \<times> pystr) list \<Rightarrow> pystr \<Rightarrow> pystr option" where
  "restored F plan = F ++ map_of (map snd plan)"

definition plan_dests :: "(pystr \<times> pystr \<times> pystr) list \<Rightarrow> pystr list" where
  "plan_dests plan = map (fst \<circ> snd) plan"

text \<open>No journal: every file is old, or every file is new, and markers of at most one transaction are left.\<close>

definition settled :: "hashing \<Rightarrow> manager \<Rightarrow> (pystr \<Rightarrow> pystr option) \<Rightarrow> (pystr \<Rightarrow> pystr option) \<Rightarrow> store \<Rightarrow> bool" where
  "settled H mg F G s \<longleftrightarrow> journals s (mg_journal mg) = None \<and> (files s = F \<or> files s = G) \<and> (\<exists>t D. is_transaction_id t \<and> marks H mg t D s)"

definition snapshots_hold :: "manager \<Rightarrow> pystr \<Rightarrow> (pystr \<Rightarrow> pystr option) \<Rightarrow> (nat \<times> pystr \<times> pystr \<times> pystr) list \<Rightarrow> store \<Rightarrow> bool" where
  "snapshots_hold mg t F xs s \<longleftrightarrow> (\<forall>(i, l, p, c) \<in> set xs. F p \<noteq> None \<longrightarrow> snapshots s (snapshot_path mg t i) = F p)"

text \<open>The journal of the plan: each file is old or new, and the snapshots hold the old ones.\<close>

definition in_flight :: "hashing \<Rightarrow> manager \<Rightarrow> pystr \<Rightarrow> (pystr \<Rightarrow> pystr option) \<Rightarrow> (pystr \<times> pystr \<times> pystr) list \<Rightarrow> store \<Rightarrow> bool" where
  "in_flight H mg t F plan s \<longleftrightarrow> journals s (mg_journal mg) = Some (journal_json (journal_for H mg t F plan))
     \<and> snapshots_hold mg t F (enumerate 0 plan) s \<and> (\<forall>p. files s p = F p \<or> files s p = restored F plan p) \<and> marks H mg t (set (plan_dests plan)) s"

definition unmarked :: "manager \<Rightarrow> store \<Rightarrow> bool" where
  "unmarked mg s \<longleftrightarrow> journals s (mg_journal mg) = None \<and> (\<forall>p \<in> set (destinations mg). markers s p = None)"

definition at_rest :: "manager \<Rightarrow> (pystr \<Rightarrow> pystr option) \<Rightarrow> (pystr \<Rightarrow> pystr option) \<Rightarrow> store \<Rightarrow> bool" where
  "at_rest mg F G s \<longleftrightarrow> unmarked mg s \<and> (files s = F \<or> files s = G)"

text \<open>A transaction: a manager whose configuration is sound, an identifier and a plan for its files.\<close>

definition transaction :: "hashing \<Rightarrow> manager \<Rightarrow> pystr \<Rightarrow> (pystr \<times> pystr \<times> pystr) list \<Rightarrow> bool" where
  "transaction H mg t plan \<longleftrightarrow> well_set H mg \<and> is_transaction_id t \<and> file_plan_ok mg plan"

lemma transactionD:
  assumes "transaction H mg t plan"
  shows "well_set H mg" "is_transaction_id t" "file_plan_ok mg plan" "set (plan_dests plan) \<subseteq> set (destinations mg)"
  using assms by (force simp: transaction_def file_plan_ok_def plan_dests_def destinations_def)+

lemma planned_destination:
  assumes "transaction H mg t plan" "(l, p, c) \<in> set plan"
  shows "destination_of mg l = p"
  using assms destination_of_managed[of H mg l p] by (auto simp: transaction_def file_plan_ok_def)

lemma plan_dests_distinct:
  assumes "transaction H mg t plan"
  shows "distinct (plan_dests plan)"
proof -
  have d: "distinct (map fst plan)" "distinct (map snd (mg_files mg))" "distinct (map fst (mg_files mg))"
    "\<And>l p c. (l, p, c) \<in> set plan \<Longrightarrow> (l, p) \<in> set (mg_files mg)"
    using assms by (auto simp: transaction_def file_plan_ok_def well_set_def)
  have "l = l'" if "(l, p, c) \<in> set plan" "(l', p, c') \<in> set plan" for l l' p c c'
    using d(4)[OF that(1)] d(4)[OF that(2)] d(2) by (metis (no_types, lifting) distinct_map inj_onD old.prod.inject snd_conv)
  moreover have "x = y" if "x \<in> set plan" "y \<in> set plan" "fst x = fst y" for x y using that d(1) by (metis distinct_map inj_onD)
  ultimately have "inj_on (fst \<circ> snd) (set plan)"
    by (intro inj_onI) (metis (no_types, lifting) comp_apply fst_conv prod.collapse)
  then show ?thesis using d(1) by (simp add: plan_dests_def distinct_map)
qed

lemma restored_planned:
  assumes "transaction H mg t plan" "(l, p, c) \<in> set plan"
  shows "restored F plan p = Some c"
proof -
  have "distinct (map fst (map snd plan))" using plan_dests_distinct[OF assms(1)] by (simp add: plan_dests_def comp_def)
  moreover have "(p, c) \<in> set (map snd plan)" using assms(2) by force
  ultimately show ?thesis by (simp add: restored_def map_add_Some_iff)
qed

lemma restored_other: "p \<notin> set (plan_dests plan) \<Longrightarrow> restored F plan p = F p"
  by (auto simp: restored_def plan_dests_def map_add_def map_of_eq_None_iff split: option.splits dest!: map_of_SomeD) force

lemma in_flight_files:
  assumes "in_flight H mg t F plan s" "\<forall>p \<in> set (plan_dests plan). files s p = X p" "\<And>p. p \<notin> set (plan_dests plan) \<Longrightarrow> X p = F p"
  shows "files s = X"
proof
  fix p
  show "files s p = X p"
    using assms restored_other[of p plan F] by (cases "p \<in> set (plan_dests plan)") (auto simp: in_flight_def)
qed

definition pending :: "hashing \<Rightarrow> manager \<Rightarrow> pystr \<Rightarrow> (pystr \<Rightarrow> pystr option) \<Rightarrow> (pystr \<times> pystr \<times> pystr) list \<Rightarrow> store \<Rightarrow> bool" where
  "pending H mg t F plan s \<longleftrightarrow> settled H mg F (restored F plan) s \<or> in_flight H mg t F plan s"

section \<open>Recovery\<close>

lemma markless_settled: "markless (\<lambda>s. journals s (mg_journal mg) = None \<and> (files s = F \<or> files s = G))"
  by (simp add: markless_def)

lemma marks_none: "marks H mg t {} s \<longleftrightarrow> (\<forall>p \<in> set (destinations mg). markers s p = None)"
  by (simp add: marks_def)

lemma marks_outside: "marks H mg t (D - set (destinations mg)) s = marks H mg t {} s"
  by (auto simp: marks_def)

lemma clear_settled:
  assumes "transaction H mg t plan" "set ps \<subseteq> set (destinations mg)"
  shows "guards (\<lambda>s. (journals s (mg_journal mg) = None \<and> (files s = F \<or> files s = G)) \<and> marks H mg t D s) (clear_markers H mg ps t)
    (\<lambda>_ s. (journals s (mg_journal mg) = None \<and> (files s = F \<or> files s = G)) \<and> marks H mg t (D - set ps) s) (settled H mg F G)"
  by (rule guards_weaken[OF clear_markers_guards[OF transactionD(1,2)[OF assms(1)] assms(2) markless_settled[of mg F G]]])
    (use transactionD(2)[OF assms(1)] in \<open>auto simp: settled_def\<close>)

lemma recover_settled:
  assumes "well_set H mg"
  shows "guards (settled H mg F G) (recover_pending H mg) (\<lambda>_. at_rest mg F G) (settled H mg F G)"
proof -
  have "guards (\<lambda>s. is_transaction_id t \<and> (journals s (mg_journal mg) = None \<and> (files s = F \<or> files s = G)) \<and> marks H mg t D s)
      (recover_pending H mg) (\<lambda>_. at_rest mg F G) (settled H mg F G)" for t D
  proof (rule guards_assume)
    assume t: "is_transaction_id t"
    let ?P = "\<lambda>s. (journals s (mg_journal mg) = None \<and> (files s = F \<or> files s = G)) \<and> marks H mg t D s"
    have tr: "transaction H mg t []" using assms t by (simp add: transaction_def file_plan_ok_def)
    have C: "?P s \<Longrightarrow> settled H mg F G s" for s using t by (auto simp: settled_def)
    have read: "guards ?P (read_markers H mg) (\<lambda>ms s. ms = marked H mg t D \<and> ?P s) (settled H mg F G)"
      by (rule guards_weaken[OF read_markers_guards[OF assms t, of ?P D]]) (use C in auto)
    have journal: "guards ?P (read_journal H mg) (\<lambda>j s. j = None \<and> ?P s) (settled H mg F G)"
      unfolding read_journal_def by (rule guards_and_then[where Q = "\<lambda>v s. v = None \<and> ?P s"]) (auto intro!: guards_assume guard_rules)
    have none: "marked H mg t D = [] \<Longrightarrow> marks H mg t {} s" if "marks H mg t D s" for s
      using that marked_fst[of H mg t D] by (auto simp: marks_def)
    have clear: "guards ?P (clear_markers H mg (map fst (marked H mg t D)) t) (\<lambda>_. at_rest mg F G) (settled H mg F G)"
    proof (rule guards_weaken[OF clear_settled[OF tr]])
      show "set (map fst (marked H mg t D)) \<subseteq> set (destinations mg)" by (simp only: marked_fst) simp
      show "at_rest mg F G s" if "(journals s (mg_journal mg) = None \<and> (files s = F \<or> files s = G)) \<and> marks H mg t (D - set (map fst (marked H mg t D))) s" for s
        using that unfolding marked_fst by (auto simp: at_rest_def unmarked_def marks_def)
    qed
    show "guards ?P (recover_pending H mg) (\<lambda>_. at_rest mg F G) (settled H mg F G)"
      unfolding recover_pending_def
    proof (rule guards_and_then[OF read], rule guards_assume, simp only: marked_owner io_laws, rule guards_and_then[OF journal], rule guards_assume)
      fix ms and j :: "journal option" assume j: "j = None"
      show "guards ?P (recover_found H mg (marked H mg t D) (if marked H mg t D = [] then None else Some t) j) (\<lambda>_. at_rest mg F G) (settled H mg F G)"
        using clear none by (auto simp: j recover_found_def at_rest_def unmarked_def marks_none intro!: guards_ret)
    qed
  qed
  then have "guards (\<lambda>s. \<exists>t D. is_transaction_id t \<and> (journals s (mg_journal mg) = None \<and> (files s = F \<or> files s = G)) \<and> marks H mg t D s)
      (recover_pending H mg) (\<lambda>_. at_rest mg F G) (settled H mg F G)"
    by (intro guards_ex)
  then show ?thesis by (rule guards_pre) (auto simp: settled_def)
qed

lemma enumerate_mem: "(i, x) \<in> set (enumerate k xs) \<Longrightarrow> x \<in> set xs"
  by (auto simp: enumerate_eq_zip dest: set_zip_rightD)

lemma entry_destination:
  assumes "transaction H mg t plan" "x \<in> set plan"
  shows "destination_of mg (je_path (planned_entry H mg t F (i, x))) = fst (snd x)"
  using planned_destination[OF assms(1)] assms(2) by (cases x) auto

lemma entry_destinations_for:
  assumes "transaction H mg t plan"
  shows "entry_destinations mg (journal_for H mg t F plan) = plan_dests plan"
proof -
  have "map (\<lambda>x. destination_of mg (je_path (planned_entry H mg t F x))) (enumerate 0 plan) = map (\<lambda>x. fst (snd (snd x))) (enumerate 0 plan)"
    using entry_destination[OF assms] by (auto intro!: map_cong dest: enumerate_mem)
  also have "\<dots> = map (fst \<circ> snd) (map snd (enumerate 0 plan))" by (simp only: map_map comp_def)
  finally show ?thesis by (simp add: entry_destinations_def journal_for_def plan_dests_def comp_def)
qed

lemma finalize_guards:
  assumes "transaction H mg t plan" "clear \<or> plan = []" "G = F \<or> G = restored F plan"
  shows "guards (\<lambda>s. in_flight H mg t F plan s \<and> files s = G) (finalize_journal H mg (journal_for H mg t F plan) clear)
    (\<lambda>_ s. unmarked mg s \<and> files s = G) (pending H mg t F plan)"
proof -
  let ?j = "journal_for H mg t F plan" and ?D = "set (plan_dests plan)"
  let ?K = "\<lambda>s. journals s (mg_journal mg) = None \<and> files s = G"
  have K: "markless ?K" by (simp add: markless_def)
  have C: "?K s \<Longrightarrow> marks H mg t D s \<Longrightarrow> pending H mg t F plan s" for s D
    using assms(3) transactionD(2)[OF assms(1)] by (auto simp: pending_def settled_def)
  have dests: "entry_destinations mg ?j = plan_dests plan" by (rule entry_destinations_for[OF assms(1)])
  have each: "guards (\<lambda>s. ?K s \<and> marks H mg t ?D s)
      (each (\<lambda>(i, e). if \<not> je_had e then ret ()
         else act (ValueError ''restore journal cannot be finalized'') (\<lambda>s. s\<lparr>snapshots := (snapshots s)(snapshot_path mg (jn_id ?j) i := None)\<rparr>)) xs)
      (\<lambda>_ s. ?K s \<and> marks H mg t ?D s) (pending H mg t F plan)" for xs
    by (rule guards_each[where I = "\<lambda>_ s. ?K s \<and> marks H mg t ?D s"]) (auto split: prod.split intro!: guard_rules intro: C[OF conjI])
  have clear: "guards (\<lambda>s. ?K s \<and> marks H mg t ?D s) (clear_markers H mg (plan_dests plan) t) (\<lambda>_ s. unmarked mg s \<and> files s = G) (pending H mg t F plan)"
    by (rule guards_weaken[OF clear_markers_guards[OF transactionD(1,2,4)[OF assms(1)] K, of ?D]]) (auto simp: unmarked_def marks_none intro: C[OF conjI])
  have last: "guards (\<lambda>s. ?K s \<and> marks H mg t ?D s) (if clear then clear_markers H mg (entry_destinations mg ?j) (jn_id ?j) else ret ())
      (\<lambda>_ s. unmarked mg s \<and> files s = G) (pending H mg t F plan)"
  proof (rule guards_if)
    show "guards (\<lambda>s. ?K s \<and> marks H mg t ?D s) (clear_markers H mg (entry_destinations mg ?j) (jn_id ?j)) (\<lambda>_ s. unmarked mg s \<and> files s = G) (pending H mg t F plan)"
      unfolding dests using clear by (simp add: journal_for_def)
    show "guards (\<lambda>s. ?K s \<and> marks H mg t ?D s) (ret ()) (\<lambda>_ s. unmarked mg s \<and> files s = G) (pending H mg t F plan)" if "\<not> clear"
      using that assms(2) by (auto simp: unmarked_def marks_none plan_dests_def intro!: guards_ret)
  qed
  show ?thesis
    unfolding finalize_journal_def
  proof (rule guards_and_then[where Q = "\<lambda>_ s. in_flight H mg t F plan s \<and> files s = G"])
    fix v
    show "guards (\<lambda>s. in_flight H mg t F plan s \<and> files s = G)
      (if v = None then raise (ValueError journal_invalid)
       else and_then (act (ValueError ''restore journal cannot be finalized'') (\<lambda>s. s\<lparr>journals := (journals s)(mg_journal mg := None)\<rparr>)) (\<lambda>_.
         and_then (each (\<lambda>(i, e). if \<not> je_had e then ret ()
           else act (ValueError ''restore journal cannot be finalized'') (\<lambda>s. s\<lparr>snapshots := (snapshots s)(snapshot_path mg (jn_id ?j) i := None)\<rparr>))
           (enumerate 0 (jn_entries ?j))) (\<lambda>_.
         if clear then clear_markers H mg (entry_destinations mg ?j) (jn_id ?j) else ret ())))
      (\<lambda>_ s. unmarked mg s \<and> files s = G) (pending H mg t F plan)"
    proof (rule guards_if, goal_cases)
      case 2
      have step: "guards (\<lambda>s. in_flight H mg t F plan s \<and> files s = G)
          (act (ValueError ''restore journal cannot be finalized'') (\<lambda>s. s\<lparr>journals := (journals s)(mg_journal mg := None)\<rparr>))
          (\<lambda>_ s. ?K s \<and> marks H mg t ?D s) (pending H mg t F plan)"
        by (rule guards_act) (auto simp: pending_def in_flight_def)
      show ?case by (rule guards_and_then[OF step], rule guards_and_then, rule each, rule last)
    qed (auto simp: pending_def intro: guards_raise)
  qed (auto intro: guards_inspect)
qed

lemma read_journal_guards:
  assumes "transaction H mg t plan" "\<And>s. P s \<Longrightarrow> journals s (mg_journal mg) = Some (journal_json (journal_for H mg t F plan))"
  shows "guards P (read_journal H mg) (\<lambda>j s. j = Some (journal_for H mg t F plan) \<and> P s) P"
  unfolding read_journal_def
proof (rule guards_and_then[where Q = "\<lambda>v s. v = Some (journal_json (journal_for H mg t F plan)) \<and> P s"])
  fix v
  let ?v = "journal_json (journal_for H mg t F plan)"
  have "guards P (and_then (touch (ValueError ''restore journal cannot be read'')) (\<lambda>_. and_then (of_result (checked_journal H mg ?v)) (\<lambda>j. ret (Some j))))
      (\<lambda>j s. j = Some (journal_for H mg t F plan) \<and> P s) P"
    by (rule guards_and_then[where Q = "\<lambda>_. P"], rule guards_touch, assumption, assumption,
        rule guards_and_then[where Q = "\<lambda>j s. j = journal_for H mg t F plan \<and> P s"])
      (auto dest: checked_journal_same[OF transactionD(1,3,2)[OF assms(1)]] intro!: guard_rules)
  then show "guards (\<lambda>s. v = Some ?v \<and> P s) (case v of None \<Rightarrow> ret None
      | Some v \<Rightarrow> and_then (touch (ValueError ''restore journal cannot be read'')) (\<lambda>_. and_then (of_result (checked_journal H mg v)) (\<lambda>j. ret (Some j))))
      (\<lambda>j s. j = Some (journal_for H mg t F plan) \<and> P s) P"
    by (intro guards_assume) simp
qed (auto intro!: guards_inspect dest: assms(2))

lemma target_state_guards:
  "guards P (target_state H e p) (\<lambda>_. P) P"
  unfolding target_state_def
  by (rule guards_and_then[where Q = "\<lambda>_. P"])
    (auto intro!: guard_rules guards_if guards_and_then[where Q = "\<lambda>_. P"] split: option.split)

lemma recovery_target_guards:
  assumes "transaction H mg t plan" "(i, l, p, c) \<in> set (enumerate 0 plan)" "\<And>s. P s \<Longrightarrow> snapshots_hold mg t F (enumerate 0 plan) s"
  shows "guards P (recovery_target H mg t (i, planned_entry H mg t F (i, l, p, c))) (\<lambda>y s. y = (p, F p) \<and> P s) P"
proof -
  have p: "destination_of mg l = p" using planned_destination[OF assms(1) enumerate_mem[OF assms(2)]] .
  show ?thesis
  proof (cases "F p")
    case None
    then show ?thesis
      by (simp add: recovery_target_def p) (rule guards_and_then[OF target_state_guards], rule guards_ret, simp)
  next
    case (Some c0)
    have snap: "guards P (inspect (\<lambda>s. snapshots s (snapshot_path mg t i))) (\<lambda>v s. v = Some c0 \<and> P s) P"
      by (rule guards_inspect) (use assms(2,3) Some in \<open>fastforce simp: snapshots_hold_def\<close>)
    have read: "guards P (read_snapshot H mg t i (planned_entry H mg t F (i, l, p, c))) (\<lambda>v s. v = c0 \<and> P s) P"
      unfolding read_snapshot_def
      by (rule guards_and_then[OF snap], rule guards_assume)
        (auto intro!: guard_rules guards_if guards_and_then[where Q = "\<lambda>_. P"])
    have eq: "recovery_target H mg t (i, planned_entry H mg t F (i, l, p, c)) = and_then (read_snapshot H mg t i (planned_entry H mg t F (i, l, p, c)))
        (\<lambda>c'. and_then (target_state H (planned_entry H mg t F (i, l, p, c)) p) (\<lambda>_. ret (p, Some c')))"
      by (simp add: recovery_target_def p Some)
    show ?thesis
      unfolding eq Some
      by (rule guards_and_then[OF read], rule guards_assume, rule guards_and_then[OF target_state_guards], rule guards_ret) simp
  qed
qed

definition targets_for :: "(pystr \<Rightarrow> pystr option) \<Rightarrow> (pystr \<times> pystr \<times> pystr) list \<Rightarrow> (pystr \<times> pystr option) list" where
  "targets_for F plan = map (\<lambda>(l, p, c). (p, F p)) plan"

lemma recovery_targets_guards:
  assumes "transaction H mg t plan" "\<And>s. P s \<Longrightarrow> snapshots_hold mg t F (enumerate 0 plan) s"
  shows "guards P (recovery_targets H mg (journal_for H mg t F plan)) (\<lambda>ts s. ts = targets_for F plan \<and> P s) P"
proof -
  let ?g = "\<lambda>ie. (destination_of mg (je_path (snd ie)), F (destination_of mg (je_path (snd ie))))"
  let ?es = "map (\<lambda>x. (fst x, planned_entry H mg t F x)) (enumerate 0 plan)"
  have es: "enumerate 0 (jn_entries (journal_for H mg t F plan)) = ?es"
    by (rule nth_equalityI) (simp_all add: journal_for_def nth_enumerate_eq)
  have one: "guards P (recovery_target H mg t ie) (\<lambda>y s. y = ?g ie \<and> P s) P" if mem: "ie \<in> set ?es" for ie
  proof -
    obtain y where y: "y \<in> set (enumerate 0 plan)" "ie = (fst y, planned_entry H mg t F y)" using mem unfolding set_map image_iff by blast
    obtain i l p c where "y = (i, l, p, c)" by (rule prod_cases4)
    then have x: "(i, l, p, c) \<in> set (enumerate 0 plan)" "ie = (i, planned_entry H mg t F (i, l, p, c))" using y by simp_all
    have "?g ie = (p, F p)" using entry_destination[OF assms(1) enumerate_mem[OF x(1)]] x(2) by simp
    then show ?thesis using recovery_target_guards[OF assms(1) x(1) assms(2)] x(2) by simp
  qed
  have "guards P (collect (recovery_target H mg t) ?es) (\<lambda>ts s. ts = map ?g ?es \<and> P s) P"
  proof (rule guards_collect[where I = "\<lambda>_. P"])
    fix x ys zs assume "?es = zs @ x # ys"
    then have "x \<in> set ?es" by simp
    then show "guards P (recovery_target H mg t x) (\<lambda>y s. y = ?g x \<and> P s) P" by (rule one)
  qed
  moreover have "map ?g ?es = targets_for F plan"
  proof -
    have "map ?g ?es = map (\<lambda>x. (\<lambda>(l, p, c). (p, F p)) (snd x)) (enumerate 0 plan)"
      using entry_destination[OF assms(1)] by (auto intro!: map_cong dest: enumerate_mem)
    also have "\<dots> = targets_for F (map snd (enumerate 0 plan))" by (simp only: targets_for_def map_map comp_def)
    finally show ?thesis by simp
  qed
  moreover have "jn_id (journal_for H mg t F plan) = t" by (simp add: journal_for_def)
  ultimately show ?thesis unfolding recovery_targets_def es by simp
qed

lemma in_flight_write:
  assumes "in_flight H mg t F plan s" "v = F p \<or> v = restored F plan p"
  shows "in_flight H mg t F plan (s\<lparr>files := (files s)(p := v)\<rparr>)"
  using assms by (auto simp: in_flight_def snapshots_hold_def)

lemma verify_target_guards: "guards P (verify_target H x) (\<lambda>_. P) P"
  unfolding verify_target_def
  by (auto split: prod.split option.split intro!: guard_rules guards_if guards_and_then[where Q = "\<lambda>_. P"])

text \<open>A loop that writes the values of \<open>X\<close> to its destinations, when each write keeps the transaction in flight.\<close>

lemma write_loop_guards:
  assumes "\<And>x. x \<in> set xs \<Longrightarrow> f x = act OSError (\<lambda>s. s\<lparr>files := (files s)(g x := X (g x))\<rparr>)"
    and "\<And>x. x \<in> set xs \<Longrightarrow> X (g x) = F (g x) \<or> X (g x) = restored F plan (g x)"
  shows "guards (\<lambda>s. in_flight H mg t F plan s \<and> (\<forall>p \<in> D. files s p = X p)) (each f xs)
    (\<lambda>_ s. in_flight H mg t F plan s \<and> (\<forall>p \<in> D \<union> g ` set xs. files s p = X p)) (in_flight H mg t F plan)"
  using assms
proof (induction xs arbitrary: D)
  case (Cons x xs)
  have "guards (\<lambda>s. in_flight H mg t F plan s \<and> (\<forall>p \<in> D. files s p = X p)) (f x)
      (\<lambda>_ s. in_flight H mg t F plan s \<and> (\<forall>p \<in> insert (g x) D. files s p = X p)) (in_flight H mg t F plan)"
    unfolding Cons.prems(1)[OF list.set_intros(1)]
    by (rule guards_act) (use in_flight_write[OF _ Cons.prems(2)[OF list.set_intros(1)]] in auto)
  moreover have "insert (g x) D \<union> g ` set xs = D \<union> g ` set (x # xs)" by auto
  ultimately show ?case using Cons.IH[of "insert (g x) D"] Cons.prems by (simp add: guards_and_then)
qed (auto intro: guard_rules)

lemma old_new_files:
  "(p, c) \<in> set (old_files (targets_for F plan)) \<longleftrightarrow> p \<in> set (plan_dests plan) \<and> F p = Some c"
  "p \<in> set (new_files (targets_for F plan)) \<longleftrightarrow> p \<in> set (plan_dests plan) \<and> F p = None"
  by (force simp: old_files_def new_files_def targets_for_def plan_dests_def split: option.splits)+

lemma recover_steps:
  assumes "transaction H mg t plan"
  shows "guards (in_flight H mg t F plan) (each (\<lambda>_. stage_file) (old_files (targets_for F plan))) (\<lambda>_. in_flight H mg t F plan) (pending H mg t F plan)"
    and "guards (in_flight H mg t F plan) (each (\<lambda>(p, c). replace_file p c) (old_files (targets_for F plan)))
      (\<lambda>_ s. in_flight H mg t F plan s \<and> (\<forall>p \<in> fst ` set (old_files (targets_for F plan)). files s p = F p)) (pending H mg t F plan)"
    and "guards (\<lambda>s. in_flight H mg t F plan s \<and> (\<forall>p \<in> fst ` set (old_files (targets_for F plan)). files s p = F p))
      (each unlink_file (new_files (targets_for F plan))) (\<lambda>_ s. in_flight H mg t F plan s \<and> files s = F) (pending H mg t F plan)"
    and "guards (\<lambda>s. in_flight H mg t F plan s \<and> files s = F) (each (verify_target H) (targets_for F plan))
      (\<lambda>_ s. in_flight H mg t F plan s \<and> files s = F) (pending H mg t F plan)"
proof -
  let ?ts = "targets_for F plan" and ?P = "in_flight H mg t F plan"
  let ?old = "old_files ?ts" and ?new = "new_files ?ts"
  have C: "?P s \<Longrightarrow> pending H mg t F plan s" for s by (simp add: pending_def)
  have stage: "guards ?P (each (\<lambda>_. stage_file) ?old) (\<lambda>_. ?P) ?P"
    by (rule guards_each[where I = "\<lambda>_. ?P"]) (auto simp: stage_file_def intro: guards_touch)
  have put: "guards ?P (each (\<lambda>(p, c). replace_file p c) ?old) (\<lambda>_ s. ?P s \<and> (\<forall>p \<in> fst ` set ?old. files s p = F p)) ?P"
  proof (rule guards_weaken[OF write_loop_guards[where g = fst and X = F and D = "{}" and F = F and plan = plan and H = H and mg = mg and t = t]])
    show "(case x of (p, c) \<Rightarrow> replace_file p c) = act OSError (\<lambda>s. s\<lparr>files := (files s)(fst x := F (fst x))\<rparr>)" if "x \<in> set ?old" for x
    proof -
      obtain p c where x: "x = (p, c)" by (cases x)
      then show ?thesis using that old_new_files(1)[of p c F plan] by (simp add: replace_file_def)
    qed
  qed auto
  have drop: "guards (\<lambda>s. ?P s \<and> (\<forall>p \<in> fst ` set ?old. files s p = F p)) (each unlink_file ?new)
      (\<lambda>_ s. ?P s \<and> (\<forall>p \<in> fst ` set ?old \<union> set ?new. files s p = F p)) ?P"
  proof (rule guards_weaken[OF write_loop_guards[where g = id and X = F and D = "fst ` set ?old"]])
    show "unlink_file x = act OSError (\<lambda>s. s\<lparr>files := (files s)(id x := F (id x))\<rparr>)" if "x \<in> set ?new" for x
      using that old_new_files(2)[of x F plan] by (simp add: unlink_file_def)
  qed auto
  have all: "fst ` set ?old \<union> set ?new = set (plan_dests plan)"
  proof (rule set_eqI)
    fix p
    have "p \<in> fst ` set ?old \<longleftrightarrow> (\<exists>c. (p, c) \<in> set ?old)" by force
    then show "p \<in> fst ` set ?old \<union> set ?new \<longleftrightarrow> p \<in> set (plan_dests plan)" using old_new_files(1)[of p _ F plan] old_new_files(2)[of p F plan] by (cases "F p") auto
  qed
  let ?R = "\<lambda>s. ?P s \<and> files s = F"
  have verify: "guards ?R (each (verify_target H) ?ts) (\<lambda>_. ?R) ?R"
    by (rule guards_each[where I = "\<lambda>_. ?R"]) (rule verify_target_guards)
  show "guards ?P (each (\<lambda>_. stage_file) ?old) (\<lambda>_. ?P) (pending H mg t F plan)" by (rule guards_weaken[OF stage]) (auto intro: C)
  show "guards ?P (each (\<lambda>(p, c). replace_file p c) ?old) (\<lambda>_ s. ?P s \<and> (\<forall>p \<in> fst ` set ?old. files s p = F p)) (pending H mg t F plan)"
    by (rule guards_weaken[OF put]) (auto intro: C)
  show "guards (\<lambda>s. ?P s \<and> (\<forall>p \<in> fst ` set ?old. files s p = F p)) (each unlink_file ?new) (\<lambda>_. ?R) (pending H mg t F plan)"
    by (rule guards_weaken[OF drop]) (auto simp: all intro: C in_flight_files)
  show "guards ?R (each (verify_target H) ?ts) (\<lambda>_. ?R) (pending H mg t F plan)"
    by (rule guards_weaken[OF verify], assumption, assumption, erule conjE, erule C)
qed

lemma recover_journal_guards:
  assumes "transaction H mg t plan" "clear \<or> plan = []"
  shows "guards (in_flight H mg t F plan) (recover_journal H mg (journal_for H mg t F plan) (targets_for F plan) clear)
    (\<lambda>_ s. unmarked mg s \<and> files s = F) (pending H mg t F plan)"
  unfolding recover_journal_def
  by (rule guards_and_then[OF recover_steps(1)[OF assms(1)]], rule guards_and_then[OF recover_steps(2)[OF assms(1)]],
      rule guards_and_then[OF recover_steps(3)[OF assms(1)]], rule guards_and_then[OF recover_steps(4)[OF assms(1)]], rule finalize_guards[OF assms]) simp

lemma recover_in_flight:
  assumes "transaction H mg t plan"
  shows "guards (in_flight H mg t F plan) (recover_pending H mg) (\<lambda>_ s. unmarked mg s \<and> files s = F) (pending H mg t F plan)"
proof -
  let ?P = "in_flight H mg t F plan" and ?D = "set (plan_dests plan)" and ?j = "journal_for H mg t F plan"
  have C: "?P s \<Longrightarrow> pending H mg t F plan s" for s by (simp add: pending_def)
  have read: "guards ?P (read_markers H mg) (\<lambda>ms s. ms = marked H mg t ?D \<and> ?P s) (pending H mg t F plan)"
    by (rule guards_weaken[OF read_markers_guards[OF transactionD(1,2)[OF assms], of ?P ?D]]) (auto simp: in_flight_def intro: C)
  have journal: "guards ?P (read_journal H mg) (\<lambda>j s. j = Some ?j \<and> ?P s) (pending H mg t F plan)"
    by (rule guards_weaken[OF read_journal_guards[OF assms, where P = ?P and F = F]]) (auto simp: in_flight_def intro: C)
  have empty: "plan = []" if "marked H mg t ?D = []"
  proof -
    have "set (destinations mg) \<inter> ?D = {}" using marked_fst[of H mg t ?D] that by (metis list.simps(8) set_empty)
    then have "?D = {}" unfolding Int_absorb1[OF transactionD(4)[OF assms]] .
    then show ?thesis by (simp add: plan_dests_def)
  qed
  have targets: "guards ?P (recovery_targets H mg ?j) (\<lambda>ts s. ts = targets_for F plan \<and> ?P s) (pending H mg t F plan)"
  proof -
    have held: "?P s \<Longrightarrow> snapshots_hold mg t F (enumerate 0 plan) s" for s by (simp add: in_flight_def)
    have "guards ?P (recovery_targets H mg ?j) (\<lambda>ts s. ts = targets_for F plan \<and> ?P s) ?P" by (rule recovery_targets_guards[OF assms held])
    then show ?thesis by (rule guards_weaken) (assumption | erule C)+
  qed
  have body: "guards ?P (and_then (of_result (markers_match mg (marked H mg t ?D) ?j)) (\<lambda>_.
      and_then (recovery_targets H mg ?j) (\<lambda>ts. recover_journal H mg ?j ts (marked H mg t ?D \<noteq> []))))
      (\<lambda>_ s. unmarked mg s \<and> files s = F) (pending H mg t F plan)"
    by (rule guards_and_then[where Q = "\<lambda>_. ?P"], rule guards_of_result, assumption, erule C, rule guards_and_then[OF targets], rule guards_assume)
      (use recover_journal_guards[OF assms] empty in auto)
  have found: "guards ?P (recover_found H mg (marked H mg t ?D) x (Some ?j)) (\<lambda>_ s. unmarked mg s \<and> files s = F) (pending H mg t F plan)" for x
    unfolding recover_found_def option.case
    by (rule guards_on_error[OF body]) (auto intro: guards_raise)
  show ?thesis unfolding recover_pending_def
  proof (rule guards_and_then[OF read], rule guards_assume, simp only: marked_owner io_laws, rule guards_and_then[OF journal], rule guards_assume)
    fix ms and j :: "journal option" assume "j = Some ?j"
    then show "guards ?P (recover_found H mg (marked H mg t ?D) (if marked H mg t ?D = [] then None else Some t) j)
        (\<lambda>_ s. unmarked mg s \<and> files s = F) (pending H mg t F plan)" using found by simp
  qed
qed

lemma recover_pending_guards:
  assumes "transaction H mg t plan"
  shows "guards (pending H mg t F plan) (recover_pending H mg) (\<lambda>_. at_rest mg F (restored F plan)) (pending H mg t F plan)"
proof -
  have "guards (settled H mg F (restored F plan)) (recover_pending H mg) (\<lambda>_. at_rest mg F (restored F plan)) (pending H mg t F plan)"
    by (rule guards_weaken[OF recover_settled[OF transactionD(1)[OF assms]]]) (auto simp: pending_def)
  moreover have "guards (in_flight H mg t F plan) (recover_pending H mg) (\<lambda>_. at_rest mg F (restored F plan)) (pending H mg t F plan)"
    by (rule guards_weaken[OF recover_in_flight[OF assms]]) (auto simp: at_rest_def)
  ultimately show ?thesis unfolding pending_def by (rule guards_or)
qed

lemma at_rest_pending:
  assumes "transaction H mg t plan" "at_rest mg F (restored F plan) s"
  shows "pending H mg t F plan s"
proof -
  have "marks H mg t {} s" using assms(2) by (simp add: at_rest_def unmarked_def marks_none)
  then show ?thesis using assms(2) transactionD(2)[OF assms(1)] by (auto simp: at_rest_def unmarked_def pending_def settled_def)
qed

interpretation bk: recovery "recover_pending H mg" "\<lambda>s. transaction H mg t plan \<and> pending H mg t F plan s"
  "\<lambda>s. transaction H mg t plan \<and> at_rest mg F (restored F plan) s" for H mg t F plan
proof
  show "guards (\<lambda>s. transaction H mg t plan \<and> pending H mg t F plan s) (recover_pending H mg)
      (\<lambda>_ s. transaction H mg t plan \<and> at_rest mg F (restored F plan) s) (\<lambda>s. transaction H mg t plan \<and> pending H mg t F plan s)"
    by (rule guards_assume, rule guards_weaken[OF recover_pending_guards]) auto
  show "transaction H mg t plan \<and> at_rest mg F (restored F plan) s \<Longrightarrow> transaction H mg t plan \<and> pending H mg t F plan s" for s
    using at_rest_pending by blast
qed

section \<open>Restore\<close>

lemma unmarked_settled: "unmarked mg s \<Longrightarrow> files s = F \<or> files s = G \<Longrightarrow> is_transaction_id t \<Longrightarrow> settled H mg F G s"
  unfolding unmarked_def settled_def by (metis marks_none)

text \<open>Before the journal is written: the files are the old ones.\<close>

definition prepared :: "manager \<Rightarrow> (pystr \<Rightarrow> pystr option) \<Rightarrow> store \<Rightarrow> bool" where
  "prepared mg F s \<longleftrightarrow> journals s (mg_journal mg) = None \<and> files s = F"

lemma markless_prepared: "markless (prepared mg F)"
  by (simp add: markless_def prepared_def)

lemma prepared_pending:
  assumes "transaction H mg t plan" "prepared mg F s" "marks H mg t D s"
  shows "pending H mg t F plan s"
  using assms transactionD(2)[OF assms(1)] by (auto simp: pending_def settled_def prepared_def)

lemma snapshot_path_inject: "snapshot_path mg t i = snapshot_path mg t k \<longleftrightarrow> i = k"
  by (simp add: snapshot_path_def snapshot_suffix_def py_nat_inject)

lemma enumerate_same: "(i, x) \<in> set (enumerate k xs) \<Longrightarrow> (i, y) \<in> set (enumerate k xs) \<Longrightarrow> x = y"
  by (auto simp: in_set_enumerate_eq)

lemma snapshots_hold_mono: "snapshots_hold mg t F xs s \<Longrightarrow> set ys \<subseteq> set xs \<Longrightarrow> snapshots_hold mg t F ys s"
  unfolding snapshots_hold_def by blast

lemma snapshots_hold_put:
  assumes "snapshots_hold mg t F xs s" "\<And>y. (i, y) \<in> set xs \<Longrightarrow> y = (l, p, c)" "F p = Some c0"
  shows "snapshots_hold mg t F ((i, l, p, c) # xs) (s\<lparr>snapshots := (snapshots s)(snapshot_path mg t i \<mapsto> c0)\<rparr>)"
  unfolding snapshots_hold_def
proof (clarify)
  fix k l' p' c' v assume m: "(k, l', p', c') \<in> set ((i, l, p, c) # xs)" and v: "F p' = Some v"
  show "snapshots (s\<lparr>snapshots := (snapshots s)(snapshot_path mg t i \<mapsto> c0)\<rparr>) (snapshot_path mg t k) = F p'"
  proof (cases "k = i")
    case True
    then have "(l', p', c') = (l, p, c)" using m assms(2) by auto
    then show ?thesis using True assms(3) by simp
  next
    case False
    then have "snapshots s (snapshot_path mg t k) = F p'" using m v assms(1) by (auto simp: snapshots_hold_def)
    then show ?thesis using False by (simp add: snapshot_path_inject)
  qed
qed

lemma snapshot_target_guards:
  assumes "x \<in> set (enumerate 0 plan)" "set xs \<subseteq> set (enumerate 0 plan)"
  shows "guards (\<lambda>s. (prepared mg F s \<and> marks H mg t D s) \<and> snapshots_hold mg t F xs s) (snapshot_target H mg t x)
    (\<lambda>e s. e = planned_entry H mg t F x \<and> (prepared mg F s \<and> marks H mg t D s) \<and> snapshots_hold mg t F (x # xs) s)
    (\<lambda>s. prepared mg F s \<and> marks H mg t D s)"
proof -
  obtain i l p c where x: "x = (i, l, p, c)" by (rule prod_cases4)
  let ?C = "\<lambda>s. prepared mg F s \<and> marks H mg t D s"
  let ?P = "\<lambda>s. ?C s \<and> snapshots_hold mg t F xs s"
  have see: "guards ?P (inspect (\<lambda>s. files s p)) (\<lambda>v s. v = F p \<and> ?P s) ?C"
    by (rule guards_inspect) (auto simp: prepared_def)
  have same: "y = (l, p, c)" if "(i, y) \<in> set xs" for y using that assms enumerate_same[of i y 0 plan "(l, p, c)"] x by blast
  have kept: "snapshots_hold mg t F (x # xs) (s\<lparr>snapshots := (snapshots s)(snapshot_path mg t i \<mapsto> c0)\<rparr>)"
    if "F p = Some c0" "snapshots_hold mg t F xs s" for s c0
    unfolding x by (rule snapshots_hold_put[OF that(2) same that(1)])
  show ?thesis
  proof (cases "F p")
    case None
    have "guards ?P (ret (planned_entry H mg t F x)) (\<lambda>e s. e = planned_entry H mg t F x \<and> ?C s \<and> snapshots_hold mg t F (x # xs) s) ?C"
      by (rule guards_ret) (auto simp: snapshots_hold_def None x)
    moreover have "planned_entry H mg t F x = \<lparr>je_path = l, je_destination = Some p, je_had = False, je_snapshot = None, je_sha = None, je_size = None,
         je_planned_sha = Some (sha H c), je_planned_size = Some (size_of c)\<rparr>" by (simp add: planned_entry_def x None)
    ultimately show ?thesis
      unfolding snapshot_target_def x prod.case by (intro guards_and_then[OF see] guards_assume) (simp add: None)
  next
    case (Some c0)
    have put: "guards ?P (act (ValueError ''restore journal cannot be written'') (\<lambda>s. s\<lparr>snapshots := (snapshots s)(snapshot_path mg t i \<mapsto> c0)\<rparr>))
        (\<lambda>_ s. ?C s \<and> snapshots_hold mg t F (x # xs) s) ?C"
      by (rule guards_act) (use kept[OF Some] in \<open>auto simp: prepared_def\<close>)
    have read: "guards ?P (touch (ValueError ''managed restore target cannot be snapshotted'')) (\<lambda>_. ?P) ?C"
      by (rule guards_touch) auto
    have last: "guards (\<lambda>s. ?C s \<and> snapshots_hold mg t F (x # xs) s) (ret (planned_entry H mg t F x))
        (\<lambda>e s. e = planned_entry H mg t F x \<and> ?C s \<and> snapshots_hold mg t F (x # xs) s) ?C" by (rule guards_ret) simp
    have entry: "planned_entry H mg t F x = \<lparr>je_path = l, je_destination = Some p, je_had = True, je_snapshot = Some (mg_jname mg @ snapshot_suffix t i),
         je_sha = Some (sha H c0), je_size = Some (size_of c0), je_planned_sha = Some (sha H c), je_planned_size = Some (size_of c)\<rparr>"
      by (simp add: planned_entry_def x Some)
    show ?thesis
      using guards_and_then[OF read guards_and_then[OF put last]]
      unfolding snapshot_target_def entry unfolding x prod.case
      by (intro guards_and_then[OF see] guards_assume) (simp add: Some)
  qed
qed

lemma create_journal_guards:
  "guards (\<lambda>s. prepared mg F s \<and> marks H mg t D s) (create_journal H mg t plan)
    (\<lambda>j s. j = journal_for H mg t F plan \<and> (prepared mg F s \<and> marks H mg t D s) \<and> snapshots_hold mg t F (enumerate 0 plan) s)
    (\<lambda>s. prepared mg F s \<and> marks H mg t D s)"
proof -
  let ?C = "\<lambda>s. prepared mg F s \<and> marks H mg t D s" and ?E = "enumerate 0 plan"
  let ?I = "\<lambda>ys s. ?C s \<and> snapshots_hold mg t F (filter (\<lambda>x. x \<notin> set ys) ?E) s"
  have "guards (?I ?E) (collect (snapshot_target H mg t) ?E) (\<lambda>es s. es = map (planned_entry H mg t F) ?E \<and> ?I [] s) ?C"
  proof (rule guards_collect)
    fix x ys zs assume e: "?E = zs @ x # ys"
    have "x \<in> set ?E" using e by simp
    moreover have "set (filter (\<lambda>y. y \<notin> set (x # ys)) ?E) \<subseteq> set ?E" by auto
    ultimately have g: "guards (?I (x # ys)) (snapshot_target H mg t x)
      (\<lambda>e s. e = planned_entry H mg t F x \<and> ?C s \<and> snapshots_hold mg t F (x # filter (\<lambda>y. y \<notin> set (x # ys)) ?E) s) ?C" by (rule snapshot_target_guards)
    have sub: "snapshots_hold mg t F (x # filter (\<lambda>y. y \<notin> set (x # ys)) ?E) s \<Longrightarrow> snapshots_hold mg t F (filter (\<lambda>y. y \<notin> set ys) ?E) s" for s
      by (erule snapshots_hold_mono) auto
    show "guards (?I (x # ys)) (snapshot_target H mg t x) (\<lambda>e s. e = planned_entry H mg t F x \<and> ?I ys s) ?C"
      by (rule guards_weaken[OF g]) (use sub in blast)+
  qed
  then have c: "guards ?C (collect (snapshot_target H mg t) ?E)
      (\<lambda>es s. es = map (planned_entry H mg t F) ?E \<and> ?C s \<and> snapshots_hold mg t F ?E s) ?C"
    by (rule guards_weaken) (auto simp: snapshots_hold_def)
  show ?thesis unfolding create_journal_def
    by (rule guards_and_then[OF c], rule guards_assume, rule guards_ret) (simp add: journal_for_def)
qed

text \<open>Clearing markers of a transaction among those of another keeps the store settled.\<close>

lemma remove_any_marker:
  assumes "well_set H mg" "is_transaction_id t" "p \<in> set (destinations mg)" "markless K"
  shows "guards (\<lambda>s. K s \<and> (\<exists>D. marks H mg t D s)) (remove_marker H m p) (\<lambda>_ s. K s \<and> (\<exists>D. marks H mg t D s)) (\<lambda>s. K s \<and> (\<exists>D. marks H mg t D s))"
proof -
  have one: "guards (\<lambda>s. K s \<and> marks H mg t D s) (remove_marker H m p) (\<lambda>_ s. K s \<and> (\<exists>D. marks H mg t D s)) (\<lambda>s. K s \<and> marks H mg t D s)" for D
  proof -
    have "marks H mg t (D - {p}) (s\<lparr>markers := (markers s)(p := None)\<rparr>)" if "marks H mg t D s" for s using that by (auto simp: marks_def)
    then show ?thesis
      unfolding remove_marker_def
      by (intro guards_and_then[OF read_marker_guards[OF assms(1-3), where D = D]])
        (use assms(4) in \<open>auto simp: markless_def intro!: guards_if guard_rules\<close>)
  qed
  have "guards (\<lambda>s. \<exists>D. K s \<and> marks H mg t D s) (remove_marker H m p) (\<lambda>_ s. K s \<and> (\<exists>D. marks H mg t D s)) (\<lambda>s. K s \<and> (\<exists>D. marks H mg t D s))"
    by (rule guards_ex, rule guards_weaken[OF one]) auto
  then show ?thesis by (rule guards_pre) blast
qed

lemma clear_after_failure_guards:
  assumes "well_set H mg" "set ps \<subseteq> set (destinations mg)"
  shows "guards (settled H mg F G) (clear_after_failure H mg ps t) (\<lambda>_. settled H mg F G) (settled H mg F G)"
proof -
  let ?K = "\<lambda>s. journals s (mg_journal mg) = None \<and> (files s = F \<or> files s = G)"
  have K: "markless ?K" by (rule markless_settled)
  have "guards (\<lambda>s. is_transaction_id u \<and> ?K s \<and> (\<exists>D. marks H mg u D s)) (clear_markers H mg ps t) (\<lambda>_. settled H mg F G) (settled H mg F G)" for u
  proof (rule guards_assume)
    assume u: "is_transaction_id u"
    have "guards (\<lambda>s. ?K s \<and> (\<exists>D. marks H mg u D s)) (clear_markers H mg ps t) (\<lambda>_ s. ?K s \<and> (\<exists>D. marks H mg u D s)) (\<lambda>s. ?K s \<and> (\<exists>D. marks H mg u D s))"
      unfolding clear_markers_def
    proof (rule guards_each[where I = "\<lambda>_ s. ?K s \<and> (\<exists>D. marks H mg u D s)"])
      fix p ys zs assume "ps = zs @ p # ys"
      then have "p \<in> set (destinations mg)" using assms(2) by auto
      then show "guards (\<lambda>s. ?K s \<and> (\<exists>D. marks H mg u D s)) (remove_marker H (own_marker H mg t) p) (\<lambda>_ s. ?K s \<and> (\<exists>D. marks H mg u D s)) (\<lambda>s. ?K s \<and> (\<exists>D. marks H mg u D s))"
        by (rule remove_any_marker[OF assms(1) u _ K])
    qed
    then show "guards (\<lambda>s. ?K s \<and> (\<exists>D. marks H mg u D s)) (clear_markers H mg ps t) (\<lambda>_. settled H mg F G) (settled H mg F G)"
      by (rule guards_weaken) (use u in \<open>auto simp: settled_def\<close>)
  qed
  then have "guards (\<lambda>s. \<exists>u. is_transaction_id u \<and> ?K s \<and> (\<exists>D. marks H mg u D s)) (clear_markers H mg ps t) (\<lambda>_. settled H mg F G) (settled H mg F G)"
    by (rule guards_ex)
  then have clear: "guards (settled H mg F G) (clear_markers H mg ps t) (\<lambda>_. settled H mg F G) (settled H mg F G)"
    by (rule guards_pre) (auto simp: settled_def)
  show ?thesis
    unfolding clear_after_failure_def
    by (rule guards_if) (auto intro!: guards_ret guards_on_error[OF clear] guards_raise)
qed

lemma roll_back_guards:
  assumes "transaction H mg t plan"
  shows "guards (pending H mg t F plan) (and_then (roll_back H mg (plan_dests plan) t) (\<lambda>_. raise e)) Q (pending H mg t F plan)"
proof -
  let ?P = "pending H mg t F plan"
  have see: "guards ?P (inspect (\<lambda>s. journals s (mg_journal mg))) (\<lambda>v s. (v = None \<longrightarrow> settled H mg F (restored F plan) s) \<and> ?P s) ?P"
    by (rule guards_inspect) (auto simp: pending_def in_flight_def)
  have recover: "guards ?P (on_error (recover_pending H mg) (\<lambda>_. raise (ValueError ''restore journal recovery failed''))) (\<lambda>_. ?P) ?P"
    by (rule guards_on_error[OF guards_weaken[OF recover_pending_guards[OF assms]]]) (auto intro: guards_raise at_rest_pending[OF assms])
  have clear: "guards (\<lambda>s. (v = None \<longrightarrow> settled H mg F (restored F plan) s) \<and> ?P s) (clear_after_failure H mg (plan_dests plan) t) (\<lambda>_. ?P) ?P" if "v = None" for v :: "json option"
    by (rule guards_weaken[OF clear_after_failure_guards[OF transactionD(1,4)[OF assms]]]) (use that in \<open>auto simp: pending_def\<close>)
  have "guards ?P (roll_back H mg (plan_dests plan) t) (\<lambda>_. ?P) ?P"
    unfolding roll_back_def
    by (rule guards_and_then[OF see], rule guards_if, rule guards_pre[OF recover], simp, rule clear, simp)
  then show ?thesis by (rule guards_and_then) (simp add: guards_raise)
qed

lemma verify_restored_guards:
  assumes "\<And>s. P s \<Longrightarrow> C s"
  shows "guards P (verify_restored x) (\<lambda>_. P) C"
proof -
  have touch: "guards P (touch e) (\<lambda>_. P) C" for e by (rule guards_touch) (erule assms)
  have look: "guards P (inspect f) (\<lambda>_. P) C" for f :: "store \<Rightarrow> pystr option" by (rule guards_inspect)
  obtain l p c where x: "x = (l, p, c)" by (rule prod_cases3)
  show ?thesis unfolding verify_restored_def x prod.case
    by (rule guards_and_then[OF touch], rule guards_and_then[OF look], rule guards_if, rule guards_raise, erule assms, rule guards_ret)
qed

lemma replace_steps:
  assumes "transaction H mg t plan"
  shows "guards (\<lambda>s. (prepared mg F s \<and> marks H mg t (set (plan_dests plan)) s) \<and> snapshots_hold mg t F (enumerate 0 plan) s)
      (write_journal mg (journal_for H mg t F plan)) (\<lambda>_. in_flight H mg t F plan) (pending H mg t F plan)"
    and "guards (in_flight H mg t F plan) (append_audit mg v) (\<lambda>_. in_flight H mg t F plan) (pending H mg t F plan)"
    and "guards (in_flight H mg t F plan) (each (\<lambda>(l, p, c). replace_file p c) plan)
      (\<lambda>_ s. in_flight H mg t F plan s \<and> files s = restored F plan) (pending H mg t F plan)"
    and "guards (\<lambda>s. in_flight H mg t F plan s \<and> files s = restored F plan) (each verify_restored plan)
      (\<lambda>_ s. in_flight H mg t F plan s \<and> files s = restored F plan) (pending H mg t F plan)"
proof -
  let ?D = "set (plan_dests plan)" and ?P = "in_flight H mg t F plan" and ?j = "journal_for H mg t F plan" and ?N = "restored F plan"
  have C: "?P s \<Longrightarrow> pending H mg t F plan s" for s by (simp add: pending_def)
  show "guards (\<lambda>s. (prepared mg F s \<and> marks H mg t ?D s) \<and> snapshots_hold mg t F (enumerate 0 plan) s) (write_journal mg ?j) (\<lambda>_. ?P) (pending H mg t F plan)"
    unfolding write_journal_def
    by (rule guards_act) (auto simp: in_flight_def prepared_def snapshots_hold_def intro: prepared_pending[OF assms])
  show "guards ?P (append_audit mg v) (\<lambda>_. ?P) (pending H mg t F plan)"
    unfolding append_audit_def by (rule guards_act) (auto simp: in_flight_def snapshots_hold_def C)
  have loop: "guards (\<lambda>s. ?P s \<and> (\<forall>p \<in> {}. files s p = ?N p)) (each (\<lambda>(l, p, c). replace_file p c) plan)
      (\<lambda>_ s. ?P s \<and> (\<forall>p \<in> {} \<union> (fst \<circ> snd) ` set plan. files s p = ?N p)) ?P"
  proof (rule write_loop_guards)
    show "(case x of (l, p, c) \<Rightarrow> replace_file p c) = act OSError (\<lambda>s. s\<lparr>files := (files s)((fst \<circ> snd) x := ?N ((fst \<circ> snd) x))\<rparr>)" if "x \<in> set plan" for x
    proof -
      obtain l p c where x: "x = (l, p, c)" by (rule prod_cases3)
      then show ?thesis using restored_planned[OF assms, of l p c F] that by (simp add: replace_file_def)
    qed
  qed simp
  show "guards ?P (each (\<lambda>(l, p, c). replace_file p c) plan) (\<lambda>_ s. ?P s \<and> files s = ?N) (pending H mg t F plan)"
  proof (rule guards_weaken[OF loop])
    show "?P s \<and> files s = ?N" if "?P s \<and> (\<forall>p \<in> {} \<union> (fst \<circ> snd) ` set plan. files s p = ?N p)" for s
      using that in_flight_files[of H mg t F plan s ?N] restored_other by (auto simp: plan_dests_def)
  qed (auto intro: C)
  show "guards (\<lambda>s. ?P s \<and> files s = ?N) (each verify_restored plan) (\<lambda>_ s. ?P s \<and> files s = ?N) (pending H mg t F plan)"
    by (rule guards_each[where I = "\<lambda>_ s. ?P s \<and> files s = ?N"], rule verify_restored_guards) (erule conjE, erule C)
qed

lemma replace_all_guards:
  assumes "transaction H mg t plan"
  shows "guards (\<lambda>s. (prepared mg F s \<and> marks H mg t (set (plan_dests plan)) s) \<and> snapshots_hold mg t F (enumerate 0 plan) s)
    (replace_all H mg aid now m plan (journal_for H mg t F plan)) (\<lambda>_ s. unmarked mg s \<and> files s = restored F plan) (pending H mg t F plan)"
proof -
  note steps = replace_steps[OF assms, of F]
  have final: "guards (\<lambda>s. in_flight H mg t F plan s \<and> files s = restored F plan) (finalize_journal H mg (journal_for H mg t F plan) True)
      (\<lambda>_ s. unmarked mg s \<and> files s = restored F plan) (pending H mg t F plan)"
    by (rule finalize_guards[OF assms]) simp_all
  show ?thesis unfolding replace_all_def
    by (rule guards_and_then[OF steps(1)], rule guards_and_then[OF steps(2)], rule guards_and_then[OF steps(3)], rule guards_and_then[OF steps(4)],
        rule guards_and_then[OF final], rule guards_ret)
qed

lemma restore_steps:
  assumes "transaction H mg t plan"
  shows "guards (\<lambda>s. unmarked mg s \<and> files s = F) (each (\<lambda>_. stage_file) plan) (\<lambda>_ s. unmarked mg s \<and> files s = F) (pending H mg t F plan)"
    and "guards (\<lambda>s. unmarked mg s \<and> files s = F) (write_markers H mg t (plan_dests plan))
      (\<lambda>_ s. prepared mg F s \<and> marks H mg t (set (plan_dests plan)) s) (pending H mg t F plan)"
    and "guards (\<lambda>s. prepared mg F s \<and> marks H mg t (set (plan_dests plan)) s)
      (on_error (create_journal H mg t plan) (\<lambda>e. and_then (clear_after_failure H mg (plan_dests plan) t) (\<lambda>_. raise e)))
      (\<lambda>j s. j = journal_for H mg t F plan \<and> (prepared mg F s \<and> marks H mg t (set (plan_dests plan)) s) \<and> snapshots_hold mg t F (enumerate 0 plan) s)
      (pending H mg t F plan)"
proof -
  let ?D = "set (plan_dests plan)" and ?P0 = "\<lambda>s. unmarked mg s \<and> files s = F" and ?C = "pending H mg t F plan"
  let ?K = "\<lambda>s. prepared mg F s \<and> marks H mg t ?D s"
  have start: "prepared mg F s \<and> marks H mg t {} s" if "?P0 s" for s using that by (simp add: prepared_def unmarked_def marks_none)
  have P0: "?C s" if "?P0 s" for s using start[OF that] prepared_pending[OF assms, of F s "{}"] by simp
  have KC: "?C s" if "?K s" for s using that prepared_pending[OF assms, of F s ?D] by simp
  show "guards ?P0 (each (\<lambda>_. stage_file) plan) (\<lambda>_. ?P0) ?C"
    by (rule guards_each[where I = "\<lambda>_. ?P0"]) (unfold stage_file_def, rule guards_touch, erule P0)
  show "guards ?P0 (write_markers H mg t (plan_dests plan)) (\<lambda>_. ?K) ?C"
    by (rule guards_weaken[OF write_markers_guards[OF transactionD(1,2,4)[OF assms] plan_dests_distinct[OF assms] markless_prepared[of mg F]]],
        erule start, assumption, elim conjE exE, erule (1) prepared_pending[OF assms])
  have undo: "guards ?K (and_then (clear_after_failure H mg (plan_dests plan) t) (\<lambda>_. raise e)) Q ?C" for e Q
  proof (rule guards_and_then)
    show "guards ?K (clear_after_failure H mg (plan_dests plan) t) (\<lambda>_. settled H mg F (restored F plan)) ?C"
      by (rule guards_weaken[OF clear_after_failure_guards[OF transactionD(1,4)[OF assms], of F "restored F plan"]])
        (use transactionD(2)[OF assms] in \<open>auto simp: pending_def settled_def prepared_def\<close>)
  qed (auto simp: pending_def intro: guards_raise)
  show "guards ?K (on_error (create_journal H mg t plan) (\<lambda>e. and_then (clear_after_failure H mg (plan_dests plan) t) (\<lambda>_. raise e)))
      (\<lambda>j s. j = journal_for H mg t F plan \<and> ?K s \<and> snapshots_hold mg t F (enumerate 0 plan) s) ?C"
    by (rule guards_on_error[OF create_journal_guards undo KC])
qed

lemma restore_plan_guards:
  assumes "transaction H mg t plan"
  shows "guards (\<lambda>s. unmarked mg s \<and> files s = F) (restore_plan H mg t aid now m plan)
    (\<lambda>_ s. unmarked mg s \<and> files s = restored F plan) (pending H mg t F plan)"
proof -
  note steps = restore_steps[OF assms, of F]
  let ?K = "\<lambda>s. prepared mg F s \<and> marks H mg t (set (plan_dests plan)) s"
  have replace: "guards (\<lambda>s. ?K s \<and> snapshots_hold mg t F (enumerate 0 plan) s)
      (on_error (replace_all H mg aid now m plan (journal_for H mg t F plan)) (\<lambda>e. and_then (roll_back H mg (plan_dests plan) t) (\<lambda>_. raise e)))
      (\<lambda>_ s. unmarked mg s \<and> files s = restored F plan) (pending H mg t F plan)"
    by (rule guards_on_error[OF replace_all_guards[OF assms] roll_back_guards[OF assms]])
  show ?thesis unfolding restore_plan_def Let_def plan_dests_def[symmetric]
    by (rule guards_and_then[OF steps(1)], rule guards_and_then[OF steps(2)], rule guards_and_then[OF steps(3)], rule guards_assume, simp only: replace)
qed

end
