(* ===== verification/Backup_Liveness.thy ===== *)
theory Backup_Liveness
  imports Backup_Recovery
begin

text \<open>
  Without faults the recovery of a pending restore returns: nothing that the restore wrote is refused when it is read, as long as the
  journal and the markers are within the sizes that their readers accept.  So does a restore that was confirmed.
\<close>

definition readable :: "hashing \<Rightarrow> manager \<Rightarrow> pystr \<Rightarrow> bool" where
  "readable H mg t \<longleftrightarrow> canonical H (marker_json (own_marker H mg t)) \<noteq> [] \<and> length (canonical H (marker_json (own_marker H mg t))) \<le> 4096"

lemma guards_any: "guards P m (\<lambda>_ _. True) (\<lambda>_. True)"
  by (simp add: guards_def split: ending.split prod.split)

lemma returns_last: "returns_from P m \<Longrightarrow> (\<And>x. returns_from (\<lambda>_. True) (f x)) \<Longrightarrow> returns_from P (and_then m f)"
  by (rule returns_and_then[OF guards_any])

section \<open>Markers\<close>

lemma read_marker_returns:
  assumes "well_set H mg" "is_transaction_id t" "p \<in> set (destinations mg)" "\<And>s. P s \<Longrightarrow> marks H mg t D s" "readable H mg t"
  shows "returns_from P (read_marker H p)"
  unfolding read_marker_def
proof (rule returns_and_then[where Q = "\<lambda>v s. v \<in> {None, Some (marker_json (own_marker H mg t))} \<and> P s" and C = "\<lambda>_. True"])
  show "guards P (inspect (\<lambda>s. markers s p)) (\<lambda>v s. v \<in> {None, Some (marker_json (own_marker H mg t))} \<and> P s) (\<lambda>_. True)"
    by (rule guards_inspect) (use assms(3,4) in \<open>auto simp: marks_def\<close>)
  fix v
  have "returns_from P (and_then (touch (ValueError ''pending restore marker cannot be read'')) (\<lambda>_. ret (Some (own_marker H mg t)) :: marker option bio))"
    by (rule returns_last) (rule return_rules)+
  then show "returns_from (\<lambda>s. v \<in> {None, Some (marker_json (own_marker H mg t))} \<and> P s)
      (case v of None \<Rightarrow> ret None | Some v \<Rightarrow> and_then (touch (ValueError ''pending restore marker cannot be read'')) (\<lambda>_.
         if canonical H v = [] \<or> 4096 < length (canonical H v) then raise (ValueError marker_invalid)
         else and_then (of_result (marker_from_json v)) (\<lambda>m. ret (Some m))))"
    using assms(5) by (intro returns_assume) (auto simp: readable_def marker_roundtrip[OF assms(1,2)] return_rules)
qed (rule return_rules)

lemma remove_marker_returns:
  assumes "well_set H mg" "is_transaction_id t" "p \<in> set (destinations mg)" "p \<in> D" "\<And>s. P s \<Longrightarrow> marks H mg t D s" "readable H mg t"
  shows "returns_from P (remove_marker H (own_marker H mg t) p)"
  unfolding remove_marker_def
  by (rule returns_and_then[OF read_marker_guards[OF assms(1-3), where D = D and P = P]])
    (use assms(4,5) read_marker_returns[OF assms(1-3,5,6)] in \<open>auto intro!: returns_assume return_rules\<close>)

lemma clear_markers_returns:
  assumes "well_set H mg" "is_transaction_id t" "set ps \<subseteq> set (destinations mg)" "set ps \<subseteq> D" "distinct ps" "readable H mg t"
  shows "returns_from (marks H mg t D) (clear_markers H mg ps t)"
  using assms(3-5)
proof (induction ps arbitrary: D)
  case (Cons p ps)
  have K: "markless (\<lambda>_. True)" by (simp add: markless_def)
  have p: "p \<in> set (destinations mg)" "p \<in> D" and ps: "set ps \<subseteq> set (destinations mg)" "set ps \<subseteq> D - {p}" "distinct ps" using Cons.prems by auto
  have "guards (marks H mg t D) (remove_marker H (own_marker H mg t) p) (\<lambda>_. marks H mg t (D - {p})) (marks H mg t D)"
    using remove_marker_guards[OF assms(1,2) p(1) K, of D] by simp
  then show ?case
    unfolding clear_markers_def each.simps
    by (rule returns_and_then) (rule remove_marker_returns[OF assms(1,2) p _ assms(6)], assumption, rule Cons.IH[OF ps, unfolded clear_markers_def])
qed (simp add: clear_markers_def return_rules)

lemma read_markers_returns:
  assumes "well_set H mg" "is_transaction_id t" "\<And>s. P s \<Longrightarrow> marks H mg t D s" "readable H mg t"
  shows "returns_from P (read_markers H mg)"
  unfolding read_markers_def
proof (rule returns_last)
  show "returns_from P (collect (\<lambda>p. and_then (read_marker H p) (\<lambda>v. ret (p, v))) (destinations mg))"
  proof (rule returns_collect)
    fix p assume p: "p \<in> set (destinations mg)"
    show "guards P (and_then (read_marker H p) (\<lambda>v. ret (p, v))) (\<lambda>_. P) P"
      by (rule guards_and_then[OF read_marker_guards[OF assms(1,2) p assms(3)]]) (auto intro: guard_rules)
    show "returns_from P (and_then (read_marker H p) (\<lambda>v. ret (p, v)))"
      by (rule returns_last[OF read_marker_returns[OF assms(1,2) p assms(3,4)]]) (auto intro: return_rules)
  qed
qed (rule return_rules)

section \<open>A settled store\<close>

lemma marked_keys:
  assumes "well_set H mg"
  shows "distinct (map fst (marked H mg t D))" "set (map fst (marked H mg t D)) \<subseteq> D"
proof -
  have "map fst (marked H mg t D) = filter (\<lambda>p. p \<in> D) (destinations mg)" by (simp add: marked_def comp_def)
  then show "distinct (map fst (marked H mg t D))" "set (map fst (marked H mg t D)) \<subseteq> D"
    using assms by (auto simp: destinations_def well_set_def)
qed

lemma recover_settled_returns:
  assumes "well_set H mg" "\<And>t. is_transaction_id t \<Longrightarrow> readable H mg t"
  shows "returns_from (settled H mg F G) (recover_pending H mg)"
proof -
  have "returns_from (\<lambda>s. journals s (mg_journal mg) = None \<and> marks H mg t D s) (recover_pending H mg)" if t: "is_transaction_id t" for t D
  proof -
    let ?P = "\<lambda>s. journals s (mg_journal mg) = None \<and> marks H mg t D s"
    have read: "guards ?P (read_markers H mg) (\<lambda>ms s. ms = marked H mg t D \<and> ?P s) ?P" by (rule read_markers_guards[OF assms(1) t]) simp
    have none: "guards ?P (read_journal H mg) (\<lambda>j s. j = None \<and> ?P s) ?P"
      unfolding read_journal_def by (rule guards_and_then[where Q = "\<lambda>v s. v = None \<and> ?P s"]) (auto intro!: guards_assume guard_rules)
    have none_returns: "returns_from ?P (read_journal H mg)"
      unfolding read_journal_def
      by (rule returns_and_then[where Q = "\<lambda>v s. v = None \<and> ?P s" and C = "\<lambda>_. True"]) (auto intro!: guards_inspect returns_assume return_rules)
    have clear: "returns_from ?P (clear_markers H mg (map fst (marked H mg t D)) t)"
    proof (rule returns_pre[OF clear_markers_returns[OF assms(1) t, where D = D]])
      show "set (map fst (marked H mg t D)) \<subseteq> set (destinations mg)" by (simp only: marked_fst) simp
    qed (use marked_keys[OF assms(1)] assms(2)[OF t] in auto)
    show ?thesis unfolding recover_pending_def
    proof (rule returns_and_then[OF read], rule read_markers_returns[OF assms(1) t _ assms(2)[OF t]], erule conjunct2, rule returns_assume,
        simp only: marked_owner io_laws, rule returns_and_then[OF none none_returns], rule returns_assume)
      fix ms and j :: "journal option" assume j: "j = None"
      show "returns_from ?P (recover_found H mg (marked H mg t D) (if marked H mg t D = [] then None else Some t) j)"
        using clear by (simp add: j recover_found_def return_rules)
    qed
  qed
  then show ?thesis unfolding returns_from_def settled_def by blast
qed

section \<open>A transaction in flight\<close>

lemma checked_journal_returns:
  assumes "transaction H mg t plan" "groups_complete mg (map fst plan) = Inr ()"
    and "canonical H (journal_json (journal_for H mg t F plan)) \<noteq> []" "length (canonical H (journal_json (journal_for H mg t F plan))) \<le> 65536"
  shows "checked_journal H mg (journal_json (journal_for H mg t F plan)) = Inr (journal_for H mg t F plan)"
proof -
  let ?j = "journal_for H mg t F plan"
  have e: "\<exists>l p c. (l, p, c) \<in> set plan \<and> je_path e = l \<and> je_destination e = Some p" if mem: "e \<in> set (jn_entries ?j)" for e
  proof -
    obtain y where y: "y \<in> set (enumerate 0 plan)" "e = planned_entry H mg t F y" using mem by (auto simp: journal_for_def)
    obtain i l p c where "y = (i, l, p, c)" by (rule prod_cases4)
    then show ?thesis using y enumerate_mem[of i "(l, p, c)" 0 plan] by auto
  qed
  have managed: "\<forall>e \<in> set (jn_entries ?j). je_path e \<in> set (map fst (mg_files mg))"
  proof
    fix e0 assume "e0 \<in> set (jn_entries ?j)"
    then obtain l p c where "(l, p, c) \<in> set plan" "je_path e0 = l" using e[of e0] by blast
    then show "je_path e0 \<in> set (map fst (mg_files mg))" using transactionD(3)[OF assms(1)] by (force simp: file_plan_ok_def)
  qed
  have dest: "\<not> (\<exists>e \<in> set (jn_entries ?j). je_destination e \<noteq> Some (destination_of mg (je_path e)))"
  proof
    assume "\<exists>e \<in> set (jn_entries ?j). je_destination e \<noteq> Some (destination_of mg (je_path e))"
    then obtain e0 where e0: "e0 \<in> set (jn_entries ?j)" "je_destination e0 \<noteq> Some (destination_of mg (je_path e0))" by blast
    obtain l p c where "(l, p, c) \<in> set plan" "je_path e0 = l" "je_destination e0 = Some p" using e[OF e0(1)] by blast
    then show False using planned_destination[OF assms(1)] e0(2) by simp
  qed
  have "map je_path (jn_entries ?j) = map fst plan"
  proof -
    have "map je_path (map (planned_entry H mg t F) (enumerate 0 plan)) = map (\<lambda>x. fst (snd x)) (enumerate 0 plan)"
      by (auto intro!: map_cong)
    also have "\<dots> = map fst (map snd (enumerate 0 plan))" by (simp only: map_map comp_def)
    finally show ?thesis by (simp add: journal_for_def)
  qed
  moreover have "jn_version ?j = 2" "jn_digest ?j = Some (config_digest H (mg_files mg))" by (simp_all add: journal_for_def)
  ultimately show ?thesis
    unfolding checked_journal_def journal_roundtrip[OF transactionD(1,3,2)[OF assms(1)]] using assms(2-4) managed dest by simp
qed

lemma target_state_returns:
  assumes "\<And>s. P s \<Longrightarrow> files s p = F p \<or> files s p = Some c"
  shows "returns_from P (target_state H (planned_entry H mg t F (i, l, p, c)) p)"
  unfolding target_state_def
proof (rule returns_and_then[where Q = "\<lambda>v s. v = F p \<or> v = Some c" and C = "\<lambda>_. True"])
  show "guards P (inspect (\<lambda>s. files s p)) (\<lambda>v s. v = F p \<or> v = Some c) (\<lambda>_. True)" by (rule guards_inspect) (rule assms)
  fix v
  let ?e = "planned_entry H mg t F (i, l, p, c)"
  have had: "matches H c0 (je_sha ?e) (je_size ?e)" if "F p = Some c0" for c0 using that by (simp add: planned_entry_def matches_def)
  have new: "matches H c (je_planned_sha ?e) (je_planned_size ?e)" by (simp add: planned_entry_def matches_def split: option.split)
  have "returns_from (\<lambda>_. True) (and_then (touch (ValueError ''restore journal has unexpected post-interruption state'')) (\<lambda>_. ret ()))"
    by (rule returns_last) (rule return_rules)+
  then show "returns_from (\<lambda>s. v = F p \<or> v = Some c) (case v of
       None \<Rightarrow> if je_had ?e then raise (ValueError ''restore journal has unexpected post-interruption state'') else ret ()
     | Some c \<Rightarrow> and_then (touch (ValueError ''restore journal has unexpected post-interruption state'')) (\<lambda>_.
         if \<not> (je_had ?e \<and> matches H c (je_sha ?e) (je_size ?e)) \<and> \<not> matches H c (je_planned_sha ?e) (je_planned_size ?e)
         then raise (ValueError ''restore journal has unexpected post-interruption state'') else ret ()))"
    by (cases v; cases "v = F p"; cases "v = Some c") (auto simp: had new return_rules)
qed (rule return_rules)

lemma recovery_target_returns:
  assumes "transaction H mg t plan" "(i, l, p, c) \<in> set (enumerate 0 plan)"
  shows "returns_from (in_flight H mg t F plan) (recovery_target H mg t (i, planned_entry H mg t F (i, l, p, c)))"
proof -
  let ?P = "in_flight H mg t F plan"
  have m: "(l, p, c) \<in> set plan" by (rule enumerate_mem[OF assms(2)])
  have dest: "destination_of mg l = p" by (rule planned_destination[OF assms(1) m])
  have st: "returns_from ?P (target_state H (planned_entry H mg t F (i, l, p, c)) p)"
    by (rule target_state_returns) (auto simp: in_flight_def restored_planned[OF assms(1) m])
  show ?thesis
  proof (cases "F p")
    case None
    then show ?thesis by (simp add: recovery_target_def dest) (rule returns_last[OF st], rule return_rules)
  next
    case (Some c0)
    have snap: "guards ?P (inspect (\<lambda>s. snapshots s (snapshot_path mg t i))) (\<lambda>v s. v = Some c0 \<and> ?P s) ?P"
      by (rule guards_inspect) (use assms(2) Some in \<open>auto simp: in_flight_def snapshots_hold_def\<close>)
    have held: "matches H c0 (je_sha (planned_entry H mg t F (i, l, p, c))) (je_size (planned_entry H mg t F (i, l, p, c)))"
      using Some by (simp add: planned_entry_def matches_def)
    have "returns_from ?P (and_then (touch (ValueError ''restore journal cannot be read'')) (\<lambda>_. ret c0))" by (rule returns_last) (rule return_rules)+
    then have read: "returns_from ?P (read_snapshot H mg t i (planned_entry H mg t F (i, l, p, c)))"
      unfolding read_snapshot_def by (intro returns_and_then[OF snap] returns_assume return_rules) (simp add: held)
    have stay: "guards ?P (read_snapshot H mg t i (planned_entry H mg t F (i, l, p, c))) (\<lambda>_. ?P) ?P"
      unfolding read_snapshot_def
      by (rule guards_and_then[where Q = "\<lambda>_. ?P"]) (auto intro!: guard_rules guards_if guards_and_then[where Q = "\<lambda>_. ?P"] split: option.split)
    have eq: "recovery_target H mg t (i, planned_entry H mg t F (i, l, p, c)) = and_then (read_snapshot H mg t i (planned_entry H mg t F (i, l, p, c)))
        (\<lambda>c'. and_then (target_state H (planned_entry H mg t F (i, l, p, c)) p) (\<lambda>_. ret (p, Some c')))"
      by (simp add: recovery_target_def dest Some)
    show ?thesis unfolding eq by (rule returns_and_then[OF stay read], rule returns_last[OF st], rule return_rules)
  qed
qed

lemma recovery_targets_returns:
  assumes "transaction H mg t plan"
  shows "returns_from (in_flight H mg t F plan) (recovery_targets H mg (journal_for H mg t F plan))"
proof -
  let ?P = "in_flight H mg t F plan"
  have held: "?P s \<Longrightarrow> snapshots_hold mg t F (enumerate 0 plan) s" for s by (simp add: in_flight_def)
  have "returns_from ?P (collect (recovery_target H mg t) (map (\<lambda>x. (fst x, planned_entry H mg t F x)) (enumerate 0 plan)))"
  proof (rule returns_collect)
    fix ie assume "ie \<in> set (map (\<lambda>x. (fst x, planned_entry H mg t F x)) (enumerate 0 plan))"
    then obtain y where y: "y \<in> set (enumerate 0 plan)" "ie = (fst y, planned_entry H mg t F y)" by auto
    obtain i l p c where x: "y = (i, l, p, c)" by (rule prod_cases4)
    have m: "(i, l, p, c) \<in> set (enumerate 0 plan)" and ie: "ie = (i, planned_entry H mg t F (i, l, p, c))" using y x by simp_all
    show "guards ?P (recovery_target H mg t ie) (\<lambda>_. ?P) ?P"
      unfolding ie by (rule guards_weaken[OF recovery_target_guards[OF assms m held]]) auto
    show "returns_from ?P (recovery_target H mg t ie)" unfolding ie by (rule recovery_target_returns[OF assms m])
  qed
  moreover have "enumerate 0 (jn_entries (journal_for H mg t F plan)) = map (\<lambda>x. (fst x, planned_entry H mg t F x)) (enumerate 0 plan)"
    by (rule nth_equalityI) (simp_all add: journal_for_def nth_enumerate_eq)
  moreover have "jn_id (journal_for H mg t F plan) = t" by (simp add: journal_for_def)
  ultimately show ?thesis unfolding recovery_targets_def by simp
qed

lemma verify_target_returns:
  assumes "\<And>s. P s \<Longrightarrow> files s p = v"
  shows "returns_from P (verify_target H (p, v))"
  unfolding verify_target_def prod.case
proof (rule returns_and_then[where Q = "\<lambda>now s. now = v \<and> P s" and C = "\<lambda>_. True"])
  show "guards P (inspect (\<lambda>s. files s p)) (\<lambda>now s. now = v \<and> P s) (\<lambda>_. True)" by (rule guards_inspect) (simp add: assms)
  fix now
  have "returns_from P (and_then (touch (ValueError ''restore journal cannot be recovered'')) (\<lambda>_. ret ()))" by (rule returns_last) (rule return_rules)+
  then show "returns_from (\<lambda>s. now = v \<and> P s) (case v of
       None \<Rightarrow> if now \<noteq> None then raise (ValueError ''restore journal cannot be recovered'') else ret ()
     | Some c \<Rightarrow> and_then (touch (ValueError ''restore journal cannot be recovered'')) (\<lambda>_.
         case now of None \<Rightarrow> raise (ValueError ''restore journal cannot be recovered'')
         | Some c' \<Rightarrow> if \<not> matches H c' (Some (sha H c)) (Some (size_of c)) then raise (ValueError ''restore journal cannot be recovered'') else ret ()))"
    by (intro returns_assume) (auto simp: matches_def return_rules split: option.split)
qed (rule return_rules)

lemma finalize_returns:
  assumes "transaction H mg t plan" "readable H mg t"
  shows "returns_from (in_flight H mg t F plan) (finalize_journal H mg (journal_for H mg t F plan) clear)"
proof -
  let ?j = "journal_for H mg t F plan" and ?M = "marks H mg t (set (plan_dests plan))"
  have dests: "entry_destinations mg ?j = plan_dests plan" by (rule entry_destinations_for[OF assms(1)])
  have each: "guards ?M (each (\<lambda>(i, e). if \<not> je_had e then ret ()
         else act (ValueError ''restore journal cannot be finalized'') (\<lambda>s. s\<lparr>snapshots := (snapshots s)(snapshot_path mg (jn_id ?j) i := None)\<rparr>)) xs) (\<lambda>_. ?M) ?M" for xs
    by (rule guards_each[where I = "\<lambda>_. ?M"]) (auto split: prod.split intro!: guard_rules)
  have each_returns: "returns_from ?M (each (\<lambda>(i, e). if \<not> je_had e then ret ()
         else act (ValueError ''restore journal cannot be finalized'') (\<lambda>s. s\<lparr>snapshots := (snapshots s)(snapshot_path mg (jn_id ?j) i := None)\<rparr>)) xs)" for xs
    by (rule returns_each[where C = ?M]) (auto split: prod.split intro!: guard_rules return_rules)
  have clear: "returns_from ?M (clear_markers H mg (plan_dests plan) t)"
    by (rule clear_markers_returns[OF transactionD(1,2,4)[OF assms(1)] subset_refl plan_dests_distinct[OF assms(1)] assms(2)])
  have see: "guards (in_flight H mg t F plan) (inspect (\<lambda>s. journals s (mg_journal mg))) (\<lambda>v s. v \<noteq> None \<and> ?M s) (\<lambda>_. True)"
    by (rule guards_inspect) (simp add: in_flight_def)
  have drop: "guards ?M (act e (\<lambda>s. s\<lparr>journals := (journals s)(mg_journal mg := None)\<rparr>)) (\<lambda>_. ?M) ?M" for e
    by (rule guards_act) simp_all
  have jn: "jn_id ?j = t" by (simp add: journal_for_def)
  have tail: "returns_from ?M (if clear then clear_markers H mg (entry_destinations mg ?j) (jn_id ?j) else ret ())"
    unfolding dests jn using clear by (simp add: return_rules)
  have rest: "returns_from ?M (and_then (act (ValueError ''restore journal cannot be finalized'') (\<lambda>s. s\<lparr>journals := (journals s)(mg_journal mg := None)\<rparr>)) (\<lambda>_.
     and_then (each (\<lambda>(i, e). if \<not> je_had e then ret ()
         else act (ValueError ''restore journal cannot be finalized'') (\<lambda>s. s\<lparr>snapshots := (snapshots s)(snapshot_path mg (jn_id ?j) i := None)\<rparr>))
       (enumerate 0 (jn_entries ?j))) (\<lambda>_. if clear then clear_markers H mg (entry_destinations mg ?j) (jn_id ?j) else ret ())))"
    by (rule returns_and_then[OF drop], rule return_rules, rule returns_and_then[OF each each_returns], rule tail)
  show ?thesis unfolding finalize_journal_def
    by (rule returns_and_then[OF see], rule return_rules, rule returns_assume) (auto simp: rest)
qed

lemma recover_journal_returns:
  assumes "transaction H mg t plan" "readable H mg t"
  shows "returns_from (in_flight H mg t F plan) (recover_journal H mg (journal_for H mg t F plan) (targets_for F plan) clear)"
proof -
  let ?P = "in_flight H mg t F plan" and ?j = "journal_for H mg t F plan" and ?ts = "targets_for F plan"
  let ?R = "\<lambda>s. ?P s \<and> files s = F"
  note steps = recover_steps[OF assms(1), of F]
  have verify: "returns_from ?R (each (verify_target H) ?ts)"
  proof (rule returns_each)
    fix x assume "x \<in> set ?ts"
    then obtain p where x: "x = (p, F p)" by (auto simp: targets_for_def)
    show "guards ?R (verify_target H x) (\<lambda>_. ?R) ?R" by (rule verify_target_guards)
    show "returns_from ?R (verify_target H x)" unfolding x by (rule verify_target_returns) simp
  qed
  have stage: "returns_from ?P (each (\<lambda>_. stage_file) (old_files ?ts))"
    by (rule returns_each[where C = ?P]) (auto simp: stage_file_def intro: guards_touch return_rules)
  have put: "returns_from P (each (\<lambda>(p, c). replace_file p c) xs)" for P xs
    by (rule returns_pre[OF returns_each[where P = "\<lambda>_. True" and C = "\<lambda>_. True"]])
      (auto simp: replace_file_def guards_any intro: return_rules)
  have drop: "returns_from P (each unlink_file xs)" for P xs
    by (rule returns_pre[OF returns_each[where P = "\<lambda>_. True" and C = "\<lambda>_. True"]])
      (auto simp: unlink_file_def guards_any intro: return_rules)
  have final: "returns_from ?R (finalize_journal H mg ?j clear)" by (rule returns_pre[OF finalize_returns[OF assms]]) simp
  show ?thesis unfolding recover_journal_def
    by (rule returns_and_then[OF steps(1) stage], rule returns_and_then[OF steps(2) put], rule returns_and_then[OF steps(3) drop],
        rule returns_and_then[OF steps(4) verify], rule final)
qed

lemma recover_pending_returns:
  assumes "transaction H mg t plan" "groups_complete mg (map fst plan) = Inr ()" "\<And>t. is_transaction_id t \<Longrightarrow> readable H mg t"
    and "canonical H (journal_json (journal_for H mg t F plan)) \<noteq> []" "length (canonical H (journal_json (journal_for H mg t F plan))) \<le> 65536"
  shows "returns_from (pending H mg t F plan) (recover_pending H mg)"
proof -
  let ?P = "in_flight H mg t F plan" and ?D = "set (plan_dests plan)" and ?j = "journal_for H mg t F plan"
  have r: "readable H mg t" by (rule assms(3)[OF transactionD(2)[OF assms(1)]])
  have marks: "?P s \<Longrightarrow> marks H mg t ?D s" for s by (simp add: in_flight_def)
  have here: "?P s \<Longrightarrow> journals s (mg_journal mg) = Some (journal_json ?j)" for s by (simp add: in_flight_def)
  have held: "?P s \<Longrightarrow> snapshots_hold mg t F (enumerate 0 plan) s" for s by (simp add: in_flight_def)
  have read: "guards ?P (read_markers H mg) (\<lambda>ms s. ms = marked H mg t ?D \<and> ?P s) ?P" by (rule read_markers_guards[OF transactionD(1,2)[OF assms(1)] marks])
  have journal: "guards ?P (read_journal H mg) (\<lambda>j s. j = Some ?j \<and> ?P s) ?P" by (rule read_journal_guards[OF assms(1) here])
  have see: "guards ?P (inspect (\<lambda>s. journals s (mg_journal mg))) (\<lambda>v s. v = Some (journal_json ?j) \<and> ?P s) ?P" by (rule guards_inspect) (simp add: here)
  have "returns_from ?P (and_then (touch (ValueError ''restore journal cannot be read'')) (\<lambda>_. ret (Some ?j)))" by (rule returns_last) (rule return_rules)+
  then have journal_returns: "returns_from ?P (read_journal H mg)"
    unfolding read_journal_def
    by (intro returns_and_then[OF see] returns_assume return_rules) (simp add: checked_journal_returns[OF assms(1,2,4,5)])
  have match: "markers_match mg (marked H mg t ?D) ?j = Inr ()"
  proof -
    have "set (map fst (marked H mg t ?D)) = set (entry_destinations mg ?j)"
      using marked_fst[of H mg t ?D] transactionD(4)[OF assms(1)] entry_destinations_for[OF assms(1)] by auto
    moreover have "\<forall>(p, m) \<in> set (marked H mg t ?D). mk_id m = jn_id ?j" by (auto simp: marked_def own_marker_def journal_for_def)
    ultimately show ?thesis by (auto simp: markers_match_def)
  qed
  have targets: "guards ?P (recovery_targets H mg ?j) (\<lambda>ts s. ts = targets_for F plan \<and> ?P s) ?P" by (rule recovery_targets_guards[OF assms(1) held])
  have found: "returns_from ?P (recover_found H mg (marked H mg t ?D) x (Some ?j))" for x
    unfolding recover_found_def option.case match io_laws
    by (rule returns_on_error, rule returns_and_then[OF targets recovery_targets_returns[OF assms(1)]], rule returns_assume)
      (simp add: recover_journal_returns[OF assms(1) r])
  have flight: "returns_from ?P (recover_pending H mg)"
    unfolding recover_pending_def
  proof (rule returns_and_then[OF read], rule read_markers_returns[OF transactionD(1,2)[OF assms(1)] marks r], assumption, rule returns_assume,
      simp only: marked_owner io_laws, rule returns_and_then[OF journal journal_returns], rule returns_assume)
    fix ms and j :: "journal option" assume j: "j = Some ?j"
    show "returns_from ?P (recover_found H mg (marked H mg t ?D) (if marked H mg t ?D = [] then None else Some t) j)" unfolding j by (rule found)
  qed
  show ?thesis using flight recover_settled_returns[OF transactionD(1)[OF assms(1)] assms(3)] unfolding pending_def returns_from_def by blast
qed

section \<open>A restore without faults\<close>

lemma write_markers_returns:
  assumes "set ps \<subseteq> set (destinations mg)" "distinct ps"
  shows "returns_from (marks H mg t {}) (write_markers H mg t ps)"
proof -
  have K: "markless (\<lambda>_. True)" by (simp add: markless_def)
  have "returns_from (marks H mg t (set ws)) (write_markers_from H (own_marker H mg t) ws ps)" if "set ws \<inter> set ps = {}" for ws
    using assms that
  proof (induction ps arbitrary: ws)
    case (Cons p ps)
    have p: "p \<in> set (destinations mg)" "p \<notin> set ws" using Cons.prems by auto
    have put: "guards (marks H mg t (set ws)) (write_marker p (own_marker H mg t)) (\<lambda>_. marks H mg t (set (p # ws))) (\<lambda>_. True)"
      by (rule guards_weaken[OF write_marker_guards[OF p K, of H t]]) auto
    have see: "guards (marks H mg t (set ws)) (inspect (\<lambda>s. markers s p)) (\<lambda>v s. v = None \<and> True) (\<lambda>_. True)"
      by (rule guards_inspect) (use p in \<open>auto simp: marks_def\<close>)
    have written: "returns_from (marks H mg t (set ws)) (write_marker p (own_marker H mg t))"
      unfolding write_marker_def by (rule returns_and_then[OF see return_rules(4)], rule returns_assume) (auto intro: return_rules)
    have undo: "guards (\<lambda>_. True) (and_then u (\<lambda>_. raise e)) Q (\<lambda>_. True)" for u :: "unit bio" and e and Q :: "unit \<Rightarrow> store \<Rightarrow> bool"
      by (rule guards_and_then[OF guards_any]) (simp add: guards_raise)
    have first: "guards (marks H mg t (set ws)) (on_error (write_marker p (own_marker H mg t)) (\<lambda>e. and_then (each (remove_marker H (own_marker H mg t)) ws) (\<lambda>_. raise e)))
        (\<lambda>_. marks H mg t (set (p # ws))) (\<lambda>_. True)" by (rule guards_on_error[OF put undo]) simp
    show ?case unfolding write_markers_from.simps
      by (rule returns_and_then[OF first returns_on_error[OF written]]) (rule Cons.IH, use Cons.prems in auto)
  qed (simp add: return_rules)
  from this[of "[]"] show ?thesis by (simp add: write_markers_def)
qed

lemma snapshot_target_returns: "returns_from P (snapshot_target H mg t x)"
proof -
  have some: "returns_from (\<lambda>_. True) (case v of None \<Rightarrow> ret a | Some c0 \<Rightarrow> and_then (touch e) (\<lambda>_. and_then (act e' (f c0)) (\<lambda>_. ret (b c0))))"
    for v and a :: journal_entry and e e' and f :: "pystr \<Rightarrow> store \<Rightarrow> store" and b
    by (auto split: option.split intro!: returns_last return_rules)
  show ?thesis unfolding snapshot_target_def by (auto split: prod.split intro!: returns_last return_rules some)
qed

lemma create_journal_returns: "returns_from P (create_journal H mg t plan)"
proof -
  have "returns_from (\<lambda>_. True) (collect (snapshot_target H mg t) (enumerate 0 plan))"
    by (rule returns_collect[OF guards_any snapshot_target_returns])
  then show ?thesis unfolding create_journal_def by (intro returns_last return_rules) (rule returns_pre, auto)
qed

lemma verify_restored_returns:
  assumes "\<And>s. P s \<Longrightarrow> files s p = Some c"
  shows "returns_from P (verify_restored (l, p, c))"
proof -
  have t: "guards P (touch e) (\<lambda>_. P) (\<lambda>_. True)" for e by (rule guards_touch) auto
  have see: "guards P (inspect (\<lambda>s. files s p)) (\<lambda>v s. v = Some c \<and> True) (\<lambda>_. True)" by (rule guards_inspect) (simp add: assms)
  show ?thesis unfolding verify_restored_def prod.case
    by (rule returns_and_then[OF t return_rules(3)], rule returns_and_then[OF see return_rules(4)], rule returns_assume) (simp add: return_rules)
qed

lemma replace_all_returns:
  assumes "transaction H mg t plan" "readable H mg t"
  shows "returns_from (\<lambda>s. (prepared mg F s \<and> marks H mg t (set (plan_dests plan)) s) \<and> snapshots_hold mg t F (enumerate 0 plan) s)
    (replace_all H mg aid now m plan (journal_for H mg t F plan))"
proof -
  note steps = replace_steps[OF assms(1), of F]
  let ?R = "\<lambda>s. in_flight H mg t F plan s \<and> files s = restored F plan"
  have verify: "returns_from ?R (each verify_restored plan)"
  proof (rule returns_each)
    fix x assume x: "x \<in> set plan"
    obtain l p c where e: "x = (l, p, c)" by (rule prod_cases3)
    show "guards ?R (verify_restored x) (\<lambda>_. ?R) (\<lambda>_. True)" by (rule guards_weaken[OF verify_restored_guards[of ?R]]) auto
    show "returns_from ?R (verify_restored x)" unfolding e
      by (rule verify_restored_returns) (use restored_planned[OF assms(1)] x e in auto)
  qed
  have put: "returns_from P (each (\<lambda>(l, p, c). replace_file p c) plan)" for P
    by (rule returns_pre[OF returns_each[where P = "\<lambda>_. True" and C = "\<lambda>_. True"]])
      (auto simp: replace_file_def guards_any intro: return_rules)
  have fin: "returns_from ?R (finalize_journal H mg (journal_for H mg t F plan) True)" by (rule returns_pre[OF finalize_returns[OF assms]]) simp
  show ?thesis unfolding replace_all_def
    by (rule returns_and_then[OF steps(1)], simp add: write_journal_def return_rules, rule returns_and_then[OF steps(2)], simp add: append_audit_def return_rules,
        rule returns_and_then[OF steps(3) put], rule returns_and_then[OF steps(4) verify], rule returns_last[OF fin], rule return_rules)
qed

lemma restore_plan_returns:
  assumes "transaction H mg t plan" "readable H mg t"
  shows "returns_from (\<lambda>s. unmarked mg s \<and> files s = F) (restore_plan H mg t aid now m plan)"
proof -
  let ?K = "\<lambda>s. prepared mg F s \<and> marks H mg t (set (plan_dests plan)) s"
  note steps = restore_steps[OF assms(1), of F]
  have stage: "returns_from P (each (\<lambda>_. stage_file) plan)" for P
    by (rule returns_pre[OF returns_each[where P = "\<lambda>_. True" and C = "\<lambda>_. True"]])
      (auto simp: stage_file_def guards_any intro: return_rules)
  have mark: "returns_from (\<lambda>s. unmarked mg s \<and> files s = F) (write_markers H mg t (plan_dests plan))"
    by (rule returns_pre[OF write_markers_returns[OF transactionD(4)[OF assms(1)] plan_dests_distinct[OF assms(1)]]]) (simp add: unmarked_def marks_none)
  have journal: "returns_from ?K (on_error (create_journal H mg t plan) (\<lambda>e. and_then (clear_after_failure H mg (plan_dests plan) t) (\<lambda>_. raise e)))"
    by (rule returns_on_error[OF create_journal_returns])
  show ?thesis unfolding restore_plan_def Let_def plan_dests_def[symmetric]
    by (rule returns_and_then[OF steps(1) stage], rule returns_and_then[OF steps(2) mark], rule returns_and_then[OF steps(3) journal], rule returns_assume,
        simp only:, rule returns_on_error[OF replace_all_returns[OF assms]])
qed

end
