(* ===== verification/Backup_Properties.thy ===== *)
theory Backup_Properties
  imports Backup_Liveness
begin

text \<open>
  Claims about \<^verbatim>\<open>workbench/backup.py\<close>: a restore is atomic under kills and exceptions, an interrupted one can be recovered, a
  recovery spares files that somebody else has changed, another configuration's restore blocks everything, and a restored backup
  gives back what was backed up.
\<close>

section \<open>Archives\<close>

lemma files_from_json_distinct: "files_from_json seen vs = Inr fs \<Longrightarrow> distinct (map bf_path fs) \<and> set (map bf_path fs) \<inter> seen = {}"
proof (induction vs arbitrary: seen fs)
  case (Cons v vs)
  then obtain f rest where f: "file_from_json seen v = Inr f" "files_from_json (insert (bf_path f) seen) vs = Inr rest" "fs = f # rest"
    by (auto simp: bindR_Inr_iff)
  have "bf_path f \<notin> seen" using f(1) by (auto simp: file_from_json_def bindR_Inr_iff split: json.splits if_splits)
  then show ?case using Cons.IH[OF f(2)] f(3) by auto
qed simp

lemma member_content_Inr: "member_content H mg z f = Inr x \<Longrightarrow> fst x = bf_path f \<and> bf_path f \<in> set (map fst (mg_files mg))"
  by (simp only: member_content_def split: if_splits option.splits) auto

lemma member_contents:
  "mapR (member_content H mg z) fs = Inr cs \<Longrightarrow> map fst cs = map bf_path fs \<and> (\<forall>x \<in> set cs. fst x \<in> set (map fst (mg_files mg)))"
proof (induction fs arbitrary: cs)
  case (Cons f fs)
  then obtain x rest where x: "member_content H mg z f = Inr x" "mapR (member_content H mg z) fs = Inr rest" "cs = x # rest"
    by (auto simp: bindR_Inr_iff)
  show ?case using Cons.IH[OF x(2)] member_content_Inr[OF x(1)] x(3) by simp
qed simp

lemma not_refused: "(if b then Inl e else r) = Inr x \<Longrightarrow> \<not> b \<and> r = Inr x"
  by (simp split: if_splits)

lemma manifest_files:
  assumes "manifest_from_json v = Inr m"
  shows "\<exists>vs. files_from_json {} vs = Inr (bm_files m)"
proof -
  obtain ob where v: "v = JObj ob" using assms by (cases v) (simp_all add: manifest_from_json_def)
  note r = conjunct2[OF not_refused[OF conjunct2[OF not_refused[OF assms[unfolded v manifest_from_json_def json.case]]]]]
  obtain i c where r2: "(case dict_get ob ''files'' of
      Some (JList vs) \<Rightarrow> bindR (files_from_json {} vs) (\<lambda>fs. Inr \<lparr>bm_version = the (dict_get ob ''format_version''), bm_id = i, bm_created = c, bm_files = fs\<rparr>)
    | _ \<Rightarrow> Inl (ValueError manifest_invalid)) = Inr m"
    using r unfolding bindR_Inr_iff by blast
  obtain vs where "dict_get ob ''files'' = Some (JList vs)" using r2 by (simp split: option.splits json.splits)
  then show ?thesis using r2 by (auto simp: bindR_Inr_iff)
qed

lemma validated_plan:
  assumes "well_set H mg" "validated_archive H mg z = Inr (m, cs)"
  shows "file_plan_ok mg (planned mg cs)" "groups_complete mg (map fst (planned mg cs)) = Inr ()"
proof -
  obtain mm :: zip_member and m' where m': "manifest_from_json (zm_json mm) = Inr m'" "archive_contents H mg z m' = Inr (m, cs)"
  proof -
    obtain mm :: zip_member where "bindR (manifest_from_json (zm_json mm)) (archive_contents H mg z) = Inr (m, cs)"
      using assms(2) by (simp add: validated_archive_def split: if_splits option.splits)
    then show thesis using that unfolding bindR_Inr_iff by blast
  qed
  have "bindR (mapR (member_content H mg z) (bm_files m')) (\<lambda>cs. bindR (groups_complete mg (map fst cs)) (\<lambda>_. Inr (m', cs))) = Inr (m, cs)"
    using not_refused[OF m'(2)[unfolded archive_contents_def]] by (rule conjunct2)
  then have v: "manifest_from_json (zm_json mm) = Inr m" "mapR (member_content H mg z) (bm_files m) = Inr cs" "groups_complete mg (map fst cs) = Inr ()"
    using m'(1) by (auto simp: bindR_Inr_iff)
  have d: "distinct (map bf_path (bm_files m))" using manifest_files[OF v(1)] files_from_json_distinct by blast
  have names: "map fst (planned mg cs) = map fst cs" by (auto simp: planned_def)
  have at: "(l, destination_of mg l) \<in> set (mg_files mg)" if mem: "l \<in> set (map fst (mg_files mg))" for l
  proof -
    obtain p where "(l, p) \<in> set (mg_files mg)" using mem by auto
    then show ?thesis using destination_of_managed[OF assms(1)] by auto
  qed
  have "(l, p) \<in> set (mg_files mg)" if x: "(l, p, c) \<in> set (planned mg cs)" for l p c
  proof -
    have "p = destination_of mg l" "(l, c) \<in> set cs" using x by (auto simp: planned_def)
    then show ?thesis using at[of l] member_contents[OF v(2)] by fastforce
  qed
  then show "file_plan_ok mg (planned mg cs)" using names d member_contents[OF v(2)] by (auto simp: file_plan_ok_def)
  show "groups_complete mg (map fst (planned mg cs)) = Inr ()" unfolding names by (rule v(3))
qed

section \<open>Atomicity\<close>

lemma recover_unmarked:
  assumes "well_set H mg" "is_transaction_id t" "unmarked mg s0"
  shows "guards (\<lambda>s. s = s0) (recover_pending H mg) (\<lambda>_ s. s = s0) (\<lambda>s. s = s0)"
proof -
  let ?P = "\<lambda>s. s = s0"
  have read: "guards ?P (read_markers H mg) (\<lambda>ms s. ms = marked H mg t {} \<and> ?P s) ?P"
    by (rule read_markers_guards[OF assms(1,2)]) (use assms(3) in \<open>simp add: marks_none unmarked_def\<close>)
  have journal: "guards ?P (read_journal H mg) (\<lambda>j s. j = None \<and> ?P s) ?P"
    unfolding read_journal_def
    by (rule guards_and_then[where Q = "\<lambda>v s. v = None \<and> ?P s"]) (use assms(3) in \<open>auto simp: unmarked_def intro!: guards_assume guard_rules\<close>)
  have none: "marked H mg t {} = []" by (simp add: marked_def)
  show ?thesis unfolding recover_pending_def
  proof (rule guards_and_then[OF read], rule guards_assume, simp only: marked_owner io_laws, rule guards_and_then[OF journal], rule guards_assume)
    fix ms and j :: "journal option" assume j: "j = None"
    show "guards ?P (recover_found H mg (marked H mg t {}) (if marked H mg t {} = [] then None else Some t) j) (\<lambda>_. ?P) ?P"
      by (simp add: j none recover_found_def guards_ret)
  qed
qed

lemma restore_guards:
  assumes "transaction H mg t (planned mg cs)" "unmarked mg s0" "archives s0 path = Some z" "validated_archive H mg z = Inr (m, cs)"
  shows "guards (\<lambda>s. s = s0) (restore_archive H mg path token t aid now)
    (\<lambda>_ s. unmarked mg s \<and> files s = restored (files s0) (planned mg cs)) (pending H mg t (files s0) (planned mg cs))"
proof -
  let ?plan = "planned mg cs" and ?s1 = "s0\<lparr>tokens := filter (\<lambda>(k, v). k \<noteq> token) (tokens s0)\<rparr>"
  let ?C = "pending H mg t (files s0) ?plan"
  have C0: "?C s" if "unmarked mg s" "files s = files s0" for s
    by (rule at_rest_pending[OF assms(1)]) (use that in \<open>simp add: at_rest_def\<close>)
  have rest: "unmarked mg ?s1" "files ?s1 = files s0" using assms(2) by (simp_all add: unmarked_def)
  have C: "s = s0 \<Longrightarrow> ?C s" "s = ?s1 \<Longrightarrow> ?C s" for s using C0 assms(2) rest by auto
  have recover: "guards (\<lambda>s. s = s0) (recover_pending H mg) (\<lambda>_ s. s = s0) ?C"
    by (rule guards_weaken[OF recover_unmarked[OF transactionD(1,2)[OF assms(1)] assms(2)]]) (auto intro: C)
  have see: "guards (\<lambda>s. s = s0) (inspect (\<lambda>s. dict_get (tokens s) token)) (\<lambda>_ s. s = s0) ?C" by (rule guards_inspect)
  have pop: "guards (\<lambda>s. s = s0) (keep (\<lambda>s. s\<lparr>tokens := filter (\<lambda>(k, v). k \<noteq> token) (tokens s)\<rparr>)) (\<lambda>_ s. s = ?s1) ?C"
    by (rule guards_keep) simp
  have look: "guards (\<lambda>s. s = ?s1) (inspect (\<lambda>s. archives s path)) (\<lambda>v s. v = Some z \<and> s = ?s1) ?C"
    by (rule guards_inspect) (use assms(3) in simp)
  have touch: "guards (\<lambda>s. s = ?s1) (touch e) (\<lambda>_ s. s = ?s1) ?C" for e by (rule guards_touch) (auto intro: C)
  have load: "guards (\<lambda>s. s = ?s1) (of_result (validated_archive H mg z)) (\<lambda>x s. x = (m, cs) \<and> s = ?s1) ?C"
    by (rule guards_of_result) (use assms(4) C(2) in auto)
  have read: "guards (\<lambda>s. s = ?s1) (read_archive H mg path) (\<lambda>x s. x = (m, cs) \<and> s = ?s1) ?C"
    unfolding read_archive_def
    by (rule guards_and_then[OF look], rule guards_assume) (simp, rule guards_and_then[OF touch load])
  have plan: "guards (\<lambda>s. s = ?s1) (restore_plan H mg t aid now m ?plan) (\<lambda>_ s. unmarked mg s \<and> files s = restored (files s0) ?plan) ?C"
    by (rule guards_pre[OF restore_plan_guards[OF assms(1)]]) (use rest in simp)
  have stop: "guards (\<lambda>s. s = ?s1) (raise e :: (pystr list \<times> pystr) bio) Q ?C" for e Q by (rule guards_raise) (rule C)
  have found: "guards (\<lambda>s. s = ?s1) (and_then (read_archive H mg path) (\<lambda>(m, cs).
         if manifest_digest H m \<noteq> digest then raise (ValueError ''explicit restore confirmation is required'')
         else restore_plan H mg t aid now m (planned mg cs))) (\<lambda>_ s. unmarked mg s \<and> files s = restored (files s0) ?plan) ?C" for digest
    by (rule guards_and_then[OF read], rule guards_assume) (simp add: plan stop)
  show ?thesis unfolding restore_archive_def
    by (rule guards_and_then[OF recover], rule guards_and_then[OF see], rule guards_and_then[OF pop])
      (auto split: option.split prod.split intro!: guards_if stop found)
qed

lemma validated_transaction:
  assumes "well_set H mg" "is_transaction_id t" "validated_archive H mg z = Inr (m, cs)"
  shows "transaction H mg t (planned mg cs)"
  using assms validated_plan(1) by (simp add: transaction_def)

lemma restore_pending:
  assumes "well_set H mg" "is_transaction_id t" "unmarked mg s" "archives s path = Some z" "validated_archive H mg z = Inr (m, cs)"
    and "restore_archive H mg path token t aid now s fs = (r, s1, fs')"
  shows "pending H mg t (files s) (planned mg cs) s1" "r = Returns x \<Longrightarrow> unmarked mg s1 \<and> files s1 = restored (files s) (planned mg cs)"
proof -
  have tr: "transaction H mg t (planned mg cs)" by (rule validated_transaction[OF assms(1,2,5)])
  note g = restore_guards[OF tr assms(3,4,5), of token aid now]
  show returns: "r = Returns x \<Longrightarrow> unmarked mg s1 \<and> files s1 = restored (files s) (planned mg cs)" for x
    using guardsD(1)[OF g refl] assms(6) by simp
  show "pending H mg t (files s) (planned mg cs) s1"
  proof (cases r)
    case (Returns x)
    then show ?thesis using returns at_rest_pending[OF tr, of "files s" s1] by (simp add: at_rest_def)
  qed (use guardsD(2,3)[OF g refl] assms(6) in simp_all)
qed


text \<open>C31: After any such interruptions the next recovery that meets no fault returns, as long as the journal and the markers are
  within the sizes that their readers accept.\<close>

theorem interrupted_restore_recovers:
  assumes "well_set H mg" "is_transaction_id t" "unmarked mg s" "archives s path = Some z" "validated_archive H mg z = Inr (m, cs)"
    and "restore_archive H mg path token t aid now s fs = (r, s1, fs')"
    and "\<And>u. is_transaction_id u \<Longrightarrow> readable H mg u" "canonical H (journal_json (journal_for H mg t (files s) (planned mg cs))) \<noteq> []"
      "length (canonical H (journal_json (journal_for H mg t (files s) (planned mg cs)))) \<le> 65536"
  shows "\<exists>s2. recover_pending H mg (attempts (recover_pending H mg) fss s1) [] = (Returns (), s2, [])"
proof -
  have tr: "transaction H mg t (planned mg cs)" by (rule validated_transaction[OF assms(1,2,5)])
  have "pending H mg t (files s) (planned mg cs) (attempts (recover_pending H mg) fss s1)"
    using bk.attempts_pending[of H mg t "planned mg cs" "files s" s1 fss] tr restore_pending(1)[OF assms(1-6)] by simp
  then show ?thesis
    using recover_pending_returns[OF tr validated_plan(2)[OF assms(1,5)] assms(7-9)] by (auto simp: returns_from_def)
qed


lemma recover_unmarked_returns:
  assumes "well_set H mg" "is_transaction_id t" "unmarked mg s" "\<And>u. is_transaction_id u \<Longrightarrow> readable H mg u"
  shows "recover_pending H mg s [] = (Returns (), s, [])"
proof -
  have "returns_from (settled H mg (files s) (files s)) (recover_pending H mg)" by (rule recover_settled_returns[OF assms(1,4)])
  then obtain s' where s': "recover_pending H mg s [] = (Returns (), s', [])"
    using unmarked_settled[OF assms(3) _ assms(2)] unfolding returns_from_def by fastforce
  then show ?thesis using guardsD(1)[OF recover_unmarked[OF assms(1-3)] refl s'] by simp
qed

lemma restore_returns:
  assumes "well_set H mg" "is_transaction_id t" "unmarked mg s" "archives s path = Some z" "validated_archive H mg z = Inr (m, cs)"
    and "dict_get (tokens s) token = Some (path, manifest_digest H m)" "\<And>u. is_transaction_id u \<Longrightarrow> readable H mg u"
  shows "\<exists>x s1. restore_archive H mg path token t aid now s [] = (Returns x, s1, [])"
proof -
  let ?s = "s\<lparr>tokens := filter (\<lambda>(k, v). k \<noteq> token) (tokens s)\<rparr>"
  have tr: "transaction H mg t (planned mg cs)" by (rule validated_transaction[OF assms(1,2,5)])
  have start: "unmarked mg ?s \<and> files ?s = files s" using assms(3) by (simp add: unmarked_def)
  have "returns_from (\<lambda>x. unmarked mg x \<and> files x = files s) (restore_plan H mg t aid now m (planned mg cs))"
    by (rule restore_plan_returns[OF tr assms(7)[OF assms(2)]])
  then obtain x s1 where r: "restore_plan H mg t aid now m (planned mg cs) ?s [] = (Returns x, s1, [])"
    using start unfolding returns_from_def by blast
  have read: "read_archive H mg path ?s [] = (Returns (m, cs), ?s, [])"
    using assms(4,5) by (simp add: read_archive_def and_then_def inspect_def touch_def ret_def)
  have "restore_archive H mg path token t aid now s [] = (Returns x, s1, [])"
    using recover_unmarked_returns[OF assms(1-3,7)] assms(6) read r
    by (simp add: restore_archive_def and_then_def inspect_def keep_def)
  then show ?thesis by blast
qed

text \<open>C35: A restore that was confirmed completes: from a store at rest, with a token whose archive is still the one that was checked and
  without faults, it returns, and every managed file of the archive has its content.\<close>

theorem confirmed_restore_completes:
  assumes "well_set H mg" "is_transaction_id t" "unmarked mg s" "archives s path = Some z" "validated_archive H mg z = Inr (m, cs)"
    and "dict_get (tokens s) token = Some (path, manifest_digest H m)" "\<And>u. is_transaction_id u \<Longrightarrow> readable H mg u"
  shows "\<exists>x s1. restore_archive H mg path token t aid now s [] = (Returns x, s1, []) \<and> unmarked mg s1
    \<and> (\<forall>(l, c) \<in> set cs. files s1 (destination_of mg l) = Some c)"
proof -
  obtain x s1 where r: "restore_archive H mg path token t aid now s [] = (Returns x, s1, [])" using restore_returns[OF assms] by blast
  have "restored (files s) (planned mg cs) (destination_of mg l) = Some c" if "(l, c) \<in> set cs" for l c
    by (rule restored_planned[OF validated_transaction[OF assms(1,2,5)], of l]) (use that in \<open>force simp: planned_def\<close>)
  then show ?thesis using r restore_pending(2)[OF assms(1-5) r refl] by auto
qed

section \<open>What a recovery does not touch\<close>

lemma quiet_read_marker: "quiet (read_marker H p)"
  unfolding read_marker_def by (auto intro!: quiet_rules split: option.split)

lemma quiet_read_markers: "quiet (read_markers H mg)"
  unfolding read_markers_def by (intro quiet_rules quiet_read_marker)

lemma quiet_read_journal: "quiet (read_journal H mg)"
  unfolding read_journal_def by (auto intro!: quiet_rules split: option.split)

lemma quiet_read_snapshot: "quiet (read_snapshot H mg t i e)"
  unfolding read_snapshot_def by (auto intro!: quiet_rules split: option.split)

lemma quiet_verify_target: "quiet (verify_target H x)"
  unfolding verify_target_def by (auto intro!: quiet_rules split: option.split prod.split)

text \<open>What the journal entry allows its destination to hold.\<close>

definition allowed :: "hashing \<Rightarrow> journal_entry \<Rightarrow> pystr option \<Rightarrow> bool" where
  "allowed H e v = (case v of None \<Rightarrow> \<not> je_had e
     | Some c \<Rightarrow> je_had e \<and> matches H c (je_sha e) (je_size e) \<or> matches H c (je_planned_sha e) (je_planned_size e))"

lemma target_state_allowed:
  "guards (\<lambda>s. s = s0) (target_state H e p) (\<lambda>_ s. allowed H e (files s0 p) \<and> s = s0) (\<lambda>s. s = s0)"
  unfolding target_state_def
proof (rule guards_and_then[where Q = "\<lambda>v s. v = files s0 p \<and> s = s0"], rule guards_inspect, simp, rule guards_assume)
  fix v assume v: "v = files s0 p"
  let ?e = "ValueError ''restore journal has unexpected post-interruption state''"
  show "guards (\<lambda>s. s = s0) (case v of None \<Rightarrow> if je_had e then raise ?e else ret ()
     | Some c \<Rightarrow> and_then (touch ?e) (\<lambda>_.
         if \<not> (je_had e \<and> matches H c (je_sha e) (je_size e)) \<and> \<not> matches H c (je_planned_sha e) (je_planned_size e) then raise ?e else ret ()))
      (\<lambda>_ s. allowed H e (files s0 p) \<and> s = s0) (\<lambda>s. s = s0)"
  proof (cases v)
    case None
    then show ?thesis using v by (auto simp: allowed_def intro!: guard_rules)
  next
    case (Some c)
    have t: "guards (\<lambda>s. s = s0) (touch ?e) (\<lambda>_ s. s = s0) (\<lambda>s. s = s0)" by (rule guards_touch)
    have now: "files s0 p = Some c" using v Some by simp
    show ?thesis unfolding Some option.case now
      by (rule guards_and_then[OF t], rule guards_if) (auto simp: allowed_def intro!: guard_rules)
  qed
qed

definition target_allowed :: "hashing \<Rightarrow> manager \<Rightarrow> journal \<Rightarrow> store \<Rightarrow> pystr \<times> pystr option \<Rightarrow> bool" where
  "target_allowed H mg j s x \<longleftrightarrow> (\<exists>e \<in> set (jn_entries j). fst x = destination_of mg (je_path e) \<and> allowed H e (files s (fst x)))"

lemma recovery_target_allowed:
  assumes "e \<in> set (jn_entries j)"
  shows "guards (\<lambda>s. s = s0) (recovery_target H mg t (i, e)) (\<lambda>x s. target_allowed H mg j s0 x \<and> s = s0) (\<lambda>s. s = s0)"
proof -
  let ?p = "destination_of mg (je_path e)"
  have fin: "guards (\<lambda>s. s = s0) (and_then (target_state H e ?p) (\<lambda>_. ret (?p, v))) (\<lambda>x s. target_allowed H mg j s0 x \<and> s = s0) (\<lambda>s. s = s0)" for v :: "pystr option"
    by (rule guards_and_then[OF target_state_allowed], rule guards_ret) (use assms in \<open>auto simp: target_allowed_def\<close>)
  show ?thesis
    unfolding recovery_target_def prod.case Let_def
    by (rule guards_if, rule fin, rule guards_and_then[OF quietD[OF quiet_read_snapshot]], rule fin)
qed

lemma recovery_targets_allowed:
  "guards (\<lambda>s. s = s0) (recovery_targets H mg j) (\<lambda>ts s. (\<forall>x \<in> set ts. target_allowed H mg j s0 x) \<and> s = s0) (\<lambda>s. s = s0)"
  unfolding recovery_targets_def
proof (rule guards_collect_all)
  fix ie assume ie: "ie \<in> set (enumerate 0 (jn_entries j))"
  obtain i e where x: "ie = (i, e)" by (cases ie)
  show "guards (\<lambda>s. s = s0) (recovery_target H mg (jn_id j) ie) (\<lambda>x s. target_allowed H mg j s0 x \<and> s = s0) (\<lambda>s. s = s0)"
    unfolding x by (rule recovery_target_allowed) (use ie x in \<open>auto dest: enumerate_mem\<close>)
qed

text \<open>Steps that keep a predicate of the managed files.\<close>

definition keeps_files :: "unit bio \<Rightarrow> bool" where
  "keeps_files m \<longleftrightarrow> (\<forall>Q. guards (\<lambda>s. Q (files s)) m (\<lambda>_ s. Q (files s)) (\<lambda>s. Q (files s)))"

lemma keeps_filesD: "keeps_files m \<Longrightarrow> guards (\<lambda>s. Q (files s)) m (\<lambda>_ s. Q (files s)) (\<lambda>s. Q (files s))"
  by (simp add: keeps_files_def)

lemma keeps_files_act: "(\<And>s. files (f s) = files s) \<Longrightarrow> keeps_files (act e f)"
  by (auto simp: keeps_files_def intro: guards_act)

lemma keeps_files_each: "(\<And>x. x \<in> set xs \<Longrightarrow> keeps_files (f x)) \<Longrightarrow> keeps_files (each f xs)"
  unfolding keeps_files_def
proof (rule allI)
  fix Q assume k: "\<And>x. x \<in> set xs \<Longrightarrow> \<forall>Q. guards (\<lambda>s. Q (files s)) (f x) (\<lambda>_ s. Q (files s)) (\<lambda>s. Q (files s))"
  show "guards (\<lambda>s. Q (files s)) (each f xs) (\<lambda>_ s. Q (files s)) (\<lambda>s. Q (files s))"
  proof (rule guards_each[where I = "\<lambda>_ s. Q (files s)"])
    fix x ys zs assume "xs = zs @ x # ys"
    then have "x \<in> set xs" by simp
    then show "guards (\<lambda>s. Q (files s)) (f x) (\<lambda>_ s. Q (files s)) (\<lambda>s. Q (files s))" using k by blast
  qed
qed

lemma keeps_files_quiet_then:
  assumes "quiet (m :: 'a bio)" "\<And>x. keeps_files (f x)"
  shows "keeps_files (and_then m f)"
  unfolding keeps_files_def
proof
  fix Q
  have "guards (\<lambda>s. Q (files s)) m (\<lambda>_ s. Q (files s)) (\<lambda>s. Q (files s))" by (rule quiet_keeps[OF assms(1)])
  then show "guards (\<lambda>s. Q (files s)) (and_then m f) (\<lambda>_ s. Q (files s)) (\<lambda>s. Q (files s))"
    by (rule guards_and_then) (rule keeps_filesD[OF assms(2)])
qed

lemma keeps_files_then: "keeps_files m \<Longrightarrow> (\<And>x. keeps_files (f x)) \<Longrightarrow> keeps_files (and_then m f)"
  unfolding keeps_files_def by (blast intro: guards_and_then)

lemma keeps_files_if: "(b \<Longrightarrow> keeps_files m) \<Longrightarrow> (\<not> b \<Longrightarrow> keeps_files m') \<Longrightarrow> keeps_files (if b then m else m')"
  by simp

lemma keeps_files_basic: "keeps_files (ret ())" "keeps_files (raise e)"
  by (auto simp: keeps_files_def intro: guard_rules)

lemma clear_markers_files: "keeps_files (clear_markers H mg ps t)"
  unfolding clear_markers_def remove_marker_def
  by (intro keeps_files_each keeps_files_quiet_then[OF quiet_read_marker] keeps_files_if keeps_files_basic keeps_files_act) simp

lemma finalize_files: "keeps_files (finalize_journal H mg j clear)"
  unfolding finalize_journal_def
proof (rule keeps_files_quiet_then)
  fix v
  have one: "keeps_files (case x of (i, e) \<Rightarrow> if \<not> je_had e then ret ()
      else act (ValueError ''restore journal cannot be finalized'') (\<lambda>s. s\<lparr>snapshots := (snapshots s)(snapshot_path mg (jn_id j) i := None)\<rparr>))" for x
    by (cases x) (auto intro!: keeps_files_basic keeps_files_act)
  show "keeps_files (if v = None then raise (ValueError journal_invalid)
     else and_then (act (ValueError ''restore journal cannot be finalized'') (\<lambda>s. s\<lparr>journals := (journals s)(mg_journal mg := None)\<rparr>)) (\<lambda>_.
     and_then (each (\<lambda>(i, e). if \<not> je_had e then ret ()
         else act (ValueError ''restore journal cannot be finalized'') (\<lambda>s. s\<lparr>snapshots := (snapshots s)(snapshot_path mg (jn_id j) i := None)\<rparr>))
       (enumerate 0 (jn_entries j))) (\<lambda>_.
     if clear then clear_markers H mg (entry_destinations mg j) (jn_id j) else ret ())))"
    by (intro keeps_files_if keeps_files_then keeps_files_each one clear_markers_files keeps_files_basic keeps_files_act) simp
qed (rule quiet_basic)

lemma recover_journal_files:
  "guards (\<lambda>s. \<forall>p. files s p \<noteq> F p \<longrightarrow> p \<in> fst ` set ts) (recover_journal H mg j ts clear)
    (\<lambda>_ s. \<forall>p. files s p \<noteq> F p \<longrightarrow> p \<in> fst ` set ts) (\<lambda>s. \<forall>p. files s p \<noteq> F p \<longrightarrow> p \<in> fst ` set ts)"
proof -
  let ?Q = "\<lambda>X. \<forall>p. X p \<noteq> F p \<longrightarrow> p \<in> fst ` set ts" and ?P = "\<lambda>s. \<forall>p. files s p \<noteq> F p \<longrightarrow> p \<in> fst ` set ts"
  have old: "p \<in> fst ` set ts" if "(p, c) \<in> set (old_files ts)" for p c using that by (force simp: old_files_def split: option.splits)
  have new: "p \<in> fst ` set ts" if "p \<in> set (new_files ts)" for p using that by (force simp: new_files_def)
  have put: "guards ?P (each (\<lambda>(p, c). replace_file p c) (old_files ts)) (\<lambda>_. ?P) ?P"
  proof (rule guards_each[where I = "\<lambda>_. ?P"])
    fix x ys zs assume "old_files ts = zs @ x # ys"
    then have m: "x \<in> set (old_files ts)" by simp
    obtain p c where x: "x = (p, c)" by (cases x)
    have "p \<in> fst ` set ts" using old m x by simp
    then show "guards ?P (case x of (p, c) \<Rightarrow> replace_file p c) (\<lambda>_. ?P) ?P"
      unfolding x prod.case replace_file_def by (intro guards_act) auto
  qed
  have drop: "guards ?P (each unlink_file (new_files ts)) (\<lambda>_. ?P) ?P"
  proof (rule guards_each[where I = "\<lambda>_. ?P"])
    fix x ys zs assume "new_files ts = zs @ x # ys"
    then have "x \<in> fst ` set ts" using new[of x] by simp
    then show "guards ?P (unlink_file x) (\<lambda>_. ?P) ?P" unfolding unlink_file_def by (intro guards_act) auto
  qed
  have stage: "guards ?P (each (\<lambda>_. stage_file) (old_files ts)) (\<lambda>_. ?P) ?P"
    using keeps_filesD[of "each (\<lambda>_. stage_file) (old_files ts)" ?Q] by (simp add: keeps_files_each keeps_files_act stage_file_def touch_def)
  have verify: "guards ?P (each (verify_target H) ts) (\<lambda>_. ?P) ?P"
    by (rule guards_each[where I = "\<lambda>_. ?P"]) (rule verify_target_guards)
  show ?thesis unfolding recover_journal_def
    by (rule guards_and_then[OF stage], rule guards_and_then[OF put], rule guards_and_then[OF drop], rule guards_and_then[OF verify],
        rule keeps_filesD[OF finalize_files, of ?Q])
qed

text \<open>What a recovery may have changed, compared with the store \<open>s0\<close> that it started from.\<close>

definition changed_as_journalled :: "hashing \<Rightarrow> manager \<Rightarrow> store \<Rightarrow> store \<Rightarrow> bool" where
  "changed_as_journalled H mg s0 s \<longleftrightarrow> (\<forall>p. files s p \<noteq> files s0 p \<longrightarrow> (\<exists>v j e. journals s0 (mg_journal mg) = Some v
     \<and> checked_journal H mg v = Inr j \<and> e \<in> set (jn_entries j) \<and> je_destination e = Some p \<and> allowed H e (files s0 p)))"

lemma checked_destinations: "checked_journal H mg v = Inr j \<Longrightarrow> e \<in> set (jn_entries j) \<Longrightarrow> je_destination e = Some (destination_of mg (je_path e))"
  by (auto simp: checked_journal_def bindR_Inr_iff split: if_splits)

lemma recover_changes: "guards (\<lambda>s. s = s0) (recover_pending H mg) (\<lambda>_. changed_as_journalled H mg s0) (changed_as_journalled H mg s0)"
proof -
  let ?C = "changed_as_journalled H mg s0"
  have C0: "?C s0" by (simp add: changed_as_journalled_def)
  have quiet: "guards (\<lambda>s. s = s0) m (\<lambda>_ s. s = s0) ?C" if "quiet m" for m :: "'x bio"
    by (rule guards_weaken[OF quietD[OF that]]) (use C0 in auto)
  have journal: "guards (\<lambda>s. s = s0) (read_journal H mg)
      (\<lambda>r s. (\<forall>j. r = Some j \<longrightarrow> (\<exists>v. journals s0 (mg_journal mg) = Some v \<and> checked_journal H mg v = Inr j)) \<and> s = s0) ?C"
  proof -
    have load: "guards (\<lambda>s. s = s0) (and_then (touch e) (\<lambda>_. and_then (of_result (checked_journal H mg v)) (\<lambda>j. ret (Some j))))
        (\<lambda>r s. (\<forall>j. r = Some j \<longrightarrow> (\<exists>v. journals s0 (mg_journal mg) = Some v \<and> checked_journal H mg v = Inr j)) \<and> s = s0) ?C"
      if "journals s0 (mg_journal mg) = Some v" for v e
      by (rule guards_and_then[OF quiet[OF quiet_basic(4)]], rule guards_and_then[where Q = "\<lambda>j s. checked_journal H mg v = Inr j \<and> s = s0"])
        (use that C0 in \<open>auto intro!: guard_rules\<close>)
    have see: "guards (\<lambda>s. s = s0) (inspect (\<lambda>s. journals s (mg_journal mg))) (\<lambda>v s. v = journals s0 (mg_journal mg) \<and> s = s0) ?C"
      by (rule guards_inspect) simp
    show ?thesis unfolding read_journal_def
    proof (rule guards_and_then[OF see], rule guards_assume)
      fix v assume v: "v = journals s0 (mg_journal mg)"
      show "guards (\<lambda>s. s = s0) (case v of None \<Rightarrow> ret None | Some v \<Rightarrow> and_then (touch (ValueError ''restore journal cannot be read''))
          (\<lambda>_. and_then (of_result (checked_journal H mg v)) (\<lambda>j. ret (Some j))))
        (\<lambda>r s. (\<forall>j. r = Some j \<longrightarrow> (\<exists>v. journals s0 (mg_journal mg) = Some v \<and> checked_journal H mg v = Inr j)) \<and> s = s0) ?C"
      proof (cases v)
        case (Some u)
        then have "journals s0 (mg_journal mg) = Some u" using v by simp
        then show ?thesis unfolding Some option.case by (rule load)
      qed (auto intro: guards_ret)
    qed
  qed
  have body: "guards (\<lambda>s. s = s0) (and_then (of_result (markers_match mg ms j)) (\<lambda>_.
      and_then (recovery_targets H mg j) (\<lambda>ts. recover_journal H mg j ts clear))) (\<lambda>_. ?C) ?C"
    if j: "journals s0 (mg_journal mg) = Some v" "checked_journal H mg v = Inr j" for ms j v clear
  proof -
    have targets: "guards (\<lambda>s. s = s0) (recovery_targets H mg j) (\<lambda>ts s. (\<forall>x \<in> set ts. target_allowed H mg j s0 x) \<and> s = s0) ?C"
      by (rule guards_weaken[OF recovery_targets_allowed]) (use C0 in auto)
    have fin: "?C s" if ts: "\<forall>x \<in> set ts. target_allowed H mg j s0 x" and s: "\<forall>p. files s p \<noteq> files s0 p \<longrightarrow> p \<in> fst ` set ts" for ts s
      unfolding changed_as_journalled_def
    proof (intro allI impI)
      fix p assume "files s p \<noteq> files s0 p"
      then obtain x where x: "x \<in> set ts" "fst x = p" using s by blast
      then obtain e where e: "e \<in> set (jn_entries j)" "p = destination_of mg (je_path e)" "allowed H e (files s0 p)"
        using ts by (auto simp: target_allowed_def)
      then show "\<exists>v j e. journals s0 (mg_journal mg) = Some v \<and> checked_journal H mg v = Inr j \<and> e \<in> set (jn_entries j) \<and> je_destination e = Some p
          \<and> allowed H e (files s0 p)"
        using j checked_destinations[OF j(2) e(1)] by blast
    qed
    have recover: "guards (\<lambda>s. s = s0) (recover_journal H mg j ts clear) (\<lambda>_. ?C) ?C" if "\<forall>x \<in> set ts. target_allowed H mg j s0 x" for ts
      by (rule guards_weaken[OF recover_journal_files[of "files s0" ts]]) (use fin[OF that] in auto)
    show ?thesis
      by (rule guards_and_then[OF quiet[OF quiet_basic(3)]], rule guards_and_then[OF targets], rule guards_assume, rule recover)
  qed
  have found: "guards (\<lambda>s. (\<forall>j. r = Some j \<longrightarrow> (\<exists>v. journals s0 (mg_journal mg) = Some v \<and> checked_journal H mg v = Inr j)) \<and> s = s0)
      (recover_found H mg ms t r) (\<lambda>_. ?C) ?C" for ms t r
  proof (rule guards_assume)
    assume r: "\<forall>j. r = Some j \<longrightarrow> (\<exists>v. journals s0 (mg_journal mg) = Some v \<and> checked_journal H mg v = Inr j)"
    show "guards (\<lambda>s. s = s0) (recover_found H mg ms t r) (\<lambda>_. ?C) ?C"
    proof (cases r)
      case None
      have "guards (\<lambda>s. files s = files s0) (clear_markers H mg ps u) (\<lambda>_ s. files s = files s0) (\<lambda>s. files s = files s0)" for ps u
        by (rule keeps_filesD[OF clear_markers_files, of "\<lambda>X. X = files s0"])
      then have "guards (\<lambda>s. s = s0) (clear_markers H mg ps u) (\<lambda>_. ?C) ?C" for ps u
        by (rule guards_weaken) (auto simp: changed_as_journalled_def)
      then show ?thesis using None C0 by (auto simp: recover_found_def split: option.split intro!: guards_ret)
    next
      case (Some j)
      then obtain v where "journals s0 (mg_journal mg) = Some v" "checked_journal H mg v = Inr j" using r by blast
      then show ?thesis unfolding Some recover_found_def option.case by (intro guards_on_error[OF body] guards_raise)
    qed
  qed
  show ?thesis unfolding recover_pending_def
    by (rule guards_and_then[OF quiet[OF quiet_read_markers]], rule guards_and_then[OF quiet[OF quiet_basic(3)]], rule guards_and_then[OF journal], rule found)
qed

text \<open>C32: Whatever is on the disk and however the recovery ends, a file that it changed is named by a journal that passed every check,
  and held just before what the journal records as its content before the restore or as the content of the restore: a file that
  somebody else has written since is never overwritten.\<close>

theorem recovery_spares_foreign_changes:
  assumes "recover_pending H mg s fs = (r, s', fs')" "files s' p \<noteq> files s p"
  shows "\<exists>v j e. journals s (mg_journal mg) = Some v \<and> checked_journal H mg v = Inr j \<and> e \<in> set (jn_entries j) \<and> je_destination e = Some p
    \<and> allowed H e (files s p)"
proof -
  have "changed_as_journalled H mg s s'" using guardsD[OF recover_changes refl] assms(1) by (cases r) blast+
  then show ?thesis using assms(2) unfolding changed_as_journalled_def by blast
qed


section \<open>Backup and restore\<close>

lemma py_split_prefix: "c \<notin> set w \<Longrightarrow> py_split c (w @ c # l) = w # py_split c l"
  by (induction w) auto

lemma find_member: "find P xs = Some k \<Longrightarrow> k \<in> set xs \<and> P k"
  by (induction xs) (auto split: if_splits)

lemma zip_read_member:
  assumes "distinct (map zm_name z)" "m \<in> set z"
  shows "zip_read z (zm_name m) = Some m"
proof -
  obtain k where k: "find (\<lambda>x. zm_name x = zm_name m) (rev z) = Some k"
    using assms(2) by (cases "find (\<lambda>x. zm_name x = zm_name m) (rev z)") (auto simp: find_None_iff)
  have "k \<in> set (rev z) \<and> zm_name k = zm_name m" by (rule find_member[OF k])
  then have "k \<in> set z" "zm_name k = zm_name m" by simp_all
  then have "k = m" using assms by (metis distinct_map inj_onD)
  then show ?thesis using k by (simp add: zip_read_def)
qed

definition file_ok :: "backup_file \<Rightarrow> bool" where
  "file_ok f \<longleftrightarrow> logical_ok (bf_path f) \<and> is_sha256 (bf_sha f) \<and> 0 \<le> bf_size f"

lemma files_roundtrip:
  "\<forall>f \<in> set fs. file_ok f \<Longrightarrow> distinct (map bf_path fs) \<Longrightarrow> set (map bf_path fs) \<inter> seen = {} \<Longrightarrow> files_from_json seen (map file_json fs) = Inr fs"
proof (induction fs arbitrary: seen)
  case (Cons f fs)
  have "file_from_json seen (file_json f) = Inr f"
    using Cons.prems by (auto simp: file_from_json_def file_json_def keys_are_def logical_path_def sha_field_def size_field_def or_invalid_def file_ok_def)
  moreover have "files_from_json (insert (bf_path f) seen) (map file_json fs) = Inr fs" by (rule Cons.IH) (use Cons.prems in auto)
  ultimately show ?case by simp
qed simp

lemma manifest_roundtrip:
  assumes "\<forall>f \<in> set (bm_files m). file_ok f" "distinct (map bf_path (bm_files m))" "bm_version m = JInt 1" "py_strip (bm_id m) \<noteq> []" "py_strip (bm_created m) \<noteq> []"
  shows "manifest_from_json (manifest_json m) = Inr m"
proof -
  have "files_from_json {} (map file_json (bm_files m)) = Inr (bm_files m)" by (rule files_roundtrip) (use assms in auto)
  then show ?thesis using assms(3-5)
    by (simp add: manifest_from_json_def manifest_json_def keys_are_def is_format_def filled_field_def or_invalid_def)
qed

text \<open>What a backup holds of the files \<open>F\<close>.\<close>

definition backup_contents :: "manager \<Rightarrow> (pystr \<Rightarrow> pystr option) \<Rightarrow> (pystr \<times> pystr) list" where
  "backup_contents mg F = concat (map (\<lambda>(l, p). case F p of None \<Rightarrow> [] | Some c \<Rightarrow> [(l, c)]) (sort_key fst (mg_files mg)))"

definition backup_record :: "hashing \<Rightarrow> pystr \<times> pystr \<Rightarrow> backup_file" where
  "backup_record H x = \<lparr>bf_path = fst x, bf_sha = sha H (snd x), bf_size = size_of (snd x)\<rparr>"

lemma backup_contents_mem:
  "(l, c) \<in> set (backup_contents mg F) \<longleftrightarrow> (\<exists>p. (l, p) \<in> set (mg_files mg) \<and> F p = Some c)"
  by (force simp: backup_contents_def split: option.splits)

lemma backup_contents_distinct:
  assumes "distinct (map fst (mg_files mg))"
  shows "distinct (map fst (backup_contents mg F))"
proof -
  have "distinct (map fst xs) \<Longrightarrow> distinct (map fst (concat (map (\<lambda>(l, p). case F p of None \<Rightarrow> [] | Some c \<Rightarrow> [(l, c)]) xs)))" for xs :: "(pystr \<times> pystr) list"
  proof (induction xs)
    case (Cons x xs)
    have "fst ` set (concat (map (\<lambda>(l, p). case F p of None \<Rightarrow> [] | Some c \<Rightarrow> [(l, c)]) xs)) \<subseteq> fst ` set xs" by (force split: option.splits)
    moreover have "fst x \<notin> fst ` set xs" using Cons.prems by simp
    ultimately have new: "fst x \<notin> fst ` set (concat (map (\<lambda>(l, p). case F p of None \<Rightarrow> [] | Some c \<Rightarrow> [(l, c)]) xs))" by (rule contra_subsetD)
    obtain l p where x: "x = (l, p)" by (cases x)
    have "distinct (map fst (concat (map (\<lambda>(l, p). case F p of None \<Rightarrow> [] | Some c \<Rightarrow> [(l, c)]) xs)))" using Cons by simp
    then show ?case using new unfolding x by (cases "F p") simp_all
  qed simp
  moreover have "distinct (map fst (sort_key fst (mg_files mg)))"
    using assms by (metis distinct_map distinct_sort inj_on_cong set_sort)
  ultimately show ?thesis by (simp add: backup_contents_def)
qed

lemma created_archive_valid:
  assumes "well_set H mg" "groups_complete mg (map fst (backup_contents mg F)) = Inr ()" "py_strip bid \<noteq> []" "py_strip now \<noteq> []"
  defines "m \<equiv> \<lparr>bm_version = JInt 1, bm_id = bid, bm_created = now, bm_files = map (backup_record H) (backup_contents mg F)\<rparr>"
  shows "validated_archive H mg (archive_of H m (map snd (backup_contents mg F))) = Inr (m, backup_contents mg F)"
proof -
  let ?cs = "backup_contents mg F" and ?z = "archive_of H m (map snd (backup_contents mg F))"
  have ok: "\<forall>(l, p) \<in> set (mg_files mg). logical_ok l" "distinct (map fst (mg_files mg))" "\<forall>b. is_sha256 (sha H b)"
    using assms(1) by (auto simp: well_set_def)
  have logical: "logical_ok l" if mem: "(l, c) \<in> set ?cs" for l c using mem ok(1) by (auto simp: backup_contents_mem)
  have distinct: "distinct (map fst ?cs)" by (rule backup_contents_distinct[OF ok(2)])
  have z: "?z = \<lparr>zm_name = manifest_name, zm_bytes = canonical H (manifest_json m), zm_json = manifest_json m\<rparr>
      # map (\<lambda>x. \<lparr>zm_name = managed_prefix @ fst x, zm_bytes = snd x, zm_json = JNull\<rparr>) ?cs"
    unfolding archive_of_def by (simp add: m_def zip_map_map split_def backup_record_def zip_same_conv_map comp_def)
  have names: "map zm_name ?z = manifest_name # map (\<lambda>x. managed_prefix @ fst x) ?cs" unfolding z by (simp add: comp_def)
  have member: "zip_member_ok (managed_prefix @ l)" if "logical_ok l" for l
  proof -
    have p: "managed_prefix @ l = py ''managed'' @ 47 # l" by (simp add: managed_prefix_def py_def)
    have "py_split 47 (managed_prefix @ l) = py ''managed'' # py_split 47 l" unfolding p by (rule py_split_prefix) (simp add: py_def)
    then show ?thesis using that by (auto simp: zip_member_ok_def logical_ok_def managed_prefix_def py_def)
  qed
  have safe: "list_all zip_member_ok (map zm_name ?z)"
    unfolding names using member logical
    by (auto simp: list_all_iff) (simp add: zip_member_ok_def manifest_name_def py_def)
  have dz: "distinct (map zm_name ?z)"
  proof -
    have "manifest_name \<noteq> managed_prefix @ l" for l by (simp add: manifest_name_def managed_prefix_def py_def)
    moreover have "distinct (map (\<lambda>x. managed_prefix @ fst x) ?cs)" using distinct by (simp add: distinct_map inj_on_def)
    ultimately show ?thesis unfolding names by auto
  qed
  have first: "zip_read ?z manifest_name = Some (hd ?z)" using zip_read_member[OF dz, of "hd ?z"] by (simp add: z)
  have manifest: "manifest_from_json (manifest_json m) = Inr m"
    by (rule manifest_roundtrip) (use assms(3,4) logical distinct ok(3) in \<open>auto simp: m_def file_ok_def backup_record_def size_of_def comp_def\<close>)
  have one: "member_content H mg ?z (backup_record H x) = Inr x" if x: "x \<in> set ?cs" for x
  proof -
    let ?k = "\<lparr>zm_name = managed_prefix @ fst x, zm_bytes = snd x, zm_json = JNull\<rparr>"
    have "?k \<in> set ?z" unfolding z using x by auto
    then have "zip_read ?z (managed_prefix @ fst x) = Some ?k" using zip_read_member[OF dz] by fastforce
    moreover have "fst x \<in> set (map fst (mg_files mg))" 
    proof -
      obtain p where "(fst x, p) \<in> set (mg_files mg)" using x backup_contents_mem[of "fst x" "snd x" mg F] by auto
      then have "fst (fst x, p) \<in> fst ` set (mg_files mg)" by (rule imageI)
      then show ?thesis by simp
    qed
    ultimately show ?thesis by (simp only: member_content_def backup_record_def) simp
  qed
  have all: "mapR (member_content H mg ?z) (map (backup_record H) xs) = Inr xs" if "set xs \<subseteq> set ?cs" for xs
    using that by (induction xs) (auto simp: one)
  have "archive_contents H mg ?z m = Inr (m, ?cs)"
  proof -
    have "set (map zm_name ?z) = insert manifest_name (set (map (\<lambda>f. managed_prefix @ bf_path f) (bm_files m)))"
      unfolding names by (simp add: m_def backup_record_def comp_def)
    moreover have "bm_files m = map (backup_record H) ?cs" by (simp add: m_def)
    ultimately show ?thesis unfolding archive_contents_def using all[OF subset_refl] assms(2) by simp
  qed
  then show ?thesis unfolding validated_archive_def using safe dz first manifest by (simp add: z)
qed


text \<open>What a backup leaves: an archive of the managed files as they are.\<close>

definition backed_up :: "hashing \<Rightarrow> manager \<Rightarrow> pystr \<Rightarrow> pystr \<Rightarrow> pystr \<Rightarrow> manifest \<Rightarrow> store \<Rightarrow> bool" where
  "backed_up H mg path bid now m s \<longleftrightarrow>
     m = \<lparr>bm_version = JInt 1, bm_id = bid, bm_created = now, bm_files = map (backup_record H) (backup_contents mg (files s))\<rparr>
     \<and> groups_complete mg (map fst (backup_contents mg (files s))) = Inr ()
     \<and> archives s path = Some (archive_of H m (map snd (backup_contents mg (files s))))"

definition found_file :: "hashing \<Rightarrow> (pystr \<Rightarrow> pystr option) \<Rightarrow> pystr \<times> pystr \<Rightarrow> (backup_file \<times> pystr) option" where
  "found_file H F lp = (case F (snd lp) of None \<Rightarrow> None | Some c \<Rightarrow> Some (backup_record H (fst lp, c), c))"

lemma read_managed_guards: "guards (\<lambda>x. x = s) (read_managed H lp) (\<lambda>v x. v = found_file H (files s) lp \<and> x = s) (\<lambda>_. True)"
proof -
  obtain l p where lp: "lp = (l, p)" by (cases lp)
  have see: "guards (\<lambda>x. x = s) (inspect (\<lambda>s. files s p)) (\<lambda>v x. v = files s p \<and> x = s) (\<lambda>_. True)" by (rule guards_inspect) simp
  have t: "guards (\<lambda>x. x = s) (touch e) (\<lambda>_ x. x = s) (\<lambda>_. True)" for e by (rule guards_touch) auto
  show ?thesis unfolding read_managed_def lp prod.case
    by (rule guards_and_then[OF see], rule guards_assume)
      (auto simp: found_file_def backup_record_def split: option.split intro!: guards_and_then[OF t] guard_rules)
qed

lemma found_contents:
  "concat (map (\<lambda>v. case v of None \<Rightarrow> [] | Some x \<Rightarrow> [x]) (map (found_file H F) xs))
    = map (\<lambda>x. (backup_record H x, snd x)) (concat (map (\<lambda>(l, p). case F p of None \<Rightarrow> [] | Some c \<Rightarrow> [(l, c)]) xs))"
  by (induction xs) (auto simp: found_file_def split: option.split)

lemma create_backup_guards: "guards (\<lambda>_. True) (create_backup H mg path bid now) (backed_up H mg path bid now) (\<lambda>_. True)"
proof -
  have body: "guards (\<lambda>x. x = s) (and_then (collect (read_managed H) (sort_key fst (mg_files mg))) (\<lambda>vs.
     let found = concat (map (\<lambda>v. case v of None \<Rightarrow> [] | Some x \<Rightarrow> [x]) vs) in
     and_then (of_result (groups_complete mg (map (bf_path \<circ> fst) found))) (\<lambda>_.
     let m = \<lparr>bm_version = JInt 1, bm_id = bid, bm_created = now, bm_files = map fst found\<rparr> in
     and_then (act OSError (\<lambda>s. s\<lparr>archives := (archives s)(path \<mapsto> archive_of H m (map snd found))\<rparr>)) (\<lambda>_. ret m))))
     (backed_up H mg path bid now) (\<lambda>_. True)" for s :: store
  proof -
    let ?cs = "backup_contents mg (files s)"
    let ?m = "\<lparr>bm_version = JInt 1, bm_id = bid, bm_created = now, bm_files = map (backup_record H) ?cs\<rparr>"
    have all: "guards (\<lambda>x. x = s) (collect (read_managed H) xs) (\<lambda>vs x. vs = map (found_file H (files s)) xs \<and> x = s) (\<lambda>_. True)" for xs
      by (rule guards_collect[where I = "\<lambda>_ x. x = s"]) (rule read_managed_guards)
    have found: "concat (map (\<lambda>v. case v of None \<Rightarrow> [] | Some x \<Rightarrow> [x]) (map (found_file H (files s)) (sort_key fst (mg_files mg))))
        = map (\<lambda>x. (backup_record H x, snd x)) ?cs" unfolding found_contents backup_contents_def ..
    have groups: "guards (\<lambda>x. x = s) (of_result (groups_complete mg (map fst ?cs)))
        (\<lambda>_ x. groups_complete mg (map fst ?cs) = Inr () \<and> x = s) (\<lambda>_. True)" by (rule guards_of_result) auto
    have store: "guards (\<lambda>x. x = s) (act OSError (\<lambda>s. s\<lparr>archives := (archives s)(path \<mapsto> archive_of H ?m (map snd ?cs))\<rparr>))
        (\<lambda>_ x. files x = files s \<and> archives x path = Some (archive_of H ?m (map snd ?cs))) (\<lambda>_. True)" by (rule guards_act) auto
    have fin: "guards (\<lambda>x. groups_complete mg (map fst ?cs) = Inr () \<and> x = s)
        (and_then (act OSError (\<lambda>s. s\<lparr>archives := (archives s)(path \<mapsto> archive_of H ?m (map snd ?cs))\<rparr>)) (\<lambda>_. ret ?m))
        (backed_up H mg path bid now) (\<lambda>_. True)"
      by (rule guards_assume, rule guards_and_then[OF store], rule guards_ret) (simp add: backed_up_def)
    have names: "map (bf_path \<circ> fst) (map (\<lambda>x. (backup_record H x, snd x)) ?cs) = map fst ?cs"
      "map fst (map (\<lambda>x. (backup_record H x, snd x)) ?cs) = map (backup_record H) ?cs"
      "map snd (map (\<lambda>x. (backup_record H x, snd x)) ?cs) = map snd ?cs" by (simp_all add: backup_record_def comp_def)
    show ?thesis
      by (rule guards_and_then[OF all], rule guards_assume) (simp only: found names Let_def, rule guards_and_then[OF groups fin])
  qed
  have start: "guards (\<lambda>_. True) (recover_pending H mg) (\<lambda>_ x. \<exists>s. x = s) (\<lambda>_. True)" by (rule guards_weaken[OF guards_any]) auto
  show ?thesis unfolding create_backup_def by (rule guards_and_then[OF start], rule guards_ex, rule body)
qed

text \<open>C34: What was backed up is restored: when a backup and, later, a restore of its archive both return, every managed file that was
  there at the backup has the content of that time, and every other one is as it was before the restore.\<close>

theorem backup_restores:
  assumes "well_set H mg" "is_transaction_id t" "py_strip bid \<noteq> []" "py_strip now \<noteq> []"
    and "create_backup H mg path bid now s fs = (Returns m, s1, fs1)"
    and "archives s2 path = archives s1 path" "unmarked mg s2"
    and "restore_archive H mg path token t aid rt s2 gs = (Returns x, s3, gs1)"
    and "(l, p) \<in> set (mg_files mg)"
  shows "files s3 p = (case files s1 p of None \<Rightarrow> files s2 p | Some c \<Rightarrow> Some c)"
proof -
  let ?cs = "backup_contents mg (files s1)"
  have b: "backed_up H mg path bid now m s1" by (rule guardsD(1)[OF create_backup_guards TrueI assms(5)])
  then have z: "archives s2 path = Some (archive_of H m (map snd ?cs))" using assms(6) by (simp add: backed_up_def)
  have v: "validated_archive H mg (archive_of H m (map snd ?cs)) = Inr (m, ?cs)"
    using created_archive_valid[OF assms(1) _ assms(3,4)] b by (simp add: backed_up_def)
  have tr: "transaction H mg t (planned mg ?cs)" by (rule validated_transaction[OF assms(1,2) v])
  have restored: "files s3 = restored (files s2) (planned mg ?cs)"
    using restore_pending(2)[OF assms(1,2,7) z v assms(8) refl] by simp
  have dest: "destination_of mg l = p" by (rule destination_of_managed[OF assms(1,9)])
  show ?thesis
  proof (cases "files s1 p")
    case (Some c)
    then have "(l, c) \<in> set ?cs" using assms(9) by (auto simp: backup_contents_mem)
    then have "(l, p, c) \<in> set (planned mg ?cs)" using dest by (force simp: planned_def)
    then show ?thesis using restored_planned[OF tr] Some by (simp add: restored)
  next
    case None
    have "p \<notin> set (plan_dests (planned mg ?cs))"
    proof
      assume "p \<in> set (plan_dests (planned mg ?cs))"
      then obtain l' c where lc: "(l', c) \<in> set ?cs" "destination_of mg l' = p" by (auto simp: plan_dests_def planned_def)
      then obtain p' where "(l', p') \<in> set (mg_files mg)" "files s1 p' = Some c" by (auto simp: backup_contents_mem)
      then show False using destination_of_managed[OF assms(1)] lc(2) None by auto
    qed
    then show ?thesis using restored_other None by (simp add: restored)
  qed
qed

lemma create_backup_returns:
  assumes "well_set H mg" "is_transaction_id t" "unmarked mg s" "\<And>u. is_transaction_id u \<Longrightarrow> readable H mg u"
    and "groups_complete mg (map fst (backup_contents mg (files s))) = Inr ()"
  shows "\<exists>m s1. create_backup H mg path bid now s [] = (Returns m, s1, []) \<and> files s1 = files s \<and> unmarked mg s1"
proof -
  let ?xs = "sort_key fst (mg_files mg)" and ?cs = "backup_contents mg (files s)"
  have one: "returns_from (\<lambda>_. True) (read_managed H lp)" for lp
    unfolding read_managed_def by (auto split: prod.split option.split intro!: returns_last return_rules)
  have "returns_from (\<lambda>_. True) (collect (read_managed H) ?xs)" by (rule returns_collect[OF guards_any one])
  then obtain vs s' where v: "collect (read_managed H) ?xs s [] = (Returns vs, s', [])" unfolding returns_from_def by blast
  have "guards (\<lambda>x. x = s) (collect (read_managed H) ?xs) (\<lambda>vs x. vs = map (found_file H (files s)) ?xs \<and> x = s) (\<lambda>_. True)"
    by (rule guards_collect[where I = "\<lambda>_ x. x = s"]) (rule read_managed_guards)
  from guardsD(1)[OF this refl v] have vs: "vs = map (found_file H (files s)) ?xs" "s' = s" by auto
  have found: "concat (map (\<lambda>v. case v of None \<Rightarrow> [] | Some x \<Rightarrow> [x]) vs) = map (\<lambda>x. (backup_record H x, snd x)) ?cs"
    unfolding vs(1) found_contents backup_contents_def ..
  have names: "map (bf_path \<circ> fst) (map (\<lambda>x. (backup_record H x, snd x)) ?cs) = map fst ?cs" by (simp add: backup_record_def comp_def)
  show ?thesis
    using recover_unmarked_returns[OF assms(1-4)] v assms(3,5)
    by (simp add: create_backup_def and_then_def Let_def found names vs(2) ret_def of_result_def unmarked_def del: map_map)
qed

section \<open>What blocks every operation\<close>

text \<open>Steps from the store \<open>s\<close> that never return and change nothing.\<close>

definition blocks :: "store \<Rightarrow> 'a bio \<Rightarrow> bool" where
  "blocks s m \<longleftrightarrow> (\<forall>fs. fst (snd (m s fs)) = s \<and> (\<forall>x. fst (m s fs) \<noteq> Returns x))"

lemma blocksI: "guards (\<lambda>x. x = s) m (\<lambda>_ _. False) (\<lambda>x. x = s) \<Longrightarrow> blocks s m"
  unfolding blocks_def
proof
  fix fs assume g: "guards (\<lambda>x. x = s) m (\<lambda>_ _. False) (\<lambda>x. x = s)"
  obtain r s' fs' where m: "m s fs = (r, s', fs')" by (rule prod_cases3)
  show "fst (snd (m s fs)) = s \<and> (\<forall>x. fst (m s fs) \<noteq> Returns x)"
    using guardsD[OF g refl] m by (cases r) auto
qed

lemma guards_blocked: "guards P m (\<lambda>_ _. False) C \<Longrightarrow> guards P (and_then m f) Q C"
  by (erule guards_and_then) (simp add: guards_def)

lemma blocked_operations:
  assumes "guards (\<lambda>x. x = s) (recover_pending H mg) (\<lambda>_ _. False) (\<lambda>x. x = s)"
  shows "blocks s (recover_pending H mg)" "blocks s (create_backup H mg path bid now)" "blocks s (preflight_restore H mg path token)"
    "blocks s (restore_archive H mg path token t aid rt)"
  using assms by (auto intro!: blocksI guards_blocked simp: create_backup_def preflight_restore_def restore_archive_def)

definition marker_at :: "store \<Rightarrow> pystr \<Rightarrow> marker option" where
  "marker_at s p = (case markers s p of None \<Rightarrow> None | Some v \<Rightarrow> (case marker_from_json v of Inl _ \<Rightarrow> None | Inr m \<Rightarrow> Some m))"

lemma read_marker_at: "guards (\<lambda>x. x = s) (read_marker H p) (\<lambda>v x. v = marker_at s p \<and> x = s) (\<lambda>x. x = s)"
proof -
  have see: "guards (\<lambda>x. x = s) (inspect (\<lambda>s. markers s p)) (\<lambda>v x. v = markers s p \<and> x = s) (\<lambda>x. x = s)" by (rule guards_inspect) simp
  have t: "guards (\<lambda>x. x = s) (touch e) (\<lambda>_ x. x = s) (\<lambda>x. x = s)" for e by (rule guards_touch)
  have load: "guards (\<lambda>x. x = s) (and_then (of_result (marker_from_json v)) (\<lambda>m. ret (Some m))) (\<lambda>v x. v = marker_at s p \<and> x = s) (\<lambda>x. x = s)"
    if "markers s p = Some v" for v
    by (cases "marker_from_json v") (auto simp: marker_at_def that intro!: guard_rules)
  show ?thesis unfolding read_marker_def
  proof (rule guards_and_then[OF see], rule guards_assume)
    fix v assume v: "v = markers s p"
    show "guards (\<lambda>x. x = s) (case v of None \<Rightarrow> ret None
     | Some v \<Rightarrow> and_then (touch (ValueError ''pending restore marker cannot be read'')) (\<lambda>_.
         if canonical H v = [] \<or> 4096 < length (canonical H v) then raise (ValueError marker_invalid)
         else and_then (of_result (marker_from_json v)) (\<lambda>m. ret (Some m)))) (\<lambda>v x. v = marker_at s p \<and> x = s) (\<lambda>x. x = s)"
    proof (cases v)
      case None
      then show ?thesis using v by (auto simp: marker_at_def intro!: guard_rules)
    next
      case (Some u)
      then have u: "markers s p = Some u" using v by simp
      show ?thesis unfolding Some option.case
        by (rule guards_and_then[OF t], rule guards_if, rule guards_raise, assumption, rule load[OF u])
    qed
  qed
qed

lemma read_markers_at:
  "guards (\<lambda>x. x = s) (read_markers H mg)
    (\<lambda>ms x. ms = concat (map (\<lambda>p. case marker_at s p of None \<Rightarrow> [] | Some m \<Rightarrow> [(p, m)]) (destinations mg)) \<and> x = s) (\<lambda>x. x = s)"
proof -
  let ?g = "\<lambda>p. (p, marker_at s p)"
  have one: "guards (\<lambda>x. x = s) (and_then (read_marker H p) (\<lambda>v. ret (p, v))) (\<lambda>y x. y = ?g p \<and> x = s) (\<lambda>x. x = s)" for p
    by (rule guards_and_then[OF read_marker_at]) (auto intro: guard_rules)
  have all: "guards (\<lambda>x. x = s) (collect (\<lambda>p. and_then (read_marker H p) (\<lambda>v. ret (p, v))) (destinations mg))
      (\<lambda>ys x. ys = map ?g (destinations mg) \<and> x = s) (\<lambda>x. x = s)"
    by (rule guards_collect[where I = "\<lambda>_ x. x = s"]) (rule one)
  have eq: "concat (map (\<lambda>(p, v). case v of None \<Rightarrow> [] | Some m \<Rightarrow> [(p, m)]) (map ?g ps))
      = concat (map (\<lambda>p. case marker_at s p of None \<Rightarrow> [] | Some m \<Rightarrow> [(p, m)]) ps)" for ps by (simp add: comp_def)
  show ?thesis unfolding read_markers_def
    by (rule guards_and_then[OF all], rule guards_assume, rule guards_ret) (auto simp only: eq)
qed

lemma foreign_owner:
  assumes "(p, m) \<in> set ms" "mk_digest m \<noteq> config_digest H (mg_files mg) \<or> mk_journal m \<noteq> mg_journal mg"
  shows "marker_owner H mg ms = Inl (ValueError ''pending restore is owned by another configuration'')"
proof (cases ms)
  case (Cons x rest)
  obtain q u where x: "x = (q, u)" by (cases x)
  have "\<exists>(p, m) \<in> set ms. mk_digest m \<noteq> config_digest H (mg_files mg) \<or> mk_journal m \<noteq> mg_journal mg" using assms by blast
  then show ?thesis unfolding marker_owner_def Cons x list.case prod.case by (rule if_P)
qed (use assms(1) in simp)

text \<open>C33: While a destination of a manager carries the marker of another configuration's restore, the manager neither recovers nor backs
  up nor restores anything: none of its operations returns, whatever the disk does, and none changes the store.\<close>

theorem foreign_restore_blocks:
  assumes "p \<in> set (destinations mg)" "markers s p = Some v" "marker_from_json v = Inr m"
    and "mk_digest m \<noteq> config_digest H (mg_files mg) \<or> mk_journal m \<noteq> mg_journal mg"
  shows "blocks s (recover_pending H mg) \<and> blocks s (create_backup H mg path bid now) \<and> blocks s (preflight_restore H mg path token)
    \<and> blocks s (restore_archive H mg path token t aid rt)"
proof -
  let ?ms = "concat (map (\<lambda>p. case marker_at s p of None \<Rightarrow> [] | Some m \<Rightarrow> [(p, m)]) (destinations mg))"
  have "(p, m) \<in> set (case marker_at s p of None \<Rightarrow> [] | Some m \<Rightarrow> [(p, m)])" by (simp add: marker_at_def assms(2,3))
  then have "(p, m) \<in> set ?ms" using assms(1) unfolding set_concat set_map by blast
  then have owner: "marker_owner H mg ?ms = Inl (ValueError ''pending restore is owned by another configuration'')"
    by (rule foreign_owner[OF _ assms(4)])
  have "guards (\<lambda>x. x = s) (recover_pending H mg) (\<lambda>_ _. False) (\<lambda>x. x = s)"
    unfolding recover_pending_def
    by (rule guards_and_then[OF read_markers_at], rule guards_assume) (simp add: owner guards_raise)
  from blocked_operations[OF this] show ?thesis by blast
qed

text \<open>The journal is written whatever its size, and refused when it is read with more than 65536 bytes: the transaction of a manager
  of many files that was interrupted can never be recovered, and half of the files may be those of the archive.\<close>

theorem oversize_journal_blocks:
  assumes "journals s (mg_journal mg) = Some v" "65536 < length (canonical H v)"
  shows "blocks s (recover_pending H mg) \<and> blocks s (create_backup H mg path bid now) \<and> blocks s (preflight_restore H mg path token)
    \<and> blocks s (restore_archive H mg path token t aid rt)"
proof -
  have see: "guards (\<lambda>x. x = s) (inspect (\<lambda>s. journals s (mg_journal mg))) (\<lambda>u x. u = Some v \<and> x = s) (\<lambda>x. x = s)"
    by (rule guards_inspect) (use assms(1) in simp)
  have touch: "guards (\<lambda>x. x = s) (touch e) (\<lambda>_ x. x = s) (\<lambda>x. x = s)" for e by (rule guards_touch)
  have refused: "checked_journal H mg v = Inl (ValueError journal_invalid)" using assms(2) by (simp add: checked_journal_def)
  have "guards (\<lambda>x. x = s) (read_journal H mg) (\<lambda>_ _. False) (\<lambda>x. x = s)"
    unfolding read_journal_def
    by (rule guards_and_then[OF see], rule guards_assume) (simp, rule guards_and_then[OF touch], simp add: refused guards_raise)
  then have "guards (\<lambda>x. x = s) (recover_pending H mg) (\<lambda>_ _. False) (\<lambda>x. x = s)"
    unfolding recover_pending_def
    by (intro guards_and_then[OF quietD[OF quiet_read_markers]] guards_and_then[OF quietD[OF quiet_basic(3)]] guards_blocked)
  from blocked_operations[OF this] show ?thesis by blast
qed

section \<open>Examples\<close>

definition example_hashing :: hashing where
  "example_hashing = \<lparr>sha = (\<lambda>b. replicate 63 97 @ [if b = py ''old'' then 98 else 99]), canonical = (\<lambda>_. [1])\<rparr>"

definition example_manager :: manager where
  "example_manager = \<lparr>mg_files = [(py ''a'', py ''/a''), (py ''b'', py ''/b'')], mg_groups = [], mg_audit = py ''/audit'', mg_journal = py ''/j'',
     mg_jname = py ''j''\<rparr>"

definition example_transaction :: pystr where
  "example_transaction = py ''restore-'' @ replicate 32 97"

definition example_manifest :: manifest where
  "example_manifest = \<lparr>bm_version = JInt 1, bm_id = py ''id'', bm_created = py ''now'',
     bm_files = map (\<lambda>l. \<lparr>bf_path = l, bf_sha = sha example_hashing (py ''new''), bf_size = 3\<rparr>) [py ''a'', py ''b'']\<rparr>"

definition example_archive :: archive where
  "example_archive = archive_of example_hashing example_manifest [py ''new'', py ''new'']"

definition example_store :: store where
  "example_store = \<lparr>files = (\<lambda>_. None)(py ''/a'' \<mapsto> py ''old''), markers = (\<lambda>_. None), journals = (\<lambda>_. None), snapshots = (\<lambda>_. None), audits = (\<lambda>_. []),
     archives = (\<lambda>_. None)(py ''/zip'' \<mapsto> example_archive),
     tokens = [(py ''token'', py ''/zip'', manifest_digest example_hashing example_manifest)]\<rparr>"

definition example_contents :: "(pystr \<times> pystr) list" where
  "example_contents = [(py ''a'', py ''new''), (py ''b'', py ''new'')]"

text \<open>A restore of \<open>example_archive\<close> that is killed between the replacement of one file and that of the other.\<close>

definition example_killed :: "(pystr list \<times> pystr) ending \<times> store \<times> fault list" where
  "example_killed = restore_archive example_hashing example_manager (py ''/zip'') (py ''token'') example_transaction (py ''audit'') JNull example_store
     (replicate 10 Works @ [Halts])"

lemma example_parts:
  "well_set example_hashing example_manager" "is_transaction_id example_transaction" "unmarked example_manager example_store"
  "archives example_store (py ''/zip'') = Some example_archive"
  "validated_archive example_hashing example_manager example_archive = Inr (example_manifest, example_contents)"
  "readable example_hashing example_manager u"
proof -
  show "well_set example_hashing example_manager"
    by (simp add: well_set_def example_hashing_def example_manager_def is_sha256_def local_ok_def lower_hex_def) code_simp
  show "is_transaction_id example_transaction" "validated_archive example_hashing example_manager example_archive = Inr (example_manifest, example_contents)"
    by code_simp+
qed (simp_all add: unmarked_def example_store_def readable_def example_hashing_def)


theorem interrupted_restore_recovers_witness:
  "\<exists>s2. recover_pending example_hashing example_manager
      (attempts (recover_pending example_hashing example_manager) [[Works, Fails], [Works, Works, Works, Halts]] (fst (snd example_killed))) [] = (Returns (), s2, [])"
proof -
  obtain r s1 fs' where k: "example_killed = (r, s1, fs')" by (rule prod_cases3)
  show ?thesis unfolding k fst_conv snd_conv
    by (rule interrupted_restore_recovers[OF example_parts(1-5) k[unfolded example_killed_def] example_parts(6)]) (simp_all add: example_hashing_def)
qed

theorem confirmed_restore_completes_witness:
  "\<exists>x s1. restore_archive example_hashing example_manager (py ''/zip'') (py ''token'') example_transaction (py ''audit'') JNull example_store [] = (Returns x, s1, [])
    \<and> unmarked example_manager s1 \<and> (\<forall>(l, c) \<in> set example_contents. files s1 (destination_of example_manager l) = Some c)"
  by (rule confirmed_restore_completes[OF example_parts(1-5) _ example_parts(6)]) (simp add: example_store_def dict_get_map_of)

text \<open>The archive's content is written and the journal is still there.\<close>

definition example_flight :: store where
  "example_flight = example_store
    \<lparr>files := (files example_store)(py ''/a'' \<mapsto> py ''new''),
     markers := (\<lambda>_. Some (marker_json (own_marker example_hashing example_manager example_transaction))),
     journals := (\<lambda>_. Some (journal_json (journal_for example_hashing example_manager example_transaction (files example_store)
       (planned example_manager example_contents)))),
     snapshots := (\<lambda>_. Some (py ''old''))\<rparr>"

theorem recovery_spares_foreign_changes_witness:
  "\<exists>s' v j e. recover_pending example_hashing example_manager example_flight [] = (Returns (), s', []) \<and> files s' (py ''/a'') = Some (py ''old'')
    \<and> journals example_flight (mg_journal example_manager) = Some v \<and> checked_journal example_hashing example_manager v = Inr j
    \<and> e \<in> set (jn_entries j) \<and> je_destination e = Some (py ''/a'') \<and> allowed example_hashing e (Some (py ''new''))"
proof -
  let ?plan = "planned example_manager example_contents"
  have tr: "transaction example_hashing example_manager example_transaction ?plan" by (rule validated_transaction[OF example_parts(1,2,5)])
  have plan: "?plan = [(py ''a'', py ''/a'', py ''new''), (py ''b'', py ''/b'', py ''new'')]" by code_simp
  have dests: "destinations example_manager = [py ''/a'', py ''/b'']" by code_simp
  have flight: "in_flight example_hashing example_manager example_transaction (files example_store) ?plan example_flight"
    unfolding in_flight_def
    by (auto simp: example_flight_def snapshots_hold_def marks_def plan plan_dests_def dests restored_def example_store_def split: if_splits)
  then have "pending example_hashing example_manager example_transaction (files example_store) ?plan example_flight" by (simp add: pending_def)
  then obtain s' where s': "recover_pending example_hashing example_manager example_flight [] = (Returns (), s', [])"
    using recover_pending_returns[OF tr validated_plan(2)[OF example_parts(1,5)] example_parts(6), of "files example_store"]
    by (auto simp: returns_from_def example_hashing_def)
  have old: "files s' (py ''/a'') = Some (py ''old'')"
    using guardsD(1)[OF recover_in_flight[OF tr] flight s'] by (simp add: example_store_def)
  have now: "files example_flight (py ''/a'') = Some (py ''new'')" by (simp add: example_flight_def)
  have "files s' (py ''/a'') \<noteq> files example_flight (py ''/a'')" unfolding old now by code_simp
  from recovery_spares_foreign_changes[OF s' this] show ?thesis using s' old now by auto
qed

definition example_foreign :: store where
  "example_foreign = example_store\<lparr>markers := (\<lambda>_. None)(py ''/a'' \<mapsto>
     marker_json \<lparr>mk_id = example_transaction, mk_digest = replicate 64 97, mk_journal = py ''/other''\<rparr>)\<rparr>"

theorem foreign_restore_blocks_witness:
  "blocks example_foreign (recover_pending example_hashing example_manager)
    \<and> blocks example_foreign (restore_archive example_hashing example_manager (py ''/zip'') (py ''token'') example_transaction (py ''audit'') JNull)"
proof -
  let ?m = "\<lparr>mk_id = example_transaction, mk_digest = replicate 64 97, mk_journal = py ''/other''\<rparr>"
  have "py ''/a'' \<in> set (destinations example_manager)" "marker_from_json (marker_json ?m) = Inr ?m" "mk_journal ?m \<noteq> mg_journal example_manager" by code_simp+
  moreover have "markers example_foreign (py ''/a'') = Some (marker_json ?m)" by (simp add: example_foreign_def)
  ultimately show ?thesis using foreign_restore_blocks by blast
qed

text \<open>A backup of \<open>example_store\<close>, after which every file is lost.\<close>


theorem backup_restores_witness:
  "\<exists>m s1 x s3. create_backup example_hashing example_manager (py ''/zip'') (py ''id'') (py ''now'') example_store [] = (Returns m, s1, [])
    \<and> restore_archive example_hashing example_manager (py ''/zip'') (py ''token'') example_transaction (py ''audit'') JNull
      (s1\<lparr>files := (\<lambda>_. None), tokens := [(py ''token'', py ''/zip'', manifest_digest example_hashing m)]\<rparr>) [] = (Returns x, s3, [])
    \<and> files s3 (py ''/a'') = Some (py ''old'')"
proof -
  have "mg_groups example_manager = []" by (simp add: example_manager_def)
  then obtain m s1 where c: "create_backup example_hashing example_manager (py ''/zip'') (py ''id'') (py ''now'') example_store [] = (Returns m, s1, [])"
    and s1: "files s1 = files example_store" "unmarked example_manager s1"
    using create_backup_returns[OF example_parts(1-3) example_parts(6), of "py ''/zip''" "py ''id''" "py ''now''"] by (auto simp: groups_complete_def)
  let ?s2 = "s1\<lparr>files := (\<lambda>_. None), tokens := [(py ''token'', py ''/zip'', manifest_digest example_hashing m)]\<rparr>"
  have b: "backed_up example_hashing example_manager (py ''/zip'') (py ''id'') (py ''now'') m s1" by (rule guardsD(1)[OF create_backup_guards TrueI c])
  let ?cs = "backup_contents example_manager (files s1)"
  have filled: "py_strip (py ''id'') \<noteq> []" "py_strip (py ''now'') \<noteq> []" by code_simp+
  have v: "validated_archive example_hashing example_manager (archive_of example_hashing m (map snd ?cs)) = Inr (m, ?cs)"
    using created_archive_valid[OF example_parts(1) _ filled] b by (simp add: backed_up_def)
  have z: "archives ?s2 (py ''/zip'') = Some (archive_of example_hashing m (map snd ?cs))" using b by (simp add: backed_up_def)
  have u: "unmarked example_manager ?s2" using s1 by (simp add: unmarked_def)
  have token: "dict_get (tokens ?s2) (py ''token'') = Some (py ''/zip'', manifest_digest example_hashing m)" by (simp add: dict_get_map_of)
  obtain x s3 where r: "restore_archive example_hashing example_manager (py ''/zip'') (py ''token'') example_transaction (py ''audit'') JNull ?s2 [] = (Returns x, s3, [])"
    using restore_returns[OF example_parts(1,2) u z v token example_parts(6)] by blast
  have "(py ''a'', py ''/a'') \<in> set (mg_files example_manager)" by (simp add: example_manager_def)
  moreover have "archives ?s2 (py ''/zip'') = archives s1 (py ''/zip'')" by simp
  ultimately have "files s3 (py ''/a'') = (case files s1 (py ''/a'') of None \<Rightarrow> files ?s2 (py ''/a'') | Some c \<Rightarrow> Some c)"
    using backup_restores[OF example_parts(1,2) filled c _ u r] by blast
  then show ?thesis using c r s1 by (auto simp: example_store_def)
qed

end
