(* ===== verification/Agent_Budget.thy ===== *)
theory Agent_Budget
  imports Eod_Coordinator
begin

text \<open>
  The money of the workbench agent: \<^verbatim>\<open>AgentRuntimeConfig\<close> of \<^verbatim>\<open>workbench/agent_config.py\<close> and the \<^verbatim>\<open>BudgetLedger\<close> of
  \<^verbatim>\<open>workbench/agent_runtime.py\<close>, a checked JSON file of what was reserved and spent in US dollars on each day and in yuan for the
  whole experiment.  Each operation runs under the lock of the file; a write that fails is an argument (\<open>w\<close>) of the operation.
\<close>

section \<open>The configuration\<close>

datatype agent_backend = LOCAL | CLOUD

record agent_settings =
  as_enabled :: bool
  as_backend :: agent_backend
  as_payment :: bool
  as_generation :: bool
  as_daily :: pystr
  as_task :: pystr
  as_trial :: pystr
  as_requests :: int
  as_tool_calls :: int
  as_deadline :: int
  as_context :: int
  as_output :: int

record agent_config =
  ac_enabled :: bool
  ac_backend :: agent_backend
  ac_payment :: bool
  ac_generation :: bool
  ac_daily :: rat
  ac_task :: rat
  ac_trial :: rat
  ac_requests :: int
  ac_tool_calls :: int
  ac_deadline :: int
  ac_context :: int
  ac_output :: int

definition budget_text :: "rat \<Rightarrow> pystr \<Rightarrow> rat result" where
  "budget_text most v = (if 16 < length v then Inl (ValueError ''budget'') else case parse_decimal v of
       Some (Fin q) \<Rightarrow> if q < 0 \<or> most < q then Inl (ValueError ''budget'') else Inr q
     | _ \<Rightarrow> Inl (ValueError ''budget''))"

definition between :: "int \<Rightarrow> int \<Rightarrow> int \<Rightarrow> bool" where
  "between lo hi n \<longleftrightarrow> lo \<le> n \<and> n \<le> hi"

definition limits_ok :: "agent_settings \<Rightarrow> bool" where
  "limits_ok a \<longleftrightarrow> between 1 3 (as_requests a) \<and> between 1 6 (as_tool_calls a) \<and> between 5 90 (as_deadline a)
     \<and> between 4096 32768 (as_context a) \<and> between 128 2048 (as_output a)"

definition authorized_cloud :: "agent_config \<Rightarrow> agent_config result" where
  "authorized_cloud cf =
     (if 1 / 10 < ac_daily cf then Inl (ValueError ''daily budget'')
      else if 2 / 100 < ac_task cf then Inl (ValueError ''task budget'')
      else if ac_enabled cf \<and> ac_backend cf = CLOUD \<and> (\<not> ac_payment cf \<or> ac_daily cf \<le> 0 \<or> ac_task cf \<le> 0) then Inl (ValueError ''cloud is not authorized'')
      else if ac_enabled cf \<and> ac_backend cf = CLOUD \<and> ac_generation cf \<and> ac_trial cf \<le> 0 then Inl (ValueError ''experiment budget'')
      else Inr cf)"

definition make_agent_config :: "agent_settings \<Rightarrow> agent_config result" where
  "make_agent_config a =
     (if \<not> limits_ok a then Inl (ValueError ''limits'')
      else bindR (budget_text 100 (as_daily a)) (\<lambda>d. bindR (budget_text 100 (as_task a)) (\<lambda>t. bindR (budget_text 3 (as_trial a)) (\<lambda>e.
      authorized_cloud \<lparr>ac_enabled = as_enabled a, ac_backend = as_backend a, ac_payment = as_payment a, ac_generation = as_generation a,
        ac_daily = d, ac_task = t, ac_trial = e, ac_requests = as_requests a, ac_tool_calls = as_tool_calls a, ac_deadline = as_deadline a,
        ac_context = as_context a, ac_output = as_output a\<rparr>))))"

section \<open>Prices\<close>

definition token_cost :: "rat \<Rightarrow> rat \<Rightarrow> int \<Rightarrow> int \<Rightarrow> rat" where
  "token_cost inp outp i k = ctx (dadd (dmul (of_int i) inp) (dmul (of_int k) outp) / 1000000)"

definition cost_usd :: "int \<Rightarrow> int \<Rightarrow> rat" where
  "cost_usd i k = token_cost (30 / 100) (120 / 100) i k"

definition cost_cny :: "int \<Rightarrow> int \<Rightarrow> rat" where
  "cost_cny i k = token_cost 2 8 i k"

section \<open>The file\<close>

record trial =
  tr_limit :: rat
  tr_spent :: rat

record budget =
  bd_days :: "(pystr \<times> rat) list"
  bd_trial :: "trial option"

definition budget_invalid :: pyerror where
  "budget_invalid = ValueError ''AGENT_BUDGET_INVALID''"

definition trial_json :: "trial \<Rightarrow> json" where
  "trial_json t = JObj [(''currency'', JStr (py ''CNY'')), (''limit'', JDec (tr_limit t)), (''reserved_and_spent'', JDec (tr_spent t))]"

definition budget_body :: "budget \<Rightarrow> (string \<times> json) list" where
  "budget_body b = [(''schema_version'', JInt 1), (''days'', JDict (map (\<lambda>(d, q). (d, JDec q)) (bd_days b)))]
     @ (case bd_trial b of None \<Rightarrow> [] | Some t \<Rightarrow> [(''experiment'', trial_json t)])"

text \<open>A text that is a finite decimal, not below zero.\<close>

definition budget_amount :: "json \<Rightarrow> rat result" where
  "budget_amount v = (case v of
       JDec q \<Rightarrow> if q < 0 then Inl budget_invalid else Inr q
     | JStr s \<Rightarrow> bindR (bare_decimal (AText s)) (\<lambda>d. case d of Fin q \<Rightarrow> if q < 0 then Inl budget_invalid else Inr q | _ \<Rightarrow> Inl budget_invalid)
     | _ \<Rightarrow> Inl budget_invalid)"

definition is_json_text :: "json \<Rightarrow> bool" where
  "is_json_text v = (case v of JStr _ \<Rightarrow> True | JDec _ \<Rightarrow> True | JDate _ \<Rightarrow> True | JTime _ \<Rightarrow> True | _ \<Rightarrow> False)"

definition day_amount :: "pystr \<times> json \<Rightarrow> (pystr \<times> rat) result" where
  "day_amount x = (case x of (d, v) \<Rightarrow>
     if \<not> is_json_text v then Inl budget_invalid else bindR (iso_date d) (\<lambda>_. bindR (budget_amount v) (\<lambda>q. Inr (d, q))))"

definition trial_from_json :: "json \<Rightarrow> trial result" where
  "trial_from_json v = (case v of
       JObj ob \<Rightarrow>
         if set (map fst ob) \<noteq> {''currency'', ''limit'', ''reserved_and_spent''} \<or> dict_get ob ''currency'' \<noteq> Some (JStr (py ''CNY'')) then Inl budget_invalid
         else bindR (bindR (field ob ''limit'') budget_amount) (\<lambda>l. bindR (bindR (field ob ''reserved_and_spent'') budget_amount) (\<lambda>s.
           if \<not> (0 < l \<and> l \<le> 3) then Inl budget_invalid else Inr \<lparr>tr_limit = l, tr_spent = s\<rparr>))
     | _ \<Rightarrow> Inl budget_invalid)"

definition budget_from_body :: "(string \<times> json) list \<Rightarrow> budget result" where
  "budget_from_body ob =
     (if set (map fst ob) \<notin> {{''schema_version'', ''days''}, {''schema_version'', ''days'', ''experiment''}} \<or> \<not> is_format 1 (dict_get ob ''schema_version'')
      then Inl budget_invalid
      else case dict_get ob ''days'' of
        Some (JDict ds) \<Rightarrow> bindR (mapR day_amount ds) (\<lambda>ds. case dict_get ob ''experiment'' of
            None \<Rightarrow> Inr \<lparr>bd_days = ds, bd_trial = None\<rparr>
          | Some v \<Rightarrow> bindR (trial_from_json v) (\<lambda>t. Inr \<lparr>bd_days = ds, bd_trial = Some t\<rparr>))
      | _ \<Rightarrow> Inl budget_invalid)"

definition read_budget :: "disk \<Rightarrow> budget result" where
  "read_budget s = (case s of Missing \<Rightarrow> Inr \<lparr>bd_days = [], bd_trial = None\<rparr> | Damaged e \<Rightarrow> Inl e | Checked ob \<Rightarrow> budget_from_body ob)"

definition save_budget :: "pyerror option \<Rightarrow> budget \<Rightarrow> disk \<Rightarrow> unit result \<times> disk" where
  "save_budget w b s = (case w of Some e \<Rightarrow> (Inl e, s) | None \<Rightarrow> (Inr (), Checked (budget_body b)))"

section \<open>Reserving and settling\<close>

definition budget_exhausted :: pyerror where
  "budget_exhausted = RuntimeError ''BUDGET_EXHAUSTED''"

definition positive :: "decimal \<Rightarrow> bool" where
  "positive d = (case d of Fin q \<Rightarrow> 0 < q | _ \<Rightarrow> False)"

definition unsigned :: "decimal \<Rightarrow> bool" where
  "unsigned d = (case d of Fin q \<Rightarrow> 0 \<le> q | _ \<Rightarrow> False)"

definition dec_value :: "decimal \<Rightarrow> rat" where
  "dec_value d = (case d of Fin q \<Rightarrow> q | _ \<Rightarrow> 0)"

definition spent_on :: "budget \<Rightarrow> pystr \<Rightarrow> rat" where
  "spent_on b d = (case dict_get (bd_days b) d of None \<Rightarrow> 0 | Some q \<Rightarrow> q)"

text \<open>An experiment that exists is not reset, raised or disabled by another configuration.\<close>

definition reserve_trial :: "agent_config \<Rightarrow> decimal option \<Rightarrow> trial option \<Rightarrow> trial option result" where
  "reserve_trial cf cny t =
     (if \<not> 0 < ac_trial cf \<and> t = None then Inr None
      else let t = (case t of None \<Rightarrow> \<lparr>tr_limit = ac_trial cf, tr_spent = 0\<rparr> | Some t \<Rightarrow> t); l = min (ac_trial cf) (tr_limit t) in
      case cny of None \<Rightarrow> Inl budget_exhausted
      | Some c \<Rightarrow> if \<not> positive c \<or> l < dadd (tr_spent t) (dec_value c) then Inl budget_exhausted
          else Inr (Some \<lparr>tr_limit = l, tr_spent = dadd (tr_spent t) (dec_value c)\<rparr>))"

definition reserve_day :: "agent_config \<Rightarrow> pystr \<Rightarrow> decimal \<Rightarrow> decimal \<Rightarrow> budget \<Rightarrow> (pystr \<times> rat) list result" where
  "reserve_day cf day amount task b =
     (if \<not> positive amount \<or> \<not> unsigned task \<or> ac_daily cf < dadd (spent_on b day) (dec_value amount)
        \<or> ac_task cf < dadd (dec_value task) (dec_value amount) then Inl budget_exhausted
      else Inr (dict_set (bd_days b) day (dadd (spent_on b day) (dec_value amount))))"

definition reserve :: "agent_config \<Rightarrow> pystr \<Rightarrow> pyerror option \<Rightarrow> decimal \<Rightarrow> decimal \<Rightarrow> decimal option \<Rightarrow> disk \<Rightarrow> pystr result \<times> disk" where
  "reserve cf day w amount task cny s =
     (case bindR (read_budget s) (\<lambda>b. bindR (reserve_trial cf cny (bd_trial b)) (\<lambda>t. bindR (reserve_day cf day amount task b) (\<lambda>ds.
        Inr \<lparr>bd_days = ds, bd_trial = t\<rparr>))) of
       Inl e \<Rightarrow> (Inl e, s)
     | Inr b \<Rightarrow> (case save_budget w b s of (r, s') \<Rightarrow> (bindR r (\<lambda>_. Inr day), s')))"

definition approve_experiment :: "pyerror option \<Rightarrow> decimal \<Rightarrow> disk \<Rightarrow> unit result \<times> disk" where
  "approve_experiment w limit s =
     (if \<not> positive limit \<or> 3 < dec_value limit then (Inl budget_invalid, s)
      else case read_budget s of
        Inl e \<Rightarrow> (Inl e, s)
      | Inr b \<Rightarrow> let t = (case bd_trial b of None \<Rightarrow> \<lparr>tr_limit = dec_value limit, tr_spent = 0\<rparr> | Some t \<Rightarrow> t) in
          save_budget w (b\<lparr>bd_trial := Some (t\<lparr>tr_limit := min (dec_value limit) (tr_limit t)\<rparr>)\<rparr>) s)"

definition settle_trial :: "decimal option \<Rightarrow> decimal option \<Rightarrow> trial option \<Rightarrow> trial option result" where
  "settle_trial reserved actual t = (case t of
       None \<Rightarrow> Inr None
     | Some t \<Rightarrow> (case (reserved, actual) of
         (Some r, Some a) \<Rightarrow> if \<not> positive r \<or> \<not> unsigned a then Inl budget_invalid
           else Inr (Some (t\<lparr>tr_spent := dadd (dsub (tr_spent t) (dec_value r)) (dec_value a)\<rparr>))
       | _ \<Rightarrow> Inl budget_invalid))"

definition settled_budget :: "pystr \<Rightarrow> rat \<Rightarrow> rat \<Rightarrow> decimal option \<Rightarrow> decimal option \<Rightarrow> budget \<Rightarrow> budget result" where
  "settled_budget day reserved actual rc ac b =
     bindR (settle_trial rc ac (bd_trial b)) (\<lambda>t. case dict_get (bd_days b) day of
       None \<Rightarrow> Inl KeyError
     | Some q \<Rightarrow> let n = dadd (dsub q reserved) actual in
         if n < 0 \<or> (case t of None \<Rightarrow> False | Some t \<Rightarrow> tr_spent t < 0) then Inl budget_invalid
         else Inr \<lparr>bd_days = dict_set (bd_days b) day n, bd_trial = t\<rparr>)"

definition exceeded :: "decimal option \<Rightarrow> decimal option \<Rightarrow> bool" where
  "exceeded reserved actual = (case (reserved, actual) of (Some r, Some a) \<Rightarrow> dec_value r < dec_value a | _ \<Rightarrow> False)"

text \<open>A request whose charge is not known keeps its reservation.\<close>

definition settle :: "pystr \<Rightarrow> pyerror option \<Rightarrow> decimal \<Rightarrow> decimal option \<Rightarrow> decimal option \<Rightarrow> decimal option \<Rightarrow> disk \<Rightarrow> unit result \<times> disk" where
  "settle day w reserved actual rc ac s = (case actual of
       None \<Rightarrow> (Inr (), s)
     | Some a \<Rightarrow>
         if \<not> unsigned a \<or> \<not> positive reserved then (Inl budget_invalid, s)
         else case bindR (read_budget s) (settled_budget day (dec_value reserved) (dec_value a) rc ac) of
           Inl e \<Rightarrow> (Inl e, s)
         | Inr b \<Rightarrow> (case save_budget w b s of
             (Inl e, s') \<Rightarrow> (Inl e, s')
           | (Inr _, s') \<Rightarrow> (if dec_value reserved < dec_value a \<or> exceeded rc ac then Inl (RuntimeError ''AGENT_USAGE_BOUND_EXCEEDED'') else Inr (), s')))"

end
