(* ===== verification/Agent_Money.thy ===== *)
theory Agent_Money
  imports Agent_Budget
begin

text \<open>
  Why the budget of the agent holds: every amount is a multiple of a hundred-millionth, on which the decimal arithmetic of the program
  is exact; what a process writes is read back by the next one; and every sequence of operations keeps the file in step with what was
  charged and what is still reserved.
\<close>

section \<open>Exact amounts\<close>

definition tenths :: "rat \<Rightarrow> bool" where
  "tenths x \<longleftrightarrow> (\<exists>c :: int. x * 10 ^ 8 = of_int c)"

lemma tenths_add: "tenths a \<Longrightarrow> tenths b \<Longrightarrow> tenths (a + b)"
  unfolding tenths_def by (metis distrib_right of_int_add)

lemma tenths_diff: "tenths a \<Longrightarrow> tenths b \<Longrightarrow> tenths (a - b)"
  unfolding tenths_def by (metis left_diff_distrib of_int_diff)

lemma tenths_exact:
  assumes "tenths x" "\<bar>ctx x\<bar> \<le> 100"
  shows "ctx x = x"
proof -
  obtain c :: int where "x * 10 ^ 8 = of_int c" using assms(1) by (auto simp: tenths_def)
  then show ?thesis
  proof (cases rule: grid_small_or_big)
    case 2
    then have "(10 :: rat) powi 20 \<le> \<bar>ctx x\<bar>" by (intro ctx_abs_ge) simp
    then show ?thesis using assms(2) by simp
  qed simp
qed

lemma tenths_small:
  assumes "tenths x" "\<bar>x\<bar> \<le> 100"
  shows "ctx x = x"
proof -
  obtain c :: int where "x * 10 ^ 8 = of_int c" using assms(1) by (auto simp: tenths_def)
  then show ?thesis
    by (cases rule: grid_small_or_big) (use assms(2) in simp_all)
qed

lemma cost_exact:
  assumes "0 \<le> i" "i \<le> 10 ^ 9" "0 \<le> k" "k \<le> 10 ^ 9"
  shows "cost_usd i k = of_int (30 * i + 120 * k) / 10 ^ 8" "cost_cny i k = of_int (200 * i + 800 * k) / 10 ^ 8"
proof -
  have small: "ctx (of_int n / 10 ^ 8) = of_int n / 10 ^ 8" if "0 \<le> n" "n \<le> 10 ^ 20" for n :: int
  proof -
    have "on_grid 8 (of_int n / 10 ^ 8)" using that unfolding on_grid_def by (intro exI[of _ n]) simp
    then show ?thesis by (rule ctx_on_grid)
  qed
  have c: "ctx (of_int i * (30 / 100)) = of_int i * (30 / 100)" "ctx (of_int k * (120 / 100)) = of_int k * (120 / 100)"
    "ctx (of_int i * 2) = of_int i * 2" "ctx (of_int k * 8) = of_int k * 8"
    using small[of "30000000 * i"] small[of "120000000 * k"] small[of "200000000 * i"] small[of "800000000 * k"] assms by (simp_all add: mult.commute)
  have s: "ctx (of_int i * (30 / 100) + of_int k * (120 / 100)) = of_int i * (30 / 100) + of_int k * (120 / 100)"
    "ctx (of_int i * 2 + of_int k * 8) = of_int i * 2 + of_int k * 8"
    using small[of "30000000 * i + 120000000 * k"] small[of "200000000 * i + 800000000 * k"] assms by (simp_all add: add_divide_distrib mult.commute)
  have e: "(of_int i * (30 / 100) + of_int k * (120 / 100)) / 1000000 = (of_int (30 * i + 120 * k) / 10 ^ 8 :: rat)"
    "(of_int i * 2 + of_int k * 8) / 1000000 = (of_int (200 * i + 800 * k) / 10 ^ 8 :: rat)" by (simp_all add: field_simps)
  show "cost_usd i k = of_int (30 * i + 120 * k) / 10 ^ 8"
    unfolding cost_usd_def token_cost_def dadd_def dmul_def c s e by (rule small) (use assms in simp_all)
  show "cost_cny i k = of_int (200 * i + 800 * k) / 10 ^ 8"
    unfolding cost_cny_def token_cost_def dadd_def dmul_def c s e by (rule small) (use assms in simp_all)
qed


section \<open>Reading back\<close>

definition budget_ok :: "budget \<Rightarrow> bool" where
  "budget_ok b \<longleftrightarrow> (\<forall>(d, q) \<in> set (bd_days b). 0 \<le> q \<and> returns (iso_date d))
     \<and> (\<forall>t. bd_trial b = Some t \<longrightarrow> 0 < tr_limit t \<and> tr_limit t \<le> 3 \<and> 0 \<le> tr_spent t)"

lemma days_roundtrip: "\<forall>(d, q) \<in> set ds. 0 \<le> q \<and> returns (iso_date d) \<Longrightarrow> mapR day_amount (map (\<lambda>(d, q). (d, JDec q)) ds) = Inr ds"
  by (induction ds) (auto simp: day_amount_def is_json_text_def budget_amount_def returns_iff)

lemma budget_roundtrip:
  assumes "budget_ok b"
  shows "budget_from_body (budget_body b) = Inr b"
proof -
  have days: "mapR day_amount (map (\<lambda>(d, q). (d, JDec q)) (bd_days b)) = Inr (bd_days b)"
    by (rule days_roundtrip) (use assms in \<open>simp add: budget_ok_def\<close>)
  have trial: "trial_from_json (trial_json t) = Inr t" if "bd_trial b = Some t" for t
    using assms that by (auto simp: trial_from_json_def trial_json_def budget_ok_def budget_amount_def field_def)
  show ?thesis
    using days trial
    by (cases "bd_trial b") (simp_all add: budget_from_body_def budget_body_def is_format_def)
qed

lemma save_budget_cases: "save_budget w b s = (r, s') \<Longrightarrow> r = Inr () \<and> s' = Checked (budget_body b) \<or> (\<exists>e. r = Inl e) \<and> s' = s"
  by (auto simp: save_budget_def split: option.splits)

section \<open>Every sequence of operations\<close>

definition generating :: "agent_config \<Rightarrow> bool" where
  "generating cf \<longleftrightarrow> (\<exists>a. make_agent_config a = Inr cf) \<and> ac_enabled cf \<and> ac_backend cf = CLOUD \<and> ac_generation cf"

lemma generatingD:
  assumes "generating cf"
  shows "0 < ac_trial cf" "ac_trial cf \<le> 3" "ac_daily cf \<le> 1 / 10" "ac_task cf \<le> 2 / 100"
proof -
  obtain a where a: "make_agent_config a = Inr cf" and g: "ac_enabled cf" "ac_backend cf = CLOUD" "ac_generation cf"
    using assms by (auto simp: generating_def)
  have top: "budget_text m v = Inr q \<Longrightarrow> q \<le> m" for m v q
    by (auto simp: budget_text_def split: if_splits option.splits decimal.splits)
  show "0 < ac_trial cf" "ac_trial cf \<le> 3" "ac_daily cf \<le> 1 / 10" "ac_task cf \<le> 2 / 100"
    using a g by (auto simp: make_agent_config_def authorized_cloud_def bindR_Inr_iff split: if_splits dest: top)
qed

text \<open>What the operations of any number of processes make of the file: \<open>os\<close> are the reservations that are still open, with the tokens
  that they allow, \<open>u\<close> and \<open>c\<close> what was charged in dollars on each day and in yuan.  A request is never charged for more tokens than
  its reservation allows.\<close>

inductive budget_run :: "disk \<Rightarrow> (pystr \<times> int \<times> int) list \<Rightarrow> (pystr \<Rightarrow> rat) \<Rightarrow> rat \<Rightarrow> bool" where
  budget_new: "budget_run Missing [] (\<lambda>_. 0) 0"
| budget_reserved: "budget_run s os u c \<Longrightarrow> generating cf \<Longrightarrow> 0 \<le> i \<Longrightarrow> i \<le> 10 ^ 9 \<Longrightarrow> 0 \<le> k \<Longrightarrow> k \<le> 10 ^ 9 \<Longrightarrow> returns (iso_date day)
    \<Longrightarrow> reserve cf day w (Fin (cost_usd i k)) task (Some (Fin (cost_cny i k))) s = (Inr d, s') \<Longrightarrow> budget_run s' ((day, i, k) # os) u c"
| budget_refused: "budget_run s os u c \<Longrightarrow> reserve cf day w (Fin (cost_usd i k)) task (Some (Fin (cost_cny i k))) s = (Inl e, s') \<Longrightarrow> budget_run s' os u c"
| budget_settled: "budget_run s (xs @ (day, i, k) # ys) u c \<Longrightarrow> 0 \<le> i' \<Longrightarrow> i' \<le> i \<Longrightarrow> 0 \<le> k' \<Longrightarrow> k' \<le> k
    \<Longrightarrow> settle day w (Fin (cost_usd i k)) (Some (Fin (cost_usd i' k'))) (Some (Fin (cost_cny i k))) (Some (Fin (cost_cny i' k'))) s = (Inr (), s')
    \<Longrightarrow> budget_run s' (xs @ ys) (u(day := u day + cost_usd i' k')) (c + cost_cny i' k')"
| budget_unsettled: "budget_run s (xs @ (day, i, k) # ys) u c \<Longrightarrow> 0 \<le> i' \<Longrightarrow> i' \<le> i \<Longrightarrow> 0 \<le> k' \<Longrightarrow> k' \<le> k
    \<Longrightarrow> settle day w (Fin (cost_usd i k)) (Some (Fin (cost_usd i' k'))) (Some (Fin (cost_cny i k))) (Some (Fin (cost_cny i' k'))) s = (Inl e, s')
    \<Longrightarrow> budget_run s' (xs @ (day, i, k) # ys) u c"
| budget_approved: "budget_run s os u c \<Longrightarrow> approve_experiment w l s = (r, s') \<Longrightarrow> budget_run s' os u c"

definition open_usd :: "(pystr \<times> int \<times> int) list \<Rightarrow> pystr \<Rightarrow> rat" where
  "open_usd os d = (\<Sum>(d', i, k)\<leftarrow>os. if d' = d then cost_usd i k else 0)"

definition open_cny :: "(pystr \<times> int \<times> int) list \<Rightarrow> rat" where
  "open_cny os = (\<Sum>(d, i, k)\<leftarrow>os. cost_cny i k)"

lemma open_simps [simp]:
  "open_usd [] d = 0" "open_cny [] = 0" "open_usd ((d', i, k) # os) d = (if d' = d then cost_usd i k else 0) + open_usd os d"
  "open_cny ((d', i, k) # os) = cost_cny i k + open_cny os"
  "open_usd (xs @ ys) d = open_usd xs d + open_usd ys d" "open_cny (xs @ ys) = open_cny xs + open_cny ys"
  by (simp_all add: open_usd_def open_cny_def)

text \<open>The invariant.\<close>

definition budget_stored :: "disk \<Rightarrow> budget \<Rightarrow> bool" where
  "budget_stored s b \<longleftrightarrow> s = Missing \<and> b = \<lparr>bd_days = [], bd_trial = None\<rparr> \<or> s = Checked (budget_body b)"

definition tokens_ok :: "(pystr \<times> int \<times> int) list \<Rightarrow> bool" where
  "tokens_ok os \<longleftrightarrow> (\<forall>(d, i, k) \<in> set os. 0 \<le> i \<and> i \<le> 10 ^ 9 \<and> 0 \<le> k \<and> k \<le> 10 ^ 9)"

definition accounted :: "budget \<Rightarrow> (pystr \<times> int \<times> int) list \<Rightarrow> (pystr \<Rightarrow> rat) \<Rightarrow> rat \<Rightarrow> bool" where
  "accounted b os u c \<longleftrightarrow> budget_ok b \<and> (\<forall>d. spent_on b d = u d + open_usd os d \<and> u d + open_usd os d \<le> 1 / 10 \<and> 0 \<le> u d \<and> tenths (u d))
     \<and> 0 \<le> c \<and> tenths c \<and> tokens_ok os
     \<and> (case bd_trial b of None \<Rightarrow> os = [] \<and> c = 0 | Some t \<Rightarrow> tr_spent t = c + open_cny os \<and> tr_spent t \<le> 3)"

lemma cost_facts:
  assumes "0 \<le> i" "i \<le> 10 ^ 9" "0 \<le> k" "k \<le> 10 ^ 9"
  shows "0 \<le> cost_usd i k" "0 \<le> cost_cny i k" "tenths (cost_usd i k)" "tenths (cost_cny i k)"
  unfolding cost_exact[OF assms] tenths_def using assms
  by (auto intro: exI[of _ "30 * i + 120 * k"] exI[of _ "200 * i + 800 * k"])

lemma cost_mono:
  assumes "0 \<le> i'" "i' \<le> i" "i \<le> 10 ^ 9" "0 \<le> k'" "k' \<le> k" "k \<le> 10 ^ 9"
  shows "cost_usd i' k' \<le> cost_usd i k" "cost_cny i' k' \<le> cost_cny i k"
proof -
  have a: "cost_usd i' k' = of_int (30 * i' + 120 * k') / 10 ^ 8" "cost_cny i' k' = of_int (200 * i' + 800 * k') / 10 ^ 8"
    using assms by (intro cost_exact; simp)+
  have b: "cost_usd i k = of_int (30 * i + 120 * k) / 10 ^ 8" "cost_cny i k = of_int (200 * i + 800 * k) / 10 ^ 8"
    using assms by (intro cost_exact; simp)+
  have "30 * i' + 120 * k' \<le> 30 * i + 120 * k" "200 * i' + 800 * k' \<le> 200 * i + 800 * k" using assms by simp_all
  then have "(of_int (30 * i' + 120 * k') :: rat) \<le> of_int (30 * i + 120 * k)" "(of_int (200 * i' + 800 * k') :: rat) \<le> of_int (200 * i + 800 * k)"
    by (simp_all only: of_int_le_iff)
  then show "cost_usd i' k' \<le> cost_usd i k" "cost_cny i' k' \<le> cost_cny i k" unfolding a b by (simp_all add: divide_right_mono)
qed

lemma open_facts:
  assumes "tokens_ok os"
  shows "0 \<le> open_usd os d" "0 \<le> open_cny os" "tenths (open_usd os d)" "tenths (open_cny os)"
proof -
  have z: "tenths 0" by (auto simp: tenths_def intro: exI[of _ 0])
  have "0 \<le> open_usd os d \<and> 0 \<le> open_cny os \<and> tenths (open_usd os d) \<and> tenths (open_cny os)"
    using assms
  proof (induction os)
    case (Cons x os)
    obtain d' i k where x: "x = (d', i, k)" by (rule prod_cases3)
    have t: "0 \<le> i" "i \<le> 10 ^ 9" "0 \<le> k" "k \<le> 10 ^ 9" "tokens_ok os" using Cons.prems by (simp_all add: tokens_ok_def x)
    show ?case using Cons.IH[OF t(5)] cost_facts[OF t(1-4)] z by (auto simp: x intro!: tenths_add)
  qed (simp add: z)
  then show "0 \<le> open_usd os d" "0 \<le> open_cny os" "tenths (open_usd os d)" "tenths (open_cny os)" by simp_all
qed


lemma stored_reads: "budget_stored s b \<Longrightarrow> budget_ok b \<Longrightarrow> read_budget s = Inr b"
  by (auto simp: budget_stored_def read_budget_def budget_roundtrip)

lemma stored_saved: "save_budget w b' s = (r, s') \<Longrightarrow> budget_stored s b \<Longrightarrow> r = Inr () \<and> budget_stored s' b' \<or> (\<exists>e. r = Inl e) \<and> budget_stored s' b"
  using save_budget_cases[of w b' s r s'] by (auto simp: budget_stored_def)

lemma spent_on_set: "spent_on (\<lparr>bd_days = dict_set ds d q, bd_trial = t\<rparr>) d' = (if d' = d then q else spent_on \<lparr>bd_days = ds, bd_trial = t\<rparr> d')"
  by (simp add: spent_on_def)

lemma spent_on_days: "spent_on \<lparr>bd_days = bd_days b, bd_trial = t\<rparr> d = spent_on b d"
  by (simp add: spent_on_def)

lemma dadd_exact: "tenths a \<Longrightarrow> tenths b \<Longrightarrow> 0 \<le> a \<Longrightarrow> 0 \<le> b \<Longrightarrow> dadd a b \<le> 100 \<Longrightarrow> dadd a b = a + b"
  unfolding dadd_def by (rule tenths_exact[OF tenths_add]) (simp_all add: ctx_nonneg)

lemma days_ok_set:
  assumes "\<forall>(d, q) \<in> set ds. 0 \<le> q \<and> returns (iso_date d)" "0 \<le> q" "returns (iso_date d)"
  shows "\<forall>(d, q) \<in> set (dict_set ds d q). 0 \<le> q \<and> returns (iso_date d)"
  using assms by (induction ds) (auto split: if_splits)

lemma reserve_accounted:
  assumes "accounted b os u c" "budget_stored s b" "generating cf" "0 \<le> i" "i \<le> 10 ^ 9" "0 \<le> k" "k \<le> 10 ^ 9" "returns (iso_date day)"
    and "reserve cf day w (Fin (cost_usd i k)) task (Some (Fin (cost_cny i k))) s = (Inr d, s')"
  shows "\<exists>b'. accounted b' ((day, i, k) # os) u c \<and> budget_stored s' b'"
proof -
  let ?a = "cost_usd i k" and ?q = "cost_cny i k"
  note cf = generatingD[OF assms(3)] and cost = cost_facts[OF assms(4-7)]
  have ok: "budget_ok b" "tokens_ok os" and days: "\<And>d. spent_on b d = u d + open_usd os d" "\<And>d. 0 \<le> u d" "\<And>d. tenths (u d)" and c: "0 \<le> c" "tenths c"
    using assms(1) by (auto simp: accounted_def)
  have cap: "u d + open_usd os d \<le> 1 / 10" for d using assms(1) by (simp add: accounted_def)
  note os = open_facts[OF ok(2)]
  obtain t ds where t: "reserve_trial cf (Some (Fin ?q)) (bd_trial b) = Inr t" and ds: "reserve_day cf day (Fin ?a) task b = Inr ds"
    and save: "save_budget w \<lparr>bd_days = ds, bd_trial = t\<rparr> s = (Inr (), s')"
    using assms(9) by (auto simp: reserve_def stored_reads[OF assms(2) ok(1)] bindR_def split: sum.splits prod.splits)
  have day: "ds = dict_set (bd_days b) day (dadd (spent_on b day) ?a)" "dadd (spent_on b day) ?a \<le> ac_daily cf"
    using ds by (auto simp: reserve_day_def dec_value_def split: if_splits)
  have exact: "dadd (spent_on b day) ?a = u day + open_usd os day + ?a"
    using dadd_exact[of "u day + open_usd os day" ?a] day(2) cf(3) days os cost by (simp add: tenths_add)
  define t0 where "t0 = (case bd_trial b of None \<Rightarrow> \<lparr>tr_limit = ac_trial cf, tr_spent = 0\<rparr> | Some t \<Rightarrow> t)"
  have t0: "tr_spent t0 = c + open_cny os" "0 < tr_limit t0" "tr_limit t0 \<le> 3"
    using assms(1) cf ok(1) by (auto simp: t0_def accounted_def budget_ok_def split: option.splits)
  have tr: "t = Some \<lparr>tr_limit = min (ac_trial cf) (tr_limit t0), tr_spent = dadd (tr_spent t0) ?q\<rparr>" "dadd (tr_spent t0) ?q \<le> min (ac_trial cf) (tr_limit t0)"
    using t cf(1) by (auto simp: reserve_trial_def Let_def t0_def[symmetric] dec_value_def split: if_splits)
  have "dadd (tr_spent t0) ?q = c + open_cny os + ?q"
    using dadd_exact[of "c + open_cny os" ?q] tr(2) t0 c os cost by (simp add: tenths_add)
  note tr = tr[unfolded this]
  have "accounted \<lparr>bd_days = ds, bd_trial = t\<rparr> ((day, i, k) # os) u c"
    unfolding accounted_def
  proof (intro conjI allI)
    show "budget_ok \<lparr>bd_days = ds, bd_trial = t\<rparr>"
      unfolding budget_ok_def day(1) using ok(1) days_ok_set[of "bd_days b" "dadd (spent_on b day) ?a" day] exact days os cost assms(8) tr cf(1) t0 c
      by (auto simp: budget_ok_def)
    fix d
    show "spent_on \<lparr>bd_days = ds, bd_trial = t\<rparr> d = u d + open_usd ((day, i, k) # os) d"
      unfolding day(1) spent_on_set spent_on_days using exact days by simp
    show "u d + open_usd ((day, i, k) # os) d \<le> 1 / 10" using day(2) cf(3) cap[of d] exact by auto
    show "tokens_ok ((day, i, k) # os)" using ok(2) assms(4-7) by (simp add: tokens_ok_def)
    show "case bd_trial \<lparr>bd_days = ds, bd_trial = t\<rparr> of None \<Rightarrow> (day, i, k) # os = [] \<and> c = 0
        | Some t \<Rightarrow> tr_spent t = c + open_cny ((day, i, k) # os) \<and> tr_spent t \<le> 3"
      using tr t0 by simp
  qed (use days c in auto)
  moreover have "budget_stored s' \<lparr>bd_days = ds, bd_trial = t\<rparr>" using stored_saved[OF save assms(2)] by simp
  ultimately show ?thesis by blast
qed


lemma tokens_split:
  assumes "tokens_ok (xs @ (day, i, k) # ys)"
  shows "0 \<le> i" "i \<le> 10 ^ 9" "0 \<le> k" "k \<le> 10 ^ 9" "tokens_ok (xs @ ys)"
  using assms by (auto simp: tokens_ok_def)

lemma swap_exact:
  assumes "tenths x" "tenths r" "tenths a" "0 \<le> r" "r \<le> x" "x \<le> 10" "0 \<le> a" "a \<le> 10"
  shows "dadd (dsub x r) a = x - r + a"
proof -
  have "dsub x r = x - r" unfolding dsub_def by (rule tenths_small[OF tenths_diff]) (use assms in auto)
  then show ?thesis unfolding dadd_def by (simp only:) (rule tenths_small[OF tenths_add[OF tenths_diff]], use assms in auto)
qed

lemma settle_accounted:
  assumes "accounted b (xs @ (day, i, k) # ys) u c" "budget_stored s b" "0 \<le> i'" "i' \<le> i" "0 \<le> k'" "k' \<le> k"
    and "settle day w (Fin (cost_usd i k)) (Some (Fin (cost_usd i' k'))) (Some (Fin (cost_cny i k))) (Some (Fin (cost_cny i' k'))) s = (r, s')"
  shows "(\<exists>b'. r = Inr () \<and> accounted b' (xs @ ys) (u(day := u day + cost_usd i' k')) (c + cost_cny i' k') \<and> budget_stored s' b') \<or> (\<exists>e. r = Inl e) \<and> s' = s"
proof -
  let ?a = "cost_usd i k" and ?q = "cost_cny i k" and ?a' = "cost_usd i' k'" and ?q' = "cost_cny i' k'" and ?os = "xs @ (day, i, k) # ys"
  have ok: "budget_ok b" "tokens_ok ?os" and days: "\<And>d. spent_on b d = u d + open_usd ?os d" "\<And>d. 0 \<le> u d" "\<And>d. tenths (u d)" and c: "0 \<le> c" "tenths c"
    using assms(1) by (auto simp: accounted_def)
  have cap: "u d + open_usd ?os d \<le> 1 / 10" for d using assms(1) by (simp add: accounted_def)
  note tokens = tokens_split[OF ok(2)]
  note cost = cost_facts[OF tokens(1-4)]
  have cost': "0 \<le> ?a'" "0 \<le> ?q'" "tenths ?a'" "tenths ?q'" using assms(3-6) tokens by (intro cost_facts; simp)+
  have le: "?a' \<le> ?a" "?q' \<le> ?q" using assms(3-6) tokens by (intro cost_mono; simp)+
  note os = open_facts[OF tokens(5)]
  obtain t where t: "bd_trial b = Some t" "tr_spent t = c + open_cny ?os" "tr_spent t \<le> 3"
    using assms(1) by (auto simp: accounted_def split: option.splits)
  note read = stored_reads[OF assms(2) ok(1)]
  show ?thesis
  proof (cases r)
    case (Inl e)
    have "\<not> (?a < ?a' \<or> exceeded (Some (Fin ?q)) (Some (Fin ?q')))" using le by (simp add: exceeded_def dec_value_def)
    then have "s' = s"
      using assms(7) Inl save_budget_cases[of w _ s]
      by (auto simp: settle_def read dec_value_def split: sum.splits prod.splits if_splits)
    then show ?thesis using Inl by simp
  next
    case (Inr v)
    obtain b' where b': "settled_budget day ?a ?a' (Some (Fin ?q)) (Some (Fin ?q')) b = Inr b'" and save: "save_budget w b' s = (Inr (), s')"
      using assms(7) Inr by (auto simp: settle_def read dec_value_def split: sum.splits prod.splits if_splits)
    let ?n = "dadd (dsub (spent_on b day) ?a) ?a'" and ?m = "dadd (dsub (tr_spent t) ?q) ?q'"
    have b'_eq: "b' = \<lparr>bd_days = dict_set (bd_days b) day ?n, bd_trial = Some (t\<lparr>tr_spent := ?m\<rparr>)\<rparr>" "day \<in> fst ` set (bd_days b)"
      using b' t(1) by (auto simp: settled_budget_def settle_trial_def dec_value_def spent_on_def bindR_Inr_iff Let_def dict_get_None_iff[symmetric]
          split: if_splits option.splits) (metis dict_get_None_iff option.distinct(1))
    have n: "?n = u day + open_usd (xs @ ys) day + ?a'"
    proof -
      have eq: "spent_on b day = u day + open_usd (xs @ ys) day + ?a" by (simp add: days(1))
      have "?n = spent_on b day - ?a + ?a'"
      proof (rule swap_exact)
        show "tenths (spent_on b day)" unfolding eq by (intro tenths_add days(3) os(3) cost(3))
        show "?a \<le> spent_on b day" unfolding eq using days(2)[of day] os(1)[of day] by simp
        show "spent_on b day \<le> 10" using cap[of day] unfolding days(1) by linarith
        show "?a' \<le> 10" using cap[of day] le(1) days(2)[of day] os(1)[of day] by simp
      qed (use cost cost' in simp_all)
      then show ?thesis using eq by simp
    qed
    have m: "?m = c + open_cny (xs @ ys) + ?q'"
    proof -
      have eq: "tr_spent t = c + open_cny (xs @ ys) + ?q" by (simp add: t(2))
      have "?m = tr_spent t - ?q + ?q'"
      proof (rule swap_exact)
        show "tenths (tr_spent t)" unfolding eq by (intro tenths_add c(2) os(4) cost(4))
        show "?q \<le> tr_spent t" unfolding eq using c(1) os(2) by simp
        show "tr_spent t \<le> 10" using t(3) by simp
        show "?q' \<le> 10" using t(3) eq le(2) c(1) os(2) by simp
      qed (use cost cost' in simp_all)
      then show ?thesis using eq by simp
    qed
    have iso: "returns (iso_date day)" using b'_eq(2) ok(1) by (auto simp: budget_ok_def)
    have "accounted b' (xs @ ys) (u(day := u day + ?a')) (c + ?q')"
      unfolding accounted_def
    proof (intro conjI allI)
      show "budget_ok b'"
        unfolding budget_ok_def b'_eq(1) n m using ok(1) days_ok_set[of "bd_days b" "u day + open_usd (xs @ ys) day + ?a'" day] days os cost' c iso t(1)
        by (auto simp: budget_ok_def)
      fix d
      show "spent_on b' d = (u(day := u day + ?a')) d + open_usd (xs @ ys) d"
        unfolding b'_eq(1) spent_on_set spent_on_days n by (simp add: days(1))
      show "(u(day := u day + ?a')) d + open_usd (xs @ ys) d \<le> 1 / 10" using cap[of d] le by (auto split: if_splits)
      show "case bd_trial b' of None \<Rightarrow> xs @ ys = [] \<and> c + ?q' = 0 | Some t \<Rightarrow> tr_spent t = c + ?q' + open_cny (xs @ ys) \<and> tr_spent t \<le> 3"
        unfolding b'_eq(1) m using t(2,3) le by simp
    qed (use days c cost' tokens(5) in \<open>auto intro: tenths_add\<close>)
    moreover have "budget_stored s' b'" using stored_saved[OF save assms(2)] by simp
    ultimately show ?thesis using Inr by (cases v) blast
  qed
qed

lemma approve_accounted:
  assumes "accounted b os u c" "budget_stored s b" "approve_experiment w l s = (r, s')"
  shows "\<exists>b'. accounted b' os u c \<and> budget_stored s' b'"
proof -
  have ok: "budget_ok b" using assms(1) by (simp add: accounted_def)
  let ?t = "case bd_trial b of None \<Rightarrow> \<lparr>tr_limit = dec_value l, tr_spent = 0\<rparr> | Some t \<Rightarrow> t"
  let ?b = "b\<lparr>bd_trial := Some (?t\<lparr>tr_limit := min (dec_value l) (tr_limit ?t)\<rparr>)\<rparr>"
  consider "s' = s" | "save_budget w ?b s = (r, s')" "positive l" "dec_value l \<le> 3"
    using assms(3) by (auto simp: approve_experiment_def stored_reads[OF assms(2) ok] Let_def split: if_splits)
  then show ?thesis
  proof cases
    case 2
    have "0 < dec_value l" using 2(2) by (auto simp: positive_def dec_value_def split: decimal.splits)
    then have t: "0 < dec_value l" "0 < tr_limit ?t" "tr_spent ?t = c + open_cny os" "tr_spent ?t \<le> 3" "0 \<le> tr_spent ?t"
      using assms(1) by (auto simp: accounted_def budget_ok_def split: option.splits)
    have "spent_on ?b d = spent_on b d" for d by (simp add: spent_on_def)
    then have "accounted ?b os u c"
      using assms(1) 2(3) t unfolding accounted_def budget_ok_def by (simp add: min.coboundedI1)
    then show ?thesis using stored_saved[OF 2(1) assms(2)] assms(1) by blast
  qed (use assms in blast)
qed

lemma budget_run_accounted: "budget_run s os u c \<Longrightarrow> \<exists>b. accounted b os u c \<and> budget_stored s b"
proof (induction rule: budget_run.induct)
  case budget_new
  show ?case by (rule exI[of _ "\<lparr>bd_days = [], bd_trial = None\<rparr>"])
    (auto simp: accounted_def budget_ok_def spent_on_def budget_stored_def tokens_ok_def tenths_def intro: exI[of _ 0])
next
  case (budget_reserved s os u c cf i k day w task d s')
  then show ?case using reserve_accounted by blast
next
  case (budget_refused s os u c cf day w i k task e s')
  have "s' = s" using budget_refused.hyps(2)
    by (auto simp: reserve_def save_budget_def bindR_def split: sum.splits prod.splits option.splits)
  then show ?case using budget_refused.IH by blast
next
  case (budget_settled s xs day i k ys u c i' k' w s')
  then show ?case using settle_accounted by blast
next
  case (budget_unsettled s xs day i k ys u c i' k' w e s')
  then show ?case using settle_accounted by blast
next
  case (budget_approved s os u c w l r s')
  then show ?case using approve_accounted by blast
qed

end
