(* ===== verification/Agent_Tools.thy ===== *)
theory Agent_Tools
  imports Trading_Calendar Symbols Py_Iso Py_Hashing
begin

text \<open>
  The evidence that the workbench agent gets: \<^verbatim>\<open>get_stock_context\<close> of \<^verbatim>\<open>workbench/context_tools.py\<close> with the quote that
  \<^verbatim>\<open>workbench/service.py\<close> validates for it, and \<^verbatim>\<open>ReadonlyAgentTools\<close> of \<^verbatim>\<open>workbench/agent_boundary.py\<close>, which hands out the
  public part of it within a budget of calls and checks an explanation against what it handed out.

  The rows of the services are objects of JSON; a \<open>reason_codes\<close> or \<open>reasons\<close> field is a list, an \<open>event_risk\<close> or
  \<open>price_guidance\<close> field an object or nothing.  The health report, the research report and the results of web searches are
  arguments, as are the canonical JSON text of a value and SHA-256.
\<close>

section \<open>JSON rows\<close>

type_synonym jobj = "(string \<times> json) list"

definition get :: "jobj \<Rightarrow> string \<Rightarrow> json" where
  "get ob k = (case dict_get ob k of None \<Rightarrow> JNull | Some v \<Rightarrow> v)"

definition truthy :: "json \<Rightarrow> bool" where
  "truthy v = (case v of JNull \<Rightarrow> False | JBool b \<Rightarrow> b | JInt i \<Rightarrow> i \<noteq> 0 | JStr s \<Rightarrow> s \<noteq> [] | JFloat x \<Rightarrow> x \<noteq> 0
     | JList vs \<Rightarrow> vs \<noteq> [] | JObj ob \<Rightarrow> ob \<noteq> [] | JDict d \<Rightarrow> d \<noteq> [] | _ \<Rightarrow> True)"

definition either :: "json \<Rightarrow> json \<Rightarrow> json" where
  "either a b = (if truthy a then a else b)"

definition obj_of :: "json \<Rightarrow> jobj" where
  "obj_of v = (case v of JObj ob \<Rightarrow> ob | _ \<Rightarrow> [])"

definition items_of :: "json \<Rightarrow> json list" where
  "items_of v = (case v of JList vs \<Rightarrow> vs | _ \<Rightarrow> [])"

definition jtext :: "string \<Rightarrow> json" where
  "jtext s = JStr (py s)"

text \<open>\<^verbatim>\<open>dict.fromkeys\<close>: the first of equal values stays.\<close>

definition unique_items :: "json list \<Rightarrow> json list" where
  "unique_items vs = rev (remdups (rev vs))"

definition with_evidence :: "hashing \<Rightarrow> jobj \<Rightarrow> json \<Rightarrow> jobj" where
  "with_evidence H ob t = dict_set (dict_set ob ''evidence_id'' (JStr (py ''sha256:'' @ sha H (canonical H (JObj ob))))) ''observed_at'' t"

section \<open>The context of a stock\<close>

record desk_quote =
  dq_symbol :: pystr
  dq_time :: datetime
  dq_stale :: bool
  dq_flag :: pystr
  dq_last :: json

record desk =
  dk_candidates :: "jobj list"
  dk_monitor :: "jobj list"
  dk_quotes :: "desk_quote list"
  dk_quality :: pystr
  dk_network :: bool
  dk_stale_after :: rat
  dk_risk :: "pystr \<Rightarrow> jobj option"
  dk_cutoff :: json
  dk_status :: pystr
  dk_notice :: json
  dk_source :: json
  dk_calendar :: calendar
  dk_now :: datetime

definition row_of :: "jobj list \<Rightarrow> pystr \<Rightarrow> jobj option" where
  "row_of rows symbol = find (\<lambda>r. get r ''symbol'' = JStr symbol) rows"

definition validated_quote :: "desk \<Rightarrow> pystr \<Rightarrow> jobj option" where
  "validated_quote d symbol = (case filter (\<lambda>q. dq_symbol q = symbol) (dk_quotes d) of
       [q] \<Rightarrow> (let age = of_int (micros (instant (dk_now d)) - micros (instant (dq_time q))) / 1000000 in
         if dq_stale q \<or> dq_flag q \<noteq> py ''GOOD'' \<or> \<not> (0 \<le> age \<and> age \<le> dk_stale_after d) \<or> dq_last q = JNull then None
         else Some [(''symbol'', JStr symbol), (''current_price'', dq_last q), (''quote_timestamp'', JTime (dq_time q)), (''data_quality'', JStr (dq_flag q))])
     | _ \<Rightarrow> None)"

definition live_quote :: "desk \<Rightarrow> pystr \<Rightarrow> jobj option" where
  "live_quote d symbol = (if dk_network d \<and> dk_quality d = py ''GOOD'' then validated_quote d symbol else None)"

definition no_guidance :: json where
  "no_guidance = JObj [(''state'', jtext ''NO_RELIABLE_GUIDANCE''), (''reason_codes'', JList [jtext ''PRICE_PLAN_MISSING''])]"

definition chosen_row :: "desk \<Rightarrow> pystr \<Rightarrow> jobj" where
  "chosen_row d symbol = (case row_of (dk_monitor d) symbol of Some r \<Rightarrow> r
     | None \<Rightarrow> (case row_of (dk_candidates d) symbol of Some r \<Rightarrow> r | None \<Rightarrow> []))"

definition candidate_row :: "desk \<Rightarrow> pystr \<Rightarrow> jobj" where
  "candidate_row d symbol = (case row_of (dk_candidates d) symbol of Some r \<Rightarrow> r | None \<Rightarrow> [])"

definition is_candidate :: "desk \<Rightarrow> pystr \<Rightarrow> bool" where
  "is_candidate d symbol \<longleftrightarrow> row_of (dk_candidates d) symbol \<noteq> None"

definition risk_of :: "desk \<Rightarrow> pystr \<Rightarrow> json" where
  "risk_of d symbol = either (get (chosen_row d symbol) ''event_risk'') (case dk_risk d symbol of None \<Rightarrow> JNull | Some r \<Rightarrow> JObj r)"

definition guidance_of :: "desk \<Rightarrow> pystr \<Rightarrow> jobj" where
  "guidance_of d symbol = obj_of (either (get (chosen_row d symbol) ''price_guidance'') no_guidance)"

definition expected_session :: "desk \<Rightarrow> pystr option result" where
  "expected_session d = (case latest_completed_session (dk_calendar d) (dk_now d) (hm 15 0) of
       Inr e \<Rightarrow> Inr (Some (date_iso e)) | Inl CalendarUnavailableError \<Rightarrow> Inr None | Inl e \<Rightarrow> Inl e)"

definition cutoff_of :: "desk \<Rightarrow> pystr \<Rightarrow> json" where
  "cutoff_of d symbol = either (get (candidate_row d symbol) ''data_cutoff'') (dk_cutoff d)"

text \<open>Comparison of two texts.\<close>

definition before_text :: "json \<Rightarrow> pystr \<Rightarrow> bool" where
  "before_text v t = (case v of JStr s \<Rightarrow> s < t | _ \<Rightarrow> False)"

definition after_text :: "json \<Rightarrow> pystr \<Rightarrow> bool" where
  "after_text v t = (case v of JStr s \<Rightarrow> t < s | _ \<Rightarrow> False)"

definition risk_reasons :: "json \<Rightarrow> json list" where
  "risk_reasons risk = (if \<not> truthy risk \<or> get (obj_of risk) ''level'' \<noteq> jtext ''CLEAR''
     then items_of (either (get (obj_of risk) ''reason_codes'') (JList [jtext ''PUBLIC_RISK_NOT_CHECKED''])) else [])"

definition cutoff_reasons :: "bool \<Rightarrow> json \<Rightarrow> pystr option \<Rightarrow> json list" where
  "cutoff_reasons candidate cutoff expected =
     (if candidate \<and> (\<not> truthy cutoff \<or> (case expected of None \<Rightarrow> False | Some e \<Rightarrow> before_text cutoff e)) then [jtext ''DAILY_INPUT_STALE''] else [])
     @ (if candidate \<and> truthy cutoff \<and> (case expected of None \<Rightarrow> False | Some e \<Rightarrow> after_text cutoff e) then [jtext ''DAILY_INPUT_FUTURE''] else [])"

definition plan_reasons :: "datetime \<Rightarrow> jobj \<Rightarrow> json list" where
  "plan_reasons now guidance = (let v = either (get guidance ''valid_for'') (get guidance ''valid_for_date'') in
     if truthy v \<and> v \<noteq> JStr (date_iso (local_date (shanghai_local now))) then [jtext ''PRICE_PLAN_NOT_APPLICABLE''] else [])"

definition reason_if :: "bool \<Rightarrow> string \<Rightarrow> json list" where
  "reason_if b s = (if b then [jtext s] else [])"

definition blocking_reasons :: "desk \<Rightarrow> pystr \<Rightarrow> pystr option \<Rightarrow> json list" where
  "blocking_reasons d symbol expected = unique_items
     (items_of (get (guidance_of d symbol) ''reason_codes'')
      @ items_of (get (obj_of (get (candidate_row d symbol) ''price_guidance'')) ''reason_codes'')
      @ reason_if (live_quote d symbol = None) ''NO_VALIDATED_REALTIME_QUOTE''
      @ reason_if (\<not> is_candidate d symbol) ''NOT_IN_CURRENT_CANDIDATES''
      @ risk_reasons (risk_of d symbol)
      @ reason_if (expected = None) ''CALENDAR_UNAVAILABLE''
      @ cutoff_reasons (is_candidate d symbol) (cutoff_of d symbol) expected
      @ reason_if (dk_status d \<in> {py ''UPDATE_FAILED'', py ''STALE_DATA'', py ''FAILED''}) ''DAILY_UPDATE_FAILED''
      @ plan_reasons (dk_now d) (guidance_of d symbol))"

definition candidate_fact :: pystr where
  "candidate_fact =
    [0x5DF2, 0x8FDB, 0x5165, 0x5F53, 0x524D, 0x7B56, 0x7565, 0x7684, 0x65E5, 0x7EBF, 0x5019, 0x9009, 0xFF1B, 0x5019, 0x9009, 0x5206,
    0x6570, 0x4EC5, 0x7528, 0x4E8E, 0x6392, 0x5E8F, 0xFF0C, 0x5E76, 0x975E, 0x4E0A, 0x6DA8, 0x6982, 0x7387, 0x3002]"

definition context_summary :: pystr where
  "context_summary =
    [0x5F53, 0x524D, 0x6458, 0x8981, 0x662F, 0x540E, 0x53F0, 0x53EF, 0x590D, 0x6838, 0x7684, 0x89C4, 0x5219, 0x4E8B, 0x5B9E, 0xFF0C,
    0x4E0D, 0x662F, 0x20, 0x41, 0x49, 0x20, 0x7814, 0x7A76, 0x7ED3, 0x8BBA, 0xFF0C, 0x4E0D, 0x80FD, 0x636E, 0x6B64, 0x4FDD, 0x8BC1,
    0x80A1, 0x4EF7, 0x8868, 0x73B0, 0x3002]"

definition context_facts :: "desk \<Rightarrow> pystr \<Rightarrow> json list" where
  "context_facts d symbol = (if is_candidate d symbol then [JStr candidate_fact] else []) @ items_of (get (candidate_row d symbol) ''reasons'')"

definition json_of_obj :: "jobj option \<Rightarrow> json" where
  "json_of_obj v = (case v of None \<Rightarrow> JNull | Some ob \<Rightarrow> JObj ob)"

definition context_fields :: "desk \<Rightarrow> pystr \<Rightarrow> pystr option \<Rightarrow> jobj" where
  "context_fields d symbol expected =
     [(''schema_version'', JInt 1), (''symbol'', JStr symbol), (''name'', either (get (chosen_row d symbol) ''name'') (JStr symbol)),
      (''analysis_mode'', jtext ''DETERMINISTIC_FACTS''), (''agent_configured'', JBool False),
      (''candidate'', json_of_obj (row_of (dk_candidates d) symbol)), (''quote'', json_of_obj (live_quote d symbol)), (''event_risk'', risk_of d symbol),
      (''price_guidance'', JObj (guidance_of d symbol)), (''probability'', JNull), (''supporting_facts'', JList (context_facts d symbol)),
      (''blocking_reasons'', JList (blocking_reasons d symbol expected)), (''input_cutoff'', cutoff_of d symbol), (''daily_status'', JStr (dk_status d)),
      (''daily_notice_zh'', dk_notice d), (''expected_session'', case expected of None \<Rightarrow> JNull | Some e \<Rightarrow> JStr e),
      (''source'', either (get (candidate_row d symbol) ''source'') (dk_source d)), (''summary_zh'', JStr context_summary),
      (''manual_execution_required'', JBool True)]"

definition stock_context :: "hashing \<Rightarrow> desk \<Rightarrow> pystr \<Rightarrow> jobj result" where
  "stock_context H d symbol = bindR (normalize_symbol symbol) (\<lambda>s. bindR (expected_session d) (\<lambda>e.
     Inr (with_evidence H (context_fields d s e) (JTime (dk_now d)))))"

section \<open>The gateway\<close>

datatype agent_error = Cancelled_task | Timed_out | Code string | Schema | Bad_json | Raises_error pyerror

type_synonym 'a agent_result = "agent_error + 'a"

definition andA :: "'a agent_result \<Rightarrow> ('a \<Rightarrow> 'b agent_result) \<Rightarrow> 'b agent_result" where [code_unfold]:
  "andA m f = (case m of Inl e \<Rightarrow> Inl e | Inr x \<Rightarrow> f x)"

definition liftA :: "'a result \<Rightarrow> 'a agent_result" where
  "liftA r = (case r of Inl e \<Rightarrow> Inl (Raises_error e) | Inr x \<Rightarrow> Inr x)"

text \<open>What the gateway finds during a call: the services, and whether the task was stopped or late at its start and at its end.\<close>

record services =
  sv_desk :: desk
  sv_health :: jobj
  sv_research :: "jobj \<Rightarrow> jobj"
  sv_web :: "jobj agent_result"
  sv_stopped :: "bool \<times> bool"
  sv_late :: "bool \<times> bool"

record gateway =
  gw_symbol :: pystr
  gw_max_calls :: nat
  gw_max_bytes :: nat
  gw_web :: bool
  gw_calls :: nat
  gw_evidence :: "(pystr \<times> jobj) list"
  gw_stock :: "pystr option"

definition new_gateway :: "pystr \<Rightarrow> nat \<Rightarrow> nat \<Rightarrow> bool \<Rightarrow> gateway result" where
  "new_gateway symbol calls bytes web = bindR (normalize_symbol symbol) (\<lambda>s.
     Inr \<lparr>gw_symbol = s, gw_max_calls = calls, gw_max_bytes = bytes, gw_web = web, gw_calls = 0, gw_evidence = [], gw_stock = None\<rparr>)"

definition check_active :: "bool \<Rightarrow> bool \<Rightarrow> unit agent_result" where
  "check_active stopped late = (if stopped then Inl (Code ''AGENT_CANCELLED'') else if late then Inl Timed_out else Inr ())"

definition public_fields :: "(string \<times> string list) list" where
  "public_fields =
     [(''candidate'', [''symbol'', ''name'', ''normalized_score'', ''strategy_version'', ''source'', ''signal_date'', ''data_cutoff'', ''reasons'']),
      (''quote'', [''symbol'', ''current_price'', ''change_pct'', ''quote_timestamp'', ''source'', ''data_quality'']),
      (''price_guidance'', [''plan_id'', ''state'', ''guidance_level'', ''calculation_date'', ''valid_for'', ''entry_lower'', ''entry_upper'',
         ''maximum_acceptable_price'', ''invalidation_price'', ''model_version'', ''evidence_cutoff'', ''reason_codes'', ''notice_zh'',
         ''manual_execution_required'']),
      (''event_risk'', [''level'', ''reason_codes'', ''checked_at''])]"

definition top_fields :: "string list" where
  "top_fields = [''schema_version'', ''symbol'', ''name'', ''input_cutoff'', ''expected_session'', ''daily_status'', ''blocking_reasons'', ''source'',
     ''supporting_facts'']"

definition fields_in :: "jobj \<Rightarrow> string list \<Rightarrow> jobj" where
  "fields_in ob ks = concat (map (\<lambda>k. case dict_get ob k of None \<Rightarrow> [] | Some v \<Rightarrow> [(k, v)]) ks)"

definition public_part :: "jobj \<Rightarrow> string \<times> string list \<Rightarrow> string \<times> json" where
  "public_part raw x = (case x of (k, ks) \<Rightarrow> (k, case get raw k of JObj ob \<Rightarrow> JObj (fields_in ob ks) | _ \<Rightarrow> JNull))"

definition public_view :: "jobj \<Rightarrow> jobj" where
  "public_view raw = map (\<lambda>k. (k, get raw k)) top_fields @ map (public_part raw) public_fields
     @ [(''probability'', JNull), (''manual_execution_required'', JBool True)]"

definition public_stock :: "hashing \<Rightarrow> services \<Rightarrow> pystr \<Rightarrow> jobj agent_result" where
  "public_stock H w symbol = liftA (bindR (stock_context H (sv_desk w) symbol) (\<lambda>raw. Inr (with_evidence H (public_view raw) (get raw ''observed_at''))))"

definition health_view :: "jobj \<Rightarrow> jobj" where
  "health_view raw =
     (let stages = obj_of (get raw ''stages''); stage = (\<lambda>k ks. (k, JObj (map (\<lambda>f. (f, get (obj_of (get stages k)) f)) ks))) in
      [(''schema_version'', JInt 1), (''tool'', jtext ''get_workflow_health''), (''mode'', get raw ''mode''), (''status'', get raw ''status''),
       (''calendar'', get raw ''calendar''),
       (''stages'', JObj [stage ''daily'' [''status'', ''input_cutoff'', ''expected_session''],
          stage ''realtime'' [''status'', ''ready'', ''source'', ''quote_timestamp'']])])"

definition public_health :: "hashing \<Rightarrow> services \<Rightarrow> jobj" where
  "public_health H w = with_evidence H (health_view (sv_health w)) (get (sv_health w) ''observed_at'')"

text \<open>\<^verbatim>\<open>observed_at\<close> is popped when the arguments are evaluated, after the payload has been passed: the object that is hashed lacks it.\<close>

definition public_research :: "hashing \<Rightarrow> services \<Rightarrow> pystr \<Rightarrow> jobj agent_result" where
  "public_research H w symbol = liftA (bindR (stock_context H (sv_desk w) symbol) (\<lambda>raw. let r = sv_research w raw in
     Inr (with_evidence H (filter (\<lambda>(k, v). k \<noteq> ''observed_at'') r) (get r ''observed_at''))))"

definition web_tools :: "string list" where
  "web_tools = [''search_public_web'', ''read_public_page'']"

definition same_symbol :: "gateway \<Rightarrow> json \<Rightarrow> unit agent_result" where
  "same_symbol g v = (case v of
       JStr s \<Rightarrow> andA (liftA (normalize_symbol s)) (\<lambda>s. if s \<noteq> gw_symbol g then Inl (Code ''AGENT_STOCK_SCOPE_REJECTED'') else Inr ())
     | _ \<Rightarrow> Inl (Code ''AGENT_ARGUMENTS_REJECTED''))"

definition scope_ok :: "jobj \<Rightarrow> bool" where
  "scope_ok args \<longleftrightarrow> (case dict_get args ''scope'' of None \<Rightarrow> True | Some v \<Rightarrow> v = jtext ''COMPANY'' \<or> v = jtext ''TOPIC'')"

definition web_arguments :: "string \<Rightarrow> jobj \<Rightarrow> bool" where
  "web_arguments name args \<longleftrightarrow>
     (if name = ''search_public_web'' then set (map fst args) \<in> {{''symbol'', ''query''}, {''symbol'', ''query'', ''scope''}} \<and> scope_ok args
      else set (map fst args) = {''symbol'', ''source_id''})"

definition arguments_ok :: "gateway \<Rightarrow> string \<Rightarrow> jobj \<Rightarrow> unit agent_result" where
  "arguments_ok g name args =
     (if name \<notin> {''get_stock_context'', ''get_workflow_health'', ''get_stock_research'', ''search_public_web'', ''read_public_page''}
      then Inl (Code ''AGENT_TOOL_NOT_ALLOWED'')
      else if name \<in> set web_tools then
        (if \<not> gw_web g then Inl (Code ''AGENT_TOOL_NOT_ALLOWED'')
         else if \<not> web_arguments name args then Inl (Code ''AGENT_ARGUMENTS_REJECTED'')
         else same_symbol g (get args ''symbol''))
      else if name = ''get_workflow_health'' then (if args \<noteq> [] then Inl (Code ''AGENT_ARGUMENTS_REJECTED'') else Inr ())
      else if set (map fst args) \<noteq> {''symbol''} then Inl (Code ''AGENT_ARGUMENTS_REJECTED'')
      else same_symbol g (get args ''symbol''))"

definition tool_payload :: "hashing \<Rightarrow> services \<Rightarrow> pystr \<Rightarrow> string \<Rightarrow> jobj agent_result" where
  "tool_payload H w symbol name =
     (if name = ''get_stock_context'' then public_stock H w symbol
      else if name = ''get_stock_research'' then public_research H w symbol
      else if name \<in> set web_tools then andA (sv_web w) (\<lambda>raw. Inr (with_evidence H raw (get raw ''retrieved_at'')))
      else Inr (public_health H w))"

definition evidence_id :: "jobj \<Rightarrow> pystr" where
  "evidence_id p = (case dict_get p ''evidence_id'' of Some (JStr s) \<Rightarrow> s | _ \<Rightarrow> [])"

text \<open>A call that fails or is late is counted all the same.\<close>

definition issue :: "hashing \<Rightarrow> services \<Rightarrow> jobj \<Rightarrow> gateway \<Rightarrow> jobj agent_result \<times> gateway" where
  "issue H w p g = (case check_active (snd (sv_stopped w)) (snd (sv_late w)) of
       Inl e \<Rightarrow> (Inl e, g)
     | Inr _ \<Rightarrow> if gw_max_bytes g < length (canonical H (JObj p)) then (Inl (Code ''AGENT_CONTEXT_TOO_LARGE''), g)
         else (Inr p, g\<lparr>gw_evidence := dict_set (gw_evidence g) (evidence_id p) p\<rparr>))"

definition call_tool :: "hashing \<Rightarrow> services \<Rightarrow> string \<Rightarrow> jobj \<Rightarrow> gateway \<Rightarrow> jobj agent_result \<times> gateway" where
  "call_tool H w name args g =
     (case andA (check_active (fst (sv_stopped w)) (fst (sv_late w))) (\<lambda>_. arguments_ok g name args) of
        Inl e \<Rightarrow> (Inl e, g)
      | Inr _ \<Rightarrow>
          if gw_max_calls g \<le> gw_calls g then (Inl (Code ''AGENT_TOOL_BUDGET_EXHAUSTED''), g)
          else let g = g\<lparr>gw_calls := Suc (gw_calls g)\<rparr> in
            (case tool_payload H w (gw_symbol g) name of
               Inl e \<Rightarrow> (Inl e, g)
             | Inr p \<Rightarrow> issue H w p (if name = ''get_stock_context'' then g\<lparr>gw_stock := Some (evidence_id p)\<rparr> else g)))"


section \<open>Explanations\<close>

record claim =
  cl_evidence :: pystr
  cl_path :: pystr
  cl_value :: json

record insight =
  in_evidence :: pystr
  in_observation :: pystr
  in_interpretation :: pystr
  in_sources :: "pystr list"

record conclusion =
  co_conclusion :: pystr
  co_insights :: "insight list"
  co_steps :: "pystr list"

record explanation =
  ex_symbol :: pystr
  ex_status :: pystr
  ex_summary :: pystr
  ex_supporting :: "pystr list"
  ex_opposing :: "pystr list"
  ex_missing :: "pystr list"
  ex_evidence :: "pystr list"
  ex_claims :: "claim list"
  ex_research :: "conclusion option"

text \<open>The declared models: no other field, no field of another type, and the declared bounds.\<close>

definition string_within :: "nat \<Rightarrow> nat \<Rightarrow> json option \<Rightarrow> pystr option" where
  "string_within lo hi v = (case v of Some (JStr s) \<Rightarrow> if lo \<le> length s \<and> length s \<le> hi then Some s else None | _ \<Rightarrow> None)"

definition is_evidence_id :: "pystr \<Rightarrow> bool" where
  "is_evidence_id s \<longleftrightarrow> length s = 71 \<and> take 7 s = py ''sha256:'' \<and> lower_hex (drop 7 s)"

definition evidence_field :: "json option \<Rightarrow> pystr option" where
  "evidence_field v = (case v of Some (JStr s) \<Rightarrow> if is_evidence_id s then Some s else None | _ \<Rightarrow> None)"

fun all_some :: "('a \<Rightarrow> 'b option) \<Rightarrow> 'a list \<Rightarrow> 'b list option" where
  "all_some f [] = Some []"
| "all_some f (x # xs) = Option.bind (f x) (\<lambda>y. Option.bind (all_some f xs) (\<lambda>ys. Some (y # ys)))"

definition list_within :: "nat \<Rightarrow> nat \<Rightarrow> (json \<Rightarrow> 'a option) \<Rightarrow> json option \<Rightarrow> 'a list option" where
  "list_within lo hi f v = (case v of Some (JList vs) \<Rightarrow> if lo \<le> length vs \<and> length vs \<le> hi then all_some f vs else None | _ \<Rightarrow> None)"

definition one_of :: "string list \<Rightarrow> json option \<Rightarrow> pystr option" where
  "one_of xs v = (case v of Some (JStr s) \<Rightarrow> if s \<in> set (map py xs) then Some s else None | _ \<Rightarrow> None)"

definition short_text :: "json \<Rightarrow> pystr option" where
  "short_text v = string_within 1 500 (Some v)"

definition any_text :: "json \<Rightarrow> pystr option" where
  "any_text v = (case v of JStr s \<Rightarrow> Some s | _ \<Rightarrow> None)"

definition only_keys :: "jobj \<Rightarrow> string list \<Rightarrow> bool" where
  "only_keys ob ks \<longleftrightarrow> set (map fst ob) \<subseteq> set ks"

definition scalar :: "json option \<Rightarrow> json option" where
  "scalar v = (case v of Some (JList _) \<Rightarrow> None | Some (JObj _) \<Rightarrow> None | Some (JDict _) \<Rightarrow> None | v \<Rightarrow> v)"

definition claim_of :: "json \<Rightarrow> claim option" where
  "claim_of v = (case v of
       JObj ob \<Rightarrow> if \<not> only_keys ob [''evidence_id'', ''field_path'', ''value''] then None
         else Option.bind (evidence_field (dict_get ob ''evidence_id'')) (\<lambda>e. Option.bind (string_within 1 128 (dict_get ob ''field_path'')) (\<lambda>p.
           Option.bind (scalar (dict_get ob ''value'')) (\<lambda>x. Some \<lparr>cl_evidence = e, cl_path = p, cl_value = x\<rparr>)))
     | _ \<Rightarrow> None)"

definition insight_of :: "json \<Rightarrow> insight option" where
  "insight_of v = (case v of
       JObj ob \<Rightarrow> if \<not> only_keys ob [''evidence_id'', ''observation_zh'', ''interpretation_zh'', ''source_ids''] then None
         else Option.bind (evidence_field (dict_get ob ''evidence_id'')) (\<lambda>e. Option.bind (string_within 1 500 (dict_get ob ''observation_zh'')) (\<lambda>a.
           Option.bind (string_within 1 500 (dict_get ob ''interpretation_zh'')) (\<lambda>b.
           Option.bind (case dict_get ob ''source_ids'' of None \<Rightarrow> Some [] | v \<Rightarrow> list_within 0 6 any_text v) (\<lambda>s.
           Some \<lparr>in_evidence = e, in_observation = a, in_interpretation = b, in_sources = s\<rparr>))))
     | _ \<Rightarrow> None)"

definition conclusions :: "string list" where
  "conclusions = [''WAIT_FOR_DATA'', ''RISK_REVIEW'', ''OBSERVE'', ''RESEARCH_CANDIDATE'']"

definition conclusion_of :: "json \<Rightarrow> conclusion option" where
  "conclusion_of v = (case v of
       JObj ob \<Rightarrow> if \<not> only_keys ob [''conclusion'', ''insights'', ''next_steps''] then None
         else Option.bind (one_of conclusions (dict_get ob ''conclusion'')) (\<lambda>c. Option.bind (list_within 1 6 insight_of (dict_get ob ''insights'')) (\<lambda>i.
           Option.bind (list_within 1 6 short_text (dict_get ob ''next_steps'')) (\<lambda>n. Some \<lparr>co_conclusion = c, co_insights = i, co_steps = n\<rparr>)))
     | _ \<Rightarrow> None)"

definition explanation_keys :: "string list" where
  "explanation_keys = [''schema_version'', ''mode'', ''symbol'', ''status'', ''summary_zh'', ''supporting_facts'', ''opposing_factors'', ''missing_conditions'',
     ''evidence_ids'', ''claims'', ''research'', ''manual_execution_required'']"

definition literal_or_absent :: "json option \<Rightarrow> json \<Rightarrow> bool" where
  "literal_or_absent v x \<longleftrightarrow> (case v of None \<Rightarrow> True | Some v \<Rightarrow> v = x)"

definition research_of :: "json option \<Rightarrow> conclusion option option" where
  "research_of v = (case v of None \<Rightarrow> Some None | Some JNull \<Rightarrow> Some None | Some v \<Rightarrow> Option.bind (conclusion_of v) (\<lambda>c. Some (Some c)))"

definition symbol_field :: "json option \<Rightarrow> pystr option" where
  "symbol_field v = (case v of Some (JStr s) \<Rightarrow> if length s = 6 \<and> (\<forall>c \<in> set s. is_nd c) then Some s else None | _ \<Rightarrow> None)"

definition explanation_parts :: "jobj \<Rightarrow> explanation option" where
  "explanation_parts ob =
     Option.bind (symbol_field (dict_get ob ''symbol'')) (\<lambda>s.
     Option.bind (one_of [''FACTS_ONLY'', ''LIMITED'', ''UNAVAILABLE''] (dict_get ob ''status'')) (\<lambda>st.
     Option.bind (string_within 1 2000 (dict_get ob ''summary_zh'')) (\<lambda>z.
     Option.bind (list_within 0 12 short_text (dict_get ob ''supporting_facts'')) (\<lambda>f.
     Option.bind (list_within 0 12 short_text (dict_get ob ''opposing_factors'')) (\<lambda>g.
     Option.bind (list_within 0 64 short_text (dict_get ob ''missing_conditions'')) (\<lambda>m.
     Option.bind (list_within 1 6 any_text (dict_get ob ''evidence_ids'')) (\<lambda>e.
     Option.bind (list_within 0 24 claim_of (dict_get ob ''claims'')) (\<lambda>c.
     Option.bind (research_of (dict_get ob ''research'')) (\<lambda>r.
     Some \<lparr>ex_symbol = s, ex_status = st, ex_summary = z, ex_supporting = f, ex_opposing = g, ex_missing = m, ex_evidence = e, ex_claims = c,
       ex_research = r\<rparr>)))))))))"

definition explanation_of :: "json \<Rightarrow> explanation option" where
  "explanation_of v = (case v of
       JObj ob \<Rightarrow> if \<not> only_keys ob explanation_keys \<or> \<not> literal_or_absent (dict_get ob ''schema_version'') (JInt 1)
           \<or> \<not> literal_or_absent (dict_get ob ''mode'') (jtext ''AGENT_ANALYSIS'') \<or> \<not> literal_or_absent (dict_get ob ''manual_execution_required'') (JBool True)
         then None else explanation_parts ob
     | _ \<Rightarrow> None)"

section \<open>Checking an explanation\<close>

definition ids_of_tool :: "gateway \<Rightarrow> string list \<Rightarrow> pystr list" where
  "ids_of_tool g ts = map fst (filter (\<lambda>(i, p). get p ''tool'' \<in> set (map jtext ts)) (gw_evidence g))"

definition evidence_at :: "gateway \<Rightarrow> pystr \<Rightarrow> jobj" where
  "evidence_at g i = (case dict_get (gw_evidence g) i of None \<Rightarrow> [] | Some p \<Rightarrow> p)"

text \<open>The evidence of a tool was handed out as it is now.\<close>

definition still_current :: "gateway \<Rightarrow> string \<Rightarrow> pystr agent_result \<Rightarrow> unit agent_result" where
  "still_current g tool now = (if ids_of_tool g [tool] = [] then Inr ()
     else andA now (\<lambda>i. if set (ids_of_tool g [tool]) \<noteq> {i} then Inl (Code ''AGENT_EVIDENCE_CHANGED'') else Inr ()))"

definition ids_cited :: "gateway \<Rightarrow> explanation \<Rightarrow> unit agent_result" where
  "ids_cited g a = (case gw_stock g of
       None \<Rightarrow> Inl (Code ''AGENT_EVIDENCE_MISSING'')
     | Some i \<Rightarrow> if ex_symbol a \<noteq> gw_symbol g \<or> i \<notin> set (ex_evidence a) \<or> \<not> set (ex_evidence a) \<subseteq> set (map fst (gw_evidence g))
         then Inl (Code ''AGENT_EVIDENCE_MISSING'') else Inr ())"

definition blocking_of :: "gateway \<Rightarrow> json list" where
  "blocking_of g = (case gw_stock g of None \<Rightarrow> [] | Some i \<Rightarrow> items_of (get (evidence_at g i) ''blocking_reasons''))"

definition blocking_named :: "gateway \<Rightarrow> explanation \<Rightarrow> unit agent_result" where
  "blocking_named g a =
     (if \<not> set (blocking_of g) \<subseteq> set (map JStr (ex_missing a)) \<or> blocking_of g \<noteq> [] \<and> ex_status a = py ''FACTS_ONLY''
      then Inl (Code ''AGENT_BLOCKING_CONDITIONS_OMITTED'') else Inr ())"

definition sources_of :: "gateway \<Rightarrow> pystr \<Rightarrow> (pystr \<times> json) list" where
  "sources_of g i = (case get (evidence_at g i) ''sources'' of JDict d \<Rightarrow> d | _ \<Rightarrow> [])"

definition insight_ok :: "gateway \<Rightarrow> explanation \<Rightarrow> insight \<Rightarrow> bool" where
  "insight_ok g a x \<longleftrightarrow> in_evidence x \<in> set (ex_evidence a) \<and> set (in_sources x) \<subseteq> set (map fst (sources_of g (in_evidence x)))
     \<and> (sources_of g (in_evidence x) = [] \<or> in_sources x \<noteq> [])"

definition research_ok :: "gateway \<Rightarrow> explanation \<Rightarrow> unit agent_result" where
  "research_ok g a = (case ex_research a of
       None \<Rightarrow> Inr ()
     | Some c \<Rightarrow>
         let research = ids_of_tool g [''get_stock_research'']; web = ids_of_tool g web_tools in
         if research = [] \<or> \<not> set research \<subseteq> set (ex_evidence a) then Inl (Code ''AGENT_RESEARCH_EVIDENCE_MISSING'')
         else if blocking_of g \<noteq> [] \<and> co_conclusion c = py ''RESEARCH_CANDIDATE'' then Inl (Code ''AGENT_BLOCKING_CONDITIONS_OMITTED'')
         else if \<not> set web \<subseteq> set (ex_evidence a) then Inl (Code ''AGENT_WEB_EVIDENCE_MISSING'')
         else if (\<exists>i \<in> set web. sources_of g i \<noteq> []) \<and> \<not> (\<exists>x \<in> set (co_insights c). in_evidence x \<in> set web \<and> in_sources x \<noteq> [])
         then Inl (Code ''AGENT_WEB_INSIGHT_MISSING'')
         else if \<not> list_all (insight_ok g a) (co_insights c) then Inl (Code ''AGENT_CLAIM_NOT_CITED'') else Inr ())"

text \<open>The value at a dotted path.\<close>

definition step_into :: "json \<Rightarrow> pystr \<Rightarrow> json option" where
  "step_into v k = (case v of JObj ob \<Rightarrow> map_option snd (find (\<lambda>x. py (fst x) = k) ob) | JDict d \<Rightarrow> dict_get d k | _ \<Rightarrow> None)"

fun value_at :: "json \<Rightarrow> pystr list \<Rightarrow> json option" where
  "value_at v [] = Some v"
| "value_at v (k # ks) = (case step_into v k of None \<Rightarrow> None | Some v' \<Rightarrow> value_at v' ks)"

definition claim_ok :: "hashing \<Rightarrow> gateway \<Rightarrow> explanation \<Rightarrow> claim \<Rightarrow> unit agent_result" where
  "claim_ok H g a c =
     (if cl_evidence c \<notin> set (ex_evidence a) then Inl (Code ''AGENT_CLAIM_NOT_CITED'')
      else case value_at (JObj (evidence_at g (cl_evidence c))) (py_split 46 (cl_path c)) of
        None \<Rightarrow> Inl (Code ''AGENT_FIELD_NOT_FOUND'')
      | Some v \<Rightarrow> if canonical H v \<noteq> canonical H (cl_value c) then Inl (Code ''AGENT_VALUE_MISMATCH'') else Inr ())"

fun each_ok :: "('a \<Rightarrow> unit agent_result) \<Rightarrow> 'a list \<Rightarrow> unit agent_result" where
  "each_ok f [] = Inr ()"
| "each_ok f (x # xs) = andA (f x) (\<lambda>_. each_ok f xs)"

definition stock_current :: "hashing \<Rightarrow> services \<Rightarrow> gateway \<Rightarrow> unit agent_result" where
  "stock_current H w g = andA (public_stock H w (gw_symbol g)) (\<lambda>p. if gw_stock g \<noteq> Some (evidence_id p) then Inl (Code ''AGENT_EVIDENCE_CHANGED'') else Inr ())"

definition validate_explanation :: "hashing \<Rightarrow> services \<Rightarrow> gateway \<Rightarrow> json \<Rightarrow> explanation agent_result" where
  "validate_explanation H w g v =
     andA (check_active (fst (sv_stopped w)) (fst (sv_late w))) (\<lambda>_.
     case explanation_of v of
       None \<Rightarrow> Inl Schema
     | Some a \<Rightarrow>
         andA (ids_cited g a) (\<lambda>_.
         andA (stock_current H w g) (\<lambda>_.
         andA (still_current g ''get_workflow_health'' (Inr (evidence_id (public_health H w)))) (\<lambda>_.
         andA (still_current g ''get_stock_research'' (andA (public_research H w (gw_symbol g)) (\<lambda>p. Inr (evidence_id p)))) (\<lambda>_.
         andA (blocking_named g a) (\<lambda>_.
         andA (research_ok g a) (\<lambda>_.
         andA (each_ok (claim_ok H g a) (ex_claims a)) (\<lambda>_.
         andA (check_active (snd (sv_stopped w)) (snd (sv_late w))) (\<lambda>_. Inr a)))))))))"

end
