(* ===== verification/Agent_Runtime.thy ===== *)
theory Agent_Runtime
  imports Agent_Budget Agent_Tools
begin

text \<open>
  A task of the workbench agent (\<^verbatim>\<open>workbench/agent_runtime.py\<close>): the evidence that is gathered before the model is asked, the
  requests to the model with their reservations, the tool calls that it makes, the checks of its answer and the state that the task
  ends in; and the table of tasks.

  The model is an argument: what it answers to the messages of a request.  So are, for each step, the services that the tools
  find, the date, the writes of the budget file that fail and whether the task was cancelled.
\<close>

section \<open>What an answer may not say\<close>

definition starts_with :: "pystr \<Rightarrow> pystr \<Rightarrow> bool" where
  "starts_with p s \<longleftrightarrow> take (length p) s = p"

definition promises :: "pystr list" where
  "promises = [[0x4FDD, 0x8BC1, 0x6536, 0x76CA], [0x7A33, 0x8D5A], [0x5FC5, 0x6DA8], [0x5FC5, 0x8DCC], [0x5EFA, 0x8BAE, 0x4E70, 0x5165], 
    [0x5EFA, 0x8BAE, 0x5356, 0x51FA], [0x7ACB, 0x5373, 0x4E70], [0x7ACB, 0x5373, 0x5356]]"

definition numerals :: "int list" where
  "numerals = [0x4E00, 0x4E8C, 0x4E09, 0x56DB, 0x4E94, 0x516D, 0x4E03, 0x516B, 0x4E5D, 0x5341, 0x767E, 0x5343, 0x4E07, 0x4E24, 0x96F6, 0x70B9]"

definition tens :: "int list" where
  "tens = [0x4E00, 0x4E8C, 0x4E09, 0x56DB, 0x4E94, 0x516D, 0x4E03, 0x516B, 0x4E5D, 0x5341]"

definition units :: "int list" where
  "units = [0x5143, 0x80A1, 0x500D]"

definition percent_of :: pystr where
  "percent_of = [0x767E, 0x5206, 0x4E4B]"

definition is_amount_char :: "int \<Rightarrow> bool" where
  "is_amount_char c \<longleftrightarrow> 48 \<le> c \<and> c \<le> 57 \<or> 0xFF10 \<le> c \<and> c \<le> 0xFF19 \<or> c = 37 \<or> c = 0xFF05"

fun unsafe_text :: "pystr \<Rightarrow> bool" where
  "unsafe_text [] = False"
| "unsafe_text (c # cs) \<longleftrightarrow> is_amount_char c \<or> list_ex (\<lambda>p. starts_with p (c # cs)) promises
     \<or> c \<in> set numerals \<and> cs \<noteq> [] \<and> hd cs \<in> set units
     \<or> starts_with percent_of (c # cs) \<and> drop 3 (c # cs) \<noteq> [] \<and> hd (drop 3 (c # cs)) \<in> set tens \<or> unsafe_text cs"

definition passages :: "explanation \<Rightarrow> pystr list" where
  "passages a = ex_summary a # ex_supporting a @ ex_opposing a @ (case ex_research a of None \<Rightarrow> []
     | Some c \<Rightarrow> co_steps c @ concat (map (\<lambda>x. [in_observation x, in_interpretation x]) (co_insights c)))"

fun joined_text :: "pystr list \<Rightarrow> pystr" where
  "joined_text [] = []"
| "joined_text [s] = s"
| "joined_text (s # ss) = s @ 32 # joined_text ss"

text \<open>Claims that the announcements were checked, and the negations that may stand before one.\<close>

definition clearances :: "pystr list" where
  "clearances = [[0x5DF2, 0x67E5, 0x672A, 0x89E6, 0x53D1], [0x516C, 0x544A, 0x68C0, 0x67E5, 0x4E3A, 0x5DF2, 0x68C0, 0x67E5], 
    [0x516C, 0x544A, 0x98CE, 0x9669, 0x5DF2, 0x6838, 0x9A8C], [0x516C, 0x544A, 0x5DF2, 0x6838, 0x9A8C], 
    [0x516C, 0x544A, 0x98CE, 0x9669, 0x5DF2, 0x67E5, 0x65E0, 0x98CE, 0x9669], 
    [0x516C, 0x544A, 0x5DF2, 0x67E5, 0x65E0, 0x98CE, 0x9669]]"

definition negations :: "pystr list" where
  "negations =
    [[0x4E0D, 0x80FD, 0x636E, 0x6B64, 0x89C6, 0x4E3A], [0x4E0D, 0x80FD, 0x636E, 0x6B64, 0x8BA4, 0x5B9A], 
     [0x4E0D, 0x80FD, 0x636E, 0x6B64, 0x58F0, 0x79F0], [0x4E0D, 0x80FD, 0x636E, 0x6B64, 0x8BA4, 0x4E3A], 
     [0x4E0D, 0x80FD, 0x636E, 0x6B64, 0x8BF4], [0x4E0D, 0x80FD, 0x636E, 0x6B64, 0x8BF4, 0x660E], 
     [0x4E0D, 0x80FD, 0x636E, 0x6B64, 0x8868, 0x8FF0, 0x4E3A], [0x4E0D, 0x80FD, 0x89C6, 0x4E3A], 
     [0x4E0D, 0x80FD, 0x8BA4, 0x5B9A], [0x4E0D, 0x80FD, 0x58F0, 0x79F0], [0x4E0D, 0x80FD, 0x8BA4, 0x4E3A], 
     [0x4E0D, 0x80FD, 0x8BF4], [0x4E0D, 0x80FD, 0x8BF4, 0x660E], [0x4E0D, 0x80FD, 0x8868, 0x8FF0, 0x4E3A], 
     [0x4E0D, 0x4EE3, 0x8868], [0x4E0D, 0x7B49, 0x4E8E], [0x5E76, 0x975E], [0x4E0D, 0x53EF, 0x89C6, 0x4E3A], 
     [0x4E0D, 0x53EF, 0x8BA4, 0x5B9A], [0x4E0D, 0x53EF, 0x58F0, 0x79F0], [0x4E0D, 0x5F97, 0x8BA4, 0x5B9A], 
     [0x4E0D, 0x5F97, 0x58F0, 0x79F0], [0x4E0D, 0x5F97, 0x5BA3, 0x79F0], [0x5C1A, 0x672A], [0x5E76, 0x672A], [0x672A]]"

definition quote_marks :: "int list" where
  "quote_marks = [0x2018, 0x201C, 0x22, 0x27, 0x300C, 0x300E]"

definition clause_ends :: "int list" where
  "clause_ends = [0xFF0C, 0x3002, 0xFF1B, 0xFF01, 0xFF1F, 0xA]"

definition clearance_length :: "pystr \<Rightarrow> nat option" where
  "clearance_length s = map_option length (find (\<lambda>p. starts_with p s) clearances)"

definition negated_length :: "pystr \<Rightarrow> pystr \<Rightarrow> nat option" where
  "negated_length s n = (if \<not> starts_with n s then None
     else let r = drop (length n) s; q = length (takeWhile (\<lambda>c. c \<in> set quote_marks) r) in
       map_option (\<lambda>k. length n + q + k) (clearance_length (drop q r)))"

definition negated_at :: "pystr \<Rightarrow> nat option" where
  "negated_at s = (case find (\<lambda>n. negated_length s n \<noteq> None) negations of None \<Rightarrow> None | Some n \<Rightarrow> negated_length s n)"

text \<open>A clause without its negated claims.\<close>

function without_negated :: "pystr \<Rightarrow> pystr" where
  "without_negated [] = []"
| "without_negated (c # cs) = (case negated_at (c # cs) of None \<Rightarrow> c # without_negated cs | Some k \<Rightarrow> without_negated (drop (k - 1) cs))"
  by pat_completeness auto
termination by (relation "measure length") auto

fun clauses :: "pystr \<Rightarrow> pystr list" where
  "clauses [] = [[]]"
| "clauses (c # cs) = (if c \<in> set clause_ends then [] # clauses cs else (case clauses cs of [] \<Rightarrow> [[c]] | x # xs \<Rightarrow> (c # x) # xs))"

definition claims_clearance :: "pystr \<Rightarrow> bool" where
  "claims_clearance s \<longleftrightarrow> list_ex (\<lambda>x. list_ex (\<lambda>p. py_contains p (without_negated x)) clearances) (clauses s)"

definition validate_text :: "explanation \<Rightarrow> jobj \<Rightarrow> unit agent_result" where
  "validate_text a stock =
     (if unsafe_text (joined_text (passages a)) then Inl (Code ''AGENT_UNSUPPORTED_FREE_TEXT'')
      else if get (obj_of (get stock ''event_risk'')) ''level'' \<noteq> jtext ''CLEAR'' \<and> list_ex claims_clearance (passages a)
      then Inl (Code ''AGENT_RISK_STATUS_CONTRADICTION'') else Inr ())"

section \<open>Gathering the evidence\<close>

record task =
  tk_id :: pystr
  tk_symbol :: pystr
  tk_question :: string
  tk_web :: bool

record tool_request =
  tc_function :: bool
  tc_name :: json
  tc_arguments :: "json option"
  tc_id :: json

record reply =
  rp_usage :: "(int \<times> int) option"
  rp_model :: pystr
  rp_message :: json
  rp_calls :: "tool_request list option"
  rp_content :: "json agent_result"

text \<open>The outside of a task: step \<open>n\<close> of the task is its \<open>n\<close>-th request, and step 0 comes before the first one.\<close>

record outside =
  en_services :: "nat \<Rightarrow> nat \<Rightarrow> services"
  en_model :: "nat \<Rightarrow> json list \<Rightarrow> reply agent_result"
  en_stopped :: "nat \<Rightarrow> bool"
  en_day :: "nat \<Rightarrow> pystr"
  en_writes :: "nat \<Rightarrow> pyerror option \<times> pyerror option"
  en_first :: "jobj \<Rightarrow> jobj option \<Rightarrow> jobj option \<Rightarrow> jobj list \<Rightarrow> nat \<Rightarrow> json list"
  en_tools_size :: nat
  en_probe :: "string option"
  en_close :: "agent_error option"
  en_fresh :: bool

text \<open>Steps that may raise and keep their effects when they do.\<close>

type_synonym ('s, 'a) agent_step = "'s \<Rightarrow> 'a agent_result \<times> 's"

definition andT :: "('s, 'a) agent_step \<Rightarrow> ('a \<Rightarrow> ('s, 'b) agent_step) \<Rightarrow> ('s, 'b) agent_step" where
  "andT m f = (\<lambda>r. case m r of (Inl e, r') \<Rightarrow> (Inl e, r') | (Inr x, r') \<Rightarrow> f x r')"

definition liftT :: "'a agent_result \<Rightarrow> ('s, 'a) agent_step" where
  "liftT x = (\<lambda>r. (x, r))"

definition returnT :: "'a \<Rightarrow> ('s, 'a) agent_step" where
  "returnT x = liftT (Inr x)"

record gathered =
  ga_stock :: jobj
  ga_research :: "jobj option"
  ga_web :: "jobj list"
  ga_workflow :: "jobj option"

definition default_query :: pystr where
  "default_query = [0x6700, 0x65B0, 0x20, 0x516C, 0x544A, 0x20, 0x884C, 0x4E1A, 0x20, 0x653F, 0x7B56, 0x20, 0x98CE, 0x9669]"

definition title_names :: "json \<Rightarrow> json \<Rightarrow> bool" where
  "title_names name source = (case (name, get (obj_of source) ''title'') of (JStr p, JStr t) \<Rightarrow> py_contains p t | _ \<Rightarrow> False)"

definition chosen_source :: "task \<Rightarrow> jobj \<Rightarrow> jobj \<Rightarrow> pystr option" where
  "chosen_source tk stock web =
     (let name = either (get web ''web_reported_name'') (get stock ''name''); sources = (case get web ''sources'' of JDict d \<Rightarrow> d | _ \<Rightarrow> []) in
      case find (\<lambda>(k, v). title_names name v \<or> title_names (JStr (tk_symbol tk)) v) sources of
        Some (k, _) \<Rightarrow> Some k
      | None \<Rightarrow> if get stock ''name'' = JStr (tk_symbol tk) then (case sources of [] \<Rightarrow> None | (k, _) # _ \<Rightarrow> Some k) else None)"

definition symbol_argument :: "task \<Rightarrow> jobj" where
  "symbol_argument tk = [(''symbol'', JStr (tk_symbol tk))]"

definition gather_web :: "hashing \<Rightarrow> outside \<Rightarrow> task \<Rightarrow> jobj \<Rightarrow> (gateway, jobj list) agent_step" where
  "gather_web H en tk stock =
     andT (call_tool H (en_services en 0 2) ''search_public_web'' (symbol_argument tk @ [(''query'', JStr default_query)])) (\<lambda>web.
     case chosen_source tk stock web of
       None \<Rightarrow> returnT [web]
     | Some k \<Rightarrow> andT (call_tool H (en_services en 0 3) ''read_public_page'' (symbol_argument tk @ [(''source_id'', JStr k)])) (\<lambda>page. returnT [web, page]))"

definition gather :: "hashing \<Rightarrow> outside \<Rightarrow> task \<Rightarrow> (gateway, gathered) agent_step" where
  "gather H en tk =
     andT (call_tool H (en_services en 0 0) ''get_stock_context'' (symbol_argument tk)) (\<lambda>stock.
     andT (if tk_question tk = ''research'' then andT (call_tool H (en_services en 0 1) ''get_stock_research'' (symbol_argument tk)) (\<lambda>p. returnT (Some p))
           else returnT None) (\<lambda>research.
     andT (if tk_web tk then gather_web H en tk stock else returnT []) (\<lambda>web.
     andT (if tk_question tk = ''workflow'' then andT (call_tool H (en_services en 0 4) ''get_workflow_health'' []) (\<lambda>p. returnT (Some p)) else returnT None)
       (\<lambda>workflow. returnT \<lparr>ga_stock = stock, ga_research = research, ga_web = web, ga_workflow = workflow\<rparr>))))"

section \<open>Asking the model\<close>

record run =
  rn_gateway :: gateway
  rn_disk :: disk
  rn_usd :: rat
  rn_cny :: rat
  rn_requests :: nat
  rn_messages :: "json list"

type_synonym 'a run_step = "(run, 'a) agent_step"

definition on_run_gateway :: "(gateway, 'a) agent_step \<Rightarrow> 'a run_step" where
  "on_run_gateway m = (\<lambda>r. case m (rn_gateway r) of (x, g) \<Rightarrow> (x, r\<lparr>rn_gateway := g\<rparr>))"

definition message_size :: "hashing \<Rightarrow> run \<Rightarrow> nat" where
  "message_size H r = length (canonical H (JList (rn_messages r)))"

text \<open>An upper bound of the tokens of a request.\<close>

definition input_bound :: "hashing \<Rightarrow> outside \<Rightarrow> run \<Rightarrow> int" where
  "input_bound H en r = int (message_size H r + en_tools_size en + 4096)"

definition reserve_request :: "outside \<Rightarrow> agent_config \<Rightarrow> nat \<Rightarrow> int \<Rightarrow> unit run_step" where
  "reserve_request en cf n i = (\<lambda>r. if ac_backend cf = LOCAL then (Inr (), r\<lparr>rn_requests := Suc (rn_requests r)\<rparr>)
     else case reserve cf (en_day en n) (fst (en_writes en n)) (Fin (cost_usd i (ac_output cf))) (Fin (rn_usd r)) (Some (Fin (cost_cny i (ac_output cf)))) (rn_disk r) of
       (Inl e, s) \<Rightarrow> (Inl (Raises_error e), r\<lparr>rn_disk := s\<rparr>)
     | (Inr _, s) \<Rightarrow> (Inr (), r\<lparr>rn_disk := s, rn_usd := dadd (rn_usd r) (cost_usd i (ac_output cf)),
         rn_cny := dadd (rn_cny r) (cost_cny i (ac_output cf)), rn_requests := Suc (rn_requests r)\<rparr>))"

definition settle_request :: "outside \<Rightarrow> agent_config \<Rightarrow> nat \<Rightarrow> int \<Rightarrow> (int \<times> int) option \<Rightarrow> unit run_step" where
  "settle_request en cf n i usage = (\<lambda>r. case usage of None \<Rightarrow> (Inr (), r)
     | Some (a, b) \<Rightarrow>
         if ac_backend cf = LOCAL then (Inr (), r)
         else case settle (en_day en n) (snd (en_writes en n)) (Fin (cost_usd i (ac_output cf))) (Some (Fin (cost_usd a b)))
             (Some (Fin (cost_cny i (ac_output cf)))) (Some (Fin (cost_cny a b))) (rn_disk r) of
           (Inl e, s) \<Rightarrow> (Inl (Raises_error e), r\<lparr>rn_disk := s\<rparr>)
         | (Inr _, s) \<Rightarrow> (Inr (), r\<lparr>rn_disk := s, rn_usd := dadd (rn_usd r) (dsub (cost_usd a b) (cost_usd i (ac_output cf))),
             rn_cny := dadd (rn_cny r) (dsub (cost_cny a b) (cost_cny i (ac_output cf)))\<rparr>))"

definition cloud_model :: pystr where
  "cloud_model = py ''deepseek-flash''"

definition reply_ok :: "hashing \<Rightarrow> agent_config \<Rightarrow> reply \<Rightarrow> tool_request list agent_result" where
  "reply_ok H cf rp =
     (if ac_backend cf = CLOUD \<and> rp_model rp \<noteq> cloud_model then Inl (Code ''AGENT_MODEL_MISMATCH'')
      else if 32768 < length (canonical H (rp_message rp)) then Inl (Code ''AGENT_REPLY_TOO_LARGE'')
      else case rp_calls rp of
        None \<Rightarrow> Inl (Code ''AGENT_TOOL_BUDGET_EXHAUSTED'')
      | Some cs \<Rightarrow> if ac_tool_calls cf < int (length cs) then Inl (Code ''AGENT_TOOL_BUDGET_EXHAUSTED'') else Inr cs)"

text \<open>The name of a tool as the program spells it; one that it does not know is no tool.\<close>

definition tool_called :: "pystr \<Rightarrow> string" where
  "tool_called t = (case find (\<lambda>k. py k = t) (''get_stock_context'' # ''get_workflow_health'' # ''get_stock_research'' # web_tools) of
     Some k \<Rightarrow> k | None \<Rightarrow> [])"

definition tool_arguments :: "tool_request \<Rightarrow> (string \<times> jobj) agent_result" where
  "tool_arguments c =
     (if \<not> tc_function c then Inl (Code ''AGENT_TOOL_NOT_ALLOWED'')
      else case tc_arguments c of
        None \<Rightarrow> Inl Bad_json
      | Some (JObj ob) \<Rightarrow> (case tc_name c of JStr t \<Rightarrow> Inr (tool_called t, ob) | _ \<Rightarrow> Inl (Code ''AGENT_ARGUMENTS_REJECTED''))
      | Some _ \<Rightarrow> Inl (Code ''AGENT_ARGUMENTS_REJECTED''))"

definition tool_message :: "agent_config \<Rightarrow> tool_request \<Rightarrow> jobj \<Rightarrow> json agent_result" where
  "tool_message cf c p =
     (let m = [(''role'', jtext ''tool''), (''content'', JObj p)] in
      if ac_backend cf = LOCAL then Inr (JObj (m @ [(''tool_name'', tc_name c)]))
      else case tc_id c of
        JStr i \<Rightarrow> if i = [] then Inl (Code ''AGENT_TOOL_ID_MISSING'') else Inr (JObj (m @ [(''tool_call_id'', JStr i)]))
      | _ \<Rightarrow> Inl (Code ''AGENT_TOOL_ID_MISSING''))"

definition add_message :: "json \<Rightarrow> unit run_step" where
  "add_message m = (\<lambda>r. (Inr (), r\<lparr>rn_messages := rn_messages r @ [m]\<rparr>))"

fun answer_calls :: "hashing \<Rightarrow> outside \<Rightarrow> agent_config \<Rightarrow> nat \<Rightarrow> nat \<Rightarrow> tool_request list \<Rightarrow> unit run_step" where
  "answer_calls H en cf n k [] = returnT ()"
| "answer_calls H en cf n k (c # cs) =
     andT (liftT (tool_arguments c)) (\<lambda>(name, args).
     andT (on_run_gateway (call_tool H (en_services en n k) name args)) (\<lambda>p.
     andT (liftT (tool_message cf c p)) (\<lambda>m.
     andT (add_message m) (\<lambda>_. answer_calls H en cf n (Suc k) cs))))"

definition checked_answer :: "hashing \<Rightarrow> services \<Rightarrow> gathered \<Rightarrow> gateway \<Rightarrow> json \<Rightarrow> (json \<times> explanation) agent_result" where
  "checked_answer H w ga g v = andA (validate_explanation H w g v) (\<lambda>a.
     if ga_research ga \<noteq> None \<and> ex_research a = None then Inl (Code ''AGENT_RESEARCH_MISSING'')
     else andA (validate_text a (ga_stock ga)) (\<lambda>_. Inr (v, a)))"

definition final_answer :: "hashing \<Rightarrow> outside \<Rightarrow> nat \<Rightarrow> gathered \<Rightarrow> json agent_result \<Rightarrow> (json \<times> explanation) run_step" where
  "final_answer H en n ga content = (\<lambda>r. (andA content (checked_answer H (en_services en n 0) ga (rn_gateway r)), r))"

definition after_reply :: "hashing \<Rightarrow> outside \<Rightarrow> agent_config \<Rightarrow> nat \<Rightarrow> gathered \<Rightarrow> reply \<Rightarrow> (json \<times> explanation) option run_step" where
  "after_reply H en cf n ga rp =
     andT (liftT (reply_ok H cf rp)) (\<lambda>cs.
     if cs \<noteq> [] then andT (add_message (rp_message rp)) (\<lambda>_. andT (answer_calls H en cf n 0 cs) (\<lambda>_. returnT None))
     else andT (final_answer H en n ga (rp_content rp)) (\<lambda>x. returnT (Some x)))"

definition one_request :: "hashing \<Rightarrow> outside \<Rightarrow> agent_config \<Rightarrow> gathered \<Rightarrow> nat \<Rightarrow> (json \<times> explanation) option run_step" where
  "one_request H en cf ga n = (\<lambda>r.
     if en_stopped en n then (Inl Cancelled_task, r)
     else if ac_context cf < int (message_size H r) then (Inl (Code ''AGENT_CONTEXT_TOO_LARGE''), r)
     else let i = input_bound H en r in
       andT (reserve_request en cf n i) (\<lambda>_.
       andT (liftT (en_model en n (rn_messages r))) (\<lambda>rp.
       andT (settle_request en cf n i (rp_usage rp)) (\<lambda>_. after_reply H en cf n ga rp))) r)"

fun requests :: "hashing \<Rightarrow> outside \<Rightarrow> agent_config \<Rightarrow> gathered \<Rightarrow> nat \<Rightarrow> nat \<Rightarrow> (json \<times> explanation) run_step" where
  "requests H en cf ga n 0 = liftT (Inl (Code ''AGENT_MODEL_BUDGET_EXHAUSTED''))"
| "requests H en cf ga n (Suc k) = andT (one_request H en cf ga n) (\<lambda>x. case x of None \<Rightarrow> requests H en cf ga (Suc n) k | Some y \<Rightarrow> returnT y)"

section \<open>A task\<close>

datatype task_end = Succeeded explanation | Ended string string

type_synonym cache_key = "agent_config \<times> pystr \<times> string \<times> pystr option"

type_synonym answers = "(cache_key \<times> json) list"

definition task_config :: "agent_config \<Rightarrow> task \<Rightarrow> agent_config" where
  "task_config cf tk = (if tk_question tk = ''research'' then cf\<lparr>ac_output := 2048, ac_context := 32768\<rparr> else cf)"

definition key_of :: "agent_config \<Rightarrow> task \<Rightarrow> gathered \<Rightarrow> cache_key" where
  "key_of cf tk ga = (cf, evidence_id (ga_stock ga), tk_question tk, map_option evidence_id (ga_research ga))"

definition remembered :: "outside \<Rightarrow> answers \<Rightarrow> agent_config \<Rightarrow> task \<Rightarrow> gathered \<Rightarrow> json option" where
  "remembered en cache cf tk ga =
     (if en_fresh en \<and> tk_question tk \<noteq> ''workflow'' \<and> \<not> tk_web tk then dict_get cache (key_of cf tk ga) else None)"

definition last_16 :: "'a list \<Rightarrow> 'a list" where
  "last_16 xs = drop (length xs - 16) xs"

definition first_run :: "outside \<Rightarrow> agent_config \<Rightarrow> gathered \<Rightarrow> disk \<Rightarrow> gateway \<Rightarrow> run" where
  "first_run en cf ga s g = \<lparr>rn_gateway = g, rn_disk = s, rn_usd = 0, rn_cny = 0, rn_requests = 0,
     rn_messages = en_first en (ga_stock ga) (ga_workflow ga) (ga_research ga) (ga_web ga) (nat (ac_tool_calls cf) - gw_calls g)\<rparr>"

text \<open>The state a task ends in when it raises.\<close>

definition is_code :: "string \<Rightarrow> bool" where
  "is_code s \<longleftrightarrow> take 6 s = ''AGENT_'' \<and> 6 < length s
     \<and> list_all (\<lambda>c. c = CHR ''_'' \<or> (65 :: nat) \<le> of_char c \<and> of_char c \<le> (90 :: nat)) (drop 6 s)"

fun error_text :: "pyerror \<Rightarrow> string" where
  "error_text (ValueError s) = s"
| "error_text (RuntimeError s) = s"
| "error_text e = []"

fun ending_of :: "agent_error \<Rightarrow> task_end" where
  "ending_of Cancelled_task = Ended ''CANCELLED'' []"
| "ending_of Timed_out = Ended ''TIMEOUT'' []"
| "ending_of Schema = Ended ''FAILED'' ''AGENT_OUTPUT_SCHEMA_INVALID''"
| "ending_of Bad_json = Ended ''FAILED'' ''AGENT_JSON_INVALID''"
| "ending_of (Code s) = Ended ''FAILED'' s"
| "ending_of (Raises_error e) =
     (if error_text e = ''BUDGET_EXHAUSTED'' then Ended ''BUDGET_EXHAUSTED'' ''BUDGET_EXHAUSTED''
      else Ended ''FAILED'' (if is_code (error_text e) then error_text e else error_name e))"

text \<open>The provider is closed whatever happened: an error of that replaces the end of the task.\<close>

definition closed :: "outside \<Rightarrow> task_end \<Rightarrow> task_end" where
  "closed en e = (case en_close en of None \<Rightarrow> e | Some x \<Rightarrow> ending_of x)"

definition ask_model :: "hashing \<Rightarrow> outside \<Rightarrow> agent_config \<Rightarrow> task \<Rightarrow> gathered \<Rightarrow> answers \<Rightarrow> disk \<Rightarrow> gateway \<Rightarrow> task_end \<times> disk \<times> answers" where
  "ask_model H en cf tk ga cache s g = (case remembered en cache cf tk ga of
       Some v \<Rightarrow> (case validate_explanation H (en_services en 1 0) g v of Inl e \<Rightarrow> (ending_of e, s, cache) | Inr a \<Rightarrow> (Succeeded a, s, cache))
     | None \<Rightarrow> (case requests H en cf ga 1 (nat (ac_requests cf)) (first_run en cf ga s g) of
         (Inl e, r) \<Rightarrow> (ending_of e, rn_disk r, cache)
       | (Inr (v, a), r) \<Rightarrow> (Succeeded a, rn_disk r, last_16 (dict_set cache (key_of cf tk ga) v))))"

definition with_provider :: "hashing \<Rightarrow> outside \<Rightarrow> agent_config \<Rightarrow> task \<Rightarrow> gathered \<Rightarrow> answers \<Rightarrow> disk \<Rightarrow> gateway \<Rightarrow> task_end \<times> disk \<times> answers" where
  "with_provider H en cf tk ga cache s g = (case (case (if ac_backend cf = LOCAL then en_probe en else None) of
       Some status \<Rightarrow> (Ended status [], s, cache)
     | None \<Rightarrow> ask_model H en cf tk ga cache s g) of
     (e, r) \<Rightarrow> (closed en e, r))"

definition run_task :: "hashing \<Rightarrow> outside \<Rightarrow> agent_config \<Rightarrow> task \<Rightarrow> answers \<Rightarrow> disk \<Rightarrow> task_end \<times> disk \<times> answers" where
  "run_task H en cf0 tk cache s = (let cf = task_config cf0 tk in
     case new_gateway (tk_symbol tk) (nat (ac_tool_calls cf)) (nat (ac_context cf)) (tk_web tk) of
       Inl e \<Rightarrow> (ending_of (Raises_error e), s, cache)
     | Inr g \<Rightarrow> (case gather H en tk g of
         (Inl e, g) \<Rightarrow> (ending_of e, s, cache)
       | (Inr ga, g) \<Rightarrow> with_provider H en cf tk ga cache s g))"

end
