(* ===== verification/Agent_Laws.thy ===== *)
theory Agent_Laws
  imports Agent_Money Agent_Runtime
begin

text \<open>
  What the steps of an agent task keep: the requests to a metered model leave the budget file in step with the charges, and what the
  task counts for itself stays within its own budget.
\<close>

section \<open>What a step keeps\<close>

definition keeps :: "('s \<Rightarrow> bool) \<Rightarrow> ('s, 'a) agent_step \<Rightarrow> bool" where
  "keeps P m \<longleftrightarrow> (\<forall>r. P r \<longrightarrow> P (snd (m r)))"

lemma keepsD: "keeps P m \<Longrightarrow> m r = (x, r') \<Longrightarrow> P r \<Longrightarrow> P r'"
  by (metis keeps_def snd_conv)

lemma keeps_liftT [intro, simp]: "keeps P (liftT x)"
  by (simp add: keeps_def liftT_def)

lemma keeps_returnT [intro, simp]: "keeps P (returnT x)"
  by (simp add: returnT_def)

lemma keeps_andT [intro]: "keeps P m \<Longrightarrow> (\<And>x. keeps P (f x)) \<Longrightarrow> keeps P (andT m f)"
  by (fastforce simp: keeps_def andT_def split: prod.splits sum.splits)

lemma keeps_pair [intro]: "(\<And>a b. keeps P (f a b)) \<Longrightarrow> keeps P (case x of (a, b) \<Rightarrow> f a b)"
  by (cases x) simp

lemma keeps_if [intro]: "keeps P m \<Longrightarrow> keeps P m' \<Longrightarrow> keeps P (if b then m else m')"
  by simp

lemma andT_Inr: "andT m f r = (Inr y, r'') \<longleftrightarrow> (\<exists>x r'. m r = (Inr x, r') \<and> f x r' = (Inr y, r''))"
  by (auto simp: andT_def split: prod.splits sum.splits)

lemma andT_cases:
  assumes "andT m f r = (y, r'')"
  obtains e where "m r = (Inl e, r'')" "y = Inl e" | x r' where "m r = (Inr x, r')" "f x r' = (y, r'')"
  using assms by (auto simp: andT_def split: prod.splits sum.splits)

lemma liftT_Inr [simp]: "liftT x r = (Inr y, r') \<longleftrightarrow> x = Inr y \<and> r' = r"
  by (auto simp: liftT_def)

lemma returnT_Inr [simp]: "returnT x r = (Inr y, r') \<longleftrightarrow> y = x \<and> r' = r"
  by (auto simp: returnT_def)

lemma andA_Inr [simp]: "andA m f = Inr y \<longleftrightarrow> (\<exists>x. m = Inr x \<and> f x = Inr y)"
  by (auto simp: andA_def split: sum.splits)

lemma liftA_Inr [simp]: "liftA r = Inr x \<longleftrightarrow> r = Inr x"
  by (auto simp: liftA_def split: sum.splits)

section \<open>The money of a task\<close>

definition on_money :: "(disk \<Rightarrow> rat \<Rightarrow> bool) \<Rightarrow> run \<Rightarrow> bool" where
  "on_money P r \<longleftrightarrow> P (rn_disk r) (rn_usd r)"

lemma money_gateway: "keeps (on_money P) (on_run_gateway m)"
  by (auto simp: keeps_def on_money_def on_run_gateway_def split: prod.splits)

lemma money_message: "keeps (on_money P) (add_message m)"
  by (simp add: keeps_def on_money_def add_message_def)

lemma money_answer: "keeps (on_money P) (final_answer H en n ga v)"
  by (simp add: keeps_def final_answer_def)

lemma money_calls: "keeps (on_money P) (answer_calls H en cf n k cs)"
  by (induction cs arbitrary: k) (simp_all, intro keeps_andT keeps_pair keeps_liftT money_gateway money_message)

lemma money_reply: "keeps (on_money P) (after_reply H en cf n ga rp)"
  unfolding after_reply_def
  by (intro keeps_andT keeps_if keeps_liftT keeps_returnT money_message money_calls money_answer)


text \<open>A provider that is metered: it charges no more tokens than the bytes of the request and the limit of the answer allow.\<close>

definition metered :: "hashing \<Rightarrow> outside \<Rightarrow> agent_config \<Rightarrow> bool" where
  "metered H en cf \<longleftrightarrow> (\<forall>n msgs rp a b. en_model en n msgs = Inr rp \<longrightarrow> rp_usage rp = Some (a, b) \<longrightarrow>
     0 \<le> a \<and> a \<le> int (length (canonical H (JList msgs)) + en_tools_size en + 4096) \<and> 0 \<le> b \<and> b \<le> ac_output cf)"

definition dated :: "outside \<Rightarrow> bool" where
  "dated en \<longleftrightarrow> (\<forall>n. returns (iso_date (en_day en n)))"

text \<open>What a run has taken out of the budget: what is charged and reserved for a day grew by at most what the run counts.\<close>

definition within_task :: "(pystr \<Rightarrow> rat) \<Rightarrow> rat \<Rightarrow> disk \<Rightarrow> rat \<Rightarrow> bool" where
  "within_task f most s q \<longleftrightarrow> (\<exists>os u c. budget_run s os u c \<and> (\<forall>d. u d + open_usd os d \<le> f d + q)) \<and> 0 \<le> q \<and> q \<le> most \<and> tenths q"

lemma reserve_within:
  assumes "reserve cf day w (Fin a) (Fin q) cny s = (Inr d, s')" "tenths a" "tenths q" "ac_task cf \<le> 2 / 100" "0 \<le> q"
  shows "dadd q a = q + a" "0 < a" "q + a \<le> ac_task cf"
proof -
  have r: "0 < a" "dadd q a \<le> ac_task cf"
    using assms(1) by (auto simp: reserve_def bindR_def reserve_day_def dec_value_def positive_def split: sum.splits if_splits prod.splits)
  have e: "dadd q a = q + a" by (rule dadd_exact) (use assms r in auto)
  then show "dadd q a = q + a" "0 < a" "q + a \<le> ac_task cf" using r by simp_all
qed

lemma settle_None [simp]: "settle day w r None rc ac s = (Inr (), s)"
  by (simp add: settle_def)


lemma task_of_generating: "generating cf \<Longrightarrow> ac_backend cf = CLOUD" "generating cf \<Longrightarrow> ac_output cf \<le> 2048" "generating cf \<Longrightarrow> 0 \<le> ac_output cf"
  "generating cf \<Longrightarrow> ac_context cf \<le> 32768" "generating cf \<Longrightarrow> ac_requests cf \<le> 3"
  by (auto simp: generating_def make_agent_config_def limits_ok_def between_def authorized_cloud_def bindR_Inr_iff split: if_splits)

lemma reserved_within:
  assumes "within_task f (ac_task cf) s q" "generating cf" "0 \<le> i" "i \<le> 10 ^ 9" "returns (iso_date day)" "k = ac_output cf"
    and "reserve cf day w (Fin (cost_usd i k)) (Fin q) (Some (Fin (cost_cny i k))) s = (Inr d, s')"
  shows "\<exists>os u c. budget_run s' ((day, i, k) # os) u c \<and> (\<forall>d. u d + open_usd os d \<le> f d + q)"
    and "dadd q (cost_usd i k) = q + cost_usd i k" "0 < cost_usd i k" "q + cost_usd i k \<le> ac_task cf"
proof -
  obtain os u c where b: "budget_run s os u c" "\<forall>d. u d + open_usd os d \<le> f d + q" and q: "0 \<le> q" "tenths q"
    using assms(1) by (auto simp: within_task_def)
  have k: "0 \<le> k" "k \<le> 10 ^ 9" using task_of_generating(2,3)[OF assms(2)] assms(6) by simp_all
  have "budget_run s' ((day, i, k) # os) u c"
    by (rule budget_reserved[OF b(1) assms(2) assms(3,4) k assms(5) assms(7)])
  then show "\<exists>os u c. budget_run s' ((day, i, k) # os) u c \<and> (\<forall>d. u d + open_usd os d \<le> f d + q)" using b(2) by blast
  show "dadd q (cost_usd i k) = q + cost_usd i k" "0 < cost_usd i k" "q + cost_usd i k \<le> ac_task cf"
    using reserve_within[OF assms(7) cost_facts(3)[OF assms(3,4) k] q(2) generatingD(4)[OF assms(2)] q(1)] by simp_all
qed

lemma open_within:
  assumes "budget_run s ((day, i, k) # os) u c" "\<forall>d. u d + open_usd os d \<le> f d + q" "0 < cost_usd i k" "q + cost_usd i k \<le> m" "0 \<le> q" "tenths q" "tenths (cost_usd i k)"
  shows "within_task f m s (q + cost_usd i k)"
proof -
  have "\<forall>d. u d + open_usd ((day, i, k) # os) d \<le> f d + (q + cost_usd i k)"
  proof
    fix d
    have "u d + open_usd os d \<le> f d + q" using assms(2) by blast
    then show "u d + open_usd ((day, i, k) # os) d \<le> f d + (q + cost_usd i k)" using assms(3) by auto
  qed
  then have "\<exists>os u c. budget_run s os u c \<and> (\<forall>d. u d + open_usd os d \<le> f d + (q + cost_usd i k))" using assms(1) by blast
  then show ?thesis using assms(3-7) unfolding within_task_def by (auto intro!: tenths_add)
qed

lemma settled_within:
  assumes "budget_run s ((day, i, k) # os) u c" "\<forall>d. u d + open_usd os d \<le> f d + q" "q + cost_usd i k \<le> m" "m \<le> 2 / 100" "0 \<le> q" "tenths q"
    and "0 \<le> i" "i \<le> 10 ^ 9" "0 \<le> k" "k \<le> 10 ^ 9" "0 \<le> a" "a \<le> i" "0 \<le> b" "b \<le> k"
    and "settle day w (Fin (cost_usd i k)) (Some (Fin (cost_usd a b))) (Some (Fin (cost_cny i k))) (Some (Fin (cost_cny a b))) s = (Inr (), s')"
  shows "within_task f m s' (dadd (q + cost_usd i k) (dsub (cost_usd a b) (cost_usd i k)))"
proof -
  have run: "budget_run s' os (u(day := u day + cost_usd a b)) (c + cost_cny a b)"
    using budget_settled[of s "[]" day i k os u c a b w s'] assms by simp
  note ci = cost_facts[OF assms(7-10)] and le = cost_mono(1)[OF assms(11,12,8) assms(13,14,10)]
  have ca: "0 \<le> cost_usd a b" "tenths (cost_usd a b)" using assms(7-14) by (intro cost_facts; simp)+
  have d: "dsub (cost_usd a b) (cost_usd i k) = cost_usd a b - cost_usd i k"
    unfolding dsub_def by (rule tenths_small[OF tenths_diff]) (use ci ca le assms(3-5) in auto)
  have e: "dadd (q + cost_usd i k) (dsub (cost_usd a b) (cost_usd i k)) = q + cost_usd a b"
  proof -
    have s: "(q + cost_usd i k) + (cost_usd a b - cost_usd i k) = q + cost_usd a b" by simp
    show ?thesis unfolding d dadd_def s
      by (rule tenths_small[OF tenths_add[OF assms(6) ca(2)]]) (use assms(3-5) le ca(1) in linarith)
  qed
  have "\<forall>d. (u(day := u day + cost_usd a b)) d + open_usd os d \<le> f d + (q + cost_usd a b)"
  proof
    fix d
    have "u d + open_usd os d \<le> f d + q" using assms(2) by blast
    then show "(u(day := u day + cost_usd a b)) d + open_usd os d \<le> f d + (q + cost_usd a b)" using ca by auto
  qed
  then have "\<exists>os u c. budget_run s' os u c \<and> (\<forall>d. u d + open_usd os d \<le> f d + (q + cost_usd a b))" using run by blast
  then show ?thesis unfolding e within_task_def using ca le assms(3,5,6) by (auto intro!: tenths_add)
qed


lemma request_within:
  assumes "generating cf" "metered H en cf" "dated en" "en_tools_size en \<le> 10 ^ 8"
    and "on_money (within_task f (ac_task cf)) r" "one_request H en cf ga n r = (x, r')"
  shows "on_money (within_task f (ac_task cf)) r'"
proof (cases "en_stopped en n \<or> ac_context cf < int (message_size H r)")
  case True
  then have "r' = r" using assms(6) by (auto simp: one_request_def split: if_splits)
  then show ?thesis using assms(5) by simp
next
  case False
  define i where "i = input_bound H en r"
  define k where "k = ac_output cf"
  note cf = task_of_generating[OF assms(1)]
  have i: "0 \<le> i" "i \<le> 10 ^ 9" using False cf(4) assms(4) by (auto simp: i_def input_bound_def)
  have k: "0 \<le> k" "k \<le> 10 ^ 9" using cf(2,3) by (simp_all add: k_def)
  have day: "returns (iso_date (en_day en n))" using assms(3) by (simp add: dated_def)
  have w: "within_task f (ac_task cf) (rn_disk r) (rn_usd r)" using assms(5) by (simp add: on_money_def)
  have q: "0 \<le> rn_usd r" "tenths (rn_usd r)" using w by (simp_all add: within_task_def)
  have step: "andT (reserve_request en cf n i) (\<lambda>_. andT (liftT (en_model en n (rn_messages r))) (\<lambda>rp.
       andT (settle_request en cf n i (rp_usage rp)) (\<lambda>_. after_reply H en cf n ga rp))) r = (x, r')"
    using assms(6) False by (simp add: one_request_def Let_def i_def)
  obtain y s1 where res: "reserve cf (en_day en n) (fst (en_writes en n)) (Fin (cost_usd i k)) (Fin (rn_usd r)) (Some (Fin (cost_cny i k))) (rn_disk r) = (y, s1)"
    by (rule prod.exhaust)
  show ?thesis
  proof (cases y)
    case (Inl e)
    obtain os u c where b: "budget_run (rn_disk r) os u c" "\<forall>d. u d + open_usd os d \<le> f d + rn_usd r" using w by (auto simp: within_task_def)
    have "budget_run s1 os u c" using budget_refused[OF b(1) res[unfolded Inl]] .
    then have "within_task f (ac_task cf) s1 (rn_usd r)" using b(2) w by (auto simp: within_task_def)
    moreover have "r' = r\<lparr>rn_disk := s1\<rparr>" using step res Inl cf(1) by (simp add: andT_def reserve_request_def k_def)
    ultimately show ?thesis by (simp add: on_money_def)
  next
    case (Inr d)
    note r = reserved_within[OF w assms(1) i day k_def res[unfolded Inr]]
    obtain os u c where b: "budget_run s1 ((en_day en n, i, k) # os) u c" "\<forall>d. u d + open_usd os d \<le> f d + rn_usd r" using r(1) by blast
    let ?q = "rn_usd r + cost_usd i k"
    define r1 where "r1 = r\<lparr>rn_disk := s1, rn_usd := ?q, rn_cny := dadd (rn_cny r) (cost_cny i k), rn_requests := Suc (rn_requests r)\<rparr>"
    have w1: "on_money (within_task f (ac_task cf)) r1"
      using open_within[OF b r(3,4) q cost_facts(3)[OF i k]] by (simp add: on_money_def r1_def)
    have step1: "andT (liftT (en_model en n (rn_messages r))) (\<lambda>rp. andT (settle_request en cf n i (rp_usage rp)) (\<lambda>_. after_reply H en cf n ga rp)) r1 = (x, r')"
      using step res Inr assms(1) by (simp add: andT_def reserve_request_def k_def r1_def task_of_generating r(2)[unfolded k_def])
    show ?thesis
    proof (cases "en_model en n (rn_messages r)")
      case (Inl e)
      then show ?thesis using step1 w1 by (simp add: andT_def liftT_def)
    next
      case (Inr rp)
      have step2: "andT (settle_request en cf n i (rp_usage rp)) (\<lambda>_. after_reply H en cf n ga rp) r1 = (x, r')"
        using step1 Inr by (simp add: andT_def liftT_def)
      have "on_money (within_task f (ac_task cf)) (snd (settle_request en cf n i (rp_usage rp) r1))"
      proof (cases "rp_usage rp")
        case None
        then show ?thesis using w1 by (simp add: settle_request_def)
      next
        case (Some ab)
        obtain a a' where ab: "rp_usage rp = Some (a, a')" using Some by (cases ab) simp
        have u: "0 \<le> a" "a \<le> i" "0 \<le> a'" "a' \<le> k"
          using assms(2) Inr ab unfolding metered_def i_def input_bound_def message_size_def k_def by blast+
        obtain z s2 where set: "settle (en_day en n) (snd (en_writes en n)) (Fin (cost_usd i k)) (Some (Fin (cost_usd a a'))) (Some (Fin (cost_cny i k)))
            (Some (Fin (cost_cny a a'))) s1 = (z, s2)" by (rule prod.exhaust)
        show ?thesis
        proof (cases z)
          case (Inl e)
          have "budget_run s2 ((en_day en n, i, k) # os) u c"
            using budget_unsettled[of s1 "[]" "en_day en n" i k os u c a a'] b(1) u set Inl by simp
          from open_within[OF this b(2) r(3,4) q cost_facts(3)[OF i k]]
          show ?thesis using set Inl by (simp add: settle_request_def ab on_money_def r1_def k_def task_of_generating assms(1))
        next
          case (Inr v)
          have "settle (en_day en n) (snd (en_writes en n)) (Fin (cost_usd i k)) (Some (Fin (cost_usd a a'))) (Some (Fin (cost_cny i k)))
            (Some (Fin (cost_cny a a'))) s1 = (Inr (), s2)" using set Inr by simp
          from settled_within[OF b(1,2) r(4) generatingD(4)[OF assms(1)] q i k u this]
          show ?thesis using set Inr by (simp add: settle_request_def ab on_money_def r1_def k_def task_of_generating assms(1))
        qed
      qed
      then show ?thesis using step2 money_reply[THEN keepsD] by (elim andT_cases) auto
    qed
  qed
qed

lemma requests_within:
  assumes "generating cf" "metered H en cf" "dated en" "en_tools_size en \<le> 10 ^ 8"
  shows "keeps (on_money (within_task f (ac_task cf))) (requests H en cf ga n k)"
proof (induction k arbitrary: n)
  case (Suc k)
  have "keeps (on_money (within_task f (ac_task cf))) (one_request H en cf ga n)"
    unfolding keeps_def using request_within[OF assms] by (metis prod.collapse)
  then show ?case using Suc by (auto split: option.splits intro!: keeps_andT)
qed simp

lemma task_config_generating: "generating cf \<Longrightarrow> generating (task_config cf tk)"
proof -
  assume g: "generating cf"
  then obtain a where a: "make_agent_config a = Inr cf" by (auto simp: generating_def)
  have "make_agent_config (a\<lparr>as_output := 2048, as_context := 32768\<rparr>) = Inr (cf\<lparr>ac_output := 2048, ac_context := 32768\<rparr>)"
  proof -
    obtain d t e where d: "limits_ok a" "budget_text 100 (as_daily a) = Inr d" "budget_text 100 (as_task a) = Inr t" "budget_text 3 (as_trial a) = Inr e"
      and c: "authorized_cloud \<lparr>ac_enabled = as_enabled a, ac_backend = as_backend a, ac_payment = as_payment a, ac_generation = as_generation a,
        ac_daily = d, ac_task = t, ac_trial = e, ac_requests = as_requests a, ac_tool_calls = as_tool_calls a, ac_deadline = as_deadline a,
        ac_context = as_context a, ac_output = as_output a\<rparr> = Inr cf"
      using a by (auto simp: make_agent_config_def bindR_Inr_iff split: if_splits)
    have l: "limits_ok (a\<lparr>as_output := 2048, as_context := 32768\<rparr>)" using d(1) by (simp add: limits_ok_def between_def)
    show ?thesis using c l d unfolding make_agent_config_def by (simp add: authorized_cloud_def split: if_splits) (auto simp: agent_config.defs)
  qed
  then have "\<exists>a. make_agent_config a = Inr (cf\<lparr>ac_output := 2048, ac_context := 32768\<rparr>)" by blast
  then have "generating (cf\<lparr>ac_output := 2048, ac_context := 32768\<rparr>)" using g by (simp add: generating_def)
  then show ?thesis using g by (simp add: task_config_def)
qed

lemma task_config_task [simp]: "ac_task (task_config cf tk) = ac_task cf"
  by (simp add: task_config_def)

lemma closed_disk: "(case x of (e, s, c) \<Rightarrow> (closed en e, s, c)) = (y, s', c') \<Longrightarrow> \<exists>e. x = (e, s', c') \<and> y = closed en e"
  by (cases x) auto

lemma run_task_disk:
  assumes "run_task H en cf tk cache s = (e, s', cache')"
  obtains "s' = s" | ga g r x where "requests H en (task_config cf tk) ga 1 (nat (ac_requests (task_config cf tk))) (first_run en (task_config cf tk) ga s g) = (x, r)" "s' = rn_disk r"
proof -
  have "s' = s \<or> (\<exists>ga g r x. requests H en (task_config cf tk) ga 1 (nat (ac_requests (task_config cf tk))) (first_run en (task_config cf tk) ga s g) = (x, r) \<and> s' = rn_disk r)"
    using assms
    by (auto simp: run_task_def with_provider_def ask_model_def Let_def split: sum.splits prod.splits option.splits dest!: closed_disk)
  then show ?thesis using that by blast
qed

end
