(* ===== verification/Agent_Evidence.thy ===== *)
theory Agent_Evidence
  imports Agent_Laws
begin

text \<open>
  Where the answer of an agent task comes from: the gateway of a task holds only payloads that a tool gave out for the stock of the task,
  an answer is accepted only after the checks of \<^verbatim>\<open>validate_explanation\<close> against them, and what a stock without a blocking reason is.
\<close>

section \<open>The evidence of a task\<close>

text \<open>A payload that the tools give out for a stock at some moment of the task.\<close>

definition handed_out :: "hashing \<Rightarrow> outside \<Rightarrow> pystr \<Rightarrow> jobj \<Rightarrow> bool" where
  "handed_out H en symbol p \<longleftrightarrow> (\<exists>n k name. tool_payload H (en_services en n k) symbol name = Inr p)"

definition traced :: "hashing \<Rightarrow> outside \<Rightarrow> pystr \<Rightarrow> gateway \<Rightarrow> bool" where
  "traced H en symbol g \<longleftrightarrow> gw_symbol g = symbol \<and> (\<forall>(i, p) \<in> set (gw_evidence g). i = evidence_id p \<and> handed_out H en symbol p)"

lemma traced_at: "traced H en symbol g \<Longrightarrow> i \<in> set (map fst (gw_evidence g)) \<Longrightarrow> evidence_id (evidence_at g i) = i \<and> handed_out H en symbol (evidence_at g i)"
proof -
  assume t: "traced H en symbol g" and i: "i \<in> set (map fst (gw_evidence g))"
  obtain p where p: "dict_get (gw_evidence g) i = Some p" using i dict_get_None_iff[of "gw_evidence g" i] by (cases "dict_get (gw_evidence g) i") auto
  then have "(i, p) \<in> set (gw_evidence g)" by (simp add: dict_get_map_of map_of_SomeD)
  then show "evidence_id (evidence_at g i) = i \<and> handed_out H en symbol (evidence_at g i)" using t p by (auto simp: traced_def evidence_at_def)
qed

lemma issue_traced: "traced H en symbol g \<Longrightarrow> handed_out H en symbol p \<Longrightarrow> traced H en symbol (snd (issue H w p g))"
  by (auto simp: issue_def traced_def split: sum.splits dest: dict_set_mem)

lemma call_traced: "keeps (traced H en symbol) (call_tool H (en_services en n k) name args)"
proof -
  have "traced H en symbol (snd (call_tool H (en_services en n k) name args g))" if "traced H en symbol g" for g
  proof (cases "\<exists>p. tool_payload H (en_services en n k) (gw_symbol g) name = Inr p")
    case True
    then obtain p where p: "tool_payload H (en_services en n k) (gw_symbol g) name = Inr p" by blast
    then have "handed_out H en symbol p" using that by (auto simp: handed_out_def traced_def)
    moreover have "traced H en symbol (g\<lparr>gw_calls := m\<rparr>)" "traced H en symbol (g\<lparr>gw_calls := m, gw_stock := x\<rparr>)" for m x
      using that by (simp_all add: traced_def)
    ultimately show ?thesis using that p by (simp add: call_tool_def Let_def issue_traced split: sum.split)
  next
    case False
    then show ?thesis using that by (auto simp: call_tool_def Let_def traced_def split: sum.split)
  qed
  then show ?thesis by (simp add: keeps_def)
qed

lemma gather_traced: "keeps (traced H en symbol) (gather H en tk)"
  unfolding gather_def gather_web_def
  by (intro keeps_andT keeps_if keeps_returnT call_traced) (auto split: option.split intro!: keeps_andT call_traced)

definition on_gateway :: "(gateway \<Rightarrow> bool) \<Rightarrow> run \<Rightarrow> bool" where
  "on_gateway P r \<longleftrightarrow> P (rn_gateway r)"

lemma gateway_call: "keeps P m \<Longrightarrow> keeps (on_gateway P) (on_run_gateway m)"
  by (auto simp: keeps_def on_gateway_def on_run_gateway_def split: prod.splits)

lemma gateway_message: "keeps (on_gateway P) (add_message m)"
  by (simp add: keeps_def on_gateway_def add_message_def)

lemma gateway_answer: "keeps (on_gateway P) (final_answer H en n ga v)"
  by (simp add: keeps_def final_answer_def)

lemma gateway_reserve: "keeps (on_gateway P) (reserve_request en cf n i)"
  by (auto simp: keeps_def on_gateway_def reserve_request_def split: prod.splits sum.splits)

lemma gateway_settle: "keeps (on_gateway P) (settle_request en cf n i u)"
  by (auto simp: keeps_def on_gateway_def settle_request_def split: prod.splits sum.splits option.splits)

lemma calls_traced: "keeps (on_gateway (traced H en symbol)) (answer_calls H en cf n k cs)"
  by (induction cs arbitrary: k) (simp_all, intro keeps_andT keeps_pair keeps_liftT gateway_call call_traced gateway_message)

lemma reply_traced: "keeps (on_gateway (traced H en symbol)) (after_reply H en cf n ga rp)"
  unfolding after_reply_def
  by (intro keeps_andT keeps_if keeps_liftT keeps_returnT gateway_message calls_traced gateway_answer)

lemma request_traced: "keeps (on_gateway (traced H en symbol)) (one_request H en cf ga n)"
proof -
  have "keeps (on_gateway (traced H en symbol)) (andT (reserve_request en cf n i) (\<lambda>_. andT (liftT x) (\<lambda>rp.
       andT (settle_request en cf n i (rp_usage rp)) (\<lambda>_. after_reply H en cf n ga rp))))" for i x
    by (intro keeps_andT keeps_liftT gateway_reserve gateway_settle reply_traced)
  then show ?thesis by (auto simp: one_request_def keeps_def Let_def)
qed

lemma requests_traced: "keeps (on_gateway (traced H en symbol)) (requests H en cf ga n k)"
  by (induction k arbitrary: n) (auto intro!: keeps_andT request_traced split: option.splits)

lemma request_answer:
  assumes "one_request H en cf ga n r = (Inr (Some (v, a)), r')"
  shows "checked_answer H (en_services en n 0) ga (rn_gateway r') v = Inr (v, a)"
proof -
  obtain i where "andT (reserve_request en cf n i) (\<lambda>_. andT (liftT (en_model en n (rn_messages r))) (\<lambda>rp.
       andT (settle_request en cf n i (rp_usage rp)) (\<lambda>_. after_reply H en cf n ga rp))) r = (Inr (Some (v, a)), r')"
    using assms by (auto simp: one_request_def Let_def split: if_splits)
  then obtain rp r3 where "after_reply H en cf n ga rp r3 = (Inr (Some (v, a)), r')"
    unfolding andT_Inr by blast
  then obtain x where "final_answer H en n ga (rp_content rp) r3 = (Inr x, r')" "x = (v, a)"
    by (auto simp: after_reply_def andT_Inr split: if_splits)
  then have "final_answer H en n ga (rp_content rp) r3 = (Inr (v, a), r')" by simp
  then show ?thesis by (auto simp: final_answer_def checked_answer_def split: if_splits)
qed

lemma requests_answer: "requests H en cf ga n k r = (Inr (v, a), r') \<Longrightarrow> \<exists>n. checked_answer H (en_services en n 0) ga (rn_gateway r') v = Inr (v, a)"
proof (induction k arbitrary: n r)
  case (Suc k)
  obtain x r1 where one: "one_request H en cf ga n r = (Inr x, r1)" and rest: "(case x of None \<Rightarrow> requests H en cf ga (Suc n) k | Some y \<Rightarrow> returnT y) r1 = (Inr (v, a), r')"
    using Suc.prems by (auto simp: andT_Inr)
  show ?case
  proof (cases x)
    case None
    then show ?thesis using Suc.IH rest by simp
  next
    case (Some y)
    then show ?thesis using request_answer one rest by fastforce
  qed
qed (simp add: liftT_def)

lemma closed_Succeeded: "closed en e = Succeeded a \<Longrightarrow> e = Succeeded a"
proof -
  have "ending_of x \<noteq> Succeeded a" for x by (cases x) auto
  then show "closed en e = Succeeded a \<Longrightarrow> e = Succeeded a" by (auto simp: closed_def split: option.splits)
qed

lemma ending_not_Succeeded [simp]: "ending_of x \<noteq> Succeeded a"
  by (cases x) auto

lemma new_gateway_facts: "new_gateway y c b w = Inr g \<Longrightarrow> normalize_symbol y = Inr (gw_symbol g) \<and> gw_evidence g = [] \<and> gw_stock g = None"
  by (auto simp: new_gateway_def bindR_Inr_iff)

text \<open>Where the answer of a task that succeeded comes from.\<close>

lemma run_task_answer:
  assumes "run_task H en cf tk cache s = (Succeeded a, s', cache')"
  obtains (checked) symbol g ga n v where "normalize_symbol (tk_symbol tk) = Inr symbol" "traced H en symbol g" "checked_answer H (en_services en n 0) ga g v = Inr (v, a)"
      "cache' = last_16 (dict_set cache (key_of (task_config cf tk) tk ga) v)"
  | (cached) symbol g ga v where "normalize_symbol (tk_symbol tk) = Inr symbol" "traced H en symbol g" "remembered en cache (task_config cf tk) tk ga = Some v"
      "validate_explanation H (en_services en 1 0) g v = Inr a" "cache' = cache"
proof -
  let ?cf = "task_config cf tk"
  obtain g0 ga g where g0: "new_gateway (tk_symbol tk) (nat (ac_tool_calls ?cf)) (nat (ac_context ?cf)) (tk_web tk) = Inr g0" and ga: "gather H en tk g0 = (Inr ga, g)"
    and p: "with_provider H en ?cf tk ga cache s g = (Succeeded a, s', cache')"
    using assms by (auto simp: run_task_def Let_def simp del: ending_of.simps split: sum.splits prod.splits)
  note symbol = new_gateway_facts[OF g0]
  have "traced H en (gw_symbol g0) g0" using symbol by (simp add: traced_def)
  then have t: "traced H en (gw_symbol g0) g" using keepsD[OF gather_traced ga] by blast
  have m: "ask_model H en ?cf tk ga cache s g = (Succeeded a, s', cache')"
    using p by (auto simp: with_provider_def split: option.splits prod.splits dest!: closed_Succeeded)
  show ?thesis
  proof (cases "remembered en cache ?cf tk ga")
    case (Some v)
    have "validate_explanation H (en_services en 1 0) g v = Inr a" "cache' = cache"
      using m Some by (auto simp: ask_model_def simp del: ending_of.simps split: sum.splits)
    then show ?thesis using cached[OF _ t Some] symbol by blast
  next
    case None
    obtain v r where r: "requests H en ?cf ga 1 (nat (ac_requests ?cf)) (first_run en ?cf ga s g) = (Inr (v, a), r)"
      and c: "cache' = last_16 (dict_set cache (key_of ?cf tk ga) v)"
      using m None by (auto simp: ask_model_def simp del: ending_of.simps split: sum.splits prod.splits)
    have "on_gateway (traced H en (gw_symbol g0)) (first_run en ?cf ga s g)" using t by (simp add: on_gateway_def first_run_def)
    then have "traced H en (gw_symbol g0) (rn_gateway r)" using keepsD[OF requests_traced r] by (simp add: on_gateway_def)
    then show ?thesis using requests_answer[OF r] symbol c checked by blast
  qed
qed

lemma run_task_validated:
  assumes "run_task H en cf tk cache s = (Succeeded a, s', cache')"
  obtains symbol g n v where "normalize_symbol (tk_symbol tk) = Inr symbol" "traced H en symbol g" "validate_explanation H (en_services en n 0) g v = Inr a"
  using assms
proof (cases rule: run_task_answer)
  case (checked symbol g ga n v)
  then show ?thesis using that by (auto simp: checked_answer_def split: if_splits)
next
  case (cached symbol g ga v)
  then show ?thesis using that by blast
qed

lemma validate_facts:
  assumes "validate_explanation H w g v = Inr a"
  shows "ids_cited g a = Inr ()" "stock_current H w g = Inr ()" "blocking_named g a = Inr ()" "research_ok g a = Inr ()"
    "each_ok (claim_ok H g a) (ex_claims a) = Inr ()" "explanation_of v = Some a"
  using assms by (auto simp: validate_explanation_def split: option.splits)

lemma each_ok_iff [simp]: "each_ok f xs = Inr () \<longleftrightarrow> (\<forall>x \<in> set xs. f x = Inr ())"
  by (induction xs) auto

lemma cited_facts:
  assumes "ids_cited g a = Inr ()" "stock_current H w g = Inr ()" "traced H en symbol g"
  obtains p where "public_stock H w symbol = Inr p" "gw_stock g = Some (evidence_id p)" "ex_symbol a = symbol" "evidence_id p \<in> set (ex_evidence a)"
    "\<And>i. i \<in> set (ex_evidence a) \<Longrightarrow> evidence_id (evidence_at g i) = i \<and> handed_out H en symbol (evidence_at g i)"
proof -
  obtain p where "public_stock H w (gw_symbol g) = Inr p" "gw_stock g = Some (evidence_id p)"
    using assms(2) by (auto simp: stock_current_def split: if_splits)
  moreover have "ex_symbol a = gw_symbol g" "set (ex_evidence a) \<subseteq> set (map fst (gw_evidence g))" "the (gw_stock g) \<in> set (ex_evidence a)"
    using assms(1) by (auto simp: ids_cited_def split: option.splits if_splits)
  moreover have "gw_symbol g = symbol" using assms(3) by (simp add: traced_def)
  ultimately show ?thesis using that traced_at[OF assms(3)] by auto
qed

section \<open>A research candidate\<close>

lemma evidence_id_with [simp]: "evidence_id (with_evidence H ob t) = py ''sha256:'' @ sha H (canonical H (JObj ob))"
  by (simp add: with_evidence_def evidence_id_def)

lemma get_with_evidence [simp]: "k \<noteq> ''evidence_id'' \<Longrightarrow> k \<noteq> ''observed_at'' \<Longrightarrow> get (with_evidence H ob t) k = get ob k"
  by (simp add: with_evidence_def get_def)

lemma get_view_blocking: "get (public_view raw) ''blocking_reasons'' = get raw ''blocking_reasons''"
  by (simp add: public_view_def top_fields_def get_def)

lemma get_context_blocking: "get (context_fields d symbol e) ''blocking_reasons'' = JList (blocking_reasons d symbol e)"
  by (simp add: context_fields_def get_def)

lemma public_stock_blocking:
  assumes "public_stock H w symbol = Inr p" "normalize_symbol symbol = Inr symbol"
  obtains e where "expected_session (sv_desk w) = Inr e" "get p ''blocking_reasons'' = JList (blocking_reasons (sv_desk w) symbol e)"
  using assms by (auto simp: public_stock_def stock_context_def bindR_Inr_iff get_view_blocking get_context_blocking)

text \<open>What a stock without a blocking reason is.\<close>

definition codes_listed :: "json \<Rightarrow> bool" where
  "codes_listed risk \<longleftrightarrow> (case get (obj_of risk) ''reason_codes'' of JNull \<Rightarrow> True | JList vs \<Rightarrow> True | _ \<Rightarrow> False)"

lemma unique_items_Nil [simp]: "unique_items vs = [] \<longleftrightarrow> vs = []"
  by (simp add: unique_items_def)

lemma reason_if_Nil [simp]: "reason_if b s = [] \<longleftrightarrow> \<not> b"
  by (simp add: reason_if_def)

lemma risk_reasons_Nil: "risk_reasons risk = [] \<Longrightarrow> codes_listed risk \<Longrightarrow> get (obj_of risk) ''level'' = jtext ''CLEAR''"
  by (auto simp: risk_reasons_def codes_listed_def either_def truthy_def items_of_def split: if_splits json.splits)

lemma cutoff_reasons_Nil:
  assumes "cutoff_reasons True c (Some e) = []" "c = JStr t"
  shows "t = e"
  using assms by (auto simp: cutoff_reasons_def truthy_def before_text_def after_text_def split: if_splits)

lemma plan_reasons_Nil:
  assumes "plan_reasons now g = []" "either (get g ''valid_for'') (get g ''valid_for_date'') = v" "truthy v"
  shows "v = JStr (date_iso (local_date (shanghai_local now)))"
  using assms by (auto simp: plan_reasons_def Let_def split: if_splits)

lemma not_blocked:
  assumes "blocking_reasons d symbol expected = []" "codes_listed (risk_of d symbol)"
  shows "is_candidate d symbol" "live_quote d symbol \<noteq> None" "get (obj_of (risk_of d symbol)) ''level'' = jtext ''CLEAR''"
    "\<exists>e. expected = Some e \<and> (\<forall>t. cutoff_of d symbol = JStr t \<longrightarrow> t = e)" "dk_status d \<notin> {py ''UPDATE_FAILED'', py ''STALE_DATA'', py ''FAILED''}"
proof -
  have b: "reason_if (live_quote d symbol = None) ''NO_VALIDATED_REALTIME_QUOTE'' = []" "reason_if (\<not> is_candidate d symbol) ''NOT_IN_CURRENT_CANDIDATES'' = []"
    "risk_reasons (risk_of d symbol) = []" "reason_if (expected = None) ''CALENDAR_UNAVAILABLE'' = []"
    "cutoff_reasons (is_candidate d symbol) (cutoff_of d symbol) expected = []"
    "reason_if (dk_status d \<in> {py ''UPDATE_FAILED'', py ''STALE_DATA'', py ''FAILED''}) ''DAILY_UPDATE_FAILED'' = []"
    using assms(1) unfolding blocking_reasons_def unique_items_Nil append_is_Nil_conv by blast+
  show c: "is_candidate d symbol" and "live_quote d symbol \<noteq> None" and "dk_status d \<notin> {py ''UPDATE_FAILED'', py ''STALE_DATA'', py ''FAILED''}"
    using b(1,2,6) by simp_all
  show "get (obj_of (risk_of d symbol)) ''level'' = jtext ''CLEAR''" by (rule risk_reasons_Nil[OF b(3) assms(2)])
  obtain e where e: "expected = Some e" using b(4) by auto
  have "cutoff_reasons True (cutoff_of d symbol) (Some e) = []" using b(5) c e by simp
  then have "\<forall>t. cutoff_of d symbol = JStr t \<longrightarrow> t = e" using cutoff_reasons_Nil by blast
  then show "\<exists>e. expected = Some e \<and> (\<forall>t. cutoff_of d symbol = JStr t \<longrightarrow> t = e)" using e by blast
qed

text \<open>The digests of a task do not collide: payloads with the same evidence id differ at most in when they were observed.\<close>

definition observed_fields :: "jobj \<Rightarrow> jobj" where
  "observed_fields p = filter (\<lambda>(k, _). k \<noteq> ''observed_at'') p"

definition no_collision :: "hashing \<Rightarrow> outside \<Rightarrow> pystr \<Rightarrow> bool" where
  "no_collision H en symbol \<longleftrightarrow> (\<forall>p q. handed_out H en symbol p \<longrightarrow> handed_out H en symbol q \<longrightarrow> evidence_id p = evidence_id q \<longrightarrow> observed_fields p = observed_fields q)"

lemma get_observed: "k \<noteq> ''observed_at'' \<Longrightarrow> get (observed_fields p) k = get p k"
proof -
  assume k: "k \<noteq> ''observed_at''"
  have "dict_get (observed_fields p) k = dict_get p k" using k by (induction p) (auto simp: observed_fields_def)
  then show ?thesis by (simp add: get_def)
qed

lemma public_stock_handed: 
  assumes "public_stock H (en_services en n k) symbol = Inr p"
  shows "handed_out H en symbol p"
proof -
  note assms
  then have "tool_payload H (en_services en n k) symbol ''get_stock_context'' = Inr p" by (simp add: tool_payload_def)
  then show ?thesis unfolding handed_out_def by blast
qed

lemma candidate_not_blocked:
  assumes "research_ok g a = Inr ()" "ex_research a = Some c" "co_conclusion c = py ''RESEARCH_CANDIDATE''" 
  shows "blocking_of g = []"
  using assms by (auto simp: research_ok_def Let_def split: if_splits)

section \<open>What an answer does not say\<close>

definition harmless :: "explanation \<Rightarrow> bool" where
  "harmless a \<longleftrightarrow> (\<forall>t \<in> set (passages a). (\<forall>c \<in> set t. \<not> is_amount_char c) \<and> (\<forall>p \<in> set promises. \<not> py_contains p t))"

lemma unsafe_suffix: "unsafe_text s \<Longrightarrow> unsafe_text (r @ s)"
  by (induction r) auto

lemma promises_nonempty: "p \<in> set promises \<Longrightarrow> p \<noteq> []"
  by (auto simp: promises_def)

lemma amount_unsafe: "c \<in> set t \<Longrightarrow> is_amount_char c \<Longrightarrow> unsafe_text (t @ r)"
  by (induction t) auto

lemma starts_with_append:
  assumes "take (length p) t = p"
  shows "starts_with p (t @ r)"
proof -
  have "length p \<le> length t" using assms by (metis length_take min.cobounded1)
  then show ?thesis using assms by (simp add: starts_with_def)
qed

lemma promise_unsafe: "py_contains p t \<Longrightarrow> p \<in> set promises \<Longrightarrow> unsafe_text (t @ r)"
proof (induction t)
  case (Cons c t)
  consider "take (length p) (c # t) = p" | "py_contains p t" using Cons.prems(1) by auto
  then show ?case
  proof cases
    case 1
    then have "starts_with p (c # t @ r)" using starts_with_append[of p "c # t" r] by simp
    then have "list_ex (\<lambda>p. starts_with p (c # t @ r)) promises" using Cons.prems(2) by (auto simp: list_ex_iff)
    then show ?thesis by simp
  next
    case 2
    then show ?thesis using Cons by simp
  qed
qed (use promises_nonempty in auto)

lemma joined_text_split: "t \<in> set ts \<Longrightarrow> \<exists>x y. joined_text ts = x @ t @ y"
proof (induction ts rule: joined_text.induct)
  case (3 s v va)
  show ?case
  proof (cases "t = s")
    case True
    then have "joined_text (s # v # va) = [] @ t @ (32 # joined_text (v # va))" by simp
    then show ?thesis by blast
  next
    case False
    then obtain x y where "joined_text (v # va) = x @ t @ y" using 3 by auto
    then have "joined_text (s # v # va) = (s @ 32 # x) @ t @ y" by simp
    then show ?thesis by blast
  qed
next
  case (2 s)
  then show ?case by (intro exI[of _ "[]"]) auto
qed simp

lemma safe_harmless: "\<not> unsafe_text (joined_text (passages a)) \<Longrightarrow> harmless a"
  unfolding harmless_def
proof (intro ballI conjI)
  fix t assume s: "\<not> unsafe_text (joined_text (passages a))" and t: "t \<in> set (passages a)"
  obtain x y where "joined_text (passages a) = x @ t @ y" using joined_text_split[OF t] by blast
  then have u: "\<not> unsafe_text (t @ y)" using s unsafe_suffix by metis
  { fix c assume "c \<in> set t" then show "\<not> is_amount_char c" using amount_unsafe u by blast }
  { fix p assume "p \<in> set promises" then show "\<not> py_contains p t" using promise_unsafe u by blast }
qed

lemma checked_harmless: "checked_answer H w ga g v = Inr (v', a) \<Longrightarrow> v' = v \<and> explanation_of v = Some a \<and> harmless a"
  using validate_facts(6) by (auto simp: checked_answer_def validate_text_def intro: safe_harmless split: if_splits)

definition harmless_cache :: "answers \<Rightarrow> bool" where
  "harmless_cache cache \<longleftrightarrow> (\<forall>(k, v) \<in> set cache. \<forall>a. explanation_of v = Some a \<longrightarrow> harmless a)"

lemma last_16_subset: "set (last_16 xs) \<subseteq> set xs"
  by (simp add: last_16_def set_drop_subset)

lemma harmless_cache_add: "harmless_cache cache \<Longrightarrow> explanation_of v = Some a \<Longrightarrow> harmless a \<Longrightarrow> harmless_cache (last_16 (dict_set cache k v))"
  using last_16_subset dict_set_mem unfolding harmless_cache_def by fastforce

lemma harmless_asked:
  assumes "harmless_cache cache" "ask_model H en cf tk ga cache s g = (e, s', cache')"
  shows "harmless_cache cache'" "e = Succeeded a \<Longrightarrow> harmless a"
proof -
  have "harmless_cache cache' \<and> (e = Succeeded a \<longrightarrow> harmless a)"
  proof (cases "remembered en cache cf tk ga")
    case (Some v)
    then have "(key_of cf tk ga, v) \<in> set cache" by (auto simp: remembered_def dict_get_map_of dest: map_of_SomeD split: if_splits)
    then have "explanation_of v = Some a \<Longrightarrow> harmless a" using assms(1) by (auto simp: harmless_cache_def)
    moreover have "cache' = cache" "e = Succeeded a \<Longrightarrow> explanation_of v = Some a"
      using assms(2) Some validate_facts(6) by (auto simp: ask_model_def simp del: ending_of.simps split: sum.splits)
    ultimately show ?thesis using assms(1) by blast
  next
    case None
    obtain x r where x: "requests H en cf ga 1 (nat (ac_requests cf)) (first_run en cf ga s g) = (x, r)" by (rule prod.exhaust)
    show ?thesis
    proof (cases x)
      case (Inl y)
      then show ?thesis using assms None x by (auto simp: ask_model_def simp del: ending_of.simps)
    next
      case (Inr va)
      obtain v a' where va: "va = (v, a')" by (rule prod.exhaust)
      have h: "explanation_of v = Some a'" "harmless a'" using requests_answer checked_harmless x Inr va by blast+
      have "e = Succeeded a'" "cache' = last_16 (dict_set cache (key_of cf tk ga) v)" using assms(2) None x Inr va by (simp_all add: ask_model_def)
      then show ?thesis using h harmless_cache_add[OF assms(1) h] by auto
    qed
  qed
  then show "harmless_cache cache'" "e = Succeeded a \<Longrightarrow> harmless a" by blast+
qed

end
