(* ===== verification/Agent_Properties.thy ===== *)
theory Agent_Properties
  imports Agent_Evidence
begin

text \<open>
  The properties of the workbench agent: the money it may spend, where its answers come from and what they may say, and how a task
  that is cancelled early ends; with a stock, a model and a budget on which they apply.
\<close>

section \<open>Money\<close>


text \<open>C37: A task of the agent on a metered model leaves the budget in step with what was charged and what is still reserved, whatever
  the model answers, whichever writes fail and wherever the task ends; and it takes at most its own budget out of any day.\<close>

theorem agent_task_stays_in_budget:
  assumes "budget_run s os u c" "generating cf" "metered H en (task_config cf tk)" "dated en" "en_tools_size en \<le> 10 ^ 8"
    and "run_task H en cf tk cache s = (e, s', cache')"
  shows "\<exists>os' u' c'. budget_run s' os' u' c' \<and> (\<forall>d. u' d + open_usd os' d \<le> u d + open_usd os d + ac_task cf)"
  using assms(6)
proof (cases rule: run_task_disk)
  case 1
  have "0 \<le> ac_task cf" using assms(2) by (auto simp: generating_def make_agent_config_def authorized_cloud_def bindR_Inr_iff split: if_splits)
  then show ?thesis using assms(1) 1 by fastforce
next
  case (2 ga g r x)
  let ?cf = "task_config cf tk" and ?f = "\<lambda>d. u d + open_usd os d"
  have g: "generating ?cf" by (rule task_config_generating[OF assms(2)])
  have "0 \<le> ac_task cf" using assms(2) by (auto simp: generating_def make_agent_config_def authorized_cloud_def bindR_Inr_iff split: if_splits)
  then have "on_money (within_task ?f (ac_task ?cf)) (first_run en ?cf ga s g)"
    using assms(1) by (auto simp: on_money_def first_run_def within_task_def tenths_def)
  then have "on_money (within_task ?f (ac_task ?cf)) r"
    using keepsD[OF requests_within[OF g assms(3-5)] 2(1)] by blast
  then obtain os' u' c' where "budget_run s' os' u' c'" "\<forall>d. u' d + open_usd os' d \<le> ?f d + rn_usd r" "rn_usd r \<le> ac_task cf"
    by (auto simp: on_money_def within_task_def 2(2))
  then show ?thesis by (meson add_left_mono order_trans)
qed

section \<open>Answers\<close>




text \<open>A task that is cancelled before its first tool call ends as failed with the code AGENT_CANCELLED, not as cancelled: the gateway
  raises an error of its own.  Nothing is asked, spent or remembered.\<close>

theorem agent_early_cancel_fails:
  assumes "normalize_symbol (tk_symbol tk) = Inr symbol" "fst (sv_stopped (en_services en 0 0))"
  shows "run_task H en cf tk cache s = (Ended ''FAILED'' ''AGENT_CANCELLED'', s, cache)"
  using assms
  by (simp add: run_task_def new_gateway_def gather_def andT_def call_tool_def check_active_def andA_def Let_def bindR_def)

section \<open>An example\<close>

text \<open>A candidate of the strategy with a live quote, clear risk and current data; its payloads are told apart by their tool.\<close>

definition example_agent_hash :: hashing where
  "example_agent_hash = \<lparr>sha = (\<lambda>s. replicate 64 (hd s)), canonical = (\<lambda>v. case get (obj_of v) ''tool'' of
     JNull \<Rightarrow> [48] | t \<Rightarrow> if t = jtext ''get_stock_research'' then [49] else [50])\<rparr>"

definition example_day :: datetime where
  "example_day = \<lparr>dt_local = (ymd 2026 3 11 - 1) * micros_per_day + hm 10 0, dt_offset = Some (hm 8 0)\<rparr>"

definition example_stock_row :: jobj where
  "example_stock_row = [(''symbol'', jtext ''600000''), (''name'', jtext ''X''), (''data_cutoff'', jtext ''2026-03-10''),
     (''event_risk'', JObj [(''level'', jtext ''CLEAR'')]), (''price_guidance'', JObj [(''state'', jtext ''READY'')])]"

definition example_desk :: desk where
  "example_desk = \<lparr>dk_candidates = [example_stock_row], dk_monitor = [],
     dk_quotes = [\<lparr>dq_symbol = py ''600000'', dq_time = example_day, dq_stale = False, dq_flag = py ''GOOD'', dq_last = JInt 10\<rparr>],
     dk_quality = py ''GOOD'', dk_network = True, dk_stale_after = 15, dk_risk = (\<lambda>_. None), dk_cutoff = JNull, dk_status = py ''READY'',
     dk_notice = JNull, dk_source = jtext ''local'', dk_calendar = make_calendar None, dk_now = example_day\<rparr>"

definition example_services :: services where
  "example_services = \<lparr>sv_desk = example_desk, sv_health = [], sv_research = (\<lambda>raw. [(''tool'', jtext ''get_stock_research''), (''observed_at'', JTime example_day)]),
     sv_web = Inl Timed_out, sv_stopped = (False, False), sv_late = (False, False)\<rparr>"

definition stock_id :: pystr where "stock_id = py ''sha256:'' @ replicate 64 48"
definition research_id :: pystr where "research_id = py ''sha256:'' @ replicate 64 49"

lemma example_symbol: "normalize_symbol (py ''600000'') = Inr (py ''600000'')"
  by (rule normalize_symbol_fixed) code_simp










definition example_claim :: json where
  "example_claim = JObj [(''evidence_id'', JStr stock_id), (''field_path'', jtext ''symbol''), (''value'', jtext ''600000'')]"

definition example_answer :: json where
  "example_answer = JObj [(''symbol'', jtext ''600000''), (''status'', jtext ''FACTS_ONLY''), (''summary_zh'', jtext ''facts''), (''supporting_facts'', JList []),
     (''opposing_factors'', JList []), (''missing_conditions'', JList []), (''evidence_ids'', JList [JStr stock_id, JStr research_id]),
     (''claims'', JList [example_claim]),
     (''research'', JObj [(''conclusion'', jtext ''RESEARCH_CANDIDATE''), (''insights'', JList [JObj [(''evidence_id'', JStr research_id),
        (''observation_zh'', jtext ''seen''), (''interpretation_zh'', jtext ''meant'')]]), (''next_steps'', JList [jtext ''wait''])])]"




definition example_outside :: outside where
  "example_outside = \<lparr>en_services = (\<lambda>_ _. example_services),
     en_model = (\<lambda>_ _. Inr \<lparr>rp_usage = Some (400, 100), rp_model = cloud_model, rp_message = JNull, rp_calls = Some [], rp_content = Inr example_answer\<rparr>),
     en_stopped = (\<lambda>_. False), en_day = (\<lambda>_. py ''2026-03-11''), en_writes = (\<lambda>_. (None, None)), en_first = (\<lambda>_ _ _ _ _. []), en_tools_size = 2000,
     en_probe = None, en_close = None, en_fresh = False\<rparr>"

definition example_settings :: agent_settings where
  "example_settings = \<lparr>as_enabled = True, as_backend = CLOUD, as_payment = True, as_generation = True, as_daily = py ''0.1'', as_task = py ''0.02'',
     as_trial = py ''3'', as_requests = 3, as_tool_calls = 6, as_deadline = 90, as_context = 16384, as_output = 512\<rparr>"

definition example_config :: agent_config where
  "example_config = \<lparr>ac_enabled = True, ac_backend = CLOUD, ac_payment = True, ac_generation = True, ac_daily = 1 / 10, ac_task = 2 / 100,
     ac_trial = 3, ac_requests = 3, ac_tool_calls = 6, ac_deadline = 90, ac_context = 16384, ac_output = 512\<rparr>"

definition example_task :: task where
  "example_task = \<lparr>tk_id = py ''t'', tk_symbol = py ''600000'', tk_question = ''research'', tk_web = False\<rparr>"

lemma example_made: "make_agent_config example_settings = Inr example_config"
  by code_simp










definition example_research_config :: agent_config where
  "example_research_config = example_config\<lparr>ac_output := 2048, ac_context := 32768\<rparr>"






lemma example_date: "returns (iso_date (py ''2026-03-11''))"
  by code_simp









section \<open>The properties at the example\<close>

lemma example_generating: "generating example_config" "generating example_research_config"
proof -
  show g: "generating example_config" unfolding generating_def using example_made by (auto simp: example_config_def)
  have "task_config example_config example_task = example_research_config"
    by (simp add: task_config_def example_task_def example_research_config_def)
  then show "generating example_research_config" using task_config_generating[OF g] by metis
qed



theorem agent_task_stays_in_budget_witness:
  "\<exists>s os u c. s = fst (snd (run_task example_agent_hash example_outside example_config example_task [] Missing)) \<and> budget_run s os u c
     \<and> (\<forall>d. u d + open_usd os d \<le> 2 / 100)"
proof -
  have cf: "task_config example_config example_task = example_research_config"
    by (simp add: task_config_def example_task_def example_research_config_def)
  have m: "metered example_agent_hash example_outside (task_config example_config example_task)"
    unfolding cf by (simp add: metered_def example_outside_def example_research_config_def)
  have d: "dated example_outside" by (simp add: dated_def example_outside_def example_date)
  have t: "en_tools_size example_outside \<le> 10 ^ 8" "ac_task example_config = 2 / 100" by (simp_all add: example_outside_def example_config_def)
  obtain e s c where run: "run_task example_agent_hash example_outside example_config example_task [] Missing = (e, s, c)" by (rule prod_cases3)
  show ?thesis
    using agent_task_stays_in_budget[OF budget_new example_generating(1) m d t(1) run] run t(2) by auto
qed






definition example_cancelled :: outside where
  "example_cancelled = example_outside\<lparr>en_services := (\<lambda>_ _. example_services\<lparr>sv_stopped := (True, True)\<rparr>)\<rparr>"

theorem agent_early_cancel_fails_witness:
  "run_task example_agent_hash example_cancelled example_config example_task [] Missing = (Ended ''FAILED'' ''AGENT_CANCELLED'', Missing, [])"
  by (rule agent_early_cancel_fails[where symbol = "py ''600000''"]) (simp_all add: example_task_def example_symbol example_cancelled_def)

end
