(* ===== verification/Spec2Isabelle.thy ===== *)
theory Spec2Isabelle
  imports Account_Properties Import_Properties Advisory_Properties Price_Properties Promotion_Properties Realtime_Properties Eod_Properties
    Prospective_Properties Contest_Properties Research_Properties Backup_Properties Agent_Properties
begin

text \<open>
  \<^bold>\<open>The A-share quant workbench: a verification development of its deterministic core.\<close>

  The repository is a Python package (\<^verbatim>\<open>src/a_share_quant\<close>) with which one person researches Chinese A shares: it
  imports the fills and positions of a brokerage account, keeps a ledger of the account, takes real-time and end-of-day
  data from several providers, makes forecasts and price plans, checks them against the limits of a portfolio, and promotes
  models on the evidence of predictions whose outcome was not known when they were made.  Every action in the market is
  left to the user.  The theories follow the package; a theory with \<^verbatim>\<open>Properties\<close> in its name holds the claims (C1 to
  C40) about the components that it imports.

  \<^bold>\<open>The Python that the code rests on.\<close>  \<open>Py_Prelude\<close> has exceptions as values (\<open>pyerror\<close>, a result is a sum with
  the error on the left), \<open>bindR\<close>, \<open>foldR\<close> and \<open>mapR\<close> for steps that may raise, strings as lists of code
  points and insertion-ordered dictionaries; \<open>Py_Decimal\<close> the decimal module (finite decimals as the rationals they
  denote, the 28-digit context, \<^verbatim>\<open>quantize\<close>); \<open>Py_Float\<close> floats as a finite rational, an infinity or NaN;
  \<open>Py_Time\<close> dates as ordinals and times as microseconds with an offset; \<open>Py_Text\<close> and \<open>Py_Iso\<close> numbers, dates and times
  as text; \<open>Py_Json\<close> what \<^verbatim>\<open>json.loads\<close> returns and the reads of the \<^verbatim>\<open>from_dict\<close> methods.  SHA-256 of the canonical
  JSON of a value is an argument (\<open>dg\<close>, or a record of \<open>Py_Hashing\<close>) of every definition that uses it.

  \<^bold>\<open>Account\<close> (\<^verbatim>\<open>account/\<close>, \<^verbatim>\<open>market/\<close>, \<^verbatim>\<open>data/normalization.py\<close>).  \<open>Symbols\<close>: security codes.  \<open>Trading_Calendar\<close>:
  the sessions of the exchange, failing closed outside the published year.  \<open>Account_Contracts\<close>: money, fees and fills;
  \<open>Account_Ledger\<close>: the append-only cash account with its settlement on the next session; \<open>Account_Balances\<close>,
  \<open>Account_History\<close> and \<open>Account_Replay\<close> hold the lemmas on its valuation, its log and its reconstruction.
  \<open>Account_Store\<close>: the hash-chained file of \<^verbatim>\<open>account/store.py\<close>.  \<open>Account_Import\<close>, \<open>Account_Inbox\<close>,
  \<open>Account_Snapshots\<close>, \<open>Account_Service\<close>: previews of broker files, the inbox, the snapshot file and the
  confirmation of a preview.  \<open>Keyed_Log\<close> is the contract of an append-only log with keys, a locale that the ledger
  and its file interpret.

  \<^bold>\<open>Advice\<close> (\<^verbatim>\<open>advisory/\<close>).  \<open>Advisory_Contracts\<close> and \<open>Advisory_Store\<close>: forecasts, outcomes and the store that matures
  the ones into the others.  \<open>Advisory_Risk\<close>: the size that the gates of a portfolio leave to a new position.
  \<open>Advisory_Engine\<close>: the ordered gates that turn a forecast into a decision.  \<open>Price_Plan\<close>, \<open>Price_Engine\<close>: frozen
  price plans with their JSON forms, candidate plans, the overlay of the current price and the guidance of a holding.

  \<^bold>\<open>Models\<close> (\<^verbatim>\<open>promotion.py\<close>, \<^verbatim>\<open>research/governance.py\<close>, \<^verbatim>\<open>research/prospective_competition.py\<close>,
  \<^verbatim>\<open>storage/prospective_ledger_store.py\<close>).  \<open>Model_Promotion\<close>: the promotion machine and the champion's governance.
  \<open>Prospective_Contracts\<close>, \<open>Prospective_Outcomes\<close>: predictions and outcomes; \<open>Prospective_Store\<close>: the file that holds
  them, where a write may stop anywhere; \<open>Prospective_Competition\<close>: the admission of predictions, their settlement and the
  contest whose counters lead to an approval.

  \<^bold>\<open>Data\<close> (\<^verbatim>\<open>contracts/\<close>, \<^verbatim>\<open>data/realtime/\<close>, \<^verbatim>\<open>storage/realtime_store.py\<close>, \<^verbatim>\<open>runtime/\<close>).  \<open>Realtime_Quotes\<close>: quotes, bars
  and the checks of their freshness; \<open>Provider_Failover\<close>: discovery of and failover between providers, which are arguments;
  \<open>Realtime_Scheduler\<close>: the store, the sessions of a day and the ticks of the scheduler with its background refresh;
  \<open>Eod_Coordinator\<close>: the end-of-day refresh with its retries, requests and checkpoint.  \<open>Research_Jobs\<close>, \<open>Research_Supervisor\<close>: the
  jobs of the research children, their evidence and checkpoint, and the tick that registers, starts and collects them.

  \<^bold>\<open>Backups\<close> (\<^verbatim>\<open>workbench/backup.py\<close>).  \<open>Crash_Io\<close>: steps on a disk of which each access may work, raise or be the last
  of the process, as a list of faults says, triples over these steps, and the locale of a recovery that can be repeated until it
  returns.  \<open>Backup_Files\<close>: manifests, journals and markers with the checks that reading them makes; \<open>Backup_Manager\<close>: the manager
  that backs up and restores, a restore being a transaction with a journal, snapshots and markers; \<open>Backup_Recovery\<close>: the states
  in which a restore can be stopped, which every step keeps; \<open>Backup_Liveness\<close>: what returns when nothing fails.

  \<^bold>\<open>The agent\<close> (\<^verbatim>\<open>workbench/agent_*.py\<close>, \<^verbatim>\<open>workbench/context_tools.py\<close>).  \<open>Agent_Budget\<close>: the configuration and the ledger of
  reservations; \<open>Agent_Tools\<close>: the evidence of a stock, the gateway that hands it out and the checks of an answer against it;
  \<open>Agent_Runtime\<close>: a task from the gathering of evidence over the requests to the model, which is an argument, to the state it ends in.
  \<open>Agent_Money\<close>, \<open>Agent_Laws\<close> and \<open>Agent_Evidence\<close> hold the invariants: the file in step with the charges, the steps that keep it, and the
  origin of what an answer cites.

  \<^bold>\<open>How the parts interact.\<close>  The inbox gives previews to the service, which confirms them in the ledger and its file; a
  snapshot of the ledger values the account for the gates of the portfolio; forecasts and price plans pass these
  gates in the engine; the scheduler asks the registry of providers for quotes, whose report opens or closes the engine;
  the coordinator refreshes the end-of-day data and finalizes the provisional bars; the supervisor runs the research children on
  that data, one of each resource class; predictions, settled by their outcomes, move
  the counters of a contest, whose approval the governance of the champion records.  A manager of backups keeps copies of the
  files that the others write, and puts all of them back or none.  The agent explains a candidate from the services' rows, the
  calendar and the live quote, and can change nothing but its own budget.

  \<^bold>\<open>The lemmas.\<close>  A component's own lemmas say what its constructors guarantee (\<open>_ok\<close>), that a value read back from
  its JSON form is itself (\<open>_from_to\<close>), and what each operation does to the state on each branch.  The
  properties are invariants of all reachable states (C1, C2, C10, C15, C17, C24, C28, C36), functional and bounds theorems on sizes and
  prices, round trips of ledgers, plans, snapshots and checkpoints, the promotion machine as a refinement of a
  graph (C16), what survives crashes and torn writes (C23, C25, C30 to C32), and what the agent may spend and
  say (C36 to C40).

  \<^bold>\<open>Bounds and fuel.\<close>  Loops over a list are structural.  The search for the next session is bounded by the year of the
  calendar, the retries of a provider and the candidates of a failover are the elements of a list, and the days ahead in
  \<open>future_session\<close> are the horizon; no definition runs out of fuel.

  \<^bold>\<open>Not modelled.\<close>  The texts shown to the user, unless they are stored; paths, locks and their timeouts; the bytes of a
  file below what \<^verbatim>\<open>json.loads\<close> and the CSV reader make of it; the threads of the scheduler, whose steps are interleaved
  explicitly.  Left out entirely are the data providers and vendor adapters (network and DataFrames), the research, backtest,
  feature and signal pipelines (numpy and pandas), the web application with its services (the table of agent tasks, the prompts, the credentials and the web access of the agent included), the DuckDB and parquet stores, configuration files and scripts.  \<^verbatim>\<open>compute_metrics\<close> of the competition is
  float statistics and is not modelled either.
\<close>

end
